(* ===== verification/Prelude.thy ===== *)
theory Prelude
  imports Complex_Main
begin

text \<open>
  What every component shares.

  The backend is TypeScript. An \<open>async\<close> method that reads and writes state and may throw is an
  action \<open>('s, 'a) act\<close>: it takes the state of the world and gives either the thrown value
  (\<open>Inl\<close>) or the returned value (\<open>Inr\<close>), together with the state it leaves behind. State written
  before a throw stays written, as in the source; \<open>transactionA\<close> is the exception, for a database
  transaction, which rolls back. The combinators have the names of what they translate: \<open>bindA\<close> is
  \<open>await\<close> followed by the rest of the body, \<open>throwA\<close> is \<open>throw\<close>, \<open>catchA\<close> is
  \<open>try\<close>/\<open>catch\<close>, \<open>forA\<close> is \<open>for (const x of xs)\<close>.

  Numbers: quantities, counters and time stamps (milliseconds, \<open>Date.now()\<close>) are \<open>int\<close> or \<open>nat\<close>;
  a JavaScript number that may have a fraction is \<open>rat\<close>. Arithmetic on them is exact: the rounding
  of IEEE doubles is not modelled.
\<close>

named_theorems act_simps "evaluation rules of the action combinators"

section \<open>Thrown values\<close>

text \<open>
  \<open>AppException\<close> is the exception class of core/errors/app.exception.ts with its code, message and
  HTTP status; \<open>ForbiddenException\<close> is the framework's class of that name (status 403); \<open>JsError\<close> is
  a plain \<open>Error\<close>; \<open>HttpError\<close> is an \<open>Error\<close> with a \<open>status\<close> property; \<open>FalsyThrow\<close> is a thrown value that is falsy
  (\<open>throw undefined\<close>, \<open>throw ''\<close>), with what \<open>String(err)\<close> prints for it.
\<close>

datatype exn =
    AppException (ex_code: string) (app_message: string) (ex_status: nat)
  | ForbiddenException (forbidden_message: string)
  | JsError (js_message: string)
  | HttpError (http_message: string) (http_status: nat)
  | FalsyThrow (falsy_text: string)

definition errMsg :: "exn \<Rightarrow> string" where
  "errMsg e = (case e of AppException c m st \<Rightarrow> m | ForbiddenException m \<Rightarrow> m | JsError m \<Rightarrow> m
     | HttpError m st \<Rightarrow> m | FalsyThrow t \<Rightarrow> t)"

text \<open>\<open>String(err)\<close>.\<close>

definition show_exn :: "exn \<Rightarrow> string" where
  "show_exn e = (case e of AppException c m st \<Rightarrow> ''AppException: '' @ m | ForbiddenException m \<Rightarrow> ''ForbiddenException: '' @ m
     | JsError m \<Rightarrow> ''Error: '' @ m | HttpError m st \<Rightarrow> ''Error: '' @ m | FalsyThrow t \<Rightarrow> t)"

definition truthy_exn :: "exn \<Rightarrow> bool" where
  "truthy_exn e = (case e of FalsyThrow t \<Rightarrow> False | _ \<Rightarrow> True)"

lemma errMsg_simps [simp]:
  "errMsg (AppException c m st) = m" "errMsg (ForbiddenException m) = m" "errMsg (JsError m) = m"
  "errMsg (HttpError m st) = m" "errMsg (FalsyThrow t) = t"
  by (simp_all add: errMsg_def)

lemma truthy_exn_simps [simp]:
  "truthy_exn (AppException c m st)" "truthy_exn (ForbiddenException m)" "truthy_exn (JsError m)" "truthy_exn (HttpError m st)" "\<not> truthy_exn (FalsyThrow t)"
  by (simp_all add: truthy_exn_def)

section \<open>Strings and optional fields\<close>

text \<open>The arrow the messages contain, as its three UTF-8 bytes.\<close>

definition arrow :: string where
  "arrow = [CHR 0xE2, CHR 0x86, CHR 0x92]"

text \<open>\<open>if (x)\<close> for an optional string: absent, null and the empty string are falsy.\<close>

definition truthy_str :: "string option \<Rightarrow> bool" where
  "truthy_str x = (case x of None \<Rightarrow> False | Some t \<Rightarrow> t \<noteq> [])"

lemma truthy_str_simps [simp]:
  "\<not> truthy_str None" "truthy_str (Some t) = (t \<noteq> [])"
  by (simp_all add: truthy_str_def)

text \<open>\<open>x ?? d\<close>.\<close>

definition nullish :: "'a option \<Rightarrow> 'a \<Rightarrow> 'a" where
  "nullish x d = (case x of None \<Rightarrow> d | Some v \<Rightarrow> v)"

lemma nullish_simps [simp]: "nullish None d = d" "nullish (Some v) d = v"
  by (simp_all add: nullish_def)

text \<open>\<open>String(n)\<close> for a natural number.\<close>

fun show_nat :: "nat \<Rightarrow> string" where
  "show_nat n = (if n < 10 then [char_of (48 + n)]
     else show_nat (n div 10) @ [char_of (48 + n mod 10)])"

declare show_nat.simps [simp del]

text \<open>\<open>Math.round\<close> rounds halves up.\<close>

definition js_round :: "rat \<Rightarrow> int" where
  "js_round x = \<lfloor>x + 1 / 2\<rfloor>"

lemma js_round_of_int [simp]: "js_round (of_int n) = n"
  unfolding js_round_def by linarith

lemma js_round_mono: "x \<le> y \<Longrightarrow> js_round x \<le> js_round y"
  unfolding js_round_def by (rule floor_mono) simp

section \<open>Actions\<close>

type_synonym ('s, 'a) act = "'s \<Rightarrow> (exn + 'a) \<times> 's"

definition returnA :: "'a \<Rightarrow> ('s, 'a) act" where
  "returnA x = (\<lambda>s. (Inr x, s))"

definition throwA :: "exn \<Rightarrow> ('s, 'a) act" where
  "throwA e = (\<lambda>s. (Inl e, s))"

definition ofSum :: "exn + 'a \<Rightarrow> ('s, 'a) act" where
  "ofSum r = (\<lambda>s. (r, s))"

definition bindA :: "('s, 'a) act \<Rightarrow> ('a \<Rightarrow> ('s, 'b) act) \<Rightarrow> ('s, 'b) act" where
  "bindA m f = (\<lambda>s. case m s of (Inl e, t) \<Rightarrow> (Inl e, t) | (Inr x, t) \<Rightarrow> f x t)"

definition readA :: "('s \<Rightarrow> 'a) \<Rightarrow> ('s, 'a) act" where
  "readA f = (\<lambda>s. (Inr (f s), s))"

definition modifyA :: "('s \<Rightarrow> 's) \<Rightarrow> ('s, unit) act" where
  "modifyA f = (\<lambda>s. (Inr (), f s))"

definition catchA :: "('s, 'a) act \<Rightarrow> (exn \<Rightarrow> ('s, 'a) act) \<Rightarrow> ('s, 'a) act" where
  "catchA m h = (\<lambda>s. case m s of (Inl e, t) \<Rightarrow> h e t | (Inr x, t) \<Rightarrow> (Inr x, t))"

definition transactionA :: "('s, 'a) act \<Rightarrow> ('s, 'a) act" where
  "transactionA m = (\<lambda>s. case m s of (Inl e, t) \<Rightarrow> (Inl e, s) | (Inr x, t) \<Rightarrow> (Inr x, t))"

text \<open>\<open>try { m } finally { f }\<close>: a throw of the last part replaces the result.\<close>

definition finallyA :: "('s, 'a) act \<Rightarrow> ('s, unit) act \<Rightarrow> ('s, 'a) act" where
  "finallyA m f = (\<lambda>s. case m s of (r, t) \<Rightarrow> (case f t of (Inl e, u) \<Rightarrow> (Inl e, u) | (Inr _, u) \<Rightarrow> (r, u)))"

fun forA :: "'a list \<Rightarrow> ('a \<Rightarrow> ('s, unit) act) \<Rightarrow> ('s, unit) act" where
  "forA [] f = returnA ()"
| "forA (x # xs) f = bindA (f x) (\<lambda>_. forA xs f)"

text \<open>\<open>if (c) throw e\<close>.\<close>

definition throwIf :: "bool \<Rightarrow> exn \<Rightarrow> ('s, unit) act" where
  "throwIf c e = (if c then throwA e else returnA ())"

lemma returnA_apply [simp, act_simps]: "returnA x s = (Inr x, s)"
  by (simp add: returnA_def)

lemma throwA_apply [simp, act_simps]: "throwA e s = (Inl e, s)"
  by (simp add: throwA_def)

lemma ofSum_apply [simp, act_simps]: "ofSum r s = (r, s)"
  by (simp add: ofSum_def)

lemma readA_apply [simp, act_simps]: "readA f s = (Inr (f s), s)"
  by (simp add: readA_def)

lemma modifyA_apply [simp, act_simps]: "modifyA f s = (Inr (), f s)"
  by (simp add: modifyA_def)

lemma throwIf_apply [simp, act_simps]: "throwIf c e s = (if c then (Inl e, s) else (Inr (), s))"
  by (simp add: throwIf_def)

lemma bindA_Inr [simp]: "m s = (Inr x, t) \<Longrightarrow> bindA m f s = f x t"
  by (simp add: bindA_def)

lemma bindA_Inl [simp]: "m s = (Inl e, t) \<Longrightarrow> bindA m f s = (Inl e, t)"
  by (simp add: bindA_def)

lemma catchA_Inr [simp]: "m s = (Inr x, t) \<Longrightarrow> catchA m h s = (Inr x, t)"
  by (simp add: catchA_def)

lemma catchA_Inl [simp]: "m s = (Inl e, t) \<Longrightarrow> catchA m h s = h e t"
  by (simp add: catchA_def)

lemma transactionA_Inr [simp]: "m s = (Inr x, t) \<Longrightarrow> transactionA m s = (Inr x, t)"
  by (simp add: transactionA_def)

lemma transactionA_Inl [simp]: "m s = (Inl e, t) \<Longrightarrow> transactionA m s = (Inl e, s)"
  by (simp add: transactionA_def)

text \<open>Inversion: what a finished action was made of.\<close>

lemma bindA_eq_Inr:
  "bindA m f s = (Inr y, u) \<longleftrightarrow> (\<exists>x t. m s = (Inr x, t) \<and> f x t = (Inr y, u))"
  by (auto simp: bindA_def split: prod.splits sum.splits)

lemma bindA_eq_Inl:
  "bindA m f s = (Inl e, u) \<longleftrightarrow>
     m s = (Inl e, u) \<or> (\<exists>x t. m s = (Inr x, t) \<and> f x t = (Inl e, u))"
  by (auto simp: bindA_def split: prod.splits sum.splits)

lemma bindA_InrE:
  assumes "bindA m f s = (Inr y, u)"
  obtains x t where "m s = (Inr x, t)" "f x t = (Inr y, u)"
  using assms by (auto simp: bindA_eq_Inr)

lemma transactionA_eq_Inr: "transactionA m s = (Inr x, t) \<longleftrightarrow> m s = (Inr x, t)"
  by (auto simp: transactionA_def split: prod.splits sum.splits)

lemma transactionA_error_unchanged:
  assumes "transactionA m s = (Inl e, t)"
  shows "t = s"
  using assms by (auto simp: transactionA_def split: prod.splits sum.splits)

lemma throwIf_eq_Inr: "throwIf c e s = (Inr u, t) \<longleftrightarrow> \<not> c \<and> t = s"
  by (auto simp: throwIf_def)

lemmas act_inv = bindA_eq_Inr bindA_eq_Inl transactionA_eq_Inr throwIf_eq_Inr

lemma bindA_assoc: "bindA (bindA m f) g = bindA m (\<lambda>x. bindA (f x) g)"
  by (rule ext) (auto simp: bindA_def split: prod.splits sum.splits)

text \<open>
  Weakest preconditions: \<open>wp m s Q E\<close> says that \<open>m\<close> started in \<open>s\<close> either returns with \<open>Q\<close> or
  throws with \<open>E\<close>. The rules are equations, so the simplifier computes the condition of a body.
\<close>

definition wp :: "('s, 'a) act \<Rightarrow> 's \<Rightarrow> ('a \<Rightarrow> 's \<Rightarrow> bool) \<Rightarrow> (exn \<Rightarrow> 's \<Rightarrow> bool) \<Rightarrow> bool" where
  "wp m s Q E = (case m s of (Inl e, t) \<Rightarrow> E e t | (Inr x, t) \<Rightarrow> Q x t)"

abbreviation ok :: "('s, 'a) act \<Rightarrow> 's \<Rightarrow> ('a \<Rightarrow> 's \<Rightarrow> bool) \<Rightarrow> bool" where
  "ok m s Q \<equiv> wp m s Q (\<lambda>_ _. False)"

lemma wp_returnA [simp]: "wp (returnA x) s Q E = Q x s"
  by (simp add: wp_def)

lemma wp_Pair [simp]: "wp (Pair (Inr x)) s Q E = Q x s"
  by (simp add: wp_def)

lemma wp_throwA [simp]: "wp (throwA e) s Q E = E e s"
  by (simp add: wp_def)

lemma wp_ofSum [simp]: "wp (ofSum r) s Q E = (case r of Inl e \<Rightarrow> E e s | Inr x \<Rightarrow> Q x s)"
  by (simp add: wp_def split: sum.splits)

lemma wp_readA [simp]: "wp (readA f) s Q E = Q (f s) s"
  by (simp add: wp_def)

lemma wp_modifyA [simp]: "wp (modifyA g) s Q E = Q () (g s)"
  by (simp add: wp_def)

lemma wp_throwIf [simp]: "wp (throwIf c e) s Q E = (if c then E e s else Q () s)"
  by (simp add: wp_def)

lemma wp_bindA [simp]: "wp (bindA m f) s Q E = wp m s (\<lambda>x t. wp (f x) t Q E) E"
  by (auto simp: wp_def bindA_def split: prod.splits sum.splits)

lemma wp_catchA [simp]: "wp (catchA m h) s Q E = wp m s Q (\<lambda>e t. wp (h e) t Q E)"
  by (auto simp: wp_def catchA_def split: prod.splits sum.splits)

lemma wp_transactionA [simp]: "wp (transactionA m) s Q E = wp m s Q (\<lambda>e t. E e s)"
  by (auto simp: wp_def transactionA_def split: prod.splits sum.splits)

lemma wp_finallyA [simp]:
  "wp (finallyA m f) s Q E = wp m s (\<lambda>x t. wp f t (\<lambda>_ u. Q x u) E) (\<lambda>e t. wp f t (\<lambda>_ u. E e u) E)"
  by (auto simp: wp_def finallyA_def split: prod.splits sum.splits)

lemma wp_if [simp]: "wp (if c then m else n) s Q E = (if c then wp m s Q E else wp n s Q E)"
  by simp

lemma wp_let [simp]: "wp (let x = a in f x) s Q E = wp (f a) s Q E"
  by simp

lemma wp_case_option [simp]:
  "wp (case x of None \<Rightarrow> m | Some y \<Rightarrow> f y) s Q E = (case x of None \<Rightarrow> wp m s Q E | Some y \<Rightarrow> wp (f y) s Q E)"
  by (simp split: option.split)

lemma wp_mono:
  "wp m s Q E \<Longrightarrow> (\<And>x t. Q x t \<Longrightarrow> Q' x t) \<Longrightarrow> (\<And>e t. E e t \<Longrightarrow> E' e t) \<Longrightarrow> wp m s Q' E'"
  by (auto simp: wp_def split: prod.splits sum.splits)

lemma wp_bindI:
  "wp m s R F \<Longrightarrow> (\<And>x t. R x t \<Longrightarrow> wp (f x) t Q E) \<Longrightarrow> (\<And>e t. F e t \<Longrightarrow> E e t) \<Longrightarrow> wp (bindA m f) s Q E"
  unfolding wp_bindA by (erule wp_mono)

lemma wp_bind_readI: "wp (f (g s)) s Q E \<Longrightarrow> wp (bindA (readA g) f) s Q E"
  by simp

lemma wp_bind_throwIfI: "(c \<Longrightarrow> E e s) \<Longrightarrow> (\<not> c \<Longrightarrow> wp (f ()) s Q E) \<Longrightarrow> wp (bindA (throwIf c e) f) s Q E"
  by simp

lemma wp_conj: "wp m s Q E \<Longrightarrow> wp m s Q' E' \<Longrightarrow> wp m s (\<lambda>x t. Q x t \<and> Q' x t) (\<lambda>e t. E e t \<and> E' e t)"
  by (auto simp: wp_def split: prod.splits sum.splits)

lemma wpI_Inr: "m s = (Inr x, t) \<Longrightarrow> Q x t \<Longrightarrow> wp m s Q E"
  by (simp add: wp_def)

lemma wpI_Inl: "m s = (Inl e, t) \<Longrightarrow> E e t \<Longrightarrow> wp m s Q E"
  by (simp add: wp_def)

lemma okD: "ok m s Q \<Longrightarrow> \<exists>x t. m s = (Inr x, t) \<and> Q x t"
  by (auto simp: wp_def split: prod.splits sum.splits)

lemma wp_Inr: "wp m s Q E \<Longrightarrow> m s = (Inr x, t) \<Longrightarrow> Q x t"
  by (simp add: wp_def)

lemma wp_Inl: "wp m s Q E \<Longrightarrow> m s = (Inl e, t) \<Longrightarrow> E e t"
  by (simp add: wp_def)

text \<open>
  An invariant of the state that every action of a loop body keeps is kept by the loop, whether it
  finishes or throws.
\<close>

definition keeps :: "('s \<Rightarrow> bool) \<Rightarrow> ('s, 'a) act \<Rightarrow> bool" where
  "keeps P m \<longleftrightarrow> (\<forall>s. P s \<longrightarrow> P (snd (m s)))"

lemma keepsI [intro?]: "(\<And>s. P s \<Longrightarrow> P (snd (m s))) \<Longrightarrow> keeps P m"
  by (simp add: keeps_def)

lemma keeps_wp: "keeps P m \<longleftrightarrow> (\<forall>s. P s \<longrightarrow> wp m s (\<lambda>_. P) (\<lambda>_. P))"
  by (auto simp: keeps_def wp_def split: prod.splits sum.splits) (metis surj_pair snd_conv)

lemma keepsD: "keeps P m \<Longrightarrow> m s = (r, t) \<Longrightarrow> P s \<Longrightarrow> P t"
  by (metis keeps_def snd_conv)

lemma keeps_returnA [intro, simp]: "keeps P (returnA x)"
  by (simp add: keeps_def)

lemma keeps_throwA [intro, simp]: "keeps P (throwA e)"
  by (simp add: keeps_def)

lemma keeps_throwIf [intro, simp]: "keeps P (throwIf c e)"
  by (simp add: keeps_def)

lemma keeps_readA [intro, simp]: "keeps P (readA f)"
  by (simp add: keeps_def)

lemma keeps_modifyA: "(\<And>s. P s \<Longrightarrow> P (f s)) \<Longrightarrow> keeps P (modifyA f)"
  by (simp add: keeps_def)

lemma keeps_bindA [intro]: "keeps P m \<Longrightarrow> (\<And>x. keeps P (f x)) \<Longrightarrow> keeps P (bindA m f)"
  by (auto simp: keeps_def bindA_def split: prod.splits sum.splits)

lemma keeps_catchA [intro]: "keeps P m \<Longrightarrow> (\<And>e. keeps P (h e)) \<Longrightarrow> keeps P (catchA m h)"
  by (auto simp: keeps_def catchA_def split: prod.splits sum.splits)

lemma keeps_transactionA [intro]: "keeps P m \<Longrightarrow> keeps P (transactionA m)"
  by (auto simp: keeps_def transactionA_def split: prod.splits sum.splits)

lemma keeps_finallyA [intro]: "keeps P m \<Longrightarrow> keeps P f \<Longrightarrow> keeps P (finallyA m f)"
  by (auto simp: keeps_def finallyA_def split: prod.splits sum.splits)

lemma keeps_forA: "(\<And>x. x \<in> set xs \<Longrightarrow> keeps P (f x)) \<Longrightarrow> keeps P (forA xs f)"
  by (induction xs) auto

lemmas keeps_intros = keeps_returnA keeps_throwA keeps_throwIf keeps_readA keeps_bindA
  keeps_catchA keeps_transactionA keeps_forA

text \<open>A part of the state that an action never changes, however it ends.\<close>

definition preserves :: "('s \<Rightarrow> 'p) \<Rightarrow> ('s, 'a) act \<Rightarrow> bool" where
  "preserves f m \<longleftrightarrow> (\<forall>s. f (snd (m s)) = f s)"

lemma preserves_returnA [intro, simp]: "preserves f (returnA x)"
  by (simp add: preserves_def)

lemma preserves_throwA [intro, simp]: "preserves f (throwA e)"
  by (simp add: preserves_def)

lemma preserves_throwIf [intro, simp]: "preserves f (throwIf c e)"
  by (simp add: preserves_def)

lemma preserves_readA [intro, simp]: "preserves f (readA g)"
  by (simp add: preserves_def)

lemma preserves_modifyA: "(\<And>s. f (g s) = f s) \<Longrightarrow> preserves f (modifyA g)"
  by (simp add: preserves_def)

lemma preserves_bindA [intro]: "preserves f m \<Longrightarrow> (\<And>x. preserves f (g x)) \<Longrightarrow> preserves f (bindA m g)"
  by (auto simp: preserves_def bindA_def split: prod.splits sum.splits) (metis snd_conv)+

lemma preserves_finallyA [intro]: "preserves f m \<Longrightarrow> preserves f g \<Longrightarrow> preserves f (finallyA m g)"
  by (auto simp: preserves_def finallyA_def split: prod.splits sum.splits) (metis snd_conv)+

lemma preserves_transactionA [intro]: "preserves f m \<Longrightarrow> preserves f (transactionA m)"
  by (auto simp: preserves_def transactionA_def split: prod.splits sum.splits) (metis snd_conv)

lemma preserves_forA: "(\<And>x. x \<in> set xs \<Longrightarrow> preserves f (g x)) \<Longrightarrow> preserves f (forA xs g)"
  by (induction xs) auto

lemma preserves_case_option [intro]:
  "preserves f m \<Longrightarrow> (\<And>y. preserves f (g y)) \<Longrightarrow> preserves f (case x of None \<Rightarrow> m | Some y \<Rightarrow> g y)"
  by (cases x) auto

lemma preserves_wp: "preserves f m \<Longrightarrow> wp m s (\<lambda>_ t. f t = f s) (\<lambda>_ t. f t = f s)"
  by (auto simp: preserves_def wp_def split: prod.splits sum.splits) (metis snd_conv)+

lemma preserves_wpI:
  assumes "preserves f m" "\<And>x t. f t = f s \<Longrightarrow> Q x t" "\<And>e t. f t = f s \<Longrightarrow> E e t"
  shows "wp m s Q E"
  by (rule wp_mono [OF preserves_wp [OF assms(1)]]) (simp_all add: assms(2,3))

lemma preserves_keeps: "preserves f m \<Longrightarrow> (\<And>s t. f t = f s \<Longrightarrow> P s \<Longrightarrow> P t) \<Longrightarrow> keeps P m"
  unfolding preserves_def keeps_def by blast

section \<open>Lists\<close>

text \<open>Association lists stand for object literals, whose keys keep their order.\<close>

lemma map_of_eq_Some_in_keys: "map_of xs k = Some v \<Longrightarrow> k \<in> fst ` set xs"
  by (force dest: map_of_SomeD)

lemma sum_list_map_update:
  fixes f :: "'a \<Rightarrow> int"
  assumes "i < length xs"
  shows "sum_list (map f (xs[i := y])) = sum_list (map f xs) - f (xs ! i) + f y"
  using assms by (induction xs arbitrary: i) (auto split: nat.splits)

text \<open>
  Tables are lists of rows: \<open>update_where\<close> is an UPDATE of the rows with a key, and a lookup by
  another condition sees it.
\<close>

definition update_where :: "('r \<Rightarrow> bool) \<Rightarrow> ('r \<Rightarrow> 'r) \<Rightarrow> 'r list \<Rightarrow> 'r list" where
  "update_where p f rows = map (\<lambda>x. if p x then f x else x) rows"

lemma find_update_where:
  assumes "\<And>x. q (f x) = q x"
  shows "find q (update_where p f rows) = map_option (\<lambda>x. if p x then f x else x) (find q rows)"
  unfolding update_where_def by (induction rows) (auto simp: assms)

lemma find_filter_some: "find p xs = Some x \<Longrightarrow> p x \<and> x \<in> set xs"
  by (auto simp: find_Some_iff)

lemma find_weaken: "find q xs = Some x \<Longrightarrow> (\<And>y. q y \<Longrightarrow> p y) \<Longrightarrow> \<exists>y. find p xs = Some y"
  by (induction xs) (auto split: if_splits)

section \<open>The database client\<close>

text \<open>
  Prisma reports a failed statement by an error with a code: P2025 when no row matches, P2003 when a
  foreign key has no row, P2002 when a unique key is taken.
\<close>

definition prisma_error :: "string \<Rightarrow> exn" where
  "prisma_error code = JsError (''PrismaClientKnownRequestError '' @ code)"

definition row_or_throw :: "'r option \<Rightarrow> ('s, 'r) act" where
  "row_or_throw x = (case x of None \<Rightarrow> throwA (prisma_error ''P2025'') | Some r \<Rightarrow> returnA r)"

text \<open>A foreign key: absent, or the id of an existing row.\<close>

definition fk_ok :: "string option \<Rightarrow> string list \<Rightarrow> bool" where
  "fk_ok x ids = (case x of None \<Rightarrow> True | Some i \<Rightarrow> i \<in> set ids)"

text \<open>An absent column in an update leaves the old value.\<close>

definition upd_by :: "string option \<Rightarrow> string option \<Rightarrow> string option" where
  "upd_by actor old = (case actor of None \<Rightarrow> old | Some a \<Rightarrow> Some a)"

lemma wp_row_or_throw [simp]:
  "wp (row_or_throw x) w Q E = (case x of None \<Rightarrow> E (prisma_error ''P2025'') w | Some r \<Rightarrow> Q r w)"
  by (simp add: row_or_throw_def split: option.split)

end
