(* ===== verification/State_Machine.thy ===== *)
theory State_Machine
  imports Prelude
begin

text \<open>
  The shared lifecycle engine (shared/state-machine) and the lifecycle graphs the modules hand to
  it: shipment, return, RMA, warranty claim, service ticket, reverse shipment and return-to-origin.
  An object literal \<open>transitions\<close> is an association list from a status to its targets. Hooks are
  actions on the state of the caller; the logger and the event publisher, which do not throw, are
  functions on that state, collected in the environment record.
\<close>

section \<open>Definitions and options (state-machine.types.ts)\<close>

type_synonym status = string
type_synonym transition_map = "(status \<times> status list) list"

record state_machine_definition =
  sm_name :: string
  transitions :: transition_map
  allowSameState :: "bool option"

record 'm transition_context =
  ctx_machine :: string
  ctx_entityId :: string
  ctx_from :: status
  ctx_to :: status
  ctx_actorId :: "string option"
  ctx_reason :: "string option"
  ctx_metadata :: "'m option"

type_synonym ('s, 'm) transition_hook = "'m transition_context \<Rightarrow> ('s, unit) act"

record ('s, 'm, 'a) transition_options =
  opt_entityId :: string
  opt_from :: status
  opt_to :: status
  opt_actorId :: "string option"
  opt_reason :: "string option"
  opt_metadata :: "'m option"
  opt_before :: "('s, 'm) transition_hook option"
  opt_apply :: "'m transition_context \<Rightarrow> ('s, 'a) act"
  opt_audit :: "('s, 'm) transition_hook option"
  opt_after :: "('s, 'm) transition_hook option"
  opt_silent :: "bool option"

record 'a transition_result =
  res_from :: status
  res_to :: status
  res_skipped :: bool
  res_result :: "'a option"

text \<open>
  What the engine calls besides the hooks: \<open>logger.debug\<close> with its text, \<open>logger.log\<close> with the
  context it serialises and the correlation id, and \<open>publishFireAndForget\<close> with the payload of a
  \<open>StateTransitionedEvent\<close> (the context and \<open>skipped\<close>).
\<close>

record ('s, 'm) engine_env =
  logger_debug :: "string \<Rightarrow> 's \<Rightarrow> 's"
  logger_log :: "'m transition_context \<Rightarrow> string option \<Rightarrow> 's \<Rightarrow> 's"
  publish_event :: "'m transition_context \<Rightarrow> bool \<Rightarrow> 's \<Rightarrow> 's"
  correlation :: "'s \<Rightarrow> string option"

section \<open>The engine (state-machine.engine.ts)\<close>

definition allowedTargets :: "state_machine_definition \<Rightarrow> status \<Rightarrow> status list" where
  "allowedTargets d from = nullish (map_of (transitions d) from) []"

definition canTransition :: "state_machine_definition \<Rightarrow> status \<Rightarrow> status \<Rightarrow> bool" where
  "canTransition d from to =
     (if from = to then allowSameState d = Some True
      else to \<in> set (nullish (map_of (transitions d) from) []))"

definition invalid_transition :: "string \<Rightarrow> status \<Rightarrow> status \<Rightarrow> exn" where
  "invalid_transition name from to =
     AppException ''CONFLICT''
       (''Invalid '' @ name @ '' transition '' @ from @ '' '' @ arrow @ '' '' @ to) 409"

definition assertTransition ::
  "state_machine_definition \<Rightarrow> status \<Rightarrow> status \<Rightarrow> ('s, unit) act" where
  "assertTransition d from to =
     (if canTransition d from to then returnA ()
      else throwA (invalid_transition (sm_name d) from to))"

definition run_hook :: "('s, 'm) transition_hook option \<Rightarrow> 'm transition_context \<Rightarrow> ('s, unit) act" where
  "run_hook h ctx = (case h of None \<Rightarrow> returnA () | Some f \<Rightarrow> f ctx)"

definition make_ctx ::
  "state_machine_definition \<Rightarrow> ('s, 'm, 'a) transition_options \<Rightarrow> 'm transition_context" where
  "make_ctx d opts =
     \<lparr>ctx_machine = sm_name d, ctx_entityId = opt_entityId opts, ctx_from = opt_from opts,
      ctx_to = opt_to opts, ctx_actorId = opt_actorId opts, ctx_reason = opt_reason opts,
      ctx_metadata = opt_metadata opts\<rparr>"

definition transition ::
  "('s, 'm) engine_env \<Rightarrow> state_machine_definition \<Rightarrow> ('s, 'm, 'a) transition_options
     \<Rightarrow> ('s, 'a transition_result) act" where
  "transition env d opts =
     bindA (assertTransition d (opt_from opts) (opt_to opts)) (\<lambda>_.
     let ctx = make_ctx d opts in
     if opt_from opts = opt_to opts \<and> allowSameState d = Some True then
       bindA (modifyA (logger_debug env
                (sm_name d @ '' '' @ opt_entityId opts @ '' already '' @ opt_to opts @ '' (noop)''))) (\<lambda>_.
       returnA \<lparr>res_from = opt_from opts, res_to = opt_to opts, res_skipped = True, res_result = None\<rparr>)
     else
       bindA (run_hook (opt_before opts) ctx) (\<lambda>_.
       bindA (opt_apply opts ctx) (\<lambda>result.
       bindA (readA (correlation env)) (\<lambda>corr.
       bindA (modifyA (logger_log env ctx corr)) (\<lambda>_.
       bindA (run_hook (opt_audit opts) ctx) (\<lambda>_.
       bindA (if opt_silent opts = Some True then returnA ()
              else modifyA (publish_event env ctx False)) (\<lambda>_.
       bindA (run_hook (opt_after opts) ctx) (\<lambda>_.
       returnA \<lparr>res_from = opt_from opts, res_to = opt_to opts, res_skipped = False,
                res_result = Some result\<rparr>))))))))"

section \<open>The lifecycle graphs\<close>

definition shipmentStateMachine :: state_machine_definition where
  "shipmentStateMachine = \<lparr>sm_name = ''shipment'',
     transitions =
      [(''created'', [''packed'', ''cancelled'']),
       (''packed'', [''dispatched'', ''cancelled'']),
       (''dispatched'', [''in_transit'', ''cancelled'', ''lost'', ''damaged'']),
       (''in_transit'', [''out_for_delivery'', ''delivered'', ''delivery_failed'', ''returned'',
                         ''lost'', ''damaged'', ''cancelled'']),
       (''out_for_delivery'', [''delivered'', ''delivery_failed'', ''returned'', ''lost'', ''damaged'']),
       (''delivered'', []),
       (''delivery_failed'', [''out_for_delivery'', ''returned'', ''cancelled'']),
       (''returned'', []), (''lost'', []), (''damaged'', []), (''cancelled'', [])],
     allowSameState = Some True\<rparr>"

definition returnStateMachine :: state_machine_definition where
  "returnStateMachine = \<lparr>sm_name = ''return'',
     transitions =
      [(''requested'', [''approved'', ''rejected'']),
       (''approved'', [''picked_up'', ''rejected'']),
       (''rejected'', []),
       (''picked_up'', [''received'']),
       (''received'', [''inspection'']),
       (''inspection'', [''refunded'', ''completed'', ''rejected'']),
       (''refunded'', [''completed'']),
       (''completed'', [])],
     allowSameState = Some True\<rparr>"

definition rmaStateMachine :: state_machine_definition where
  "rmaStateMachine = \<lparr>sm_name = ''rma'',
     transitions =
      [(''requested'', [''approved'', ''rejected'', ''cancelled'']),
       (''approved'', [''in_transit'', ''cancelled'']),
       (''in_transit'', [''received'', ''cancelled'']),
       (''received'', [''completed'', ''rejected'']),
       (''completed'', []), (''rejected'', []), (''cancelled'', [])],
     allowSameState = Some True\<rparr>"

definition warrantyClaimStateMachine :: state_machine_definition where
  "warrantyClaimStateMachine = \<lparr>sm_name = ''warranty_claim'',
     transitions =
      [(''submitted'', [''under_review'', ''cancelled'']),
       (''under_review'', [''approved'', ''rejected'', ''cancelled'']),
       (''approved'', [''in_service'', ''cancelled'']),
       (''rejected'', []),
       (''in_service'', [''closed'', ''cancelled'']),
       (''closed'', []), (''cancelled'', [])],
     allowSameState = Some True\<rparr>"

definition serviceTicketStateMachine :: state_machine_definition where
  "serviceTicketStateMachine = \<lparr>sm_name = ''service_ticket'',
     transitions =
      [(''created'', [''assigned'', ''cancelled'']),
       (''assigned'', [''diagnosis'', ''cancelled'']),
       (''diagnosis'', [''waiting_for_parts'', ''repair_in_progress'', ''cancelled'']),
       (''waiting_for_parts'', [''repair_in_progress'', ''cancelled'']),
       (''repair_in_progress'', [''testing'', ''cancelled'']),
       (''testing'', [''quality_check'', ''repair_in_progress'', ''cancelled'']),
       (''quality_check'', [''ready_for_pickup'', ''repair_in_progress'', ''cancelled'']),
       (''ready_for_pickup'', [''delivered'', ''cancelled'']),
       (''delivered'', [''closed'']),
       (''closed'', []), (''cancelled'', [])],
     allowSameState = Some True\<rparr>"

definition reverseShipmentStateMachine :: state_machine_definition where
  "reverseShipmentStateMachine = \<lparr>sm_name = ''reverse_shipment'',
     transitions =
      [(''requested'', [''scheduled'', ''cancelled'']),
       (''scheduled'', [''picked_up'', ''cancelled'', ''failed'']),
       (''picked_up'', [''in_transit'', ''failed'']),
       (''in_transit'', [''received'', ''failed'']),
       (''received'', []), (''cancelled'', []),
       (''failed'', [''requested''])],
     allowSameState = Some True\<rparr>"

definition rtoStateMachine :: state_machine_definition where
  "rtoStateMachine = \<lparr>sm_name = ''rto'',
     transitions =
      [(''initiated'', [''in_transit'', ''cancelled'']),
       (''in_transit'', [''received'', ''cancelled'']),
       (''received'', [''closed'']),
       (''closed'', []), (''cancelled'', [])],
     allowSameState = Some True\<rparr>"

lemmas machine_defs = shipmentStateMachine_def returnStateMachine_def rmaStateMachine_def
  warrantyClaimStateMachine_def serviceTicketStateMachine_def reverseShipmentStateMachine_def
  rtoStateMachine_def

section \<open>Runs of a lifecycle\<close>

text \<open>
  \<open>lifecycle_path\<close>: the lists of statuses an entity can go through when every change is a
  transition the engine accepts between two different statuses.
\<close>

inductive lifecycle_path :: "transition_map \<Rightarrow> status \<Rightarrow> status list \<Rightarrow> status \<Rightarrow> bool"
  for T :: transition_map where
  path_nil: "lifecycle_path T s [] s"
| path_step: "u \<in> set (nullish (map_of T s) []) \<Longrightarrow> lifecycle_path T u us v
     \<Longrightarrow> lifecycle_path T s (u # us) v"

inductive_simps lifecycle_path_Nil [simp]: "lifecycle_path T s [] v"
inductive_simps lifecycle_path_Cons [simp]: "lifecycle_path T s (u # us) v"

definition statuses :: "transition_map \<Rightarrow> status list" where
  "statuses T = map fst T"

definition terminal :: "transition_map \<Rightarrow> status \<Rightarrow> bool" where
  "terminal T s \<longleftrightarrow> nullish (map_of T s) [] = []"

text \<open>\<open>finishing n T s\<close>: some path of at most \<open>n\<close> steps from \<open>s\<close> ends in a terminal status.\<close>

fun finishing :: "nat \<Rightarrow> transition_map \<Rightarrow> status \<Rightarrow> bool" where
  "finishing 0 T s = terminal T s"
| "finishing (Suc n) T s = (terminal T s \<or> list_ex (finishing n T) (nullish (map_of T s) []))"

lemma finishing_path:
  "finishing n T s \<Longrightarrow> \<exists>us v. length us \<le> n \<and> lifecycle_path T s us v \<and> terminal T v"
proof (induction n arbitrary: s)
  case 0
  then show ?case by auto
next
  case (Suc n)
  show ?case
  proof (cases "terminal T s")
    case True
    moreover have "lifecycle_path T s [] s" by simp
    ultimately show ?thesis by (metis le0 list.size(3))
  next
    case False
    then obtain u where u: "u \<in> set (nullish (map_of T s) [])" "finishing n T u"
      using Suc.prems by (auto simp: list_ex_iff)
    with Suc.IH obtain us v where "length us \<le> n" "lifecycle_path T u us v" "terminal T v"
      by blast
    with u show ?thesis by (intro exI [of _ "u # us"] exI [of _ v]) auto
  qed
qed

text \<open>
  What the engine's clients rely on in a graph they hand to it: no key is given twice, every
  target is a declared status, and from every status a terminal one can be reached.
\<close>

locale lifecycle =
  fixes T :: transition_map
  assumes distinct_statuses: "distinct (statuses T)"
    and targets_declared: "(s, ts) \<in> set T \<Longrightarrow> set ts \<subseteq> set (statuses T)"
    and finishes: "s \<in> set (statuses T) \<Longrightarrow> finishing (length T) T s"
begin

lemma targets_of: "u \<in> set (nullish (map_of T s) []) \<Longrightarrow> u \<in> set (statuses T)"
  using targets_declared by (cases "map_of T s") (auto dest: map_of_SomeD)

lemma path_declared:
  "lifecycle_path T s us v \<Longrightarrow> s \<in> set (statuses T) \<Longrightarrow> set us \<subseteq> set (statuses T) \<and> v \<in> set (statuses T)"
  by (induction rule: lifecycle_path.induct) (auto dest: targets_of)

lemma terminal_absorbing: "lifecycle_path T s us v \<Longrightarrow> terminal T s \<Longrightarrow> us = [] \<and> v = s"
  by (erule lifecycle_path.cases) (auto simp: terminal_def)

lemma can_finish:
  assumes "lifecycle_path T s us v" "s \<in> set (statuses T)"
  shows "\<exists>ws w. length ws \<le> length T \<and> lifecycle_path T v ws w \<and> terminal T w"
  using finishing_path finishes path_declared [OF assms] by blast

end

text \<open>The graphs the modules pass to the engine.\<close>

definition shared_machines :: "state_machine_definition list" where
  "shared_machines = [shipmentStateMachine, returnStateMachine, rmaStateMachine,
     warrantyClaimStateMachine, serviceTicketStateMachine, reverseShipmentStateMachine,
     rtoStateMachine]"

definition lifecycle_check :: "transition_map \<Rightarrow> bool" where
  "lifecycle_check T \<longleftrightarrow> distinct (statuses T)
     \<and> list_all (\<lambda>(s, ts). list_all (\<lambda>t. t \<in> set (statuses T)) ts) T
     \<and> list_all (finishing (length T) T) (statuses T)"

lemma lifecycle_checkI: "lifecycle_check T \<Longrightarrow> lifecycle T"
  by unfold_locales (auto simp: lifecycle_check_def list_all_iff)

lemma shipment_check: "lifecycle_check (transitions shipmentStateMachine)" by code_simp
lemma return_check: "lifecycle_check (transitions returnStateMachine)" by code_simp
lemma rma_check: "lifecycle_check (transitions rmaStateMachine)" by code_simp
lemma warranty_claim_check: "lifecycle_check (transitions warrantyClaimStateMachine)" by code_simp
lemma service_ticket_check: "lifecycle_check (transitions serviceTicketStateMachine)" by code_simp
lemma reverse_shipment_check: "lifecycle_check (transitions reverseShipmentStateMachine)" by code_simp
lemma rto_check: "lifecycle_check (transitions rtoStateMachine)" by code_simp

interpretation shipment: lifecycle "transitions shipmentStateMachine"
  by (rule lifecycle_checkI [OF shipment_check])

interpretation ret: lifecycle "transitions returnStateMachine"
  by (rule lifecycle_checkI [OF return_check])

interpretation rma: lifecycle "transitions rmaStateMachine"
  by (rule lifecycle_checkI [OF rma_check])

interpretation claim: lifecycle "transitions warrantyClaimStateMachine"
  by (rule lifecycle_checkI [OF warranty_claim_check])

interpretation ticket: lifecycle "transitions serviceTicketStateMachine"
  by (rule lifecycle_checkI [OF service_ticket_check])

interpretation reverse: lifecycle "transitions reverseShipmentStateMachine"
  by (rule lifecycle_checkI [OF reverse_shipment_check])

interpretation rto: lifecycle "transitions rtoStateMachine"
  by (rule lifecycle_checkI [OF rto_check])

lemma shared_machine_lifecycle: "d \<in> set shared_machines \<Longrightarrow> lifecycle (transitions d)"
  using shipment.lifecycle_axioms ret.lifecycle_axioms rma.lifecycle_axioms claim.lifecycle_axioms
    ticket.lifecycle_axioms reverse.lifecycle_axioms rto.lifecycle_axioms
  by (auto simp: shared_machines_def)

lemma canTransition_iff:
  "canTransition d s t \<longleftrightarrow> (s = t \<and> allowSameState d = Some True) \<or> (s \<noteq> t \<and> t \<in> set (allowedTargets d s))"
  by (auto simp: canTransition_def allowedTargets_def)

section \<open>What a transition does\<close>

lemma transition_illegal:
  "\<not> canTransition d (opt_from opts) (opt_to opts) \<Longrightarrow>
     transition env d opts s = (Inl (invalid_transition (sm_name d) (opt_from opts) (opt_to opts)), s)"
  by (simp add: transition_def assertTransition_def)

lemma transition_same:
  "canTransition d (opt_from opts) (opt_to opts) \<Longrightarrow> opt_from opts = opt_to opts \<Longrightarrow>
     transition env d opts s =
       (Inr \<lparr>res_from = opt_from opts, res_to = opt_to opts, res_skipped = True, res_result = None\<rparr>,
        logger_debug env (sm_name d @ '' '' @ opt_entityId opts @ '' already '' @ opt_to opts
          @ '' (noop)'') s)"
  by (simp add: transition_def assertTransition_def canTransition_def)

lemma transition_proper:
  "canTransition d (opt_from opts) (opt_to opts) \<Longrightarrow> opt_from opts \<noteq> opt_to opts \<Longrightarrow>
     transition env d opts =
       (let ctx = make_ctx d opts in
       bindA (run_hook (opt_before opts) ctx) (\<lambda>_.
       bindA (opt_apply opts ctx) (\<lambda>result.
       bindA (\<lambda>s. modifyA (logger_log env ctx (correlation env s)) s) (\<lambda>_.
       bindA (run_hook (opt_audit opts) ctx) (\<lambda>_.
       bindA (if opt_silent opts = Some True then returnA ()
              else modifyA (publish_event env ctx False)) (\<lambda>_.
       bindA (run_hook (opt_after opts) ctx) (\<lambda>_.
       returnA \<lparr>res_from = opt_from opts, res_to = opt_to opts, res_skipped = False,
                res_result = Some result\<rparr>)))))))"
  by (rule ext) (simp add: transition_def assertTransition_def Let_def bindA_def)

lemma wp_transition_proper:
  "canTransition d (opt_from opts) (opt_to opts) \<Longrightarrow> opt_from opts \<noteq> opt_to opts \<Longrightarrow>
     wp (transition env d opts) s Q E =
       wp (run_hook (opt_before opts) (make_ctx d opts)) s (\<lambda>_ s1.
       wp (opt_apply opts (make_ctx d opts)) s1 (\<lambda>x s2.
       wp (run_hook (opt_audit opts) (make_ctx d opts))
          (logger_log env (make_ctx d opts) (correlation env s2) s2) (\<lambda>_ s3.
       wp (run_hook (opt_after opts) (make_ctx d opts))
          (if opt_silent opts = Some True then s3 else publish_event env (make_ctx d opts) False s3) (\<lambda>_ s4.
       Q \<lparr>res_from = opt_from opts, res_to = opt_to opts, res_skipped = False, res_result = Some x\<rparr> s4)
       E) E) E) E"
  by (simp add: transition_def assertTransition_def Let_def)

lemma wp_transition_same:
  "canTransition d (opt_from opts) (opt_to opts) \<Longrightarrow> opt_from opts = opt_to opts \<Longrightarrow>
     wp (transition env d opts) s Q E =
       Q \<lparr>res_from = opt_from opts, res_to = opt_to opts, res_skipped = True, res_result = None\<rparr>
         (logger_debug env (sm_name d @ '' '' @ opt_entityId opts @ '' already '' @ opt_to opts
          @ '' (noop)'') s)"
  by (simp add: wp_def transition_same)

lemma wp_transition_illegal:
  "\<not> canTransition d (opt_from opts) (opt_to opts) \<Longrightarrow>
     wp (transition env d opts) s Q E =
       E (invalid_transition (sm_name d) (opt_from opts) (opt_to opts)) s"
  by (simp add: wp_def transition_illegal)

text \<open>
  An observer of the hooks: the state is paired with the list of the phases that were started,
  each with whether it returned, and every hook, the log and the publication add theirs to it.
\<close>

datatype phase = Before | Apply | Log | Audit | Event | After

type_synonym 's observed = "(phase \<times> bool) list \<times> 's"

definition traceA :: "phase \<Rightarrow> ('s, 'a) act \<Rightarrow> ('s observed, 'a) act" where
  "traceA p m = (\<lambda>(tr, s). case m s of (r, t) \<Rightarrow> (r, (tr @ [(p, \<not> isl r)], t)))"

definition trace_hook ::
  "phase \<Rightarrow> ('s, 'm) transition_hook option \<Rightarrow> ('s observed, 'm) transition_hook option" where
  "trace_hook p h = map_option (\<lambda>f ctx. traceA p (f ctx)) h"

definition traced_env :: "('s, 'm) engine_env \<Rightarrow> ('s observed, 'm) engine_env" where
  "traced_env env =
     \<lparr>logger_debug = (\<lambda>x (tr, s). (tr, logger_debug env x s)),
      logger_log = (\<lambda>ctx c (tr, s). (tr @ [(Log, True)], logger_log env ctx c s)),
      publish_event = (\<lambda>ctx b (tr, s). (tr @ [(Event, True)], publish_event env ctx b s)),
      correlation = (\<lambda>(tr, s). correlation env s)\<rparr>"

definition traced_opts ::
  "('s, 'm, 'a) transition_options \<Rightarrow> ('s observed, 'm, 'a) transition_options" where
  "traced_opts opts =
     \<lparr>opt_entityId = opt_entityId opts, opt_from = opt_from opts, opt_to = opt_to opts,
      opt_actorId = opt_actorId opts, opt_reason = opt_reason opts,
      opt_metadata = opt_metadata opts, opt_before = trace_hook Before (opt_before opts),
      opt_apply = (\<lambda>ctx. traceA Apply (opt_apply opts ctx)),
      opt_audit = trace_hook Audit (opt_audit opts), opt_after = trace_hook After (opt_after opts),
      opt_silent = opt_silent opts\<rparr>"

text \<open>The phases a transition with these options goes through, in order.\<close>

definition phases :: "('s, 'm, 'a) transition_options \<Rightarrow> phase list" where
  "phases opts = (if opt_before opts = None then [] else [Before]) @ [Apply, Log]
     @ (if opt_audit opts = None then [] else [Audit])
     @ (if opt_silent opts = Some True then [] else [Event])
     @ (if opt_after opts = None then [] else [After])"

lemma make_ctx_traced [simp]: "make_ctx d (traced_opts opts) = make_ctx d opts"
  by (simp add: make_ctx_def traced_opts_def)

text \<open>
  What a run through the phases \<open>ps\<close> may leave in the list: all of them, each returned, when it
  returns; when it throws, some first ones that returned and then the one that threw, and nothing
  behind it.
\<close>

definition passes :: "phase list \<Rightarrow> (phase \<times> bool) list \<Rightarrow> bool \<Rightarrow> bool" where
  "passes ps l threw \<longleftrightarrow> (if threw
     then \<exists>qs p rs. ps = qs @ p # rs \<and> l = map (\<lambda>q. (q, True)) qs @ [(p, False)]
     else l = map (\<lambda>q. (q, True)) ps)"

lemma passes_append_throw: "passes ps l True \<Longrightarrow> passes (ps @ qs) l True"
  by (fastforce simp: passes_def)

lemma passes_append:
  assumes "passes ps l False" "passes qs k threw"
  shows "passes (ps @ qs) (l @ k) threw"
proof (cases threw)
  case True
  then obtain us p rs where "qs = us @ p # rs" "k = map (\<lambda>q. (q, True)) us @ [(p, False)]"
    using assms(2) by (auto simp: passes_def)
  with assms(1) True show ?thesis
    by (simp add: passes_def) (metis append.assoc map_append)
qed (use assms in \<open>simp add: passes_def\<close>)

lemma passes_single: "passes [p] [(p, \<not> threw)] threw"
  by (simp add: passes_def)

text \<open>
  \<open>observes ps M m\<close>: the observed action \<open>M\<close> does what \<open>m\<close> does and runs through the phases \<open>ps\<close>.
\<close>

definition observes :: "phase list \<Rightarrow> ('s observed, 'a) act \<Rightarrow> ('s, 'a) act \<Rightarrow> bool" where
  "observes ps M m \<longleftrightarrow> (\<forall>tr s. \<exists>l. passes ps l (isl (fst (m s)))
     \<and> M (tr, s) = (fst (m s), (tr @ l, snd (m s))))"

lemma observes_bindA:
  assumes M: "observes ps M m" and F: "\<And>x. observes qs (F x) (f x)"
  shows "observes (ps @ qs) (bindA M F) (bindA m f)"
  unfolding observes_def
proof (intro allI)
  fix tr s
  obtain l where l: "passes ps l (isl (fst (m s)))" "M (tr, s) = (fst (m s), (tr @ l, snd (m s)))"
    using M unfolding observes_def by blast
  show "\<exists>l. passes (ps @ qs) l (isl (fst (bindA m f s)))
     \<and> bindA M F (tr, s) = (fst (bindA m f s), (tr @ l, snd (bindA m f s)))"
  proof (cases "fst (m s)")
    case (Inl e)
    then have "m s = (Inl e, snd (m s))" by (simp add: prod_eq_iff)
    then have "bindA m f s = (Inl e, snd (m s))" by simp
    with l Inl show ?thesis by (intro exI [of _ l]) (simp add: passes_append_throw)
  next
    case (Inr x)
    then have "m s = (Inr x, snd (m s))" by (simp add: prod_eq_iff)
    then have "bindA m f s = f x (snd (m s))" by simp
    moreover obtain k where "passes qs k (isl (fst (f x (snd (m s)))))"
      "F x (tr @ l, snd (m s)) = (fst (f x (snd (m s))), ((tr @ l) @ k, snd (f x (snd (m s)))))"
      using F unfolding observes_def by blast
    ultimately show ?thesis
      using l Inr by (intro exI [of _ "l @ k"]) (simp add: passes_append)
  qed
qed

lemma observes_returnA: "observes [] (returnA x) (returnA x)"
  by (simp add: observes_def passes_def)

lemma observes_single:
  assumes "\<And>tr s. M (tr, s) = (fst (m s), (tr @ [(p, \<not> isl (fst (m s)))], snd (m s)))"
  shows "observes [p] M m"
  unfolding observes_def using assms passes_single by blast

lemma observes_traceA: "observes [p] (traceA p m) m"
  by (rule observes_single) (simp add: traceA_def split: prod.splits)

lemma observes_run_hook:
  "observes (if h = None then [] else [p]) (run_hook (trace_hook p h) ctx) (run_hook h ctx)"
  by (cases h) (simp_all add: run_hook_def trace_hook_def observes_returnA observes_traceA)

lemma observes_publish:
  "observes (if c then [] else [Event])
     (if c then returnA () else modifyA (publish_event (traced_env env) ctx False))
     (if c then returnA () else modifyA (publish_event env ctx False))"
  by (auto simp: observes_returnA traced_env_def intro: observes_single)

lemma observes_log:
  "observes [Log]
     (\<lambda>s. modifyA (logger_log (traced_env env) ctx (correlation (traced_env env) s)) s)
     (\<lambda>s. modifyA (logger_log env ctx (correlation env s)) s)"
  by (rule observes_single) (simp add: traced_env_def)

lemma observes_weaken: "observes ps M m \<Longrightarrow> ps = qs \<Longrightarrow> observes qs M m"
  by simp

lemmas observes_rules = observes_bindA observes_returnA observes_traceA observes_run_hook
  observes_publish observes_log

lemma traced_opts_sel [simp]:
  "opt_from (traced_opts opts) = opt_from opts" "opt_to (traced_opts opts) = opt_to opts"
  "opt_before (traced_opts opts) = trace_hook Before (opt_before opts)"
  "opt_apply (traced_opts opts) ctx = traceA Apply (opt_apply opts ctx)"
  "opt_audit (traced_opts opts) = trace_hook Audit (opt_audit opts)"
  "opt_after (traced_opts opts) = trace_hook After (opt_after opts)"
  "opt_silent (traced_opts opts) = opt_silent opts"
  by (simp_all add: traced_opts_def)

lemma transition_observed:
  assumes legal: "canTransition d (opt_from opts) (opt_to opts)"
    and proper: "opt_from opts \<noteq> opt_to opts"
  shows "observes (phases opts) (transition (traced_env env) d (traced_opts opts)) (transition env d opts)"
proof -
  have legal': "canTransition d (opt_from (traced_opts opts)) (opt_to (traced_opts opts))"
    and proper': "opt_from (traced_opts opts) \<noteq> opt_to (traced_opts opts)"
    using legal proper by simp_all
  show ?thesis
    unfolding transition_proper [OF legal proper] transition_proper [OF legal' proper']
      make_ctx_traced Let_def traced_opts_sel
    by (rule observes_weaken, (rule observes_rules)+) (simp add: phases_def)
qed

section \<open>Properties\<close>

text \<open>
  the engine refuses every change the graph does not list: it throws a CONFLICT (409) and
  neither a hook nor \<open>apply\<close> nor the log nor the publisher has run, whatever they are.
\<close>

theorem transition_refused_unchanged:
  assumes "\<not> canTransition d (opt_from opts) (opt_to opts)"
  shows "transition env d opts s =
    (Inl (AppException ''CONFLICT'' (''Invalid '' @ sm_name d @ '' transition '' @ opt_from opts
       @ '' '' @ arrow @ '' '' @ opt_to opts) 409), s)"
  using transition_illegal [OF assms] by (simp add: invalid_transition_def)

text \<open>
  C23: a permitted change of status runs before, apply, log, audit, event and after in this
  order, leaving out only the absent ones. When it returns, every phase has run and returned. When
  it throws, the phases before some phase have run and returned, that phase has thrown, and no
  later phase has been started. The observed transition has the answer and the state of the
  unobserved one.
\<close>

theorem transition_phases_in_order:
  assumes legal: "canTransition d (opt_from opts) (opt_to opts)"
    and proper: "opt_from opts \<noteq> opt_to opts"
  shows "\<exists>l. transition (traced_env env) d (traced_opts opts) (tr, s) =
        (fst (transition env d opts s), (tr @ l, snd (transition env d opts s)))
    \<and> (case fst (transition env d opts s) of
         Inr v \<Rightarrow> l = map (\<lambda>q. (q, True)) (phases opts)
       | Inl e \<Rightarrow> \<exists>qs p rs. phases opts = qs @ p # rs
           \<and> l = map (\<lambda>q. (q, True)) qs @ [(p, False)])"
proof -
  obtain l where "passes (phases opts) l (isl (fst (transition env d opts s)))"
    "transition (traced_env env) d (traced_opts opts) (tr, s) =
      (fst (transition env d opts s), (tr @ l, snd (transition env d opts s)))"
    using transition_observed [OF assms, of env] unfolding observes_def by blast
  then show ?thesis
    by (intro exI [of _ l]) (auto simp: passes_def split: sum.splits)
qed

text \<open>
  C31: in every lifecycle graph the modules pass to the engine, an entity that starts in a
  declared status and changes status only by accepted transitions stays in declared statuses, can
  always reach a terminal status in at most as many steps as there are statuses, and never leaves
  a terminal status.
\<close>

theorem shared_lifecycles_live:
  assumes "d \<in> set shared_machines" "s \<in> set (statuses (transitions d))"
    and "lifecycle_path (transitions d) s us v"
  shows "v \<in> set (statuses (transitions d))
    \<and> (\<exists>ws w. length ws \<le> length (transitions d) \<and> lifecycle_path (transitions d) v ws w
           \<and> allowedTargets d w = [])
    \<and> (allowedTargets d v = [] \<longrightarrow> (\<forall>t. canTransition d v t = (t = v)))"
proof -
  note lc = shared_machine_lifecycle [OF assms(1)]
  have same: "allowSameState d = Some True"
    using assms(1) by (auto simp: shared_machines_def machine_defs)
  show ?thesis
    using lifecycle.path_declared [OF lc assms(3,2)] lifecycle.can_finish [OF lc assms(3,2)] same
    by (auto simp: terminal_def allowedTargets_def canTransition_def)
qed

text \<open>Witnesses: a parcel already delivered, a parcel on its way, with a logging caller.\<close>

definition demo_env :: "(string list, unit) engine_env" where
  "demo_env = \<lparr>logger_debug = (\<lambda>x s. s @ [x]), logger_log = (\<lambda>ctx c s. s @ [ctx_to ctx]),
     publish_event = (\<lambda>ctx b s. s @ [''event'']), correlation = (\<lambda>s. None)\<rparr>"

definition demo_opts :: "status \<Rightarrow> status \<Rightarrow> (string list, unit, nat) transition_options" where
  "demo_opts a b = \<lparr>opt_entityId = ''e1'', opt_from = a, opt_to = b, opt_actorId = None,
     opt_reason = None, opt_metadata = None, opt_before = None,
     opt_apply = (\<lambda>ctx s. (Inr 7, s @ [''apply''])),
     opt_audit = Some (\<lambda>ctx. throwA (JsError ''audit failed'')),
     opt_after = None, opt_silent = None\<rparr>"

theorem transition_refused_unchanged_witness:
  "transition demo_env shipmentStateMachine (demo_opts ''delivered'' ''lost'') [''x''] =
    (Inl (AppException ''CONFLICT'' (''Invalid '' @ sm_name shipmentStateMachine @ '' transition ''
      @ ''delivered'' @ '' '' @ arrow @ '' '' @ ''lost'') 409), [''x''])"
proof -
  have "\<not> canTransition shipmentStateMachine (opt_from (demo_opts ''delivered'' ''lost''))
      (opt_to (demo_opts ''delivered'' ''lost''))"
    by code_simp
  from transition_refused_unchanged [OF this, of demo_env "[''x'']"] show ?thesis
    by (simp add: demo_opts_def)
qed

theorem transition_phases_in_order_witness:
  "phases (demo_opts ''packed'' ''dispatched'') = [Apply, Log, Audit, Event]
    \<and> transition (traced_env demo_env) shipmentStateMachine
        (traced_opts (demo_opts ''packed'' ''dispatched'')) ([], []) =
      (Inl (JsError ''audit failed''),
       ([(Apply, True), (Log, True), (Audit, False)], [''apply'', ''dispatched'']))"
proof -
  let ?o = "demo_opts ''packed'' ''dispatched''"
  have legal: "canTransition shipmentStateMachine (opt_from ?o) (opt_to ?o)"
    "opt_from ?o \<noteq> opt_to ?o" by code_simp+
  have run: "transition demo_env shipmentStateMachine ?o [] =
      (Inl (JsError ''audit failed''), [''apply'', ''dispatched''])" by code_simp
  have ph: "phases ?o = [Apply, Log, Audit, Event]" by code_simp
  have audit: "transition (traced_env demo_env) shipmentStateMachine (traced_opts ?o) ([], []) =
      (Inl (JsError ''audit failed''), ([] @ l, [''apply'', ''dispatched''])) \<Longrightarrow>
      l = [(Apply, True), (Log, True), (Audit, False)]" for l
  proof -
    have "snd (transition (traced_env demo_env) shipmentStateMachine (traced_opts ?o) ([], [])) =
        ([(Apply, True), (Log, True), (Audit, False)], [''apply'', ''dispatched''])" by code_simp
    then show "transition (traced_env demo_env) shipmentStateMachine (traced_opts ?o) ([], []) =
      (Inl (JsError ''audit failed''), ([] @ l, [''apply'', ''dispatched''])) \<Longrightarrow> ?thesis" by simp
  qed
  from transition_phases_in_order [OF legal, of demo_env "[]" "[]"] run audit ph show ?thesis
    by auto
qed

theorem shared_lifecycles_live_witness:
  "\<exists>ws w. length ws \<le> length (transitions rmaStateMachine)
     \<and> lifecycle_path (transitions rmaStateMachine) ''in_transit'' ws w
     \<and> allowedTargets rmaStateMachine w = []"
proof -
  have "rmaStateMachine \<in> set shared_machines" by (simp add: shared_machines_def)
  moreover have "''requested'' \<in> set (statuses (transitions rmaStateMachine))"
    by (simp add: rmaStateMachine_def statuses_def)
  moreover have "lifecycle_path (transitions rmaStateMachine) ''requested''
      [''approved'', ''in_transit''] ''in_transit''"
    by (simp add: rmaStateMachine_def)
  ultimately show ?thesis using shared_lifecycles_live by blast
qed

end
