(* ===== verification/Json.thy ===== *)
theory Json
  imports Prelude
begin

text \<open>
  JavaScript values as the shared code handles them: facts of the rule engine, rule documents read
  from JSON columns, metadata of cases and events. An object is a list of properties in insertion
  order; \<open>obj_get\<close> is a property read, \<open>obj_put\<close> an assignment (an existing property keeps its
  place), \<open>obj_spread\<close> is \<open>{ ...a, ...b }\<close>. Inherited properties (\<open>Object.prototype\<close>) are
  outside the model. Numbers are exact; the three special values are constructors.
\<close>

datatype jsnum = Fin rat | PInf | NInf | NaN

datatype json =
    JUndef
  | JNull
  | JBool bool
  | JNum jsnum
  | JStr string
  | JDate "int option"
  | JArr "json list"
  | JObj "(string \<times> json) list"

type_synonym jsobj = "(string \<times> json) list"

abbreviation JInt :: "int \<Rightarrow> json" where
  "JInt n \<equiv> JNum (Fin (of_int n))"

definition obj_get :: "jsobj \<Rightarrow> string \<Rightarrow> json" where
  "obj_get ps k = nullish (map_of ps k) JUndef"

fun obj_put :: "string \<Rightarrow> json \<Rightarrow> jsobj \<Rightarrow> jsobj" where
  "obj_put k v [] = [(k, v)]"
| "obj_put k v ((k', v') # ps) = (if k' = k then (k, v) # ps else (k', v') # obj_put k v ps)"

definition obj_spread :: "jsobj \<Rightarrow> jsobj \<Rightarrow> jsobj" where
  "obj_spread a b = fold (\<lambda>(k, v). obj_put k v) b a"

lemma map_of_obj_put: "map_of (obj_put k v ps) = (map_of ps)(k \<mapsto> v)"
  by (induction ps) (auto simp: fun_eq_iff)

lemma obj_get_put [simp]: "obj_get (obj_put k v ps) j = (if j = k then v else obj_get ps j)"
  by (simp add: obj_get_def map_of_obj_put)

lemma map_of_fold_obj_put:
  "distinct (map fst b) \<Longrightarrow> map_of (fold (\<lambda>(k, v). obj_put k v) b a) = map_of a ++ map_of b"
proof (induction b arbitrary: a)
  case (Cons p b)
  obtain k v where p: "p = (k, v)" by force
  with Cons.prems have "map_of b k = None" by (simp add: map_of_eq_None_iff)
  then show ?case using Cons.IH [of "obj_put k v a"] Cons.prems p
    by (auto simp: map_of_obj_put map_add_def fun_eq_iff split: option.splits)
qed simp

lemma map_of_obj_spread:
  "distinct (map fst b) \<Longrightarrow> map_of (obj_spread a b) = map_of a ++ map_of b"
  unfolding obj_spread_def by (rule map_of_fold_obj_put)

text \<open>Truthiness of a value.\<close>

fun truthy :: "json \<Rightarrow> bool" where
  "truthy JUndef = False"
| "truthy JNull = False"
| "truthy (JBool b) = b"
| "truthy (JNum n) = (n \<noteq> Fin 0 \<and> n \<noteq> NaN)"
| "truthy (JStr s) = (s \<noteq> [])"
| "truthy (JDate d) = True"
| "truthy (JArr xs) = True"
| "truthy (JObj ps) = True"

text \<open>\<open>new Date(t)\<close>: a time value outside the range of ECMAScript dates is an invalid date.\<close>

type_synonym date = "int option"

definition js_date :: "int \<Rightarrow> date" where
  "js_date t = (if \<bar>t\<bar> \<le> 8640000000000000 then Some t else None)"

text \<open>\<open>a.getTime() > b.getTime()\<close>, which an invalid date makes false.\<close>

definition date_after :: "int \<Rightarrow> date \<Rightarrow> bool" where
  "date_after t d = (case d of None \<Rightarrow> False | Some u \<Rightarrow> t > u)"

lemma date_after_simps [simp]: "\<not> date_after t None" "date_after t (Some u) = (t > u)"
  by (simp_all add: date_after_def)

end
