(* ===== verification/Case_Types.thy ===== *)
theory Case_Types
  imports State_Machine Json
begin

text \<open>
  Case management, the data (shared/case-management/case.types.ts), the SLA arithmetic (case-sla.ts)
  and the table of case kinds (case.registry.ts, definitions/support-case.definition.ts). Dates are
  milliseconds; an invalid date is \<open>None\<close>. A priority is the natural number the code uses as a key.
\<close>

section \<open>Types (case.types.ts)\<close>

datatype case_kind = warranty_claim | rma_case | service_ticket | repair_job | support

definition kind_name :: "case_kind \<Rightarrow> string" where
  "kind_name k = (case k of warranty_claim \<Rightarrow> ''warranty_claim'' | rma_case \<Rightarrow> ''rma''
     | service_ticket \<Rightarrow> ''service_ticket'' | repair_job \<Rightarrow> ''repair_job'' | support \<Rightarrow> ''support'')"

record case_ref =
  ref_kind :: case_kind
  ref_id :: string

record case_snapshot =
  cs_kind :: case_kind
  cs_id :: string
  cs_number :: "string option"
  cs_status :: status
  cs_assigneeId :: "string option"
  cs_priority :: nat
  cs_openedAt :: int
  cs_dueAt :: "date option"
  cs_escalatedAt :: "int option"
  cs_closedAt :: "int option"
  cs_metadata :: "jsobj option"

text \<open>The type of a timeline entry is a string at run time.\<close>

type_synonym entry_type = string

abbreviation Created :: entry_type where "Created \<equiv> ''created''"
abbreviation Status_changed :: entry_type where "Status_changed \<equiv> ''status_changed''"
abbreviation Assigned :: entry_type where "Assigned \<equiv> ''assigned''"
abbreviation Priority_changed :: entry_type where "Priority_changed \<equiv> ''priority_changed''"
abbreviation Note :: entry_type where "Note \<equiv> ''note''"
abbreviation Attachment :: entry_type where "Attachment \<equiv> ''attachment''"
abbreviation Escalated :: entry_type where "Escalated \<equiv> ''escalated''"

definition entry_types :: "entry_type list" where
  "entry_types = [Created, Status_changed, Assigned, Priority_changed, Note, Attachment, Escalated,
     ''sla_breach'', ''closed'']"

record timeline_entry =
  te_at :: int
  te_type :: entry_type
  te_actorId :: "string option"
  te_message :: "string option"
  te_fromStatus :: "status option"
  te_toStatus :: "status option"
  te_metadata :: "jsobj option"

record note_input =
  note_body :: string
  note_actorId :: "string option"
  note_internal :: "bool option"

record attachment_meta =
  att_mediaFileId :: "string option"
  att_label :: "string option"
  att_docType :: "string option"
  att_url :: "string option"

record sla_policy =
  responseMinutes :: rat
  resolveMinutes :: rat
  priorityMultiplier :: "(nat \<times> rat) list option"

record escalation_rule =
  unassignedPastResponse :: "bool option"
  unresolvedPastResolve :: "bool option"
  maxPriority :: "nat option"
  escalateToStatus :: "status option"

record case_definition =
  cd_kind :: case_kind
  cd_stateMachine :: state_machine_definition
  cd_sla :: sla_policy
  cd_escalation :: "escalation_rule option"
  cd_terminalStatuses :: "status list"

text \<open>
  The adapter interface: the methods of \<open>CaseStore\<close>, the last two optional. The adapters end with
  \<open>(await this.load(ref))!\<close>, which at run time may be null although its type says otherwise: the
  updating methods return an option.
\<close>

record 's case_store =
  st_load :: "case_ref \<Rightarrow> ('s, case_snapshot option) act"
  st_saveStatus :: "case_ref \<Rightarrow> status \<Rightarrow> string option \<Rightarrow> ('s, case_snapshot option) act"
  st_assign :: "case_ref \<Rightarrow> string \<Rightarrow> string option \<Rightarrow> ('s, case_snapshot option) act"
  st_setPriority :: "case_ref \<Rightarrow> nat \<Rightarrow> string option \<Rightarrow> ('s, case_snapshot option) act"
  st_addNote :: "case_ref \<Rightarrow> note_input \<Rightarrow> ('s, unit) act"
  st_addAttachment :: "case_ref \<Rightarrow> attachment_meta \<Rightarrow> string option \<Rightarrow> ('s, unit) act"
  st_appendTimeline :: "case_ref \<Rightarrow> timeline_entry \<Rightarrow> ('s, unit) act"
  st_listTimeline :: "(case_ref \<Rightarrow> ('s, timeline_entry list) act) option"
  st_markEscalated :: "(case_ref \<Rightarrow> int \<Rightarrow> string option \<Rightarrow> ('s, case_snapshot) act) option"

record 's transition_case_options =
  tc_actorId :: "string option"
  tc_reason :: "string option"
  tc_metadata :: "jsobj option"
  tc_before :: "('s, unit) act option"
  tc_after :: "(case_snapshot \<Rightarrow> ('s, unit) act) option"

section \<open>SLA arithmetic (case-sla.ts)\<close>

definition defaultMultiplier :: "nat \<Rightarrow> rat" where
  "defaultMultiplier p = (if p = 1 then 2 else if p = 2 then 3 / 2 else if p = 3 then 1
     else if p = 4 then 3 / 4 else if p = 5 then 1 / 2 else 1)"

definition priority_mult :: "sla_policy \<Rightarrow> nat \<Rightarrow> rat" where
  "priority_mult sla p = nullish (Option.bind (priorityMultiplier sla) (\<lambda>m. map_of m p)) (defaultMultiplier p)"

text \<open>
  \<open>Math.max(1, Math.round(minutes / mult))\<close>. Division by zero gives an infinity or NaN: with
  negative minutes the maximum is 1, otherwise the result is no finite number.
\<close>

definition sla_minutes :: "rat \<Rightarrow> rat \<Rightarrow> int option" where
  "sla_minutes minutes mult =
     (if mult = 0 then (if minutes < 0 then Some 1 else None)
      else Some (max 1 (js_round (minutes / mult))))"

definition due_date :: "int \<Rightarrow> rat \<Rightarrow> rat \<Rightarrow> date" where
  "due_date openedAt minutes mult = Option.bind (sla_minutes minutes mult) (\<lambda>m. js_date (openedAt + m * 60000))"

definition computeDueAt :: "int \<Rightarrow> nat \<Rightarrow> sla_policy \<Rightarrow> date" where
  "computeDueAt openedAt p sla = due_date openedAt (resolveMinutes sla) (priority_mult sla p)"

definition computeResponseDueAt :: "int \<Rightarrow> nat \<Rightarrow> sla_policy \<Rightarrow> date" where
  "computeResponseDueAt openedAt p sla = due_date openedAt (responseMinutes sla) (priority_mult sla p)"

definition isResponseBreached :: "case_snapshot \<Rightarrow> sla_policy \<Rightarrow> int \<Rightarrow> bool" where
  "isResponseBreached snap sla now =
     (if truthy_str (cs_assigneeId snap) then False
      else date_after now (computeResponseDueAt (cs_openedAt snap) (cs_priority snap) sla))"

definition isResolveBreached :: "case_snapshot \<Rightarrow> sla_policy \<Rightarrow> status list \<Rightarrow> int \<Rightarrow> bool" where
  "isResolveBreached snap sla terminalStatuses now =
     (if cs_status snap \<in> set terminalStatuses then False
      else if cs_closedAt snap \<noteq> None then False
      else date_after now (nullish (cs_dueAt snap)
             (computeDueAt (cs_openedAt snap) (cs_priority snap) sla)))"

section \<open>The case kinds (case.registry.ts)\<close>

definition supportCaseStateMachine :: state_machine_definition where
  "supportCaseStateMachine = \<lparr>sm_name = ''support_case'',
     transitions =
      [(''open'', [''assigned'', ''escalated'', ''cancelled'']),
       (''assigned'', [''in_progress'', ''escalated'', ''cancelled'', ''on_hold'']),
       (''in_progress'', [''on_hold'', ''resolved'', ''escalated'', ''cancelled'']),
       (''on_hold'', [''in_progress'', ''escalated'', ''cancelled'']),
       (''escalated'', [''assigned'', ''in_progress'', ''resolved'', ''cancelled'']),
       (''resolved'', [''closed'', ''in_progress'']),
       (''closed'', []), (''cancelled'', [])],
     allowSameState = Some True\<rparr>"

definition DEFAULT_SLA :: sla_policy where
  "DEFAULT_SLA = \<lparr>responseMinutes = 4 * 60, resolveMinutes = 3 * 24 * 60,
     priorityMultiplier = Some [(1, 2), (2, 3 / 2), (3, 1), (4, 3 / 4), (5, 1 / 2)]\<rparr>"

definition CASE_DEFINITIONS :: "case_kind \<Rightarrow> case_definition" where
  "CASE_DEFINITIONS k = (case k of
     warranty_claim \<Rightarrow> \<lparr>cd_kind = warranty_claim, cd_stateMachine = warrantyClaimStateMachine,
       cd_sla = DEFAULT_SLA\<lparr>resolveMinutes := 7 * 24 * 60\<rparr>,
       cd_escalation = Some \<lparr>unassignedPastResponse = Some True, unresolvedPastResolve = Some True,
         maxPriority = Some 2, escalateToStatus = None\<rparr>,
       cd_terminalStatuses = [''closed'', ''cancelled'', ''rejected'']\<rparr>
   | rma_case \<Rightarrow> \<lparr>cd_kind = rma_case, cd_stateMachine = rmaStateMachine,
       cd_sla = DEFAULT_SLA\<lparr>resolveMinutes := 5 * 24 * 60\<rparr>,
       cd_escalation = Some \<lparr>unassignedPastResponse = Some True, unresolvedPastResolve = Some True,
         maxPriority = None, escalateToStatus = None\<rparr>,
       cd_terminalStatuses = [''completed'', ''rejected'', ''cancelled'']\<rparr>
   | service_ticket \<Rightarrow> \<lparr>cd_kind = service_ticket, cd_stateMachine = serviceTicketStateMachine,
       cd_sla = DEFAULT_SLA,
       cd_escalation = Some \<lparr>unassignedPastResponse = Some True, unresolvedPastResolve = Some True,
         maxPriority = Some 2, escalateToStatus = None\<rparr>,
       cd_terminalStatuses = [''closed'', ''cancelled'']\<rparr>
   | repair_job \<Rightarrow> \<lparr>cd_kind = repair_job, cd_stateMachine = supportCaseStateMachine,
       cd_sla = DEFAULT_SLA\<lparr>resolveMinutes := 2 * 24 * 60\<rparr>,
       cd_escalation = Some \<lparr>unassignedPastResponse = None, unresolvedPastResolve = Some True,
         maxPriority = None, escalateToStatus = None\<rparr>,
       cd_terminalStatuses = [''closed'', ''cancelled'']\<rparr>
   | support \<Rightarrow> \<lparr>cd_kind = support, cd_stateMachine = supportCaseStateMachine,
       cd_sla = \<lparr>responseMinutes = 60, resolveMinutes = 24 * 60, priorityMultiplier = None\<rparr>,
       cd_escalation = Some \<lparr>unassignedPastResponse = Some True, unresolvedPastResolve = Some True,
         maxPriority = Some 2, escalateToStatus = Some ''escalated''\<rparr>,
       cd_terminalStatuses = [''closed'', ''cancelled'']\<rparr>)"

text \<open>The registry: the map from kinds to stores that \<open>registerStore\<close> fills.\<close>

type_synonym 's case_registry = "case_kind \<Rightarrow> 's case_store option"

definition registerStore :: "case_kind \<Rightarrow> 's case_store \<Rightarrow> 's case_registry \<Rightarrow> 's case_registry" where
  "registerStore k st reg = reg(k \<mapsto> st)"

definition getStore :: "'s case_registry \<Rightarrow> case_kind \<Rightarrow> ('s, 's case_store) act" where
  "getStore reg k = (case reg k of
     None \<Rightarrow> throwA (JsError (''No CaseStore registered for kind='' @ kind_name k))
   | Some st \<Rightarrow> returnA st)"

definition getDefinition :: "case_kind \<Rightarrow> case_definition" where
  "getDefinition k = CASE_DEFINITIONS k"

definition getStateMachine :: "case_kind \<Rightarrow> state_machine_definition" where
  "getStateMachine k = cd_stateMachine (CASE_DEFINITIONS k)"

definition hasStore :: "'s case_registry \<Rightarrow> case_kind \<Rightarrow> bool" where
  "hasStore reg k = (reg k \<noteq> None)"

section \<open>Lemmas\<close>

lemma support_check: "lifecycle_check (transitions supportCaseStateMachine)"
  by code_simp

interpretation support_graph: lifecycle "transitions supportCaseStateMachine"
  by (rule lifecycle_checkI [OF support_check])

lemma kind_name_inj: "kind_name a = kind_name b \<Longrightarrow> a = b"
  by (cases a; cases b) (simp_all add: kind_name_def)

lemma kind_name_no_colon: "CHR '':'' \<notin> set (kind_name k)"
  by (cases k) (simp_all add: kind_name_def)

lemma getDefinition_graph: "lifecycle (transitions (cd_stateMachine (getDefinition k)))"
  using claim.lifecycle_axioms rma.lifecycle_axioms ticket.lifecycle_axioms
    support_graph.lifecycle_axioms
  by (cases k) (simp_all add: getDefinition_def CASE_DEFINITIONS_def)

lemma due_date_antimono:
  assumes "0 \<le> minutes" "0 < m" "m \<le> n" "due_date t minutes m = Some d" "due_date t minutes n = Some e"
  shows "e \<le> d"
proof -
  have "minutes / n \<le> minutes / m"
    using assms(1-3) by (simp add: frac_le)
  then have "max 1 (js_round (minutes / n)) \<le> max 1 (js_round (minutes / m))"
    using js_round_mono by fastforce
  with assms show ?thesis
    by (auto simp: due_date_def sla_minutes_def js_date_def split: if_splits)
qed

lemma due_date_after: "due_date t minutes m = Some d \<Longrightarrow> t + 60000 \<le> d"
  by (auto simp: due_date_def sla_minutes_def js_date_def bind_eq_Some_conv split: if_splits)

section \<open>Properties\<close>

text \<open>
  the resolution deadline of a case is at least one minute after its opening, and with the
  registry's policies a more urgent priority (1 is the most urgent) never has a later deadline.
\<close>

theorem deadlines_follow_priority:
  assumes "1 \<le> p" "p \<le> q" "q \<le> 5"
    and "computeDueAt t p (cd_sla (getDefinition k)) = Some d"
    and "computeDueAt t q (cd_sla (getDefinition k)) = Some e"
  shows "t + 60000 \<le> d \<and> d \<le> e"
proof -
  let ?sla = "cd_sla (getDefinition k)"
  have "0 \<le> resolveMinutes ?sla"
    by (cases k) (simp_all add: getDefinition_def CASE_DEFINITIONS_def DEFAULT_SLA_def)
  moreover have "p \<in> {1, 2, 3, 4, 5}" "q \<in> {1, 2, 3, 4, 5}" using assms(1-3) by auto
  then have "0 < priority_mult ?sla q \<and> priority_mult ?sla q \<le> priority_mult ?sla p"
    using assms(2)
    by (cases k) (auto simp: getDefinition_def CASE_DEFINITIONS_def DEFAULT_SLA_def
        priority_mult_def defaultMultiplier_def)
  ultimately show ?thesis
    using assms(4,5) due_date_antimono due_date_after by (auto simp: computeDueAt_def)
qed

theorem deadlines_follow_priority_witness:
  "computeDueAt 0 1 (cd_sla (getDefinition support)) = Some 43200000
   \<and> computeDueAt 0 4 (cd_sla (getDefinition support)) = Some 115200000
   \<and> (43200000::int) \<le> 115200000"
proof -
  have a: "computeDueAt 0 1 (cd_sla (getDefinition support)) = Some 43200000" by code_simp
  have b: "computeDueAt 0 4 (cd_sla (getDefinition support)) = Some 115200000" by code_simp
  show ?thesis using deadlines_follow_priority [OF _ _ _ a b] a b by simp
qed

end
