(* ===== verification/Memory_Case_Store.thy ===== *)
theory Memory_Case_Store
  imports Case_Types
begin

text \<open>
  The interface between the case manager and its stores, as two locales, and the in-memory store
  (shared/case-management/memory-case.store.ts), which keeps support cases. Its four \<open>Map\<close>s are
  fields of the record \<open>mem_world\<close>; \<open>new Date()\<close> takes the next reading of a clock whose readings
  are arbitrary, so time may pass between any two of them.
\<close>

section \<open>The interface\<close>

text \<open>
  What the manager relies on in a store for one kind of case: \<open>view\<close> is the snapshot \<open>load\<close> gives,
  loading changes nothing, saving a status is seen by the next load, and the timeline and notes are
  apart from the snapshots.
\<close>

definition status_saved :: "case_kind \<Rightarrow> case_snapshot \<Rightarrow> status \<Rightarrow> case_snapshot \<Rightarrow> bool" where
  "status_saved k snap x snap' \<longleftrightarrow> cs_status snap' = x
     \<and> cs_kind snap' = cs_kind snap \<and> cs_id snap' = cs_id snap
     \<and> cs_assigneeId snap' = cs_assigneeId snap \<and> cs_priority snap' = cs_priority snap
     \<and> cs_escalatedAt snap' = cs_escalatedAt snap
     \<and> (x \<in> set (cd_terminalStatuses (CASE_DEFINITIONS k)) \<longrightarrow> cs_closedAt snap' \<noteq> None)"

text \<open>The statuses the graph of a kind declares are the ones its column can hold.\<close>

definition declared :: "case_kind \<Rightarrow> status \<Rightarrow> bool" where
  "declared k x \<longleftrightarrow> x \<in> set (statuses (transitions (getStateMachine k)))"

text \<open>The same entry up to its time stamp, which a database column may replace, and its metadata.\<close>

definition same_entry :: "timeline_entry \<Rightarrow> timeline_entry \<Rightarrow> bool" where
  "same_entry e e' \<longleftrightarrow> te_type e' = te_type e \<and> te_actorId e' = te_actorId e \<and> te_message e' = te_message e
     \<and> te_fromStatus e' = te_fromStatus e \<and> te_toStatus e' = te_toStatus e"

lemma same_entry_refl [simp]: "same_entry e e"
  by (simp add: same_entry_def)

locale case_store =
  fixes st :: "'s case_store" and K :: case_kind and I :: "'s \<Rightarrow> bool"
    and view :: "'s \<Rightarrow> string \<Rightarrow> case_snapshot option"
  assumes load_view: "I s \<Longrightarrow> ref_kind r = K \<Longrightarrow> st_load st r s = (Inr (view s (ref_id r)), s)"
    and saveStatus_view: "I s \<Longrightarrow> ref_kind r = K \<Longrightarrow> declared K x \<Longrightarrow> view s (ref_id r) = Some snap \<Longrightarrow>
      ok (st_saveStatus st r x a) s (\<lambda>res s'. \<exists>snap'. res = Some snap' \<and> I s'
        \<and> status_saved K snap x snap' \<and> view s' = (view s)(ref_id r \<mapsto> snap'))"
    and appendTimeline_view: "I s \<Longrightarrow> ref_kind r = K \<Longrightarrow> view s (ref_id r) \<noteq> None \<Longrightarrow>
      te_type e \<in> set entry_types \<Longrightarrow> ok (st_appendTimeline st r e) s (\<lambda>_ s'. I s' \<and> view s' = view s)"

text \<open>
  A store with a timeline: an appended entry is the last one listed, and saving a status writes no
  timeline entry of its own (the manager writes it).
\<close>

locale timeline_store = case_store st K I view
  for st :: "'s case_store" and K I view +
  fixes tl :: "'s \<Rightarrow> string \<Rightarrow> timeline_entry list"
  assumes appendTimeline_tl: "I s \<Longrightarrow> ref_kind r = K \<Longrightarrow>
      view s (ref_id r) \<noteq> None \<Longrightarrow> ok (st_appendTimeline st r e) s
        (\<lambda>_ s'. \<exists>e'. same_entry e e' \<and> tl s' = (tl s)(ref_id r := tl s (ref_id r) @ [e']))"
    and saveStatus_tl: "I s \<Longrightarrow> ref_kind r = K \<Longrightarrow> declared K x \<Longrightarrow> view s (ref_id r) = Some snap \<Longrightarrow>
      ok (st_saveStatus st r x a) s (\<lambda>_ s'. tl s' = tl s)"

section \<open>The store\<close>

record mem_world =
  clock_at :: "nat \<Rightarrow> int"
  clock_reads :: nat
  mem_cases :: "string \<rightharpoonup> case_snapshot"
  mem_timelines :: "string \<rightharpoonup> timeline_entry list"
  mem_notes :: "string \<rightharpoonup> note_input list"
  mem_attachments :: "string \<rightharpoonup> attachment_meta list"

definition newDate :: "('x mem_world_scheme, int) act" where
  "newDate = (\<lambda>w. (Inr (clock_at w (clock_reads w)), w\<lparr>clock_reads := Suc (clock_reads w)\<rparr>))"

definition mem_key :: "case_ref \<Rightarrow> string" where
  "mem_key r = kind_name (ref_kind r) @ '':'' @ ref_id r"

record open_opts =
  oo_number :: "string option"
  oo_priority :: "nat option"
  oo_status :: "status option"
  oo_assigneeId :: "string option"
  oo_metadata :: "jsobj option"

definition mem_open :: "case_kind \<Rightarrow> string \<Rightarrow> open_opts option \<Rightarrow> ('x mem_world_scheme, case_snapshot) act" where
  "mem_open kind i opts =
     (let def = CASE_DEFINITIONS kind;
          priority = nullish (Option.bind opts oo_priority) 3 in
      bindA newDate (\<lambda>openedAt.
      let snap = \<lparr>cs_kind = kind, cs_id = i, cs_number = Option.bind opts oo_number,
            cs_status = nullish (Option.bind opts oo_status) (hd (map fst (transitions (cd_stateMachine def)))),
            cs_assigneeId = Option.bind opts oo_assigneeId, cs_priority = priority,
            cs_openedAt = openedAt, cs_dueAt = Some (computeDueAt openedAt priority (cd_sla def)),
            cs_escalatedAt = None, cs_closedAt = None, cs_metadata = Option.bind opts oo_metadata\<rparr>;
          k = mem_key \<lparr>ref_kind = kind, ref_id = i\<rparr> in
      bindA (modifyA (\<lambda>w. w\<lparr>mem_cases := (mem_cases w)(k \<mapsto> snap)\<rparr>)) (\<lambda>_.
      bindA (modifyA (\<lambda>w. w\<lparr>mem_timelines := (mem_timelines w)(k \<mapsto>
        [\<lparr>te_at = openedAt, te_type = Created, te_actorId = None, te_message = Some ''Case opened'',
          te_fromStatus = None, te_toStatus = Some (cs_status snap), te_metadata = None\<rparr>])\<rparr>)) (\<lambda>_.
      returnA snap))))"

definition mem_load :: "case_ref \<Rightarrow> ('x mem_world_scheme, case_snapshot option) act" where
  "mem_load r = readA (\<lambda>w. mem_cases w (mem_key r))"

definition mem_require :: "case_ref \<Rightarrow> ('x mem_world_scheme, case_snapshot) act" where
  "mem_require r = bindA (mem_load r) (\<lambda>snap. case snap of
     None \<Rightarrow> throwA (JsError (''Case not found '' @ kind_name (ref_kind r) @ '':'' @ ref_id r))
   | Some x \<Rightarrow> returnA x)"

definition mem_put :: "case_ref \<Rightarrow> case_snapshot \<Rightarrow> ('x mem_world_scheme, case_snapshot) act" where
  "mem_put r next_snap = bindA (modifyA (\<lambda>w. w\<lparr>mem_cases := (mem_cases w)(mem_key r \<mapsto> next_snap)\<rparr>)) (\<lambda>_.
     returnA next_snap)"

definition mem_saveStatus :: "case_ref \<Rightarrow> status \<Rightarrow> string option \<Rightarrow> ('x mem_world_scheme, case_snapshot option) act" where
  "mem_saveStatus r x actor = bindA (mem_require r) (\<lambda>snap.
     bindA (if x \<in> set (cd_terminalStatuses (CASE_DEFINITIONS (ref_kind r)))
            then bindA newDate (\<lambda>d. returnA (Some d)) else returnA (cs_closedAt snap)) (\<lambda>closed.
     bindA (mem_put r (snap\<lparr>cs_status := x, cs_closedAt := closed\<rparr>)) (\<lambda>y. returnA (Some y))))"

definition mem_assign :: "case_ref \<Rightarrow> string \<Rightarrow> string option \<Rightarrow> ('x mem_world_scheme, case_snapshot option) act" where
  "mem_assign r assignee actor = bindA (mem_require r) (\<lambda>snap.
     bindA (mem_put r (snap\<lparr>cs_assigneeId := Some assignee\<rparr>)) (\<lambda>y. returnA (Some y)))"

definition mem_setPriority :: "case_ref \<Rightarrow> nat \<Rightarrow> string option \<Rightarrow> ('x mem_world_scheme, case_snapshot option) act" where
  "mem_setPriority r p actor = bindA (mem_require r) (\<lambda>snap.
     bindA (mem_put r (snap\<lparr>cs_priority := p,
       cs_dueAt := Some (computeDueAt (cs_openedAt snap) p (cd_sla (CASE_DEFINITIONS (ref_kind r))))\<rparr>)) (\<lambda>y.
     returnA (Some y)))"

definition push_to :: "(string \<rightharpoonup> 'a list) \<Rightarrow> string \<Rightarrow> 'a \<Rightarrow> (string \<rightharpoonup> 'a list)" where
  "push_to m k x = m(k \<mapsto> nullish (m k) [] @ [x])"

definition mem_addNote :: "case_ref \<Rightarrow> note_input \<Rightarrow> ('x mem_world_scheme, unit) act" where
  "mem_addNote r note = modifyA (\<lambda>w. w\<lparr>mem_notes := push_to (mem_notes w) (mem_key r) note\<rparr>)"

definition mem_addAttachment ::
  "case_ref \<Rightarrow> attachment_meta \<Rightarrow> string option \<Rightarrow> ('x mem_world_scheme, unit) act" where
  "mem_addAttachment r meta actor =
     modifyA (\<lambda>w. w\<lparr>mem_attachments := push_to (mem_attachments w) (mem_key r) meta\<rparr>)"

definition mem_appendTimeline :: "case_ref \<Rightarrow> timeline_entry \<Rightarrow> ('x mem_world_scheme, unit) act" where
  "mem_appendTimeline r entry =
     modifyA (\<lambda>w. w\<lparr>mem_timelines := push_to (mem_timelines w) (mem_key r) entry\<rparr>)"

definition mem_listTimeline :: "case_ref \<Rightarrow> ('x mem_world_scheme, timeline_entry list) act" where
  "mem_listTimeline r = readA (\<lambda>w. nullish (mem_timelines w (mem_key r)) [])"

definition mem_markEscalated :: "case_ref \<Rightarrow> int \<Rightarrow> string option \<Rightarrow> ('x mem_world_scheme, case_snapshot) act" where
  "mem_markEscalated r t actor = bindA (mem_require r) (\<lambda>snap.
     mem_put r (snap\<lparr>cs_escalatedAt := Some t\<rparr>))"

definition InMemoryCaseStore :: "'x mem_world_scheme case_store" where
  "InMemoryCaseStore =
     \<lparr>st_load = mem_load, st_saveStatus = mem_saveStatus, st_assign = mem_assign,
      st_setPriority = mem_setPriority, st_addNote = mem_addNote,
      st_addAttachment = mem_addAttachment, st_appendTimeline = mem_appendTimeline,
      st_listTimeline = Some mem_listTimeline, st_markEscalated = Some mem_markEscalated\<rparr>"

lemma InMemoryCaseStore_sel [simp]:
  "st_load InMemoryCaseStore = mem_load" "st_saveStatus InMemoryCaseStore = mem_saveStatus"
  "st_assign InMemoryCaseStore = mem_assign" "st_setPriority InMemoryCaseStore = mem_setPriority"
  "st_addNote InMemoryCaseStore = mem_addNote" "st_addAttachment InMemoryCaseStore = mem_addAttachment"
  "st_appendTimeline InMemoryCaseStore = mem_appendTimeline"
  "st_listTimeline InMemoryCaseStore = Some mem_listTimeline"
  "st_markEscalated InMemoryCaseStore = Some mem_markEscalated"
  by (simp_all add: InMemoryCaseStore_def)

section \<open>Lemmas\<close>

lemma mem_key_inj [simp]: "mem_key r = mem_key q \<longleftrightarrow> ref_kind r = ref_kind q \<and> ref_id r = ref_id q"
proof
  assume eq: "mem_key r = mem_key q"
  have "takeWhile (\<lambda>c. c \<noteq> CHR '':'') (mem_key x) = kind_name (ref_kind x)" for x
    using kind_name_no_colon [of "ref_kind x"] by (auto simp: mem_key_def takeWhile_append)
  then have "ref_kind r = ref_kind q" using eq kind_name_inj by metis
  with eq show "ref_kind r = ref_kind q \<and> ref_id r = ref_id q" by (simp add: mem_key_def)
qed (simp add: mem_key_def)

lemma newDate_apply [simp, act_simps]:
  "newDate w = (Inr (clock_at w (clock_reads w)), w\<lparr>clock_reads := Suc (clock_reads w)\<rparr>)"
  by (simp add: newDate_def)

lemma mem_load_apply [simp, act_simps]: "mem_load r w = (Inr (mem_cases w (mem_key r)), w)"
  by (simp add: mem_load_def)

lemma mem_require_apply [act_simps]:
  "mem_require r w = (case mem_cases w (mem_key r) of
     None \<Rightarrow> (Inl (JsError (''Case not found '' @ kind_name (ref_kind r) @ '':'' @ ref_id r)), w)
   | Some x \<Rightarrow> (Inr x, w))"
  by (simp add: mem_require_def split: option.splits)

lemma mem_put_apply [simp, act_simps]:
  "mem_put r x w = (Inr x, w\<lparr>mem_cases := (mem_cases w)(mem_key r \<mapsto> x)\<rparr>)"
  by (simp add: mem_put_def)

text \<open>The updating operations on a case that exists and on one that does not.\<close>

lemma mem_require_hit [simp]: "mem_cases w (mem_key r) = Some x \<Longrightarrow> mem_require r w = (Inr x, w)"
  by (simp add: mem_require_apply)

lemma mem_require_miss [simp]: "mem_cases w (mem_key r) = None \<Longrightarrow> mem_require r w =
    (Inl (JsError (''Case not found '' @ kind_name (ref_kind r) @ '':'' @ ref_id r)), w)"
  by (simp add: mem_require_apply)

definition mem_view :: "case_kind \<Rightarrow> 'x mem_world_scheme \<Rightarrow> string \<Rightarrow> case_snapshot option" where
  "mem_view k w i = mem_cases w (mem_key \<lparr>ref_kind = k, ref_id = i\<rparr>)"

definition mem_tl :: "case_kind \<Rightarrow> 'x mem_world_scheme \<Rightarrow> string \<Rightarrow> timeline_entry list" where
  "mem_tl k w i = nullish (mem_timelines w (mem_key \<lparr>ref_kind = k, ref_id = i\<rparr>)) []"

lemma mem_key_ref: "ref_kind r = k \<Longrightarrow> mem_key \<lparr>ref_kind = k, ref_id = ref_id r\<rparr> = mem_key r"
  by simp

lemma mem_key_eta [simp]: "mem_key \<lparr>ref_kind = ref_kind r, ref_id = ref_id r\<rparr> = mem_key r"
  by simp

lemma mem_view_hit: "ref_kind r = K \<Longrightarrow> mem_view K w (ref_id r) = Some x \<Longrightarrow> mem_cases w (mem_key r) = Some x"
  by (simp add: mem_view_def mem_key_ref)

lemma wp_newDate [simp]:
  "wp newDate w Q E = Q (clock_at w (clock_reads w)) (w\<lparr>clock_reads := Suc (clock_reads w)\<rparr>)"
  by (simp add: wp_def)

lemma wp_mem_require [simp]: "mem_cases w (mem_key r) = Some x \<Longrightarrow> wp (mem_require r) w Q E = Q x w"
  by (simp add: wp_def)

lemma wp_mem_put [simp]: "wp (mem_put r x) w Q E = Q x (w\<lparr>mem_cases := (mem_cases w)(mem_key r \<mapsto> x)\<rparr>)"
  by (simp add: wp_def)

interpretation memory: timeline_store "InMemoryCaseStore :: 'x mem_world_scheme case_store" K "\<lambda>_. True"
  "mem_view K" "mem_tl K"
proof
  fix s :: "'x mem_world_scheme" and r :: case_ref and snap x a
  assume r: "ref_kind r = K" and v: "mem_view K s (ref_id r) = Some snap"
  note hit = mem_view_hit [OF r v]
  show "ok (st_saveStatus InMemoryCaseStore r x a) s (\<lambda>res s'. \<exists>snap'. res = Some snap' \<and> True
      \<and> status_saved K snap x snap' \<and> mem_view K s' = (mem_view K s)(ref_id r \<mapsto> snap'))"
    using hit r by (auto simp: mem_saveStatus_def mem_view_def fun_eq_iff status_saved_def)
  show "ok (st_saveStatus InMemoryCaseStore r x a) s (\<lambda>_ s'. mem_tl K s' = mem_tl K s)"
    using hit by (auto simp: mem_saveStatus_def mem_tl_def fun_eq_iff)
next
  fix s :: "'x mem_world_scheme" and r :: case_ref and e
  assume "ref_kind r = K"
  then show "ok (st_appendTimeline InMemoryCaseStore r e) s
      (\<lambda>_ s'. \<exists>e'. same_entry e e' \<and> mem_tl K s' = (mem_tl K s)(ref_id r := mem_tl K s (ref_id r) @ [e']))"
    by (auto simp: mem_appendTimeline_def mem_tl_def push_to_def fun_eq_iff mem_key_ref intro!: exI [of _ e])
qed (auto simp: mem_view_def mem_appendTimeline_def)

end
