(* ===== verification/Case_Manager.thy ===== *)
theory Case_Manager
  imports Memory_Case_Store
begin

text \<open>
  The case manager (shared/case-management/case-manager.service.ts, case.events.ts). It works on
  whatever store is registered for a kind, so its operations are generic in the state; the clock,
  the publisher, the logger and the generator of case ids are in the environment record. A
  published event is the value its constructor gets.
\<close>

section \<open>Events (case.events.ts)\<close>

record case_payload =
  cp_kind :: case_kind
  cp_caseId :: string
  cp_status :: status
  cp_assigneeId :: "string option"
  cp_priority :: "nat option"

datatype case_event =
    CaseOpenedEvent case_payload
  | CaseStatusChangedEvent case_payload status status
  | CaseAssignedEvent case_payload
  | CaseNoteAddedEvent case_payload string
  | CaseEscalatedEvent case_payload string
  | CaseSlaBreachedEvent case_payload string
  | CaseClosedEvent case_payload

record 's case_env =
  ce_engine :: "('s, jsobj) engine_env"
  ce_newDate :: "('s, int) act"
  ce_publish :: "case_event \<Rightarrow> 's \<Rightarrow> 's"
  ce_log :: "string \<Rightarrow> 's \<Rightarrow> 's"
  ce_random :: "('s, string) act"

section \<open>The manager\<close>

definition not_found :: "string \<Rightarrow> exn" where
  "not_found what = AppException ''NOT_FOUND'' (what @ '' not found'') 404"

text \<open>Reading a property of null.\<close>

definition null_error :: "string \<Rightarrow> exn" where
  "null_error prop = JsError (''Cannot read properties of null (reading '' @ [CHR 0x27] @ prop @ [CHR 0x27] @ '')'')"

definition require :: "'s case_registry \<Rightarrow> case_ref \<Rightarrow> ('s, case_snapshot) act" where
  "require reg r =
     bindA (getStore reg (ref_kind r)) (\<lambda>store.
     bindA (st_load store r) (\<lambda>snap.
     case snap of None \<Rightarrow> throwA (not_found ''Case'') | Some x \<Rightarrow> returnA x))"

definition get_case :: "'s case_registry \<Rightarrow> case_ref \<Rightarrow> ('s, case_snapshot) act" where
  "get_case reg r =
     bindA (getStore reg (ref_kind r)) (\<lambda>store.
     bindA (st_load store r) (\<lambda>snap.
     case snap of None \<Rightarrow> throwA (not_found ''Case'') | Some x \<Rightarrow> returnA x))"

record open_input =
  oi_id :: "string option"
  oi_number :: "string option"
  oi_priority :: "nat option"
  oi_assigneeId :: "string option"
  oi_metadata :: "jsobj option"
  oi_actorId :: "string option"

definition openSupportCase ::
  "'x mem_world_scheme case_env \<Rightarrow> open_input \<Rightarrow> ('x mem_world_scheme, case_snapshot) act" where
  "openSupportCase env input =
     bindA (case oi_id input of Some i \<Rightarrow> returnA i | None \<Rightarrow> ce_random env) (\<lambda>i.
     bindA (mem_open support i (Some \<lparr>oo_number = oi_number input, oo_priority = oi_priority input,
       oo_status = Some ''open'', oo_assigneeId = oi_assigneeId input, oo_metadata = oi_metadata input\<rparr>)) (\<lambda>snap.
     bindA (modifyA (ce_publish env (CaseOpenedEvent \<lparr>cp_kind = support, cp_caseId = cs_id snap,
       cp_status = cs_status snap, cp_assigneeId = cs_assigneeId snap, cp_priority = Some (cs_priority snap)\<rparr>))) (\<lambda>_.
     bindA (readA (correlation (ce_engine env))) (\<lambda>corr.
     bindA (modifyA (ce_log env (''case opened kind=support id='' @ cs_id snap @ '' corr=''
       @ nullish corr ''undefined''))) (\<lambda>_.
     returnA snap)))))"

definition transitionCase ::
  "'s case_env \<Rightarrow> 's case_registry \<Rightarrow> case_ref \<Rightarrow> status \<Rightarrow> 's transition_case_options \<Rightarrow> ('s, case_snapshot) act" where
  "transitionCase env reg r to opts =
     (let def = getDefinition (ref_kind r) in
      bindA (getStore reg (ref_kind r)) (\<lambda>store.
      bindA (require reg r) (\<lambda>current.
      bindA (transition (ce_engine env) (cd_stateMachine def)
        \<lparr>opt_entityId = ref_id r, opt_from = cs_status current, opt_to = to,
         opt_actorId = tc_actorId opts, opt_reason = tc_reason opts,
         opt_metadata = Some (obj_spread [(''kind'', JStr (kind_name (ref_kind r)))] (nullish (tc_metadata opts) [])),
         opt_before = map_option (\<lambda>b ctx. b) (tc_before opts),
         opt_apply = (\<lambda>ctx. st_saveStatus store r to (tc_actorId opts)),
         opt_audit = Some (\<lambda>ctx. bindA (ce_newDate env) (\<lambda>d.
           st_appendTimeline store r \<lparr>te_at = d, te_type = Status_changed, te_actorId = tc_actorId opts,
             te_message = tc_reason opts, te_fromStatus = Some (ctx_from ctx),
             te_toStatus = Some (ctx_to ctx), te_metadata = None\<rparr>)),
         opt_after = None, opt_silent = None\<rparr>) (\<lambda>result.
      bindA (case Option.bind (res_result result) id of Some x \<Rightarrow> returnA x | None \<Rightarrow> require reg r) (\<lambda>snap.
      bindA (modifyA (ce_publish env (CaseStatusChangedEvent \<lparr>cp_kind = ref_kind r, cp_caseId = ref_id r,
        cp_status = cs_status snap, cp_assigneeId = cs_assigneeId snap, cp_priority = Some (cs_priority snap)\<rparr>
        (cs_status current) to))) (\<lambda>_.
      bindA (if to \<in> set (cd_terminalStatuses def) then
          modifyA (ce_publish env (CaseClosedEvent \<lparr>cp_kind = ref_kind r, cp_caseId = ref_id r,
            cp_status = to, cp_assigneeId = cs_assigneeId snap, cp_priority = Some (cs_priority snap)\<rparr>))
        else returnA ()) (\<lambda>_.
      bindA (case tc_after opts of None \<Rightarrow> returnA () | Some f \<Rightarrow> f snap) (\<lambda>_.
      returnA snap))))))))"

definition assignCase ::
  "'s case_env \<Rightarrow> 's case_registry \<Rightarrow> case_ref \<Rightarrow> string \<Rightarrow> string option \<Rightarrow> ('s, case_snapshot) act" where
  "assignCase env reg r assignee actor =
     bindA (getStore reg (ref_kind r)) (\<lambda>store.
     bindA (st_assign store r assignee actor) (\<lambda>snap.
     bindA (ce_newDate env) (\<lambda>d.
     bindA (st_appendTimeline store r \<lparr>te_at = d, te_type = Assigned, te_actorId = actor,
       te_message = Some (''Assigned to '' @ assignee), te_fromStatus = None, te_toStatus = None,
       te_metadata = None\<rparr>) (\<lambda>_.
     case snap of None \<Rightarrow> throwA (null_error ''status'') | Some x \<Rightarrow>
     bindA (modifyA (ce_publish env (CaseAssignedEvent \<lparr>cp_kind = ref_kind r, cp_caseId = ref_id r,
       cp_status = cs_status x, cp_assigneeId = Some assignee, cp_priority = Some (cs_priority x)\<rparr>))) (\<lambda>_.
     returnA x)))))"

definition due_json :: "date option \<Rightarrow> json" where
  "due_json d = (case d of None \<Rightarrow> JNull | Some x \<Rightarrow> JDate x)"

definition setPriorityCase ::
  "'s case_env \<Rightarrow> 's case_registry \<Rightarrow> case_ref \<Rightarrow> nat \<Rightarrow> string option \<Rightarrow> ('s, case_snapshot option) act" where
  "setPriorityCase env reg r p actor =
     bindA (getStore reg (ref_kind r)) (\<lambda>store.
     bindA (st_setPriority store r p actor) (\<lambda>snap.
     bindA (ce_newDate env) (\<lambda>d.
     bindA (st_appendTimeline store r \<lparr>te_at = d, te_type = Priority_changed, te_actorId = actor,
       te_message = Some (''Priority '' @ arrow @ '' P'' @ show_nat p), te_fromStatus = None,
       te_toStatus = None, te_metadata = Some [(''dueAt'', due_json (Option.bind snap cs_dueAt))]\<rparr>) (\<lambda>_.
     returnA snap))))"

definition addNoteCase ::
  "'s case_env \<Rightarrow> 's case_registry \<Rightarrow> case_ref \<Rightarrow> note_input \<Rightarrow> ('s, unit) act" where
  "addNoteCase env reg r note =
     bindA (getStore reg (ref_kind r)) (\<lambda>store.
     bindA (require reg r) (\<lambda>_.
     bindA (st_addNote store r note) (\<lambda>_.
     bindA (ce_newDate env) (\<lambda>d.
     bindA (st_appendTimeline store r \<lparr>te_at = d, te_type = Note, te_actorId = note_actorId note,
       te_message = Some (take 280 (note_body note)), te_fromStatus = None, te_toStatus = None,
       te_metadata = Some [(''internal'', JBool (nullish (note_internal note) False))]\<rparr>) (\<lambda>_.
     bindA (st_load store r) (\<lambda>loaded.
     case loaded of
       None \<Rightarrow> throwA (null_error ''status'')
     | Some x \<Rightarrow> modifyA (ce_publish env (CaseNoteAddedEvent \<lparr>cp_kind = ref_kind r,
         cp_caseId = ref_id r, cp_status = cs_status x, cp_assigneeId = None, cp_priority = None\<rparr>
         (take 120 (note_body note)))))))))) "

definition attachment_obj :: "attachment_meta \<Rightarrow> jsobj" where
  "attachment_obj m = concat (map (\<lambda>(k, v). case v of None \<Rightarrow> [] | Some x \<Rightarrow> [(k, JStr x)])
     [(''mediaFileId'', att_mediaFileId m), (''label'', att_label m), (''docType'', att_docType m),
      (''url'', att_url m)])"

definition addAttachmentCase ::
  "'s case_env \<Rightarrow> 's case_registry \<Rightarrow> case_ref \<Rightarrow> attachment_meta \<Rightarrow> string option \<Rightarrow> ('s, unit) act" where
  "addAttachmentCase env reg r meta actor =
     bindA (getStore reg (ref_kind r)) (\<lambda>store.
     bindA (require reg r) (\<lambda>_.
     bindA (st_addAttachment store r meta actor) (\<lambda>_.
     bindA (ce_newDate env) (\<lambda>d.
     st_appendTimeline store r \<lparr>te_at = d, te_type = Attachment, te_actorId = actor,
       te_message = Some (nullish (att_label meta) (nullish (att_docType meta) ''attachment'')),
       te_fromStatus = None, te_toStatus = None, te_metadata = Some (attachment_obj meta)\<rparr>))))"

definition timelineCase :: "'s case_registry \<Rightarrow> case_ref \<Rightarrow> ('s, timeline_entry list) act" where
  "timelineCase reg r =
     bindA (getStore reg (ref_kind r)) (\<lambda>store.
     bindA (require reg r) (\<lambda>_.
     case st_listTimeline store of Some f \<Rightarrow> f r | None \<Rightarrow> returnA []))"

record sla_opts =
  so_actorId :: "string option"
  so_now :: "int option"
  so_autoEscalate :: "bool option"

record sla_result =
  sr_responseBreached :: bool
  sr_resolveBreached :: bool
  sr_escalated :: bool
  sr_snapshot :: case_snapshot

definition shouldEscalate :: "escalation_rule option \<Rightarrow> case_snapshot \<Rightarrow> bool \<Rightarrow> bool \<Rightarrow> bool" where
  "shouldEscalate rules snap responseBreached resolveBreached = (case rules of None \<Rightarrow> False
     | Some ru \<Rightarrow> (unassignedPastResponse ru = Some True \<and> responseBreached)
         \<or> (unresolvedPastResolve ru = Some True \<and> resolveBreached)
         \<or> (case maxPriority ru of None \<Rightarrow> False
            | Some m \<Rightarrow> cs_priority snap \<le> m \<and> \<not> truthy_str (cs_assigneeId snap)))"

definition breach_payload :: "case_ref \<Rightarrow> case_snapshot \<Rightarrow> case_payload" where
  "breach_payload r snap = \<lparr>cp_kind = ref_kind r, cp_caseId = ref_id r, cp_status = cs_status snap,
     cp_assigneeId = None, cp_priority = Some (cs_priority snap)\<rparr>"

definition escalate ::
  "'s case_env \<Rightarrow> 's case_registry \<Rightarrow> 's case_store \<Rightarrow> case_ref \<Rightarrow> sla_opts \<Rightarrow> int \<Rightarrow> string \<Rightarrow> case_snapshot
     \<Rightarrow> ('s, case_snapshot) act" where
  "escalate env reg store r opts now reason snap =
     (let def = getDefinition (ref_kind r);
          target = Option.bind (cd_escalation def) escalateToStatus in
      bindA (case st_markEscalated store of
          Some f \<Rightarrow> f r now (so_actorId opts)
        | None \<Rightarrow> returnA (snap\<lparr>cs_escalatedAt := Some now\<rparr>)) (\<lambda>snap.
      bindA (st_appendTimeline store r \<lparr>te_at = now, te_type = Escalated, te_actorId = so_actorId opts,
        te_message = Some reason, te_fromStatus = None, te_toStatus = None, te_metadata = None\<rparr>) (\<lambda>_.
      bindA (modifyA (ce_publish env (CaseEscalatedEvent \<lparr>cp_kind = ref_kind r, cp_caseId = ref_id r,
        cp_status = cs_status snap, cp_assigneeId = cs_assigneeId snap,
        cp_priority = Some (cs_priority snap)\<rparr> reason))) (\<lambda>_.
      if so_autoEscalate opts \<noteq> Some False \<and> truthy_str target
         \<and> canTransition (cd_stateMachine def) (cs_status snap) (the target)
      then transitionCase env reg r (the target)
        \<lparr>tc_actorId = so_actorId opts, tc_reason = Some (''Escalation: '' @ reason), tc_metadata = None,
         tc_before = None, tc_after = None\<rparr>
      else returnA snap))))"

definition evaluateSla ::
  "'s case_env \<Rightarrow> 's case_registry \<Rightarrow> case_ref \<Rightarrow> sla_opts \<Rightarrow> ('s, sla_result) act" where
  "evaluateSla env reg r opts =
     (let def = getDefinition (ref_kind r) in
      bindA (getStore reg (ref_kind r)) (\<lambda>store.
      bindA (require reg r) (\<lambda>snap.
      bindA (case so_now opts of Some n \<Rightarrow> returnA n | None \<Rightarrow> ce_newDate env) (\<lambda>now.
      let responseBreached = isResponseBreached snap (cd_sla def) now;
          resolveBreached = isResolveBreached snap (cd_sla def) (cd_terminalStatuses def) now in
      bindA (if responseBreached
             then modifyA (ce_publish env (CaseSlaBreachedEvent (breach_payload r snap) ''response''))
             else returnA ()) (\<lambda>_.
      bindA (if resolveBreached
             then modifyA (ce_publish env (CaseSlaBreachedEvent (breach_payload r snap) ''resolve''))
             else returnA ()) (\<lambda>_.
      if shouldEscalate (cd_escalation def) snap responseBreached resolveBreached
         \<and> cs_escalatedAt snap = None
      then bindA (escalate env reg store r opts now
               (if responseBreached then ''response_sla'' else if resolveBreached then ''resolve_sla''
                else ''priority_unassigned'') snap) (\<lambda>snap'.
           returnA \<lparr>sr_responseBreached = responseBreached, sr_resolveBreached = resolveBreached,
             sr_escalated = True, sr_snapshot = snap'\<rparr>)
      else returnA \<lparr>sr_responseBreached = responseBreached, sr_resolveBreached = resolveBreached,
             sr_escalated = False, sr_snapshot = snap\<rparr>))))))"

text \<open>\<open>recordOpened\<close> sets the due date of the snapshot it was given; the result is that snapshot.\<close>

definition recordOpened ::
  "'s case_env \<Rightarrow> 's case_registry \<Rightarrow> case_ref \<Rightarrow> case_snapshot \<Rightarrow> ('s, case_snapshot) act" where
  "recordOpened env reg r snap =
     bindA (getStore reg (ref_kind r)) (\<lambda>store.
     bindA (st_appendTimeline store r \<lparr>te_at = cs_openedAt snap, te_type = Created, te_actorId = None,
       te_message = Some ''Case opened'', te_fromStatus = None, te_toStatus = Some (cs_status snap),
       te_metadata = None\<rparr>) (\<lambda>_.
     let snap' = (if cs_dueAt snap = None then
           snap\<lparr>cs_dueAt := Some (computeDueAt (cs_openedAt snap) (cs_priority snap)
             (cd_sla (getDefinition (ref_kind r))))\<rparr> else snap) in
     bindA (modifyA (ce_publish env (CaseOpenedEvent \<lparr>cp_kind = ref_kind r, cp_caseId = ref_id r,
       cp_status = cs_status snap', cp_assigneeId = cs_assigneeId snap',
       cp_priority = Some (cs_priority snap')\<rparr>))) (\<lambda>_.
     returnA snap')))"

section \<open>The manager over any store\<close>

text \<open>
  A store registered for its kind, in an environment whose clock, logger and publisher leave the
  cases alone.
\<close>

locale managed_store = case_store st K I view
  for st :: "'s case_store" and K I view +
  fixes env :: "'s case_env" and reg :: "'s case_registry" and other :: "'s \<Rightarrow> 'o"
  assumes registered: "reg K = Some st"
    and publish_keeps: "I s \<Longrightarrow> I (ce_publish env e s) \<and> view (ce_publish env e s) = view s
      \<and> other (ce_publish env e s) = other s"
    and engine_publish_keeps: "I s \<Longrightarrow> I (publish_event (ce_engine env) c b s)
      \<and> view (publish_event (ce_engine env) c b s) = view s
      \<and> other (publish_event (ce_engine env) c b s) = other s"
    and engine_log_keeps: "I s \<Longrightarrow> I (logger_log (ce_engine env) c x s)
      \<and> view (logger_log (ce_engine env) c x s) = view s
      \<and> other (logger_log (ce_engine env) c x s) = other s"
    and engine_debug_keeps: "I s \<Longrightarrow> I (logger_debug (ce_engine env) m s)
      \<and> view (logger_debug (ce_engine env) m s) = view s
      \<and> other (logger_debug (ce_engine env) m s) = other s"
    and newDate_keeps: "I s \<Longrightarrow> ok (ce_newDate env) s (\<lambda>d s'. I s' \<and> view s' = view s \<and> other s' = other s)"
begin

lemmas env_keeps = publish_keeps engine_publish_keeps engine_log_keeps engine_debug_keeps

lemma require_hit:
  "I s \<Longrightarrow> ref_kind r = K \<Longrightarrow> view s (ref_id r) = Some x \<Longrightarrow> require reg r s = (Inr x, s)"
  by (simp add: require_def getStore_def registered load_view)

lemma require_miss:
  "I s \<Longrightarrow> ref_kind r = K \<Longrightarrow> view s (ref_id r) = None \<Longrightarrow>
     require reg r s = (Inl (AppException ''NOT_FOUND'' ''Case not found'' 404), s)"
  by (simp add: require_def getStore_def registered load_view not_found_def)

lemma wp_require:
  "I s \<Longrightarrow> ref_kind r = K \<Longrightarrow> view s (ref_id r) = Some x \<Longrightarrow> wp (require reg r) s Q E = Q x s"
  by (simp add: wp_def require_hit)

lemma transition_missing:
  "I s \<Longrightarrow> ref_kind r = K \<Longrightarrow> view s (ref_id r) = None \<Longrightarrow>
     transitionCase env reg r to opts s = (Inl (AppException ''NOT_FOUND'' ''Case not found'' 404), s)"
  by (simp add: transitionCase_def Let_def getStore_def registered require_miss)

lemma transition_conflict:
  assumes "I s" "ref_kind r = K" "view s (ref_id r) = Some snap"
    and "\<not> canTransition (cd_stateMachine (getDefinition K)) (cs_status snap) to"
  shows "transitionCase env reg r to opts s =
    (Inl (invalid_transition (sm_name (cd_stateMachine (getDefinition K))) (cs_status snap) to), s)"
  using assms by (simp add: transitionCase_def Let_def getStore_def registered require_hit transition_illegal)

end

locale managed_timeline = timeline_store st K I view tl + managed_store st K I view env reg tl
  for st :: "'s case_store" and K I view tl env reg
begin

text \<open>An accepted change: the new status is stored and the timeline gets one entry for it.\<close>

lemma transition_accepted:
  assumes s: "I s" and r: "ref_kind r = K" and v: "view s (ref_id r) = Some snap"
    and legal: "canTransition (cd_stateMachine (getDefinition K)) (cs_status snap) to"
    and new: "to \<noteq> cs_status snap" and hooks: "tc_before opts = None" "tc_after opts = None"
  shows "ok (transitionCase env reg r to opts) s (\<lambda>snap' s'. I s'
    \<and> status_saved K snap to snap' \<and> view s' = (view s)(ref_id r \<mapsto> snap')
    \<and> (\<exists>e. tl s' = (tl s)(ref_id r := tl s (ref_id r) @ [e]) \<and> te_type e = Status_changed
        \<and> te_fromStatus e = Some (cs_status snap) \<and> te_toStatus e = Some to))"
proof -
  have decl: "declared K to"
    using legal new lifecycle.targets_of [OF getDefinition_graph [of K]]
    by (auto simp: canTransition_def declared_def getStateMachine_def getDefinition_def)
  have save: "ok (st_saveStatus st r to (tc_actorId opts)) s (\<lambda>res s'. (\<exists>snap'. res = Some snap' \<and> I s'
      \<and> status_saved K snap to snap' \<and> view s' = (view s)(ref_id r \<mapsto> snap')) \<and> tl s' = tl s)"
    using wp_conj [OF saveStatus_view [OF s r decl v] saveStatus_tl [OF s r decl v]] by simp
  have append: "I u \<Longrightarrow> view u (ref_id r) \<noteq> None \<Longrightarrow> te_type e \<in> set entry_types \<Longrightarrow> ok (st_appendTimeline st r e) u (\<lambda>_ s'. (I s' \<and> view s' = view u)
      \<and> (\<exists>e'. same_entry e e' \<and> tl s' = (tl u)(ref_id r := tl u (ref_id r) @ [e'])))" for u e
    using wp_conj [OF appendTimeline_view [OF _ r] appendTimeline_tl [OF _ r]] by simp
  have date: "I u \<Longrightarrow> (\<And>d u'. I u' \<Longrightarrow> view u' = view u \<Longrightarrow> tl u' = tl u \<Longrightarrow> Q d u') \<Longrightarrow>
      ok (ce_newDate env) u Q" for u Q
    by (rule wp_mono [OF newDate_keeps]) auto
  show ?thesis
    unfolding transitionCase_def Let_def
    using s r v legal new hooks
    apply (simp add: getStore_def registered wp_require wp_transition_proper make_ctx_def run_hook_def)
    apply (rule wp_mono [OF save])
     apply (elim conjE exE, rule date)
      apply (simp add: env_keeps)
     apply (rule wp_mono [OF append])
        apply (auto simp: env_keeps same_entry_def entry_types_def)
    done
qed

end

end
