(* ===== verification/Case_Invariant.thy ===== *)
theory Case_Invariant
  imports Case_Manager
begin

text \<open>
  The invariant of the cases kept in memory, over every sequence of the manager's operations: the
  timeline of a case tells its history, the history is a path of its lifecycle graph, it is
  escalated at most once, and a case in a terminal status has a closing time. Nothing in the
  repository passes hooks to the manager's \<open>transition\<close>, so the operations carry none.
\<close>

section \<open>Operations in sequence\<close>

datatype case_op =
    OpOpen open_input
  | OpTransition case_ref status "string option" "string option" "jsobj option"
  | OpAssign case_ref string "string option"
  | OpSetPriority case_ref nat "string option"
  | OpAddNote case_ref note_input
  | OpAddAttachment case_ref attachment_meta "string option"
  | OpEvaluateSla case_ref sla_opts
  | OpRecordOpened case_ref case_snapshot

text \<open>The registry after the constructor: memory for support cases and repair jobs.\<close>

definition default_registry :: "'x mem_world_scheme case_registry" where
  "default_registry = registerStore repair_job InMemoryCaseStore
     (registerStore support InMemoryCaseStore (\<lambda>_. None))"

abbreviation no_hooks :: "string option \<Rightarrow> string option \<Rightarrow> jsobj option \<Rightarrow> 's transition_case_options" where
  "no_hooks actor reason md \<equiv> \<lparr>tc_actorId = actor, tc_reason = reason, tc_metadata = md,
     tc_before = None, tc_after = None\<rparr>"

fun run_op :: "'x mem_world_scheme case_env \<Rightarrow> case_op \<Rightarrow> ('x mem_world_scheme, unit) act" where
  "run_op env (OpOpen i) = bindA (openSupportCase env i) (\<lambda>_. returnA ())"
| "run_op env (OpTransition r to actor reason md) =
     bindA (transitionCase env default_registry r to (no_hooks actor reason md)) (\<lambda>_. returnA ())"
| "run_op env (OpAssign r a actor) = bindA (assignCase env default_registry r a actor) (\<lambda>_. returnA ())"
| "run_op env (OpSetPriority r p actor) =
     bindA (setPriorityCase env default_registry r p actor) (\<lambda>_. returnA ())"
| "run_op env (OpAddNote r n) = addNoteCase env default_registry r n"
| "run_op env (OpAddAttachment r m actor) = addAttachmentCase env default_registry r m actor"
| "run_op env (OpEvaluateSla r opts) = bindA (evaluateSla env default_registry r opts) (\<lambda>_. returnA ())"
| "run_op env (OpRecordOpened r snap) =
     bindA (recordOpened env default_registry r snap) (\<lambda>_. returnA ())"

text \<open>A caller goes on after an operation that threw; what it wrote stays.\<close>

definition run_ops :: "'x mem_world_scheme case_env \<Rightarrow> case_op list \<Rightarrow> 'x mem_world_scheme \<Rightarrow> 'x mem_world_scheme" where
  "run_ops env ops w = fold (\<lambda>op v. snd (run_op env op v)) ops w"

text \<open>
  An environment whose publisher, logger and id generator do not reach into the store, and whose
  clock is the one of the world.
\<close>

locale quiet_case_env =
  fixes env :: "'x mem_world_scheme case_env"
  assumes publish_quiet: "mem_cases (ce_publish env e w) = mem_cases w"
      "mem_timelines (ce_publish env e w) = mem_timelines w"
    and log_quiet: "mem_cases (ce_log env m w) = mem_cases w"
      "mem_timelines (ce_log env m w) = mem_timelines w"
    and debug_quiet: "mem_cases (logger_debug (ce_engine env) m w) = mem_cases w"
      "mem_timelines (logger_debug (ce_engine env) m w) = mem_timelines w"
    and engine_log_quiet: "mem_cases (logger_log (ce_engine env) c x w) = mem_cases w"
      "mem_timelines (logger_log (ce_engine env) c x w) = mem_timelines w"
    and engine_publish_quiet: "mem_cases (publish_event (ce_engine env) c b w) = mem_cases w"
      "mem_timelines (publish_event (ce_engine env) c b w) = mem_timelines w"
    and clock: "ce_newDate env = newDate"
    and random_quiet: "ok (ce_random env) w (\<lambda>i w'. mem_cases w' = mem_cases w \<and> mem_timelines w' = mem_timelines w)"
begin

lemmas quiet = publish_quiet log_quiet debug_quiet engine_log_quiet engine_publish_quiet

end

sublocale quiet_case_env \<subseteq> support: managed_timeline InMemoryCaseStore support "\<lambda>_. True"
  "mem_view support" "mem_tl support" env default_registry
  by unfold_locales
    (auto simp: quiet clock mem_view_def mem_tl_def fun_eq_iff default_registry_def registerStore_def)

sublocale quiet_case_env \<subseteq> repair: managed_timeline InMemoryCaseStore repair_job "\<lambda>_. True"
  "mem_view repair_job" "mem_tl repair_job" env default_registry
  by unfold_locales
    (auto simp: quiet clock mem_view_def mem_tl_def fun_eq_iff default_registry_def registerStore_def)

section \<open>The invariant\<close>

definition moves :: "timeline_entry list \<Rightarrow> status list" where
  "moves es = map (\<lambda>e. the (te_toStatus e)) (filter (\<lambda>e. te_type e = Status_changed) es)"

definition escalations :: "timeline_entry list \<Rightarrow> nat" where
  "escalations es = length (filter (\<lambda>e. te_type e = Escalated) es)"

definition snap_ok :: "case_ref \<Rightarrow> case_snapshot \<Rightarrow> timeline_entry list \<Rightarrow> bool" where
  "snap_ok r snap es \<longleftrightarrow> cs_kind snap = ref_kind r \<and> cs_id snap = ref_id r
     \<and> es \<noteq> [] \<and> te_type (hd es) = Created
     \<and> (\<exists>s0. te_toStatus (hd es) = Some s0 \<and> s0 \<in> set (statuses (transitions (getStateMachine (ref_kind r))))
           \<and> lifecycle_path (transitions (getStateMachine (ref_kind r))) s0 (moves es) (cs_status snap))
     \<and> escalations es = (if cs_escalatedAt snap = None then 0 else 1)
     \<and> (cs_status snap \<in> set (cd_terminalStatuses (getDefinition (ref_kind r))) \<longrightarrow> cs_closedAt snap \<noteq> None)"

definition cases_ok :: "(string \<rightharpoonup> case_snapshot) \<Rightarrow> (string \<rightharpoonup> timeline_entry list) \<Rightarrow> bool" where
  "cases_ok cs ts \<longleftrightarrow> (\<forall>r. case cs (mem_key r) of None \<Rightarrow> True
     | Some snap \<Rightarrow> snap_ok r snap (nullish (ts (mem_key r)) []))"

abbreviation mem_inv :: "'x mem_world_scheme \<Rightarrow> bool" where
  "mem_inv w \<equiv> cases_ok (mem_cases w) (mem_timelines w)"

lemma cases_okD: "cases_ok cs ts \<Longrightarrow> cs (mem_key r) = Some snap \<Longrightarrow> snap_ok r snap (nullish (ts (mem_key r)) [])"
  unfolding cases_ok_def by (metis option.simps(5))

lemma mem_key_eq: "mem_key q = mem_key r \<longleftrightarrow> q = r"
  by (cases q; cases r) (simp add: mem_key_inj)

lemma cases_ok_put_push:
  "cases_ok cs ts \<Longrightarrow> snap_ok r snap (nullish (ts (mem_key r)) [] @ [e]) \<Longrightarrow>
     cases_ok (cs(mem_key r \<mapsto> snap)) (push_to ts (mem_key r) e)"
  by (auto simp: cases_ok_def push_to_def mem_key_eq simp del: mem_key_inj split: option.splits)

lemma cases_ok_open:
  "cases_ok cs ts \<Longrightarrow> snap_ok r snap es \<Longrightarrow> cases_ok (cs(mem_key r \<mapsto> snap)) (ts(mem_key r \<mapsto> es))"
  by (auto simp: cases_ok_def mem_key_eq simp del: mem_key_inj split: option.splits)

lemma cases_ok_put:
  "cases_ok cs ts \<Longrightarrow> snap_ok r snap (nullish (ts (mem_key r)) []) \<Longrightarrow> cases_ok (cs(mem_key r \<mapsto> snap)) ts"
  by (simp add: cases_ok_def mem_key_eq del: mem_key_inj)

lemma cases_ok_push:
  "cases_ok cs ts \<Longrightarrow> (\<And>snap. cs (mem_key r) = Some snap \<Longrightarrow> snap_ok r snap (nullish (ts (mem_key r)) [] @ [e]))
     \<Longrightarrow> cases_ok cs (push_to ts (mem_key r) e)"
  by (simp add: cases_ok_def push_to_def mem_key_eq split: option.splits del: mem_key_inj)

text \<open>Entries that are neither a change of status nor an escalation.\<close>

lemma snap_ok_append:
  "snap_ok r snap es \<Longrightarrow> te_type e \<noteq> Status_changed \<Longrightarrow> te_type e \<noteq> Escalated \<Longrightarrow> snap_ok r snap (es @ [e])"
  by (auto simp: snap_ok_def moves_def escalations_def)

lemma snap_ok_cong:
  assumes "snap_ok r snap es" "cs_kind snap' = cs_kind snap" "cs_id snap' = cs_id snap"
    "cs_status snap' = cs_status snap" "cs_escalatedAt snap' = cs_escalatedAt snap"
    "cs_closedAt snap' = cs_closedAt snap"
  shows "snap_ok r snap' es"
  using assms by (simp add: snap_ok_def)

lemma lifecycle_path_append:
  "lifecycle_path T s us v \<Longrightarrow> u \<in> set (nullish (map_of T v) []) \<Longrightarrow> lifecycle_path T s (us @ [u]) u"
  by (induction rule: lifecycle_path.induct) auto

lemma snap_ok_moved:
  assumes "snap_ok r snap es" "te_type e = Status_changed" "te_toStatus e = Some x"
    and "canTransition (cd_stateMachine (getDefinition (ref_kind r))) (cs_status snap) x" "cs_status snap \<noteq> x"
    and "status_saved (ref_kind r) snap x snap'"
  shows "snap_ok r snap' (es @ [e])"
  using assms
  by (auto simp: snap_ok_def moves_def escalations_def canTransition_def getStateMachine_def getDefinition_def
      status_saved_def intro: lifecycle_path_append)

lemma snap_ok_escalated:
  "snap_ok r snap es \<Longrightarrow> te_type e = Escalated \<Longrightarrow> cs_escalatedAt snap = None \<Longrightarrow>
     snap_ok r (snap\<lparr>cs_escalatedAt := Some t\<rparr>) (es @ [e])"
  by (auto simp: snap_ok_def moves_def escalations_def)

section \<open>Every operation keeps it\<close>

definition in_memory :: "case_kind \<Rightarrow> bool" where
  "in_memory k \<longleftrightarrow> k = support \<or> k = repair_job"

lemma default_registry_eq: "default_registry k = (if in_memory k then Some InMemoryCaseStore else None)"
  by (simp add: default_registry_def registerStore_def in_memory_def)

text \<open>The store of a kind is absent, and the operation throws, or it is the memory store.\<close>

lemma wp_getStore:
  "wp (getStore default_registry k) w Q E =
     (if in_memory k then Q InMemoryCaseStore w
      else E (JsError (''No CaseStore registered for kind='' @ kind_name k)) w)"
  by (simp add: getStore_def default_registry_eq)

lemma wp_require_mem:
  "wp (require default_registry r) w Q E =
     (if in_memory (ref_kind r) then (case mem_cases w (mem_key r) of None \<Rightarrow> E (not_found ''Case'') w | Some x \<Rightarrow> Q x w)
      else E (JsError (''No CaseStore registered for kind='' @ kind_name (ref_kind r))) w)"
  by (auto simp: require_def wp_getStore mem_load_def split: option.split)

lemma wp_mem_require_all:
  "wp (mem_require r) w Q E = (case mem_cases w (mem_key r) of
     None \<Rightarrow> E (JsError (''Case not found '' @ kind_name (ref_kind r) @ '':'' @ ref_id r)) w | Some x \<Rightarrow> Q x w)"
  by (auto simp: mem_require_def mem_load_def split: option.split)

lemmas mem_op_defs = mem_saveStatus_def mem_assign_def mem_setPriority_def mem_addNote_def
  mem_addAttachment_def mem_appendTimeline_def mem_markEscalated_def mem_load_def wp_getStore wp_require_mem
  wp_mem_require_all

context quiet_case_env
begin

lemma transition_keeps:
  assumes w: "mem_inv w"
  shows "wp (transitionCase env default_registry r to (no_hooks actor reason md)) w (\<lambda>_. mem_inv) (\<lambda>_. mem_inv)"
proof (cases "mem_cases w (mem_key r)")
  case None
  then show ?thesis using w by (simp add: transitionCase_def mem_op_defs)
next
  case (Some snap)
  let ?d = "cd_stateMachine (getDefinition (ref_kind r))"
  have sok: "snap_ok r snap (nullish (mem_timelines w (mem_key r)) [])"
    using cases_okD [OF w Some] .
  consider "\<not> canTransition ?d (cs_status snap) to" | "canTransition ?d (cs_status snap) to" "cs_status snap = to"
    | "canTransition ?d (cs_status snap) to" "cs_status snap \<noteq> to"
    by blast
  then show ?thesis
  proof cases
    case 1
    then show ?thesis using w Some by (simp add: transitionCase_def mem_op_defs wp_transition_illegal)
  next
    case 2
    then show ?thesis using w Some by (simp add: transitionCase_def mem_op_defs wp_transition_same quiet)
  next
    case 3
    have moved: "snap_ok r snap' (nullish (mem_timelines w (mem_key r)) [] @ [e])"
      if "te_type e = Status_changed" "te_toStatus e = Some to" "status_saved (ref_kind r) snap to snap'"
      for e snap'
      using snap_ok_moved [OF sok] that 3 by blast
    show ?thesis using w Some 3
      by (auto simp: transitionCase_def mem_op_defs wp_transition_proper run_hook_def make_ctx_def clock quiet
          status_saved_def intro!: cases_ok_put_push moved)
  qed
qed

lemma mem_open_keeps:
  "mem_inv w \<Longrightarrow> wp (mem_open support i (Some (o1\<lparr>oo_status := Some ''open''\<rparr>))) w (\<lambda>_. mem_inv) E"
  by (auto simp: mem_open_def Let_def snap_ok_def moves_def escalations_def getStateMachine_def getDefinition_def
      CASE_DEFINITIONS_def supportCaseStateMachine_def statuses_def intro!: cases_ok_open)

lemma open_keeps:
  assumes "mem_inv w"
  shows "wp (openSupportCase env i) w (\<lambda>_. mem_inv) (\<lambda>_. mem_inv)"
proof -
  let ?o = "\<lparr>oo_number = oi_number i, oo_priority = oi_priority i, oo_status = Some ''open'',
    oo_assigneeId = oi_assigneeId i, oo_metadata = oi_metadata i\<rparr>"
  have opened: "mem_inv u \<Longrightarrow> wp (mem_open support j (Some ?o)) u (\<lambda>_ v. mem_inv v) (\<lambda>_ v. mem_inv v)" for u j
    using mem_open_keeps [of u j ?o] by simp
  have "ok (case oi_id i of Some j \<Rightarrow> returnA j | None \<Rightarrow> ce_random env) w (\<lambda>_. mem_inv)"
    using assms wp_mono [OF random_quiet] by (cases "oi_id i") auto
  then show ?thesis
    unfolding openSupportCase_def wp_bindA by (rule wp_mono) (auto simp: quiet intro: wp_mono [OF opened])
qed

lemma assign_keeps:
  "mem_inv w \<Longrightarrow> wp (assignCase env default_registry r a actor) w (\<lambda>_. mem_inv) (\<lambda>_. mem_inv)"
  by (auto simp: assignCase_def mem_op_defs clock quiet split: option.split
      intro!: cases_ok_put_push snap_ok_append intro: snap_ok_cong dest: cases_okD)

lemma setPriority_keeps:
  "mem_inv w \<Longrightarrow> wp (setPriorityCase env default_registry r p actor) w (\<lambda>_. mem_inv) (\<lambda>_. mem_inv)"
  by (auto simp: setPriorityCase_def mem_op_defs clock quiet split: option.split
      intro!: cases_ok_put_push snap_ok_append intro: snap_ok_cong dest: cases_okD)

lemma addNote_keeps:
  "mem_inv w \<Longrightarrow> wp (addNoteCase env default_registry r n) w (\<lambda>_. mem_inv) (\<lambda>_. mem_inv)"
  by (auto simp: addNoteCase_def mem_op_defs clock quiet split: option.split
      intro!: cases_ok_push snap_ok_append dest: cases_okD)

lemma addAttachment_keeps:
  "mem_inv w \<Longrightarrow> wp (addAttachmentCase env default_registry r m actor) w (\<lambda>_. mem_inv) (\<lambda>_. mem_inv)"
  by (auto simp: addAttachmentCase_def mem_op_defs clock quiet split: option.split
      intro!: cases_ok_push snap_ok_append dest: cases_okD)

lemma recordOpened_keeps:
  "mem_inv w \<Longrightarrow> wp (recordOpened env default_registry r snap) w (\<lambda>_. mem_inv) (\<lambda>_. mem_inv)"
  by (auto simp: recordOpened_def Let_def mem_op_defs clock quiet split: option.split
      intro!: cases_ok_push snap_ok_append dest: cases_okD)

lemma escalate_keeps:
  assumes "mem_inv w" "mem_cases w (mem_key r) = Some snap" "cs_escalatedAt snap = None" "in_memory (ref_kind r)"
  shows "wp (escalate env default_registry InMemoryCaseStore r opts now reason snap) w (\<lambda>_. mem_inv) (\<lambda>_. mem_inv)"
  using assms cases_okD [OF assms(1,2)]
  by (auto simp: escalate_def Let_def mem_op_defs quiet
      intro!: transition_keeps cases_ok_put_push snap_ok_escalated)

lemma evaluateSla_keeps:
  "mem_inv w \<Longrightarrow> wp (evaluateSla env default_registry r opts) w (\<lambda>_. mem_inv) (\<lambda>_. mem_inv)"
  by (auto simp: evaluateSla_def Let_def mem_op_defs clock quiet split: option.split
      intro!: escalate_keeps)

lemmas support_accepted = support.transition_accepted [OF TrueI]
lemmas support_conflict = support.transition_conflict [OF TrueI]

lemma run_op_keeps: "mem_inv w \<Longrightarrow> mem_inv (snd (run_op env op w))"
proof -
  assume w: "mem_inv w"
  note kept = open_keeps [OF w] transition_keeps [OF w] assign_keeps [OF w] setPriority_keeps [OF w]
    addNote_keeps [OF w] addAttachment_keeps [OF w] evaluateSla_keeps [OF w] recordOpened_keeps [OF w]
  have "wp (run_op env op) w (\<lambda>_. mem_inv) (\<lambda>_. mem_inv)"
    using kept by (cases op) simp_all
  then show ?thesis by (auto simp: wp_def split: prod.splits sum.splits)
qed

lemma run_ops_keep: "mem_inv w \<Longrightarrow> mem_inv (run_ops env ops w)"
  by (induction ops arbitrary: w) (simp_all add: run_ops_def run_op_keeps)

end

section \<open>A process with an outbox\<close>

text \<open>
  The environment of a running process, as far as the cases are concerned: published events and
  transitions and log lines are kept in order, and ids come from a counter.
\<close>

record case_world = mem_world +
  cw_events :: "case_event list"
  cw_transitions :: "jsobj transition_context list"
  cw_logs :: "string list"
  cw_ids :: nat

definition process_env :: "'x case_world_scheme case_env" where
  "process_env = \<lparr>ce_engine = \<lparr>logger_debug = (\<lambda>m w. w\<lparr>cw_logs := cw_logs w @ [m]\<rparr>),
       logger_log = (\<lambda>c x w. w\<lparr>cw_logs := cw_logs w @ [ctx_to c]\<rparr>),
       publish_event = (\<lambda>c b w. w\<lparr>cw_transitions := cw_transitions w @ [c]\<rparr>),
       correlation = (\<lambda>w. None)\<rparr>,
     ce_newDate = newDate,
     ce_publish = (\<lambda>e w. w\<lparr>cw_events := cw_events w @ [e]\<rparr>),
     ce_log = (\<lambda>m w. w\<lparr>cw_logs := cw_logs w @ [m]\<rparr>),
     ce_random = (\<lambda>w. (Inr (''case_'' @ show_nat (cw_ids w)), w\<lparr>cw_ids := Suc (cw_ids w)\<rparr>))\<rparr>"

interpretation process: quiet_case_env "process_env :: 'x case_world_scheme case_env"
  by unfold_locales (simp_all add: process_env_def wp_def)

section \<open>Properties\<close>

text \<open>
  C8: the history of cases in memory. Whatever operations of the manager are run, failing ones
  included, every case's timeline begins with its creation, the statuses of its status entries are
  a path of its lifecycle graph from its first status to its current one (so its status is a
  declared one), it has been escalated at most once, exactly when it is marked escalated, and a
  case in a terminal status has a closing time.
\<close>

theorem case_history_is_lifecycle_path:
  assumes "quiet_case_env env" "mem_cases w = (\<lambda>_. None)"
    and "mem_view k (run_ops env ops w) i = Some snap"
  shows "\<exists>e es s0. mem_tl k (run_ops env ops w) i = e # es \<and> te_type e = Created \<and> te_toStatus e = Some s0
    \<and> lifecycle_path (transitions (getStateMachine k)) s0 (moves (e # es)) (cs_status snap)
    \<and> cs_status snap \<in> set (statuses (transitions (getStateMachine k)))
    \<and> escalations (e # es) = (if cs_escalatedAt snap = None then 0 else 1)
    \<and> (cs_status snap \<in> set (cd_terminalStatuses (getDefinition k)) \<longrightarrow> cs_closedAt snap \<noteq> None)"
proof -
  have "mem_inv w" using assms(2) by (simp add: cases_ok_def)
  then have "mem_inv (run_ops env ops w)" by (rule quiet_case_env.run_ops_keep [OF assms(1)])
  then have ok: "snap_ok \<lparr>ref_kind = k, ref_id = i\<rparr> snap (mem_tl k (run_ops env ops w) i)"
    using assms(3) cases_okD unfolding mem_view_def mem_tl_def by blast
  then obtain e es where "mem_tl k (run_ops env ops w) i = e # es"
    by (auto simp: snap_ok_def neq_Nil_conv)
  with ok lifecycle.path_declared [OF getDefinition_graph [of k]] show ?thesis
    by (auto simp: snap_ok_def getStateMachine_def getDefinition_def)
qed

text \<open>
  a support case changes status when and only when its graph allows it: an accepted change
  returns the case in the new status, which later loads see, and adds exactly one entry to its
  timeline, which names the old and the new status.
\<close>

theorem support_transition_recorded:
  assumes "quiet_case_env env" "mem_view support w (ref_id r) = Some snap" "ref_kind r = support"
    and "canTransition supportCaseStateMachine (cs_status snap) to" "to \<noteq> cs_status snap"
  shows "\<exists>snap' w' e. transitionCase env default_registry r to (no_hooks actor reason md) w = (Inr snap', w')
    \<and> cs_status snap' = to \<and> mem_view support w' = (mem_view support w)(ref_id r \<mapsto> snap')
    \<and> mem_tl support w' = (mem_tl support w)(ref_id r := mem_tl support w (ref_id r) @ [e])
    \<and> te_type e = Status_changed \<and> te_fromStatus e = Some (cs_status snap) \<and> te_toStatus e = Some to"
proof -
  have graph: "cd_stateMachine (getDefinition support) = supportCaseStateMachine"
    by (simp add: getDefinition_def CASE_DEFINITIONS_def)
  show ?thesis
    using okD [OF quiet_case_env.support_accepted [OF assms(1,3,2), of to "no_hooks actor reason md"]]
      assms(4,5) graph by (auto simp: status_saved_def)
qed

text \<open>Witnesses: a support case opened with a fixed clock and then moved.\<close>

definition empty_world :: case_world where
  "empty_world = \<lparr>clock_at = (\<lambda>n. 1000 * int n), clock_reads = 0, mem_cases = (\<lambda>_. None),
     mem_timelines = (\<lambda>_. None), mem_notes = (\<lambda>_. None), mem_attachments = (\<lambda>_. None),
     cw_events = [], cw_transitions = [], cw_logs = [], cw_ids = 0\<rparr>"

definition demo_open :: open_input where
  "demo_open = \<lparr>oi_id = Some ''a'', oi_number = None, oi_priority = None, oi_assigneeId = None,
     oi_metadata = None, oi_actorId = None\<rparr>"

definition demo_ref :: case_ref where
  "demo_ref = \<lparr>ref_kind = support, ref_id = ''a''\<rparr>"

definition demo_ops :: "case_op list" where
  "demo_ops = [OpOpen demo_open, OpTransition demo_ref ''cancelled'' None None None,
     OpTransition demo_ref ''open'' None None None]"

theorem case_history_is_lifecycle_path_witness:
  "\<exists>snap. mem_view support (run_ops process_env demo_ops empty_world) ''a'' = Some snap
     \<and> cs_status snap = ''cancelled'' \<and> cs_closedAt snap \<noteq> None"
proof -
  have "map_option cs_status (mem_view support (run_ops process_env demo_ops empty_world) ''a'') = Some ''cancelled''"
    by code_simp
  then obtain snap where v: "mem_view support (run_ops process_env demo_ops empty_world) ''a'' = Some snap"
      "cs_status snap = ''cancelled''" by auto
  moreover have "mem_cases empty_world = (\<lambda>_. None)" by (simp add: empty_world_def)
  ultimately have "cs_closedAt snap \<noteq> None"
    using case_history_is_lifecycle_path [OF process.quiet_case_env_axioms _ v(1)]
    by (auto simp: getDefinition_def CASE_DEFINITIONS_def)
  with v show ?thesis by blast
qed

theorem support_transition_recorded_witness:
  "\<exists>snap' w' e. transitionCase process_env default_registry demo_ref ''assigned'' (no_hooks None None None)
       (run_ops process_env [OpOpen demo_open] empty_world) = (Inr snap', w')
     \<and> mem_tl support w' ''a'' = mem_tl support (run_ops process_env [OpOpen demo_open] empty_world) ''a'' @ [e]
     \<and> te_toStatus e = Some ''assigned''"
proof -
  let ?w = "run_ops process_env [OpOpen demo_open] empty_world"
  have "map_option cs_status (mem_view support ?w (ref_id demo_ref)) = Some ''open''" by code_simp
  then obtain snap where v: "mem_view support ?w (ref_id demo_ref) = Some snap" "cs_status snap = ''open''" by auto
  have "canTransition supportCaseStateMachine (cs_status snap) ''assigned''" "''assigned'' \<noteq> cs_status snap"
    unfolding v(2) by code_simp+
  moreover have "ref_kind demo_ref = support" "ref_id demo_ref = ''a''" by (simp_all add: demo_ref_def)
  ultimately show ?thesis
    using support_transition_recorded [OF process.quiet_case_env_axioms v(1), of "''assigned''" None None None]
    by auto
qed

end
