(* ===== verification/Warranty_Stores.thy ===== *)
theory Warranty_Stores
  imports Case_Invariant
begin

text \<open>
  The database stores of the warranty module (modules/warranty/stores): claims, RMAs, service
  tickets and repair jobs. The tables are lists of rows with the columns the stores read and write
  (database/schema.prisma), in the order the rows were inserted. Of the database client the model
  has: a lookup by primary key, an update that fails when no row matches, an insert whose
  \<open>created_at\<close> is the next reading of the clock and which fails when a foreign key or an enum
  column does not admit the value. Rows of \<open>findMany\<close> come in an order of the database's choice
  among equal keys: the ordering is a parameter.
\<close>

section \<open>Tables\<close>

record claim_row =
  wc_id :: string
  wc_claim_number :: string
  wc_status :: status
  wc_submitted_at :: int
  wc_resolved_at :: "int option"
  wc_deleted_at :: "int option"
  wc_updated_by :: "string option"

record rma_row =
  rm_id :: string
  rm_rma_number :: string
  rm_status :: status
  rm_requested_at :: int
  rm_completed_at :: "int option"
  rm_deleted_at :: "int option"
  rm_updated_by :: "string option"

record ticket_row =
  tk_id :: string
  tk_ticket_number :: string
  tk_status :: status
  tk_priority :: int
  tk_technician_id :: "string option"
  tk_service_sla :: "(int \<times> int) option"
  tk_opened_at :: int
  tk_assigned_at :: "int option"
  tk_closed_at :: "int option"
  tk_deleted_at :: "int option"
  tk_updated_by :: "string option"

record job_row =
  rj_id :: string
  rj_repair_number :: string
  rj_ticket_id :: string
  rj_technician_id :: "string option"
  rj_started_at :: "int option"
  rj_completed_at :: "int option"
  rj_outcome :: string
  rj_repair_notes :: "string option"
  rj_created_at :: int
  rj_deleted_at :: "int option"
  rj_updated_by :: "string option"

record audit_row =
  au_ticket_id :: "string option"
  au_claim_id :: "string option"
  au_repair_job_id :: "string option"
  au_action :: string
  au_actor_id :: "string option"
  au_metadata :: "jsobj option"
  au_created_at :: int
  au_deleted_at :: "int option"

record history_row =
  hs_entity_id :: string
  hs_from_status :: "status option"
  hs_to_status :: status
  hs_notes :: "string option"
  hs_actor_id :: "string option"
  hs_changed_at :: int
  hs_deleted_at :: "int option"

record document_row =
  dc_ticket_id :: "string option"
  dc_claim_id :: "string option"
  dc_media_file_id :: "string option"
  dc_doc_type :: string
  dc_label :: "string option"
  dc_created_by :: "string option"

record service_world = case_world +
  sw_claims :: "claim_row list"
  sw_rmas :: "rma_row list"
  sw_tickets :: "ticket_row list"
  sw_jobs :: "job_row list"
  sw_audit :: "audit_row list"
  sw_claim_history :: "history_row list"
  sw_ticket_history :: "history_row list"
  sw_claim_documents :: "document_row list"
  sw_service_documents :: "document_row list"
  sw_technicians :: "string list"
  sw_media_files :: "string list"

section \<open>The database client\<close>

definition enum_check :: "case_kind \<Rightarrow> status \<Rightarrow> ('s, unit) act" where
  "enum_check k x = throwIf (\<not> declared k x) (JsError ''Invalid value for argument status'')"

definition audit_create :: "audit_row \<Rightarrow> ('x service_world_scheme, unit) act" where
  "audit_create row =
     bindA (readA (\<lambda>w. fk_ok (au_ticket_id row) (map tk_id (sw_tickets w))
       \<and> fk_ok (au_claim_id row) (map wc_id (sw_claims w))
       \<and> fk_ok (au_repair_job_id row) (map rj_id (sw_jobs w)))) (\<lambda>fk.
     bindA (throwIf (\<not> fk) (prisma_error ''P2003'')) (\<lambda>_.
     bindA newDate (\<lambda>d. modifyA (\<lambda>w. w\<lparr>sw_audit := sw_audit w @ [row\<lparr>au_created_at := d\<rparr>]\<rparr>))))"

definition audit_of :: "string \<Rightarrow> string option \<Rightarrow> jsobj \<Rightarrow> audit_row" where
  "audit_of action actor meta = \<lparr>au_ticket_id = None, au_claim_id = None, au_repair_job_id = None,
     au_action = action, au_actor_id = actor, au_metadata = Some meta, au_created_at = 0,
     au_deleted_at = None\<rparr>"

definition opt_prop :: "string \<Rightarrow> string option \<Rightarrow> jsobj" where
  "opt_prop k v = (case v of None \<Rightarrow> [] | Some x \<Rightarrow> [(k, JStr x)])"

text \<open>A timeline entry as the JSON column holds it, and the columns read back as an entry.\<close>

definition entry_json :: "timeline_entry \<Rightarrow> jsobj" where
  "entry_json e = [(''at'', JDate (Some (te_at e))), (''type'', JStr (te_type e))]
     @ opt_prop ''actorId'' (te_actorId e) @ opt_prop ''message'' (te_message e)
     @ opt_prop ''fromStatus'' (te_fromStatus e) @ opt_prop ''toStatus'' (te_toStatus e)
     @ (case te_metadata e of None \<Rightarrow> [] | Some m \<Rightarrow> [(''metadata'', JObj m)])"

definition str_prop :: "jsobj \<Rightarrow> string \<Rightarrow> string option" where
  "str_prop o1 k = (case obj_get o1 k of JStr x \<Rightarrow> Some x | _ \<Rightarrow> None)"

definition row_entry :: "audit_row \<Rightarrow> timeline_entry" where
  "row_entry r = (let meta = nullish (au_metadata r) [] in
     \<lparr>te_at = au_created_at r, te_type = nullish (str_prop meta ''type'') Status_changed,
      te_actorId = au_actor_id r, te_message = str_prop meta ''message'',
      te_fromStatus = str_prop meta ''fromStatus'', te_toStatus = str_prop meta ''toStatus'',
      te_metadata = (case obj_get meta ''metadata'' of JObj m \<Rightarrow> Some m | _ \<Rightarrow> None)\<rparr>)"

section \<open>Warranty claims (warranty-claim.store.ts)\<close>

definition claim_snapshot :: "claim_row \<Rightarrow> case_snapshot" where
  "claim_snapshot row = \<lparr>cs_kind = warranty_claim, cs_id = wc_id row, cs_number = Some (wc_claim_number row),
     cs_status = wc_status row, cs_assigneeId = None, cs_priority = 3, cs_openedAt = wc_submitted_at row,
     cs_dueAt = Some (computeDueAt (wc_submitted_at row) 3 (cd_sla (CASE_DEFINITIONS warranty_claim))),
     cs_escalatedAt = None, cs_closedAt = wc_resolved_at row, cs_metadata = None\<rparr>"

definition claim_view :: "'x service_world_scheme \<Rightarrow> string \<Rightarrow> case_snapshot option" where
  "claim_view w i = map_option claim_snapshot (find (\<lambda>c. wc_id c = i \<and> wc_deleted_at c = None) (sw_claims w))"

definition claim_load :: "case_ref \<Rightarrow> ('x service_world_scheme, case_snapshot option) act" where
  "claim_load r = (if ref_kind r \<noteq> warranty_claim then returnA None else readA (\<lambda>w. claim_view w (ref_id r)))"

definition claim_appendTimeline :: "case_ref \<Rightarrow> timeline_entry \<Rightarrow> ('x service_world_scheme, unit) act" where
  "claim_appendTimeline r entry =
     audit_create ((audit_of (''case.'' @ te_type entry) (te_actorId entry) (entry_json entry))
       \<lparr>au_claim_id := Some (ref_id r)\<rparr>)"

definition claim_history_create :: "history_row \<Rightarrow> ('x service_world_scheme, unit) act" where
  "claim_history_create row =
     bindA (readA (\<lambda>w. fk_ok (Some (hs_entity_id row)) (map wc_id (sw_claims w)))) (\<lambda>fk.
     bindA (throwIf (\<not> fk) (prisma_error ''P2003'')) (\<lambda>_.
     modifyA (\<lambda>w. w\<lparr>sw_claim_history := sw_claim_history w @ [row]\<rparr>)))"

definition claim_saveStatus :: "case_ref \<Rightarrow> status \<Rightarrow> string option \<Rightarrow> ('x service_world_scheme, case_snapshot option) act" where
  "claim_saveStatus r x actor =
     bindA (readA (\<lambda>w. find (\<lambda>c. wc_id c = ref_id r) (sw_claims w))) (\<lambda>found.
     bindA (row_or_throw found) (\<lambda>current.
     bindA (if x \<in> {''closed'', ''rejected'', ''cancelled''} then bindA newDate (\<lambda>d. returnA (Some d))
            else returnA (wc_resolved_at current)) (\<lambda>resolved.
     bindA (enum_check warranty_claim x) (\<lambda>_.
     bindA (modifyA (\<lambda>w. w\<lparr>sw_claims := update_where (\<lambda>c. wc_id c = ref_id r)
       (\<lambda>c. c\<lparr>wc_status := x, wc_resolved_at := resolved,
             wc_updated_by := (case actor of None \<Rightarrow> wc_updated_by c | Some a \<Rightarrow> Some a)\<rparr>) (sw_claims w)\<rparr>)) (\<lambda>_.
     bindA newDate (\<lambda>d.
     bindA (claim_history_create \<lparr>hs_entity_id = ref_id r, hs_from_status = Some (wc_status current),
       hs_to_status = x, hs_notes = None, hs_actor_id = actor, hs_changed_at = d, hs_deleted_at = None\<rparr>) (\<lambda>_.
     claim_load r)))))))"

definition claim_assign :: "case_ref \<Rightarrow> string \<Rightarrow> string option \<Rightarrow> ('x service_world_scheme, case_snapshot option) act" where
  "claim_assign r assignee actor =
     bindA newDate (\<lambda>d.
     bindA (claim_appendTimeline r \<lparr>te_at = d, te_type = Assigned, te_actorId = actor,
       te_message = Some (''Assigned '' @ assignee), te_fromStatus = None, te_toStatus = None,
       te_metadata = Some [(''assigneeId'', JStr assignee)]\<rparr>) (\<lambda>_.
     claim_load r))"

definition with_priority :: "nat \<Rightarrow> case_snapshot option \<Rightarrow> case_snapshot option" where
  "with_priority p snap = map_option (\<lambda>x. x\<lparr>cs_priority := p\<rparr>) snap"

definition claim_setPriority :: "case_ref \<Rightarrow> nat \<Rightarrow> string option \<Rightarrow> ('x service_world_scheme, case_snapshot option) act" where
  "claim_setPriority r p actor =
     bindA newDate (\<lambda>d.
     bindA (claim_appendTimeline r \<lparr>te_at = d, te_type = Priority_changed, te_actorId = actor,
       te_message = Some (''P'' @ show_nat p), te_fromStatus = None, te_toStatus = None,
       te_metadata = Some [(''priority'', JInt (int p))]\<rparr>) (\<lambda>_.
     bindA (claim_load r) (\<lambda>snap. returnA (with_priority p snap))))"

definition claim_addNote :: "case_ref \<Rightarrow> note_input \<Rightarrow> ('x service_world_scheme, unit) act" where
  "claim_addNote r note =
     bindA (claim_load r) (\<lambda>snap.
     case snap of None \<Rightarrow> throwA (null_error ''status'') | Some x \<Rightarrow>
     bindA newDate (\<lambda>d.
     claim_history_create \<lparr>hs_entity_id = ref_id r, hs_from_status = None, hs_to_status = cs_status x,
       hs_notes = Some (note_body note), hs_actor_id = note_actorId note, hs_changed_at = d,
       hs_deleted_at = None\<rparr>))"

definition claim_addAttachment :: "case_ref \<Rightarrow> attachment_meta \<Rightarrow> string option \<Rightarrow> ('x service_world_scheme, unit) act" where
  "claim_addAttachment r meta actor =
     bindA (readA (\<lambda>w. fk_ok (Some (ref_id r)) (map wc_id (sw_claims w))
       \<and> fk_ok (att_mediaFileId meta) (sw_media_files w))) (\<lambda>fk.
     bindA (throwIf (\<not> fk) (prisma_error ''P2003'')) (\<lambda>_.
     modifyA (\<lambda>w. w\<lparr>sw_claim_documents := sw_claim_documents w @
       [\<lparr>dc_ticket_id = None, dc_claim_id = Some (ref_id r), dc_media_file_id = att_mediaFileId meta,
         dc_doc_type = nullish (att_docType meta) ''other'', dc_label = att_label meta,
         dc_created_by = actor\<rparr>]\<rparr>)))"

text \<open>\<open>findMany\<close> with \<open>orderBy\<close>: \<open>ord\<close> is the order the database gives the matching rows.\<close>

definition claim_rows :: "'x service_world_scheme \<Rightarrow> string \<Rightarrow> audit_row list" where
  "claim_rows w i = filter (\<lambda>a. au_claim_id a = Some i \<and> au_deleted_at a = None) (sw_audit w)"

definition claim_listTimeline ::
  "(audit_row list \<Rightarrow> audit_row list) \<Rightarrow> case_ref \<Rightarrow> ('x service_world_scheme, timeline_entry list) act" where
  "claim_listTimeline ord r = readA (\<lambda>w. map row_entry (ord (claim_rows w (ref_id r))))"

definition WarrantyClaimStore :: "(audit_row list \<Rightarrow> audit_row list) \<Rightarrow> 'x service_world_scheme case_store" where
  "WarrantyClaimStore ord =
     \<lparr>st_load = claim_load, st_saveStatus = claim_saveStatus, st_assign = claim_assign,
      st_setPriority = claim_setPriority, st_addNote = claim_addNote,
      st_addAttachment = claim_addAttachment, st_appendTimeline = claim_appendTimeline,
      st_listTimeline = Some (claim_listTimeline ord), st_markEscalated = None\<rparr>"

section \<open>RMA requests (rma.store.ts)\<close>

definition rma_snapshot :: "rma_row \<Rightarrow> case_snapshot" where
  "rma_snapshot row = \<lparr>cs_kind = rma_case, cs_id = rm_id row, cs_number = Some (rm_rma_number row),
     cs_status = rm_status row, cs_assigneeId = None, cs_priority = 3, cs_openedAt = rm_requested_at row,
     cs_dueAt = Some (computeDueAt (rm_requested_at row) 3 (cd_sla (CASE_DEFINITIONS rma_case))),
     cs_escalatedAt = None, cs_closedAt = rm_completed_at row, cs_metadata = None\<rparr>"

definition rma_view :: "'x service_world_scheme \<Rightarrow> string \<Rightarrow> case_snapshot option" where
  "rma_view w i = map_option rma_snapshot (find (\<lambda>c. rm_id c = i \<and> rm_deleted_at c = None) (sw_rmas w))"

definition rma_load :: "case_ref \<Rightarrow> ('x service_world_scheme, case_snapshot option) act" where
  "rma_load r = (if ref_kind r \<noteq> rma_case then returnA None else readA (\<lambda>w. rma_view w (ref_id r)))"

definition rma_appendTimeline :: "case_ref \<Rightarrow> timeline_entry \<Rightarrow> ('x service_world_scheme, unit) act" where
  "rma_appendTimeline r entry =
     audit_create (audit_of (''case.'' @ te_type entry) (te_actorId entry)
       (obj_put ''rmaId'' (JStr (ref_id r)) (entry_json entry)))"

definition rma_saveStatus :: "case_ref \<Rightarrow> status \<Rightarrow> string option \<Rightarrow> ('x service_world_scheme, case_snapshot option) act" where
  "rma_saveStatus r x actor =
     bindA (readA (\<lambda>w. find (\<lambda>c. rm_id c = ref_id r) (sw_rmas w))) (\<lambda>found.
     bindA (row_or_throw found) (\<lambda>current.
     bindA (if x \<in> {''completed'', ''rejected'', ''cancelled''} then bindA newDate (\<lambda>d. returnA (Some d))
            else returnA (rm_completed_at current)) (\<lambda>completed.
     bindA (enum_check rma_case x) (\<lambda>_.
     bindA (modifyA (\<lambda>w. w\<lparr>sw_rmas := update_where (\<lambda>c. rm_id c = ref_id r)
       (\<lambda>c. c\<lparr>rm_status := x, rm_completed_at := completed,
             rm_updated_by := (case actor of None \<Rightarrow> rm_updated_by c | Some a \<Rightarrow> Some a)\<rparr>) (sw_rmas w)\<rparr>)) (\<lambda>_.
     bindA newDate (\<lambda>d.
     bindA (rma_appendTimeline r \<lparr>te_at = d, te_type = Status_changed, te_actorId = actor, te_message = None,
       te_fromStatus = Some (rm_status current), te_toStatus = Some x, te_metadata = None\<rparr>) (\<lambda>_.
     rma_load r)))))))"

definition rma_assign :: "case_ref \<Rightarrow> string \<Rightarrow> string option \<Rightarrow> ('x service_world_scheme, case_snapshot option) act" where
  "rma_assign r assignee actor =
     bindA newDate (\<lambda>d.
     bindA (rma_appendTimeline r \<lparr>te_at = d, te_type = Assigned, te_actorId = actor,
       te_message = Some (''Assigned '' @ assignee), te_fromStatus = None, te_toStatus = None,
       te_metadata = Some [(''assigneeId'', JStr assignee)]\<rparr>) (\<lambda>_.
     rma_load r))"

definition rma_setPriority :: "case_ref \<Rightarrow> nat \<Rightarrow> string option \<Rightarrow> ('x service_world_scheme, case_snapshot option) act" where
  "rma_setPriority r p actor =
     bindA newDate (\<lambda>d.
     bindA (rma_appendTimeline r \<lparr>te_at = d, te_type = Priority_changed, te_actorId = actor,
       te_message = None, te_fromStatus = None, te_toStatus = None,
       te_metadata = Some [(''priority'', JInt (int p))]\<rparr>) (\<lambda>_.
     bindA (rma_load r) (\<lambda>snap. returnA (with_priority p snap))))"

definition rma_addNote :: "case_ref \<Rightarrow> note_input \<Rightarrow> ('x service_world_scheme, unit) act" where
  "rma_addNote r note = audit_create (audit_of ''rma.note'' (note_actorId note)
     [(''rmaId'', JStr (ref_id r)), (''body'', JStr (note_body note))])"

text \<open>
  \<open>serviceDocument.create\<close>: the foreign keys, and the check of the table (028_warranty.sql) that a
  document has a ticket or a claim.
\<close>

definition document_create :: "document_row \<Rightarrow> ('x service_world_scheme, unit) act" where
  "document_create d =
     bindA (readA (\<lambda>w. fk_ok (dc_ticket_id d) (map tk_id (sw_tickets w)) \<and> fk_ok (dc_media_file_id d) (sw_media_files w))) (\<lambda>fk.
     bindA (throwIf (\<not> fk) (prisma_error ''P2003'')) (\<lambda>_.
     bindA (throwIf (dc_ticket_id d = None \<and> dc_claim_id d = None) (prisma_error ''chk_service_documents_target'')) (\<lambda>_.
     modifyA (\<lambda>w. w\<lparr>sw_service_documents := sw_service_documents w @ [d]\<rparr>))))"

definition rma_addAttachment :: "case_ref \<Rightarrow> attachment_meta \<Rightarrow> string option \<Rightarrow> ('x service_world_scheme, unit) act" where
  "rma_addAttachment r meta actor = document_create
     \<lparr>dc_ticket_id = None, dc_claim_id = None, dc_media_file_id = att_mediaFileId meta,
      dc_doc_type = nullish (att_docType meta) ''rma'',
      dc_label = Some (nullish (att_label meta) (''RMA '' @ ref_id r)), dc_created_by = actor\<rparr>"

definition rma_listTimeline ::
  "(audit_row list \<Rightarrow> audit_row list) \<Rightarrow> case_ref \<Rightarrow> ('x service_world_scheme, timeline_entry list) act" where
  "rma_listTimeline ord r = readA (\<lambda>w.
     map (\<lambda>a. (row_entry a)\<lparr>te_metadata := None\<rparr>)
       (filter (\<lambda>a. str_prop (nullish (au_metadata a) []) ''rmaId'' = Some (ref_id r))
         (take 200 (ord (filter (\<lambda>a. au_deleted_at a = None \<and> take 5 (au_action a) = ''case.'') (sw_audit w))))))"

definition RmaStore :: "(audit_row list \<Rightarrow> audit_row list) \<Rightarrow> 'x service_world_scheme case_store" where
  "RmaStore ord =
     \<lparr>st_load = rma_load, st_saveStatus = rma_saveStatus, st_assign = rma_assign,
      st_setPriority = rma_setPriority, st_addNote = rma_addNote, st_addAttachment = rma_addAttachment,
      st_appendTimeline = rma_appendTimeline, st_listTimeline = Some (rma_listTimeline ord),
      st_markEscalated = None\<rparr>"

section \<open>Service tickets (service-ticket.store.ts)\<close>

definition clampPriority :: "int \<Rightarrow> nat" where
  "clampPriority p = (if p \<le> 1 then 1 else if p \<ge> 5 then 5 else nat p)"

text \<open>The ticket's own SLA, when it has one, replaces the minutes and keeps the multipliers.\<close>

definition ticket_sla :: "ticket_row \<Rightarrow> sla_policy" where
  "ticket_sla row = (let def = cd_sla (CASE_DEFINITIONS service_ticket) in
     case tk_service_sla row of None \<Rightarrow> def
     | Some (resp, res) \<Rightarrow> def\<lparr>responseMinutes := of_int resp, resolveMinutes := of_int res\<rparr>)"

definition ticket_snapshot :: "ticket_row \<Rightarrow> case_snapshot" where
  "ticket_snapshot row = (let p = clampPriority (tk_priority row) in
     \<lparr>cs_kind = service_ticket, cs_id = tk_id row, cs_number = Some (tk_ticket_number row),
      cs_status = tk_status row, cs_assigneeId = tk_technician_id row, cs_priority = p,
      cs_openedAt = tk_opened_at row, cs_dueAt = Some (computeDueAt (tk_opened_at row) p (ticket_sla row)),
      cs_escalatedAt = None, cs_closedAt = tk_closed_at row, cs_metadata = None\<rparr>)"

definition ticket_view :: "'x service_world_scheme \<Rightarrow> string \<Rightarrow> case_snapshot option" where
  "ticket_view w i = map_option ticket_snapshot (find (\<lambda>c. tk_id c = i \<and> tk_deleted_at c = None) (sw_tickets w))"

definition ticket_load :: "case_ref \<Rightarrow> ('x service_world_scheme, case_snapshot option) act" where
  "ticket_load r = (if ref_kind r \<noteq> service_ticket then returnA None else readA (\<lambda>w. ticket_view w (ref_id r)))"

definition ticket_appendTimeline :: "case_ref \<Rightarrow> timeline_entry \<Rightarrow> ('x service_world_scheme, unit) act" where
  "ticket_appendTimeline r entry =
     audit_create ((audit_of (''case.'' @ te_type entry) (te_actorId entry) (entry_json entry))
       \<lparr>au_ticket_id := Some (ref_id r)\<rparr>)"

definition ticket_history_create :: "history_row \<Rightarrow> ('x service_world_scheme, unit) act" where
  "ticket_history_create row =
     bindA (readA (\<lambda>w. fk_ok (Some (hs_entity_id row)) (map tk_id (sw_tickets w)))) (\<lambda>fk.
     bindA (throwIf (\<not> fk) (prisma_error ''P2003'')) (\<lambda>_.
     modifyA (\<lambda>w. w\<lparr>sw_ticket_history := sw_ticket_history w @ [row]\<rparr>)))"

definition ticket_update :: "case_ref \<Rightarrow> (ticket_row \<Rightarrow> ticket_row) \<Rightarrow> ('x service_world_scheme, unit) act" where
  "ticket_update r f =
     bindA (readA (\<lambda>w. find (\<lambda>c. tk_id c = ref_id r) (sw_tickets w))) (\<lambda>found.
     bindA (row_or_throw found) (\<lambda>_.
     modifyA (\<lambda>w. w\<lparr>sw_tickets := update_where (\<lambda>c. tk_id c = ref_id r) f (sw_tickets w)\<rparr>)))"

definition ticket_saveStatus :: "case_ref \<Rightarrow> status \<Rightarrow> string option \<Rightarrow> ('x service_world_scheme, case_snapshot option) act" where
  "ticket_saveStatus r x actor =
     bindA (readA (\<lambda>w. find (\<lambda>c. tk_id c = ref_id r) (sw_tickets w))) (\<lambda>found.
     bindA (row_or_throw found) (\<lambda>current.
     bindA (if x \<in> {''closed'', ''cancelled''} then bindA newDate (\<lambda>d. returnA (Some d))
            else returnA (tk_closed_at current)) (\<lambda>closed.
     bindA (enum_check service_ticket x) (\<lambda>_.
     bindA (ticket_update r (\<lambda>c. c\<lparr>tk_status := x, tk_closed_at := closed,
       tk_updated_by := upd_by actor (tk_updated_by c)\<rparr>)) (\<lambda>_.
     bindA newDate (\<lambda>d.
     bindA (ticket_history_create \<lparr>hs_entity_id = ref_id r, hs_from_status = Some (tk_status current),
       hs_to_status = x, hs_notes = None, hs_actor_id = actor, hs_changed_at = d, hs_deleted_at = None\<rparr>) (\<lambda>_.
     ticket_load r)))))))"

definition ticket_assign :: "case_ref \<Rightarrow> string \<Rightarrow> string option \<Rightarrow> ('x service_world_scheme, case_snapshot option) act" where
  "ticket_assign r assignee actor =
     bindA newDate (\<lambda>d.
     bindA (readA (\<lambda>w. fk_ok (Some assignee) (sw_technicians w))) (\<lambda>fk.
     bindA (throwIf (\<not> fk) (prisma_error ''P2003'')) (\<lambda>_.
     bindA (ticket_update r (\<lambda>c. c\<lparr>tk_technician_id := Some assignee, tk_assigned_at := Some d,
       tk_status := ''assigned'', tk_updated_by := upd_by actor (tk_updated_by c)\<rparr>)) (\<lambda>_.
     bindA newDate (\<lambda>d2.
     bindA (ticket_appendTimeline r \<lparr>te_at = d2, te_type = Assigned, te_actorId = actor,
       te_message = Some (''Technician '' @ assignee), te_fromStatus = None, te_toStatus = Some ''assigned'',
       te_metadata = None\<rparr>) (\<lambda>_.
     ticket_load r))))))"

definition ticket_setPriority :: "case_ref \<Rightarrow> nat \<Rightarrow> string option \<Rightarrow> ('x service_world_scheme, case_snapshot option) act" where
  "ticket_setPriority r p actor =
     bindA (ticket_update r (\<lambda>c. c\<lparr>tk_priority := int p, tk_updated_by := upd_by actor (tk_updated_by c)\<rparr>)) (\<lambda>_.
     bindA newDate (\<lambda>d.
     bindA (ticket_appendTimeline r \<lparr>te_at = d, te_type = Priority_changed, te_actorId = actor,
       te_message = None, te_fromStatus = None, te_toStatus = None,
       te_metadata = Some [(''priority'', JInt (int p))]\<rparr>) (\<lambda>_.
     ticket_load r)))"

definition ticket_addNote :: "case_ref \<Rightarrow> note_input \<Rightarrow> ('x service_world_scheme, unit) act" where
  "ticket_addNote r note =
     bindA (ticket_load r) (\<lambda>snap.
     case snap of None \<Rightarrow> throwA (null_error ''status'') | Some x \<Rightarrow>
     bindA newDate (\<lambda>d.
     ticket_history_create \<lparr>hs_entity_id = ref_id r, hs_from_status = None, hs_to_status = cs_status x,
       hs_notes = Some (note_body note), hs_actor_id = note_actorId note, hs_changed_at = d,
       hs_deleted_at = None\<rparr>))"

definition ticket_addAttachment :: "case_ref \<Rightarrow> attachment_meta \<Rightarrow> string option \<Rightarrow> ('x service_world_scheme, unit) act" where
  "ticket_addAttachment r meta actor = document_create
     \<lparr>dc_ticket_id = Some (ref_id r), dc_claim_id = None, dc_media_file_id = att_mediaFileId meta,
      dc_doc_type = nullish (att_docType meta) ''other'', dc_label = att_label meta, dc_created_by = actor\<rparr>"

definition history_entry :: "history_row \<Rightarrow> timeline_entry" where
  "history_entry h = \<lparr>te_at = hs_changed_at h,
     te_type = (if truthy_str (hs_notes h) \<and> \<not> truthy_str (hs_from_status h) then Note else Status_changed),
     te_actorId = hs_actor_id h, te_message = hs_notes h, te_fromStatus = hs_from_status h,
     te_toStatus = Some (hs_to_status h), te_metadata = None\<rparr>"

text \<open>\<open>Array.prototype.sort\<close> is stable.\<close>

definition ticket_listTimeline ::
  "(audit_row list \<Rightarrow> audit_row list) \<Rightarrow> (history_row list \<Rightarrow> history_row list) \<Rightarrow> case_ref
     \<Rightarrow> ('x service_world_scheme, timeline_entry list) act" where
  "ticket_listTimeline ord hord r = readA (\<lambda>w.
     sort_key te_at
       (map history_entry (hord (filter (\<lambda>h. hs_entity_id h = ref_id r \<and> hs_deleted_at h = None) (sw_ticket_history w)))
        @ map (\<lambda>a. (row_entry a)\<lparr>te_metadata := None\<rparr>)
            (ord (filter (\<lambda>a. au_ticket_id a = Some (ref_id r) \<and> au_deleted_at a = None) (sw_audit w)))))"

definition ServiceTicketStore ::
  "(audit_row list \<Rightarrow> audit_row list) \<Rightarrow> (history_row list \<Rightarrow> history_row list) \<Rightarrow> 'x service_world_scheme case_store" where
  "ServiceTicketStore ord hord =
     \<lparr>st_load = ticket_load, st_saveStatus = ticket_saveStatus, st_assign = ticket_assign,
      st_setPriority = ticket_setPriority, st_addNote = ticket_addNote,
      st_addAttachment = ticket_addAttachment, st_appendTimeline = ticket_appendTimeline,
      st_listTimeline = Some (ticket_listTimeline ord hord), st_markEscalated = None\<rparr>"

section \<open>Repair jobs (repair-job.store.ts)\<close>

text \<open>
  The status of a repair job is in the newest audit row with action \<open>case.status\<close>; \<open>newest\<close> is what
  the database returns first for \<open>orderBy created_at desc\<close>.
\<close>

definition status_rows :: "'x service_world_scheme \<Rightarrow> string \<Rightarrow> audit_row list" where
  "status_rows w i = filter (\<lambda>a. au_repair_job_id a = Some i \<and> au_action a = ''case.status''
     \<and> au_deleted_at a = None) (sw_audit w)"

definition readCaseStatus :: "(audit_row list \<Rightarrow> audit_row option) \<Rightarrow> 'x service_world_scheme \<Rightarrow> string \<Rightarrow> status" where
  "readCaseStatus newest w i =
     nullish (Option.bind (newest (status_rows w i)) (\<lambda>a. Option.bind (au_metadata a) (\<lambda>m. str_prop m ''status''))) ''open''"

definition job_snapshot :: "status \<Rightarrow> job_row \<Rightarrow> case_snapshot" where
  "job_snapshot x row = (let openedAt = nullish (rj_started_at row) (rj_created_at row) in
     \<lparr>cs_kind = repair_job, cs_id = rj_id row, cs_number = Some (rj_repair_number row), cs_status = x,
      cs_assigneeId = rj_technician_id row, cs_priority = 3, cs_openedAt = openedAt,
      cs_dueAt = Some (computeDueAt openedAt 3 (cd_sla (CASE_DEFINITIONS repair_job))),
      cs_escalatedAt = None, cs_closedAt = rj_completed_at row,
      cs_metadata = Some [(''outcome'', JStr (rj_outcome row))]\<rparr>)"

definition job_view :: "(audit_row list \<Rightarrow> audit_row option) \<Rightarrow> 'x service_world_scheme \<Rightarrow> string \<Rightarrow> case_snapshot option" where
  "job_view newest w i = map_option (job_snapshot (readCaseStatus newest w i))
     (find (\<lambda>c. rj_id c = i \<and> rj_deleted_at c = None) (sw_jobs w))"

definition job_load :: "(audit_row list \<Rightarrow> audit_row option) \<Rightarrow> case_ref \<Rightarrow> ('x service_world_scheme, case_snapshot option) act" where
  "job_load newest r = (if ref_kind r \<noteq> repair_job then returnA None else readA (\<lambda>w. job_view newest w (ref_id r)))"

definition job_appendTimeline :: "case_ref \<Rightarrow> timeline_entry \<Rightarrow> ('x service_world_scheme, unit) act" where
  "job_appendTimeline r entry =
     audit_create ((audit_of (''case.'' @ te_type entry) (te_actorId entry) (entry_json entry))
       \<lparr>au_repair_job_id := Some (ref_id r)\<rparr>)"

definition job_status_log :: "case_ref \<Rightarrow> status \<Rightarrow> string option \<Rightarrow> ('x service_world_scheme, unit) act" where
  "job_status_log r x actor = audit_create ((audit_of ''case.status'' actor [(''status'', JStr x)])
     \<lparr>au_repair_job_id := Some (ref_id r)\<rparr>)"

definition job_update :: "case_ref \<Rightarrow> (job_row \<Rightarrow> job_row) \<Rightarrow> ('x service_world_scheme, unit) act" where
  "job_update r f =
     bindA (readA (\<lambda>w. find (\<lambda>c. rj_id c = ref_id r) (sw_jobs w))) (\<lambda>found.
     bindA (row_or_throw found) (\<lambda>_.
     modifyA (\<lambda>w. w\<lparr>sw_jobs := update_where (\<lambda>c. rj_id c = ref_id r) f (sw_jobs w)\<rparr>)))"

definition job_outcome :: "status \<Rightarrow> string option" where
  "job_outcome x = (if x = ''closed'' \<or> x = ''resolved'' \<or> x = ''completed'' then Some ''repaired''
     else if x = ''cancelled'' then Some ''customer_declined'' else None)"

definition job_patch :: "(string \<times> int) option \<Rightarrow> int option \<Rightarrow> string option \<Rightarrow> job_row \<Rightarrow> job_row" where
  "job_patch done started actor c =
     (let c1 = (case done of None \<Rightarrow> c | Some (out, d) \<Rightarrow> c\<lparr>rj_outcome := out, rj_completed_at := Some d\<rparr>);
          c2 = (case started of None \<Rightarrow> c1 | Some d \<Rightarrow> c1\<lparr>rj_started_at := Some d\<rparr>) in
      c2\<lparr>rj_updated_by := upd_by actor (rj_updated_by c)\<rparr>)"

definition job_saveStatus ::
  "(audit_row list \<Rightarrow> audit_row option) \<Rightarrow> case_ref \<Rightarrow> status \<Rightarrow> string option \<Rightarrow> ('x service_world_scheme, case_snapshot option) act" where
  "job_saveStatus newest r x actor =
     bindA (job_load newest r) (\<lambda>current.
     bindA (job_status_log r x actor) (\<lambda>_.
     bindA (case job_outcome x of None \<Rightarrow> returnA None | Some out \<Rightarrow> bindA newDate (\<lambda>d. returnA (Some (out, d)))) (\<lambda>done.
     bindA (if x = ''in_progress'' \<or> x = ''repairing'' then bindA newDate (\<lambda>d. returnA (Some d)) else returnA None) (\<lambda>started.
     bindA (job_update r (job_patch done started actor)) (\<lambda>_.
     bindA newDate (\<lambda>d.
     bindA (job_appendTimeline r \<lparr>te_at = d, te_type = Status_changed, te_actorId = actor, te_message = None,
       te_fromStatus = map_option cs_status current, te_toStatus = Some x, te_metadata = None\<rparr>) (\<lambda>_.
     job_load newest r)))))))"

definition job_assign ::
  "(audit_row list \<Rightarrow> audit_row option) \<Rightarrow> case_ref \<Rightarrow> string \<Rightarrow> string option \<Rightarrow> ('x service_world_scheme, case_snapshot option) act" where
  "job_assign newest r assignee actor =
     bindA (readA (\<lambda>w. fk_ok (Some assignee) (sw_technicians w))) (\<lambda>fk.
     bindA (throwIf (\<not> fk) (prisma_error ''P2003'')) (\<lambda>_.
     bindA (job_update r (\<lambda>c. c\<lparr>rj_technician_id := Some assignee,
       rj_updated_by := upd_by actor (rj_updated_by c)\<rparr>)) (\<lambda>_.
     bindA (job_status_log r ''assigned'' actor) (\<lambda>_.
     bindA newDate (\<lambda>d.
     bindA (job_appendTimeline r \<lparr>te_at = d, te_type = Assigned, te_actorId = actor, te_message = Some assignee,
       te_fromStatus = None, te_toStatus = Some ''assigned'', te_metadata = None\<rparr>) (\<lambda>_.
     job_load newest r))))))"

definition job_setPriority ::
  "(audit_row list \<Rightarrow> audit_row option) \<Rightarrow> case_ref \<Rightarrow> nat \<Rightarrow> string option \<Rightarrow> ('x service_world_scheme, case_snapshot option) act" where
  "job_setPriority newest r p actor =
     bindA newDate (\<lambda>d.
     bindA (job_appendTimeline r \<lparr>te_at = d, te_type = Priority_changed, te_actorId = actor,
       te_message = None, te_fromStatus = None, te_toStatus = None,
       te_metadata = Some [(''priority'', JInt (int p))]\<rparr>) (\<lambda>_.
     bindA (job_load newest r) (\<lambda>snap. returnA (with_priority p snap))))"

text \<open>The notes column: the old notes, if any, and the new one, joined by a rule.\<close>

definition join_notes :: "string option \<Rightarrow> string \<Rightarrow> string" where
  "join_notes old new =
     (let xs = (if truthy_str old then [the old] else []) @ (if new = [] then [] else [new]) in
      case xs of [] \<Rightarrow> [] | [a] \<Rightarrow> a | a # b # _ \<Rightarrow> a @ [CHR 0x0A] @ ''---'' @ [CHR 0x0A] @ b)"

definition job_addNote :: "case_ref \<Rightarrow> note_input \<Rightarrow> ('x service_world_scheme, unit) act" where
  "job_addNote r note =
     bindA (readA (\<lambda>w. find (\<lambda>c. rj_id c = ref_id r) (sw_jobs w))) (\<lambda>found.
     bindA (row_or_throw found) (\<lambda>job.
     job_update r (\<lambda>c. c\<lparr>rj_repair_notes := Some (join_notes (rj_repair_notes job) (note_body note))\<rparr>)))"

definition job_addAttachment :: "case_ref \<Rightarrow> attachment_meta \<Rightarrow> string option \<Rightarrow> ('x service_world_scheme, unit) act" where
  "job_addAttachment r meta actor =
     bindA (readA (\<lambda>w. find (\<lambda>c. rj_id c = ref_id r) (sw_jobs w))) (\<lambda>job. document_create
     \<lparr>dc_ticket_id = map_option rj_ticket_id job, dc_claim_id = None, dc_media_file_id = att_mediaFileId meta,
      dc_doc_type = nullish (att_docType meta) ''repair'', dc_label = att_label meta, dc_created_by = actor\<rparr>)"

definition job_listTimeline ::
  "(audit_row list \<Rightarrow> audit_row list) \<Rightarrow> case_ref \<Rightarrow> ('x service_world_scheme, timeline_entry list) act" where
  "job_listTimeline ord r = readA (\<lambda>w.
     map (\<lambda>a. let e = row_entry a in e\<lparr>te_metadata := None,
         te_toStatus := (case te_toStatus e of Some x \<Rightarrow> Some x
           | None \<Rightarrow> str_prop (nullish (au_metadata a) []) ''status'')\<rparr>)
       (ord (filter (\<lambda>a. au_repair_job_id a = Some (ref_id r) \<and> au_deleted_at a = None) (sw_audit w))))"

definition RepairJobStore ::
  "(audit_row list \<Rightarrow> audit_row list) \<Rightarrow> (audit_row list \<Rightarrow> audit_row option) \<Rightarrow> 'x service_world_scheme case_store" where
  "RepairJobStore ord newest =
     \<lparr>st_load = job_load newest, st_saveStatus = job_saveStatus newest, st_assign = job_assign newest,
      st_setPriority = job_setPriority newest, st_addNote = job_addNote,
      st_addAttachment = job_addAttachment, st_appendTimeline = job_appendTimeline,
      st_listTimeline = Some (job_listTimeline ord), st_markEscalated = None\<rparr>"

section \<open>The stores keep the interface\<close>

lemma wp_enum_check [simp]:
  "wp (enum_check k x) w Q E = (if declared k x then Q () w else E (JsError ''Invalid value for argument status'') w)"
  by (simp add: enum_check_def)

lemma fk_ok_simps [simp]: "fk_ok None ids" "fk_ok (Some i) ids = (i \<in> set ids)"
  by (simp_all add: fk_ok_def)

lemma audit_of_sel [simp]:
  "au_ticket_id (audit_of a b m) = None" "au_claim_id (audit_of a b m) = None"
  "au_repair_job_id (audit_of a b m) = None" "au_action (audit_of a b m) = a"
  "au_actor_id (audit_of a b m) = b" "au_metadata (audit_of a b m) = Some m"
  "au_deleted_at (audit_of a b m) = None"
  by (simp_all add: audit_of_def)

lemma wp_audit_create [simp]:
  "wp (audit_create row) w Q E =
     (if fk_ok (au_ticket_id row) (map tk_id (sw_tickets w)) \<and> fk_ok (au_claim_id row) (map wc_id (sw_claims w))
         \<and> fk_ok (au_repair_job_id row) (map rj_id (sw_jobs w))
      then Q () (w\<lparr>clock_reads := Suc (clock_reads w),
             sw_audit := sw_audit w @ [row\<lparr>au_created_at := clock_at w (clock_reads w)\<rparr>]\<rparr>)
      else E (prisma_error ''P2003'') w)"
  by (simp add: audit_create_def)

lemma wp_claim_history_create [simp]:
  "wp (claim_history_create row) w Q E =
     (if hs_entity_id row \<in> wc_id ` set (sw_claims w)
      then Q () (w\<lparr>sw_claim_history := sw_claim_history w @ [row]\<rparr>) else E (prisma_error ''P2003'') w)"
  by (simp add: claim_history_create_def)

lemma wp_ticket_history_create [simp]:
  "wp (ticket_history_create row) w Q E =
     (if hs_entity_id row \<in> tk_id ` set (sw_tickets w)
      then Q () (w\<lparr>sw_ticket_history := sw_ticket_history w @ [row]\<rparr>) else E (prisma_error ''P2003'') w)"
  by (simp add: ticket_history_create_def)

lemma find_key: "find (\<lambda>c. key c = i) rows = None \<longleftrightarrow> i \<notin> key ` set rows"
  by (auto simp: find_None_iff)

lemma wp_ticket_update:
  "wp (ticket_update r f) w Q E = (if ref_id r \<in> tk_id ` set (sw_tickets w)
     then Q () (w\<lparr>sw_tickets := update_where (\<lambda>c. tk_id c = ref_id r) f (sw_tickets w)\<rparr>)
     else E (prisma_error ''P2025'') w)"
  using find_key [of tk_id "ref_id r" "sw_tickets w"]
  by (cases "find (\<lambda>c. tk_id c = ref_id r) (sw_tickets w)") (simp_all add: ticket_update_def)

lemma wp_job_update:
  "wp (job_update r f) w Q E = (if ref_id r \<in> rj_id ` set (sw_jobs w)
     then Q () (w\<lparr>sw_jobs := update_where (\<lambda>c. rj_id c = ref_id r) f (sw_jobs w)\<rparr>)
     else E (prisma_error ''P2025'') w)"
  using find_key [of rj_id "ref_id r" "sw_jobs w"]
  by (cases "find (\<lambda>c. rj_id c = ref_id r) (sw_jobs w)") (simp_all add: job_update_def)

lemma set_update_where_key:
  "(\<And>x. key (f x) = key x) \<Longrightarrow> key ` set (update_where p f rows) = key ` set rows"
  by (induction rows) (auto simp: update_where_def)

text \<open>Reading back the entry that was written.\<close>

lemma row_entry_json:
  "au_metadata a = Some (entry_json e) \<Longrightarrow> au_actor_id a = te_actorId e \<Longrightarrow> same_entry e (row_entry a)"
  by (simp add: same_entry_def row_entry_def entry_json_def str_prop_def obj_get_def opt_prop_def
      split: option.split)

lemma row_entry_rma:
  "au_metadata a = Some (obj_put ''rmaId'' (JStr i) (entry_json e)) \<Longrightarrow> au_actor_id a = te_actorId e \<Longrightarrow>
     same_entry e (row_entry a)"
  by (simp add: same_entry_def row_entry_def entry_json_def str_prop_def obj_get_def opt_prop_def
      map_of_obj_put split: option.split)

lemma view_find:
  assumes "find (\<lambda>c. key c = i \<and> d c = None) rows = Some c"
  shows "i \<in> key ` set rows" "\<exists>y. find (\<lambda>c. key c = i) rows = Some y" "key c = i" "d c = None"
proof -
  show "key c = i" "d c = None" using find_filter_some [OF assms] by simp_all
  then show "i \<in> key ` set rows" using find_filter_some [OF assms] by blast
  then show "\<exists>y. find (\<lambda>c. key c = i) rows = Some y" using find_key [of key i rows] by simp
qed

text \<open>A table seen as a map from ids to the snapshots of its undeleted rows, after an update of one row.\<close>

definition table_view :: "('r \<Rightarrow> string) \<Rightarrow> ('r \<Rightarrow> int option) \<Rightarrow> ('r \<Rightarrow> 'v) \<Rightarrow> 'r list \<Rightarrow> string \<Rightarrow> 'v option" where
  "table_view key d g rows i = map_option g (find (\<lambda>c. key c = i \<and> d c = None) rows)"

lemma table_view_update:
  assumes keep: "\<And>x. key (f x) = key x" "\<And>x. d (f x) = d x"
    and c: "find (\<lambda>c. key c = i \<and> d c = None) rows = Some c"
  shows "table_view key d g (update_where (\<lambda>c. key c = i) f rows) = (table_view key d g rows)(i \<mapsto> g (f c))"
proof
  fix j
  have find_j: "find (\<lambda>c. key c = j \<and> d c = None) (update_where (\<lambda>c. key c = i) f rows)
      = map_option (\<lambda>x. if key x = i then f x else x) (find (\<lambda>c. key c = j \<and> d c = None) rows)"
    by (rule find_update_where) (simp add: keep)
  show "table_view key d g (update_where (\<lambda>c. key c = i) f rows) j = ((table_view key d g rows)(i \<mapsto> g (f c))) j"
  proof (cases "j = i")
    case True
    then show ?thesis using c find_j view_find(3) [OF c] by (simp add: table_view_def)
  next
    case False
    then show ?thesis using find_j view_find(3) [of key j d rows]
      by (cases "find (\<lambda>c. key c = j \<and> d c = None) rows") (auto simp: table_view_def)
  qed
qed

lemma claim_view_table: "claim_view w = table_view wc_id wc_deleted_at claim_snapshot (sw_claims w)"
  by (simp add: fun_eq_iff claim_view_def table_view_def)

text \<open>The audit rows of a claim, as entries, in the order they were written.\<close>

definition claim_tl :: "'x service_world_scheme \<Rightarrow> string \<Rightarrow> timeline_entry list" where
  "claim_tl w i = map row_entry (claim_rows w i)"

interpretation claims: timeline_store "WarrantyClaimStore ord :: 'x service_world_scheme case_store"
  warranty_claim "\<lambda>_. True" claim_view claim_tl
proof
  fix s :: "'x service_world_scheme" and r :: case_ref and snap x a
  assume r: "ref_kind r = warranty_claim" and d: "declared warranty_claim x"
    and v: "claim_view s (ref_id r) = Some snap"
  from v obtain c where c: "find (\<lambda>c. wc_id c = ref_id r \<and> wc_deleted_at c = None) (sw_claims s) = Some c"
      "snap = claim_snapshot c" by (auto simp: claim_view_def)
  from view_find(2) [OF c(1)] obtain y where y: "find (\<lambda>c. wc_id c = ref_id r) (sw_claims s) = Some y" ..
  show "ok (st_saveStatus (WarrantyClaimStore ord) r x a) s (\<lambda>res s'. \<exists>snap'. res = Some snap' \<and> True
      \<and> status_saved warranty_claim snap x snap' \<and> claim_view s' = (claim_view s)(ref_id r \<mapsto> snap'))"
    using r d c y view_find(1) [OF c(1)]
    by (auto simp: WarrantyClaimStore_def claim_saveStatus_def claim_load_def claim_view_table
        table_view_update [OF _ _ c(1)] set_update_where_key claim_snapshot_def status_saved_def
        CASE_DEFINITIONS_def)
  show "ok (st_saveStatus (WarrantyClaimStore ord) r x a) s (\<lambda>_ s'. claim_tl s' = claim_tl s)"
    using r d y view_find(1) [OF c(1)]
    by (auto simp: WarrantyClaimStore_def claim_saveStatus_def claim_load_def claim_tl_def claim_rows_def
        set_update_where_key)
next
  fix s :: "'x service_world_scheme" and r :: case_ref and e
  assume r: "ref_kind r = warranty_claim" and v: "claim_view s (ref_id r) \<noteq> None"
  then have "ref_id r \<in> wc_id ` set (sw_claims s)"
    using view_find(1) [of wc_id "ref_id r" wc_deleted_at "sw_claims s"] by (auto simp: claim_view_def)
  then show "ok (st_appendTimeline (WarrantyClaimStore ord) r e) s (\<lambda>_ s'. True \<and> claim_view s' = claim_view s)"
    and "ok (st_appendTimeline (WarrantyClaimStore ord) r e) s (\<lambda>_ s'. \<exists>e'. same_entry e e'
      \<and> claim_tl s' = (claim_tl s)(ref_id r := claim_tl s (ref_id r) @ [e']))"
    by (auto simp: WarrantyClaimStore_def claim_appendTimeline_def claim_tl_def claim_rows_def fun_eq_iff
        claim_view_def intro!: exI row_entry_json)
qed (simp add: WarrantyClaimStore_def claim_load_def)

lemma rma_view_table: "rma_view w = table_view rm_id rm_deleted_at rma_snapshot (sw_rmas w)"
  by (simp add: fun_eq_iff rma_view_def table_view_def)

lemma ticket_view_table: "ticket_view w = table_view tk_id tk_deleted_at ticket_snapshot (sw_tickets w)"
  by (simp add: fun_eq_iff ticket_view_def table_view_def)

interpretation rmas: case_store "RmaStore ord :: 'x service_world_scheme case_store" rma_case "\<lambda>_. True" rma_view
proof
  fix s :: "'x service_world_scheme" and r :: case_ref and snap x a
  assume r: "ref_kind r = rma_case" and d: "declared rma_case x" and v: "rma_view s (ref_id r) = Some snap"
  from v obtain c where c: "find (\<lambda>c. rm_id c = ref_id r \<and> rm_deleted_at c = None) (sw_rmas s) = Some c"
      "snap = rma_snapshot c" by (auto simp: rma_view_def)
  from view_find(2) [OF c(1)] obtain y where y: "find (\<lambda>c. rm_id c = ref_id r) (sw_rmas s) = Some y" ..
  show "ok (st_saveStatus (RmaStore ord) r x a) s (\<lambda>res s'. \<exists>snap'. res = Some snap' \<and> True
      \<and> status_saved rma_case snap x snap' \<and> rma_view s' = (rma_view s)(ref_id r \<mapsto> snap'))"
    using r d c y
    by (auto simp: RmaStore_def rma_saveStatus_def rma_load_def rma_view_table rma_appendTimeline_def
        table_view_update [OF _ _ c(1)] rma_snapshot_def status_saved_def CASE_DEFINITIONS_def)
qed (auto simp: RmaStore_def rma_load_def rma_appendTimeline_def rma_view_table)

definition ticket_tl :: "'x service_world_scheme \<Rightarrow> string \<Rightarrow> timeline_entry list" where
  "ticket_tl w i = map row_entry (filter (\<lambda>a. au_ticket_id a = Some i \<and> au_deleted_at a = None) (sw_audit w))"

interpretation tickets: timeline_store "ServiceTicketStore ord hord :: 'x service_world_scheme case_store"
  service_ticket "\<lambda>_. True" ticket_view ticket_tl
proof
  fix s :: "'x service_world_scheme" and r :: case_ref and snap x a
  assume r: "ref_kind r = service_ticket" and d: "declared service_ticket x"
    and v: "ticket_view s (ref_id r) = Some snap"
  from v obtain c where c: "find (\<lambda>c. tk_id c = ref_id r \<and> tk_deleted_at c = None) (sw_tickets s) = Some c"
      "snap = ticket_snapshot c" by (auto simp: ticket_view_def)
  from view_find(2) [OF c(1)] obtain y where y: "find (\<lambda>c. tk_id c = ref_id r) (sw_tickets s) = Some y" ..
  show "ok (st_saveStatus (ServiceTicketStore ord hord) r x a) s (\<lambda>res s'. \<exists>snap'. res = Some snap' \<and> True
      \<and> status_saved service_ticket snap x snap' \<and> ticket_view s' = (ticket_view s)(ref_id r \<mapsto> snap'))"
    using r d c y view_find(1) [OF c(1)]
    by (auto simp: ServiceTicketStore_def ticket_saveStatus_def ticket_load_def ticket_view_table wp_ticket_update
        table_view_update [OF _ _ c(1)] set_update_where_key ticket_snapshot_def Let_def status_saved_def
        CASE_DEFINITIONS_def)
  show "ok (st_saveStatus (ServiceTicketStore ord hord) r x a) s (\<lambda>_ s'. ticket_tl s' = ticket_tl s)"
    using r d y view_find(1) [OF c(1)]
    by (auto simp: ServiceTicketStore_def ticket_saveStatus_def ticket_load_def ticket_tl_def wp_ticket_update
        set_update_where_key)
next
  fix s :: "'x service_world_scheme" and r :: case_ref and e
  assume r: "ref_kind r = service_ticket" and v: "ticket_view s (ref_id r) \<noteq> None"
  then have "ref_id r \<in> tk_id ` set (sw_tickets s)"
    using view_find(1) [of tk_id "ref_id r" tk_deleted_at "sw_tickets s"] by (auto simp: ticket_view_def)
  then show "ok (st_appendTimeline (ServiceTicketStore ord hord) r e) s (\<lambda>_ s'. True \<and> ticket_view s' = ticket_view s)"
    and "ok (st_appendTimeline (ServiceTicketStore ord hord) r e) s (\<lambda>_ s'. \<exists>e'. same_entry e e'
      \<and> ticket_tl s' = (ticket_tl s)(ref_id r := ticket_tl s (ref_id r) @ [e']))"
    by (auto simp: ServiceTicketStore_def ticket_appendTimeline_def ticket_tl_def fun_eq_iff
        ticket_view_def intro!: exI row_entry_json)
qed (simp add: ServiceTicketStore_def ticket_load_def)

text \<open>
  What \<open>findFirst\<close> with \<open>orderBy created_at desc\<close> promises: no row only when none matches, otherwise
  one that no other matching row is newer than.
\<close>

locale newest_row =
  fixes newest :: "audit_row list \<Rightarrow> audit_row option"
  assumes newest_none: "newest [] = None"
    and newest_some: "xs \<noteq> [] \<Longrightarrow> \<exists>x. newest xs = Some x \<and> x \<in> set xs \<and> (\<forall>y\<in>set xs. au_created_at y \<le> au_created_at x)"
begin

lemma newest_last:
  assumes "\<forall>y\<in>set xs. au_created_at y < au_created_at x"
  shows "newest (xs @ [x]) = Some x"
proof -
  obtain z where "newest (xs @ [x]) = Some z" "z \<in> set (xs @ [x])" "au_created_at x \<le> au_created_at z"
    using newest_some [of "xs @ [x]"] by auto
  with assms show ?thesis by force
qed

end

definition newest_first :: "audit_row list \<Rightarrow> audit_row option" where
  "newest_first xs = (if xs = [] then None else Some (last (sort_key au_created_at xs)))"

interpretation latest: newest_row newest_first
proof
  fix xs :: "audit_row list"
  assume ne: "xs \<noteq> []"
  let ?ys = "sort_key au_created_at xs"
  have ys: "?ys \<noteq> []" "set ?ys = set xs" "sorted (map au_created_at ?ys)"
    using ne by (simp_all, metis set_empty set_sort)
  have "au_created_at y \<le> au_created_at (last ?ys)" if y: "y \<in> set xs" for y
  proof -
    obtain j where "j < length ?ys" "?ys ! j = y" using y ys(2) by (metis in_set_conv_nth)
    then show ?thesis
      using sorted_nth_mono [OF ys(3), of j "length ?ys - 1"] ys(1) by (simp add: last_conv_nth)
  qed
  then show "\<exists>x. newest_first xs = Some x \<and> x \<in> set xs \<and> (\<forall>y\<in>set xs. au_created_at y \<le> au_created_at x)"
    using ne ys(1,2) last_in_set [OF ys(1)] by (auto simp: newest_first_def)
qed (simp add: newest_first_def)

text \<open>The clock moves forward between any two readings and no audit row is from the future.\<close>

definition ticking :: "'x service_world_scheme \<Rightarrow> bool" where
  "ticking w \<longleftrightarrow> (\<forall>n m. n < m \<longrightarrow> clock_at w n < clock_at w m)
     \<and> (\<forall>a\<in>set (sw_audit w). au_created_at a < clock_at w (clock_reads w))"

lemma tickingD: "ticking w \<Longrightarrow> a \<in> set (sw_audit w) \<Longrightarrow> clock_reads w \<le> n \<Longrightarrow> au_created_at a < clock_at w n"
  unfolding ticking_def by (metis le_neq_implies_less less_trans)

lemma ticking_later:
  assumes w: "ticking w" and v: "clock_at v = clock_at w" "clock_reads w \<le> clock_reads v"
    and rows: "\<And>a. a \<in> set (sw_audit v) \<Longrightarrow> a \<in> set (sw_audit w) \<or> (\<exists>n < clock_reads v. au_created_at a = clock_at w n)"
  shows "ticking v"
proof -
  have mono: "n < m \<Longrightarrow> clock_at w n < clock_at w m" for n m using w by (simp add: ticking_def)
  have "au_created_at a < clock_at v (clock_reads v)" if "a \<in> set (sw_audit v)" for a
    using rows [OF that] tickingD [OF w _ v(2)] mono v(1) by auto
  with mono v(1) show ?thesis by (simp add: ticking_def)
qed

lemma job_patch_sel [simp]:
  "rj_id (job_patch p q a c) = rj_id c" "rj_deleted_at (job_patch p q a c) = rj_deleted_at c"
  "rj_technician_id (job_patch p q a c) = rj_technician_id c"
  "p \<noteq> None \<Longrightarrow> rj_completed_at (job_patch p q a c) \<noteq> None"
  by (auto simp: job_patch_def Let_def split: option.split)

text \<open>The rows that saving the status of a repair job writes.\<close>

definition job_status_row :: "string \<Rightarrow> status \<Rightarrow> string option \<Rightarrow> int \<Rightarrow> audit_row" where
  "job_status_row i x actor d = (audit_of ''case.status'' actor [(''status'', JStr x)])
     \<lparr>au_repair_job_id := Some i, au_created_at := d\<rparr>"

lemma wp_job_status_log:
  "wp (job_status_log r x actor) w Q E = (if ref_id r \<in> rj_id ` set (sw_jobs w)
     then Q () (w\<lparr>clock_reads := Suc (clock_reads w),
       sw_audit := sw_audit w @ [job_status_row (ref_id r) x actor (clock_at w (clock_reads w))]\<rparr>)
     else E (prisma_error ''P2003'') w)"
  by (simp add: job_status_log_def job_status_row_def)

lemma wp_job_appendTimeline:
  "wp (job_appendTimeline r e) w Q E = (if ref_id r \<in> rj_id ` set (sw_jobs w)
     then Q () (w\<lparr>clock_reads := Suc (clock_reads w),
       sw_audit := sw_audit w @ [(audit_of (''case.'' @ te_type e) (te_actorId e) (entry_json e))
         \<lparr>au_repair_job_id := Some (ref_id r), au_created_at := clock_at w (clock_reads w)\<rparr>]\<rparr>)
     else E (prisma_error ''P2003'') w)"
  by (simp add: job_appendTimeline_def)

definition job_saved ::
  "case_ref \<Rightarrow> status \<Rightarrow> string option \<Rightarrow> 'x service_world_scheme \<Rightarrow> 'x service_world_scheme \<Rightarrow> bool" where
  "job_saved r x actor w v \<longleftrightarrow> clock_at v = clock_at w
    \<and> (\<exists>a2. sw_audit v = sw_audit w @ [job_status_row (ref_id r) x actor (clock_at w (clock_reads w)), a2]
        \<and> au_created_at a2 = clock_at w (clock_reads v - 1) \<and> au_action a2 = ''case.status_changed'')
    \<and> clock_reads w < clock_reads v - 1
    \<and> (\<exists>p q. sw_jobs v = update_where (\<lambda>c. rj_id c = ref_id r) (job_patch p q actor) (sw_jobs w)
        \<and> (job_outcome x \<noteq> None \<longrightarrow> p \<noteq> None))"

lemma job_saveStatus_final:
  fixes w :: "'x service_world_scheme"
  assumes r: "ref_kind r = repair_job" and c: "ref_id r \<in> rj_id ` set (sw_jobs w)"
  shows "ok (job_saveStatus newest r x actor) w (\<lambda>res v. res = job_view newest v (ref_id r) \<and> job_saved r x actor w v)"
proof -
  note defs = job_saveStatus_def job_load_def wp_job_status_log wp_job_appendTimeline wp_job_update set_update_where_key
  show ?thesis
    by (cases "job_outcome x"; cases "x = ''in_progress'' \<or> x = ''repairing''")
      (use r c in \<open>simp_all add: defs, auto simp: job_saved_def\<close>)
qed

lemma job_saved_ticking:
  assumes "ticking w" "job_saved r x actor w v"
  shows "ticking v"
proof (rule ticking_later [OF assms(1)])
  have n: "clock_reads w < clock_reads v" "clock_reads v - 1 < clock_reads v"
    using assms(2) by (auto simp: job_saved_def)
  fix a assume "a \<in> set (sw_audit v)"
  then have "a \<in> set (sw_audit w) \<or> au_created_at a = clock_at w (clock_reads w)
      \<or> au_created_at a = clock_at w (clock_reads v - 1)"
    using assms(2) by (auto simp: job_saved_def job_status_row_def)
  with n show "a \<in> set (sw_audit w) \<or> (\<exists>n<clock_reads v. au_created_at a = clock_at w n)"
    by blast
qed (use assms(2) in \<open>auto simp: job_saved_def\<close>)

lemma str_prop_status: "str_prop [(''status'', JStr x)] ''status'' = Some x"
  by (simp add: str_prop_def obj_get_def)

context newest_row
begin

lemma job_saved_status:
  assumes "ticking w" "job_saved r x actor w v"
  shows "readCaseStatus newest v j = (if j = ref_id r then x else readCaseStatus newest w j)"
proof -
  let ?row = "job_status_row (ref_id r) x actor (clock_at w (clock_reads w))"
  have rows: "status_rows v j = status_rows w j @ (if j = ref_id r then [?row] else [])"
    using assms(2) by (auto simp: job_saved_def status_rows_def job_status_row_def)
  have "\<forall>y\<in>set (status_rows w j). au_created_at y < au_created_at ?row"
    using tickingD [OF assms(1) _ order_refl] by (auto simp: status_rows_def job_status_row_def)
  then have "newest (status_rows w j @ [?row]) = Some ?row" by (rule newest_last)
  then show ?thesis using rows
    by (cases "j = ref_id r") (simp_all add: readCaseStatus_def job_status_row_def str_prop_status)
qed

lemma job_view_saved:
  assumes "ticking w" "job_saved r x actor w v"
    and c: "find (\<lambda>c. rj_id c = ref_id r \<and> rj_deleted_at c = None) (sw_jobs w) = Some c"
  shows "\<exists>c'. job_view newest v = (job_view newest w)(ref_id r \<mapsto> job_snapshot x c')
    \<and> rj_id c' = rj_id c \<and> rj_technician_id c' = rj_technician_id c
    \<and> (job_outcome x \<noteq> None \<longrightarrow> rj_completed_at c' \<noteq> None)"
proof -
  from assms(2) obtain p q where pq: "sw_jobs v = update_where (\<lambda>c. rj_id c = ref_id r) (job_patch p q actor) (sw_jobs w)"
      "job_outcome x \<noteq> None \<longrightarrow> p \<noteq> None" by (auto simp: job_saved_def)
  let ?look = "\<lambda>w j. find (\<lambda>c. rj_id c = j \<and> rj_deleted_at c = None) (sw_jobs w)"
  have "?look v = (?look w)(ref_id r \<mapsto> job_patch p q actor c)"
    using table_view_update [of rj_id "job_patch p q actor" rj_deleted_at, OF _ _ c, of id] pq(1)
    by (simp add: table_view_def [abs_def] id_def option.map_ident)
  then have "job_view newest v = (job_view newest w)(ref_id r \<mapsto> job_snapshot x (job_patch p q actor c))"
    using job_saved_status [OF assms(1,2)] by (auto simp: job_view_def [abs_def] fun_eq_iff)
  with pq(2) show ?thesis by (intro exI [of _ "job_patch p q actor c"]) simp
qed

lemma job_append_view:
  assumes "ticking s" "ref_id r \<in> rj_id ` set (sw_jobs s)" "te_type e \<in> set entry_types"
  shows "ok (job_appendTimeline r e) s (\<lambda>_ s'. ticking s' \<and> job_view newest s' = job_view newest s)"
proof -
  have "''case.'' @ te_type e \<noteq> ''case.status''" using assms(3) by (auto simp: entry_types_def)
  moreover have "ticking (s\<lparr>clock_reads := Suc (clock_reads s), sw_audit := sw_audit s @ [a]\<rparr>)"
    if "au_created_at a = clock_at s (clock_reads s)" for a
    by (rule ticking_later [OF assms(1)]) (use that in auto)
  ultimately show ?thesis using assms(2)
    by (simp add: wp_job_appendTimeline job_view_def [abs_def] readCaseStatus_def status_rows_def)
qed

end

sublocale newest_row \<subseteq> jobs: case_store "RepairJobStore ord newest :: 'x service_world_scheme case_store"
  repair_job ticking "job_view newest"
proof
  fix s :: "'x service_world_scheme" and r :: case_ref and snap x a
  assume s: "ticking s" and r: "ref_kind r = repair_job" and v: "job_view newest s (ref_id r) = Some snap"
  from v obtain c where c: "find (\<lambda>c. rj_id c = ref_id r \<and> rj_deleted_at c = None) (sw_jobs s) = Some c"
      "snap = job_snapshot (readCaseStatus newest s (ref_id r)) c" by (auto simp: job_view_def)
  show "ok (st_saveStatus (RepairJobStore ord newest) r x a) s (\<lambda>res s'. \<exists>snap'. res = Some snap' \<and> ticking s'
      \<and> status_saved repair_job snap x snap' \<and> job_view newest s' = (job_view newest s)(ref_id r \<mapsto> snap'))"
    unfolding RepairJobStore_def case_store.simps
  proof (rule wp_mono [OF job_saveStatus_final [OF r view_find(1) [OF c(1)]]])
    fix res s' assume post: "res = job_view newest s' (ref_id r) \<and> job_saved r x a s s'"
    then obtain c' where c': "job_view newest s' = (job_view newest s)(ref_id r \<mapsto> job_snapshot x c')"
        "rj_id c' = rj_id c" "rj_technician_id c' = rj_technician_id c"
        "job_outcome x \<noteq> None \<longrightarrow> rj_completed_at c' \<noteq> None"
      using job_view_saved [OF s _ c(1)] by blast
    then have "status_saved repair_job snap x (job_snapshot x c')"
      using c(2) by (auto simp: status_saved_def job_snapshot_def Let_def CASE_DEFINITIONS_def job_outcome_def)
    with c'(1) post job_saved_ticking [OF s] show "\<exists>snap'. res = Some snap' \<and> ticking s'
      \<and> status_saved repair_job snap x snap' \<and> job_view newest s' = (job_view newest s)(ref_id r \<mapsto> snap')"
      by auto
  qed
next
  fix s :: "'x service_world_scheme" and r :: case_ref and e :: timeline_entry
  assume "ticking s" "ref_kind r = repair_job" and v: "job_view newest s (ref_id r) \<noteq> None"
    and e: "te_type e \<in> set entry_types"
  moreover from v have "ref_id r \<in> rj_id ` set (sw_jobs s)"
    using view_find(1) [of rj_id "ref_id r" rj_deleted_at "sw_jobs s"] by (auto simp: job_view_def)
  ultimately show "ok (st_appendTimeline (RepairJobStore ord newest) r e) s
      (\<lambda>_ s'. ticking s' \<and> job_view newest s' = job_view newest s)"
    using job_append_view by (simp add: RepairJobStore_def)
qed (simp add: RepairJobStore_def job_load_def)

context newest_row
begin

lemmas job_store_saved = jobs.saveStatus_view

end

section \<open>The manager over the database stores\<close>

text \<open>The registry of a running service: the constructors of the warranty services register their stores.\<close>

definition service_registry ::
  "(audit_row list \<Rightarrow> audit_row list) \<Rightarrow> (history_row list \<Rightarrow> history_row list) \<Rightarrow> (audit_row list \<Rightarrow> audit_row option)
     \<Rightarrow> 'x service_world_scheme case_registry" where
  "service_registry ord hord newest =
     registerStore repair_job (RepairJobStore ord newest)
     (registerStore service_ticket (ServiceTicketStore ord hord)
     (registerStore rma_case (RmaStore ord)
     (registerStore warranty_claim (WarrantyClaimStore ord) default_registry)))"

lemma service_registry_simps [simp]:
  "service_registry ord hord newest warranty_claim = Some (WarrantyClaimStore ord)"
  "service_registry ord hord newest rma_case = Some (RmaStore ord)"
  "service_registry ord hord newest service_ticket = Some (ServiceTicketStore ord hord)"
  "service_registry ord hord newest repair_job = Some (RepairJobStore ord newest)"
  by (simp_all add: service_registry_def registerStore_def)

lemmas env_views = process_env_def claim_view_table rma_view_table ticket_view_table claim_tl_def claim_rows_def
  ticket_tl_def

interpretation claim_cases: managed_timeline "WarrantyClaimStore ord :: 'x service_world_scheme case_store"
  warranty_claim "\<lambda>_. True" claim_view claim_tl process_env "service_registry ord hord newest"
  by unfold_locales (simp_all add: env_views fun_eq_iff)

interpretation ticket_cases: managed_timeline "ServiceTicketStore ord hord :: 'x service_world_scheme case_store"
  service_ticket "\<lambda>_. True" ticket_view ticket_tl process_env "service_registry ord hord newest"
  by unfold_locales (simp_all add: env_views fun_eq_iff)

interpretation rma_cases: managed_store "RmaStore ord :: 'x service_world_scheme case_store"
  rma_case "\<lambda>_. True" rma_view process_env "service_registry ord hord newest" "\<lambda>_. ()"
  by unfold_locales (simp_all add: env_views fun_eq_iff)

text \<open>The timeline of an RMA without the limit on the number of rows.\<close>

definition rma_tl :: "'x service_world_scheme \<Rightarrow> string \<Rightarrow> timeline_entry list" where
  "rma_tl w i = map row_entry (filter (\<lambda>a. au_deleted_at a = None \<and> take 5 (au_action a) = ''case.''
     \<and> str_prop (nullish (au_metadata a) []) ''rmaId'' = Some i) (sw_audit w))"

lemma rma_row_sel:
  "te_type (row_entry ((audit_of x b (obj_put ''rmaId'' (JStr i) (entry_json e)))\<lparr>au_created_at := d\<rparr>)) = te_type e"
  "te_toStatus (row_entry ((audit_of x b (obj_put ''rmaId'' (JStr i) (entry_json e)))\<lparr>au_created_at := d\<rparr>)) = te_toStatus e"
  using row_entry_rma [of "(audit_of x (te_actorId e) (obj_put ''rmaId'' (JStr i) (entry_json e)))\<lparr>au_created_at := d\<rparr>" i e]
  by (simp_all add: same_entry_def row_entry_def Let_def)

lemma str_prop_obj_put: "str_prop (obj_put k (JStr v) m) k = Some v"
  by (simp add: str_prop_def)

lemma wp_rma_appendTimeline:
  "wp (rma_appendTimeline r e) w Q E = Q () (w\<lparr>clock_reads := Suc (clock_reads w), sw_audit := sw_audit w
     @ [(audit_of (''case.'' @ te_type e) (te_actorId e) (obj_put ''rmaId'' (JStr (ref_id r)) (entry_json e)))
        \<lparr>au_created_at := clock_at w (clock_reads w)\<rparr>]\<rparr>)"
  by (simp add: rma_appendTimeline_def)

lemma claim_terminal_statuses:
  "list_all (\<lambda>x. allowedTargets warrantyClaimStateMachine x = [] \<longrightarrow>
     x \<in> set (cd_terminalStatuses (CASE_DEFINITIONS warranty_claim))) (statuses (transitions warrantyClaimStateMachine))"
  by code_simp

lemma claim_row_type:
  "te_type (row_entry ((audit_of x b (entry_json e))\<lparr>au_claim_id := i, au_created_at := d\<rparr>)) = te_type e"
  by (simp add: row_entry_def entry_json_def str_prop_def obj_get_def opt_prop_def Let_def split: option.split)

section \<open>Properties\<close>

text \<open>
  a warranty claim changes status in the database as its graph allows: an accepted change
  returns the claim in its new status with a closing time when the status is terminal, leaves every
  other claim as it was, and adds one entry with the old and the new status to its timeline.
\<close>

theorem claim_transition_recorded:
  fixes w :: "'x service_world_scheme"
  assumes "claim_view w (ref_id r) = Some snap" "ref_kind r = warranty_claim"
    and "canTransition warrantyClaimStateMachine (cs_status snap) to" "to \<noteq> cs_status snap"
  shows "\<exists>snap' w' e. transitionCase process_env (service_registry ord hord newest) r to (no_hooks actor reason md) w
      = (Inr snap', w')
    \<and> cs_status snap' = to \<and> (allowedTargets warrantyClaimStateMachine to = [] \<longrightarrow> cs_closedAt snap' \<noteq> None)
    \<and> claim_view w' = (claim_view w)(ref_id r \<mapsto> snap')
    \<and> claim_tl w' = (claim_tl w)(ref_id r := claim_tl w (ref_id r) @ [e])
    \<and> te_type e = Status_changed \<and> te_fromStatus e = Some (cs_status snap) \<and> te_toStatus e = Some to"
proof -
  have graph: "cd_stateMachine (getDefinition warranty_claim) = warrantyClaimStateMachine"
    by (simp add: getDefinition_def CASE_DEFINITIONS_def)
  have "to \<in> set (statuses (transitions warrantyClaimStateMachine))"
    using assms(3,4) claim.targets_of by (simp add: canTransition_def)
  then have final: "to \<in> set (cd_terminalStatuses (CASE_DEFINITIONS warranty_claim))"
    if "allowedTargets warrantyClaimStateMachine to = []"
    using that claim_terminal_statuses by (simp add: list_all_iff)
  have "ok (transitionCase process_env (service_registry ord hord newest) r to (no_hooks actor reason md)) w
    (\<lambda>snap' w'. True \<and> status_saved warranty_claim snap to snap' \<and> claim_view w' = (claim_view w)(ref_id r \<mapsto> snap')
      \<and> (\<exists>e. claim_tl w' = (claim_tl w)(ref_id r := claim_tl w (ref_id r) @ [e]) \<and> te_type e = Status_changed
        \<and> te_fromStatus e = Some (cs_status snap) \<and> te_toStatus e = Some to))"
    by (rule claim_cases.transition_accepted) (use assms graph in simp_all)
  then obtain snap' w' where run: "transitionCase process_env (service_registry ord hord newest) r to (no_hooks actor reason md) w
      = (Inr snap', w')" and post: "status_saved warranty_claim snap to snap'"
      "claim_view w' = (claim_view w)(ref_id r \<mapsto> snap')"
      "\<exists>e. claim_tl w' = (claim_tl w)(ref_id r := claim_tl w (ref_id r) @ [e]) \<and> te_type e = Status_changed
        \<and> te_fromStatus e = Some (cs_status snap) \<and> te_toStatus e = Some to"
    by (blast dest: okD)
  have "cs_status snap' = to \<and> (allowedTargets warrantyClaimStateMachine to = [] \<longrightarrow> cs_closedAt snap' \<noteq> None)"
    using post(1) final unfolding status_saved_def by blast
  with run post(2,3) show ?thesis by blast
qed

text \<open>
  an accepted status change of an RMA is written to its timeline twice: once by the RMA store
  when it saves the status and once by the manager.
\<close>

theorem rma_transition_recorded_twice:
  fixes w :: "'x service_world_scheme"
  assumes "rma_view w (ref_id r) = Some snap" "ref_kind r = rma_case"
    and "canTransition rmaStateMachine (cs_status snap) to" "to \<noteq> cs_status snap"
  shows "\<exists>snap' w' e1 e2. transitionCase process_env (service_registry ord hord newest) r to (no_hooks actor reason md) w
      = (Inr snap', w') \<and> cs_status snap' = to
    \<and> rma_tl w' (ref_id r) = rma_tl w (ref_id r) @ [e1, e2]
    \<and> te_type e1 = Status_changed \<and> te_toStatus e1 = Some to
    \<and> te_type e2 = Status_changed \<and> te_toStatus e2 = Some to"
proof -
  have graph: "cd_stateMachine (getDefinition rma_case) = rmaStateMachine"
    by (simp add: getDefinition_def CASE_DEFINITIONS_def)
  have decl: "declared rma_case to"
    using assms(3,4) rma.targets_of by (simp add: canTransition_def declared_def getStateMachine_def CASE_DEFINITIONS_def)
  from assms(1) obtain c where c: "find (\<lambda>c. rm_id c = ref_id r \<and> rm_deleted_at c = None) (sw_rmas w) = Some c"
    by (auto simp: rma_view_def)
  from view_find(2) [OF c] obtain y where y: "find (\<lambda>c. rm_id c = ref_id r) (sw_rmas w) = Some y" ..
  have "ok (transitionCase process_env (service_registry ord hord newest) r to (no_hooks actor reason md)) w
    (\<lambda>snap' w'. cs_status snap' = to \<and> (\<exists>e1 e2. rma_tl w' (ref_id r) = rma_tl w (ref_id r) @ [e1, e2]
      \<and> te_type e1 = Status_changed \<and> te_toStatus e1 = Some to
      \<and> te_type e2 = Status_changed \<and> te_toStatus e2 = Some to))"
    using assms decl y graph
    by (auto simp: transitionCase_def Let_def getStore_def require_def RmaStore_def rma_load_def rma_saveStatus_def
      wp_rma_appendTimeline wp_transition_proper run_hook_def make_ctx_def process_env_def
      rma_view_table table_view_update [OF _ _ c] rma_snapshot_def rma_tl_def str_prop_obj_put rma_row_sel)
  then show ?thesis by (auto dest: okD)
qed

text \<open>
  An attachment can never be added to an RMA: the row the store writes has neither a ticket nor a
  claim, which the table refuses, so the manager's operation throws whatever the RMA, the file and the
  actor, adds no document and writes nothing to the audit log.
\<close>

theorem rma_attachment_always_refused:
  fixes w :: "'x service_world_scheme"
  assumes "ref_kind r = rma_case"
  shows "\<exists>e w'. addAttachmentCase env (service_registry ord hord newest) r meta actor w = (Inl e, w')
    \<and> sw_service_documents w' = sw_service_documents w \<and> sw_audit w' = sw_audit w"
proof -
  have "wp (addAttachmentCase env (service_registry ord hord newest) r meta actor) w (\<lambda>_ _. False)
      (\<lambda>_ w'. sw_service_documents w' = sw_service_documents w \<and> sw_audit w' = sw_audit w)"
    using assms by (simp add: addAttachmentCase_def getStore_def require_def RmaStore_def rma_load_def rma_addAttachment_def
      document_create_def split: option.split)
  then show ?thesis by (auto simp: wp_def split: prod.splits sum.splits)
qed

text \<open>
  assigning a technician to a service ticket does not consult its lifecycle: a ticket in any
  status, closed or cancelled included, is put in status assigned and keeps its closing time,
  although the graph has no such transition.
\<close>

theorem ticket_assign_ignores_lifecycle:
  fixes w :: "'x service_world_scheme"
  assumes "ticket_view w (ref_id r) = Some snap" "ref_kind r = service_ticket" "tech \<in> set (sw_technicians w)"
    and "cs_status snap \<in> {''closed'', ''cancelled''}"
  shows "\<not> canTransition serviceTicketStateMachine (cs_status snap) ''assigned''
    \<and> (\<exists>snap' w'. assignCase process_env (service_registry ord hord newest) r tech actor w = (Inr snap', w')
      \<and> ticket_view w' (ref_id r) = Some snap' \<and> cs_status snap' = ''assigned'' \<and> cs_closedAt snap' = cs_closedAt snap)"
proof
  show "\<not> canTransition serviceTicketStateMachine (cs_status snap) ''assigned''"
    using assms(4) by (auto simp: canTransition_def serviceTicketStateMachine_def)
  from assms(1) obtain c where c: "find (\<lambda>c. tk_id c = ref_id r \<and> tk_deleted_at c = None) (sw_tickets w) = Some c"
      "snap = ticket_snapshot c" by (auto simp: ticket_view_def)
  have "ok (assignCase process_env (service_registry ord hord newest) r tech actor) w
    (\<lambda>snap' w'. ticket_view w' (ref_id r) = Some snap' \<and> cs_status snap' = ''assigned'' \<and> cs_closedAt snap' = cs_closedAt snap)"
    using assms(2,3) c(2) view_find(1) [OF c(1)]
    by (simp add: assignCase_def getStore_def ServiceTicketStore_def ticket_assign_def wp_ticket_update
        ticket_appendTimeline_def ticket_load_def ticket_view_table table_view_update [OF _ _ c(1)]
        set_update_where_key process_env_def ticket_snapshot_def Let_def ticket_sla_def)
  then show "\<exists>snap' w'. assignCase process_env (service_registry ord hord newest) r tech actor w = (Inr snap', w')
      \<and> ticket_view w' (ref_id r) = Some snap' \<and> cs_status snap' = ''assigned'' \<and> cs_closedAt snap' = cs_closedAt snap"
    by (blast dest: okD)
qed

text \<open>
  the claim store does not remember an escalation: a claim past its response time that is
  evaluated again at any later time is escalated again, and its timeline gets another entry.
\<close>

theorem claim_escalated_at_every_evaluation:
  fixes w :: "'x service_world_scheme"
  assumes "claim_view w (ref_id r) = Some snap" "ref_kind r = warranty_claim"
    and "isResponseBreached snap (cd_sla (getDefinition warranty_claim)) t" "t \<le> u"
  shows "\<exists>res w' res' w''. evaluateSla process_env (service_registry ord hord newest) r
        \<lparr>so_actorId = None, so_now = Some t, so_autoEscalate = None\<rparr> w = (Inr res, w') \<and> sr_escalated res
    \<and> evaluateSla process_env (service_registry ord hord newest) r
        \<lparr>so_actorId = None, so_now = Some u, so_autoEscalate = None\<rparr> w' = (Inr res', w'') \<and> sr_escalated res'
    \<and> escalations (claim_tl w'' (ref_id r)) = escalations (claim_tl w (ref_id r)) + 2"
proof -
  have breached_later: "isResponseBreached snap (cd_sla (getDefinition warranty_claim)) u"
    using assms(3,4) by (auto simp: isResponseBreached_def date_after_def split: option.splits if_splits)
  have step: "ok (evaluateSla process_env (service_registry ord hord newest) r
        \<lparr>so_actorId = None, so_now = Some n, so_autoEscalate = None\<rparr>) v
      (\<lambda>res v'. sr_escalated res \<and> claim_view v' = claim_view v
        \<and> escalations (claim_tl v' (ref_id r)) = escalations (claim_tl v (ref_id r)) + 1)"
    if "claim_view v (ref_id r) = Some snap" "isResponseBreached snap (cd_sla (getDefinition warranty_claim)) n"
    for v :: "'x service_world_scheme" and n
  proof -
    from that(1) obtain c where c: "find (\<lambda>c. wc_id c = ref_id r \<and> wc_deleted_at c = None) (sw_claims v) = Some c"
        "snap = claim_snapshot c" by (auto simp: claim_view_def)
    have esc: "cs_escalatedAt snap = None" by (simp add: c(2) claim_snapshot_def)
    have rule: "shouldEscalate (cd_escalation (getDefinition warranty_claim)) snap True b" for b
      by (simp add: shouldEscalate_def getDefinition_def CASE_DEFINITIONS_def)
    have target: "Option.bind (cd_escalation (getDefinition warranty_claim)) escalateToStatus = None"
      by (simp add: getDefinition_def CASE_DEFINITIONS_def)
    show ?thesis
      using that esc rule target assms(2) view_find(1) [OF c(1)]
      by (simp add: evaluateSla_def escalate_def Let_def getStore_def require_def WarrantyClaimStore_def
          claim_load_def claim_appendTimeline_def process_env_def claim_view_table claim_tl_def claim_rows_def
          escalations_def claim_row_type)
  qed
  obtain res w' where one: "evaluateSla process_env (service_registry ord hord newest) r
        \<lparr>so_actorId = None, so_now = Some t, so_autoEscalate = None\<rparr> w = (Inr res, w')" "sr_escalated res"
      "claim_view w' = claim_view w" "escalations (claim_tl w' (ref_id r)) = escalations (claim_tl w (ref_id r)) + 1"
    using okD [OF step [OF assms(1,3)]] by blast
  have "claim_view w' (ref_id r) = Some snap" using one(3) assms(1) by simp
  from okD [OF step [OF this breached_later]] obtain res' w'' where
    "evaluateSla process_env (service_registry ord hord newest) r
        \<lparr>so_actorId = None, so_now = Some u, so_autoEscalate = None\<rparr> w' = (Inr res', w'')" "sr_escalated res'"
    "escalations (claim_tl w'' (ref_id r)) = escalations (claim_tl w' (ref_id r)) + 1" by blast
  with one show ?thesis by (intro exI [of _ res] exI [of _ w'] exI [of _ res'] exI [of _ w'']) simp
qed

text \<open>
  a repair job has no status column: its status is the newest status row of the audit log.
  When the clock moves forward, a saved status is the status the next load returns, and the other
  jobs keep theirs.
\<close>

theorem repair_job_status_roundtrip:
  fixes w :: "'x service_world_scheme"
  assumes "newest_row newest" "ticking w" "ref_kind r = repair_job" "declared repair_job x"
    and "job_view newest w (ref_id r) = Some snap"
  shows "\<exists>snap' w'. job_saveStatus newest r x actor w = (Inr (Some snap'), w') \<and> ticking w' \<and> cs_status snap' = x
    \<and> job_load newest r w' = (Inr (Some snap'), w') \<and> job_view newest w' = (job_view newest w)(ref_id r \<mapsto> snap')"
proof -
  have "ok (st_saveStatus (RepairJobStore id newest) r x actor) w (\<lambda>res w'. \<exists>snap'. res = Some snap' \<and> ticking w'
      \<and> status_saved repair_job snap x snap' \<and> job_view newest w' = (job_view newest w)(ref_id r \<mapsto> snap'))"
    by (rule newest_row.job_store_saved [OF assms])
  then show ?thesis using assms(3)
    by (auto simp: RepairJobStore_def status_saved_def job_load_def dest!: okD)
qed

text \<open>Witnesses: a database with one row in each table.\<close>

definition demo_db :: service_world where
  "demo_db = \<lparr>clock_at = (\<lambda>n. 1000 + int n), clock_reads = 0, mem_cases = (\<lambda>_. None),
     mem_timelines = (\<lambda>_. None), mem_notes = (\<lambda>_. None), mem_attachments = (\<lambda>_. None),
     cw_events = [], cw_transitions = [], cw_logs = [], cw_ids = 0,
     sw_claims = [\<lparr>wc_id = ''c1'', wc_claim_number = ''WC-1'', wc_status = ''submitted'', wc_submitted_at = 0,
       wc_resolved_at = None, wc_deleted_at = None, wc_updated_by = None\<rparr>],
     sw_rmas = [\<lparr>rm_id = ''r1'', rm_rma_number = ''RMA-1'', rm_status = ''requested'', rm_requested_at = 0,
       rm_completed_at = None, rm_deleted_at = None, rm_updated_by = None\<rparr>],
     sw_tickets = [\<lparr>tk_id = ''t1'', tk_ticket_number = ''T-1'', tk_status = ''closed'', tk_priority = 3,
       tk_technician_id = None, tk_service_sla = None, tk_opened_at = 0, tk_assigned_at = None,
       tk_closed_at = Some 5, tk_deleted_at = None, tk_updated_by = None\<rparr>],
     sw_jobs = [\<lparr>rj_id = ''j1'', rj_repair_number = ''RJ-1'', rj_ticket_id = ''t1'', rj_technician_id = None,
       rj_started_at = None, rj_completed_at = None, rj_outcome = ''pending'', rj_repair_notes = None,
       rj_created_at = 0, rj_deleted_at = None, rj_updated_by = None\<rparr>],
     sw_audit = [], sw_claim_history = [], sw_ticket_history = [], sw_claim_documents = [],
     sw_service_documents = [], sw_technicians = [''tech''], sw_media_files = []\<rparr>"

abbreviation demo_registry :: "service_world case_registry" where
  "demo_registry \<equiv> service_registry id id newest_first"

theorem claim_transition_recorded_witness:
  "\<exists>snap' w'. transitionCase process_env demo_registry \<lparr>ref_kind = warranty_claim, ref_id = ''c1''\<rparr> ''cancelled''
     (no_hooks None None None) demo_db = (Inr snap', w') \<and> cs_closedAt snap' \<noteq> None"
proof -
  let ?r = "\<lparr>ref_kind = warranty_claim, ref_id = ''c1''\<rparr>"
  have "map_option cs_status (claim_view demo_db (ref_id ?r)) = Some ''submitted''" by code_simp
  then obtain snap where v: "claim_view demo_db (ref_id ?r) = Some snap" "cs_status snap = ''submitted''" by auto
  have "canTransition warrantyClaimStateMachine (cs_status snap) ''cancelled''" "''cancelled'' \<noteq> cs_status snap"
    unfolding v(2) by code_simp+
  moreover have "allowedTargets warrantyClaimStateMachine ''cancelled'' = []" by code_simp
  ultimately show ?thesis
    using claim_transition_recorded [OF v(1), of "''cancelled''" id id newest_first None None None] by auto
qed

theorem rma_transition_recorded_twice_witness:
  "\<exists>snap' w' e1 e2. transitionCase process_env demo_registry \<lparr>ref_kind = rma_case, ref_id = ''r1''\<rparr> ''approved''
     (no_hooks None None None) demo_db = (Inr snap', w') \<and> rma_tl w' ''r1'' = rma_tl demo_db ''r1'' @ [e1, e2]"
proof -
  let ?r = "\<lparr>ref_kind = rma_case, ref_id = ''r1''\<rparr>"
  have "map_option cs_status (rma_view demo_db (ref_id ?r)) = Some ''requested''" by code_simp
  then obtain snap where v: "rma_view demo_db (ref_id ?r) = Some snap" "cs_status snap = ''requested''" by auto
  have "canTransition rmaStateMachine (cs_status snap) ''approved''" "''approved'' \<noteq> cs_status snap"
    unfolding v(2) by code_simp+
  then show ?thesis
    using rma_transition_recorded_twice [OF v(1), of "''approved''" id id newest_first None None None] by auto
qed

theorem rma_attachment_always_refused_witness:
  "\<exists>e w'. addAttachmentCase process_env demo_registry \<lparr>ref_kind = rma_case, ref_id = ''r1''\<rparr>
       \<lparr>att_mediaFileId = None, att_label = Some ''photo'', att_docType = None, att_url = None\<rparr> None demo_db = (Inl e, w')
     \<and> sw_service_documents w' = []"
  using rma_attachment_always_refused [of "\<lparr>ref_kind = rma_case, ref_id = ''r1''\<rparr>" process_env id id newest_first
    "\<lparr>att_mediaFileId = None, att_label = Some ''photo'', att_docType = None, att_url = None\<rparr>" None demo_db]
  by (auto simp: demo_db_def)

theorem ticket_assign_ignores_lifecycle_witness:
  "\<exists>snap' w'. assignCase process_env demo_registry \<lparr>ref_kind = service_ticket, ref_id = ''t1''\<rparr> ''tech'' None demo_db
     = (Inr snap', w') \<and> cs_status snap' = ''assigned''"
proof -
  let ?r = "\<lparr>ref_kind = service_ticket, ref_id = ''t1''\<rparr>"
  have "map_option cs_status (ticket_view demo_db (ref_id ?r)) = Some ''closed''" by code_simp
  then obtain snap where v: "ticket_view demo_db (ref_id ?r) = Some snap" "cs_status snap = ''closed''" by auto
  have "''tech'' \<in> set (sw_technicians demo_db)" by code_simp
  then show ?thesis
    using ticket_assign_ignores_lifecycle [OF v(1), of "''tech''" id id newest_first None] v(2) by auto
qed

theorem claim_escalated_at_every_evaluation_witness:
  "\<exists>res w' res' w''. evaluateSla process_env demo_registry \<lparr>ref_kind = warranty_claim, ref_id = ''c1''\<rparr>
        \<lparr>so_actorId = None, so_now = Some 14400001, so_autoEscalate = None\<rparr> demo_db = (Inr res, w')
    \<and> evaluateSla process_env demo_registry \<lparr>ref_kind = warranty_claim, ref_id = ''c1''\<rparr>
        \<lparr>so_actorId = None, so_now = Some 14400001, so_autoEscalate = None\<rparr> w' = (Inr res', w'')
    \<and> sr_escalated res \<and> sr_escalated res'"
proof -
  let ?r = "\<lparr>ref_kind = warranty_claim, ref_id = ''c1''\<rparr>"
  have "map_option (\<lambda>s. isResponseBreached s (cd_sla (getDefinition warranty_claim)) 14400001)
      (claim_view demo_db (ref_id ?r)) = Some True" by code_simp
  then obtain snap where v: "claim_view demo_db (ref_id ?r) = Some snap"
      "isResponseBreached snap (cd_sla (getDefinition warranty_claim)) 14400001" by auto
  show ?thesis
    using claim_escalated_at_every_evaluation [OF v(1) _ v(2), of 14400001 id id newest_first] by auto
qed

theorem repair_job_status_roundtrip_witness:
  "\<exists>snap' w'. job_saveStatus newest_first \<lparr>ref_kind = repair_job, ref_id = ''j1''\<rparr> ''in_progress'' None demo_db
     = (Inr (Some snap'), w') \<and> cs_status snap' = ''in_progress''"
proof -
  let ?r = "\<lparr>ref_kind = repair_job, ref_id = ''j1''\<rparr>"
  have "map_option cs_status (job_view newest_first demo_db (ref_id ?r)) = Some ''open''" by code_simp
  then obtain snap where v: "job_view newest_first demo_db (ref_id ?r) = Some snap" by auto
  have "ticking demo_db" by (simp add: ticking_def demo_db_def)
  moreover have "declared repair_job ''in_progress''" by code_simp
  ultimately show ?thesis
    using repair_job_status_roundtrip [OF latest.newest_row_axioms _ _ _ v, of "''in_progress''" None] by auto
qed

end
