(* ===== verification/Workflow.thy ===== *)
theory Workflow
  imports Json
begin

text \<open>
  The saga coordinator (shared/workflow). A step's \<open>execute\<close> is raced against a timer, so it is
  given the time it has and gives what the promise is when it settles or that time is over,
  together with the world at that moment: \<open>Resolved\<close> with its patch, \<open>Rejected\<close> with the thrown
  value, or \<open>Pending\<close> when the timer wins. A context is a map from property names to values and a
  patch is merged into it (\<open>Object.assign\<close>); handlers do not assign to the context they are given.
  Time stamps are milliseconds (the ISO strings of the source order the same way). \<open>Date.now()\<close> and
  \<open>new Date()\<close> take the next of arbitrarily many readings \<open>clock\<close>, so a run may be as slow as it
  likes between any two of them; sleeping only lets time pass. The map of instances, the log and the
  active transaction context are in the state beside the world the handlers work on.
\<close>

section \<open>Types (workflow.types.ts)\<close>

datatype workflow_status = Wf_pending | Wf_running | Wf_compensating | Wf_completed | Wf_failed | Wf_timed_out

datatype step_status = St_pending | St_running | St_completed | St_failed | St_compensated | St_skipped

record retry_policy =
  maxAttempts :: "int option"
  delayMs :: "rat option"
  backoffFactor :: "rat option"

type_synonym 'v wctx = "string \<rightharpoonup> 'v"

datatype 'a settled = Resolved 'a | Rejected exn | Pending

record ('s, 'v) workflow_step =
  ws_name :: string
  ws_execute :: "'v wctx \<Rightarrow> int \<Rightarrow> 's \<Rightarrow> 'v wctx option settled \<times> 's"
  ws_compensate :: "('v wctx \<Rightarrow> ('s, unit) act) option"
  ws_retry :: "retry_policy option"
  ws_timeoutMs :: "int option"

record ('s, 'v) workflow_definition =
  wd_name :: string
  wd_steps :: "('s, 'v) workflow_step list"
  wd_timeoutMs :: "int option"
  wd_retry :: "retry_policy option"

record step_record =
  sr_name :: string
  sr_status :: step_status
  sr_attempts :: int
  sr_error :: "string option"
  sr_startedAt :: "int option"
  sr_finishedAt :: "int option"

record 'v workflow_instance =
  wi_id :: string
  wi_name :: string
  wi_status :: workflow_status
  wi_context :: "'v wctx"
  wi_steps :: "step_record list"
  wi_currentStepIndex :: nat
  wi_error :: "string option"
  wi_createdAt :: int
  wi_updatedAt :: int
  wi_finishedAt :: "int option"

record ('s, 'v) saga_state =
  sg_world :: 's
  sg_instances :: "(string \<times> 'v workflow_instance) list"
  sg_reads :: nat
  sg_log :: "string list"
  sg_context :: "(string \<rightharpoonup> string) option"

section \<open>The store (workflow.store.ts)\<close>

text \<open>A \<open>Map\<close> in insertion order: setting an existing key keeps its place.\<close>

fun map_set :: "'k \<Rightarrow> 'a \<Rightarrow> ('k \<times> 'a) list \<Rightarrow> ('k \<times> 'a) list" where
  "map_set k v [] = [(k, v)]"
| "map_set k v ((k', v') # m) = (if k' = k then (k, v) # m else (k', v') # map_set k v m)"

definition store_save :: "'v workflow_instance \<Rightarrow> ('s, 'v) saga_state \<Rightarrow> ('s, 'v) saga_state" where
  "store_save inst g = g\<lparr>sg_instances := map_set (wi_id inst) inst (sg_instances g)\<rparr>"

definition store_get :: "string \<Rightarrow> ('s, 'v) saga_state \<Rightarrow> 'v workflow_instance option" where
  "store_get i g = map_of (sg_instances g) i"

definition store_list :: "nat \<Rightarrow> ('s, 'v) saga_state \<Rightarrow> 'v workflow_instance list" where
  "store_list limit g = take limit (sort_key (\<lambda>i. - wi_updatedAt i) (map snd (sg_instances g)))"

definition store_delete :: "string \<Rightarrow> ('s, 'v) saga_state \<Rightarrow> bool \<times> ('s, 'v) saga_state" where
  "store_delete i g = (store_get i g \<noteq> None, g\<lparr>sg_instances := filter (\<lambda>p. fst p \<noteq> i) (sg_instances g)\<rparr>)"

definition store_clear :: "('s, 'v) saga_state \<Rightarrow> ('s, 'v) saga_state" where
  "store_clear g = g\<lparr>sg_instances := []\<rparr>"

definition store_size :: "('s, 'v) saga_state \<Rightarrow> nat" where
  "store_size g = length (sg_instances g)"

section \<open>The coordinator (saga-coordinator.service.ts)\<close>

definition DEFAULT_WORKFLOW_TIMEOUT_MS :: int where
  "DEFAULT_WORKFLOW_TIMEOUT_MS = 60000"

record policy =
  pol_maxAttempts :: int
  pol_delayMs :: rat
  pol_backoffFactor :: rat

text \<open>\<open>{ ...DEFAULT_RETRY, ...definition.retry, ...step.retry }\<close>\<close>

definition spread_retry :: "retry_policy option \<Rightarrow> policy \<Rightarrow> policy" where
  "spread_retry r p = (case r of None \<Rightarrow> p
     | Some q \<Rightarrow> \<lparr>pol_maxAttempts = nullish (maxAttempts q) (pol_maxAttempts p),
         pol_delayMs = nullish (delayMs q) (pol_delayMs p),
         pol_backoffFactor = nullish (backoffFactor q) (pol_backoffFactor p)\<rparr>)"

definition DEFAULT_RETRY :: policy where
  "DEFAULT_RETRY = \<lparr>pol_maxAttempts = 1, pol_delayMs = 100, pol_backoffFactor = 2\<rparr>"

definition step_policy :: "('s, 'v) workflow_definition \<Rightarrow> ('s, 'v) workflow_step \<Rightarrow> policy" where
  "step_policy d st = spread_retry (ws_retry st) (spread_retry (wd_retry d) DEFAULT_RETRY)"

definition date_now :: "(nat \<Rightarrow> int) \<Rightarrow> ('s, 'v) saga_state \<Rightarrow> int \<times> ('s, 'v) saga_state" where
  "date_now clock g = (clock (sg_reads g), g\<lparr>sg_reads := Suc (sg_reads g)\<rparr>)"

definition add_log :: "string \<Rightarrow> ('s, 'v) saga_state \<Rightarrow> ('s, 'v) saga_state" where
  "add_log m g = g\<lparr>sg_log := sg_log g @ [m]\<rparr>"

definition touch :: "(nat \<Rightarrow> int) \<Rightarrow> 'v workflow_instance \<Rightarrow> ('s, 'v) saga_state
     \<Rightarrow> 'v workflow_instance \<times> ('s, 'v) saga_state" where
  "touch clock inst g = (let (t, g1) = date_now clock g; inst1 = inst\<lparr>wi_updatedAt := t\<rparr> in
     (inst1, store_save inst1 g1))"

definition upd_record :: "nat \<Rightarrow> (step_record \<Rightarrow> step_record) \<Rightarrow> 'v workflow_instance \<Rightarrow> 'v workflow_instance" where
  "upd_record i f inst = inst\<lparr>wi_steps := (wi_steps inst)[i := f (wi_steps inst ! i)]\<rparr>"

definition quoted :: "string \<Rightarrow> string" where
  "quoted x = [CHR 0x22] @ x @ [CHR 0x22]"

definition withTimeout ::
  "('v wctx \<Rightarrow> int \<Rightarrow> 's \<Rightarrow> 'v wctx option settled \<times> 's) \<Rightarrow> 'v wctx \<Rightarrow> int \<Rightarrow> string
     \<Rightarrow> ('s, 'v) saga_state \<Rightarrow> (exn + 'v wctx option) \<times> ('s, 'v) saga_state" where
  "withTimeout execute ctx ms message g =
     (case execute ctx ms (sg_world g) of
        (Resolved x, w) \<Rightarrow> (Inr x, g\<lparr>sg_world := w\<rparr>)
      | (Rejected e, w) \<Rightarrow> (Inl e, g\<lparr>sg_world := w\<rparr>)
      | (Pending, w) \<Rightarrow> (Inl (JsError message), g\<lparr>sg_world := w\<rparr>))"

text \<open>The patch is merged, and the record completed and stored.\<close>

definition complete_step ::
  "(nat \<Rightarrow> int) \<Rightarrow> nat \<Rightarrow> 'v wctx option \<Rightarrow> 'v workflow_instance \<Rightarrow> ('s, 'v) saga_state
     \<Rightarrow> 'v workflow_instance \<times> ('s, 'v) saga_state" where
  "complete_step clock i patch inst g =
     (let inst1 = (case patch of None \<Rightarrow> inst | Some p \<Rightarrow> inst\<lparr>wi_context := wi_context inst ++ p\<rparr>);
          (t, g1) = date_now clock g in
      touch clock (upd_record i (\<lambda>r. r\<lparr>sr_status := St_completed, sr_finishedAt := Some t\<rparr>) inst1) g1)"

text \<open>
  The attempts of one step: \<open>n\<close> are left, \<open>a\<close> is the number of the next one, \<open>err\<close> is
  \<open>lastError\<close>. The result is \<open>lastError\<close> after the loop.
\<close>

fun try_step ::
  "(nat \<Rightarrow> int) \<Rightarrow> ('s, 'v) workflow_step \<Rightarrow> policy \<Rightarrow> int \<Rightarrow> nat \<Rightarrow> nat \<Rightarrow> int \<Rightarrow> exn option
     \<Rightarrow> 'v workflow_instance \<Rightarrow> ('s, 'v) saga_state
     \<Rightarrow> exn option \<times> 'v workflow_instance \<times> ('s, 'v) saga_state" where
  "try_step clock st pol stepTimeout i 0 a err inst g = (err, inst, g)"
| "try_step clock st pol stepTimeout i (Suc n) a err inst g =
     (let inst1 = upd_record i (\<lambda>r. r\<lparr>sr_attempts := a\<rparr>) inst in
      case withTimeout (ws_execute st) (wi_context inst1) stepTimeout
             (''Step '' @ quoted (ws_name st) @ '' timed out'') g of
        (Inr patch, g1) \<Rightarrow>
          (None, complete_step clock i patch inst1 g1)
      | (Inl e, g1) \<Rightarrow>
          try_step clock st pol stepTimeout i n (a + 1) (Some e) inst1
            (add_log (''workflow '' @ wi_id inst @ '' step '' @ ws_name st @ '' attempt '' @ show_nat (nat a)
              @ ''/'' @ show_nat (nat (pol_maxAttempts pol)) @ '' failed: '' @ errMsg e) g1))"

definition compensate_one ::
  "(nat \<Rightarrow> int) \<Rightarrow> ('s, 'v) workflow_step \<Rightarrow> nat \<Rightarrow> 'v workflow_instance \<Rightarrow> ('s, 'v) saga_state
     \<Rightarrow> 'v workflow_instance \<times> ('s, 'v) saga_state" where
  "compensate_one clock st i inst g =
     (case ws_compensate st of
        None \<Rightarrow> (inst, g)
      | Some undo \<Rightarrow>
          if sr_status (wi_steps inst ! i) \<noteq> St_completed then (inst, g)
          else (case undo (wi_context inst) (sg_world g) of
              (Inr _, w) \<Rightarrow> touch clock (upd_record i (\<lambda>r. r\<lparr>sr_status := St_compensated\<rparr>) inst) (g\<lparr>sg_world := w\<rparr>)
            | (Inl e, w) \<Rightarrow> touch clock
                (upd_record i (\<lambda>r. r\<lparr>sr_error := Some (''compensate: '' @ errMsg e)\<rparr>) inst)
                (add_log (''compensation failed for '' @ ws_name st @ '' on '' @ wi_id inst @ '': '' @ errMsg e)
                  (g\<lparr>sg_world := w\<rparr>))))"

text \<open>\<open>for (let i = failedIndex - 1; i >= 0; i--)\<close>\<close>

fun compensate_loop ::
  "(nat \<Rightarrow> int) \<Rightarrow> ('s, 'v) workflow_step list \<Rightarrow> nat \<Rightarrow> 'v workflow_instance \<Rightarrow> ('s, 'v) saga_state
     \<Rightarrow> 'v workflow_instance \<times> ('s, 'v) saga_state" where
  "compensate_loop clock steps 0 inst g = (inst, g)"
| "compensate_loop clock steps (Suc i) inst g =
     (let (inst1, g1) = compensate_one clock (steps ! i) i inst g in
      compensate_loop clock steps i inst1 g1)"

definition failAndCompensate ::
  "(nat \<Rightarrow> int) \<Rightarrow> ('s, 'v) workflow_definition \<Rightarrow> 'v workflow_instance \<Rightarrow> nat \<Rightarrow> string \<Rightarrow> workflow_status
     \<Rightarrow> ('s, 'v) saga_state \<Rightarrow> 'v workflow_instance \<times> ('s, 'v) saga_state" where
  "failAndCompensate clock d inst failedIndex message st g =
     (let (inst1, g1) = touch clock (inst\<lparr>wi_status := Wf_compensating, wi_error := Some message\<rparr>) g;
          (inst2, g2) = compensate_loop clock (wd_steps d) failedIndex inst1 g1;
          (t, g3) = date_now clock g2;
          (inst3, g4) = touch clock (inst2\<lparr>wi_status := st, wi_finishedAt := Some t\<rparr>) g3 in
      (inst3, if st = Wf_failed
              then add_log (''workflow '' @ wi_id inst3 @ '' ('' @ wd_name d @ '') failed at step ''
                 @ ws_name (wd_steps d ! failedIndex) @ '': '' @ message) g4
              else g4))"

definition step_timeout ::
  "(nat \<Rightarrow> int) \<Rightarrow> ('s, 'v) workflow_step \<Rightarrow> int \<Rightarrow> ('s, 'v) saga_state \<Rightarrow> int \<times> ('s, 'v) saga_state" where
  "step_timeout clock st deadline g = (case ws_timeoutMs st of Some m \<Rightarrow> (m, g)
     | None \<Rightarrow> (let (u, g') = date_now clock g in (max 1000 (deadline - u), g')))"

definition begin_step ::
  "(nat \<Rightarrow> int) \<Rightarrow> nat \<Rightarrow> 'v workflow_instance \<Rightarrow> ('s, 'v) saga_state \<Rightarrow> 'v workflow_instance \<times> ('s, 'v) saga_state" where
  "begin_step clock i inst g =
     (let (t, g1) = date_now clock g in
      touch clock (upd_record i (\<lambda>r. r\<lparr>sr_status := St_running, sr_startedAt := Some t\<rparr>)
        (inst\<lparr>wi_currentStepIndex := i\<rparr>)) g1)"

text \<open>The steps from index \<open>i\<close> on; the flag says whether the loop ended by itself.\<close>

fun run_steps ::
  "(nat \<Rightarrow> int) \<Rightarrow> ('s, 'v) workflow_definition \<Rightarrow> int \<Rightarrow> nat \<Rightarrow> ('s, 'v) workflow_step list
     \<Rightarrow> 'v workflow_instance \<Rightarrow> ('s, 'v) saga_state
     \<Rightarrow> bool \<times> 'v workflow_instance \<times> ('s, 'v) saga_state" where
  "run_steps clock d deadline i [] inst g = (True, inst, g)"
| "run_steps clock d deadline i (st # rest) inst g =
     (let (t, g1) = date_now clock g in
      if t > deadline then
        let (inst1, g2) = failAndCompensate clock d inst i ''Workflow timed out'' Wf_timed_out g1 in
        (False, inst1, g2)
      else
        let pol = step_policy d st;
            (stepTimeout, g2) = step_timeout clock st deadline g1;
            (inst3, g4) = begin_step clock i inst g2;
            (err, inst4, g5) = try_step clock st pol stepTimeout i (nat (pol_maxAttempts pol)) 1 None inst3 g4 in
        if (case err of None \<Rightarrow> False | Some e \<Rightarrow> truthy_exn e) then
          let message = errMsg (the err);
              (t3, g6) = date_now clock g5;
              inst5 = upd_record i (\<lambda>r. r\<lparr>sr_status := St_failed, sr_error := Some message,
                        sr_finishedAt := Some t3\<rparr>) inst4;
              (inst6, g7) = failAndCompensate clock d inst5 i message Wf_failed g6 in
          (False, inst6, g7)
        else run_steps clock d deadline (Suc i) rest inst4 g5)"

definition initial_instance :: "string \<Rightarrow> ('s, 'v) workflow_definition \<Rightarrow> 'v wctx \<Rightarrow> int \<Rightarrow> 'v workflow_instance" where
  "initial_instance wid d ctx now =
     \<lparr>wi_id = wid, wi_name = wd_name d, wi_status = Wf_running, wi_context = ctx,
      wi_steps = map (\<lambda>s. \<lparr>sr_name = ws_name s, sr_status = St_pending, sr_attempts = 0, sr_error = None,
        sr_startedAt = None, sr_finishedAt = None\<rparr>) (wd_steps d),
      wi_currentStepIndex = 0, wi_error = None, wi_createdAt = now, wi_updatedAt = now, wi_finishedAt = None\<rparr>"

definition run_workflow ::
  "(nat \<Rightarrow> int) \<Rightarrow> string \<Rightarrow> ('s, 'v) workflow_definition \<Rightarrow> 'v wctx \<Rightarrow> ('s, 'v) saga_state
     \<Rightarrow> 'v workflow_instance \<times> ('s, 'v) saga_state" where
  "run_workflow clock wid d ctx g =
     (let (now, g1) = date_now clock g;
          inst = initial_instance wid d ctx now;
          g2 = g1\<lparr>sg_context := map_option (\<lambda>c. c(''workflowId'' \<mapsto> wid)) (sg_context g1)\<rparr>;
          g3 = store_save inst g2;
          (t, g4) = date_now clock g3;
          deadline = t + nullish (wd_timeoutMs d) DEFAULT_WORKFLOW_TIMEOUT_MS;
          (ended, inst1, g5) = run_steps clock d deadline 0 (wd_steps d) inst g4 in
      if ended then
        let (t2, g6) = date_now clock g5 in
        touch clock (inst1\<lparr>wi_status := Wf_completed, wi_finishedAt := Some t2\<rparr>) g6
      else (inst1, g5))"

section \<open>The order placement template (definitions/order-placement.definition.ts)\<close>

record ('s, 'v) placement_handlers =
  reserveInventory :: "'v wctx \<Rightarrow> int \<Rightarrow> 's \<Rightarrow> 'v wctx option settled \<times> 's"
  releaseInventory :: "'v wctx \<Rightarrow> ('s, unit) act"
  initiatePayment :: "'v wctx \<Rightarrow> int \<Rightarrow> 's \<Rightarrow> 'v wctx option settled \<times> 's"
  voidPayment :: "'v wctx \<Rightarrow> ('s, unit) act"
  confirmOrder :: "'v wctx \<Rightarrow> int \<Rightarrow> 's \<Rightarrow> 'v wctx option settled \<times> 's"
  cancelOrder :: "'v wctx \<Rightarrow> ('s, unit) act"

definition orderPlacementDefinition :: "('s, 'v) placement_handlers \<Rightarrow> ('s, 'v) workflow_definition" where
  "orderPlacementDefinition h =
     \<lparr>wd_name = ''order.placement'',
      wd_steps =
       [\<lparr>ws_name = ''reserve_inventory'', ws_execute = reserveInventory h,
         ws_compensate = Some (releaseInventory h), ws_retry = None, ws_timeoutMs = Some 15000\<rparr>,
        \<lparr>ws_name = ''initiate_payment'', ws_execute = initiatePayment h,
         ws_compensate = Some (voidPayment h),
         ws_retry = Some \<lparr>maxAttempts = Some 3, delayMs = Some 300, backoffFactor = None\<rparr>,
         ws_timeoutMs = Some 30000\<rparr>,
        \<lparr>ws_name = ''confirm_order'', ws_execute = confirmOrder h,
         ws_compensate = Some (cancelOrder h), ws_retry = None, ws_timeoutMs = Some 15000\<rparr>],
      wd_timeoutMs = Some 120000,
      wd_retry = Some \<lparr>maxAttempts = Some 2, delayMs = Some 200, backoffFactor = Some 2\<rparr>\<rparr>"

section \<open>Lemmas\<close>

lemma map_of_map_set: "map_of (map_set k v m) = (map_of m)(k \<mapsto> v)"
  by (induction m) (auto simp: fun_eq_iff)

lemma upd_record_sel [simp]:
  "wi_id (upd_record i f inst) = wi_id inst" "wi_context (upd_record i f inst) = wi_context inst"
  "wi_status (upd_record i f inst) = wi_status inst"
  "wi_steps (upd_record i f inst) = (wi_steps inst)[i := f (wi_steps inst ! i)]"
  by (simp_all add: upd_record_def)

lemma date_now_world [simp]:
  "sg_world (snd (date_now c g)) = sg_world g" "sg_instances (snd (date_now c g)) = sg_instances g"
  by (simp_all add: date_now_def)

text \<open>Touching an instance changes its time stamp and stores it.\<close>

lemma touch_sel [simp]:
  "wi_id (fst (touch c inst g)) = wi_id inst" "wi_context (fst (touch c inst g)) = wi_context inst"
  "wi_status (fst (touch c inst g)) = wi_status inst" "wi_steps (fst (touch c inst g)) = wi_steps inst"
  "sg_world (snd (touch c inst g)) = sg_world g"
  by (simp_all add: touch_def date_now_def store_save_def split_def Let_def)

lemma touch_stored: "store_get (wi_id inst) (snd (touch c inst g)) = Some (fst (touch c inst g))"
  by (simp add: touch_def date_now_def store_save_def store_get_def map_of_map_set split_def Let_def)

lemma add_log_sel [simp]:
  "sg_world (add_log m g) = sg_world g" "sg_instances (add_log m g) = sg_instances g"
  by (simp_all add: add_log_def)

lemma store_get_cong: "sg_instances g = sg_instances h \<Longrightarrow> store_get i g = store_get i h"
  by (simp add: store_get_def)

text \<open>
  What compensation does to the world: the undo actions of the completed steps below \<open>n\<close> that have
  one, the latest step first, each started in the world the one before it left, thrown or not.
\<close>

definition undo_actions ::
  "('s, 'v) workflow_step list \<Rightarrow> step_record list \<Rightarrow> nat \<Rightarrow> ('v wctx \<Rightarrow> ('s, unit) act) list" where
  "undo_actions steps rs n = concat (map (\<lambda>i. if sr_status (rs ! i) = St_completed
      then (case ws_compensate (steps ! i) of None \<Rightarrow> [] | Some u \<Rightarrow> [u]) else []) (rev [0..<n]))"

definition undo_all :: "('v wctx \<Rightarrow> ('s, unit) act) list \<Rightarrow> 'v wctx \<Rightarrow> 's \<Rightarrow> 's" where
  "undo_all us ctx w = fold (\<lambda>u v. snd (u ctx v)) us w"

lemma undo_actions_0 [simp]: "undo_actions steps rs 0 = []"
  by (simp add: undo_actions_def)

lemma undo_actions_Suc:
  "undo_actions steps rs (Suc n) =
     (if sr_status (rs ! n) = St_completed then (case ws_compensate (steps ! n) of None \<Rightarrow> [] | Some u \<Rightarrow> [u]) else [])
     @ undo_actions steps rs n"
  by (simp add: undo_actions_def)

lemma undo_actions_cong:
  "(\<And>i. i < n \<Longrightarrow> rs ! i = rs' ! i) \<Longrightarrow> undo_actions steps rs n = undo_actions steps rs' n"
  by (induction n) (simp_all add: undo_actions_Suc)

lemma undo_all_simps [simp]:
  "undo_all [] ctx w = w" "undo_all (u # us) ctx w = undo_all us ctx (snd (u ctx w))"
  "undo_all (us @ vs) ctx w = undo_all vs ctx (undo_all us ctx w)"
  by (simp_all add: undo_all_def)

lemma compensate_one_sel [simp]:
  "wi_id (fst (compensate_one c st i inst g)) = wi_id inst"
  "wi_context (fst (compensate_one c st i inst g)) = wi_context inst"
  "wi_status (fst (compensate_one c st i inst g)) = wi_status inst"
  "length (wi_steps (fst (compensate_one c st i inst g))) = length (wi_steps inst)"
  "j \<noteq> i \<Longrightarrow> wi_steps (fst (compensate_one c st i inst g)) ! j = wi_steps inst ! j"
  by (simp_all add: compensate_one_def split: option.split prod.split sum.split)

lemma compensate_one_world:
  "sg_world (snd (compensate_one c st i inst g)) =
     undo_all (if sr_status (wi_steps inst ! i) = St_completed
       then (case ws_compensate st of None \<Rightarrow> [] | Some u \<Rightarrow> [u]) else []) (wi_context inst) (sg_world g)"
  by (simp add: compensate_one_def split: option.split prod.split sum.split)

lemma compensate_loop_sel [simp]:
  "wi_id (fst (compensate_loop c steps n inst g)) = wi_id inst"
  "wi_context (fst (compensate_loop c steps n inst g)) = wi_context inst"
  "length (wi_steps (fst (compensate_loop c steps n inst g))) = length (wi_steps inst)"
  by (induction n arbitrary: inst g) (simp_all add: split_def Let_def)

lemma compensate_loop_above:
  "n \<le> j \<Longrightarrow> wi_steps (fst (compensate_loop c steps n inst g)) ! j = wi_steps inst ! j"
  by (induction n arbitrary: inst g) (simp_all add: split_def Let_def)

lemma compensate_loop_world:
  "sg_world (snd (compensate_loop c steps n inst g)) =
     undo_all (undo_actions steps (wi_steps inst) n) (wi_context inst) (sg_world g)"
proof (induction n arbitrary: inst g)
  case (Suc n)
  have "undo_actions steps (wi_steps (fst (compensate_one c (steps ! n) n inst g))) n
      = undo_actions steps (wi_steps inst) n"
    by (rule undo_actions_cong) simp
  then show ?case
    by (simp add: split_def Let_def Suc.IH compensate_one_world undo_actions_Suc)
qed simp

section \<open>What a run does, abstractly\<close>

text \<open>
  \<open>tries st ctx k w w'\<close>: \<open>k\<close> failing attempts of a step in a row take the world from \<open>w\<close> to \<open>w'\<close>.
  \<open>forward d ctx w i ctx' w'\<close>: the first \<open>i\<close> steps succeed one after the other, each after fewer
  failing attempts than its policy allows, and merge their patches into the context.
\<close>

definition failed_try :: "('v wctx option settled) \<Rightarrow> bool" where
  "failed_try r = (case r of Resolved p \<Rightarrow> False | Rejected e \<Rightarrow> truthy_exn e | Pending \<Rightarrow> True)"

inductive tries :: "('s, 'v) workflow_step \<Rightarrow> 'v wctx \<Rightarrow> nat \<Rightarrow> 's \<Rightarrow> 's \<Rightarrow> bool"
  for st :: "('s, 'v) workflow_step" and ctx :: "'v wctx" where
  tries_none: "tries st ctx 0 w w"
| tries_more: "ws_execute st ctx ms w = (r, w1) \<Longrightarrow> failed_try r \<Longrightarrow> tries st ctx n w1 w2 \<Longrightarrow> tries st ctx (Suc n) w w2"

definition merge_patch :: "'v wctx \<Rightarrow> 'v wctx option \<Rightarrow> 'v wctx" where
  "merge_patch ctx p = (case p of None \<Rightarrow> ctx | Some q \<Rightarrow> ctx ++ q)"

inductive forward ::
  "('s, 'v) workflow_definition \<Rightarrow> 'v wctx \<Rightarrow> 's \<Rightarrow> nat \<Rightarrow> 'v wctx \<Rightarrow> 's \<Rightarrow> bool"
  for d :: "('s, 'v) workflow_definition" and ctx :: "'v wctx" and w :: 's where
  forward_start: "forward d ctx w 0 ctx w"
| forward_step: "forward d ctx w i ctx1 w1 \<Longrightarrow> i < length (wd_steps d) \<Longrightarrow>
     tries (wd_steps d ! i) ctx1 k w1 w2 \<Longrightarrow> int k < pol_maxAttempts (step_policy d (wd_steps d ! i)) \<Longrightarrow>
     ws_execute (wd_steps d ! i) ctx1 ms w2 = (Resolved p, w3) \<Longrightarrow>
     forward d ctx w (Suc i) (merge_patch ctx1 p) w3"

text \<open>
  What the coordinator takes for granted: every step is tried at least once, and no handler throws a
  falsy value.
\<close>

definition sound_definition :: "('s, 'v) workflow_definition \<Rightarrow> bool" where
  "sound_definition d \<longleftrightarrow> (\<forall>st\<in>set (wd_steps d). 1 \<le> pol_maxAttempts (step_policy d st)
     \<and> (\<forall>ctx ms w e w'. ws_execute st ctx ms w = (Rejected e, w') \<longrightarrow> truthy_exn e))"

text \<open>The undo actions of the first \<open>n\<close> steps, the latest first.\<close>

definition undos :: "('s, 'v) workflow_definition \<Rightarrow> nat \<Rightarrow> ('v wctx \<Rightarrow> ('s, unit) act) list" where
  "undos d n = concat (map (\<lambda>st. case ws_compensate st of None \<Rightarrow> [] | Some u \<Rightarrow> [u]) (rev (take n (wd_steps d))))"

definition never_falsy :: "('s, 'v) workflow_step \<Rightarrow> bool" where
  "never_falsy st \<longleftrightarrow> (\<forall>ctx ms w e w'. ws_execute st ctx ms w = (Rejected e, w') \<longrightarrow> truthy_exn e)"

lemma withTimeout_cases:
  assumes "never_falsy st"
  obtains (ok) p w' where "ws_execute st ctx ms (sg_world g) = (Resolved p, w')"
      "withTimeout (ws_execute st) ctx ms m g = (Inr p, g\<lparr>sg_world := w'\<rparr>)"
  | (failed) e r w' where "ws_execute st ctx ms (sg_world g) = (r, w')" "failed_try r" "truthy_exn e"
      "withTimeout (ws_execute st) ctx ms m g = (Inl e, g\<lparr>sg_world := w'\<rparr>)"
proof (cases "ws_execute st ctx ms (sg_world g)")
  case (Pair r w')
  show thesis
  proof (cases r)
    case (Resolved p)
    then show ?thesis using ok Pair by (simp add: withTimeout_def)
  next
    case (Rejected e)
    moreover have "truthy_exn e" using Pair assms Rejected unfolding never_falsy_def by blast
    ultimately show ?thesis using failed Pair by (simp add: withTimeout_def failed_try_def)
  next
    case Pending
    with Pair show ?thesis
      by (intro failed [of Pending w' "JsError m"]) (simp_all add: withTimeout_def failed_try_def)
  qed
qed

definition try_ok ::
  "('s, 'v) workflow_step \<Rightarrow> int \<Rightarrow> nat \<Rightarrow> nat \<Rightarrow> int \<Rightarrow> 'v workflow_instance \<Rightarrow> 's \<Rightarrow> 'v workflow_instance \<Rightarrow> 's \<Rightarrow> bool" where
  "try_ok st ms i n a inst w inst' w' \<longleftrightarrow> (\<exists>k p w2 r. k < n \<and> tries st (wi_context inst) k w w2
     \<and> ws_execute st (wi_context inst) ms w2 = (Resolved p, w') \<and> wi_context inst' = merge_patch (wi_context inst) p
     \<and> wi_steps inst' = (wi_steps inst)[i := r] \<and> sr_status r = St_completed \<and> sr_attempts r = a + int k)"

definition try_failed ::
  "('s, 'v) workflow_step \<Rightarrow> nat \<Rightarrow> nat \<Rightarrow> int \<Rightarrow> 'v workflow_instance \<Rightarrow> 's \<Rightarrow> 'v workflow_instance \<Rightarrow> 's \<Rightarrow> bool" where
  "try_failed st i n a inst w inst' w' \<longleftrightarrow> tries st (wi_context inst) n w w' \<and> wi_context inst' = wi_context inst
     \<and> (\<exists>r. wi_steps inst' = (wi_steps inst)[i := r] \<and> sr_attempts r = a + int n - 1)"

lemma complete_step_sel [simp]:
  "wi_id (fst (complete_step c i p inst g)) = wi_id inst"
  "wi_context (fst (complete_step c i p inst g)) = merge_patch (wi_context inst) p"
  "sg_world (snd (complete_step c i p inst g)) = sg_world g"
  by (simp_all add: complete_step_def Let_def split_def merge_patch_def split: option.split)

lemma complete_step_steps:
  "wi_steps (fst (complete_step c i p inst g)) = (wi_steps inst)[i := (wi_steps inst ! i)
     \<lparr>sr_status := St_completed, sr_finishedAt := Some (fst (date_now c g))\<rparr>]"
  by (simp add: complete_step_def Let_def split_def split: option.split)

lemma try_ok_now:
  assumes "ws_execute st (wi_context inst) ms w = (Resolved p, w')" "i < length (wi_steps inst)"
    and "complete_step c i p (upd_record i (\<lambda>r. r\<lparr>sr_attempts := a\<rparr>) inst) (g\<lparr>sg_world := w'\<rparr>) = (inst', g')"
  shows "wi_id inst' = wi_id inst \<and> try_ok st ms i (Suc n) a inst w inst' (sg_world g')"
proof -
  have inst': "inst' = fst (complete_step c i p (upd_record i (\<lambda>r. r\<lparr>sr_attempts := a\<rparr>) inst) (g\<lparr>sg_world := w'\<rparr>))"
    and g': "sg_world g' = w'"
    using assms(3) complete_step_sel(3) [of c i p "upd_record i (\<lambda>r. r\<lparr>sr_attempts := a\<rparr>) inst" "g\<lparr>sg_world := w'\<rparr>"]
    by simp_all
  have "tries st (wi_context inst) 0 w w" by (rule tries_none)
  then have "try_ok st ms i (Suc n) a inst w inst' w'"
    unfolding try_ok_def inst' using assms(1,2) by (fastforce simp: complete_step_steps)
  then show ?thesis using inst' g' by simp
qed

lemma try_ok_later:
  assumes "ws_execute st (wi_context inst) ms w = (r, w1)" "failed_try r"
    and "try_ok st ms i n (a + 1) (upd_record i f inst) w1 inst' w'"
  shows "try_ok st ms i (Suc n) a inst w inst' w'"
proof -
  from assms(3) obtain k p w2 r' where k: "k < n" "tries st (wi_context inst) k w1 w2"
      "ws_execute st (wi_context inst) ms w2 = (Resolved p, w')" "wi_context inst' = merge_patch (wi_context inst) p"
      "wi_steps inst' = (wi_steps inst)[i := r']" "sr_status r' = St_completed" "sr_attempts r' = a + 1 + int k"
    by (auto simp: try_ok_def)
  moreover have "tries st (wi_context inst) (Suc k) w w2" using tries_more assms(1,2) k(2) .
  ultimately show ?thesis unfolding try_ok_def
    by (intro exI [of _ "Suc k"] exI [of _ p] exI [of _ w2] exI [of _ r']) simp
qed

lemma try_failed_now:
  assumes "ws_execute st (wi_context inst) ms w = (r, w1)" "failed_try r" "i < length (wi_steps inst)"
  shows "try_failed st i (Suc 0) a inst w (upd_record i (\<lambda>r. r\<lparr>sr_attempts := a\<rparr>) inst) w1"
  unfolding try_failed_def using assms by (auto intro: tries.intros)

lemma try_failed_later:
  assumes "ws_execute st (wi_context inst) ms w = (r, w1)" "failed_try r"
    and "try_failed st i n (a + 1) (upd_record i f inst) w1 inst' w'"
  shows "try_failed st i (Suc n) a inst w inst' w'"
  using assms by (auto simp: try_failed_def intro: tries_more)

lemma try_step_spec:
  assumes "never_falsy st"
  shows "i < length (wi_steps inst) \<Longrightarrow> try_step c st pol ms i (Suc n) a err inst g = (err', inst', g') \<Longrightarrow>
    wi_id inst' = wi_id inst \<and>
    (err' = None \<and> try_ok st ms i (Suc n) a inst (sg_world g) inst' (sg_world g')
     \<or> (\<exists>e. err' = Some e \<and> truthy_exn e) \<and> try_failed st i (Suc n) a inst (sg_world g) inst' (sg_world g'))"
proof (induction n arbitrary: a err inst g)
  case 0
  show ?case
  proof (cases rule: withTimeout_cases [OF assms, of "wi_context inst" ms g
        "''Step '' @ quoted (ws_name st) @ '' timed out''"])
    case ok: (1 p w')
    then have "complete_step c i p (upd_record i (\<lambda>r. r\<lparr>sr_attempts := a\<rparr>) inst) (g\<lparr>sg_world := w'\<rparr>) = (inst', g')"
      "err' = None" using 0(2) by (simp_all add: Let_def)
    then show ?thesis using try_ok_now [OF ok(1) 0(1)] by blast
  next
    case failed: (2 e r w')
    then show ?thesis using 0 try_failed_now [OF failed(1,2) 0(1)] by (auto simp: Let_def)
  qed
next
  case (Suc n)
  show ?case
  proof (cases rule: withTimeout_cases [OF assms, of "wi_context inst" ms g
        "''Step '' @ quoted (ws_name st) @ '' timed out''"])
    case ok: (1 p w')
    then have "complete_step c i p (upd_record i (\<lambda>r. r\<lparr>sr_attempts := a\<rparr>) inst) (g\<lparr>sg_world := w'\<rparr>) = (inst', g')"
      "err' = None" using Suc.prems(2) by (simp_all add: Let_def)
    then show ?thesis using try_ok_now [OF ok(1) Suc.prems(1)] by blast
  next
    case failed: (2 e r w')
    let ?inst1 = "upd_record i (\<lambda>r. r\<lparr>sr_attempts := a\<rparr>) inst"
    obtain h where h: "try_step c st pol ms i (Suc n) (a + 1) (Some e) ?inst1 h = (err', inst', g')" "sg_world h = w'"
      using Suc.prems(2) failed(4) that by (simp add: Let_def)
    have "i < length (wi_steps ?inst1)" using Suc.prems(1) by simp
    from Suc.IH [OF this h(1)] show ?thesis
      using try_ok_later [OF failed(1,2)] try_failed_later [OF failed(1,2)] h(2) by auto
  qed
qed

text \<open>When the first \<open>n\<close> steps are completed, compensation runs the undo actions of all of them.\<close>

lemma undos_Suc:
  "n < length (wd_steps d) \<Longrightarrow> undos d (Suc n) =
     (case ws_compensate (wd_steps d ! n) of None \<Rightarrow> [] | Some u \<Rightarrow> [u]) @ undos d n"
  by (simp add: undos_def take_Suc_conv_app_nth)

lemma undo_actions_completed:
  "n \<le> length (wd_steps d) \<Longrightarrow> (\<And>j. j < n \<Longrightarrow> sr_status (rs ! j) = St_completed) \<Longrightarrow>
     undo_actions (wd_steps d) rs n = undos d n"
  by (induction n) (simp_all add: undo_actions_Suc undos_Suc, simp add: undos_def)

lemma failAndCompensate_sel:
  assumes "failAndCompensate c d inst n m st g = (inst', g')"
  shows "wi_id inst' = wi_id inst" "wi_context inst' = wi_context inst" "wi_status inst' = st"
    "store_get (wi_id inst) g' = Some inst'"
    "sg_world g' = undo_all (undo_actions (wd_steps d) (wi_steps inst) n) (wi_context inst) (sg_world g)"
    "length (wi_steps inst') = length (wi_steps inst)"
    "n \<le> j \<Longrightarrow> wi_steps inst' ! j = wi_steps inst ! j"
proof -
  define i1 g1 where d1: "i1 = fst (touch c (inst\<lparr>wi_status := Wf_compensating, wi_error := Some m\<rparr>) g)"
    "g1 = snd (touch c (inst\<lparr>wi_status := Wf_compensating, wi_error := Some m\<rparr>) g)"
  define i2 g2 where d2: "i2 = fst (compensate_loop c (wd_steps d) n i1 g1)"
    "g2 = snd (compensate_loop c (wd_steps d) n i1 g1)"
  define t g3 where d3: "t = fst (date_now c g2)" "g3 = snd (date_now c g2)"
  define i3 g4 where d4: "i3 = fst (touch c (i2\<lparr>wi_status := st, wi_finishedAt := Some t\<rparr>) g3)"
    "g4 = snd (touch c (i2\<lparr>wi_status := st, wi_finishedAt := Some t\<rparr>) g3)"
  have out: "inst' = i3" "sg_instances g' = sg_instances g4" "sg_world g' = sg_world g4"
    using assms unfolding failAndCompensate_def by (auto simp: split_def Let_def d1 d2 d3 d4 split: if_splits)
  show "wi_id inst' = wi_id inst" "wi_context inst' = wi_context inst" "wi_status inst' = st"
    "length (wi_steps inst') = length (wi_steps inst)"
    using out d1 d2 d4 by simp_all
  show "n \<le> j \<Longrightarrow> wi_steps inst' ! j = wi_steps inst ! j"
    using out d1 d2 d4 by (simp add: compensate_loop_above)
  show "store_get (wi_id inst) g' = Some inst'"
    using out store_get_cong [of g' g4] touch_stored [of "i2\<lparr>wi_status := st, wi_finishedAt := Some t\<rparr>" c g3] d1 d2 d4
    by simp
  show "sg_world g' = undo_all (undo_actions (wd_steps d) (wi_steps inst) n) (wi_context inst) (sg_world g)"
    using out d1 d2 d3 d4 by (simp add: compensate_loop_world)
qed

text \<open>The state of a run before step \<open>i\<close>.\<close>

definition run_inv ::
  "('s, 'v) workflow_definition \<Rightarrow> string \<Rightarrow> 'v wctx \<Rightarrow> 's \<Rightarrow> nat \<Rightarrow> 'v workflow_instance \<Rightarrow> 's \<Rightarrow> bool" where
  "run_inv d wid ctx0 w0 i inst w \<longleftrightarrow> forward d ctx0 w0 i (wi_context inst) w \<and> wi_id inst = wid
     \<and> length (wi_steps inst) = length (wd_steps d)
     \<and> (\<forall>j<i. sr_status (wi_steps inst ! j) = St_completed \<and> 1 \<le> sr_attempts (wi_steps inst ! j)
          \<and> sr_attempts (wi_steps inst ! j) \<le> pol_maxAttempts (step_policy d (wd_steps d ! j)))"

text \<open>The two ways a run stops early.\<close>

definition stopped ::
  "('s, 'v) workflow_definition \<Rightarrow> string \<Rightarrow> 'v wctx \<Rightarrow> 's \<Rightarrow> 'v workflow_instance \<Rightarrow> ('s, 'v) saga_state \<Rightarrow> bool" where
  "stopped d wid ctx0 w0 inst g \<longleftrightarrow> store_get wid g = Some inst \<and> wi_id inst = wid
     \<and> (\<exists>n w1 w2. n < length (wd_steps d) \<and> forward d ctx0 w0 n (wi_context inst) w1
       \<and> sg_world g = undo_all (undos d n) (wi_context inst) w2
       \<and> (wi_status inst = Wf_timed_out \<and> w2 = w1
          \<or> wi_status inst = Wf_failed \<and> sr_status (wi_steps inst ! n) = St_failed
             \<and> tries (wd_steps d ! n) (wi_context inst) (nat (pol_maxAttempts (step_policy d (wd_steps d ! n)))) w1 w2))"

lemma failed_stopped:
  assumes inv: "run_inv d wid ctx0 w0 n inst w1" and n: "n < length (wd_steps d)"
    and fc: "failAndCompensate c d inst5 n m st g = (inst', g')"
    and five: "wi_id inst5 = wid" "wi_context inst5 = wi_context inst" "wi_steps inst5 = (wi_steps inst)[n := r]"
    and st: "st = Wf_timed_out \<and> sg_world g = w1 \<or> st = Wf_failed \<and> sr_status r = St_failed
      \<and> tries (wd_steps d ! n) (wi_context inst) (nat (pol_maxAttempts (step_policy d (wd_steps d ! n)))) w1 (sg_world g)"
  shows "stopped d wid ctx0 w0 inst' g'"
proof -
  note sel = failAndCompensate_sel [OF fc]
  have len: "length (wi_steps inst) = length (wd_steps d)" using inv by (simp add: run_inv_def)
  have "sr_status (wi_steps inst5 ! j) = St_completed" if "j < n" for j
    using that inv five(3) by (simp add: run_inv_def)
  then have "undo_actions (wd_steps d) (wi_steps inst5) n = undos d n"
    using undo_actions_completed [of n d] n by simp
  then have "sg_world g' = undo_all (undos d n) (wi_context inst') (sg_world g)"
    using sel five by simp
  moreover have "forward d ctx0 w0 n (wi_context inst') w1" using inv sel five by (simp add: run_inv_def)
  moreover have "wi_steps inst' ! n = r" using sel(7) [of n] five(3) n len by simp
  ultimately show ?thesis
    unfolding stopped_def using sel five st n
    by (intro conjI exI [of _ n] exI [of _ w1] exI [of _ "sg_world g"]) auto
qed

lemma step_timeout_world [simp]: "sg_world (snd (step_timeout c st dl g)) = sg_world g"
  by (simp add: step_timeout_def split_def Let_def split: option.split)

lemma begin_step_sel [simp]:
  "wi_id (fst (begin_step c i inst g)) = wi_id inst" "wi_context (fst (begin_step c i inst g)) = wi_context inst"
  "sg_world (snd (begin_step c i inst g)) = sg_world g"
  by (simp_all add: begin_step_def split_def Let_def)

lemma begin_step_steps: "\<exists>r. wi_steps (fst (begin_step c i inst g)) = (wi_steps inst)[i := r]"
  by (auto simp: begin_step_def split_def Let_def)

lemma run_inv_begin:
  "run_inv d wid ctx0 w0 i inst w \<Longrightarrow> run_inv d wid ctx0 w0 i (fst (begin_step c i inst g)) w"
  using begin_step_steps [of c i inst g] by (auto simp: run_inv_def)

lemma run_inv_next:
  assumes inv: "run_inv d wid ctx0 w0 i inst w" and i: "i < length (wd_steps d)"
    and ok: "try_ok (wd_steps d ! i) ms i (nat (pol_maxAttempts (step_policy d (wd_steps d ! i)))) 1 inst w inst' w'"
    and wid: "wi_id inst' = wi_id inst"
  shows "run_inv d wid ctx0 w0 (Suc i) inst' w'"
proof -
  from ok obtain k p w2 r where k: "k < nat (pol_maxAttempts (step_policy d (wd_steps d ! i)))"
      "tries (wd_steps d ! i) (wi_context inst) k w w2"
      "ws_execute (wd_steps d ! i) (wi_context inst) ms w2 = (Resolved p, w')"
      "wi_context inst' = merge_patch (wi_context inst) p" "wi_steps inst' = (wi_steps inst)[i := r]"
      "sr_status r = St_completed" "sr_attempts r = 1 + int k"
    by (auto simp: try_ok_def)
  have "forward d ctx0 w0 (Suc i) (wi_context inst') w'"
    using forward_step [OF _ i k(2) _ k(3)] inv k(1,4) by (simp add: run_inv_def)
  moreover have "\<forall>j<Suc i. sr_status (wi_steps inst' ! j) = St_completed \<and> 1 \<le> sr_attempts (wi_steps inst' ! j)
      \<and> sr_attempts (wi_steps inst' ! j) \<le> pol_maxAttempts (step_policy d (wd_steps d ! j))"
    using inv k i by (auto simp: run_inv_def nth_list_update less_Suc_eq)
  ultimately show ?thesis using inv k(5) wid by (simp add: run_inv_def)
qed

lemma sound_step:
  "sound_definition d \<Longrightarrow> i < length (wd_steps d) \<Longrightarrow>
     never_falsy (wd_steps d ! i) \<and> 1 \<le> pol_maxAttempts (step_policy d (wd_steps d ! i))"
  unfolding sound_definition_def never_falsy_def by (meson nth_mem)

lemma run_steps_spec:
  assumes sound: "sound_definition d"
  shows "rest = drop i (wd_steps d) \<Longrightarrow> i \<le> length (wd_steps d) \<Longrightarrow> run_inv d wid ctx0 w0 i inst (sg_world g) \<Longrightarrow>
    run_steps c d dl i rest inst g = (ended, inst', g') \<Longrightarrow>
    (if ended then run_inv d wid ctx0 w0 (length (wd_steps d)) inst' (sg_world g') else stopped d wid ctx0 w0 inst' g')"
proof (induction rest arbitrary: i inst g)
  case Nil
  then show ?case by (simp add: Cons_nth_drop_Suc)
next
  case (Cons st rest)
  have i: "i < length (wd_steps d)" using Cons.prems(1) by (metis drop_all linorder_not_less list.discI)
  with Cons.prems(1) have st: "st = wd_steps d ! i" and rest: "rest = drop (Suc i) (wd_steps d)"
    by (metis Cons_nth_drop_Suc list.inject)+
  note snd_st = sound_step [OF sound i]
  define pol g1 where d1: "pol = step_policy d st" "g1 = snd (date_now c g)"
  define ms g2 where d2: "ms = fst (step_timeout c st dl g1)" "g2 = snd (step_timeout c st dl g1)"
  define i3 g4 where d3: "i3 = fst (begin_step c i inst g2)" "g4 = snd (begin_step c i inst g2)"
  obtain err i4 g5 where tried: "try_step c st pol ms i (nat (pol_maxAttempts pol)) 1 None i3 g4 = (err, i4, g5)"
    by (metis prod_cases3)
  have w4: "sg_world g4 = sg_world g" by (simp add: d3 d2 d1)
  have inv3: "run_inv d wid ctx0 w0 i i3 (sg_world g4)"
    unfolding d3(1) w4 by (rule run_inv_begin [OF Cons.prems(3)])
  show ?case
  proof (cases "fst (date_now c g) > dl")
    case True
    then obtain "failAndCompensate c d inst i ''Workflow timed out'' Wf_timed_out g1 = (inst', g')" "\<not> ended"
      using Cons.prems(4) by (auto simp: split_def Let_def d1)
    then show ?thesis
      using failed_stopped [OF Cons.prems(3) i, where r = "wi_steps inst ! i"] Cons.prems(3) d1(2)
      by (simp add: run_inv_def)
  next
    case False
    obtain k where k: "nat (pol_maxAttempts pol) = Suc k"
      using snd_st st d1 by (metis One_nat_def Suc_le_D nat_mono nat_one_as_int)
    have len: "i < length (wi_steps i3)" using inv3 i by (simp add: run_inv_def)
    consider (ok) "err = None" "try_ok st ms i (Suc k) 1 i3 (sg_world g4) i4 (sg_world g5)" "wi_id i4 = wi_id i3"
      | (failed) e where "err = Some e" "truthy_exn e" "try_failed st i (Suc k) 1 i3 (sg_world g4) i4 (sg_world g5)" "wi_id i4 = wi_id i3"
      using try_step_spec [OF _ len, of st c pol ms k 1 None g4 err i4 g5] tried k snd_st st by auto
    then show ?thesis
    proof cases
      case ok
      have "run_inv d wid ctx0 w0 (Suc i) i4 (sg_world g5)"
        using run_inv_next [OF inv3 i] ok k st d1 by simp
      moreover have "run_steps c d dl (Suc i) rest i4 g5 = (ended, inst', g')"
        using Cons.prems(4) False ok(1) tried by (simp add: split_def Let_def d1 d2 d3)
      ultimately show ?thesis using Cons.IH [OF rest] i by simp
    next
      case (failed e)
      let ?i5 = "upd_record i (\<lambda>r. r\<lparr>sr_status := St_failed, sr_error := Some (errMsg e),
          sr_finishedAt := Some (fst (date_now c g5))\<rparr>) i4"
      have fc: "failAndCompensate c d ?i5 i (errMsg e) Wf_failed (snd (date_now c g5)) = (inst', g')" "\<not> ended"
        using Cons.prems(4) False failed(1,2) tried by (auto simp: split_def Let_def d1 d2 d3)
      from failed(3) obtain r where r: "wi_steps i4 = (wi_steps i3)[i := r]" "wi_context i4 = wi_context i3"
          "tries st (wi_context i3) (Suc k) (sg_world g4) (sg_world g5)" by (auto simp: try_failed_def)
      show ?thesis
        using failed_stopped [OF inv3 i fc(1), of "(wi_steps i4 ! i)\<lparr>sr_status := St_failed,
            sr_error := Some (errMsg e), sr_finishedAt := Some (fst (date_now c g5))\<rparr>"] r fc(2) inv3 failed(4) k st d1
        by (simp add: run_inv_def)
    qed
  qed
qed

lemma run_inv_initial: "run_inv d wid ctx w 0 (initial_instance wid d ctx t) w"
  by (simp add: run_inv_def initial_instance_def forward_start)

lemma run_workflow_spec:
  assumes "sound_definition d" and run: "run_workflow c wid d ctx g = (inst, g')"
  shows "stopped d wid ctx (sg_world g) inst g'
    \<or> wi_status inst = Wf_completed \<and> store_get wid g' = Some inst
      \<and> run_inv d wid ctx (sg_world g) (length (wd_steps d)) inst (sg_world g')"
proof -
  define g1 i0 where d1: "g1 = snd (date_now c g)" "i0 = initial_instance wid d ctx (fst (date_now c g))"
  define g3 where d3: "g3 = store_save i0 (g1\<lparr>sg_context := map_option (\<lambda>c. c(''workflowId'' \<mapsto> wid)) (sg_context g1)\<rparr>)"
  define g4 dl where d4: "g4 = snd (date_now c g3)"
    "dl = fst (date_now c g3) + nullish (wd_timeoutMs d) DEFAULT_WORKFLOW_TIMEOUT_MS"
  obtain ended i1 g5 where rs: "run_steps c d dl 0 (wd_steps d) i0 g4 = (ended, i1, g5)" by (metis prod_cases3)
  have "sg_world g4 = sg_world g" by (simp add: d4 d3 d1 store_save_def)
  then have "run_inv d wid ctx (sg_world g) 0 i0 (sg_world g4)" unfolding d1(2) by (simp add: run_inv_initial)
  from run_steps_spec [OF assms(1) _ _ this rs] have
    res: "if ended then run_inv d wid ctx (sg_world g) (length (wd_steps d)) i1 (sg_world g5)
          else stopped d wid ctx (sg_world g) i1 g5" by simp
  have out: "(inst, g') = (if ended then touch c (i1\<lparr>wi_status := Wf_completed, wi_finishedAt := Some (fst (date_now c g5))\<rparr>)
        (snd (date_now c g5)) else (i1, g5))"
    using run unfolding run_workflow_def
    by (cases ended) (simp_all add: split_def Let_def d1 [symmetric] d3 [symmetric] d4 [symmetric] rs)
  show ?thesis
  proof (cases ended)
    case True
    let ?i2 = "i1\<lparr>wi_status := Wf_completed, wi_finishedAt := Some (fst (date_now c g5))\<rparr>"
    have t: "inst = fst (touch c ?i2 (snd (date_now c g5)))" "g' = snd (touch c ?i2 (snd (date_now c g5)))"
      using out True by (metis fst_conv snd_conv)+
    show ?thesis using res True touch_stored [of ?i2 c "snd (date_now c g5)"] by (simp add: t run_inv_def)
  next
    case False
    then show ?thesis using res out by simp
  qed
qed

section \<open>Properties\<close>

text \<open>
  C24: take a definition whose steps are each allowed at least one attempt and throw, when they
  throw, a truthy value (\<open>sound_definition\<close>; the order placement of the checkout is one, by
  \<open>checkout_sound\<close>). A saga of it that ends with status completed has run every step to success,
  in order, each within the number of attempts its retry policy allows, with the patches merged
  into the context in that order and no compensation; its record says so for every step, and the
  store holds it. Without the condition this fails: the coordinator asks whether the last error is
  truthy, so a step with no attempt, or one that throws a falsy value, is passed over.
\<close>

theorem saga_completed_ran_every_step:
  assumes "sound_definition d" "run_workflow clock wid d ctx g = (inst, g')" "wi_status inst = Wf_completed"
  shows "forward d ctx (sg_world g) (length (wd_steps d)) (wi_context inst) (sg_world g')
    \<and> store_get wid g' = Some inst
    \<and> (\<forall>j<length (wd_steps d). sr_status (wi_steps inst ! j) = St_completed \<and> 1 \<le> sr_attempts (wi_steps inst ! j)
        \<and> sr_attempts (wi_steps inst ! j) \<le> pol_maxAttempts (step_policy d (wd_steps d ! j)))"
  using run_workflow_spec [OF assms(1,2)] assms(3) by (auto simp: stopped_def run_inv_def)

text \<open>
  C6: a saga of a definition as in the property above that does not complete stopped before some step \<open>n\<close>: the steps before it had
  succeeded, step \<open>n\<close> had failed as often as its policy allows or the workflow's time was over, and
  then the undo actions of exactly the steps before \<open>n\<close> that have one were run once each, the
  latest first, with the final context, one that throws not stopping the others. The instance says
  failed or timed out accordingly and the store holds it.
\<close>

theorem saga_compensates_in_reverse:
  assumes "sound_definition d" "run_workflow clock wid d ctx g = (inst, g')" "wi_status inst \<noteq> Wf_completed"
  shows "store_get wid g' = Some inst \<and> (\<exists>n w1 w2. n < length (wd_steps d)
    \<and> forward d ctx (sg_world g) n (wi_context inst) w1
    \<and> (wi_status inst = Wf_timed_out \<and> w2 = w1
       \<or> wi_status inst = Wf_failed \<and> sr_status (wi_steps inst ! n) = St_failed
         \<and> tries (wd_steps d ! n) (wi_context inst) (nat (pol_maxAttempts (step_policy d (wd_steps d ! n)))) w1 w2)
    \<and> sg_world g' = fold (\<lambda>u w. snd (u (wi_context inst) w))
        (concat (map (\<lambda>st. case ws_compensate st of None \<Rightarrow> [] | Some u \<Rightarrow> [u]) (rev (take n (wd_steps d))))) w2)"
  using run_workflow_spec [OF assms(1,2)] assms(3) by (auto simp: stopped_def undos_def undo_all_def)

text \<open>
  Witnesses: order placement with handlers on a list of what happened, in time and with a clock that
  jumps past the deadline after the first step.
\<close>

definition demo_handlers :: "(string list, string) placement_handlers" where
  "demo_handlers =
     \<lparr>reserveInventory = (\<lambda>ctx ms w. (Resolved (Some [''reservationId'' \<mapsto> ''r1'']), w @ [''reserve''])),
      releaseInventory = (\<lambda>ctx w. (Inr (), w @ [''release''])),
      initiatePayment = (\<lambda>ctx ms w. (Resolved None, w @ [''pay''])),
      voidPayment = (\<lambda>ctx w. (Inr (), w @ [''void''])),
      confirmOrder = (\<lambda>ctx ms w. (Resolved None, w @ [''confirm''])),
      cancelOrder = (\<lambda>ctx w. (Inr (), w @ [''cancel'']))\<rparr>"

definition demo_state :: "(string list, string) saga_state" where
  "demo_state = \<lparr>sg_world = [], sg_instances = [], sg_reads = 0, sg_log = [], sg_context = None\<rparr>"

definition late_clock :: "nat \<Rightarrow> int" where
  "late_clock n = (if n < 7 then 0 else 1000000)"

lemma demo_sound: "sound_definition (orderPlacementDefinition demo_handlers)"
  by (auto simp: sound_definition_def orderPlacementDefinition_def demo_handlers_def step_policy_def
      spread_retry_def DEFAULT_RETRY_def)

theorem saga_completed_ran_every_step_witness:
  "\<exists>inst g'. run_workflow int ''w1'' (orderPlacementDefinition demo_handlers) (\<lambda>_. None) demo_state = (inst, g')
     \<and> store_get ''w1'' g' = Some inst \<and> sr_status (wi_steps inst ! 2) = St_completed"
proof -
  let ?d = "orderPlacementDefinition demo_handlers"
  obtain inst g' where run: "run_workflow int ''w1'' ?d (\<lambda>_. None) demo_state = (inst, g')" by force
  have "wi_status (fst (run_workflow int ''w1'' ?d (\<lambda>_. None) demo_state)) = Wf_completed" by code_simp
  then have "wi_status inst = Wf_completed" by (simp add: run)
  from saga_completed_ran_every_step [OF demo_sound run this] run show ?thesis
    by (auto simp: orderPlacementDefinition_def)
qed

theorem saga_compensates_in_reverse_witness:
  "\<exists>inst g'. run_workflow late_clock ''w1'' (orderPlacementDefinition demo_handlers) (\<lambda>_. None) demo_state = (inst, g')
     \<and> store_get ''w1'' g' = Some inst \<and> sg_world g' = [''reserve'', ''release'']"
proof -
  let ?d = "orderPlacementDefinition demo_handlers"
  obtain inst g' where run: "run_workflow late_clock ''w1'' ?d (\<lambda>_. None) demo_state = (inst, g')" by force
  have "wi_status (fst (run_workflow late_clock ''w1'' ?d (\<lambda>_. None) demo_state)) = Wf_timed_out"
    "sg_world (snd (run_workflow late_clock ''w1'' ?d (\<lambda>_. None) demo_state)) = [''reserve'', ''release'']" by code_simp+
  then show ?thesis using saga_compensates_in_reverse [OF demo_sound run] run by simp
qed

end
