(* ===== verification/Rules.thy ===== *)
theory Rules
  imports Json "HOL-Library.Char_ord"
begin

text \<open>
  The rule engine (shared/rules): facts and paths, the seventeen operators and their registry, the
  validator of condition documents, the evaluator with its path cache, the actions and the engine.
  Condition documents are raw JSON, as they come from a database column. Of the standard library the
  record \<open>js_lib\<close> stands for what the operators only pass values through: \<open>Date.parse\<close>,
  \<open>localeCompare\<close>, \<open>Number\<close>, \<open>String\<close> of a number, \<open>JSON.stringify\<close> and \<open>RegExp\<close> (a pattern that
  does not compile is \<open>None\<close>); no property depends on what they are.
\<close>

record js_lib =
  jl_dateParse :: "string \<Rightarrow> int option"
  jl_localeCompare :: "string \<Rightarrow> string \<Rightarrow> int"
  jl_number :: "json \<Rightarrow> jsnum"
  jl_numstr :: "jsnum \<Rightarrow> string"
  jl_stringify :: "json \<Rightarrow> string option"
  jl_regex :: "string \<Rightarrow> (string \<Rightarrow> bool) option"

section \<open>Facts (utils/facts.util.ts)\<close>

definition ident_start :: "char \<Rightarrow> bool" where
  "ident_start c \<longleftrightarrow> (CHR ''A'' \<le> c \<and> c \<le> CHR ''Z'') \<or> (CHR ''a'' \<le> c \<and> c \<le> CHR ''z'') \<or> c = CHR ''_''"

definition ident_char :: "char \<Rightarrow> bool" where
  "ident_char c \<longleftrightarrow> ident_start c \<or> (CHR ''0'' \<le> c \<and> c \<le> CHR ''9'')"

definition ident :: "string \<Rightarrow> bool" where
  "ident s = (case s of [] \<Rightarrow> False | c # cs \<Rightarrow> ident_start c \<and> list_all ident_char cs)"

text \<open>\<open>path.split('.')\<close>\<close>

fun split_dot :: "string \<Rightarrow> string list" where
  "split_dot [] = [[]]"
| "split_dot (c # cs) = (if c = CHR ''.'' then [] # split_dot cs
     else (case split_dot cs of [] \<Rightarrow> [[c]] | p # ps \<Rightarrow> (c # p) # ps))"

definition isValidPath :: "string \<Rightarrow> bool" where
  "isValidPath path = list_all ident (split_dot path)"

text \<open>The walk along the parts of a path.\<close>

fun walk :: "json \<Rightarrow> string list \<Rightarrow> json" where
  "walk cur [] = cur"
| "walk cur (part # parts) = (case cur of JObj ps \<Rightarrow> walk (obj_get ps part) parts | _ \<Rightarrow> JUndef)"

type_synonym path_cache = "string \<rightharpoonup> json"

definition resolvePath :: "jsobj \<Rightarrow> string \<Rightarrow> path_cache \<Rightarrow> (string + json) \<times> path_cache" where
  "resolvePath facts path cache =
     (if \<not> isValidPath path then (Inl (''Invalid field path: '' @ path), cache)
      else case cache path of
        Some v \<Rightarrow> (Inr v, cache)
      | None \<Rightarrow> (let v = walk (JObj facts) (split_dot path) in (Inr v, cache(path \<mapsto> v))))"

definition deepFreezeFacts :: "jsobj \<Rightarrow> jsobj" where
  "deepFreezeFacts facts = obj_spread [] facts"

datatype comparable = CNum rat | CStr string | CBool bool | CNull | CDate date | COther

definition kind_of :: "comparable \<Rightarrow> string" where
  "kind_of c = (case c of CNum _ \<Rightarrow> ''number'' | CStr _ \<Rightarrow> ''string'' | CBool _ \<Rightarrow> ''boolean'' | CNull \<Rightarrow> ''null''
     | CDate _ \<Rightarrow> ''date'' | COther \<Rightarrow> ''other'')"

definition digit :: "char \<Rightarrow> bool" where
  "digit c \<longleftrightarrow> CHR ''0'' \<le> c \<and> c \<le> CHR ''9''"

text \<open>The pattern of four digits, dash, two digits, dash, two digits at the start.\<close>

definition date_like :: "string \<Rightarrow> bool" where
  "date_like s \<longleftrightarrow> length s \<ge> 10 \<and> list_all digit (take 4 s) \<and> s ! 4 = CHR ''-''
     \<and> list_all digit (take 2 (drop 5 s)) \<and> s ! 7 = CHR ''-'' \<and> list_all digit (take 2 (drop 8 s))"

definition toComparable :: "js_lib \<Rightarrow> json \<Rightarrow> comparable" where
  "toComparable L v = (case v of
     JNull \<Rightarrow> CNull | JUndef \<Rightarrow> CNull | JBool b \<Rightarrow> CBool b
   | JNum n \<Rightarrow> (case n of Fin x \<Rightarrow> CNum x | _ \<Rightarrow> COther)
   | JStr s \<Rightarrow> (case jl_dateParse L s of Some d \<Rightarrow> if date_like s then CDate (Some d) else CStr s | None \<Rightarrow> CStr s)
   | JDate d \<Rightarrow> CDate d
   | JArr _ \<Rightarrow> COther | JObj _ \<Rightarrow> COther)"

definition valuesEqual :: "js_lib \<Rightarrow> json \<Rightarrow> json \<Rightarrow> bool" where
  "valuesEqual L a b = (case (toComparable L a, toComparable L b) of
     (CNull, CNull) \<Rightarrow> True
   | (CDate x, CDate y) \<Rightarrow> x = y \<and> x \<noteq> None
   | (COther, COther) \<Rightarrow> jl_stringify L a = jl_stringify L b
   | (CNum x, CNum y) \<Rightarrow> x = y
   | (CStr x, CStr y) \<Rightarrow> x = y
   | (CBool x, CBool y) \<Rightarrow> x = y
   | _ \<Rightarrow> False)"

text \<open>The comparison result; \<open>Inr None\<close> is the NaN that an invalid date gives.\<close>

definition compareOrdered :: "js_lib \<Rightarrow> json \<Rightarrow> json \<Rightarrow> string + rat option" where
  "compareOrdered L a b =
     (let ca = toComparable L a; cb = toComparable L b;
          incomparable = Inl (''Incomparable types: '' @ kind_of ca @ '' vs '' @ kind_of cb);
          coerce = (\<lambda>x y. case (jl_number L x, jl_number L y) of (Fin m, Fin n) \<Rightarrow> Inr (Some (m - n)) | _ \<Rightarrow> incomparable) in
      if ca = CNull \<or> cb = CNull then Inl ''Cannot compare null/undefined''
      else case (ca, cb) of
        (CNum x, CNum y) \<Rightarrow> Inr (Some (x - y))
      | (CDate (Some x), CDate (Some y)) \<Rightarrow> Inr (Some (of_int (x - y)))
      | (CDate _, CDate _) \<Rightarrow> Inr None
      | (CStr x, CStr y) \<Rightarrow> Inr (Some (of_int (jl_localeCompare L x y)))
      | (CNum x, CStr y) \<Rightarrow> coerce (JNum (Fin x)) (JStr y)
      | (CStr x, CNum y) \<Rightarrow> coerce (JStr x) (JNum (Fin y))
      | _ \<Rightarrow> incomparable)"

definition asString :: "js_lib \<Rightarrow> json \<Rightarrow> string option" where
  "asString L v = (case v of JStr s \<Rightarrow> Some s | JNum n \<Rightarrow> Some (jl_numstr L n)
     | JBool b \<Rightarrow> Some (if b then ''true'' else ''false'') | _ \<Rightarrow> None)"

section \<open>Operators (operators/operators.ts)\<close>

record operator_result =
  or_matched :: bool
  or_reason :: string
  or_error :: "string option"

definition ok_res :: "bool \<Rightarrow> string \<Rightarrow> operator_result" where
  "ok_res m r = \<lparr>or_matched = m, or_reason = r, or_error = None\<rparr>"

definition fail_res :: "string \<Rightarrow> string \<Rightarrow> operator_result" where
  "fail_res r e = \<lparr>or_matched = False, or_reason = r, or_error = Some e\<rparr>"

definition stringify :: "js_lib \<Rightarrow> json \<Rightarrow> string" where
  "stringify L v = (case v of JStr s \<Rightarrow> s | _ \<Rightarrow> nullish (jl_stringify L v) ''undefined'')"

type_synonym operator = "string \<Rightarrow> json \<Rightarrow> json \<Rightarrow> operator_result"

definition EqOperator :: "js_lib \<Rightarrow> operator" where
  "EqOperator L field actual expected = ok_res (valuesEqual L actual expected) (field @ '' == '' @ stringify L expected)"

definition NeqOperator :: "js_lib \<Rightarrow> operator" where
  "NeqOperator L field actual expected = ok_res (\<not> valuesEqual L actual expected) (field @ '' != '' @ stringify L expected)"

definition cmpOp :: "js_lib \<Rightarrow> string \<Rightarrow> (rat \<Rightarrow> bool) \<Rightarrow> operator" where
  "cmpOp L symbol pred field actual expected =
     (let reason = field @ '' '' @ symbol @ '' '' @ stringify L expected in
      case compareOrdered L actual expected of
        Inl e \<Rightarrow> fail_res reason e
      | Inr c \<Rightarrow> ok_res (case c of None \<Rightarrow> False | Some n \<Rightarrow> pred n) reason)"

definition GtOperator :: "js_lib \<Rightarrow> operator" where "GtOperator L = cmpOp L ''>'' (\<lambda>n. n > 0)"
definition GteOperator :: "js_lib \<Rightarrow> operator" where "GteOperator L = cmpOp L ''>='' (\<lambda>n. n \<ge> 0)"
definition LtOperator :: "js_lib \<Rightarrow> operator" where "LtOperator L = cmpOp L ''<'' (\<lambda>n. n < 0)"
definition LteOperator :: "js_lib \<Rightarrow> operator" where "LteOperator L = cmpOp L ''<='' (\<lambda>n. n \<le> 0)"

definition BetweenOperator :: "js_lib \<Rightarrow> operator" where
  "BetweenOperator L field actual expected = (case expected of
     JArr [mn, mx] \<Rightarrow> (case compareOrdered L actual mn of
         Inl e \<Rightarrow> fail_res (field @ '' between'') e
       | Inr lo \<Rightarrow> (case compareOrdered L actual mx of
           Inl e \<Rightarrow> fail_res (field @ '' between'') e
         | Inr hi \<Rightarrow> ok_res ((case lo of None \<Rightarrow> False | Some n \<Rightarrow> n \<ge> 0) \<and> (case hi of None \<Rightarrow> False | Some n \<Rightarrow> n \<le> 0))
             (field @ '' between '' @ stringify L mn @ '' and '' @ stringify L mx)))
   | _ \<Rightarrow> fail_res (field @ '' between ?'') ''between requires [min, max]'')"

definition InOperator :: "js_lib \<Rightarrow> operator" where
  "InOperator L field actual expected = (case expected of
     JArr vs \<Rightarrow> ok_res (list_ex (\<lambda>v. valuesEqual L actual v) vs) (field @ '' in '' @ stringify L expected)
   | _ \<Rightarrow> fail_res (field @ '' in ?'') ''in requires an array'')"

text \<open>\<open>hay.includes(needle)\<close>\<close>

fun str_includes :: "string \<Rightarrow> string \<Rightarrow> bool" where
  "str_includes [] needle = (needle = [])"
| "str_includes (c # cs) needle = (take (length needle) (c # cs) = needle \<or> str_includes cs needle)"

definition ContainsOperator :: "js_lib \<Rightarrow> operator" where
  "ContainsOperator L field actual expected = (case actual of
     JArr vs \<Rightarrow> ok_res (list_ex (\<lambda>v. valuesEqual L v expected) vs) (field @ '' contains '' @ stringify L expected)
   | _ \<Rightarrow> (case (asString L actual, asString L expected) of
       (Some hay, Some needle) \<Rightarrow> ok_res (str_includes hay needle) (field @ '' contains '' @ needle)
     | _ \<Rightarrow> fail_res (field @ '' contains'') ''contains requires string or array actual''))"

definition StartsWithOperator :: "js_lib \<Rightarrow> operator" where
  "StartsWithOperator L field actual expected = (case (asString L actual, asString L expected) of
     (Some hay, Some pre) \<Rightarrow> ok_res (take (length pre) hay = pre) (field @ '' starts_with '' @ pre)
   | _ \<Rightarrow> fail_res (field @ '' starts_with'') ''starts_with requires strings'')"

definition EndsWithOperator :: "js_lib \<Rightarrow> operator" where
  "EndsWithOperator L field actual expected = (case (asString L actual, asString L expected) of
     (Some hay, Some suf) \<Rightarrow> ok_res (length suf \<le> length hay \<and> drop (length hay - length suf) hay = suf) (field @ '' ends_with '' @ suf)
   | _ \<Rightarrow> fail_res (field @ '' ends_with'') ''ends_with requires strings'')"

definition RegexOperator :: "js_lib \<Rightarrow> operator" where
  "RegexOperator L field actual expected = (case (asString L actual, asString L expected) of
     (Some hay, Some pattern) \<Rightarrow>
       if length pattern > 256 then fail_res (field @ '' matches_regex'') ''regex pattern too long''
       else (case jl_regex L pattern of
           Some test \<Rightarrow> ok_res (test hay) (field @ '' matches /'' @ pattern @ ''/'')
         | None \<Rightarrow> fail_res (field @ '' matches_regex'') ''invalid regex'')
   | _ \<Rightarrow> fail_res (field @ '' matches_regex'') ''matches_regex requires strings'')"

definition is_nullish :: "json \<Rightarrow> bool" where
  "is_nullish v \<longleftrightarrow> v = JUndef \<or> v = JNull"

definition ExistsOperator :: operator where
  "ExistsOperator field actual expected =
     (let want = (if expected = JUndef then True else truthy expected); present = \<not> is_nullish actual in
      ok_res (if want then present else \<not> present) (if want then field @ '' exists'' else field @ '' does not exist''))"

definition IsTrueOperator :: operator where
  "IsTrueOperator field actual expected = ok_res (actual = JBool True) (field @ '' is true'')"

definition IsFalseOperator :: operator where
  "IsFalseOperator field actual expected = ok_res (actual = JBool False) (field @ '' is false'')"

definition IsNullOperator :: operator where
  "IsNullOperator field actual expected = ok_res (is_nullish actual) (field @ '' is null'')"

definition IsNotNullOperator :: operator where
  "IsNotNullOperator field actual expected = ok_res (\<not> is_nullish actual) (field @ '' is not null'')"

definition DEFAULT_OPERATORS :: "js_lib \<Rightarrow> (string \<times> operator) list" where
  "DEFAULT_OPERATORS L =
     [(''eq'', EqOperator L), (''neq'', NeqOperator L), (''gt'', GtOperator L), (''gte'', GteOperator L),
      (''lt'', LtOperator L), (''lte'', LteOperator L), (''between'', BetweenOperator L), (''in'', InOperator L),
      (''contains'', ContainsOperator L), (''starts_with'', StartsWithOperator L), (''ends_with'', EndsWithOperator L),
      (''matches_regex'', RegexOperator L), (''exists'', ExistsOperator), (''is_true'', IsTrueOperator),
      (''is_false'', IsFalseOperator), (''is_null'', IsNullOperator), (''is_not_null'', IsNotNullOperator)]"

section \<open>The registry (OperatorRegistry.ts)\<close>

type_synonym operator_registry = "string \<rightharpoonup> operator"

definition register_operator :: "string \<times> operator \<Rightarrow> operator_registry \<Rightarrow> operator_registry" where
  "register_operator p reg = reg(fst p \<mapsto> snd p)"

definition OperatorRegistry :: "js_lib \<Rightarrow> operator_registry" where
  "OperatorRegistry L = fold register_operator (DEFAULT_OPERATORS L) (\<lambda>_. None)"

section \<open>The condition language (dsl/condition.dsl.ts)\<close>

definition OPERATORS :: "string list" where
  "OPERATORS = [''eq'', ''neq'', ''gt'', ''gte'', ''lt'', ''lte'', ''between'', ''in'', ''contains'', ''starts_with'',
     ''ends_with'', ''matches_regex'', ''exists'', ''is_true'', ''is_false'', ''is_null'', ''is_not_null'']"

definition LOGICAL :: "string list" where
  "LOGICAL = [''all'', ''any'', ''not'']"

text \<open>\<open>Object.keys\<close>\<close>

definition obj_keys :: "jsobj \<Rightarrow> string list" where
  "obj_keys ps = remdups (map fst ps)"

definition join_comma :: "string list \<Rightarrow> string" where
  "join_comma xs = (case xs of [] \<Rightarrow> [] | y # ys \<Rightarrow> y @ concat (map (\<lambda>z. '', '' @ z) ys))"

lemma map_of_size [termination_simp]:
  "map_of ps k = Some v \<Longrightarrow> size v < Suc (size_list (size_prod (\<lambda>x. 0) size) ps)"
  by (induction ps) (auto split: if_splits)

lemma map_of_size_arr [termination_simp]:
  "map_of ps k = Some (JArr cs) \<Longrightarrow> size_list size cs < size_list (size_prod (\<lambda>x. 0) size) ps"
  using map_of_size [of ps k "JArr cs"] by simp

definition validate_leaf :: "jsobj \<Rightarrow> string \<Rightarrow> string list" where
  "validate_leaf ps path = (case obj_get ps ''field'' of
     JStr f \<Rightarrow> if f = [] then [path @ '': leaf requires string field''] else
       let opKeys = filter (\<lambda>k. k \<noteq> ''field'') (obj_keys ps) in
       if opKeys = [] then [path @ '': leaf requires an operator'']
       else let unknownOps = filter (\<lambda>k. k \<notin> set OPERATORS \<and> k \<notin> set LOGICAL) opKeys in
       if unknownOps \<noteq> [] then [path @ '': unknown operator(s): '' @ join_comma unknownOps]
       else if length (filter (\<lambda>k. k \<in> set OPERATORS) opKeys) \<noteq> 1
         then [path @ '': leaf must have exactly one operator''] else []
   | _ \<Rightarrow> [path @ '': leaf requires string field''])"

function (sequential) validateConditionTree :: "json \<Rightarrow> string \<Rightarrow> string list"
  and validate_children :: "json list \<Rightarrow> nat \<Rightarrow> string \<Rightarrow> string list" where
  "validateConditionTree (JObj ps) path =
     (case map_of ps ''all'' of
        Some v \<Rightarrow> (case v of JArr cs \<Rightarrow> validate_children cs 0 (path @ ''.all['') | _ \<Rightarrow> [path @ ''.all must be an array''])
      | None \<Rightarrow> (case map_of ps ''any'' of
          Some v \<Rightarrow> (case v of JArr cs \<Rightarrow> validate_children cs 0 (path @ ''.any['') | _ \<Rightarrow> [path @ ''.any must be an array''])
        | None \<Rightarrow> (case map_of ps ''not'' of
            Some v \<Rightarrow> validateConditionTree v (path @ ''.not'')
          | None \<Rightarrow> validate_leaf ps path)))"
| "validateConditionTree (JDate d) path = validate_leaf [] path"
| "validateConditionTree _ path = [path @ '': condition must be an object'']"
| "validate_children [] i prefix = []"
| "validate_children (c # cs) i prefix =
     validateConditionTree c (prefix @ show_nat i @ '']'') @ validate_children cs (Suc i) prefix"
  by pat_completeness auto

termination
  by (relation "measure (case_sum (\<lambda>(v, p). 2 * size v) (\<lambda>(cs, i, p). 2 * size_list size cs + 1))")
    (auto dest: map_of_size map_of_size_arr)

definition leafOperator :: "jsobj \<Rightarrow> string + (string \<times> json)" where
  "leafOperator leaf = (case filter (\<lambda>k. k \<noteq> ''field'') (obj_keys leaf) of
     [name] \<Rightarrow> Inr (name, obj_get leaf name)
   | _ \<Rightarrow> Inl ''leaf must have exactly one operator'')"

section \<open>The evaluator (ConditionEvaluator.ts)\<close>

record eval_internal =
  ei_matched :: bool
  ei_score :: rat
  ei_reasons :: "string list"
  ei_errors :: "string list"

record eval_opts =
  eo_collectReasons :: bool
  eo_shortCircuit :: bool
  eo_matchScore :: rat

definition show_bool :: "bool \<Rightarrow> string" where
  "show_bool b = (if b then ''true'' else ''false'')"

definition join_semi :: "string list \<Rightarrow> string" where
  "join_semi xs = (case xs of [] \<Rightarrow> [] | y # ys \<Rightarrow> y @ concat (map (\<lambda>z. ''; '' @ z) ys))"

definition error_eval :: "string list \<Rightarrow> string list \<Rightarrow> eval_internal" where
  "error_eval reasons errors = \<lparr>ei_matched = False, ei_score = 0, ei_reasons = reasons, ei_errors = errors\<rparr>"

definition eval_leaf ::
  "operator_registry \<Rightarrow> eval_opts \<Rightarrow> jsobj \<Rightarrow> jsobj \<Rightarrow> path_cache \<Rightarrow> eval_internal \<times> path_cache" where
  "eval_leaf reg opts facts leaf cache = (case leafOperator leaf of
     Inl e \<Rightarrow> (error_eval [] [e], cache)
   | Inr (name, expected) \<Rightarrow> (case reg name of
       None \<Rightarrow> (error_eval [] [''Unknown operator: '' @ name], cache)
     | Some op \<Rightarrow> (case obj_get leaf ''field'' of JStr field \<Rightarrow>
         (case resolvePath facts field cache of
            (Inl e, cache1) \<Rightarrow> (error_eval [] [e], cache1)
          | (Inr actual, cache1) \<Rightarrow>
              (let r = op field actual expected;
                   reasons = (if eo_collectReasons opts then [or_reason r] else []) in
               if truthy_str (or_error r) then (error_eval reasons [the (or_error r)], cache1)
               else (\<lparr>ei_matched = or_matched r, ei_score = (if or_matched r then eo_matchScore opts else 0),
                      ei_reasons = reasons, ei_errors = []\<rparr>, cache1)))
         | _ \<Rightarrow> (error_eval [] [''Invalid field path''], cache))))"

text \<open>The running totals of a group: failed, matched count, score, reasons, errors.\<close>

record group_acc =
  ga_failed :: bool
  ga_count :: nat
  ga_score :: rat
  ga_reasons :: "string list"
  ga_errors :: "string list"

definition group_result :: "bool \<Rightarrow> group_acc \<Rightarrow> eval_internal" where
  "group_result is_all acc =
     (if is_all then \<lparr>ei_matched = \<not> ga_failed acc \<and> ga_errors acc = [], ei_score = ga_score acc,
         ei_reasons = ga_reasons acc, ei_errors = ga_errors acc\<rparr>
      else \<lparr>ei_matched = ga_count acc > 0, ei_score = ga_score acc, ei_reasons = ga_reasons acc,
         ei_errors = (if ga_count acc > 0 then [] else ga_errors acc)\<rparr>)"

definition not_result :: "eval_opts \<Rightarrow> eval_internal \<Rightarrow> eval_internal" where
  "not_result opts inner = (let matched = ei_errors inner = [] \<and> \<not> ei_matched inner in
     \<lparr>ei_matched = matched, ei_score = (if matched then eo_matchScore opts else 0),
      ei_reasons = (if eo_collectReasons opts then
        [''not('' @ (let j = join_semi (ei_reasons inner) in if j = [] then ''...'' else j) @ '') '' @ arrow @ '' '' @ show_bool matched]
        else []),
      ei_errors = ei_errors inner\<rparr>)"

definition empty_group :: "eval_opts \<Rightarrow> bool \<Rightarrow> eval_internal" where
  "empty_group opts is_all = \<lparr>ei_matched = is_all, ei_score = 0,
     ei_reasons = (if eo_collectReasons opts
       then [(if is_all then ''all'' else ''any'') @ ''([]) '' @ arrow @ '' '' @ show_bool is_all] else []),
     ei_errors = []\<rparr>"

text \<open>
  \<open>node\<close> and \<open>group\<close>. A document the validator has accepted is an object at every node and has
  arrays under \<open>all\<close> and \<open>any\<close>; elsewhere the source throws a TypeError, and the value here is an
  error.
\<close>

function (sequential) eval_node ::
  "operator_registry \<Rightarrow> eval_opts \<Rightarrow> jsobj \<Rightarrow> json \<Rightarrow> path_cache \<Rightarrow> eval_internal \<times> path_cache"
  and eval_group ::
  "operator_registry \<Rightarrow> eval_opts \<Rightarrow> jsobj \<Rightarrow> bool \<Rightarrow> json list \<Rightarrow> group_acc \<Rightarrow> path_cache \<Rightarrow> eval_internal \<times> path_cache" where
  "eval_node reg opts facts (JObj ps) cache =
     (case map_of ps ''all'' of
        Some v \<Rightarrow> (case v of JArr cs \<Rightarrow>
            if cs = [] then (empty_group opts True, cache)
            else eval_group reg opts facts True cs \<lparr>ga_failed = False, ga_count = 0, ga_score = 0, ga_reasons = [], ga_errors = []\<rparr> cache
          | _ \<Rightarrow> (error_eval [] [''TypeError''], cache))
      | None \<Rightarrow> (case map_of ps ''any'' of
          Some v \<Rightarrow> (case v of JArr cs \<Rightarrow>
              if cs = [] then (empty_group opts False, cache)
              else eval_group reg opts facts False cs \<lparr>ga_failed = False, ga_count = 0, ga_score = 0, ga_reasons = [], ga_errors = []\<rparr> cache
            | _ \<Rightarrow> (error_eval [] [''TypeError''], cache))
        | None \<Rightarrow> (case map_of ps ''not'' of
            Some v \<Rightarrow> (let (inner, cache1) = eval_node reg opts facts v cache in (not_result opts inner, cache1))
          | None \<Rightarrow> eval_leaf reg opts facts ps cache)))"
| "eval_node reg opts facts (JDate d) cache = eval_leaf reg opts facts [] cache"
| "eval_node reg opts facts _ cache = (error_eval [] [''TypeError''], cache)"
| "eval_group reg opts facts is_all [] acc cache = (group_result is_all acc, cache)"
| "eval_group reg opts facts is_all (c # cs) acc cache =
     (let (r, cache1) = eval_node reg opts facts c cache;
          acc1 = acc\<lparr>ga_errors := ga_errors acc @ ei_errors r,
                     ga_reasons := ga_reasons acc @ (if eo_collectReasons opts then ei_reasons r else [])\<rparr> in
      if is_all then
        if ei_errors r \<noteq> [] \<or> \<not> ei_matched r then
          if eo_shortCircuit opts then
            (\<lparr>ei_matched = False, ei_score = ga_score acc1, ei_reasons = ga_reasons acc1, ei_errors = ga_errors acc1\<rparr>, cache1)
          else eval_group reg opts facts is_all cs (acc1\<lparr>ga_failed := True\<rparr>) cache1
        else eval_group reg opts facts is_all cs
               (acc1\<lparr>ga_score := ga_score acc1 + ei_score r, ga_count := Suc (ga_count acc1)\<rparr>) cache1
      else
        if ei_matched r \<and> ei_errors r = [] then
          let acc2 = acc1\<lparr>ga_score := ga_score acc1 + ei_score r, ga_count := Suc (ga_count acc1)\<rparr> in
          if eo_shortCircuit opts then
            (\<lparr>ei_matched = True, ei_score = ga_score acc2, ei_reasons = ga_reasons acc2, ei_errors = []\<rparr>, cache1)
          else eval_group reg opts facts is_all cs acc2 cache1
        else eval_group reg opts facts is_all cs acc1 cache1)"
  by pat_completeness auto

termination
  by (relation "measure (case_sum (\<lambda>(reg, opts, facts, v, cache). 2 * size v)
      (\<lambda>(reg, opts, facts, a, cs, acc, cache). 2 * size_list size cs + 1))")
    (auto dest: map_of_size map_of_size_arr)

record rule_options =
  ro_collectReasons :: "bool option"
  ro_shortCircuit :: "bool option"
  ro_matchScore :: "rat option"

definition eval_opts_of :: "rule_options \<Rightarrow> eval_opts" where
  "eval_opts_of o1 = \<lparr>eo_collectReasons = ro_collectReasons o1 \<noteq> Some False,
     eo_shortCircuit = ro_shortCircuit o1 \<noteq> Some False, eo_matchScore = nullish (ro_matchScore o1) 1\<rparr>"

definition evaluateConditions :: "operator_registry \<Rightarrow> json \<Rightarrow> jsobj \<Rightarrow> rule_options \<Rightarrow> eval_internal" where
  "evaluateConditions reg conditions facts o1 =
     (let opts = eval_opts_of o1 in
      if is_nullish conditions then
        \<lparr>ei_matched = True, ei_score = 0,
         ei_reasons = (if eo_collectReasons opts then [''empty conditions '' @ arrow @ '' match''] else []), ei_errors = []\<rparr>
      else let validation = validateConditionTree conditions ''$'' in
      if validation \<noteq> [] then error_eval [] validation
      else fst (eval_node reg opts facts conditions (\<lambda>_. None)))"

section \<open>Actions (utils/actions.util.ts)\<close>

text \<open>\<open>UnknownOp\<close> stands for an operation outside the type, which a document from the database can hold.\<close>

datatype action_op = SetOp json | AddOp jsnum | MultiplyOp jsnum | PercentOp jsnum | AppendTagOp string | UnknownOp

record rule_action =
  ra_path :: string
  ra_op :: action_op

text \<open>Arithmetic of a finite number with any number.\<close>

definition num_add :: "rat \<Rightarrow> jsnum \<Rightarrow> jsnum" where
  "num_add x n = (case n of Fin y \<Rightarrow> Fin (x + y) | _ \<Rightarrow> n)"

definition num_neg :: "jsnum \<Rightarrow> jsnum" where
  "num_neg n = (case n of Fin y \<Rightarrow> Fin (- y) | PInf \<Rightarrow> NInf | NInf \<Rightarrow> PInf | NaN \<Rightarrow> NaN)"

definition num_mul :: "rat \<Rightarrow> jsnum \<Rightarrow> jsnum" where
  "num_mul x n = (case n of Fin y \<Rightarrow> Fin (x * y)
     | _ \<Rightarrow> if x = 0 then NaN else if x > 0 then n else num_neg n)"

definition num_div100 :: "jsnum \<Rightarrow> jsnum" where
  "num_div100 n = (case n of Fin y \<Rightarrow> Fin (y / 100) | _ \<Rightarrow> n)"

text \<open>\<open>parent[last] ?? 0\<close>\<close>

definition or_zero :: "json \<Rightarrow> json" where
  "or_zero v = (if is_nullish v then JNum (Fin 0) else v)"

text \<open>What an action makes of the value at its path, or the error it reports.\<close>

definition apply_op :: "js_lib \<Rightarrow> rule_action \<Rightarrow> json \<Rightarrow> string + json" where
  "apply_op L a cur = (case ra_op a of
     SetOp v \<Rightarrow> Inr v
   | AddOp n \<Rightarrow> (case jl_number L (or_zero cur) of Fin x \<Rightarrow> Inr (JNum (num_add x n)) | _ \<Rightarrow> Inl (''add requires numeric '' @ ra_path a))
   | MultiplyOp n \<Rightarrow> (case jl_number L (or_zero cur) of Fin x \<Rightarrow> Inr (JNum (num_mul x n)) | _ \<Rightarrow> Inl (''multiply requires numeric '' @ ra_path a))
   | PercentOp n \<Rightarrow> (case jl_number L (or_zero cur) of Fin x \<Rightarrow> Inr (JNum (num_mul x (num_add 1 (num_div100 n))))
       | _ \<Rightarrow> Inl (''percent requires numeric '' @ ra_path a))
   | AppendTagOp tag \<Rightarrow> (case cur of JUndef \<Rightarrow> Inr (JArr [JStr tag]) | JNull \<Rightarrow> Inr (JArr [JStr tag])
       | JArr vs \<Rightarrow> Inr (JArr (vs @ [JStr tag])) | _ \<Rightarrow> Inl (''append_tag requires array at '' @ ra_path a))
   | UnknownOp \<Rightarrow> Inl ''Unknown action op'')"

text \<open>
  The walk to the parent of the last part, which replaces whatever is not an object by an empty one,
  and the change there; the parents stay created when the operation fails.
\<close>

fun update_at :: "string list \<Rightarrow> (json \<Rightarrow> string + json) \<Rightarrow> jsobj \<Rightarrow> string option \<times> jsobj" where
  "update_at [] f ps = (None, ps)"
| "update_at [k] f ps = (case f (obj_get ps k) of Inl e \<Rightarrow> (Some e, ps) | Inr v \<Rightarrow> (None, obj_put k v ps))"
| "update_at (k # ks) f ps =
     (let (e, qs) = update_at ks f (case obj_get ps k of JObj qs \<Rightarrow> qs | _ \<Rightarrow> []) in (e, obj_put k (JObj qs) ps))"

fun applyActions :: "js_lib \<Rightarrow> rule_action list \<Rightarrow> jsobj \<Rightarrow> string list \<Rightarrow> jsobj \<times> string list" where
  "applyActions L [] output errors = (output, errors)"
| "applyActions L (a # as) output errors =
     (if \<not> isValidPath (ra_path a) then applyActions L as output (errors @ [''Invalid action path: '' @ ra_path a])
      else let (e, output1) = update_at (split_dot (ra_path a)) (apply_op L a) output in
        applyActions L as output1 (case e of None \<Rightarrow> errors | Some m \<Rightarrow> errors @ [m]))"

section \<open>The engine (RuleEngine.ts, RuleResult.ts)\<close>

record rule_result =
  rr_matched :: bool
  rr_score :: "rat option"
  rr_reasons :: "string list"
  rr_metadata :: "jsobj option"
  rr_errors :: "string list option"

definition okResult :: "bool \<Rightarrow> string list \<Rightarrow> rat option \<Rightarrow> rule_result" where
  "okResult matched reasons score = \<lparr>rr_matched = matched, rr_score = score, rr_reasons = reasons,
     rr_metadata = None, rr_errors = None\<rparr>"

definition errorResult :: "string list \<Rightarrow> string list \<Rightarrow> rule_result" where
  "errorResult errors reasons = \<lparr>rr_matched = False, rr_score = None, rr_reasons = reasons,
     rr_metadata = Some [(''invalid'', JBool True)], rr_errors = Some errors\<rparr>"

definition evaluateRule ::
  "js_lib \<Rightarrow> operator_registry \<Rightarrow> json \<Rightarrow> jsobj \<Rightarrow> rule_options \<Rightarrow> rule_action list option \<Rightarrow> rule_result" where
  "evaluateRule L reg conditions facts o1 actions =
     (let frozen = deepFreezeFacts facts;
          internal = evaluateConditions reg conditions frozen o1 in
      if ei_errors internal \<noteq> [] then errorResult (ei_errors internal) (ei_reasons internal)
      else let result = okResult (ei_matched internal) (ei_reasons internal) (Some (ei_score internal)) in
      if ei_matched internal \<and> nullish actions [] \<noteq> [] then
        let (output, errors) = applyActions L (the actions) frozen [] in
        if errors \<noteq> [] then
          result\<lparr>rr_errors := Some errors, rr_metadata := Some (obj_spread (nullish (rr_metadata result) []) [(''actionsFailed'', JBool True)])\<rparr>
        else result\<lparr>rr_metadata := Some (obj_spread (nullish (rr_metadata result) []) [(''actionOutput'', JObj output)])\<rparr>
      else result)"

section \<open>Lemmas: paths and actions\<close>

lemma split_dot_not_nil: "split_dot s \<noteq> []"
  by (induction s) (auto split: list.split)

lemma walk_undef [simp]: "walk JUndef ks = JUndef"
  by (cases ks) simp_all

lemma walk_put_other: "j \<noteq> k \<Longrightarrow> walk (JObj (obj_put k v ps)) (j # js) = walk (JObj ps) (j # js)"
  by simp

lemma update_at_get:
  "ks \<noteq> [] \<Longrightarrow> f (walk (JObj ps) ks) = Inr v \<Longrightarrow>
     \<exists>qs. update_at ks f ps = (None, qs) \<and> walk (JObj qs) ks = v"
proof (induction ks f ps rule: update_at.induct)
  case (3 k k2 ks f ps)
  let ?sub = "case obj_get ps k of JObj qs \<Rightarrow> qs | _ \<Rightarrow> []"
  have "walk (JObj ?sub) (k2 # ks) = walk (JObj ps) (k # k2 # ks)"
    by (cases "obj_get ps k") (simp_all add: obj_get_def)
  with 3 obtain qs where "update_at (k2 # ks) f ?sub = (None, qs)" "walk (JObj qs) (k2 # ks) = v"
    by fastforce
  then show ?case by simp
qed simp_all

lemma update_at_fail:
  "ks \<noteq> [] \<Longrightarrow> f (walk (JObj ps) ks) = Inl e \<Longrightarrow>
     \<exists>qs. update_at ks f ps = (Some e, qs) \<and> walk (JObj qs) ks = walk (JObj ps) ks"
proof (induction ks f ps rule: update_at.induct)
  case (3 k k2 ks f ps)
  let ?sub = "case obj_get ps k of JObj qs \<Rightarrow> qs | _ \<Rightarrow> []"
  have "walk (JObj ?sub) (k2 # ks) = walk (JObj ps) (k # k2 # ks)"
    by (cases "obj_get ps k") (simp_all add: obj_get_def)
  with 3 obtain qs where "update_at (k2 # ks) f ?sub = (Some e, qs)"
    "walk (JObj qs) (k2 # ks) = walk (JObj ps) (k # k2 # ks)"
    by fastforce
  then show ?case by simp
qed simp_all

text \<open>A path that leaves the written one at some part is not touched.\<close>

fun diverges :: "string list \<Rightarrow> string list \<Rightarrow> bool" where
  "diverges (j # js) (k # ks) = (j \<noteq> k \<or> diverges js ks)"
| "diverges _ _ = False"

lemma update_at_frame: "diverges js ks \<Longrightarrow> walk (JObj (snd (update_at ks f ps))) js = walk (JObj ps) js"
proof (induction ks f ps arbitrary: js rule: update_at.induct)
  case (1 f ps)
  then show ?case by (cases js) simp_all
next
  case (2 k f ps)
  then obtain j js' where j: "js = j # js'" by (cases js) simp_all
  with 2 have "j \<noteq> k" by (cases js') auto
  then show ?case using j by (simp split: sum.split)
next
  case (3 k k2 ks f ps)
  then obtain j js' where j: "js = j # js'" by (cases js) simp_all
  show ?case
  proof (cases "j = k")
    case True
    let ?sub = "case obj_get ps k of JObj qs \<Rightarrow> qs | _ \<Rightarrow> []"
    have d: "diverges js' (k2 # ks)" using 3(2) j True by simp
    then obtain i rest where "js' = i # rest" by (cases js') simp_all
    then have "walk (JObj ?sub) js' = walk (JObj ps) js"
      using True j by (cases "obj_get ps k") (simp_all add: obj_get_def)
    then show ?thesis using 3(1) [OF d] j True by (simp add: split_def Let_def)
  next
    case False
    then show ?thesis using j by (simp add: split_def Let_def)
  qed
qed

end
