(* ===== verification/Rule_Semantics.thy ===== *)
theory Rule_Semantics
  imports Rules
begin

text \<open>
  What a condition document means, and that the evaluator computes it. The meaning of a node is
  three-valued: true, false, or an error (\<open>None\<close>); \<open>all\<close> reads its children from the left and stops
  at the first that is not true, \<open>any\<close> is true when a child is and otherwise an error when a child
  has one. It is defined without a cache, scores or reasons. A second meaning is the one of the
  evaluator with sibling short-circuiting turned off, where every child is read and \<open>all\<close> has an
  error when any of them has. A last section is on actions: what each operation writes, and what a
  list of actions leaves alone.
\<close>

section \<open>Meaning\<close>

definition leaf_meaning :: "operator_registry \<Rightarrow> jsobj \<Rightarrow> jsobj \<Rightarrow> bool option" where
  "leaf_meaning reg facts leaf = (case leafOperator leaf of Inl _ \<Rightarrow> None
   | Inr (name, expected) \<Rightarrow> (case reg name of None \<Rightarrow> None
     | Some op \<Rightarrow> (case obj_get leaf ''field'' of
         JStr f \<Rightarrow> if isValidPath f then
             (let r = op f (walk (JObj facts) (split_dot f)) expected in
              if truthy_str (or_error r) then None else Some (or_matched r))
           else None
       | _ \<Rightarrow> None)))"

function (sequential) meaning :: "operator_registry \<Rightarrow> jsobj \<Rightarrow> json \<Rightarrow> bool option"
  and meaning_all :: "operator_registry \<Rightarrow> jsobj \<Rightarrow> json list \<Rightarrow> bool option"
  and meaning_any :: "operator_registry \<Rightarrow> jsobj \<Rightarrow> json list \<Rightarrow> bool option" where
  "meaning reg facts (JObj ps) =
     (case map_of ps ''all'' of Some v \<Rightarrow> (case v of JArr cs \<Rightarrow> meaning_all reg facts cs | _ \<Rightarrow> None)
      | None \<Rightarrow> (case map_of ps ''any'' of Some v \<Rightarrow> (case v of JArr cs \<Rightarrow> meaning_any reg facts cs | _ \<Rightarrow> None)
        | None \<Rightarrow> (case map_of ps ''not'' of Some v \<Rightarrow> map_option Not (meaning reg facts v)
          | None \<Rightarrow> leaf_meaning reg facts ps)))"
| "meaning reg facts (JDate d) = leaf_meaning reg facts []"
| "meaning reg facts _ = None"
| "meaning_all reg facts [] = Some True"
| "meaning_all reg facts (c # cs) = (case meaning reg facts c of Some True \<Rightarrow> meaning_all reg facts cs | r \<Rightarrow> r)"
| "meaning_any reg facts [] = Some False"
| "meaning_any reg facts (c # cs) = (case meaning reg facts c of
     Some True \<Rightarrow> Some True
   | Some False \<Rightarrow> meaning_any reg facts cs
   | None \<Rightarrow> if meaning_any reg facts cs = Some True then Some True else None)"
  by pat_completeness auto

termination
  by (relation "measure (case_sum (\<lambda>(reg, facts, v). 2 * size v)
      (case_sum (\<lambda>(reg, facts, cs). 2 * size_list size cs + 1) (\<lambda>(reg, facts, cs). 2 * size_list size cs + 1)))")
    (auto dest: map_of_size map_of_size_arr)

text \<open>The meaning when every child is read.\<close>

definition both :: "bool option \<Rightarrow> bool option \<Rightarrow> bool option" where
  "both a b = (case (a, b) of (Some x, Some y) \<Rightarrow> Some (x \<and> y) | _ \<Rightarrow> None)"

function (sequential) full_meaning :: "operator_registry \<Rightarrow> jsobj \<Rightarrow> json \<Rightarrow> bool option"
  and full_all :: "operator_registry \<Rightarrow> jsobj \<Rightarrow> json list \<Rightarrow> bool option"
  and full_any :: "operator_registry \<Rightarrow> jsobj \<Rightarrow> json list \<Rightarrow> bool option" where
  "full_meaning reg facts (JObj ps) =
     (case map_of ps ''all'' of Some v \<Rightarrow> (case v of JArr cs \<Rightarrow> full_all reg facts cs | _ \<Rightarrow> None)
      | None \<Rightarrow> (case map_of ps ''any'' of Some v \<Rightarrow> (case v of JArr cs \<Rightarrow> full_any reg facts cs | _ \<Rightarrow> None)
        | None \<Rightarrow> (case map_of ps ''not'' of Some v \<Rightarrow> map_option Not (full_meaning reg facts v)
          | None \<Rightarrow> leaf_meaning reg facts ps)))"
| "full_meaning reg facts (JDate d) = leaf_meaning reg facts []"
| "full_meaning reg facts _ = None"
| "full_all reg facts [] = Some True"
| "full_all reg facts (c # cs) = both (full_meaning reg facts c) (full_all reg facts cs)"
| "full_any reg facts [] = Some False"
| "full_any reg facts (c # cs) = (case full_meaning reg facts c of
     Some True \<Rightarrow> Some True
   | Some False \<Rightarrow> full_any reg facts cs
   | None \<Rightarrow> if full_any reg facts cs = Some True then Some True else None)"
  by pat_completeness auto

termination
  by (relation "measure (case_sum (\<lambda>(reg, facts, v). 2 * size v)
      (case_sum (\<lambda>(reg, facts, cs). 2 * size_list size cs + 1) (\<lambda>(reg, facts, cs). 2 * size_list size cs + 1)))")
    (auto dest: map_of_size map_of_size_arr)

text \<open>No leaf below a node has an error, evaluated or not.\<close>

function (sequential) error_free :: "operator_registry \<Rightarrow> jsobj \<Rightarrow> json \<Rightarrow> bool"
  and error_free_list :: "operator_registry \<Rightarrow> jsobj \<Rightarrow> json list \<Rightarrow> bool" where
  "error_free reg facts (JObj ps) =
     (case map_of ps ''all'' of Some v \<Rightarrow> (case v of JArr cs \<Rightarrow> error_free_list reg facts cs | _ \<Rightarrow> False)
      | None \<Rightarrow> (case map_of ps ''any'' of Some v \<Rightarrow> (case v of JArr cs \<Rightarrow> error_free_list reg facts cs | _ \<Rightarrow> False)
        | None \<Rightarrow> (case map_of ps ''not'' of Some v \<Rightarrow> error_free reg facts v
          | None \<Rightarrow> leaf_meaning reg facts ps \<noteq> None)))"
| "error_free reg facts _ = False"
| "error_free_list reg facts [] = True"
| "error_free_list reg facts (c # cs) = (error_free reg facts c \<and> error_free_list reg facts cs)"
  by pat_completeness auto

termination
  by (relation "measure (case_sum (\<lambda>(reg, facts, v). 2 * size v) (\<lambda>(reg, facts, cs). 2 * size_list size cs + 1))")
    (auto dest: map_of_size map_of_size_arr)

text \<open>The leaves of a document.\<close>

function (sequential) leaves :: "json \<Rightarrow> jsobj list" and leaves_list :: "json list \<Rightarrow> jsobj list" where
  "leaves (JObj ps) =
     (case map_of ps ''all'' of Some v \<Rightarrow> (case v of JArr cs \<Rightarrow> leaves_list cs | _ \<Rightarrow> [])
      | None \<Rightarrow> (case map_of ps ''any'' of Some v \<Rightarrow> (case v of JArr cs \<Rightarrow> leaves_list cs | _ \<Rightarrow> [])
        | None \<Rightarrow> (case map_of ps ''not'' of Some v \<Rightarrow> leaves v | None \<Rightarrow> [ps])))"
| "leaves _ = []"
| "leaves_list [] = []"
| "leaves_list (c # cs) = leaves c @ leaves_list cs"
  by pat_completeness auto

termination
  by (relation "measure (case_sum (\<lambda>v. 2 * size v) (\<lambda>cs. 2 * size_list size cs + 1))")
    (auto dest: map_of_size map_of_size_arr)

section \<open>The evaluator computes the meaning\<close>

definition cache_ok :: "jsobj \<Rightarrow> path_cache \<Rightarrow> bool" where
  "cache_ok facts cache \<longleftrightarrow> (\<forall>p v. cache p = Some v \<longrightarrow> v = walk (JObj facts) (split_dot p))"

lemma resolvePath_cached:
  assumes "cache_ok facts cache"
  shows "fst (resolvePath facts path cache) = (if isValidPath path then Inr (walk (JObj facts) (split_dot path))
      else Inl (''Invalid field path: '' @ path)) \<and> cache_ok facts (snd (resolvePath facts path cache))"
  using assms by (auto simp: resolvePath_def cache_ok_def Let_def split: option.splits)

text \<open>An evaluation result stands for a meaning.\<close>

definition denotes :: "eval_internal \<Rightarrow> bool option \<Rightarrow> bool" where
  "denotes r m \<longleftrightarrow> (ei_errors r = []) = (m \<noteq> None) \<and> ei_matched r = (m = Some True)"

lemma denotes_error [simp]: "denotes (error_eval rs (e # es)) m \<longleftrightarrow> m = None"
  by (auto simp: denotes_def error_eval_def)

lemma eval_leaf_denotes:
  assumes "cache_ok facts cache"
  shows "denotes (fst (eval_leaf reg opts facts leaf cache)) (leaf_meaning reg facts leaf)
    \<and> cache_ok facts (snd (eval_leaf reg opts facts leaf cache))"
proof (cases "\<exists>n e op f. leafOperator leaf = Inr (n, e) \<and> reg n = Some op \<and> obj_get leaf ''field'' = JStr f")
  case True
  then obtain n e op f where l: "leafOperator leaf = Inr (n, e)" "reg n = Some op" "obj_get leaf ''field'' = JStr f"
    by blast
  obtain v c1 where res: "resolvePath facts f cache = (v, c1)" by force
  with resolvePath_cached [OF assms, of f] show ?thesis
    by (auto simp: eval_leaf_def leaf_meaning_def l Let_def denotes_def error_eval_def split: if_splits)
next
  case False
  then show ?thesis using assms
    by (auto simp: eval_leaf_def leaf_meaning_def split: sum.splits prod.splits option.splits json.splits)
qed

text \<open>The result of a group that has already collected the errors \<open>es\<close>.\<close>

definition group_denotes :: "bool \<Rightarrow> string list \<Rightarrow> eval_internal \<Rightarrow> operator_registry \<Rightarrow> jsobj \<Rightarrow> json list \<Rightarrow> bool" where
  "group_denotes is_all es r reg facts cs \<longleftrightarrow>
     (if is_all then denotes r (meaning_all reg facts cs)
      else ei_matched r = (meaning_any reg facts cs = Some True)
        \<and> (ei_errors r = []) = (meaning_any reg facts cs = Some True \<or> es = [] \<and> meaning_any reg facts cs = Some False))"

lemma denotes_not: "denotes r m \<Longrightarrow> denotes (not_result opts r) (map_option Not m)"
  by (auto simp: denotes_def not_result_def Let_def)

lemma denotes_empty_group: "denotes (empty_group opts b) (Some b)"
  by (simp add: denotes_def empty_group_def)

lemma eval_denotes:
  "eo_shortCircuit opts \<Longrightarrow> cache_ok facts cache \<Longrightarrow>
     denotes (fst (eval_node reg opts facts v cache)) (meaning reg facts v)
     \<and> cache_ok facts (snd (eval_node reg opts facts v cache))"
  "eo_shortCircuit opts \<Longrightarrow> cache_ok facts cache \<Longrightarrow> (if is_all then \<not> ga_failed acc \<and> ga_errors acc = [] else ga_count acc = 0) \<Longrightarrow>
     group_denotes is_all (ga_errors acc) (fst (eval_group reg opts facts is_all cs acc cache)) reg facts cs
     \<and> cache_ok facts (snd (eval_group reg opts facts is_all cs acc cache))"
proof (induction reg opts facts v cache and reg opts facts is_all cs acc cache rule: eval_node_eval_group.induct)
  case (1 reg opts facts ps cache)
  consider (all) v where "map_of ps ''all'' = Some v"
    | (any) v where "map_of ps ''all'' = None" "map_of ps ''any'' = Some v"
    | (neg) v where "map_of ps ''all'' = None" "map_of ps ''any'' = None" "map_of ps ''not'' = Some v"
    | (leaf) "map_of ps ''all'' = None" "map_of ps ''any'' = None" "map_of ps ''not'' = None"
    by (meson not_None_eq)
  then show ?case
  proof cases
    case all
    then show ?thesis using 1 denotes_empty_group [of opts True]
      by (cases v) (auto simp: group_denotes_def)
  next
    case any
    then show ?thesis using 1 denotes_empty_group [of opts False]
      by (cases v) (auto simp: group_denotes_def denotes_def error_eval_def)
  next
    case neg
    then show ?thesis using 1 denotes_not by (auto simp: split_def Let_def)
  next
    case leaf
    then show ?thesis using 1 eval_leaf_denotes by simp
  qed
next
  case (2 reg opts facts d cache)
  then show ?case using eval_leaf_denotes by simp
next
  case (5 reg opts facts is_all c cs acc cache)
  obtain r c1 where node: "eval_node reg opts facts c cache = (r, c1)" by force
  with 5(1,6,7) have r: "denotes r (meaning reg facts c)" "cache_ok facts c1" by auto
  show ?case
  proof (cases is_all)
    case True
    then show ?thesis using 5(3,6,8) r node
      by (cases "ei_matched r"; cases "ei_errors r") (auto simp: group_denotes_def denotes_def Let_def)
  next
    case False
    then show ?thesis using 5(5,6,8) r node
      by (cases "ei_matched r"; cases "ei_errors r")
        (auto simp: group_denotes_def denotes_def Let_def split: option.splits bool.splits)
  qed
qed (auto simp: group_denotes_def group_result_def denotes_def error_eval_def)

text \<open>Without short circuit a group goes on from what it has collected so far.\<close>

definition group_full :: "bool \<Rightarrow> group_acc \<Rightarrow> eval_internal \<Rightarrow> operator_registry \<Rightarrow> jsobj \<Rightarrow> json list \<Rightarrow> bool" where
  "group_full is_all acc r reg facts cs \<longleftrightarrow>
     (if is_all then (ei_errors r = []) = (ga_errors acc = [] \<and> full_all reg facts cs \<noteq> None)
        \<and> ei_matched r = (\<not> ga_failed acc \<and> ga_errors acc = [] \<and> full_all reg facts cs = Some True)
      else ei_matched r = (ga_count acc > 0 \<or> full_any reg facts cs = Some True)
        \<and> (ei_errors r = []) = (ga_count acc > 0 \<or> full_any reg facts cs = Some True
             \<or> ga_errors acc = [] \<and> full_any reg facts cs = Some False))"

lemma eval_denotes_full:
  "\<not> eo_shortCircuit opts \<Longrightarrow> cache_ok facts cache \<Longrightarrow>
     denotes (fst (eval_node reg opts facts v cache)) (full_meaning reg facts v)
     \<and> cache_ok facts (snd (eval_node reg opts facts v cache))"
  "\<not> eo_shortCircuit opts \<Longrightarrow> cache_ok facts cache \<Longrightarrow>
     group_full is_all acc (fst (eval_group reg opts facts is_all cs acc cache)) reg facts cs
     \<and> cache_ok facts (snd (eval_group reg opts facts is_all cs acc cache))"
proof (induction reg opts facts v cache and reg opts facts is_all cs acc cache rule: eval_node_eval_group.induct)
  case (1 reg opts facts ps cache)
  consider (all) v where "map_of ps ''all'' = Some v"
    | (any) v where "map_of ps ''all'' = None" "map_of ps ''any'' = Some v"
    | (neg) v where "map_of ps ''all'' = None" "map_of ps ''any'' = None" "map_of ps ''not'' = Some v"
    | (leaf) "map_of ps ''all'' = None" "map_of ps ''any'' = None" "map_of ps ''not'' = None"
    by (meson not_None_eq)
  then show ?case
  proof cases
    case all
    then show ?thesis using 1 denotes_empty_group [of opts True]
      by (cases v) (auto simp: group_full_def denotes_def error_eval_def)
  next
    case any
    then show ?thesis using 1 denotes_empty_group [of opts False]
      by (cases v) (auto simp: group_full_def denotes_def error_eval_def)
  next
    case neg
    then show ?thesis using 1 denotes_not by (auto simp: split_def Let_def)
  next
    case leaf
    then show ?thesis using 1 eval_leaf_denotes by simp
  qed
next
  case (2 reg opts facts d cache)
  then show ?case using eval_leaf_denotes by simp
next
  case (5 reg opts facts is_all c cs acc cache)
  obtain r c1 where node: "eval_node reg opts facts c cache = (r, c1)" by force
  with 5(1,6,7) have r: "denotes r (full_meaning reg facts c)" "cache_ok facts c1" by auto
  show ?case
  proof (cases is_all)
    case True
    then show ?thesis using 5(2,3,6) r node
      by (cases "ei_matched r"; cases "ei_errors r")
        (auto simp: group_full_def denotes_def both_def Let_def split: option.splits)
  next
    case False
    then show ?thesis using 5(4,5,6) r node
      by (cases "ei_matched r"; cases "ei_errors r")
        (auto simp: group_full_def denotes_def Let_def split: option.splits bool.splits)
  qed
qed (auto simp: group_full_def group_result_def denotes_def error_eval_def)

section \<open>Options\<close>

text \<open>On a document without errors every choice of options computes the meaning.\<close>

lemma error_free_meaning:
  "error_free reg facts v \<Longrightarrow> meaning reg facts v \<noteq> None"
  "error_free_list reg facts cs \<Longrightarrow> meaning_all reg facts cs \<noteq> None \<and> meaning_any reg facts cs \<noteq> None"
proof (induction reg facts v and reg facts cs rule: error_free_error_free_list.induct)
  case (1 reg facts ps)
  then show ?case by (auto split: option.splits json.splits)
qed (auto split: option.splits bool.splits)

lemma error_free_full:
  "error_free reg facts v \<Longrightarrow> full_meaning reg facts v = meaning reg facts v"
  "error_free_list reg facts cs \<Longrightarrow> full_all reg facts cs = meaning_all reg facts cs
     \<and> full_any reg facts cs = meaning_any reg facts cs"
proof (induction reg facts v and reg facts cs rule: error_free_error_free_list.induct)
  case (1 reg facts ps)
  then show ?case by (auto split: option.splits json.splits)
next
  case (4 reg facts c cs)
  then show ?case using error_free_meaning(1) [of reg facts c] error_free_meaning(2) [of reg facts cs]
    by (auto simp: both_def split: option.splits bool.splits)
qed auto

lemma eval_error_free:
  assumes "error_free reg facts v" "cache_ok facts cache"
  shows "denotes (fst (eval_node reg opts facts v cache)) (meaning reg facts v)"
  using eval_denotes(1) [OF _ assms(2), of opts reg v] eval_denotes_full(1) [OF _ assms(2), of opts reg v]
    error_free_full(1) [OF assms(1)] by (cases "eo_shortCircuit opts") simp_all

section \<open>Validation\<close>

text \<open>What the evaluator relies on: the registry knows every operator the validator accepts.\<close>

locale complete_registry =
  fixes reg :: operator_registry
  assumes known: "n \<in> set OPERATORS \<Longrightarrow> \<exists>op. reg n = Some op"
begin

lemma leaf_operator:
  assumes "validate_leaf ps path = []" "\<forall>k\<in>set LOGICAL. map_of ps k = None"
  shows "\<exists>n e op f. n \<in> set OPERATORS \<and> leafOperator ps = Inr (n, e) \<and> reg n = Some op
    \<and> obj_get ps ''field'' = JStr f \<and> f \<noteq> []"
proof -
  let ?ks = "filter (\<lambda>k. k \<noteq> ''field'') (obj_keys ps)"
  obtain f where f: "obj_get ps ''field'' = JStr f" "f \<noteq> []"
    using assms(1) by (auto simp: validate_leaf_def split: json.splits if_splits)
  with assms(1) have u: "filter (\<lambda>k. k \<notin> set OPERATORS \<and> k \<notin> set LOGICAL) ?ks = []"
    and one: "length (filter (\<lambda>k. k \<in> set OPERATORS) ?ks) = 1"
    by (simp_all add: validate_leaf_def Let_def del: filter_filter split: if_splits)
  have "k \<notin> set LOGICAL" if "k \<in> set ?ks" for k
    using that assms(2) by (force simp: obj_keys_def map_of_eq_None_iff)
  with u have all_ops: "k \<in> set OPERATORS" if "k \<in> set ?ks" for k
    using that by (auto simp: filter_empty_conv)
  then have "filter (\<lambda>k. k \<in> set OPERATORS) ?ks = ?ks" by (intro filter_True) blast
  with one have "length ?ks = 1" by (simp only:)
  then obtain n where n: "?ks = [n]" by (cases ?ks) auto
  with all_ops have "n \<in> set OPERATORS" by auto
  with n f known show ?thesis by (auto simp: leafOperator_def)
qed

lemma validated_leaves:
  "validateConditionTree v path = [] \<Longrightarrow> l \<in> set (leaves v) \<Longrightarrow>
     \<exists>n e op f. n \<in> set OPERATORS \<and> leafOperator l = Inr (n, e) \<and> reg n = Some op \<and> obj_get l ''field'' = JStr f \<and> f \<noteq> []"
  "validate_children cs i prefix = [] \<Longrightarrow> l \<in> set (leaves_list cs) \<Longrightarrow>
     \<exists>n e op f. n \<in> set OPERATORS \<and> leafOperator l = Inr (n, e) \<and> reg n = Some op \<and> obj_get l ''field'' = JStr f \<and> f \<noteq> []"
proof (induction v path and cs i prefix rule: validateConditionTree_validate_children.induct)
  case (1 ps path)
  consider (all) v where "map_of ps ''all'' = Some v"
    | (any) v where "map_of ps ''all'' = None" "map_of ps ''any'' = Some v"
    | (neg) v where "map_of ps ''all'' = None" "map_of ps ''any'' = None" "map_of ps ''not'' = Some v"
    | (leaf) "map_of ps ''all'' = None" "map_of ps ''any'' = None" "map_of ps ''not'' = None"
    by (meson not_None_eq)
  then show ?case
  proof cases
    case leaf
    then show ?thesis using 1(4,5) leaf_operator [of ps path] by (auto simp: LOGICAL_def)
  qed (use 1 in \<open>auto split: json.splits\<close>)
qed auto

end

lemma OperatorRegistry_map: "OperatorRegistry L = map_of (DEFAULT_OPERATORS L)"
  by (auto simp: OperatorRegistry_def DEFAULT_OPERATORS_def register_operator_def fun_eq_iff)

interpretation registry: complete_registry "OperatorRegistry L"
  by unfold_locales (auto simp: OPERATORS_def OperatorRegistry_map DEFAULT_OPERATORS_def)

section \<open>Sample inputs\<close>

text \<open>A library for concrete evaluations, a cart rule and the facts of one cart.\<close>

definition plain_lib :: js_lib where
  "plain_lib = \<lparr>jl_dateParse = \<lambda>_. None, jl_localeCompare = \<lambda>a b. if a = b then 0 else 1,
     jl_number = \<lambda>v. (case v of JNum n \<Rightarrow> n | _ \<Rightarrow> NaN), jl_numstr = \<lambda>_. [], jl_stringify = \<lambda>_. None,
     jl_regex = \<lambda>_. None\<rparr>"

definition sample_conditions :: json where
  "sample_conditions = JObj [(''all'', JArr
     [JObj [(''field'', JStr ''cart.total''), (''gte'', JInt 100)],
      JObj [(''not'', JObj [(''field'', JStr ''user.blocked''), (''is_true'', JBool True)])]])]"

definition sample_facts :: jsobj where
  "sample_facts = [(''cart'', JObj [(''total'', JInt 250)]), (''user'', JObj [(''blocked'', JBool False)])]"

definition no_options :: rule_options where
  "no_options = \<lparr>ro_collectReasons = None, ro_shortCircuit = None, ro_matchScore = None\<rparr>"

lemma sample_accepted: "validateConditionTree sample_conditions ''$'' = []" "\<not> is_nullish sample_conditions"
  by code_simp+

section \<open>The engine\<close>

lemma fold_obj_put_fresh:
  "distinct (map fst (a @ b)) \<Longrightarrow> fold (\<lambda>(k, v). obj_put k v) b a = a @ b"
proof (induction b arbitrary: a)
  case (Cons p b)
  obtain k v where p: "p = (k, v)" by force
  have "obj_put k v a = a @ [(k, v)]" if "k \<notin> fst ` set a" for a
    using that by (induction a) auto
  with Cons p show ?case by auto
qed simp

lemma deepFreezeFacts_same: "distinct (map fst facts) \<Longrightarrow> deepFreezeFacts facts = facts"
  using fold_obj_put_fresh [of "[]" facts] by (simp add: deepFreezeFacts_def obj_spread_def)

lemma evaluateConditions_denotes:
  assumes "\<not> is_nullish conditions" "validateConditionTree conditions ''$'' = []"
    and "ro_shortCircuit o1 \<noteq> Some False \<or> error_free reg facts conditions"
  shows "denotes (evaluateConditions reg conditions facts o1) (meaning reg facts conditions)"
proof -
  have c: "cache_ok facts (\<lambda>_. None)" by (simp add: cache_ok_def)
  have "denotes (fst (eval_node reg (eval_opts_of o1) facts conditions (\<lambda>_. None))) (meaning reg facts conditions)"
    using assms(3) eval_denotes(1) [OF _ c, of "eval_opts_of o1" reg conditions]
      eval_error_free [OF _ c, of reg conditions "eval_opts_of o1"]
    by (auto simp: eval_opts_of_def)
  then show ?thesis using assms(1,2) by (simp add: evaluateConditions_def Let_def)
qed

lemma evaluateRule_denotes:
  assumes "denotes (evaluateConditions reg conditions (deepFreezeFacts facts) o1) m"
  shows "rr_matched (evaluateRule L reg conditions facts o1 actions) = (m = Some True)
    \<and> (rr_metadata (evaluateRule L reg conditions facts o1 actions) = Some [(''invalid'', JBool True)]) = (m = None)"
  using assms
  by (auto simp: denotes_def evaluateRule_def Let_def errorResult_def okResult_def obj_spread_def split_def)

lemma evaluateConditions_full:
  assumes "\<not> is_nullish conditions" "validateConditionTree conditions ''$'' = []" "ro_shortCircuit o1 = Some False"
  shows "denotes (evaluateConditions reg conditions facts o1) (full_meaning reg facts conditions)"
  using assms eval_denotes_full(1) [of "eval_opts_of o1" facts "\<lambda>_. None" reg conditions]
  by (simp add: evaluateConditions_def Let_def eval_opts_of_def cache_ok_def)

text \<open>
  C21: on a document the validator accepts, the rule engine (with its default operators, whatever its
  path cache, reasons, scores and actions) matches exactly when the three-valued meaning of the
  document is true, and reports the result as invalid exactly when that meaning is an error. The
  meaning reads a group from the left and ends it at the first child that settles it; when the caller
  turns sibling short-circuiting off it is the one where every child is read, so that an error of a
  later child counts.
\<close>
theorem rule_engine_decides_meaning:
  assumes "distinct (map fst facts)" "\<not> is_nullish conditions" "validateConditionTree conditions ''$'' = []"
  shows "let m = (if ro_shortCircuit o1 = Some False then full_meaning else meaning) (OperatorRegistry L) facts conditions;
      result = evaluateRule L (OperatorRegistry L) conditions facts o1 actions in
    rr_matched result = (m = Some True)
    \<and> (rr_metadata result = Some [(''invalid'', JBool True)]) = (m = None)"
  using evaluateRule_denotes [of "OperatorRegistry L" conditions facts o1] assms(1)
    evaluateConditions_denotes [OF assms(2,3), of o1 "OperatorRegistry L" facts]
    evaluateConditions_full [OF assms(2,3), of o1 "OperatorRegistry L" facts]
  by (simp add: deepFreezeFacts_same Let_def)

text \<open>Witness: a negated group whose second child has an error, with short circuit and without.\<close>

definition masked_conditions :: json where
  "masked_conditions = JObj [(''not'', JObj [(''all'', JArr
     [JObj [(''field'', JStr ''user.blocked''), (''is_true'', JBool True)],
      JObj [(''field'', JStr ''cart.missing''), (''gt'', JInt 1)]])])]"

theorem rule_engine_decides_meaning_witness:
  "rr_matched (evaluateRule plain_lib (OperatorRegistry plain_lib) masked_conditions sample_facts no_options None)
   \<and> rr_metadata (evaluateRule plain_lib (OperatorRegistry plain_lib) masked_conditions sample_facts
       (no_options\<lparr>ro_shortCircuit := Some False\<rparr>) None) = Some [(''invalid'', JBool True)]"
proof -
  have d: "distinct (map fst sample_facts)" "\<not> is_nullish masked_conditions"
    "validateConditionTree masked_conditions ''$'' = []" by code_simp+
  have m: "meaning (OperatorRegistry plain_lib) sample_facts masked_conditions = Some True"
    "full_meaning (OperatorRegistry plain_lib) sample_facts masked_conditions = None" by code_simp+
  have o: "ro_shortCircuit no_options \<noteq> Some False" by code_simp
  show ?thesis
    using rule_engine_decides_meaning [OF d, of no_options plain_lib None] m o
      rule_engine_decides_meaning [OF d, of "no_options\<lparr>ro_shortCircuit := Some False\<rparr>" plain_lib None]
    by (simp add: Let_def)
qed

text \<open>
  Turning sibling short-circuiting off, dropping the reasons or changing the score of a leaf
  never changes whether an accepted document matches or is invalid, as long as no leaf of it has an
  error: two evaluations under any two choices of options agree.
\<close>
theorem rule_options_agree_without_errors:
  assumes "\<not> is_nullish conditions" "validateConditionTree conditions ''$'' = []" "error_free reg facts conditions"
  shows "ei_matched (evaluateConditions reg conditions facts o1) = ei_matched (evaluateConditions reg conditions facts o2)
    \<and> ei_errors (evaluateConditions reg conditions facts o1) = [] \<and> ei_errors (evaluateConditions reg conditions facts o2) = []"
  using evaluateConditions_denotes [OF assms(1,2)] assms(3) error_free_meaning(1) [OF assms(3)]
  by (auto simp: denotes_def)

theorem rule_options_agree_without_errors_witness:
  "error_free (OperatorRegistry plain_lib) sample_facts sample_conditions
   \<and> ei_matched (evaluateConditions (OperatorRegistry plain_lib) sample_conditions sample_facts no_options)
     = ei_matched (evaluateConditions (OperatorRegistry plain_lib) sample_conditions sample_facts
         (no_options\<lparr>ro_shortCircuit := Some False, ro_matchScore := Some 5\<rparr>))"
proof -
  have "error_free (OperatorRegistry plain_lib) sample_facts sample_conditions" by code_simp
  then show ?thesis using rule_options_agree_without_errors [OF sample_accepted(2,1)] by blast
qed

text \<open>
  With a leaf that has an error the choice matters below a negation: for leaves a that is false
  and b that has an error, the document not (all [a, b]) matches when siblings are short-circuited
  and is reported as an error when they are not.
\<close>
theorem short_circuit_hides_errors:
  assumes "leaf_meaning reg facts a = Some False" "leaf_meaning reg facts b = None"
    and "\<forall>k\<in>set LOGICAL. map_of a k = None \<and> map_of b k = None"
  shows "ei_matched (fst (eval_node reg opts facts (JObj [(''not'', JObj [(''all'', JArr [JObj a, JObj b])])]) (\<lambda>_. None)))
      = eo_shortCircuit opts
    \<and> (ei_errors (fst (eval_node reg opts facts (JObj [(''not'', JObj [(''all'', JArr [JObj a, JObj b])])]) (\<lambda>_. None))) = [])
      = eo_shortCircuit opts"
proof -
  have keys: "map_of a ''all'' = None" "map_of a ''any'' = None" "map_of a ''not'' = None"
    "map_of b ''all'' = None" "map_of b ''any'' = None" "map_of b ''not'' = None"
    using assms(3) by (simp_all add: LOGICAL_def)
  obtain ra c1 where ra: "eval_leaf reg opts facts a (\<lambda>_. None) = (ra, c1)" by force
  obtain rb c2 where rb: "eval_leaf reg opts facts b c1 = (rb, c2)" by force
  have "denotes ra (Some False)" "cache_ok facts c1"
    using eval_leaf_denotes [of facts "\<lambda>_. None" reg opts a] ra assms(1) by (auto simp: cache_ok_def)
  moreover from this have "denotes rb None"
    using eval_leaf_denotes [of facts c1 reg opts b] rb assms(2) by auto
  ultimately show ?thesis
    using keys ra rb by (auto simp: denotes_def not_result_def group_result_def Let_def)
qed

theorem short_circuit_hides_errors_witness:
  "\<exists>a b. \<not> ei_matched (fst (eval_node (OperatorRegistry plain_lib)
     \<lparr>eo_collectReasons = True, eo_shortCircuit = False, eo_matchScore = 1\<rparr> sample_facts
     (JObj [(''not'', JObj [(''all'', JArr [JObj a, JObj b])])]) (\<lambda>_. None)))"
proof -
  let ?a = "[(''field'', JStr ''user.blocked''), (''is_true'', JBool True)]"
  let ?b = "[(''field'', JStr ''cart.missing''), (''gt'', JInt 1)]"
  have "leaf_meaning (OperatorRegistry plain_lib) sample_facts ?a = Some False"
    "leaf_meaning (OperatorRegistry plain_lib) sample_facts ?b = None"
    "\<forall>k\<in>set LOGICAL. map_of ?a k = None \<and> map_of ?b k = None"
    by code_simp+
  from short_circuit_hides_errors [OF this, of "\<lparr>eo_collectReasons = True, eo_shortCircuit = False, eo_matchScore = 1\<rparr>"]
  show ?thesis by (simp only: eval_opts.select_convs) blast
qed

text \<open>
  Every leaf of a document the validator accepts has a non-empty field, exactly one operator key,
  and that operator is one of the seventeen names and is registered, so the evaluator never answers
  that an operator is unknown or that a leaf has too many.
\<close>
theorem validated_leaves_registered:
  assumes "validateConditionTree conditions path = []" "l \<in> set (leaves conditions)"
  shows "\<exists>n e op f. n \<in> set OPERATORS \<and> leafOperator l = Inr (n, e) \<and> OperatorRegistry L n = Some op
    \<and> obj_get l ''field'' = JStr f \<and> f \<noteq> []"
  using registry.validated_leaves(1) [OF assms] .

theorem validated_leaves_registered_witness:
  "\<exists>n e op. leafOperator [(''field'', JStr ''cart.total''), (''gte'', JInt 100)] = Inr (n, e)
     \<and> OperatorRegistry plain_lib n = Some op"
proof -
  have "[(''field'', JStr ''cart.total''), (''gte'', JInt 100)] \<in> set (leaves sample_conditions)"
    by (simp add: sample_conditions_def)
  from validated_leaves_registered [OF sample_accepted(1) this] show ?thesis by blast
qed

section \<open>Operators\<close>

text \<open>
  The comparison operators fit together on every pair of values: between is gte of the lower and
  lte of the upper bound, with an error exactly when one of the two comparisons has one; neq is the
  negation of eq; where the comparison gives a number, gt is the negation of lte and lt of gte; and
  where a value is null, missing or of another kind, none of the four matches and each has an error.
\<close>
theorem comparison_operators_coherent:
  "or_matched (BetweenOperator L f a (JArr [lo, hi])) = (or_matched (GteOperator L f a lo) \<and> or_matched (LteOperator L f a hi))
   \<and> (or_error (BetweenOperator L f a (JArr [lo, hi])) = None) = (or_error (GteOperator L f a lo) = None \<and> or_error (LteOperator L f a hi) = None)
   \<and> or_matched (NeqOperator L f a b) = (\<not> or_matched (EqOperator L f a b))
   \<and> (case compareOrdered L a b of
      Inr (Some c) \<Rightarrow> or_matched (GtOperator L f a b) = (\<not> or_matched (LteOperator L f a b))
        \<and> or_matched (LtOperator L f a b) = (\<not> or_matched (GteOperator L f a b))
    | Inr None \<Rightarrow> \<not> or_matched (GtOperator L f a b) \<and> \<not> or_matched (LteOperator L f a b)
        \<and> \<not> or_matched (LtOperator L f a b) \<and> \<not> or_matched (GteOperator L f a b)
    | Inl e \<Rightarrow> \<not> or_matched (GtOperator L f a b) \<and> \<not> or_matched (LteOperator L f a b)
        \<and> \<not> or_matched (LtOperator L f a b) \<and> \<not> or_matched (GteOperator L f a b)
        \<and> or_error (GtOperator L f a b) = Some e \<and> or_error (LteOperator L f a b) = Some e
        \<and> or_error (LtOperator L f a b) = Some e \<and> or_error (GteOperator L f a b) = Some e)"
  by (auto simp: BetweenOperator_def GteOperator_def LteOperator_def GtOperator_def LtOperator_def cmpOp_def Let_def
      ok_res_def fail_res_def EqOperator_def NeqOperator_def split: sum.splits option.splits)

section \<open>Actions\<close>

lemma resolve_fresh:
  "isValidPath p \<Longrightarrow> fst (resolvePath facts p (\<lambda>_. None)) = Inr (walk (JObj facts) (split_dot p))"
  by (simp add: resolvePath_def Let_def)

lemma applyActions_frame:
  "\<forall>a\<in>set as. diverges js (split_dot (ra_path a)) \<Longrightarrow>
     walk (JObj (fst (applyActions L as out errs))) js = walk (JObj out) js"
proof (induction L as out errs rule: applyActions.induct)
  case (2 L a as out errs)
  obtain e out1 where u: "update_at (split_dot (ra_path a)) (apply_op L a) out = (e, out1)" by force
  with 2(3) have "walk (JObj out1) js = walk (JObj out) js"
    using update_at_frame [of js "split_dot (ra_path a)" "apply_op L a" out] by simp
  with 2 u show ?case by simp
qed simp

lemma applyActions_append:
  "applyActions L (as @ bs) out errs = (case applyActions L as out errs of (o1, e1) \<Rightarrow> applyActions L bs o1 e1)"
  by (induction L as out errs rule: applyActions.induct) (auto simp: split_def Let_def)

text \<open>
  What an action is to write over the value \<open>cur\<close> at its path, \<open>None\<close> when it is to be refused: a
  missing or null value counts as zero or as the empty list of tags.
\<close>

definition numeric :: "js_lib \<Rightarrow> json \<Rightarrow> rat option" where
  "numeric L cur = (case jl_number L (if cur = JUndef \<or> cur = JNull then JInt 0 else cur) of Fin x \<Rightarrow> Some x | _ \<Rightarrow> None)"

fun finite_operand :: "action_op \<Rightarrow> bool" where
  "finite_operand (AddOp n) = (case n of Fin y \<Rightarrow> True | _ \<Rightarrow> False)"
| "finite_operand (MultiplyOp n) = (case n of Fin y \<Rightarrow> True | _ \<Rightarrow> False)"
| "finite_operand (PercentOp n) = (case n of Fin y \<Rightarrow> True | _ \<Rightarrow> False)"
| "finite_operand _ = True"

fun written :: "js_lib \<Rightarrow> json \<Rightarrow> action_op \<Rightarrow> json option" where
  "written L cur (SetOp v) = Some v"
| "written L cur (AddOp (Fin y)) = map_option (\<lambda>x. JNum (Fin (x + y))) (numeric L cur)"
| "written L cur (MultiplyOp (Fin y)) = map_option (\<lambda>x. JNum (Fin (x * y))) (numeric L cur)"
| "written L cur (PercentOp (Fin y)) = map_option (\<lambda>x. JNum (Fin (x + x * y / 100))) (numeric L cur)"
| "written L JUndef (AppendTagOp tag) = Some (JArr [JStr tag])"
| "written L JNull (AppendTagOp tag) = Some (JArr [JStr tag])"
| "written L (JArr vs) (AppendTagOp tag) = Some (JArr (vs @ [JStr tag]))"
| "written L cur _ = None"

lemma apply_op_written:
  assumes "finite_operand op"
  shows "case written L cur op of Some v \<Rightarrow> apply_op L \<lparr>ra_path = p, ra_op = op\<rparr> cur = Inr v
    | None \<Rightarrow> \<exists>m. m \<noteq> [] \<and> apply_op L \<lparr>ra_path = p, ra_op = op\<rparr> cur = Inl m"
proof -
  have n: "numeric L cur = (case jl_number L (or_zero cur) of Fin x \<Rightarrow> Some x | _ \<Rightarrow> None)"
    by (simp add: numeric_def or_zero_def is_nullish_def)
  have arith: ?thesis if "op = AddOp (Fin y) \<or> op = MultiplyOp (Fin y) \<or> op = PercentOp (Fin y)" for y
    using that by (cases "jl_number L (or_zero cur)")
      (auto simp: apply_op_def n num_add_def num_mul_def num_div100_def algebra_simps)
  show ?thesis
  proof (cases op)
    case (AppendTagOp tag)
    then show ?thesis by (cases cur) (simp_all add: apply_op_def)
  qed (use assms arith in \<open>auto simp: apply_op_def split: jsnum.splits\<close>)
qed

lemma applyActions_one:
  fixes out :: jsobj
  assumes "isValidPath p" "finite_operand op"
  defines "cur \<equiv> walk (JObj out) (split_dot p)"
  shows "\<exists>out1 m. applyActions L [\<lparr>ra_path = p, ra_op = op\<rparr>] out errs = (out1, errs @ m)
    \<and> (case written L cur op of Some v \<Rightarrow> m = [] \<and> walk (JObj out1) (split_dot p) = v
       | None \<Rightarrow> length m = 1 \<and> walk (JObj out1) (split_dot p) = cur)"
proof (cases "written L cur op")
  case None
  then obtain m where "apply_op L \<lparr>ra_path = p, ra_op = op\<rparr> cur = Inl m"
    using apply_op_written [OF assms(2), of L p cur] by auto
  from update_at_fail [OF split_dot_not_nil, of "apply_op L \<lparr>ra_path = p, ra_op = op\<rparr>", OF this [unfolded cur_def]] assms(1) None show ?thesis
    unfolding cur_def by auto
next
  case (Some v)
  then have "apply_op L \<lparr>ra_path = p, ra_op = op\<rparr> cur = Inr v"
    using apply_op_written [OF assms(2), of L p cur] by simp
  from update_at_get [OF split_dot_not_nil, of "apply_op L \<lparr>ra_path = p, ra_op = op\<rparr>", OF this [unfolded cur_def]] assms(1) Some show ?thesis
    unfolding cur_def by auto
qed

text \<open>
  C28: what actions write and what they leave alone. Take any actions \<open>as\<close> (failing ones included)
  and let \<open>cur\<close> be what the path \<open>p\<close> resolves to behind them. An action on \<open>p\<close> then writes the value
  of \<open>set\<close>, the sum for \<open>add\<close>, the product for \<open>multiply\<close>, the value raised by so many hundredths
  for \<open>percent\<close>, or the tags with one more for \<open>append_tag\<close>, without an error message; when \<open>cur\<close> is
  not a finite number for the arithmetic ones (with finite operands), not a list for \<open>append_tag\<close>, or the
  operation is unknown, it leaves \<open>cur\<close> there and adds one message. Further actions on paths that
  part from \<open>p\<close> do not change it, an action on a malformed path changes nothing but the messages,
  and every path that parts from all paths of the list resolves as it did in the facts.
\<close>
theorem actions_write_and_frame:
  assumes p: "isValidPath p" "finite_operand op"
    and before: "applyActions L as facts [] = (o1, e1)" "fst (resolvePath o1 p (\<lambda>_. None)) = Inr cur"
    and apart: "\<forall>a\<in>set bs. diverges (split_dot p) (split_dot (ra_path a))"
  defines "out \<equiv> fst (applyActions L (as @ \<lparr>ra_path = p, ra_op = op\<rparr> # bs) facts [])"
  shows "fst (resolvePath out p (\<lambda>_. None)) = Inr (case written L cur op of Some v \<Rightarrow> v | None \<Rightarrow> cur)
    \<and> (\<exists>m. snd (applyActions L (as @ [\<lparr>ra_path = p, ra_op = op\<rparr>]) facts []) = e1 @ m
         \<and> length m = (if written L cur op = None then 1 else 0))
    \<and> (\<not> isValidPath r \<longrightarrow> applyActions L (as @ [\<lparr>ra_path = r, ra_op = op\<rparr>]) facts []
         = (o1, e1 @ [''Invalid action path: '' @ r]))
    \<and> (isValidPath q \<and> (\<forall>a\<in>set (as @ \<lparr>ra_path = p, ra_op = op\<rparr> # bs). diverges (split_dot q) (split_dot (ra_path a)))
         \<longrightarrow> fst (resolvePath out q (\<lambda>_. None)) = fst (resolvePath facts q (\<lambda>_. None)))"
proof -
  let ?a = "\<lparr>ra_path = p, ra_op = op\<rparr>"
  have cur: "cur = walk (JObj o1) (split_dot p)" using before(2) p(1) by (simp add: resolve_fresh)
  obtain o2 m where o2: "applyActions L [?a] o1 e1 = (o2, e1 @ m)"
    and w: "case written L cur op of Some v \<Rightarrow> m = [] \<and> walk (JObj o2) (split_dot p) = v
       | None \<Rightarrow> length m = 1 \<and> walk (JObj o2) (split_dot p) = cur"
    using applyActions_one [OF p, of L o1 e1] cur by auto
  have one: "applyActions L (as @ [?a]) facts [] = (o2, e1 @ m)"
    by (simp only: applyActions_append before(1) prod.case o2)
  have "as @ ?a # bs = (as @ [?a]) @ bs" by simp
  then have out: "out = fst (applyActions L bs o2 (e1 @ m))"
    unfolding out_def by (simp only: applyActions_append [of L "as @ [?a]"] one prod.case)
  have "walk (JObj out) (split_dot p) = (case written L cur op of Some v \<Rightarrow> v | None \<Rightarrow> cur)"
    unfolding out applyActions_frame [OF apart] using w by (simp split: option.splits)
  moreover have "length m = (if written L cur op = None then 1 else 0)"
    using w by (simp split: option.splits)
  moreover have "applyActions L (as @ [\<lparr>ra_path = r, ra_op = op\<rparr>]) facts []
      = (o1, e1 @ [''Invalid action path: '' @ r])" if "\<not> isValidPath r"
    using that by (simp add: applyActions_append before(1))
  moreover have "fst (resolvePath out q (\<lambda>_. None)) = fst (resolvePath facts q (\<lambda>_. None))"
    if "isValidPath q" "\<forall>a\<in>set (as @ ?a # bs). diverges (split_dot q) (split_dot (ra_path a))"
    using applyActions_frame [OF that(2), of L facts "[]"] that(1) by (simp add: resolve_fresh out_def)
  ultimately show ?thesis using p(1) one by (simp add: resolve_fresh)
qed

theorem actions_write_and_frame_witness:
  "fst (resolvePath (fst (applyActions plain_lib [\<lparr>ra_path = ''cart.total'', ra_op = PercentOp (Fin (- 10))\<rparr>,
       \<lparr>ra_path = ''tags'', ra_op = AppendTagOp ''vip''\<rparr>] sample_facts [])) ''cart.total'' (\<lambda>_. None)) = Inr (JInt 225)
   \<and> fst (resolvePath (fst (applyActions plain_lib [\<lparr>ra_path = ''cart.total'', ra_op = PercentOp (Fin (- 10))\<rparr>,
       \<lparr>ra_path = ''tags'', ra_op = AppendTagOp ''vip''\<rparr>] sample_facts [])) ''user.blocked'' (\<lambda>_. None)) = Inr (JBool False)"
proof -
  let ?tag = "\<lparr>ra_path = ''tags'', ra_op = AppendTagOp ''vip''\<rparr>"
  have p: "isValidPath ''cart.total''" "finite_operand (PercentOp (Fin (- 10)))"
    "applyActions plain_lib [] sample_facts [] = (sample_facts, [])"
    "fst (resolvePath sample_facts ''cart.total'' (\<lambda>_. None)) = Inr (JInt 250)"
    "\<forall>a\<in>set [?tag]. diverges (split_dot ''cart.total'') (split_dot (ra_path a))" by code_simp+
  have q: "isValidPath ''user.blocked''
      \<and> (\<forall>a\<in>set ([] @ \<lparr>ra_path = ''cart.total'', ra_op = PercentOp (Fin (- 10))\<rparr> # [?tag]).
          diverges (split_dot ''user.blocked'') (split_dot (ra_path a)))"
    "fst (resolvePath sample_facts ''user.blocked'' (\<lambda>_. None)) = Inr (JBool False)"
    "written plain_lib (JInt 250) (PercentOp (Fin (- 10))) = Some (JInt 225)" by code_simp+
  note res = actions_write_and_frame [OF p, of "''user''" "''user.blocked''", unfolded append_Nil q(3) option.case]
  from res [THEN conjunct1] mp [OF res [THEN conjunct2, THEN conjunct2, THEN conjunct2] q(1) [unfolded append_Nil]]
  show ?thesis unfolding q(2) by (rule conjI)
qed

end
