(* ===== verification/Inventory.thy ===== *)
theory Inventory
  imports Json "HOL-Library.List_Lexorder" "HOL-Library.Char_ord"
begin

text \<open>
  The inventory module (modules/inventory): the tables of the warehouse side of database/schema.prisma,
  the repositories, and every operation of InventoryService that changes state, with the lock of
  shared/lock and the cache keys they invalidate.

  Quantities are the \<open>Int\<close> columns of the database: an update whose result does not fit 32 bits is an
  error of the database, and so is a row that a \<open>CHECK\<close> constraint or a partial unique index of
  database/sql refuses. The clock, the random ids, the answers of \<open>LockService.acquire\<close> and
  \<open>LockService.release\<close> are sequences in the world, read one at a time, and nothing is assumed of
  them. The order of \<open>findMany\<close> is the parameter \<open>ord\<close>. A transaction that throws restores the
  world it started in.
\<close>

section \<open>Tables\<close>

record warehouse_row =
  wh_id :: string
  wh_name :: string
  wh_code :: string
  wh_address :: "string option"
  wh_city :: "string option"
  wh_state :: "string option"
  wh_country :: "string option"
  wh_postal_code :: "string option"
  wh_manager :: "string option"
  wh_status :: string
  wh_deleted_at :: "int option"
  wh_created_by :: "string option"
  wh_updated_by :: "string option"

record zone_row =
  zn_id :: string
  zn_warehouse_id :: string
  zn_code :: string
  zn_name :: "string option"
  zn_deleted_at :: "int option"

record rack_row =
  rk_id :: string
  rk_zone_id :: string
  rk_code :: string
  rk_deleted_at :: "int option"

record bin_row =
  bn_id :: string
  bn_rack_id :: string
  bn_code :: string
  bn_barcode :: "string option"
  bn_deleted_at :: "int option"

record stock_row =
  iv_id :: string
  iv_warehouse_id :: string
  iv_bin_id :: string
  iv_variant_id :: string
  iv_available :: int
  iv_reserved :: int
  iv_damaged :: int
  iv_in_transit :: int
  iv_reorder_level :: int
  iv_last_stock_update :: "int option"
  iv_status :: string
  iv_deleted_at :: "int option"
  iv_created_by :: "string option"
  iv_updated_by :: "string option"

record reservation_row =
  rs_id :: string
  rs_warehouse_id :: string
  rs_variant_id :: string
  rs_quantity :: int
  rs_cart_id :: "string option"
  rs_order_id :: "string option"
  rs_session_key :: "string option"
  rs_expires_at :: date
  rs_status :: string
  rs_deleted_at :: "int option"
  rs_created_by :: "string option"
  rs_updated_by :: "string option"

record movement_row =
  mv_warehouse_id :: string
  mv_variant_id :: string
  mv_type :: string
  mv_quantity :: int
  mv_reference_type :: "string option"
  mv_reference_id :: "string option"
  mv_notes :: "string option"
  mv_created_by :: "string option"

record adjustment_row =
  aj_id :: string
  aj_warehouse_id :: string
  aj_variant_id :: string
  aj_quantity_delta :: int
  aj_reason :: string
  aj_notes :: "string option"
  aj_created_by :: "string option"

record alert_row =
  al_id :: string
  al_warehouse_id :: string
  al_variant_id :: string
  al_available :: int
  al_reorder_level :: int
  al_status :: string
  al_deleted_at :: "int option"

record receipt_row =
  gr_id :: string
  gr_number :: string
  gr_supplier_id :: string
  gr_warehouse_id :: string
  gr_purchase_order_id :: "string option"
  gr_notes :: "string option"
  gr_status :: string
  gr_deleted_at :: "int option"
  gr_created_by :: "string option"

record receipt_item_row =
  gi_receipt_id :: string
  gi_variant_id :: string
  gi_po_item_id :: "string option"
  gi_quantity :: int
  gi_unit_cost :: "rat option"
  gi_created_by :: "string option"

record transfer_row =
  tr_id :: string
  tr_number :: string
  tr_from :: string
  tr_to :: string
  tr_notes :: "string option"
  tr_status :: string
  tr_shipped_at :: int
  tr_received_at :: int
  tr_deleted_at :: "int option"
  tr_created_by :: "string option"

record transfer_item_row =
  ti_transfer_id :: string
  ti_variant_id :: string
  ti_quantity :: int
  ti_created_by :: "string option"

record po_item_row =
  pi_id :: string
  pi_po_id :: string
  pi_variant_id :: string
  pi_quantity_ordered :: int
  pi_quantity_received :: int
  pi_unit_cost :: rat
  pi_tax_percent :: rat
  pi_line_total :: rat

record po_row =
  po_id :: string
  po_number :: string
  po_supplier_id :: string
  po_warehouse_id :: string
  po_notes :: "string option"
  po_status :: string
  po_order_date :: int
  po_subtotal :: rat
  po_tax_total :: rat
  po_grand_total :: rat
  po_currency :: string
  po_deleted_at :: "int option"
  po_created_by :: "string option"

record serial_row =
  sn_id :: string
  sn_number :: string
  sn_warehouse_id :: "string option"
  sn_bin_id :: "string option"
  sn_variant_id :: string
  sn_po_item_id :: "string option"
  sn_status :: string
  sn_refurbishment :: "string option"
  sn_deleted_at :: "int option"
  sn_created_by :: "string option"

record cycle_row =
  cy_id :: string
  cy_warehouse_id :: string
  cy_job_number :: string
  cy_status :: string
  cy_created_by :: "string option"

datatype inv_event =
    InventoryReservedEvent string string string int
  | InventoryReleasedEvent string string string int
  | InventoryAdjustedEvent string string string int string
  | GoodsReceivedEvent string string string
  | TransferCompletedEvent string string string string
  | LowStockDetectedEvent string string string int int

text \<open>The tables, the ids of the tables of other modules, the cache, and the sequences it reads.\<close>

record inv_world =
  iw_warehouses :: "warehouse_row list"
  iw_zones :: "zone_row list"
  iw_racks :: "rack_row list"
  iw_bins :: "bin_row list"
  iw_rows :: "stock_row list"
  iw_reservations :: "reservation_row list"
  iw_movements :: "movement_row list"
  iw_adjustments :: "adjustment_row list"
  iw_alerts :: "alert_row list"
  iw_receipts :: "receipt_row list"
  iw_receipt_items :: "receipt_item_row list"
  iw_transfers :: "transfer_row list"
  iw_transfer_items :: "transfer_item_row list"
  iw_pos :: "po_row list"
  iw_po_items :: "po_item_row list"
  iw_serials :: "serial_row list"
  iw_cycles :: "cycle_row list"
  iw_variants :: "string list"
  iw_carts :: "string list"
  iw_orders :: "string list"
  iw_suppliers :: "string list"
  iw_users :: "string list"
  iw_cache :: "string \<rightharpoonup> json"
  iw_events :: "inv_event list"
  iw_log :: "string list"
  iw_clock :: "nat \<Rightarrow> int"
  iw_reads :: nat
  iw_uuid :: "nat \<Rightarrow> string"
  iw_uuids :: nat
  iw_grants :: "nat \<Rightarrow> string option"
  iw_grant_no :: nat
  iw_unlocks :: "nat \<Rightarrow> string + bool"
  iw_unlock_no :: nat

type_synonym 'a inv_act = "(inv_world, 'a) act"

definition inv_now :: "int inv_act" where
  "inv_now = (\<lambda>w. (Inr (iw_clock w (iw_reads w)), w\<lparr>iw_reads := Suc (iw_reads w)\<rparr>))"

definition inv_uuid :: "string inv_act" where
  "inv_uuid = (\<lambda>w. (Inr (iw_uuid w (iw_uuids w)), w\<lparr>iw_uuids := Suc (iw_uuids w)\<rparr>))"

definition inv_emit :: "inv_event \<Rightarrow> unit inv_act" where
  "inv_emit e = modifyA (\<lambda>w. w\<lparr>iw_events := iw_events w @ [e]\<rparr>)"

section \<open>Locks (shared/lock/lock.service.ts)\<close>

fun resourceKey :: "string list \<Rightarrow> string" where
  "resourceKey [] = []"
| "resourceKey [p] = p"
| "resourceKey (p # ps) = p @ '':'' @ resourceKey ps"

definition lock_acquire :: "string \<Rightarrow> string option inv_act" where
  "lock_acquire resource = (\<lambda>w. (Inr (iw_grants w (iw_grant_no w)), w\<lparr>iw_grant_no := Suc (iw_grant_no w)\<rparr>))"

text \<open>The Redis client rejects with an \<open>Error\<close>.\<close>

definition lock_release :: "string \<Rightarrow> string \<Rightarrow> bool inv_act" where
  "lock_release resource token = (\<lambda>w. (map_sum JsError id (iw_unlocks w (iw_unlock_no w)), w\<lparr>iw_unlock_no := Suc (iw_unlock_no w)\<rparr>))"

definition in_quotes :: "string \<Rightarrow> string" where
  "in_quotes x = [CHR 0x22] @ x @ [CHR 0x22]"

definition withLock :: "string \<Rightarrow> 'a inv_act \<Rightarrow> 'a inv_act" where
  "withLock resource fn = bindA (lock_acquire resource) (\<lambda>token.
     if \<not> truthy_str token then
       throwA (AppException ''LOCK_NOT_ACQUIRED'' (''Could not acquire lock for '' @ in_quotes resource) 409)
     else finallyA fn (bindA (lock_release resource (the token)) (\<lambda>released.
       if released then returnA ()
       else modifyA (\<lambda>w. w\<lparr>iw_log := iw_log w @ [''Lock for '' @ in_quotes resource @ '' was not released (expired or stolen)'']\<rparr>))))"

section \<open>The cache (services/inventory-cache.service.ts)\<close>

definition cache_del :: "string \<Rightarrow> unit inv_act" where
  "cache_del k = modifyA (\<lambda>w. w\<lparr>iw_cache := (iw_cache w)(k := None)\<rparr>)"

definition delByPrefix :: "string \<Rightarrow> unit inv_act" where
  "delByPrefix p = modifyA (\<lambda>w. w\<lparr>iw_cache := (\<lambda>k. if take (length p) k = p then None else iw_cache w k)\<rparr>)"

definition stock_key :: "string \<Rightarrow> string \<Rightarrow> string" where
  "stock_key warehouseId variantId = ''inventory:stock:'' @ warehouseId @ '':'' @ variantId"

definition availability_key :: "string \<Rightarrow> string" where
  "availability_key variantId = ''inventory:availability:'' @ variantId"

definition serial_key :: "string \<Rightarrow> string" where
  "serial_key serial = ''inventory:serial:'' @ serial"

definition getOrSet :: "string \<Rightarrow> json inv_act \<Rightarrow> json inv_act" where
  "getOrSet key factory = bindA (readA (\<lambda>w. iw_cache w key)) (\<lambda>hit. case hit of
     Some v \<Rightarrow> returnA v
   | None \<Rightarrow> bindA factory (\<lambda>v. bindA (modifyA (\<lambda>w. w\<lparr>iw_cache := (iw_cache w)(key \<mapsto> v)\<rparr>)) (\<lambda>_. returnA v)))"

definition invalidateStock :: "string \<Rightarrow> string \<Rightarrow> unit inv_act" where
  "invalidateStock warehouseId variantId =
     bindA (cache_del (stock_key warehouseId variantId)) (\<lambda>_. cache_del (availability_key variantId))"

definition invalidateWarehouses :: "unit inv_act" where
  "invalidateWarehouses = bindA (cache_del ''inventory:warehouses:list'') (\<lambda>_. delByPrefix ''inventory:warehouse:'')"

definition invalidateSerial :: "string \<Rightarrow> unit inv_act" where
  "invalidateSerial serial = cache_del (serial_key serial)"

section \<open>Rows (repositories)\<close>

definition app_error :: "string \<Rightarrow> string \<Rightarrow> nat \<Rightarrow> exn" where
  "app_error code message http = AppException code message http"

text \<open>The range of an \<open>Int\<close> column.\<close>

definition int4 :: "int \<Rightarrow> bool" where
  "int4 n \<longleftrightarrow> - 2147483648 \<le> n \<and> n \<le> 2147483647"

definition int4_check :: "int \<Rightarrow> unit inv_act" where
  "int4_check n = throwIf (\<not> int4 n) (prisma_error ''P2033'')"

text \<open>A \<open>CHECK\<close> constraint of a table (database/sql/007_inventory.sql).\<close>

definition db_check :: "bool \<Rightarrow> unit inv_act" where
  "db_check c = throwIf (\<not> c) (prisma_error ''23514'')"

text \<open>A partial unique index: no other row that is not deleted has the key.\<close>

definition unique_check :: "(inv_world \<Rightarrow> bool) \<Rightarrow> unit inv_act" where
  "unique_check taken = bindA (readA taken) (\<lambda>dup. throwIf dup (prisma_error ''P2002''))"

text \<open>A random id that the primary key of a table does not hold yet.\<close>

definition fresh_id :: "(inv_world \<Rightarrow> string list) \<Rightarrow> string inv_act" where
  "fresh_id ids = bindA inv_uuid (\<lambda>i. bindA (readA (\<lambda>w. i \<in> set (ids w))) (\<lambda>dup.
     bindA (throwIf dup (prisma_error ''P2002'')) (\<lambda>_. returnA i)))"

definition fk_check :: "(inv_world \<Rightarrow> bool) \<Rightarrow> unit inv_act" where
  "fk_check p = bindA (readA p) (\<lambda>found. throwIf (\<not> found) (prisma_error ''P2003''))"

text \<open>\<open>connect\<close>\<close>

definition connect_check :: "(inv_world \<Rightarrow> bool) \<Rightarrow> unit inv_act" where
  "connect_check p = bindA (readA p) (\<lambda>found. throwIf (\<not> found) (prisma_error ''P2025''))"

definition warehouse_ids :: "inv_world \<Rightarrow> string list" where
  "warehouse_ids w = map wh_id (iw_warehouses w)"

definition findById :: "string \<Rightarrow> inv_world \<Rightarrow> warehouse_row option" where
  "findById i w = find (\<lambda>x. wh_id x = i \<and> wh_deleted_at x = None) (iw_warehouses w)"

definition findByCode :: "string \<Rightarrow> inv_world \<Rightarrow> warehouse_row option" where
  "findByCode c w = find (\<lambda>x. wh_code x = c \<and> wh_deleted_at x = None) (iw_warehouses w)"

definition findBin :: "string \<Rightarrow> inv_world \<Rightarrow> bin_row option" where
  "findBin i w = find (\<lambda>b. bn_id b = i \<and> bn_deleted_at b = None) (iw_bins w)"

text \<open>\<open>bin.rack.zone.warehouse_id\<close>\<close>

definition bin_warehouse :: "inv_world \<Rightarrow> bin_row \<Rightarrow> string option" where
  "bin_warehouse w b = Option.bind (find (\<lambda>r. rk_id r = bn_rack_id b) (iw_racks w)) (\<lambda>r.
     map_option zn_warehouse_id (find (\<lambda>z. zn_id z = rk_zone_id r) (iw_zones w)))"

definition bin_in :: "string \<Rightarrow> string \<Rightarrow> inv_world \<Rightarrow> bool" where
  "bin_in binId warehouseId w = (case findBin binId w of None \<Rightarrow> False | Some b \<Rightarrow> bin_warehouse w b = Some warehouseId)"

definition live_row :: "string \<Rightarrow> string \<Rightarrow> stock_row \<Rightarrow> bool" where
  "live_row warehouseId variantId r \<longleftrightarrow> iv_warehouse_id r = warehouseId \<and> iv_variant_id r = variantId
     \<and> iv_deleted_at r = None \<and> iv_status r = ''active''"

definition findRows :: "(stock_row list \<Rightarrow> stock_row list) \<Rightarrow> string \<Rightarrow> string \<Rightarrow> inv_world \<Rightarrow> stock_row list" where
  "findRows ord warehouseId variantId w = ord (filter (live_row warehouseId variantId) (iw_rows w))"

definition findRow :: "string \<Rightarrow> string \<Rightarrow> inv_world \<Rightarrow> stock_row option" where
  "findRow binId variantId w = find (\<lambda>r. iv_bin_id r = binId \<and> iv_variant_id r = variantId \<and> iv_deleted_at r = None) (iw_rows w)"

definition stock_sum :: "(stock_row \<Rightarrow> int) \<Rightarrow> string \<Rightarrow> string \<Rightarrow> inv_world \<Rightarrow> int" where
  "stock_sum f warehouseId variantId w = sum_list (map f (filter (live_row warehouseId variantId) (iw_rows w)))"

text \<open>\<open>inventory.update({ where: { id } })\<close>\<close>

definition stock_update :: "string \<Rightarrow> (stock_row \<Rightarrow> stock_row) \<Rightarrow> stock_row inv_act" where
  "stock_update i f = bindA (readA (\<lambda>w. find (\<lambda>r. iv_id r = i) (iw_rows w))) (\<lambda>found.
     bindA (row_or_throw found) (\<lambda>r.
     bindA (int4_check (iv_available (f r))) (\<lambda>_.
     bindA (int4_check (iv_reserved (f r))) (\<lambda>_.
     bindA (db_check (0 \<le> iv_available (f r) \<and> 0 \<le> iv_reserved (f r))) (\<lambda>_.
     bindA (modifyA (\<lambda>w. w\<lparr>iw_rows := update_where (\<lambda>r. iv_id r = i) f (iw_rows w)\<rparr>)) (\<lambda>_.
     returnA (f r)))))))"

text \<open>\<open>inventory.create\<close>; the pair of bin and variant is unique among the rows that are not deleted.\<close>

definition stock_create :: "string \<Rightarrow> string \<Rightarrow> string \<Rightarrow> int \<Rightarrow> string option \<Rightarrow> stock_row inv_act" where
  "stock_create warehouseId binId variantId quantity actor =
     bindA inv_now (\<lambda>d.
     bindA (fresh_id (\<lambda>w. map iv_id (iw_rows w))) (\<lambda>i.
     bindA (fk_check (\<lambda>w. warehouseId \<in> set (warehouse_ids w) \<and> binId \<in> set (map bn_id (iw_bins w))
       \<and> variantId \<in> set (iw_variants w))) (\<lambda>_.
     bindA (unique_check (\<lambda>w. findRow binId variantId w \<noteq> None)) (\<lambda>_.
     bindA (int4_check quantity) (\<lambda>_.
     bindA (db_check (0 \<le> quantity)) (\<lambda>_.
     let row = \<lparr>iv_id = i, iv_warehouse_id = warehouseId, iv_bin_id = binId, iv_variant_id = variantId,
         iv_available = quantity, iv_reserved = 0, iv_damaged = 0, iv_in_transit = 0, iv_reorder_level = 0,
         iv_last_stock_update = Some d, iv_status = ''active'', iv_deleted_at = None, iv_created_by = actor,
         iv_updated_by = actor\<rparr> in
     bindA (modifyA (\<lambda>w. w\<lparr>iw_rows := iw_rows w @ [row]\<rparr>)) (\<lambda>_. returnA row)))))))"

definition createMovement :: "movement_row \<Rightarrow> unit inv_act" where
  "createMovement row =
     bindA (fk_check (\<lambda>w. mv_warehouse_id row \<in> set (warehouse_ids w) \<and> mv_variant_id row \<in> set (iw_variants w))) (\<lambda>_.
     bindA (int4_check (mv_quantity row)) (\<lambda>_.
     bindA (db_check (mv_quantity row \<noteq> 0)) (\<lambda>_.
     modifyA (\<lambda>w. w\<lparr>iw_movements := iw_movements w @ [row]\<rparr>))))"

definition findReservation :: "string \<Rightarrow> inv_world \<Rightarrow> reservation_row option" where
  "findReservation i w = find (\<lambda>r. rs_id r = i \<and> rs_deleted_at r = None) (iw_reservations w)"

text \<open>\<open>createReservation\<close>; the relations are connected, absent ones are not.\<close>

definition createReservation :: "(string \<Rightarrow> reservation_row) \<Rightarrow> reservation_row inv_act" where
  "createReservation mk =
     bindA (fresh_id (\<lambda>w. map rs_id (iw_reservations w))) (\<lambda>i.
     let row = mk i in
     bindA (connect_check (\<lambda>w. rs_warehouse_id row \<in> set (warehouse_ids w) \<and> rs_variant_id row \<in> set (iw_variants w)
       \<and> fk_ok (rs_cart_id row) (iw_carts w) \<and> fk_ok (rs_order_id row) (iw_orders w))) (\<lambda>_.
     bindA (int4_check (rs_quantity row)) (\<lambda>_.
     bindA (db_check (rs_quantity row > 0)) (\<lambda>_.
     bindA (modifyA (\<lambda>w. w\<lparr>iw_reservations := iw_reservations w @ [row]\<rparr>)) (\<lambda>_. returnA row)))))"

definition reservation_update :: "string \<Rightarrow> (reservation_row \<Rightarrow> reservation_row) \<Rightarrow> unit inv_act" where
  "reservation_update i f = bindA (readA (\<lambda>w. find (\<lambda>r. rs_id r = i) (iw_reservations w))) (\<lambda>found.
     bindA (row_or_throw found) (\<lambda>_.
     modifyA (\<lambda>w. w\<lparr>iw_reservations := update_where (\<lambda>r. rs_id r = i) f (iw_reservations w)\<rparr>)))"

definition ADJUSTMENT_REASONS :: "string list" where
  "ADJUSTMENT_REASONS = [''cycle_count'', ''damage'', ''theft'', ''write_off'', ''found'', ''correction'', ''other'']"

definition createAdjustment :: "string \<Rightarrow> string \<Rightarrow> int \<Rightarrow> string \<Rightarrow> string option \<Rightarrow> string option \<Rightarrow> adjustment_row inv_act" where
  "createAdjustment warehouseId variantId delta reason notes actor =
     bindA (throwIf (reason \<notin> set ADJUSTMENT_REASONS) (JsError ''Invalid value for argument reason'')) (\<lambda>_.
     bindA (fresh_id (\<lambda>w. map aj_id (iw_adjustments w))) (\<lambda>i.
     bindA (fk_check (\<lambda>w. warehouseId \<in> set (warehouse_ids w) \<and> variantId \<in> set (iw_variants w))) (\<lambda>_.
     bindA (int4_check delta) (\<lambda>_.
     bindA (db_check (delta \<noteq> 0)) (\<lambda>_.
     let row = \<lparr>aj_id = i, aj_warehouse_id = warehouseId, aj_variant_id = variantId, aj_quantity_delta = delta,
         aj_reason = reason, aj_notes = notes, aj_created_by = actor\<rparr> in
     bindA (modifyA (\<lambda>w. w\<lparr>iw_adjustments := iw_adjustments w @ [row]\<rparr>)) (\<lambda>_. returnA row))))))"

definition openLowStock :: "string \<Rightarrow> string \<Rightarrow> inv_world \<Rightarrow> alert_row option" where
  "openLowStock warehouseId variantId w = find (\<lambda>a. al_warehouse_id a = warehouseId \<and> al_variant_id a = variantId
     \<and> al_status a = ''open'' \<and> al_deleted_at a = None) (iw_alerts w)"

definition upsertLowStockAlert :: "string \<Rightarrow> string \<Rightarrow> int \<Rightarrow> int \<Rightarrow> alert_row inv_act" where
  "upsertLowStockAlert warehouseId variantId available reorder =
     bindA (fresh_id (\<lambda>w. map al_id (iw_alerts w))) (\<lambda>i.
     bindA (fk_check (\<lambda>w. warehouseId \<in> set (warehouse_ids w) \<and> variantId \<in> set (iw_variants w))) (\<lambda>_.
     bindA (int4_check available) (\<lambda>_.
     bindA (db_check (0 \<le> available \<and> 0 \<le> reorder)) (\<lambda>_.
     let row = \<lparr>al_id = i, al_warehouse_id = warehouseId, al_variant_id = variantId, al_available = available,
         al_reorder_level = reorder, al_status = ''open'', al_deleted_at = None\<rparr> in
     bindA (modifyA (\<lambda>w. w\<lparr>iw_alerts := iw_alerts w @ [row]\<rparr>)) (\<lambda>_. returnA row)))))"

section \<open>The service: reservations (services/inventory.service.ts)\<close>

definition requireWarehouse :: "string \<Rightarrow> warehouse_row inv_act" where
  "requireWarehouse i = bindA (readA (findById i)) (\<lambda>x. case x of
     None \<Rightarrow> throwA (app_error ''NOT_FOUND'' ''Warehouse not found'' 404) | Some r \<Rightarrow> returnA r)"

definition maybeLowStock :: "(stock_row list \<Rightarrow> stock_row list) \<Rightarrow> string \<Rightarrow> string \<Rightarrow> unit inv_act" where
  "maybeLowStock ord warehouseId variantId =
     bindA (readA (findRows ord warehouseId variantId)) (\<lambda>rows.
     let available = sum_list (map iv_available rows);
         reorder = fold max (map iv_reorder_level rows) 0 in
     if reorder \<le> 0 \<or> available > reorder then returnA ()
     else bindA (readA (openLowStock warehouseId variantId)) (\<lambda>existing.
       if existing \<noteq> None then returnA ()
       else bindA (upsertLowStockAlert warehouseId variantId available reorder) (\<lambda>alert.
         inv_emit (LowStockDetectedEvent (al_id alert) warehouseId variantId available reorder))))"

record reserve_dto =
  rd_warehouseId :: string
  rd_variantId :: string
  rd_quantity :: int
  rd_cartId :: "string option"
  rd_orderId :: "string option"
  rd_sessionKey :: "string option"
  rd_ttlMinutes :: "int option"

definition show_int :: "int \<Rightarrow> string" where
  "show_int n = (if n < 0 then ''-'' @ show_nat (nat (- n)) else show_nat (nat n))"

text \<open>The loop of the transaction: from each row what it has, until nothing remains.\<close>

fun reserve_rows :: "stock_row list \<Rightarrow> int \<Rightarrow> string option \<Rightarrow> unit inv_act" where
  "reserve_rows [] remaining actor = returnA ()"
| "reserve_rows (row # rows) remaining actor =
     (if remaining \<le> 0 then returnA ()
      else let n = min (iv_available row) remaining in
      if n \<le> 0 then reserve_rows rows remaining actor
      else bindA inv_now (\<lambda>d.
        bindA (stock_update (iv_id row) (\<lambda>r. r\<lparr>iv_available := iv_available r - n, iv_reserved := iv_reserved r + n,
          iv_last_stock_update := Some d, iv_updated_by := upd_by actor (iv_updated_by r)\<rparr>)) (\<lambda>_.
        reserve_rows rows (remaining - n) actor)))"

fun release_rows :: "stock_row list \<Rightarrow> int \<Rightarrow> string option \<Rightarrow> unit inv_act" where
  "release_rows [] remaining actor = returnA ()"
| "release_rows (row # rows) remaining actor =
     (if remaining \<le> 0 then returnA ()
      else let n = min (iv_reserved row) remaining in
      if n \<le> 0 then release_rows rows remaining actor
      else bindA inv_now (\<lambda>d.
        bindA (stock_update (iv_id row) (\<lambda>r. r\<lparr>iv_reserved := iv_reserved r - n, iv_available := iv_available r + n,
          iv_last_stock_update := Some d, iv_updated_by := upd_by actor (iv_updated_by r)\<rparr>)) (\<lambda>_.
        release_rows rows (remaining - n) actor)))"

definition DEFAULT_RESERVATION_TTL_MINUTES :: int where
  "DEFAULT_RESERVATION_TTL_MINUTES = 30"

text \<open>A relation that is connected only when its id is truthy.\<close>

definition truthy_id :: "string option \<Rightarrow> string option" where
  "truthy_id x = (if truthy_str x then x else None)"

definition movement :: "string \<Rightarrow> string \<Rightarrow> string \<Rightarrow> int \<Rightarrow> string \<Rightarrow> string \<Rightarrow> string option \<Rightarrow> string option \<Rightarrow> movement_row" where
  "movement warehouseId variantId kind quantity refType refId notes actor =
     \<lparr>mv_warehouse_id = warehouseId, mv_variant_id = variantId, mv_type = kind, mv_quantity = quantity,
      mv_reference_type = Some refType, mv_reference_id = Some refId, mv_notes = notes, mv_created_by = actor\<rparr>"

text \<open>\<open>reserve\<close>: the body, and the lock around it.\<close>

definition reserve_body :: "(stock_row list \<Rightarrow> stock_row list) \<Rightarrow> reserve_dto \<Rightarrow> string option \<Rightarrow> reservation_row inv_act" where
  "reserve_body ord dto actor =
      bindA (requireWarehouse (rd_warehouseId dto)) (\<lambda>_.
      bindA (readA (findRows ord (rd_warehouseId dto) (rd_variantId dto))) (\<lambda>rows.
      let available = sum_list (map iv_available rows) in
      bindA (throwIf (available < rd_quantity dto) (app_error ''CONFLICT''
        (''Insufficient stock: available '' @ show_int available @ '', requested '' @ show_int (rd_quantity dto)) 409)) (\<lambda>_.
      bindA (transactionA (reserve_rows rows (rd_quantity dto) actor)) (\<lambda>_.
      bindA inv_now (\<lambda>now.
      bindA (createReservation (\<lambda>i. \<lparr>rs_id = i, rs_warehouse_id = rd_warehouseId dto, rs_variant_id = rd_variantId dto,
        rs_quantity = rd_quantity dto, rs_cart_id = truthy_id (rd_cartId dto), rs_order_id = truthy_id (rd_orderId dto),
        rs_session_key = rd_sessionKey dto,
        rs_expires_at = js_date (now + nullish (rd_ttlMinutes dto) DEFAULT_RESERVATION_TTL_MINUTES * 60000),
        rs_status = ''active'', rs_deleted_at = None, rs_created_by = actor, rs_updated_by = actor\<rparr>)) (\<lambda>reservation.
      bindA (createMovement (movement (rd_warehouseId dto) (rd_variantId dto) ''reservation'' (rd_quantity dto)
        ''stock_reservation'' (rs_id reservation) None actor)) (\<lambda>_.
      bindA (invalidateStock (rd_warehouseId dto) (rd_variantId dto)) (\<lambda>_.
      bindA (maybeLowStock ord (rd_warehouseId dto) (rd_variantId dto)) (\<lambda>_.
      bindA (inv_emit (InventoryReservedEvent (rs_id reservation) (rd_warehouseId dto) (rd_variantId dto) (rd_quantity dto))) (\<lambda>_.
      returnA reservation))))))))))"

definition reserve :: "(stock_row list \<Rightarrow> stock_row list) \<Rightarrow> reserve_dto \<Rightarrow> string option \<Rightarrow> reservation_row inv_act" where
  "reserve ord dto actor =
     withLock (resourceKey [''inventory'', rd_warehouseId dto, rd_variantId dto]) (reserve_body ord dto actor)"

text \<open>\<open>releaseReservation\<close>: the checks before the lock, and the body under it.\<close>

definition release_check :: "string \<Rightarrow> reservation_row inv_act" where
  "release_check reservationId = bindA (readA (findReservation reservationId)) (\<lambda>x. case x of
     None \<Rightarrow> throwA (app_error ''NOT_FOUND'' ''Reservation not found'' 404)
   | Some reservation \<Rightarrow>
       if rs_status reservation \<noteq> ''active'' then
         throwA (app_error ''CONFLICT'' (''Reservation is '' @ rs_status reservation @ '', cannot release'') 409)
       else returnA reservation)"

definition release_body ::
  "(stock_row list \<Rightarrow> stock_row list) \<Rightarrow> string \<Rightarrow> reservation_row \<Rightarrow> string option \<Rightarrow> (string \<times> string) inv_act" where
  "release_body ord reservationId reservation actor =
      bindA (readA (findRows ord (rs_warehouse_id reservation) (rs_variant_id reservation))) (\<lambda>rows.
      bindA (transactionA (bindA (release_rows rows (rs_quantity reservation) actor) (\<lambda>_.
        reservation_update reservationId (\<lambda>r. r\<lparr>rs_status := ''released'', rs_updated_by := upd_by actor (rs_updated_by r)\<rparr>)))) (\<lambda>_.
      bindA (createMovement (movement (rs_warehouse_id reservation) (rs_variant_id reservation) ''reservation_release''
        (rs_quantity reservation) ''stock_reservation'' reservationId None actor)) (\<lambda>_.
      bindA (invalidateStock (rs_warehouse_id reservation) (rs_variant_id reservation)) (\<lambda>_.
      bindA (inv_emit (InventoryReleasedEvent reservationId (rs_warehouse_id reservation) (rs_variant_id reservation)
        (rs_quantity reservation))) (\<lambda>_.
      returnA (reservationId, ''released''))))))"

definition release_locked ::
  "(stock_row list \<Rightarrow> stock_row list) \<Rightarrow> string \<Rightarrow> reservation_row \<Rightarrow> string option \<Rightarrow> (string \<times> string) inv_act" where
  "release_locked ord reservationId reservation actor =
     withLock (resourceKey [''inventory'', rs_warehouse_id reservation, rs_variant_id reservation])
       (release_body ord reservationId reservation actor)"

definition releaseReservation ::
  "(stock_row list \<Rightarrow> stock_row list) \<Rightarrow> string \<Rightarrow> string option \<Rightarrow> (string \<times> string) inv_act" where
  "releaseReservation ord reservationId actor =
     bindA (release_check reservationId) (\<lambda>reservation. release_locked ord reservationId reservation actor)"

section \<open>The service: adjustments, receipts and transfers\<close>

record adjust_dto =
  ad_warehouseId :: string
  ad_binId :: string
  ad_variantId :: string
  ad_quantityDelta :: int
  ad_reason :: "string option"
  ad_notes :: "string option"

record adjust_result =
  ar_id :: string
  ar_available :: int
  ar_quantityDelta :: int

text \<open>The increment of the \<open>available\<close> column that adjustments, receipts and transfers share.\<close>

definition add_available :: "int \<Rightarrow> int \<Rightarrow> string option \<Rightarrow> stock_row \<Rightarrow> stock_row" where
  "add_available n d actor r = r\<lparr>iv_available := iv_available r + n, iv_last_stock_update := Some d,
     iv_updated_by := upd_by actor (iv_updated_by r)\<rparr>"

definition stock_add :: "string \<Rightarrow> int \<Rightarrow> string option \<Rightarrow> stock_row inv_act" where
  "stock_add i n actor = bindA inv_now (\<lambda>d. stock_update i (add_available n d actor))"

definition adjust :: "(stock_row list \<Rightarrow> stock_row list) \<Rightarrow> adjust_dto \<Rightarrow> string option \<Rightarrow> adjust_result inv_act" where
  "adjust ord dto actor =
     withLock (resourceKey [''inventory'', ad_warehouseId dto, ad_variantId dto])
     (bindA (requireWarehouse (ad_warehouseId dto)) (\<lambda>_.
      bindA (readA (bin_in (ad_binId dto) (ad_warehouseId dto))) (\<lambda>found.
      bindA (throwIf (\<not> found) (app_error ''BAD_REQUEST'' ''Bin does not belong to warehouse'' 400)) (\<lambda>_.
      bindA (readA (findRow (ad_binId dto) (ad_variantId dto))) (\<lambda>row.
      let nextAvailable = (case row of None \<Rightarrow> 0 | Some r \<Rightarrow> iv_available r) + ad_quantityDelta dto in
      bindA (throwIf (nextAvailable < 0) (app_error ''CONFLICT'' ''Adjustment would make available quantity negative'' 409)) (\<lambda>_.
      bindA (case row of
          None \<Rightarrow> bindA (throwIf (ad_quantityDelta dto < 0) (app_error ''CONFLICT'' ''No inventory row to decrement'' 409)) (\<lambda>_.
            stock_create (ad_warehouseId dto) (ad_binId dto) (ad_variantId dto) (ad_quantityDelta dto) actor)
        | Some r \<Rightarrow> stock_add (iv_id r) (ad_quantityDelta dto) actor) (\<lambda>row1.
      let reason = nullish (ad_reason dto) ''correction'' in
      bindA (createAdjustment (ad_warehouseId dto) (ad_variantId dto) (ad_quantityDelta dto) reason (ad_notes dto) actor) (\<lambda>adjustment.
      bindA (createMovement (movement (ad_warehouseId dto) (ad_variantId dto) ''adjustment'' (ad_quantityDelta dto)
        ''inventory_adjustment'' (aj_id adjustment) (ad_notes dto) actor)) (\<lambda>_.
      bindA (invalidateStock (ad_warehouseId dto) (ad_variantId dto)) (\<lambda>_.
      bindA (maybeLowStock ord (ad_warehouseId dto) (ad_variantId dto)) (\<lambda>_.
      bindA (inv_emit (InventoryAdjustedEvent (aj_id adjustment) (ad_warehouseId dto) (ad_variantId dto) (ad_quantityDelta dto) reason)) (\<lambda>_.
      returnA \<lparr>ar_id = aj_id adjustment, ar_available = iv_available row1, ar_quantityDelta = ad_quantityDelta dto\<rparr>))))))))))))"

text \<open>A \<open>Decimal(14, 2)\<close> or \<open>Decimal(12, 2)\<close> column rounds to cents, halves away from zero.\<close>

definition dec2 :: "rat \<Rightarrow> rat" where
  "dec2 x = (if x \<ge> 0 then of_int \<lfloor>x * 100 + 1 / 2\<rfloor> / 100 else - (of_int \<lfloor>- x * 100 + 1 / 2\<rfloor> / 100))"

record receipt_item_dto =
  rid_variantId :: string
  rid_quantityReceived :: int
  rid_binId :: string
  rid_purchaseOrderItemId :: "string option"
  rid_unitCost :: "rat option"
  rid_serialNumbers :: "string list option"

record receipt_dto =
  grd_grnNumber :: string
  grd_supplierId :: string
  grd_warehouseId :: string
  grd_purchaseOrderId :: "string option"
  grd_notes :: "string option"
  grd_items :: "receipt_item_dto list"

text \<open>The row of a bin and variant takes the quantity, or is created with it.\<close>

definition stock_put :: "string \<Rightarrow> string \<Rightarrow> string \<Rightarrow> int \<Rightarrow> string option \<Rightarrow> unit inv_act" where
  "stock_put warehouseId binId variantId quantity actor =
     bindA (readA (findRow binId variantId)) (\<lambda>existing.
     bindA (case existing of
         Some r \<Rightarrow> stock_add (iv_id r) quantity actor
       | None \<Rightarrow> stock_create warehouseId binId variantId quantity actor) (\<lambda>_. returnA ()))"

definition receive_serial :: "receipt_dto \<Rightarrow> receipt_item_dto \<Rightarrow> string option \<Rightarrow> string \<Rightarrow> unit inv_act" where
  "receive_serial dto item actor serial =
     bindA (readA (\<lambda>w. find (\<lambda>s. sn_number s = serial \<and> sn_deleted_at s = None) (iw_serials w))) (\<lambda>dup.
     bindA (throwIf (dup \<noteq> None) (app_error ''CONFLICT'' (''Serial already exists: '' @ serial) 409)) (\<lambda>_.
     bindA (fresh_id (\<lambda>w. map sn_id (iw_serials w))) (\<lambda>i.
     bindA (fk_check (\<lambda>w. fk_ok (rid_purchaseOrderItemId item) (map pi_id (iw_po_items w)))) (\<lambda>_.
     modifyA (\<lambda>w. w\<lparr>iw_serials := iw_serials w @ [\<lparr>sn_id = i, sn_number = serial,
       sn_warehouse_id = Some (grd_warehouseId dto), sn_bin_id = Some (rid_binId item), sn_variant_id = rid_variantId item,
       sn_po_item_id = rid_purchaseOrderItemId item, sn_status = ''in_stock'', sn_refurbishment = None,
       sn_deleted_at = None, sn_created_by = actor\<rparr>]\<rparr>)))))"

definition po_item_received :: "string \<Rightarrow> int \<Rightarrow> unit inv_act" where
  "po_item_received i n = bindA (readA (\<lambda>w. find (\<lambda>p. pi_id p = i) (iw_po_items w))) (\<lambda>found.
     bindA (row_or_throw found) (\<lambda>p.
     bindA (int4_check (pi_quantity_received p + n)) (\<lambda>_.
     bindA (db_check (0 \<le> pi_quantity_received p + n \<and> pi_quantity_received p + n \<le> pi_quantity_ordered p)) (\<lambda>_.
     modifyA (\<lambda>w. w\<lparr>iw_po_items := update_where (\<lambda>p. pi_id p = i)
       (\<lambda>p. p\<lparr>pi_quantity_received := pi_quantity_received p + n\<rparr>) (iw_po_items w)\<rparr>)))))"

definition receive_item :: "receipt_dto \<Rightarrow> string \<Rightarrow> string option \<Rightarrow> receipt_item_dto \<Rightarrow> unit inv_act" where
  "receive_item dto receiptId actor item =
     bindA (readA (bin_in (rid_binId item) (grd_warehouseId dto))) (\<lambda>found.
     bindA (throwIf (\<not> found) (app_error ''BAD_REQUEST'' (''Bin '' @ rid_binId item @ '' not in warehouse'') 400)) (\<lambda>_.
     bindA (fk_check (\<lambda>w. rid_variantId item \<in> set (iw_variants w)
       \<and> fk_ok (rid_purchaseOrderItemId item) (map pi_id (iw_po_items w)))) (\<lambda>_.
     bindA (int4_check (rid_quantityReceived item)) (\<lambda>_.
     bindA (db_check (rid_quantityReceived item > 0 \<and> 0 \<le> nullish (rid_unitCost item) 0)) (\<lambda>_.
     bindA (modifyA (\<lambda>w. w\<lparr>iw_receipt_items := iw_receipt_items w @ [\<lparr>gi_receipt_id = receiptId,
       gi_variant_id = rid_variantId item, gi_po_item_id = rid_purchaseOrderItemId item,
       gi_quantity = rid_quantityReceived item, gi_unit_cost = map_option dec2 (rid_unitCost item), gi_created_by = actor\<rparr>]\<rparr>)) (\<lambda>_.
     bindA (stock_put (grd_warehouseId dto) (rid_binId item) (rid_variantId item) (rid_quantityReceived item) actor) (\<lambda>_.
     bindA (createMovement (movement (grd_warehouseId dto) (rid_variantId item) ''purchase'' (rid_quantityReceived item)
       ''goods_receipt'' receiptId None actor)) (\<lambda>_.
     bindA (if truthy_str (rid_purchaseOrderItemId item)
         then po_item_received (the (rid_purchaseOrderItemId item)) (rid_quantityReceived item) else returnA ()) (\<lambda>_.
     forA (nullish (rid_serialNumbers item) []) (receive_serial dto item actor))))))))))"

definition create_receipt :: "receipt_dto \<Rightarrow> string option \<Rightarrow> receipt_row inv_act" where
  "create_receipt dto actor =
     bindA (fresh_id (\<lambda>w. map gr_id (iw_receipts w))) (\<lambda>i.
     bindA (fk_check (\<lambda>w. grd_supplierId dto \<in> set (iw_suppliers w) \<and> grd_warehouseId dto \<in> set (warehouse_ids w)
       \<and> fk_ok (grd_purchaseOrderId dto) (map po_id (iw_pos w)))) (\<lambda>_.
     let row = \<lparr>gr_id = i, gr_number = grd_grnNumber dto, gr_supplier_id = grd_supplierId dto,
         gr_warehouse_id = grd_warehouseId dto, gr_purchase_order_id = grd_purchaseOrderId dto, gr_notes = grd_notes dto,
         gr_status = ''posted'', gr_deleted_at = None, gr_created_by = actor\<rparr> in
     bindA (modifyA (\<lambda>w. w\<lparr>iw_receipts := iw_receipts w @ [row]\<rparr>)) (\<lambda>_. returnA row)))"

definition createGoodsReceipt :: "receipt_dto \<Rightarrow> string option \<Rightarrow> receipt_row inv_act" where
  "createGoodsReceipt dto actor =
     bindA (readA (\<lambda>w. find (\<lambda>g. gr_number g = grd_grnNumber dto \<and> gr_deleted_at g = None) (iw_receipts w))) (\<lambda>dup.
     bindA (throwIf (dup \<noteq> None) (app_error ''CONFLICT'' ''GRN number already exists'' 409)) (\<lambda>_.
     bindA (throwIf (grd_items dto = []) (app_error ''BAD_REQUEST'' ''GRN requires items'' 400)) (\<lambda>_.
     withLock (resourceKey [''inventory'', ''grn'', grd_warehouseId dto])
     (bindA (requireWarehouse (grd_warehouseId dto)) (\<lambda>_.
      bindA (transactionA (bindA (create_receipt dto actor) (\<lambda>receipt.
        bindA (forA (grd_items dto) (receive_item dto (gr_id receipt) actor)) (\<lambda>_. returnA receipt)))) (\<lambda>grn.
      bindA (forA (grd_items dto) (\<lambda>item. invalidateStock (grd_warehouseId dto) (rid_variantId item))) (\<lambda>_.
      bindA (inv_emit (GoodsReceivedEvent (gr_id grn) (gr_number grn) (grd_warehouseId dto))) (\<lambda>_.
      returnA grn))))))))"

record transfer_item_dto =
  tid_variantId :: string
  tid_quantity :: int
  tid_fromBinId :: string
  tid_toBinId :: string

record transfer_dto =
  td_transferNumber :: string
  td_fromWarehouseId :: string
  td_toWarehouseId :: string
  td_notes :: "string option"
  td_items :: "transfer_item_dto list"

definition transfer_item :: "transfer_dto \<Rightarrow> string \<Rightarrow> string option \<Rightarrow> transfer_item_dto \<Rightarrow> unit inv_act" where
  "transfer_item dto transferId actor item =
     bindA (readA (findRow (tid_fromBinId item) (tid_variantId item))) (\<lambda>source.
     bindA (throwIf (case source of None \<Rightarrow> True | Some r \<Rightarrow> iv_available r < tid_quantity item)
       (app_error ''CONFLICT'' (''Insufficient stock in source bin for variant '' @ tid_variantId item) 409)) (\<lambda>_.
     bindA (throwIf (iv_warehouse_id (the source) \<noteq> td_fromWarehouseId dto)
       (app_error ''BAD_REQUEST'' ''fromBin not in from warehouse'' 400)) (\<lambda>_.
     bindA (readA (bin_in (tid_toBinId item) (td_toWarehouseId dto))) (\<lambda>found.
     bindA (throwIf (\<not> found) (app_error ''BAD_REQUEST'' ''toBin not in to warehouse'' 400)) (\<lambda>_.
     bindA (stock_add (iv_id (the source)) (- tid_quantity item) actor) (\<lambda>_.
     bindA (stock_put (td_toWarehouseId dto) (tid_toBinId item) (tid_variantId item) (tid_quantity item) actor) (\<lambda>_.
     bindA (fk_check (\<lambda>w. tid_variantId item \<in> set (iw_variants w))) (\<lambda>_.
     bindA (db_check (tid_quantity item > 0)) (\<lambda>_.
     bindA (modifyA (\<lambda>w. w\<lparr>iw_transfer_items := iw_transfer_items w @ [\<lparr>ti_transfer_id = transferId,
       ti_variant_id = tid_variantId item, ti_quantity = tid_quantity item, ti_created_by = actor\<rparr>]\<rparr>)) (\<lambda>_.
     bindA (createMovement (movement (td_fromWarehouseId dto) (tid_variantId item) ''transfer_out'' (tid_quantity item)
       ''stock_transfer'' transferId None actor)) (\<lambda>_.
     createMovement (movement (td_toWarehouseId dto) (tid_variantId item) ''transfer_in'' (tid_quantity item)
       ''stock_transfer'' transferId None actor))))))))))))"

definition create_transfer_row :: "transfer_dto \<Rightarrow> string option \<Rightarrow> transfer_row inv_act" where
  "create_transfer_row dto actor =
     bindA inv_now (\<lambda>shipped.
     bindA inv_now (\<lambda>received.
     bindA (fresh_id (\<lambda>w. map tr_id (iw_transfers w))) (\<lambda>i.
     bindA (fk_check (\<lambda>w. td_fromWarehouseId dto \<in> set (warehouse_ids w) \<and> td_toWarehouseId dto \<in> set (warehouse_ids w))) (\<lambda>_.
     let row = \<lparr>tr_id = i, tr_number = td_transferNumber dto, tr_from = td_fromWarehouseId dto, tr_to = td_toWarehouseId dto,
         tr_notes = td_notes dto, tr_status = ''received'', tr_shipped_at = shipped, tr_received_at = received,
         tr_deleted_at = None, tr_created_by = actor\<rparr> in
     bindA (modifyA (\<lambda>w. w\<lparr>iw_transfers := iw_transfers w @ [row]\<rparr>)) (\<lambda>_. returnA row)))))"

text \<open>\<open>[from, to].sort().join(':')\<close>\<close>

definition transfer_lock :: "transfer_dto \<Rightarrow> string" where
  "transfer_lock dto = (let a = td_fromWarehouseId dto; b = td_toWarehouseId dto in
     if b < a then b @ '':'' @ a else a @ '':'' @ b)"

definition createTransfer :: "transfer_dto \<Rightarrow> string option \<Rightarrow> transfer_row inv_act" where
  "createTransfer dto actor =
     bindA (throwIf (td_fromWarehouseId dto = td_toWarehouseId dto) (app_error ''BAD_REQUEST'' ''Warehouses must differ'' 400)) (\<lambda>_.
     bindA (readA (\<lambda>w. find (\<lambda>t. tr_number t = td_transferNumber dto \<and> tr_deleted_at t = None) (iw_transfers w))) (\<lambda>dup.
     bindA (throwIf (dup \<noteq> None) (app_error ''CONFLICT'' ''Transfer number already exists'' 409)) (\<lambda>_.
     withLock (resourceKey [''inventory'', ''transfer'', transfer_lock dto])
     (bindA (requireWarehouse (td_fromWarehouseId dto)) (\<lambda>_.
      bindA (requireWarehouse (td_toWarehouseId dto)) (\<lambda>_.
      bindA (transactionA (bindA (create_transfer_row dto actor) (\<lambda>t.
        bindA (forA (td_items dto) (transfer_item dto (tr_id t) actor)) (\<lambda>_. returnA t)))) (\<lambda>transfer.
      bindA (forA (td_items dto) (\<lambda>item. bindA (invalidateStock (td_fromWarehouseId dto) (tid_variantId item)) (\<lambda>_.
        invalidateStock (td_toWarehouseId dto) (tid_variantId item)))) (\<lambda>_.
      bindA (inv_emit (TransferCompletedEvent (tr_id transfer) (tr_number transfer) (td_fromWarehouseId dto) (td_toWarehouseId dto))) (\<lambda>_.
      returnA transfer)))))))))"

section \<open>The service: warehouses, purchase orders, serial numbers\<close>

record warehouse_dto =
  wd_name1 :: "string option"
  wd_code :: "string option"
  wd_address :: "string option"
  wd_city :: "string option"
  wd_state :: "string option"
  wd_country :: "string option"
  wd_postalCode :: "string option"
  wd_managerUserId :: "string option"

text \<open>A new warehouse; the name and the code of the creation dto are mandatory.\<close>

definition createWarehouse :: "string \<Rightarrow> string \<Rightarrow> warehouse_dto \<Rightarrow> string option \<Rightarrow> warehouse_row inv_act" where
  "createWarehouse name code dto actor =
     bindA (readA (findByCode code)) (\<lambda>dup.
     bindA (throwIf (dup \<noteq> None) (app_error ''CONFLICT'' ''Warehouse code already exists'' 409)) (\<lambda>_.
     bindA (fresh_id warehouse_ids) (\<lambda>i.
     bindA (connect_check (\<lambda>w. fk_ok (truthy_id (wd_managerUserId dto)) (iw_users w))) (\<lambda>_.
     let row = \<lparr>wh_id = i, wh_name = name, wh_code = code, wh_address = wd_address dto, wh_city = wd_city dto,
         wh_state = wd_state dto, wh_country = wd_country dto, wh_postal_code = wd_postalCode dto,
         wh_manager = truthy_id (wd_managerUserId dto), wh_status = ''active'', wh_deleted_at = None,
         wh_created_by = actor, wh_updated_by = actor\<rparr> in
     bindA (modifyA (\<lambda>w. w\<lparr>iw_warehouses := iw_warehouses w @ [row]\<rparr>)) (\<lambda>_.
     bindA invalidateWarehouses (\<lambda>_. returnA row))))))"

definition warehouse_update :: "string \<Rightarrow> (warehouse_row \<Rightarrow> warehouse_row) \<Rightarrow> warehouse_row inv_act" where
  "warehouse_update i f = bindA (readA (\<lambda>w. find (\<lambda>x. wh_id x = i) (iw_warehouses w))) (\<lambda>found.
     bindA (row_or_throw found) (\<lambda>x.
     bindA (unique_check (\<lambda>w. wh_deleted_at (f x) = None
       \<and> list_ex (\<lambda>y. wh_id y \<noteq> i \<and> wh_code y = wh_code (f x) \<and> wh_deleted_at y = None) (iw_warehouses w))) (\<lambda>_.
     bindA (modifyA (\<lambda>w. w\<lparr>iw_warehouses := update_where (\<lambda>x. wh_id x = i) f (iw_warehouses w)\<rparr>)) (\<lambda>_. returnA (f x)))))"

definition updateWarehouse :: "string \<Rightarrow> warehouse_dto \<Rightarrow> string option \<Rightarrow> warehouse_row inv_act" where
  "updateWarehouse i dto actor =
     bindA (requireWarehouse i) (\<lambda>_.
     bindA (if truthy_str (wd_code dto) then bindA (readA (findByCode (the (wd_code dto)))) (\<lambda>existing.
         throwIf (case existing of None \<Rightarrow> False | Some e \<Rightarrow> wh_id e \<noteq> i) (app_error ''CONFLICT'' ''Warehouse code already exists'' 409))
       else returnA ()) (\<lambda>_.
     bindA (warehouse_update i (\<lambda>x. x\<lparr>wh_name := nullish (wd_name1 dto) (wh_name x), wh_code := nullish (wd_code dto) (wh_code x),
       wh_address := upd_by (wd_address dto) (wh_address x), wh_city := upd_by (wd_city dto) (wh_city x),
       wh_state := upd_by (wd_state dto) (wh_state x), wh_country := upd_by (wd_country dto) (wh_country x),
       wh_postal_code := upd_by (wd_postalCode dto) (wh_postal_code x), wh_updated_by := upd_by actor (wh_updated_by x)\<rparr>)) (\<lambda>wh.
     bindA invalidateWarehouses (\<lambda>_. returnA wh))))"

definition deleteWarehouse :: "string \<Rightarrow> string inv_act" where
  "deleteWarehouse i =
     bindA (requireWarehouse i) (\<lambda>_.
     bindA inv_now (\<lambda>d.
     bindA (warehouse_update i (\<lambda>x. x\<lparr>wh_deleted_at := Some d, wh_status := ''archived''\<rparr>)) (\<lambda>_.
     bindA invalidateWarehouses (\<lambda>_. returnA i))))"

record location_dto =
  ld_warehouseId :: string
  ld_zoneCode :: string
  ld_zoneName :: "string option"
  ld_rackCode :: string
  ld_binCode :: string
  ld_binBarcode :: "string option"

text \<open>\<open>WarehouseRepository.createLocation\<close>: the zone and the rack are reused when they exist.\<close>

definition zone_for :: "location_dto \<Rightarrow> zone_row inv_act" where
  "zone_for dto = bindA (readA (\<lambda>w. find (\<lambda>z. zn_warehouse_id z = ld_warehouseId dto \<and> zn_code z = ld_zoneCode dto
       \<and> zn_deleted_at z = None) (iw_zones w))) (\<lambda>found. case found of Some z \<Rightarrow> returnA z
     | None \<Rightarrow> bindA (fresh_id (\<lambda>w. map zn_id (iw_zones w))) (\<lambda>i.
         bindA (fk_check (\<lambda>w. ld_warehouseId dto \<in> set (warehouse_ids w))) (\<lambda>_.
         let z = \<lparr>zn_id = i, zn_warehouse_id = ld_warehouseId dto, zn_code = ld_zoneCode dto, zn_name = ld_zoneName dto,
             zn_deleted_at = None\<rparr> in
         bindA (modifyA (\<lambda>w. w\<lparr>iw_zones := iw_zones w @ [z]\<rparr>)) (\<lambda>_. returnA z))))"

definition rack_for :: "location_dto \<Rightarrow> zone_row \<Rightarrow> rack_row inv_act" where
  "rack_for dto zone = bindA (readA (\<lambda>w. find (\<lambda>r. rk_zone_id r = zn_id zone \<and> rk_code r = ld_rackCode dto
       \<and> rk_deleted_at r = None) (iw_racks w))) (\<lambda>found. case found of Some r \<Rightarrow> returnA r
     | None \<Rightarrow> bindA (fresh_id (\<lambda>w. map rk_id (iw_racks w))) (\<lambda>i.
         let r = \<lparr>rk_id = i, rk_zone_id = zn_id zone, rk_code = ld_rackCode dto, rk_deleted_at = None\<rparr> in
         bindA (modifyA (\<lambda>w. w\<lparr>iw_racks := iw_racks w @ [r]\<rparr>)) (\<lambda>_. returnA r)))"

definition createLocation :: "location_dto \<Rightarrow> (zone_row \<times> rack_row \<times> bin_row) inv_act" where
  "createLocation dto =
     bindA (requireWarehouse (ld_warehouseId dto)) (\<lambda>_.
     bindA (transactionA (bindA (zone_for dto) (\<lambda>zone.
       bindA (rack_for dto zone) (\<lambda>rack.
       bindA (fresh_id (\<lambda>w. map bn_id (iw_bins w))) (\<lambda>i.
       bindA (unique_check (\<lambda>w. list_ex (\<lambda>b. bn_deleted_at b = None \<and> (bn_rack_id b = rk_id rack \<and> bn_code b = ld_binCode dto
         \<or> ld_binBarcode dto \<noteq> None \<and> bn_barcode b = ld_binBarcode dto)) (iw_bins w))) (\<lambda>_.
       let b = \<lparr>bn_id = i, bn_rack_id = rk_id rack, bn_code = ld_binCode dto, bn_barcode = ld_binBarcode dto, bn_deleted_at = None\<rparr> in
       bindA (modifyA (\<lambda>w. w\<lparr>iw_bins := iw_bins w @ [b]\<rparr>)) (\<lambda>_. returnA (zone, rack, b)))))))) (\<lambda>loc.
     bindA invalidateWarehouses (\<lambda>_. returnA loc)))"

record po_item_dto =
  pid_variantId :: string
  pid_quantityOrdered :: int
  pid_unitCost :: rat
  pid_taxPercent :: "rat option"

record po_dto =
  pd_poNumber :: string
  pd_supplierId :: string
  pd_warehouseId :: string
  pd_notes :: "string option"
  pd_items :: "po_item_dto list"

definition line_total :: "po_item_dto \<Rightarrow> rat" where
  "line_total item = (let line = of_int (pid_quantityOrdered item) * pid_unitCost item;
     tax = line * (nullish (pid_taxPercent item) 0 / 100) in line + tax)"

definition create_po_item :: "string \<Rightarrow> po_item_dto \<Rightarrow> unit inv_act" where
  "create_po_item poId item =
     bindA (fresh_id (\<lambda>w. map pi_id (iw_po_items w))) (\<lambda>i.
     bindA (connect_check (\<lambda>w. pid_variantId item \<in> set (iw_variants w))) (\<lambda>_.
     bindA (int4_check (pid_quantityOrdered item)) (\<lambda>_.
     bindA (db_check (pid_quantityOrdered item > 0 \<and> 0 \<le> dec2 (pid_unitCost item)
       \<and> 0 \<le> dec2 (nullish (pid_taxPercent item) 0) \<and> 0 \<le> dec2 (line_total item))) (\<lambda>_.
     modifyA (\<lambda>w. w\<lparr>iw_po_items := iw_po_items w @ [\<lparr>pi_id = i, pi_po_id = poId, pi_variant_id = pid_variantId item,
       pi_quantity_ordered = pid_quantityOrdered item, pi_quantity_received = 0, pi_unit_cost = dec2 (pid_unitCost item),
       pi_tax_percent = dec2 (nullish (pid_taxPercent item) 0), pi_line_total = dec2 (line_total item)\<rparr>]\<rparr>)))))"

text \<open>The nested create of an order and its items is one transaction.\<close>

definition createPurchaseOrder :: "po_dto \<Rightarrow> string option \<Rightarrow> po_row inv_act" where
  "createPurchaseOrder dto actor =
     bindA (readA (\<lambda>w. find (\<lambda>p. po_number p = pd_poNumber dto \<and> po_deleted_at p = None) (iw_pos w))) (\<lambda>dup.
     bindA (throwIf (dup \<noteq> None) (app_error ''CONFLICT'' ''PO number already exists'' 409)) (\<lambda>_.
     bindA (requireWarehouse (pd_warehouseId dto)) (\<lambda>_.
     let subtotal = sum_list (map line_total (pd_items dto)) in
     bindA inv_now (\<lambda>d.
     transactionA (
       bindA (fresh_id (\<lambda>w. map po_id (iw_pos w))) (\<lambda>i.
       bindA (connect_check (\<lambda>w. pd_supplierId dto \<in> set (iw_suppliers w) \<and> pd_warehouseId dto \<in> set (warehouse_ids w))) (\<lambda>_.
       bindA (db_check (0 \<le> dec2 subtotal)) (\<lambda>_.
       let row = \<lparr>po_id = i, po_number = pd_poNumber dto, po_supplier_id = pd_supplierId dto, po_warehouse_id = pd_warehouseId dto,
           po_notes = pd_notes dto, po_status = ''approved'', po_order_date = d, po_subtotal = dec2 subtotal, po_tax_total = 0,
           po_grand_total = dec2 subtotal, po_currency = ''INR'', po_deleted_at = None, po_created_by = actor\<rparr> in
       bindA (modifyA (\<lambda>w. w\<lparr>iw_pos := iw_pos w @ [row]\<rparr>)) (\<lambda>_.
       bindA (forA (pd_items dto) (create_po_item i)) (\<lambda>_. returnA row))))))))))"

definition REFURBISHMENT_STATUSES :: "string list" where
  "REFURBISHMENT_STATUSES = [''received'', ''inspection'', ''repair'', ''testing'', ''ready_for_sale'', ''rejected'']"

definition updateSerialRefurb :: "string \<Rightarrow> string \<Rightarrow> serial_row inv_act" where
  "updateSerialRefurb i status =
     bindA (throwIf (status \<notin> set REFURBISHMENT_STATUSES) (JsError ''Invalid value for argument refurbishment_status'')) (\<lambda>_.
     let f = (\<lambda>s. s\<lparr>sn_refurbishment := Some status,
           sn_status := (if status = ''ready_for_sale'' then ''refurbished_ready'' else sn_status s)\<rparr>) in
     bindA (readA (\<lambda>w. find (\<lambda>s. sn_id s = i) (iw_serials w))) (\<lambda>found.
     bindA (row_or_throw found) (\<lambda>s.
     bindA (modifyA (\<lambda>w. w\<lparr>iw_serials := update_where (\<lambda>s. sn_id s = i) f (iw_serials w)\<rparr>)) (\<lambda>_. returnA (f s)))))"

definition updateRefurbishment :: "string \<Rightarrow> string \<Rightarrow> serial_row inv_act" where
  "updateRefurbishment serialId status =
     bindA (readA (\<lambda>w. find (\<lambda>s. sn_id s = serialId \<and> sn_deleted_at s = None) (iw_serials w))) (\<lambda>found. case found of
       None \<Rightarrow> throwA (app_error ''NOT_FOUND'' ''Serial not found'' 404)
     | Some serial \<Rightarrow> bindA (updateSerialRefurb serialId status) (\<lambda>updated.
         bindA (invalidateSerial (sn_number serial)) (\<lambda>_. returnA updated)))"

definition createCycleCount :: "string \<Rightarrow> string \<Rightarrow> string option \<Rightarrow> cycle_row inv_act" where
  "createCycleCount warehouseId jobNumber actor =
     bindA (requireWarehouse warehouseId) (\<lambda>_.
     bindA (fresh_id (\<lambda>w. map cy_id (iw_cycles w))) (\<lambda>i.
     bindA (connect_check (\<lambda>w. warehouseId \<in> set (warehouse_ids w))) (\<lambda>_.
     bindA (unique_check (\<lambda>w. list_ex (\<lambda>c. cy_job_number c = jobNumber) (iw_cycles w))) (\<lambda>_.
     let row = \<lparr>cy_id = i, cy_warehouse_id = warehouseId, cy_job_number = jobNumber, cy_status = ''planned'', cy_created_by = actor\<rparr> in
     bindA (modifyA (\<lambda>w. w\<lparr>iw_cycles := iw_cycles w @ [row]\<rparr>)) (\<lambda>_. returnA row)))))"

section \<open>The service: stock reads\<close>

definition stockSummary :: "string \<Rightarrow> string \<Rightarrow> inv_world \<Rightarrow> jsobj" where
  "stockSummary warehouseId variantId w =
     [(''available'', JInt (stock_sum iv_available warehouseId variantId w)),
      (''reserved'', JInt (stock_sum iv_reserved warehouseId variantId w)),
      (''damaged'', JInt (stock_sum iv_damaged warehouseId variantId w)),
      (''inTransit'', JInt (stock_sum iv_in_transit warehouseId variantId w))]"

definition stock_view :: "string \<Rightarrow> string \<Rightarrow> inv_world \<Rightarrow> json" where
  "stock_view warehouseId variantId w =
     JObj ([(''warehouseId'', JStr warehouseId), (''variantId'', JStr variantId)] @ stockSummary warehouseId variantId w)"

definition getStock :: "string \<Rightarrow> string \<Rightarrow> json inv_act" where
  "getStock warehouseId variantId =
     bindA (requireWarehouse warehouseId) (\<lambda>_.
     getOrSet (stock_key warehouseId variantId) (readA (stock_view warehouseId variantId)))"

text \<open>\<open>groupBy\<close> gives the warehouses in an order of the database's choice: the parameter \<open>gord\<close>.\<close>

definition availability_view :: "(string list \<Rightarrow> string list) \<Rightarrow> string \<Rightarrow> inv_world \<Rightarrow> json" where
  "availability_view gord variantId w =
     JArr (map (\<lambda>wh.
       let found = findById wh w in
       JObj ([(''warehouseId'', JStr wh),
         (''warehouseCode'', JStr (case found of None \<Rightarrow> [] | Some x \<Rightarrow> wh_code x)),
         (''warehouseName'', JStr (case found of None \<Rightarrow> [] | Some x \<Rightarrow> wh_name x)),
         (''variantId'', JStr variantId)] @ stockSummary wh variantId w))
       (gord (remdups (map iv_warehouse_id (filter (\<lambda>r. iv_variant_id r = variantId \<and> iv_deleted_at r = None
          \<and> iv_status r = ''active'') (iw_rows w))))))"

definition warehouseAvailability :: "(string list \<Rightarrow> string list) \<Rightarrow> string \<Rightarrow> json inv_act" where
  "warehouseAvailability gord variantId =
     getOrSet (availability_key variantId) (readA (availability_view gord variantId))"

end
