(* ===== verification/Inventory_Safety.thy ===== *)
theory Inventory_Safety
  imports Inventory "HOL-Library.Multiset"
begin

text \<open>
  What keeps the stock right: quantities never become negative and the reserved stock of a warehouse
  and variant always covers its active reservations, whatever operations run and however they end;
  reservations and releases move exactly their quantity; transfers conserve the stock of a variant;
  the movements written by an operation that returns account for the change of the available stock.
\<close>

section \<open>Evaluation of the sequences\<close>

lemma wp_inv_now [simp]: "wp inv_now w Q E = Q (iw_clock w (iw_reads w)) (w\<lparr>iw_reads := Suc (iw_reads w)\<rparr>)"
  by (simp add: wp_def inv_now_def)

lemma wp_inv_uuid [simp]: "wp inv_uuid w Q E = Q (iw_uuid w (iw_uuids w)) (w\<lparr>iw_uuids := Suc (iw_uuids w)\<rparr>)"
  by (simp add: wp_def inv_uuid_def)

lemma wp_inv_emit [simp]: "wp (inv_emit e) w Q E = Q () (w\<lparr>iw_events := iw_events w @ [e]\<rparr>)"
  by (simp add: inv_emit_def)

lemma wp_lock_acquire [simp]:
  "wp (lock_acquire k) w Q E = Q (iw_grants w (iw_grant_no w)) (w\<lparr>iw_grant_no := Suc (iw_grant_no w)\<rparr>)"
  by (simp add: wp_def lock_acquire_def)

lemma wp_lock_release [simp]:
  "wp (lock_release k t) w Q E = (let w' = w\<lparr>iw_unlock_no := Suc (iw_unlock_no w)\<rparr> in
     case iw_unlocks w (iw_unlock_no w) of Inl e \<Rightarrow> E (JsError e) w' | Inr b \<Rightarrow> Q b w')"
  by (simp add: wp_def lock_release_def Let_def split: sum.split)

lemma wp_fresh_id [simp]:
  "wp (fresh_id ids) w Q E = (let i = iw_uuid w (iw_uuids w); w' = w\<lparr>iw_uuids := Suc (iw_uuids w)\<rparr> in
     if i \<in> set (ids w') then E (prisma_error ''P2002'') w' else Q i w')"
  by (simp add: fresh_id_def Let_def)

lemma wp_fk_check [simp]: "wp (fk_check p) w Q E = (if p w then Q () w else E (prisma_error ''P2003'') w)"
  by (simp add: fk_check_def)

lemma wp_connect_check [simp]: "wp (connect_check p) w Q E = (if p w then Q () w else E (prisma_error ''P2025'') w)"
  by (simp add: connect_check_def)

lemma wp_int4_check [simp]: "wp (int4_check n) w Q E = (if int4 n then Q () w else E (prisma_error ''P2033'') w)"
  by (simp add: int4_check_def)

lemma wp_db_check [simp]: "wp (db_check c) w Q E = (if c then Q () w else E (prisma_error ''23514'') w)"
  by (simp add: db_check_def)

lemma wp_unique_check [simp]: "wp (unique_check p) w Q E = (if p w then E (prisma_error ''P2002'') w else Q () w)"
  by (simp add: unique_check_def)

lemma wp_stock_update [simp]:
  "wp (stock_update i f) w Q E = (case find (\<lambda>r. iv_id r = i) (iw_rows w) of
     None \<Rightarrow> E (prisma_error ''P2025'') w
   | Some r \<Rightarrow> if int4 (iv_available (f r)) \<and> int4 (iv_reserved (f r))
       then (if 0 \<le> iv_available (f r) \<and> 0 \<le> iv_reserved (f r)
         then Q (f r) (w\<lparr>iw_rows := update_where (\<lambda>r. iv_id r = i) f (iw_rows w)\<rparr>)
         else E (prisma_error ''23514'') w)
       else E (prisma_error ''P2033'') w)"
  by (auto simp: stock_update_def split: option.split)

text \<open>
  Under a lock an action behaves as without it, up to the sequences of the lock and the log, as long
  as the lock is granted and released.
\<close>

lemma wp_withLock:
  assumes "wp fn (w\<lparr>iw_grant_no := Suc (iw_grant_no w)\<rparr>) (\<lambda>x t. \<forall>n l. Q x (t\<lparr>iw_unlock_no := n, iw_log := l\<rparr>) \<and> (\<forall>e. E e (t\<lparr>iw_unlock_no := n, iw_log := l\<rparr>)))
      (\<lambda>e t. \<forall>e n l. E e (t\<lparr>iw_unlock_no := n, iw_log := l\<rparr>))"
    and "\<not> truthy_str (iw_grants w (iw_grant_no w)) \<Longrightarrow> \<forall>e n. E e (w\<lparr>iw_grant_no := n\<rparr>)"
  shows "wp (withLock k fn) w Q E"
proof -
  have same: "t\<lparr>iw_unlock_no := n\<rparr> = t\<lparr>iw_unlock_no := n, iw_log := iw_log t\<rparr>" for t :: inv_world and n by simp
  show ?thesis using assms(2)
    by (auto simp: withLock_def Let_def intro!: wp_mono [OF assms(1)] split: sum.splits)
      (metis same)+
qed

section \<open>Moving stock between columns\<close>

text \<open>What the operations never change of a row.\<close>

definition row_key :: "stock_row \<Rightarrow> string \<times> string \<times> string \<times> string \<times> string \<times> int option" where
  "row_key r = (iv_id r, iv_warehouse_id r, iv_bin_id r, iv_variant_id r, iv_status r, iv_deleted_at r)"

lemma row_key_simps [simp]:
  "row_key (r\<lparr>iv_available := a\<rparr>) = row_key r" "row_key (r\<lparr>iv_reserved := b\<rparr>) = row_key r"
  "row_key (r\<lparr>iv_last_stock_update := c\<rparr>) = row_key r" "row_key (r\<lparr>iv_updated_by := d\<rparr>) = row_key r"
  by (simp_all add: row_key_def)

lemma live_row_key: "row_key r = row_key r' \<Longrightarrow> live_row a b r = live_row a b r'"
  by (simp add: row_key_def live_row_def)

definition nonneg_rows :: "stock_row list \<Rightarrow> bool" where
  "nonneg_rows rows \<longleftrightarrow> distinct (map iv_id rows) \<and> (\<forall>r\<in>set rows. 0 \<le> iv_available r \<and> 0 \<le> iv_reserved r)"

text \<open>The sum of a column over the rows with a property, before and after an update of one row.\<close>

lemma update_where_other: "i \<notin> k ` set rows \<Longrightarrow> update_where (\<lambda>r. k r = i) f rows = rows"
  by (induction rows) (auto simp: update_where_def)

lemma sum_update_key:
  fixes g :: "'r \<Rightarrow> int"
  assumes "distinct (map k rows)" "find (\<lambda>r. k r = i) rows = Some r"
  shows "sum_list (map g (filter P (update_where (\<lambda>r. k r = i) f rows)))
    = sum_list (map g (filter P rows)) - (if P r then g r else 0) + (if P (f r) then g (f r) else 0)"
  using assms
proof (induction rows)
  case (Cons x rows)
  show ?case
  proof (cases "k x = i")
    case True
    with Cons.prems have "x = r" "update_where (\<lambda>r. k r = i) f rows = rows"
      by (auto intro!: update_where_other)
    then show ?thesis using True by (simp add: update_where_def)
  next
    case False
    then show ?thesis using Cons by (simp add: update_where_def)
  qed
qed simp

lemma sum_update:
  fixes g :: "stock_row \<Rightarrow> int"
  assumes "distinct (map iv_id rows)" "find (\<lambda>r. iv_id r = i) rows = Some r" "P (f r) = P r"
  shows "sum_list (map g (filter P (update_where (\<lambda>r. iv_id r = i) f rows)))
    = sum_list (map g (filter P rows)) + (if P r then g (f r) - g r else 0)"
  using sum_update_key [OF assms(1,2)] assms(3) by simp

lemma map_update_where: "(\<And>r. k (f r) = k r) \<Longrightarrow> map k (update_where p f rows) = map k rows"
  by (simp add: update_where_def)

lemma nonneg_update:
  assumes "nonneg_rows rows" "find (\<lambda>r. iv_id r = i) rows = Some r" "\<And>x. iv_id (f x) = iv_id x"
    and "0 \<le> iv_available (f r)" "0 \<le> iv_reserved (f r)"
  shows "nonneg_rows (update_where (\<lambda>r. iv_id r = i) f rows)"
proof -
  have "x = r" if "x \<in> set rows" "iv_id x = i" for x
    using that assms(1,2) by (auto simp: nonneg_rows_def find_Some_iff distinct_conv_nth in_set_conv_nth)
  moreover have "map iv_id (update_where (\<lambda>r. iv_id r = i) f rows) = map iv_id rows"
    by (rule map_update_where) (rule assms(3))
  moreover have "0 \<le> iv_available x \<and> 0 \<le> iv_reserved x" if "x \<in> set rows" for x
    using that assms(1) by (simp add: nonneg_rows_def)
  ultimately show ?thesis using assms(1,4,5)
    by (auto simp: nonneg_rows_def update_where_def simp del: map_map)
qed

text \<open>
  \<open>moved a b t w w'\<close>: \<open>t\<close> pieces of the variant \<open>b\<close> of the warehouse \<open>a\<close> went from available to
  reserved (back, for a negative \<open>t\<close>), and the sums of all other stock are as they were.
\<close>

definition variant_total :: "string \<Rightarrow> inv_world \<Rightarrow> int" where
  "variant_total v w = sum_list (map iv_available (filter (\<lambda>r. iv_variant_id r = v) (iw_rows w)))"

definition moved :: "string \<Rightarrow> string \<Rightarrow> int \<Rightarrow> inv_world \<Rightarrow> inv_world \<Rightarrow> bool" where
  "moved a b t w w' \<longleftrightarrow> nonneg_rows (iw_rows w') \<and> map row_key (iw_rows w') = map row_key (iw_rows w)
     \<and> (\<forall>x y. stock_sum iv_available x y w' = stock_sum iv_available x y w - (if (x, y) = (a, b) then t else 0)
          \<and> stock_sum iv_reserved x y w' = stock_sum iv_reserved x y w + (if (x, y) = (a, b) then t else 0))
     \<and> (\<forall>v. variant_total v w' = variant_total v w - (if v = b then t else 0))"

text \<open>Nothing but rows and clock changed.\<close>

definition only_rows :: "inv_world \<Rightarrow> inv_world \<Rightarrow> bool" where
  "only_rows w w' \<longleftrightarrow> w'\<lparr>iw_rows := [], iw_reads := 0\<rparr> = w\<lparr>iw_rows := [], iw_reads := 0\<rparr>"

lemma only_rows_refl: "only_rows w w"
  by (simp add: only_rows_def)

lemma only_rows_trans: "only_rows w w1 \<Longrightarrow> only_rows w1 w2 \<Longrightarrow> only_rows w w2"
  by (simp add: only_rows_def)

lemma only_rowsD:
  assumes "only_rows w w'"
  shows "iw_reservations w' = iw_reservations w" "iw_movements w' = iw_movements w"
  using arg_cong [OF assms [unfolded only_rows_def], of iw_reservations]
    arg_cong [OF assms [unfolded only_rows_def], of iw_movements] by simp_all

lemma moved_refl: "nonneg_rows (iw_rows w) \<Longrightarrow> moved a b 0 w w"
  by (simp add: moved_def)

lemma moved_trans: "moved a b t w w1 \<Longrightarrow> moved a b u w1 w2 \<Longrightarrow> moved a b (t + u) w w2"
  by (simp add: moved_def)

text \<open>One row gives up to what it has, and the other rows are found as before.\<close>

lemma moved_step:
  assumes "nonneg_rows (iw_rows w)" "find (\<lambda>r. iv_id r = i) (iw_rows w) = Some r" "live_row a b r"
    and "- iv_reserved r \<le> t" "t \<le> iv_available r"
    and f: "\<And>x. row_key (f x) = row_key x" "\<And>x. iv_available (f x) = iv_available x - t" "\<And>x. iv_reserved (f x) = iv_reserved x + t"
  shows "moved a b t w (w\<lparr>iw_reads := n, iw_rows := update_where (\<lambda>r. iv_id r = i) f (iw_rows w)\<rparr>)"
proof -
  have ids: "iv_id (f x) = iv_id x" for x using f(1) [of x] by (simp add: row_key_def)
  have live: "live_row x y (f r) = live_row x y r" for x y by (rule live_row_key [OF f(1)])
  have only: "live_row x y r \<longleftrightarrow> (x, y) = (a, b)" for x y using assms(3) by (auto simp: live_row_def)
  have "stock_sum g x y (w\<lparr>iw_reads := n, iw_rows := update_where (\<lambda>r. iv_id r = i) f (iw_rows w)\<rparr>)
      = stock_sum g x y w + (if (x, y) = (a, b) then g (f r) - g r else 0)" for g x y
    using sum_update [of "iw_rows w" i r "live_row x y" f g] assms(1,2) live only
    by (simp add: stock_sum_def nonneg_rows_def)
  moreover have "variant_total v (w\<lparr>iw_reads := n, iw_rows := update_where (\<lambda>r. iv_id r = i) f (iw_rows w)\<rparr>)
      = variant_total v w - (if v = b then t else 0)" for v
    using sum_update [of "iw_rows w" i r "\<lambda>r. iv_variant_id r = v" f iv_available] assms(1-3) f(1) [of r] f(2)
    by (auto simp: variant_total_def nonneg_rows_def row_key_def live_row_def)
  moreover have "nonneg_rows (update_where (\<lambda>r. iv_id r = i) f (iw_rows w))"
    using assms(4,5) f(2,3) by (intro nonneg_update [OF assms(1,2) ids]) auto
  ultimately show ?thesis
    using f by (simp add: moved_def map_update_where)
qed

lemma find_by_id:
  "distinct (map k rows) \<Longrightarrow> r \<in> set rows \<Longrightarrow> find (\<lambda>x. k x = k r) rows = Some r"
  by (induction rows) (auto simp: rev_image_eqI)

text \<open>The two loops of the service, on rows that the table still holds.\<close>

definition holds_rows :: "string \<Rightarrow> string \<Rightarrow> stock_row list \<Rightarrow> inv_world \<Rightarrow> bool" where
  "holds_rows a b rows w \<longleftrightarrow> nonneg_rows (iw_rows w) \<and> distinct (map iv_id rows)
     \<and> (\<forall>r\<in>set rows. live_row a b r \<and> find (\<lambda>x. iv_id x = iv_id r) (iw_rows w) = Some r)"

lemma holds_rowsD:
  assumes "holds_rows a b rows w"
  shows "nonneg_rows (iw_rows w)" "distinct (map iv_id rows)"
    "r \<in> set rows \<Longrightarrow> live_row a b r" "r \<in> set rows \<Longrightarrow> find (\<lambda>x. iv_id x = iv_id r) (iw_rows w) = Some r"
  using assms unfolding holds_rows_def by blast+

lemma find_other_row:
  assumes "\<And>x. row_key (f x) = row_key x" "find (\<lambda>x. iv_id x = j) rows = Some r" "j \<noteq> i"
  shows "find (\<lambda>x. iv_id x = j) (update_where (\<lambda>r. iv_id r = i) f rows) = Some r"
proof -
  have "iv_id (f x) = iv_id x" for x using assms(1) [of x] by (simp add: row_key_def)
  then have "find (\<lambda>x. iv_id x = j) (update_where (\<lambda>r. iv_id r = i) f rows)
      = map_option (\<lambda>x. if iv_id x = i then f x else x) (find (\<lambda>x. iv_id x = j) rows)"
    by (intro find_update_where) simp
  moreover have "iv_id r = j" using find_filter_some [OF assms(2)] by simp
  ultimately show ?thesis using assms(2,3) by simp
qed

lemma holds_rows_step:
  assumes "holds_rows a b (row # rows) w" "- iv_reserved row \<le> t" "t \<le> iv_available row"
    and f: "\<And>x. row_key (f x) = row_key x" "\<And>x. iv_available (f x) = iv_available x - t" "\<And>x. iv_reserved (f x) = iv_reserved x + t"
  shows "moved a b t w (w\<lparr>iw_reads := n, iw_rows := update_where (\<lambda>r. iv_id r = iv_id row) f (iw_rows w)\<rparr>)
    \<and> holds_rows a b rows (w\<lparr>iw_reads := n, iw_rows := update_where (\<lambda>r. iv_id r = iv_id row) f (iw_rows w)\<rparr>)"
    (is "moved a b t w ?w \<and> _")
proof -
  note D = holds_rowsD [OF assms(1)]
  have m: "moved a b t w ?w"
    by (rule moved_step [OF D(1) D(4) D(3) assms(2,3)]) (simp_all add: f)
  have "find (\<lambda>x. iv_id x = iv_id r) (iw_rows ?w) = Some r" if "r \<in> set rows" for r
  proof -
    have "iv_id r \<noteq> iv_id row" using that D(2) by (auto simp: rev_image_eqI)
    then show ?thesis using find_other_row [OF f(1) D(4)] that by simp
  qed
  moreover have "nonneg_rows (iw_rows ?w)" using m unfolding moved_def by blast
  ultimately show ?thesis using m D(2,3) unfolding holds_rows_def by simp
qed

lemma holds_rows_tail: "holds_rows a b (row # rows) w \<Longrightarrow> holds_rows a b rows w"
  by (simp add: holds_rows_def)

lemma holds_rows_head: "holds_rows a b (row # rows) w \<Longrightarrow> find (\<lambda>x. iv_id x = iv_id row) (iw_rows w) = Some row
    \<and> 0 \<le> iv_available row \<and> 0 \<le> iv_reserved row"
  by (auto simp: holds_rows_def nonneg_rows_def dest: find_filter_some)

lemma holds_rows_nonneg:
  assumes "holds_rows a b rows w"
  shows "0 \<le> sum_list (map iv_available rows)" "0 \<le> sum_list (map iv_reserved rows)"
proof -
  have "0 \<le> iv_available r \<and> 0 \<le> iv_reserved r" if "r \<in> set rows" for r
    using holds_rowsD(1) [OF assms] find_filter_some [OF holds_rowsD(4) [OF assms that]] by (simp add: nonneg_rows_def)
  then show "0 \<le> sum_list (map iv_available rows)" "0 \<le> sum_list (map iv_reserved rows)"
    by (auto intro!: sum_list_nonneg)
qed

lemma wp_reserve_rows:
  "holds_rows a b rows w \<Longrightarrow> 0 \<le> q \<Longrightarrow> q \<le> sum_list (map iv_available rows) \<Longrightarrow>
     wp (reserve_rows rows q actor) w (\<lambda>_ w'. moved a b q w w' \<and> only_rows w w') (\<lambda>_ _. True)"
proof (induction rows q actor arbitrary: w rule: reserve_rows.induct)
  case (1 q actor)
  then show ?case using moved_refl [of w a b] only_rows_refl [of w] by (simp add: holds_rows_def)
next
  case (2 row rows q actor)
  let ?n = "min (iv_available row) q"
  note head = holds_rows_head [OF 2(3)] and rest = holds_rows_nonneg(1) [OF holds_rows_tail [OF 2(3)]]
  consider "q \<le> 0" | "\<not> q \<le> 0" "?n \<le> 0" | "\<not> q \<le> 0" "\<not> ?n \<le> 0" by blast
  then show ?case
  proof cases
    case 1
    with 2(3,4) show ?thesis using moved_refl [of w a b] only_rows_refl [of w] by (simp add: holds_rows_def)
  next
    case none: 2
    then have "iv_available row = 0" using head by linarith
    with 2(1) [OF none(1) refl none(2) holds_rows_tail [OF 2(3)]] 2(4,5) none show ?thesis by simp
  next
    case some: 3
    let ?f = "\<lambda>d r. r\<lparr>iv_available := iv_available r - ?n, iv_reserved := iv_reserved r + ?n,
        iv_last_stock_update := Some d, iv_updated_by := upd_by actor (iv_updated_by r)\<rparr>"
    let ?w = "\<lambda>d. w\<lparr>iw_reads := Suc (iw_reads w), iw_rows := update_where (\<lambda>r. iv_id r = iv_id row) (?f d) (iw_rows w)\<rparr>"
    have bounds: "- iv_reserved row \<le> ?n" "0 \<le> q - ?n" "q - ?n \<le> sum_list (map iv_available rows)"
      using head rest 2(5) some by (auto simp: min_def)
    have own: "only_rows w (?w d)" for d by (simp add: only_rows_def)
    have step: "moved a b ?n w (?w d) \<and> holds_rows a b rows (?w d)" for d
      by (rule holds_rows_step [OF 2(3) bounds(1)]) simp_all
    have "wp (reserve_rows rows (q - ?n) actor) (?w d) (\<lambda>_ w'. moved a b (q - ?n) (?w d) w' \<and> only_rows (?w d) w') (\<lambda>_ _. True)" for d
      using 2(2) [OF some(1) refl some(2) conjunct2 [OF step] bounds(2,3)] .
    then have "wp (reserve_rows rows (q - ?n) actor) (?w d) (\<lambda>_ w'. moved a b q w w' \<and> only_rows w w') (\<lambda>_ _. True)" for d
      by (rule wp_mono) (use moved_trans [OF conjunct1 [OF step]] only_rows_trans [OF own] in force)+
    then show ?thesis using some head by (simp add: Let_def)
  qed
qed

lemma wp_release_rows:
  "holds_rows a b rows w \<Longrightarrow> 0 \<le> q \<Longrightarrow> q \<le> sum_list (map iv_reserved rows) \<Longrightarrow>
     wp (release_rows rows q actor) w (\<lambda>_ w'. moved a b (- q) w w' \<and> only_rows w w') (\<lambda>_ _. True)"
proof (induction rows q actor arbitrary: w rule: release_rows.induct)
  case (1 q actor)
  then show ?case using moved_refl [of w a b] only_rows_refl [of w] by (simp add: holds_rows_def)
next
  case (2 row rows q actor)
  let ?n = "min (iv_reserved row) q"
  note head = holds_rows_head [OF 2(3)] and rest = holds_rows_nonneg(2) [OF holds_rows_tail [OF 2(3)]]
  consider "q \<le> 0" | "\<not> q \<le> 0" "?n \<le> 0" | "\<not> q \<le> 0" "\<not> ?n \<le> 0" by blast
  then show ?case
  proof cases
    case 1
    with 2(3,4) show ?thesis using moved_refl [of w a b] only_rows_refl [of w] by (simp add: holds_rows_def)
  next
    case none: 2
    then have "iv_reserved row = 0" using head by linarith
    with 2(1) [OF none(1) refl none(2) holds_rows_tail [OF 2(3)]] 2(4,5) none show ?thesis by simp
  next
    case some: 3
    let ?f = "\<lambda>d r. r\<lparr>iv_reserved := iv_reserved r - ?n, iv_available := iv_available r + ?n,
        iv_last_stock_update := Some d, iv_updated_by := upd_by actor (iv_updated_by r)\<rparr>"
    let ?w = "\<lambda>d. w\<lparr>iw_reads := Suc (iw_reads w), iw_rows := update_where (\<lambda>r. iv_id r = iv_id row) (?f d) (iw_rows w)\<rparr>"
    have bounds: "- iv_reserved row \<le> - ?n" "- ?n \<le> iv_available row" "0 \<le> q - ?n" "q - ?n \<le> sum_list (map iv_reserved rows)"
      using head rest 2(5) some by (auto simp: min_def)
    have own: "only_rows w (?w d)" for d by (simp add: only_rows_def)
    have step: "moved a b (- ?n) w (?w d) \<and> holds_rows a b rows (?w d)" for d
      by (rule holds_rows_step [OF 2(3) bounds(1,2)]) simp_all
    have "wp (release_rows rows (q - ?n) actor) (?w d) (\<lambda>_ w'. moved a b (- (q - ?n)) (?w d) w' \<and> only_rows (?w d) w') (\<lambda>_ _. True)" for d
      using 2(2) [OF some(1) refl some(2) conjunct2 [OF step] bounds(3,4)] .
    then have "wp (release_rows rows (q - ?n) actor) (?w d) (\<lambda>_ w'. moved a b (- q) w w' \<and> only_rows w w') (\<lambda>_ _. True)" for d
      by (rule wp_mono) (use moved_trans [OF conjunct1 [OF step]] only_rows_trans [OF own] in force)+
    then show ?thesis using some head by (simp add: Let_def)
  qed
qed

section \<open>The order of the rows\<close>

text \<open>All the service relies on is that \<open>findMany\<close> returns the matching rows, in whatever order.\<close>

locale row_order =
  fixes ord :: "stock_row list \<Rightarrow> stock_row list"
  assumes perm: "mset (ord rows) = mset rows"
begin

lemma findRows_sum: "sum_list (map f (findRows ord a b w)) = stock_sum f a b w" for f :: "stock_row \<Rightarrow> int"
proof -
  have "mset (map f (findRows ord a b w)) = mset (map f (filter (live_row a b) (iw_rows w)))"
    by (simp add: findRows_def perm)
  then show ?thesis by (metis stock_sum_def sum_mset_sum_list)
qed

lemma findRows_holds:
  assumes "nonneg_rows (iw_rows w)"
  shows "holds_rows a b (findRows ord a b w) w"
proof -
  have set: "set (findRows ord a b w) = set (filter (live_row a b) (iw_rows w))"
    by (metis findRows_def perm set_mset_mset)
  have "mset (map iv_id (findRows ord a b w)) = mset (map iv_id (filter (live_row a b) (iw_rows w)))"
    by (simp add: findRows_def perm)
  then have "distinct (map iv_id (findRows ord a b w))"
    using assms distinct_map_filter by (metis nonneg_rows_def mset_eq_imp_distinct_iff)
  then show ?thesis
    using assms set find_by_id by (auto simp: holds_rows_def nonneg_rows_def)
qed

end

text \<open>\<open>orderBy: { available_quantity: 'desc' }\<close>, equal rows in the order of the table.\<close>

definition by_available :: "stock_row list \<Rightarrow> stock_row list" where
  "by_available rows = sort_key (\<lambda>r. - iv_available r) rows"

interpretation most_first: row_order by_available
  by unfold_locales (simp add: by_available_def)

section \<open>The invariant\<close>

definition holding :: "string \<Rightarrow> string \<Rightarrow> reservation_row \<Rightarrow> bool" where
  "holding a b r \<longleftrightarrow> rs_warehouse_id r = a \<and> rs_variant_id r = b \<and> rs_status r = ''active'' \<and> rs_deleted_at r = None"

definition reserved_by :: "string \<Rightarrow> string \<Rightarrow> inv_world \<Rightarrow> int" where
  "reserved_by a b w = sum_list (map rs_quantity (filter (holding a b) (iw_reservations w)))"

definition stock_ok :: "inv_world \<Rightarrow> bool" where
  "stock_ok w \<longleftrightarrow> nonneg_rows (iw_rows w) \<and> distinct (map rs_id (iw_reservations w))
     \<and> (\<forall>r\<in>set (iw_reservations w). 0 \<le> rs_quantity r)
     \<and> (\<forall>a b. reserved_by a b w \<le> stock_sum iv_reserved a b w)"

text \<open>The stock and the reservations of a world, and its stock and movements.\<close>

abbreviation stock_part :: "inv_world \<Rightarrow> stock_row list \<times> reservation_row list" where
  "stock_part w \<equiv> (iw_rows w, iw_reservations w)"

abbreviation book_part :: "inv_world \<Rightarrow> stock_row list \<times> movement_row list" where
  "book_part w \<equiv> (iw_rows w, iw_movements w)"

lemma stock_ok_cong: "stock_part w' = stock_part w \<Longrightarrow> stock_ok w' = stock_ok w"
  by (simp add: stock_ok_def reserved_by_def stock_sum_def)

lemma moved_cong: "iw_rows w' = iw_rows w \<Longrightarrow> iw_rows u' = iw_rows u \<Longrightarrow> moved a b t w' u' = moved a b t w u"
  by (simp add: moved_def stock_sum_def variant_total_def)

text \<open>What the movements say about the available stock of a variant.\<close>

definition signed :: "movement_row \<Rightarrow> int" where
  "signed m = (if mv_type m \<in> {''reservation'', ''transfer_out''} then - mv_quantity m else mv_quantity m)"

definition ledger :: "string \<Rightarrow> inv_world \<Rightarrow> int" where
  "ledger v w = sum_list (map signed (filter (\<lambda>m. mv_variant_id m = v) (iw_movements w)))"

definition book :: "string \<Rightarrow> inv_world \<Rightarrow> int" where
  "book v w = variant_total v w - ledger v w"

lemma book_cong: "book_part w' = book_part w \<Longrightarrow> book v w' = book v w"
  by (simp add: book_def variant_total_def ledger_def)

section \<open>What the helpers leave alone\<close>

lemma preserves_inv_now [simp]: "(\<And>w n. f (w\<lparr>iw_reads := n\<rparr>) = f w) \<Longrightarrow> preserves f inv_now"
  by (simp add: preserves_def inv_now_def)

lemma preserves_fresh_id [simp]: "(\<And>w n. f (w\<lparr>iw_uuids := n\<rparr>) = f w) \<Longrightarrow> preserves f (fresh_id ids)"
  by (auto simp: preserves_def inv_uuid_def fresh_id_def bindA_def)

lemma preserves_checks [simp]: "preserves f (fk_check p)" "preserves f (connect_check p)" "preserves f (int4_check n)"
  "preserves f (db_check c)" "preserves f (unique_check p)"
  by (simp_all add: preserves_def fk_check_def connect_check_def int4_check_def db_check_def unique_check_def bindA_def)

lemma preserves_row_or_throw [simp]: "preserves f (row_or_throw x)"
  by (simp add: preserves_def row_or_throw_def split: option.split)

lemma preserves_requireWarehouse [simp]: "preserves f (requireWarehouse i)"
  unfolding requireWarehouse_def by (auto split: option.split)

lemma preserves_release_check [simp]: "preserves f (release_check i)"
  unfolding release_check_def by (auto split: option.split)

lemma preserves_inv_emit [simp]: "(\<And>w n. f (w\<lparr>iw_events := n\<rparr>) = f w) \<Longrightarrow> preserves f (inv_emit e)"
  unfolding inv_emit_def by (rule preserves_modifyA) simp

lemma preserves_invalidate [simp]:
  assumes "\<And>w n. f (w\<lparr>iw_cache := n\<rparr>) = f w"
  shows "preserves f (invalidateStock a b)" "preserves f invalidateWarehouses" "preserves f (invalidateSerial c)"
  unfolding invalidateStock_def invalidateWarehouses_def invalidateSerial_def cache_del_def delByPrefix_def
  by (auto intro!: preserves_modifyA simp: assms)

lemma preserves_maybeLowStock [simp]:
  assumes "\<And>w n. f (w\<lparr>iw_uuids := n\<rparr>) = f w" "\<And>w n. f (w\<lparr>iw_alerts := n\<rparr>) = f w" "\<And>w n. f (w\<lparr>iw_events := n\<rparr>) = f w"
  shows "preserves f (maybeLowStock ord a b)"
  unfolding maybeLowStock_def upsertLowStockAlert_def Let_def
  by (auto intro!: preserves_bindA preserves_modifyA simp: assms)

lemma preserves_createMovement [simp]: "(\<And>w n. f (w\<lparr>iw_movements := n\<rparr>) = f w) \<Longrightarrow> preserves f (createMovement m)"
  unfolding createMovement_def by (auto intro!: preserves_bindA preserves_modifyA)

lemma preserves_createAdjustment [simp]:
  "(\<And>w n. f (w\<lparr>iw_uuids := n\<rparr>) = f w) \<Longrightarrow> (\<And>w n. f (w\<lparr>iw_adjustments := n\<rparr>) = f w) \<Longrightarrow>
     preserves f (createAdjustment a b d r n c)"
  unfolding createAdjustment_def Let_def by (auto intro!: preserves_bindA preserves_modifyA)

text \<open>A movement enters the ledger of its variant.\<close>

lemma wp_createMovement:
  "wp (createMovement m) w (\<lambda>_ w'. w' = w\<lparr>iw_movements := iw_movements w @ [m]\<rparr>) (\<lambda>_ w'. w' = w)"
  by (simp add: createMovement_def)

lemma ledger_append:
  "ledger v (w\<lparr>iw_movements := iw_movements w @ [m]\<rparr>) = ledger v w + (if mv_variant_id m = v then signed m else 0)"
  by (simp add: ledger_def)

lemma book_append:
  "book v (w\<lparr>iw_movements := iw_movements w @ [m]\<rparr>) = book v w - (if mv_variant_id m = v then signed m else 0)"
  by (simp add: book_def ledger_append variant_total_def)

lemma book_moved:
  "moved a b t w w' \<Longrightarrow> only_rows w w' \<Longrightarrow> book v w' = book v w - (if v = b then t else 0)"
  using only_rowsD(2) [of w w'] by (simp add: book_def moved_def ledger_def)

lemma book_total:
  "iw_movements t = iw_movements w \<Longrightarrow> variant_total u t = variant_total u w + d \<Longrightarrow> book u t = book u w + d"
  by (simp add: book_def ledger_def)

lemma preserves_book:
  assumes "preserves book_part m"
  shows "wp m w (\<lambda>_ w'. \<forall>v. book v w' = book v w) (\<lambda>_ _. True)"
  by (rule preserves_wpI [OF assms]) (use book_cong in \<open>blast+\<close>)

lemma wp_movement_then:
  assumes "preserves book_part (f ())"
  shows "wp (bindA (createMovement m) f) w
     (\<lambda>_ w'. \<forall>v. book v w' = book v w - (if mv_variant_id m = v then signed m else 0)) (\<lambda>_ _. True)"
proof (rule wp_bindI [OF wp_createMovement])
  fix x t assume "t = w\<lparr>iw_movements := iw_movements w @ [m]\<rparr>"
  then have "book v t = book v w - (if mv_variant_id m = v then signed m else 0)" for v
    by (simp only: book_append)
  then show "wp (f x) t (\<lambda>_ w'. \<forall>v. book v w' = book v w - (if mv_variant_id m = v then signed m else 0)) (\<lambda>_ _. True)"
    using preserves_book [OF assms, of t] by simp
qed simp

section \<open>Reservations\<close>

text \<open>What a reservation that returns has done.\<close>

definition reserved_more :: "string \<Rightarrow> string \<Rightarrow> int \<Rightarrow> inv_world \<Rightarrow> reservation_row \<Rightarrow> inv_world \<Rightarrow> bool" where
  "reserved_more a b q w x w' \<longleftrightarrow> moved a b q w w' \<and> iw_reservations w' = iw_reservations w @ [x]
     \<and> rs_id x \<notin> set (map rs_id (iw_reservations w)) \<and> holding a b x \<and> rs_quantity x = q"

text \<open>What one that throws may leave: nothing, the moved stock without a reservation, or both.\<close>

definition reserve_left :: "string \<Rightarrow> string \<Rightarrow> int \<Rightarrow> inv_world \<Rightarrow> inv_world \<Rightarrow> bool" where
  "reserve_left a b q w w' \<longleftrightarrow> stock_part w' = stock_part w
     \<or> moved a b q w w' \<and> iw_reservations w' = iw_reservations w \<or> (\<exists>x. reserved_more a b q w x w')"

lemma reserved_more_cong:
  "stock_part w' = stock_part w \<Longrightarrow> stock_part u' = stock_part u \<Longrightarrow> reserved_more a b q w' x u' = reserved_more a b q w x u"
  by (simp add: reserved_more_def moved_cong [of w' w u' u])

lemma reserve_left_cong:
  "stock_part w' = stock_part w \<Longrightarrow> stock_part u' = stock_part u \<Longrightarrow> reserve_left a b q w' u' = reserve_left a b q w u"
  using reserved_more_cong [of w' w u' u] by (simp add: reserve_left_def moved_cong [of w' w u' u])

lemma wp_requireWarehouse: "wp (requireWarehouse i) w (\<lambda>_ t. t = w) (\<lambda>_ t. t = w)"
  by (simp add: requireWarehouse_def split: option.split)

lemma wp_createReservation:
  "wp (createReservation mk) w
     (\<lambda>x w'. \<exists>i n. x = mk i \<and> i \<notin> set (map rs_id (iw_reservations w))
        \<and> w' = w\<lparr>iw_uuids := n, iw_reservations := iw_reservations w @ [x]\<rparr>)
     (\<lambda>_ w'. \<exists>n. w' = w\<lparr>iw_uuids := n\<rparr>)"
  by (auto simp: createReservation_def Let_def)

lemma reserve_tail_preserves:
  "preserves stock_part (bindA (createMovement m) (\<lambda>_. bindA (invalidateStock a b) (\<lambda>_.
     bindA (maybeLowStock ord a b) (\<lambda>_. bindA (inv_emit e) (\<lambda>_. returnA x)))))"
  by (auto intro!: preserves_bindA)

lemma reserve_tail:
  assumes "mv_variant_id m = b" "mv_type m = ''reservation''" "mv_quantity m = q"
  shows "wp (bindA (createMovement m) (\<lambda>_. bindA (invalidateStock a b) (\<lambda>_.
     bindA (maybeLowStock ord a b) (\<lambda>_. bindA (inv_emit e) (\<lambda>_. returnA x))))) w
     (\<lambda>y w'. y = x \<and> stock_part w' = stock_part w \<and> (\<forall>v. book v w' = book v w + (if v = b then q else 0)))
     (\<lambda>_ w'. stock_part w' = stock_part w)"
  (is "wp ?m w _ _")
proof -
  have "preserves book_part (bindA (invalidateStock a b) (\<lambda>_. bindA (maybeLowStock ord a b) (\<lambda>_. bindA (inv_emit e) (\<lambda>_. returnA x))))"
    by (auto intro!: preserves_bindA)
  from wp_movement_then [of "\<lambda>_. bindA (invalidateStock a b) (\<lambda>_. bindA (maybeLowStock ord a b) (\<lambda>_. bindA (inv_emit e) (\<lambda>_. returnA x)))", OF this]
  have "wp ?m w (\<lambda>_ w'. \<forall>v. book v w' = book v w - (if mv_variant_id m = v then signed m else 0)) (\<lambda>_ _. True)" .
  moreover have "wp ?m w (\<lambda>_ w'. stock_part w' = stock_part w) (\<lambda>_ w'. stock_part w' = stock_part w)"
    by (rule preserves_wp [OF reserve_tail_preserves])
  moreover have "wp ?m w (\<lambda>y _. y = x) (\<lambda>_ _. True)"
    by (auto simp: wp_def bindA_def split: prod.splits sum.splits)
  ultimately have "wp ?m w (\<lambda>y w'. (\<forall>v. book v w' = book v w - (if mv_variant_id m = v then signed m else 0))
      \<and> stock_part w' = stock_part w \<and> y = x) (\<lambda>_ w'. True \<and> stock_part w' = stock_part w \<and> True)"
    by (intro wp_conj)
  then show ?thesis by (rule wp_mono) (use assms in \<open>auto simp: signed_def\<close>)
qed

lemma release_tail:
  assumes "mv_variant_id m = b" "mv_type m = ''reservation_release''" "mv_quantity m = q"
  shows "wp (bindA (createMovement m) (\<lambda>_. bindA (invalidateStock a b) (\<lambda>_. bindA (inv_emit e) (\<lambda>_. returnA x)))) w
     (\<lambda>y w'. stock_part w' = stock_part w \<and> (\<forall>v. book v w' = book v w - (if v = b then q else 0)))
     (\<lambda>_ w'. stock_part w' = stock_part w)"
  (is "wp ?m w _ _")
proof -
  have "preserves book_part (bindA (invalidateStock a b) (\<lambda>_. bindA (inv_emit e) (\<lambda>_. returnA x)))"
    by (auto intro!: preserves_bindA)
  from wp_movement_then [of "\<lambda>_. bindA (invalidateStock a b) (\<lambda>_. bindA (inv_emit e) (\<lambda>_. returnA x))", OF this]
  have "wp ?m w (\<lambda>_ w'. \<forall>v. book v w' = book v w - (if mv_variant_id m = v then signed m else 0)) (\<lambda>_ _. True)" .
  moreover have "preserves stock_part ?m" by (auto intro!: preserves_bindA)
  note preserves_wp [OF this, of w]
  ultimately show ?thesis
    by (rule wp_mono [OF wp_conj]) (use assms in \<open>auto simp: signed_def\<close>)
qed

text \<open>What a release does to the tables.\<close>

definition mark_released :: "string option \<Rightarrow> reservation_row \<Rightarrow> reservation_row" where
  "mark_released actor r = r\<lparr>rs_status := ''released'', rs_updated_by := upd_by actor (rs_updated_by r)\<rparr>"

definition released_less :: "string \<Rightarrow> string \<Rightarrow> int \<Rightarrow> string \<Rightarrow> string option \<Rightarrow> inv_world \<Rightarrow> inv_world \<Rightarrow> bool" where
  "released_less a b q i actor w w' \<longleftrightarrow> moved a b (- q) w w'
     \<and> iw_reservations w' = update_where (\<lambda>r. rs_id r = i) (mark_released actor) (iw_reservations w)"

lemma released_less_cong:
  "stock_part w' = stock_part w \<Longrightarrow> stock_part u' = stock_part u \<Longrightarrow> released_less a b q i actor w' u' = released_less a b q i actor w u"
  by (simp add: released_less_def moved_cong [of w' w u' u])

context row_order
begin

text \<open>The transaction of a reservation, and the whole body under the lock.\<close>

lemma wp_reserve_transaction:
  assumes "nonneg_rows (iw_rows w)" "0 \<le> q" "q \<le> stock_sum iv_available a b w"
  shows "wp (transactionA (reserve_rows (findRows ord a b w) q actor)) w
     (\<lambda>_ w'. moved a b q w w' \<and> only_rows w w') (\<lambda>_ w'. w' = w)"
proof -
  have "wp (reserve_rows (findRows ord a b w) q actor) w (\<lambda>_ w'. moved a b q w w' \<and> only_rows w w') (\<lambda>_ _. True)"
    using wp_reserve_rows [OF findRows_holds [OF assms(1)] assms(2)] assms(3) by (simp add: findRows_sum)
  then show ?thesis unfolding wp_transactionA by (rule wp_mono) simp_all
qed

lemma wp_reserve_body:
  assumes "nonneg_rows (iw_rows w)" "0 \<le> rd_quantity dto"
  defines "a \<equiv> rd_warehouseId dto" and "b \<equiv> rd_variantId dto" and "q \<equiv> rd_quantity dto"
  shows "wp (reserve_body ord dto actor) w
     (\<lambda>x w'. reserved_more a b q w x w' \<and> (\<forall>v. book v w' = book v w)) (\<lambda>_ w'. reserve_left a b q w w')"
  unfolding reserve_body_def a_def [symmetric] b_def [symmetric] q_def [symmetric] Let_def
proof (rule wp_bindI [OF wp_requireWarehouse], goal_cases)
  case (1 x t)
  then have t: "t = w" by simp
  show ?case unfolding t
  proof (intro wp_bind_readI wp_bind_throwIfI, unfold findRows_sum)
    assume "\<not> stock_sum iv_available a b w < q"
    then have "q \<le> stock_sum iv_available a b w" by simp
    note tx = wp_reserve_transaction [OF assms(1) assms(2) [folded q_def] this]
    let ?mk = "\<lambda>now i. \<lparr>rs_id = i, rs_warehouse_id = a, rs_variant_id = b, rs_quantity = q,
      rs_cart_id = truthy_id (rd_cartId dto), rs_order_id = truthy_id (rd_orderId dto), rs_session_key = rd_sessionKey dto,
      rs_expires_at = js_date (now + nullish (rd_ttlMinutes dto) DEFAULT_RESERVATION_TTL_MINUTES * 60000),
      rs_status = ''active'', rs_deleted_at = None, rs_created_by = actor, rs_updated_by = actor\<rparr>"
    show "wp (bindA (transactionA (reserve_rows (findRows ord a b w) q actor)) (\<lambda>_. bindA inv_now (\<lambda>now.
        bindA (createReservation (?mk now)) (\<lambda>reservation.
        bindA (createMovement (movement a b ''reservation'' q ''stock_reservation'' (rs_id reservation) None actor)) (\<lambda>_.
        bindA (invalidateStock a b) (\<lambda>_. bindA (maybeLowStock ord a b) (\<lambda>_.
        bindA (inv_emit (InventoryReservedEvent (rs_id reservation) a b q)) (\<lambda>_. returnA reservation)))))))) w
      (\<lambda>x w'. reserved_more a b q w x w' \<and> (\<forall>v. book v w' = book v w)) (\<lambda>_ w'. reserve_left a b q w w')"
    proof (rule wp_bindI [OF tx], unfold wp_bindA [of inv_now] wp_inv_now, rule wp_bindI [OF wp_createReservation], goal_cases)
      case (1 u w2 x t)
      then have mv: "moved a b q w w2" and own: "only_rows w w2" by blast+
      from 1(2) obtain i where x: "x = ?mk (iw_clock w2 (iw_reads w2)) i" "i \<notin> set (map rs_id (iw_reservations w))"
        and t: "iw_rows t = iw_rows w2" "iw_reservations t = iw_reservations w @ [x]" "iw_movements t = iw_movements w2"
        using only_rowsD [OF own] by auto
      have more: "reserved_more a b q w x w'" if "stock_part w' = stock_part t" for w'
        using that mv x t moved_cong [of w w w' w2] by (simp add: reserved_more_def holding_def)
      have "book v t + (if v = b then q else 0) = book v w" for v
        using book_moved [OF mv own] t book_cong [of t w2] by simp
      then show ?case
        by (intro wp_mono [OF reserve_tail]) (auto simp: movement_def reserve_left_def intro: more)
    next
      case (2 u w2 e t)
      then show ?case using only_rowsD moved_cong [of w w t w2] by (auto simp: reserve_left_def)
    qed (simp add: reserve_left_def)
  qed (simp add: reserve_left_def)
qed (simp add: reserve_left_def)

lemma wp_reserve:
  assumes "nonneg_rows (iw_rows w)" "0 \<le> rd_quantity dto"
  defines "a \<equiv> rd_warehouseId dto" and "b \<equiv> rd_variantId dto" and "q \<equiv> rd_quantity dto"
  shows "wp (reserve ord dto actor) w
     (\<lambda>x w'. reserved_more a b q w x w' \<and> (\<forall>v. book v w' = book v w)) (\<lambda>_ w'. reserve_left a b q w w')"
  unfolding reserve_def
proof (rule wp_withLock, goal_cases)
  case 1
  let ?w = "w\<lparr>iw_grant_no := Suc (iw_grant_no w)\<rparr>"
  have "nonneg_rows (iw_rows ?w)" using assms(1) by simp
  note body = wp_reserve_body [OF this assms(2), of actor, folded a_def b_def q_def]
  show ?case
  proof (rule wp_mono [OF body], goal_cases)
    case (1 x t)
    then have more: "reserved_more a b q w x (t\<lparr>iw_unlock_no := n, iw_log := l\<rparr>)" for n l
      using reserved_more_cong [of ?w w t "t\<lparr>iw_unlock_no := n, iw_log := l\<rparr>"] by simp
    have "book v (t\<lparr>iw_unlock_no := n, iw_log := l\<rparr>) = book v w" for v n l
      using 1 book_cong [of "t\<lparr>iw_unlock_no := n, iw_log := l\<rparr>" t v] book_cong [of ?w w v] by simp
    then show ?case using more unfolding reserve_left_def by blast
  next
    case (2 e t)
    then show ?case using reserve_left_cong [of ?w w t "t\<lparr>iw_unlock_no := n, iw_log := l\<rparr>" for n l] by simp
  qed
qed (simp add: reserve_left_def)

lemma wp_release_transaction:
  assumes "nonneg_rows (iw_rows w)" "0 \<le> q" "q \<le> stock_sum iv_reserved a b w"
  shows "wp (transactionA (bindA (release_rows (findRows ord a b w) q actor) (\<lambda>_. reservation_update i f))) w
     (\<lambda>_ w'. moved a b (- q) w w' \<and> iw_reservations w' = update_where (\<lambda>r. rs_id r = i) f (iw_reservations w)
        \<and> iw_movements w' = iw_movements w) (\<lambda>_ w'. w' = w)"
proof -
  have "wp (release_rows (findRows ord a b w) q actor) w (\<lambda>_ w'. moved a b (- q) w w' \<and> only_rows w w') (\<lambda>_ _. True)"
    using wp_release_rows [OF findRows_holds [OF assms(1)] assms(2)] assms(3) by (simp add: findRows_sum)
  then have "wp (bindA (release_rows (findRows ord a b w) q actor) (\<lambda>_. reservation_update i f)) w
     (\<lambda>_ w'. moved a b (- q) w w' \<and> iw_reservations w' = update_where (\<lambda>r. rs_id r = i) f (iw_reservations w)
        \<and> iw_movements w' = iw_movements w) (\<lambda>_ _. True)"
  proof (rule wp_bindI)
    fix x t assume t: "moved a b (- q) w t \<and> only_rows w t"
    then have "moved a b (- q) w (t\<lparr>iw_reservations := R\<rparr>)" for R
      using moved_cong [of w w "t\<lparr>iw_reservations := R\<rparr>" t] by simp
    then show "wp (reservation_update i f) t (\<lambda>_ w'. moved a b (- q) w w'
        \<and> iw_reservations w' = update_where (\<lambda>r. rs_id r = i) f (iw_reservations w) \<and> iw_movements w' = iw_movements w) (\<lambda>_ _. True)"
      using t only_rowsD [of w t] by (auto simp: reservation_update_def split: option.split)
  qed simp
  then show ?thesis unfolding wp_transactionA by (rule wp_mono) simp_all
qed

lemma wp_release_body:
  assumes "nonneg_rows (iw_rows w)" "0 \<le> rs_quantity r" "rs_quantity r \<le> stock_sum iv_reserved (rs_warehouse_id r) (rs_variant_id r) w"
  defines "a \<equiv> rs_warehouse_id r" and "b \<equiv> rs_variant_id r" and "q \<equiv> rs_quantity r"
  shows "wp (release_body ord i r actor) w
     (\<lambda>x w'. released_less a b q i actor w w' \<and> (\<forall>v. book v w' = book v w))
     (\<lambda>_ w'. stock_part w' = stock_part w \<or> released_less a b q i actor w w')"
  unfolding release_body_def a_def [symmetric] b_def [symmetric] q_def [symmetric]
proof (intro wp_bind_readI, rule wp_bindI [OF wp_release_transaction [OF assms(1) assms(2,3) [folded a_def b_def q_def]]], goal_cases)
  case (1 x t)
  then have less: "released_less a b q i actor w t" by (auto simp: released_less_def mark_released_def [abs_def])
  have "book v t = book v w + (if v = b then q else 0)" for v
    using 1 by (auto simp: book_def moved_def ledger_def)
  moreover have "released_less a b q i actor w t'" if "stock_part t' = stock_part t" for t'
    using less that moved_cong [of w w t' t] by (simp add: released_less_def)
  ultimately show ?case
    by (intro wp_mono [OF release_tail]) (auto simp: movement_def)
qed simp

lemma wp_release_locked:
  assumes "nonneg_rows (iw_rows w)" "0 \<le> rs_quantity r" "rs_quantity r \<le> stock_sum iv_reserved (rs_warehouse_id r) (rs_variant_id r) w"
  defines "a \<equiv> rs_warehouse_id r" and "b \<equiv> rs_variant_id r" and "q \<equiv> rs_quantity r"
  shows "wp (release_locked ord i r actor) w
     (\<lambda>x w'. released_less a b q i actor w w' \<and> (\<forall>v. book v w' = book v w))
     (\<lambda>_ w'. stock_part w' = stock_part w \<or> released_less a b q i actor w w')"
  unfolding release_locked_def
proof (rule wp_withLock, goal_cases)
  case 1
  let ?w = "w\<lparr>iw_grant_no := Suc (iw_grant_no w)\<rparr>"
  have "nonneg_rows (iw_rows ?w)" "rs_quantity r \<le> stock_sum iv_reserved (rs_warehouse_id r) (rs_variant_id r) ?w"
    using assms(1,3) by (simp_all add: stock_sum_def)
  note body = wp_release_body [OF this(1) assms(2) this(2), of i actor, folded a_def b_def q_def]
  have less: "released_less a b q i actor ?w t \<Longrightarrow> \<forall>n l. released_less a b q i actor w (t\<lparr>iw_unlock_no := n, iw_log := l\<rparr>)" for t
    using released_less_cong [of ?w w t "t\<lparr>iw_unlock_no := n, iw_log := l\<rparr>" for n l] by simp
  have bk: "book v ?w = book v w" "book v (t\<lparr>iw_unlock_no := n, iw_log := l\<rparr>) = book v t" for v t n l
    by (rule book_cong; simp)+
  show ?case
    by (rule wp_mono [OF body]) (auto simp: bk dest: less)
qed simp

end

section \<open>The invariant is kept\<close>

lemma reservation_backed:
  assumes "stock_ok w" "findReservation i w = Some r" "rs_status r = ''active''"
  shows "0 \<le> rs_quantity r" "rs_quantity r \<le> stock_sum iv_reserved (rs_warehouse_id r) (rs_variant_id r) w"
    "holding (rs_warehouse_id r) (rs_variant_id r) r" "find (\<lambda>x. rs_id x = i) (iw_reservations w) = Some r"
proof -
  let ?a = "rs_warehouse_id r" and ?b = "rs_variant_id r"
  have r: "rs_id r = i" "rs_deleted_at r = None" "r \<in> set (iw_reservations w)"
    using find_filter_some [OF assms(2) [unfolded findReservation_def]] by auto
  then show "0 \<le> rs_quantity r" using assms(1) by (simp add: stock_ok_def)
  show h: "holding ?a ?b r" using r assms(3) by (simp add: holding_def)
  have "rs_quantity r \<le> reserved_by ?a ?b w"
    unfolding reserved_by_def using r h assms(1)
    by (intro member_le_sum_list) (auto simp: stock_ok_def)
  then show "rs_quantity r \<le> stock_sum iv_reserved ?a ?b w"
    using assms(1) by (auto simp: stock_ok_def intro: order_trans)
  show "find (\<lambda>x. rs_id x = i) (iw_reservations w) = Some r"
    using find_by_id [of rs_id "iw_reservations w" r] assms(1) r by (simp add: stock_ok_def)
qed

lemma stock_ok_reserved_more:
  assumes "stock_ok w" "reserved_more a b q w x w'" "0 \<le> q"
  shows "stock_ok w'"
proof -
  have "reserved_by c d w' = reserved_by c d w + (if (c, d) = (a, b) then q else 0)" for c d
    using assms(2) by (auto simp: reserved_more_def reserved_by_def holding_def)
  then show ?thesis using assms by (auto simp: stock_ok_def reserved_more_def moved_def)
qed

lemma stock_ok_reserve_left:
  assumes "stock_ok w" "reserve_left a b q w w'" "0 \<le> q"
  shows "stock_ok w'"
proof -
  have "stock_ok w'" if m: "moved a b q w w'" "iw_reservations w' = iw_reservations w"
  proof -
    have "stock_sum iv_reserved c d w \<le> stock_sum iv_reserved c d w'" "reserved_by c d w' = reserved_by c d w" for c d
      using m assms(3) by (simp_all add: moved_def reserved_by_def)
    then have "reserved_by c d w' \<le> stock_sum iv_reserved c d w'" for c d
      using assms(1) unfolding stock_ok_def by (metis order_trans)
    moreover have "nonneg_rows (iw_rows w')" using m(1) unfolding moved_def by blast
    ultimately show ?thesis using assms(1) m(2) by (simp add: stock_ok_def)
  qed
  then show ?thesis using assms stock_ok_cong stock_ok_reserved_more unfolding reserve_left_def by blast
qed

lemma reserved_by_released:
  assumes "distinct (map rs_id (iw_reservations w))" "released_less a b q i actor w w'"
    and "find (\<lambda>x. rs_id x = i) (iw_reservations w) = Some r"
  shows "reserved_by c d w' = reserved_by c d w - (if holding c d r then rs_quantity r else 0)"
    "map rs_id (iw_reservations w') = map rs_id (iw_reservations w)"
    "find (\<lambda>x. rs_id x = i) (iw_reservations w') = Some (mark_released actor r)"
proof -
  have R: "iw_reservations w' = update_where (\<lambda>x. rs_id x = i) (mark_released actor) (iw_reservations w)"
    using assms(2) by (simp add: released_less_def)
  have "\<not> holding c d (mark_released actor r)" by (simp add: holding_def mark_released_def)
  then show "reserved_by c d w' = reserved_by c d w - (if holding c d r then rs_quantity r else 0)"
    using sum_update_key [OF assms(1,3), of rs_quantity "holding c d" "mark_released actor"] by (simp add: reserved_by_def R)
  show "map rs_id (iw_reservations w') = map rs_id (iw_reservations w)"
    unfolding R by (rule map_update_where) (simp add: mark_released_def)
  show "find (\<lambda>x. rs_id x = i) (iw_reservations w') = Some (mark_released actor r)"
    using assms(3) find_filter_some [OF assms(3)] unfolding R by (subst find_update_where) (auto simp: mark_released_def)
qed

lemma stock_ok_released_less:
  assumes "stock_ok w" "released_less a b q i actor w w'" "find (\<lambda>x. rs_id x = i) (iw_reservations w) = Some r"
    and "holding a b r" "rs_quantity r = q"
  shows "stock_ok w'"
proof -
  have dist: "distinct (map rs_id (iw_reservations w))" using assms(1) by (simp add: stock_ok_def)
  note fall = reserved_by_released [OF dist assms(2,3)]
  have "holding c d r \<longleftrightarrow> (c, d) = (a, b)" for c d using assms(4) by (auto simp: holding_def)
  then have "reserved_by c d w' = reserved_by c d w - (if (c, d) = (a, b) then q else 0)" for c d
    using fall(1) [of c d] assms(5) by simp
  moreover have "\<forall>x\<in>set (iw_reservations w'). 0 \<le> rs_quantity x"
    using assms(1,2) by (auto simp: released_less_def update_where_def mark_released_def stock_ok_def)
  ultimately show ?thesis using assms(1,2) fall(2) by (auto simp: stock_ok_def released_less_def moved_def)
qed

text \<open>Receipts, transfers and adjustments change only the available column, or add a row.\<close>

lemma stock_ok_add:
  assumes "stock_ok w" "find (\<lambda>r. iv_id r = i) (iw_rows w) = Some r" "0 \<le> iv_available r + n"
  shows "stock_ok (w\<lparr>iw_reads := k, iw_rows := update_where (\<lambda>r. iv_id r = i) (add_available n d actor) (iw_rows w)\<rparr>)"
proof -
  have "0 \<le> iv_reserved r" using assms(1,2) find_filter_some [OF assms(2)] by (simp add: stock_ok_def nonneg_rows_def)
  then have "nonneg_rows (update_where (\<lambda>r. iv_id r = i) (add_available n d actor) (iw_rows w))"
    using assms by (intro nonneg_update [OF _ assms(2)]) (auto simp: stock_ok_def add_available_def)
  moreover have "sum_list (map iv_reserved (filter (live_row a b) (update_where (\<lambda>r. iv_id r = i) (add_available n d actor) (iw_rows w))))
      = sum_list (map iv_reserved (filter (live_row a b) (iw_rows w)))" for a b
    using sum_update [OF _ assms(2), of "live_row a b" "add_available n d actor" iv_reserved] assms(1)
    by (simp add: stock_ok_def nonneg_rows_def add_available_def live_row_def)
  ultimately show ?thesis using assms(1) by (simp add: stock_ok_def reserved_by_def stock_sum_def)
qed

lemma wp_stock_add:
  assumes "stock_ok w" "findRow bin v w = Some r" "0 \<le> iv_available r + n"
  shows "wp (stock_add (iv_id r) n actor) w
     (\<lambda>_ w'. stock_ok w' \<and> iw_movements w' = iw_movements w
        \<and> (\<forall>u. variant_total u w' = variant_total u w + (if u = v then n else 0))) (\<lambda>_ w'. stock_ok w')"
proof -
  have r: "r \<in> set (iw_rows w)" "iv_variant_id r = v"
    using find_filter_some [OF assms(2) [unfolded findRow_def]] by auto
  then have f: "find (\<lambda>x. iv_id x = iv_id r) (iw_rows w) = Some r"
    using assms(1) find_by_id by (auto simp: stock_ok_def nonneg_rows_def)
  have "variant_total u (w\<lparr>iw_reads := k, iw_rows := update_where (\<lambda>x. iv_id x = iv_id r) (add_available n d actor) (iw_rows w)\<rparr>)
      = variant_total u w + (if u = v then n else 0)" for u k d
    using sum_update [OF _ f, of "\<lambda>x. iv_variant_id x = u" "add_available n d actor" iv_available] assms(1) r(2)
    by (auto simp: variant_total_def stock_ok_def nonneg_rows_def add_available_def)
  moreover have "stock_ok (w\<lparr>iw_reads := k\<rparr>)" for k using assms(1) stock_ok_cong [of "w\<lparr>iw_reads := k\<rparr>" w] by simp
  ultimately show ?thesis
    using stock_ok_add [OF assms(1) f assms(3)] f by (simp add: stock_add_def)
qed

lemma wp_stock_create:
  assumes "stock_ok w" "0 \<le> n"
  shows "wp (stock_create a bin v n actor) w
     (\<lambda>_ w'. stock_ok w' \<and> iw_movements w' = iw_movements w
        \<and> (\<forall>u. variant_total u w' = variant_total u w + (if u = v then n else 0))) (\<lambda>_ w'. stock_ok w')"
proof -
  have "stock_ok (w\<lparr>iw_reads := k, iw_uuids := l\<rparr>)" for k l
    using assms(1) stock_ok_cong [of "w\<lparr>iw_reads := k, iw_uuids := l\<rparr>" w] by simp
  moreover have "stock_ok (w\<lparr>iw_reads := k, iw_uuids := l, iw_rows := iw_rows w @ [row]\<rparr>)"
    if "iv_id row \<notin> iv_id ` set (iw_rows w)" "iv_available row = n" "iv_reserved row = 0" for k l row
    using assms that by (auto simp: stock_ok_def nonneg_rows_def reserved_by_def stock_sum_def)
  ultimately show ?thesis
    by (auto simp: stock_create_def Let_def variant_total_def)
qed

lemma wp_stock_put:
  assumes "stock_ok w" "0 \<le> n"
  shows "wp (stock_put a bin v n actor) w
     (\<lambda>_ w'. stock_ok w' \<and> iw_movements w' = iw_movements w
        \<and> (\<forall>u. variant_total u w' = variant_total u w + (if u = v then n else 0))) (\<lambda>_ w'. stock_ok w')"
proof (cases "findRow bin v w")
  case None
  then show ?thesis using wp_stock_create [OF assms, of a bin v actor] by (simp add: stock_put_def)
next
  case (Some r)
  then have "0 \<le> iv_available r + n"
    using assms find_filter_some [OF Some [unfolded findRow_def]] by (auto simp: stock_ok_def nonneg_rows_def)
  then show ?thesis using wp_stock_add [OF assms(1) Some] Some by (simp add: stock_put_def)
qed

section \<open>Operations that account for what they do\<close>

text \<open>
  An accounted action keeps the invariant however it ends, and when it returns the movements it
  wrote explain the change of the available stock.
\<close>

definition accounted :: "'a inv_act \<Rightarrow> bool" where
  "accounted m \<longleftrightarrow> (\<forall>w. stock_ok w \<longrightarrow> wp m w (\<lambda>_ w'. stock_ok w' \<and> (\<forall>v. book v w' = book v w)) (\<lambda>_ w'. stock_ok w'))"

abbreviation all_part :: "inv_world \<Rightarrow> stock_row list \<times> reservation_row list \<times> movement_row list" where
  "all_part w \<equiv> (iw_rows w, iw_reservations w, iw_movements w)"

lemma accountedD: "accounted m \<Longrightarrow> stock_ok w \<Longrightarrow> wp m w (\<lambda>_ w'. stock_ok w' \<and> (\<forall>v. book v w' = book v w)) (\<lambda>_ w'. stock_ok w')"
  unfolding accounted_def by blast

lemma preserves_accounted: "preserves all_part m \<Longrightarrow> accounted m"
  unfolding accounted_def
  by (intro allI impI, erule preserves_wpI) (use stock_ok_cong book_cong in \<open>blast+\<close>)

lemma accounted_bindA [intro]:
  assumes "accounted m" "\<And>x. accounted (f x)"
  shows "accounted (bindA m f)"
  unfolding accounted_def
proof (intro allI impI)
  fix w assume "stock_ok w"
  show "wp (bindA m f) w (\<lambda>_ w'. stock_ok w' \<and> (\<forall>v. book v w' = book v w)) (\<lambda>_ w'. stock_ok w')"
  proof (rule wp_bindI [OF accountedD [OF assms(1) \<open>stock_ok w\<close>]])
    fix x t assume "stock_ok t \<and> (\<forall>v. book v t = book v w)"
    then show "wp (f x) t (\<lambda>_ w'. stock_ok w' \<and> (\<forall>v. book v w' = book v w)) (\<lambda>_ w'. stock_ok w')"
      using accountedD [OF assms(2), of t x] by simp
  qed
qed

lemma accounted_then: "preserves all_part m \<Longrightarrow> (\<And>x. accounted (f x)) \<Longrightarrow> accounted (bindA m f)"
  using preserves_accounted by blast

lemma accounted_transactionA [intro]: "accounted m \<Longrightarrow> accounted (transactionA m)"
  unfolding accounted_def wp_transactionA by (blast intro: wp_mono)

lemma accounted_forA: "(\<And>x. x \<in> set xs \<Longrightarrow> accounted (f x)) \<Longrightarrow> accounted (forA xs f)"
  by (induction xs) (auto intro: preserves_accounted)

lemma accounted_withLock [intro]:
  assumes "accounted m"
  shows "accounted (withLock k m)"
  unfolding accounted_def
proof (intro allI impI, rule wp_withLock, goal_cases)
  case (1 w)
  let ?w = "w\<lparr>iw_grant_no := Suc (iw_grant_no w)\<rparr>"
  have ok: "stock_ok (t\<lparr>iw_unlock_no := n, iw_log := l\<rparr>) = stock_ok t" for t n l by (rule stock_ok_cong) simp
  have bk: "book v (t\<lparr>iw_unlock_no := n, iw_log := l\<rparr>) = book v t" "book v ?w = book v w" for v t n l
    by (rule book_cong; simp)+
  have "stock_ok ?w" using 1 stock_ok_cong [of ?w w] by simp
  from accountedD [OF assms this] show ?case by (rule wp_mono) (auto simp: ok bk)
next
  case (2 w)
  then show ?case using stock_ok_cong [of "w\<lparr>iw_grant_no := n\<rparr>" w for n] by simp
qed

lemma accounted_put:
  assumes "0 \<le> n" "mv_variant_id m = v" "signed m = n" "\<And>x. accounted (f x)"
  shows "accounted (bindA (stock_put a bin v n actor) (\<lambda>_. bindA (createMovement m) f))"
  unfolding accounted_def
proof (intro allI impI)
  fix w assume "stock_ok w"
  show "wp (bindA (stock_put a bin v n actor) (\<lambda>_. bindA (createMovement m) f)) w
      (\<lambda>_ w'. stock_ok w' \<and> (\<forall>v. book v w' = book v w)) (\<lambda>_ w'. stock_ok w')"
  proof (rule wp_bindI [OF wp_stock_put [OF \<open>stock_ok w\<close> assms(1)]], rule wp_bindI [OF wp_createMovement], goal_cases)
    case (1 x t y t2)
    then have "stock_ok t2" using stock_ok_cong [of t2 t] by simp
    moreover have "book u t2 = book u w" for u
      using 1(1) book_total [of t w u] assms(2,3) unfolding 1(2) book_append by simp
    ultimately show ?case using accountedD [OF assms(4), of t2 y] by simp
  qed auto
qed

lemma accounted_pair:
  assumes "mv_variant_id m = mv_variant_id n" "signed m + signed n = 0"
  shows "accounted (bindA (createMovement m) (\<lambda>_. createMovement n))"
  unfolding accounted_def
proof (intro allI impI, rule wp_bindI [OF wp_createMovement], rule wp_mono [OF wp_createMovement], goal_cases)
  case (1 w x t y t2)
  then have "stock_ok t2" using stock_ok_cong [of t2 w] by simp
  moreover have "book v t2 = book v w" for v
    unfolding 1(3) book_append unfolding 1(2) book_append using assms by simp
  ultimately show ?case by simp
next
  case (2 w x t y t2)
  then show ?case using stock_ok_cong [of t2 w] by simp
qed simp

text \<open>Goods receipts.\<close>

lemma accounted_receive_item:
  assumes "0 \<le> rid_quantityReceived item"
  shows "accounted (receive_item dto i actor item)"
proof -
  have "preserves all_part (receive_serial dto item actor serial)" for serial
    unfolding receive_serial_def by (intro preserves_bindA preserves_modifyA) simp_all
  then have "accounted (bindA (if truthy_str (rid_purchaseOrderItemId item)
         then po_item_received (the (rid_purchaseOrderItemId item)) (rid_quantityReceived item) else returnA ()) (\<lambda>_.
     forA (nullish (rid_serialNumbers item) []) (receive_serial dto item actor)))"
    unfolding po_item_received_def
    by (intro preserves_accounted preserves_bindA preserves_forA) (auto intro!: preserves_bindA preserves_modifyA)
  then have "accounted (bindA (stock_put (grd_warehouseId dto) (rid_binId item) (rid_variantId item) (rid_quantityReceived item) actor) (\<lambda>_.
     bindA (createMovement (movement (grd_warehouseId dto) (rid_variantId item) ''purchase'' (rid_quantityReceived item)
       ''goods_receipt'' i None actor)) (\<lambda>_.
     bindA (if truthy_str (rid_purchaseOrderItemId item)
         then po_item_received (the (rid_purchaseOrderItemId item)) (rid_quantityReceived item) else returnA ()) (\<lambda>_.
     forA (nullish (rid_serialNumbers item) []) (receive_serial dto item actor)))))"
    by (intro accounted_put) (simp_all add: assms movement_def signed_def)
  then show ?thesis
    unfolding receive_item_def
    by - ((rule accounted_then, fastforce intro: preserves_modifyA)+, assumption)
qed

lemma accounted_createGoodsReceipt:
  assumes "\<forall>item\<in>set (grd_items dto). 0 \<le> rid_quantityReceived item"
  shows "accounted (createGoodsReceipt dto actor)"
proof -
  have "preserves all_part (create_receipt dto actor)"
    unfolding create_receipt_def Let_def by (intro preserves_bindA preserves_modifyA) simp_all
  then show ?thesis
    unfolding createGoodsReceipt_def using assms
    by (intro accounted_bindA accounted_withLock accounted_transactionA accounted_forA)
      (auto intro: preserves_accounted accounted_receive_item)
qed

text \<open>Transfers.\<close>

lemma accounted_transfer_item:
  assumes "0 \<le> tid_quantity item"
  shows "accounted (transfer_item dto i actor item)"
  unfolding accounted_def
proof (intro allI impI)
  fix w assume ok: "stock_ok w"
  let ?v = "tid_variantId item" and ?q = "tid_quantity item"
  let ?out = "movement (td_fromWarehouseId dto) ?v ''transfer_out'' ?q ''stock_transfer'' i None actor"
  let ?in = "movement (td_toWarehouseId dto) ?v ''transfer_in'' ?q ''stock_transfer'' i None actor"
  show "wp (transfer_item dto i actor item) w (\<lambda>_ w'. stock_ok w' \<and> (\<forall>v. book v w' = book v w)) (\<lambda>_ w'. stock_ok w')"
    unfolding transfer_item_def
  proof (intro wp_bind_readI wp_bind_throwIfI)
    assume "\<not> (case findRow (tid_fromBinId item) ?v w of None \<Rightarrow> True | Some r \<Rightarrow> iv_available r < ?q)"
    then obtain r where r: "findRow (tid_fromBinId item) ?v w = Some r" "0 \<le> iv_available r + - ?q"
      by (auto split: option.splits)
    have tail: "wp (bindA (fk_check p) (\<lambda>_. bindA (db_check c) (\<lambda>_.
        bindA (modifyA (\<lambda>w. w\<lparr>iw_transfer_items := iw_transfer_items w @ [x]\<rparr>)) (\<lambda>_.
        bindA (createMovement ?out) (\<lambda>_. createMovement ?in))))) t
        (\<lambda>_ w'. stock_ok w' \<and> (\<forall>v. book v w' = book v w)) (\<lambda>_ w'. stock_ok w')"
      if t: "stock_ok t" "\<forall>v. book v t = book v w" for p c x t
    proof -
      have "accounted (bindA (createMovement ?out) (\<lambda>_. createMovement ?in))"
        by (rule accounted_pair) (simp_all add: movement_def signed_def)
      then have "accounted (bindA (fk_check p) (\<lambda>_. bindA (db_check c) (\<lambda>_.
          bindA (modifyA (\<lambda>w. w\<lparr>iw_transfer_items := iw_transfer_items w @ [x]\<rparr>)) (\<lambda>_.
          bindA (createMovement ?out) (\<lambda>_. createMovement ?in)))))"
        by - ((rule accounted_then, fastforce intro: preserves_modifyA)+, assumption)
      from accountedD [OF this t(1)] t(2) show ?thesis by simp
    qed
    show "wp (bindA (stock_add (iv_id (the (findRow (tid_fromBinId item) ?v w))) (- ?q) actor) (\<lambda>_.
        bindA (stock_put (td_toWarehouseId dto) (tid_toBinId item) ?v ?q actor) (\<lambda>_.
        bindA (fk_check (\<lambda>w. ?v \<in> set (iw_variants w))) (\<lambda>_.
        bindA (db_check (?q > 0)) (\<lambda>_.
        bindA (modifyA (\<lambda>w. w\<lparr>iw_transfer_items := iw_transfer_items w @ [\<lparr>ti_transfer_id = i, ti_variant_id = ?v,
          ti_quantity = ?q, ti_created_by = actor\<rparr>]\<rparr>)) (\<lambda>_.
        bindA (createMovement ?out) (\<lambda>_. createMovement ?in))))))) w
      (\<lambda>_ w'. stock_ok w' \<and> (\<forall>v. book v w' = book v w)) (\<lambda>_ w'. stock_ok w')"
      unfolding r(1) option.sel
    proof (rule wp_bindI [OF wp_stock_add [OF ok r]], rule wp_bindI, rule wp_stock_put [OF _ assms], goal_cases)
      case (2 x t y t2)
      then have "book v t2 = book v w" for v
        using book_total [of t w v] book_total [of t2 t v] by simp
      with 2 show ?case by (intro tail) simp_all
    qed simp_all
  qed (use ok in simp_all)
qed

lemma accounted_createTransfer:
  assumes "\<forall>item\<in>set (td_items dto). 0 \<le> tid_quantity item"
  shows "accounted (createTransfer dto actor)"
proof -
  have "preserves all_part (create_transfer_row dto actor)"
    unfolding create_transfer_row_def Let_def by (intro preserves_bindA preserves_modifyA) simp_all
  then show ?thesis
    unfolding createTransfer_def using assms
    by (intro accounted_bindA accounted_withLock accounted_transactionA accounted_forA)
      (auto intro: preserves_accounted accounted_transfer_item)
qed

text \<open>Adjustments.\<close>

lemma accounted_adjust_tail:
  assumes "stock_ok t" "\<forall>v. book v t = book v w + (if v = b then n else 0)"
  shows "wp (bindA (createAdjustment a b n reason notes actor) (\<lambda>adjustment.
      bindA (createMovement (movement a b ''adjustment'' n ''inventory_adjustment'' (aj_id adjustment) notes actor)) (\<lambda>_.
      bindA (invalidateStock a b) (\<lambda>_. bindA (maybeLowStock ord a b) (\<lambda>_.
      bindA (inv_emit (ev adjustment)) (\<lambda>_. returnA (res adjustment))))))) t
    (\<lambda>_ w'. stock_ok w' \<and> (\<forall>v. book v w' = book v w)) (\<lambda>_ w'. stock_ok w')"
proof (rule wp_bindI [OF preserves_wp [of all_part]], goal_cases)
  case (2 adj u)
  then have u: "stock_ok u" "\<forall>v. book v u = book v w + (if v = b then n else 0)"
    using assms stock_ok_cong [of u t] book_cong [of u t] by auto
  let ?mv = "movement a b ''adjustment'' n ''inventory_adjustment'' (aj_id adj) notes actor"
  have rest: "preserves all_part (bindA (invalidateStock a b) (\<lambda>_. bindA (maybeLowStock ord a b) (\<lambda>_.
      bindA (inv_emit (ev adj)) (\<lambda>_. returnA (res adj)))))"
    by (intro preserves_bindA) simp_all
  show ?case
  proof (rule wp_bindI [OF wp_createMovement], goal_cases)
    case (1 x u2)
    then have "stock_ok u2" using u(1) stock_ok_cong [of u2 u] by simp
    moreover have "book v u2 = book v w" for v
      unfolding 1 book_append using u(2) by (simp add: movement_def signed_def)
    ultimately show ?case using accountedD [OF preserves_accounted [OF rest], of u2] by simp
  qed (use u in simp)
next
  case (3 e u)
  then show ?case using assms(1) stock_ok_cong [of u t] by simp
qed simp

lemma wp_books:
  assumes "wp m w (\<lambda>_ t. stock_ok t \<and> iw_movements t = iw_movements w
      \<and> (\<forall>u. variant_total u t = variant_total u w + (if u = v then n else 0))) (\<lambda>_ t. stock_ok t)"
  shows "wp m w (\<lambda>_ t. stock_ok t \<and> (\<forall>u. book u t = book u w + (if u = v then n else 0))) (\<lambda>_ t. stock_ok t)"
  using assms by (rule wp_mono) (use book_total in \<open>blast+\<close>)

lemma accounted_adjust: "accounted (adjust ord dto actor)"
  unfolding adjust_def
proof (rule accounted_withLock, rule accounted_then, goal_cases)
  case (2 x)
  let ?a = "ad_warehouseId dto" and ?b = "ad_variantId dto" and ?n = "ad_quantityDelta dto"
  show ?case unfolding accounted_def Let_def
  proof (intro allI impI wp_bind_readI wp_bind_throwIfI)
    fix w assume ok: "stock_ok w"
    let ?row = "findRow (ad_binId dto) ?b w"
    assume n: "\<not> (case ?row of None \<Rightarrow> 0 | Some r \<Rightarrow> iv_available r) + ?n < 0"
    have row: "wp (case ?row of
          None \<Rightarrow> bindA (throwIf (?n < 0) (app_error ''CONFLICT'' ''No inventory row to decrement'' 409)) (\<lambda>_.
            stock_create ?a (ad_binId dto) ?b ?n actor)
        | Some r \<Rightarrow> stock_add (iv_id r) ?n actor) w
      (\<lambda>_ t. stock_ok t \<and> (\<forall>v. book v t = book v w + (if v = ?b then ?n else 0))) (\<lambda>_ t. stock_ok t)"
    proof (cases ?row)
      case None
      with n have "0 \<le> ?n" by simp
      note wp_books [OF wp_stock_create [OF ok this]]
      with None \<open>0 \<le> ?n\<close> show ?thesis unfolding None option.case wp_bindA wp_throwIf by simp
    next
      case (Some r)
      with n have "0 \<le> iv_available r + ?n" by simp
      from wp_books [OF wp_stock_add [OF ok Some this]] show ?thesis unfolding Some option.case .
    qed
    show "wp (bindA (case ?row of
          None \<Rightarrow> bindA (throwIf (?n < 0) (app_error ''CONFLICT'' ''No inventory row to decrement'' 409)) (\<lambda>_.
            stock_create ?a (ad_binId dto) ?b ?n actor)
        | Some r \<Rightarrow> stock_add (iv_id r) ?n actor) (\<lambda>row1.
      bindA (createAdjustment ?a ?b ?n (nullish (ad_reason dto) ''correction'') (ad_notes dto) actor) (\<lambda>adjustment.
      bindA (createMovement (movement ?a ?b ''adjustment'' ?n ''inventory_adjustment'' (aj_id adjustment) (ad_notes dto) actor)) (\<lambda>_.
      bindA (invalidateStock ?a ?b) (\<lambda>_. bindA (maybeLowStock ord ?a ?b) (\<lambda>_.
      bindA (inv_emit (InventoryAdjustedEvent (aj_id adjustment) ?a ?b ?n (nullish (ad_reason dto) ''correction''))) (\<lambda>_.
      returnA \<lparr>ar_id = aj_id adjustment, ar_available = iv_available row1, ar_quantityDelta = ?n\<rparr>))))))) w
      (\<lambda>_ w'. stock_ok w' \<and> (\<forall>v. book v w' = book v w)) (\<lambda>_ w'. stock_ok w')"
    proof (rule wp_bindI [OF row])
      fix row1 t assume "stock_ok t \<and> (\<forall>v. book v t = book v w + (if v = ?b then ?n else 0))"
      then have t: "stock_ok t" "\<forall>v. book v t = book v w + (if v = ?b then ?n else 0)" by blast+
      show "wp (bindA (createAdjustment ?a ?b ?n (nullish (ad_reason dto) ''correction'') (ad_notes dto) actor) (\<lambda>adjustment.
        bindA (createMovement (movement ?a ?b ''adjustment'' ?n ''inventory_adjustment'' (aj_id adjustment) (ad_notes dto) actor)) (\<lambda>_.
        bindA (invalidateStock ?a ?b) (\<lambda>_. bindA (maybeLowStock ord ?a ?b) (\<lambda>_.
        bindA (inv_emit (InventoryAdjustedEvent (aj_id adjustment) ?a ?b ?n (nullish (ad_reason dto) ''correction''))) (\<lambda>_.
        returnA \<lparr>ar_id = aj_id adjustment, ar_available = iv_available row1, ar_quantityDelta = ?n\<rparr>)))))) t
        (\<lambda>_ w'. stock_ok w' \<and> (\<forall>v. book v w' = book v w)) (\<lambda>_ w'. stock_ok w')"
        by (rule accounted_adjust_tail [OF t])
    qed
  qed simp_all
qed simp

text \<open>Reservations and releases.\<close>

context row_order
begin

lemma accounted_reserve:
  assumes "0 \<le> rd_quantity dto"
  shows "accounted (reserve ord dto actor)"
  unfolding accounted_def
proof (intro allI impI)
  fix w assume ok: "stock_ok w"
  then have "nonneg_rows (iw_rows w)" by (simp add: stock_ok_def)
  from wp_reserve [OF this assms]
  show "wp (reserve ord dto actor) w (\<lambda>_ w'. stock_ok w' \<and> (\<forall>v. book v w' = book v w)) (\<lambda>_ w'. stock_ok w')"
    by (rule wp_mono) (use stock_ok_reserved_more [OF ok _ assms] stock_ok_reserve_left [OF ok _ assms] in \<open>blast+\<close>)
qed

lemma wp_releaseReservation:
  assumes "stock_ok w"
  shows "wp (releaseReservation ord i actor) w
     (\<lambda>_ w'. (\<exists>r. findReservation i w = Some r \<and> rs_status r = ''active''
          \<and> released_less (rs_warehouse_id r) (rs_variant_id r) (rs_quantity r) i actor w w')
        \<and> stock_ok w' \<and> (\<forall>v. book v w' = book v w)) (\<lambda>_ w'. stock_ok w')"
proof (cases "\<exists>r. findReservation i w = Some r \<and> rs_status r = ''active''")
  case True
  then obtain r where r: "findReservation i w = Some r" "rs_status r = ''active''" by blast
  note held = reservation_backed [OF assms r]
  have less: "stock_ok w'" if "released_less (rs_warehouse_id r) (rs_variant_id r) (rs_quantity r) i actor w w'" for w'
    using stock_ok_released_less [OF assms that held(4,3)] by simp
  have "nonneg_rows (iw_rows w)" using assms by (simp add: stock_ok_def)
  from wp_release_locked [OF this held(1,2), of i actor]
  have "wp (release_locked ord i r actor) w
     (\<lambda>_ w'. (\<exists>r. findReservation i w = Some r \<and> rs_status r = ''active''
          \<and> released_less (rs_warehouse_id r) (rs_variant_id r) (rs_quantity r) i actor w w')
        \<and> stock_ok w' \<and> (\<forall>v. book v w' = book v w)) (\<lambda>_ w'. stock_ok w')"
    by (rule wp_mono) (use r less assms stock_ok_cong in \<open>blast+\<close>)
  then show ?thesis using r by (simp add: releaseReservation_def release_check_def)
next
  case False
  then show ?thesis using assms by (auto simp: releaseReservation_def release_check_def split: option.splits)
qed

lemma accounted_releaseReservation: "accounted (releaseReservation ord i actor)"
  unfolding accounted_def by (blast intro: wp_mono [OF wp_releaseReservation])

end

end
