(* ===== verification/Inventory_Contract.thy ===== *)
theory Inventory_Contract
  imports Inventory_Safety
begin

text \<open>
  What InventoryService promises over any sequence of requests: the reserved stock covers the active
  reservations, the movements explain the stock, a release undoes a reservation, an oversell is refused.
  Then three ways in which it fails that promise outside its transactions. The witnesses run the
  service on one warehouse with a bin that holds ten units and a reservation of two.
\<close>

section \<open>Sequences of operations\<close>

datatype inv_op =
    OpReserve reserve_dto
  | OpRelease string
  | OpAdjust adjust_dto
  | OpReceive receipt_dto
  | OpTransfer transfer_dto
  | OpCreateWarehouse string string warehouse_dto
  | OpUpdateWarehouse string warehouse_dto
  | OpDeleteWarehouse string
  | OpCreateLocation location_dto
  | OpPurchaseOrder po_dto
  | OpRefurbish string string
  | OpCycleCount string string

definition ignore :: "'a inv_act \<Rightarrow> unit inv_act" where
  "ignore m = bindA m (\<lambda>_. returnA ())"

fun run_inv_op :: "(stock_row list \<Rightarrow> stock_row list) \<Rightarrow> inv_op \<times> string option \<Rightarrow> unit inv_act" where
  "run_inv_op ord (OpReserve dto, actor) = ignore (reserve ord dto actor)"
| "run_inv_op ord (OpRelease i, actor) = ignore (releaseReservation ord i actor)"
| "run_inv_op ord (OpAdjust dto, actor) = ignore (adjust ord dto actor)"
| "run_inv_op ord (OpReceive dto, actor) = ignore (createGoodsReceipt dto actor)"
| "run_inv_op ord (OpTransfer dto, actor) = ignore (createTransfer dto actor)"
| "run_inv_op ord (OpCreateWarehouse n c dto, actor) = ignore (createWarehouse n c dto actor)"
| "run_inv_op ord (OpUpdateWarehouse i dto, actor) = ignore (updateWarehouse i dto actor)"
| "run_inv_op ord (OpDeleteWarehouse i, actor) = ignore (deleteWarehouse i)"
| "run_inv_op ord (OpCreateLocation dto, actor) = ignore (createLocation dto)"
| "run_inv_op ord (OpPurchaseOrder dto, actor) = ignore (createPurchaseOrder dto actor)"
| "run_inv_op ord (OpRefurbish i x, actor) = ignore (updateRefurbishment i x)"
| "run_inv_op ord (OpCycleCount a n, actor) = ignore (createCycleCount a n actor)"

text \<open>Operations one after the other; one that throws does not stop the next request.\<close>

definition run_inv_ops :: "(stock_row list \<Rightarrow> stock_row list) \<Rightarrow> (inv_op \<times> string option) list \<Rightarrow> inv_world \<Rightarrow> inv_world" where
  "run_inv_ops ord ops w = fold (\<lambda>op w. snd (run_inv_op ord op w)) ops w"

text \<open>What the validator \<open>IsPositiveQty\<close> of the request bodies admits.\<close>

fun valid_inv_op :: "inv_op \<Rightarrow> bool" where
  "valid_inv_op (OpReserve dto) = (rd_quantity dto > 0)"
| "valid_inv_op (OpReceive dto) = list_all (\<lambda>item. rid_quantityReceived item > 0) (grd_items dto)"
| "valid_inv_op (OpTransfer dto) = list_all (\<lambda>item. tid_quantity item > 0) (td_items dto)"
| "valid_inv_op (OpPurchaseOrder dto) = list_all (\<lambda>item. pid_quantityOrdered item > 0) (pd_items dto)"
| "valid_inv_op _ = True"

lemma preserves_admin:
  "preserves all_part (createWarehouse n c d actor)" "preserves all_part (updateWarehouse i d actor)"
  "preserves all_part (deleteWarehouse i)" "preserves all_part (createLocation l)"
  "preserves all_part (createPurchaseOrder p actor)" "preserves all_part (updateRefurbishment i x)"
  "preserves all_part (createCycleCount a n actor)"
  unfolding createWarehouse_def updateWarehouse_def warehouse_update_def deleteWarehouse_def createLocation_def
    zone_for_def rack_for_def createPurchaseOrder_def create_po_item_def updateRefurbishment_def updateSerialRefurb_def
    createCycleCount_def Let_def
  by (auto intro!: preserves_bindA preserves_modifyA preserves_transactionA preserves_forA preserves_case_option)

lemma findReservation_new:
  assumes "reserved_more a b q w x w'"
  shows "findReservation (rs_id x) w' = Some x"
proof -
  have "find (\<lambda>r. rs_id r = rs_id x \<and> rs_deleted_at r = None) (R @ [x]) = Some x"
    if "rs_id x \<notin> rs_id ` set R" "rs_deleted_at x = None" for R
    using that by (induction R) auto
  then show ?thesis using assms by (auto simp: reserved_more_def holding_def findReservation_def)
qed

context row_order
begin

lemma accounted_run_inv_op:
  assumes "valid_inv_op (fst op)"
  shows "accounted (run_inv_op ord op)"
proof -
  have i: "accounted m \<Longrightarrow> accounted (ignore m)" for m :: "'z inv_act"
    unfolding ignore_def by (auto intro: preserves_accounted)
  note admin = preserves_accounted [OF preserves_admin(1)] preserves_accounted [OF preserves_admin(2)]
    preserves_accounted [OF preserves_admin(3)] preserves_accounted [OF preserves_admin(4)]
    preserves_accounted [OF preserves_admin(5)] preserves_accounted [OF preserves_admin(6)]
    preserves_accounted [OF preserves_admin(7)]
  obtain x actor where op: "op = (x, actor)" by force
  show ?thesis unfolding op using assms op
    by (cases x) (auto intro!: i admin accounted_reserve accounted_releaseReservation accounted_adjust
      accounted_createGoodsReceipt accounted_createTransfer simp: list_all_iff)
qed

lemma stock_ok_run:
  "stock_ok w \<Longrightarrow> \<forall>op\<in>set ops. valid_inv_op (fst op) \<Longrightarrow> stock_ok (run_inv_ops ord ops w)"
proof (induction ops arbitrary: w)
  case (Cons op ops)
  have "keeps stock_ok (run_inv_op ord op)"
    unfolding keeps_wp using accounted_run_inv_op [of op] Cons.prems(2)
    by (auto simp: accounted_def intro: wp_mono)
  with Cons show ?case by (simp add: run_inv_ops_def keeps_def)
qed (simp add: run_inv_ops_def)

lemma reserve_returned:
  assumes "stock_ok w" "0 \<le> rd_quantity dto" "reserve ord dto actor w = (Inr x, w')"
  shows "reserved_more (rd_warehouseId dto) (rd_variantId dto) (rd_quantity dto) w x w'"
proof -
  have "nonneg_rows (iw_rows w)" using assms(1) by (simp add: stock_ok_def)
  from wp_Inr [OF wp_reserve [OF this assms(2)] assms(3)] show ?thesis by simp
qed

lemma release_returned:
  assumes "stock_ok w" "releaseReservation ord i actor w = (Inr y, w')" "findReservation i w = Some r"
  shows "released_less (rs_warehouse_id r) (rs_variant_id r) (rs_quantity r) i actor w w'"
  using wp_Inr [OF wp_releaseReservation [OF assms(1)] assms(2)] assms(3) by auto

end

section \<open>A small warehouse\<close>

definition demo_row :: stock_row where
  "demo_row = \<lparr>iv_id = ''i1'', iv_warehouse_id = ''w1'', iv_bin_id = ''b1'', iv_variant_id = ''v1'', iv_available = 10,
     iv_reserved = 5, iv_damaged = 0, iv_in_transit = 0, iv_reorder_level = 8, iv_last_stock_update = None,
     iv_status = ''active'', iv_deleted_at = None, iv_created_by = None, iv_updated_by = None\<rparr>"

definition demo_reservation :: "string \<Rightarrow> int \<Rightarrow> reservation_row" where
  "demo_reservation i n = \<lparr>rs_id = i, rs_warehouse_id = ''w1'', rs_variant_id = ''v1'', rs_quantity = n, rs_cart_id = None,
     rs_order_id = None, rs_session_key = None, rs_expires_at = js_date 0, rs_status = ''active'', rs_deleted_at = None,
     rs_created_by = None, rs_updated_by = None\<rparr>"

definition demo_world :: inv_world where
  "demo_world = \<lparr>iw_warehouses = [\<lparr>wh_id = ''w1'', wh_name = ''Main'', wh_code = ''M'', wh_address = None, wh_city = None,
       wh_state = None, wh_country = None, wh_postal_code = None, wh_manager = None, wh_status = ''active'',
       wh_deleted_at = None, wh_created_by = None, wh_updated_by = None\<rparr>],
     iw_zones = [\<lparr>zn_id = ''z1'', zn_warehouse_id = ''w1'', zn_code = ''Z'', zn_name = None, zn_deleted_at = None\<rparr>],
     iw_racks = [\<lparr>rk_id = ''r1'', rk_zone_id = ''z1'', rk_code = ''R'', rk_deleted_at = None\<rparr>],
     iw_bins = [\<lparr>bn_id = ''b1'', bn_rack_id = ''r1'', bn_code = ''B'', bn_barcode = None, bn_deleted_at = None\<rparr>],
     iw_rows = [demo_row], iw_reservations = [demo_reservation ''s1'' 2, demo_reservation ''s2'' 3],
     iw_movements = [], iw_adjustments = [], iw_alerts = [], iw_receipts = [], iw_receipt_items = [],
     iw_transfers = [], iw_transfer_items = [], iw_pos = [], iw_po_items = [], iw_serials = [], iw_cycles = [],
     iw_variants = [''v1''], iw_carts = [], iw_orders = [], iw_suppliers = [], iw_users = [], iw_cache = (\<lambda>_. None),
     iw_events = [], iw_log = [], iw_clock = int, iw_reads = 0, iw_uuid = (\<lambda>n. CHR ''u'' # show_nat n), iw_uuids = 0,
     iw_grants = (\<lambda>_. Some ''token''), iw_grant_no = 0, iw_unlocks = (\<lambda>_. Inr True), iw_unlock_no = 0\<rparr>"

definition demo_reserve :: "int \<Rightarrow> string option \<Rightarrow> reserve_dto" where
  "demo_reserve n cart = \<lparr>rd_warehouseId = ''w1'', rd_variantId = ''v1'', rd_quantity = n, rd_cartId = cart,
     rd_orderId = None, rd_sessionKey = None, rd_ttlMinutes = None\<rparr>"

definition demo_adjust :: "int \<Rightarrow> string \<Rightarrow> adjust_dto" where
  "demo_adjust n reason = \<lparr>ad_warehouseId = ''w1'', ad_binId = ''b1'', ad_variantId = ''v1'', ad_quantityDelta = n,
     ad_reason = Some reason, ad_notes = None\<rparr>"

lemma demo_stock_ok: "stock_ok demo_world"
  by (simp add: stock_ok_def nonneg_rows_def demo_world_def demo_row_def demo_reservation_def reserved_by_def stock_sum_def
    holding_def live_row_def)

lemma demo_sums:
  "stock_sum iv_available ''w1'' ''v1'' demo_world = 10" "stock_sum iv_reserved ''w1'' ''v1'' demo_world = 5"
  "reserved_by ''w1'' ''v1'' demo_world = 5" "variant_total ''v1'' demo_world = 10"
  by (simp_all add: demo_world_def demo_row_def demo_reservation_def reserved_by_def stock_sum_def holding_def live_row_def
    variant_total_def)

lemma by_available_mset: "\<forall>rows. mset (by_available rows) = mset rows"
  by (simp add: by_available_def)

lemma wp_returns: "wp m w (\<lambda>_ _. True) (\<lambda>_ _. False) \<Longrightarrow> \<exists>x w'. m w = (Inr x, w')"
  by (auto simp: wp_def split: prod.splits sum.splits)

lemma demo_reserve_returns: "\<exists>x w'. reserve by_available (demo_reserve 4 None) None demo_world = (Inr x, w')"
  by (rule wp_returns) code_simp

section \<open>The contract\<close>

text \<open>
  C7: Whatever requests reach the inventory service (reservations, releases, adjustments, goods receipts,
  transfers, warehouse administration, in any order, failing ones included), the available and reserved
  quantity of every stock row stay non-negative, and the reserved stock of every warehouse and variant
  covers the quantities of its active reservations.
\<close>
theorem stock_always_covers_reservations:
  assumes "\<forall>rows. mset (ord rows) = mset rows" "stock_ok w" "\<forall>op\<in>set ops. valid_inv_op (fst op)"
  shows "(\<forall>r\<in>set (iw_rows (run_inv_ops ord ops w)). 0 \<le> iv_available r \<and> 0 \<le> iv_reserved r)
    \<and> (\<forall>a b. reserved_by a b (run_inv_ops ord ops w) \<le> stock_sum iv_reserved a b (run_inv_ops ord ops w))"
proof -
  have "row_order ord" using assms(1) by unfold_locales simp
  from row_order.stock_ok_run [OF this assms(2,3)] show ?thesis by (simp add: stock_ok_def nonneg_rows_def)
qed

theorem stock_always_covers_reservations_witness:
  "reserved_by ''w1'' ''v1'' (run_inv_ops by_available [(OpReserve (demo_reserve 4 None), None), (OpRelease ''s1'', None),
      (OpReserve (demo_reserve 100 None), None), (OpAdjust (demo_adjust (-3) ''damage''), None)] demo_world) = 7
   \<and> 7 \<le> stock_sum iv_reserved ''w1'' ''v1'' (run_inv_ops by_available [(OpReserve (demo_reserve 4 None), None), (OpRelease ''s1'', None),
      (OpReserve (demo_reserve 100 None), None), (OpAdjust (demo_adjust (-3) ''damage''), None)] demo_world)"
proof -
  let ?ops = "[(OpReserve (demo_reserve 4 None), None), (OpRelease ''s1'', None), (OpReserve (demo_reserve 100 None), None),
    (OpAdjust (demo_adjust (-3) ''damage''), None)] :: (inv_op \<times> string option) list"
  have "\<forall>op\<in>set ?ops. valid_inv_op (fst op)" by (simp add: demo_reserve_def)
  from stock_always_covers_reservations [OF by_available_mset demo_stock_ok this]
  have "reserved_by ''w1'' ''v1'' (run_inv_ops by_available ?ops demo_world)
    \<le> stock_sum iv_reserved ''w1'' ''v1'' (run_inv_ops by_available ?ops demo_world)" by blast
  moreover have "reserved_by ''w1'' ''v1'' (run_inv_ops by_available ?ops demo_world) = 7" by code_simp
  ultimately show ?thesis by simp
qed

text \<open>
  C22: The movement rows explain the stock: when an operation of the service returns, the available stock
  of every variant has changed by exactly the signed sum of the movements it wrote (reservations and
  outgoing transfers count negative, the others positive).
\<close>
theorem movements_explain_stock:
  assumes "\<forall>rows. mset (ord rows) = mset rows" "stock_ok w" "valid_inv_op (fst op)" "run_inv_op ord op w = (Inr u, w')"
  shows "variant_total v w' - variant_total v w = ledger v w' - ledger v w"
proof -
  have "row_order ord" using assms(1) by unfold_locales simp
  from wp_Inr [OF accountedD [OF row_order.accounted_run_inv_op [OF this assms(3)] assms(2)] assms(4)]
  have "book v w' = book v w" by blast
  then show ?thesis by (simp add: book_def)
qed

theorem movements_explain_stock_witness:
  "\<exists>u w'. run_inv_op by_available (OpReserve (demo_reserve 4 None), None) demo_world = (Inr u, w')
     \<and> variant_total ''v1'' w' - variant_total ''v1'' demo_world = ledger ''v1'' w' - ledger ''v1'' demo_world
     \<and> ledger ''v1'' w' = -4"
proof -
  let ?m = "run_inv_op by_available (OpReserve (demo_reserve 4 None), None)"
  have r: "wp ?m demo_world (\<lambda>_ w'. ledger ''v1'' w' = -4) (\<lambda>_ _. False)" by code_simp
  from wp_returns [OF wp_mono [OF this]] obtain u w' where m: "?m demo_world = (Inr u, w')" by blast
  have "valid_inv_op (fst (OpReserve (demo_reserve 4 None), None :: string option))" by (simp add: demo_reserve_def)
  from movements_explain_stock [OF by_available_mset demo_stock_ok this m] wp_Inr [OF r m] m show ?thesis by blast
qed

text \<open>
  C26: A reservation that returns has moved exactly its quantity, from the available to the reserved stock
  of its warehouse and variant, over as many rows as it takes; the stock of every other warehouse and
  variant is as it was; and one active reservation of that quantity was added.
\<close>
theorem reserve_moves_exact_quantity:
  assumes "\<forall>rows. mset (ord rows) = mset rows" "stock_ok w" "0 \<le> rd_quantity dto" "reserve ord dto actor w = (Inr x, w')"
  shows "(\<forall>a b. stock_sum iv_available a b w' = stock_sum iv_available a b w
        - (if (a, b) = (rd_warehouseId dto, rd_variantId dto) then rd_quantity dto else 0)
      \<and> stock_sum iv_reserved a b w' = stock_sum iv_reserved a b w
        + (if (a, b) = (rd_warehouseId dto, rd_variantId dto) then rd_quantity dto else 0))
    \<and> iw_reservations w' = iw_reservations w @ [x] \<and> rs_status x = ''active'' \<and> rs_quantity x = rd_quantity dto
    \<and> rs_warehouse_id x = rd_warehouseId dto \<and> rs_variant_id x = rd_variantId dto"
proof -
  have "row_order ord" using assms(1) by unfold_locales simp
  from row_order.reserve_returned [OF this assms(2-4)] show ?thesis
    by (auto simp: reserved_more_def moved_def holding_def)
qed

theorem reserve_moves_exact_quantity_witness:
  "\<exists>x w'. reserve by_available (demo_reserve 4 None) None demo_world = (Inr x, w')
     \<and> stock_sum iv_available ''w1'' ''v1'' w' = 6 \<and> stock_sum iv_reserved ''w1'' ''v1'' w' = 9 \<and> rs_quantity x = 4"
proof -
  obtain x w' where m: "reserve by_available (demo_reserve 4 None) None demo_world = (Inr x, w')"
    using demo_reserve_returns by blast
  have "0 \<le> rd_quantity (demo_reserve 4 None)" by (simp add: demo_reserve_def)
  from reserve_moves_exact_quantity [OF by_available_mset demo_stock_ok this m] m demo_sums
  show ?thesis by (auto simp: demo_reserve_def)
qed

text \<open>
  C25: Releasing a reservation undoes it: after a reservation that returns and a release of its id that
  returns, the available and reserved stock of every warehouse and variant are as before both.
\<close>
theorem reserve_release_roundtrip:
  assumes "\<forall>rows. mset (ord rows) = mset rows" "stock_ok w" "0 \<le> rd_quantity dto"
    and "reserve ord dto actor w = (Inr x, w1)" "releaseReservation ord (rs_id x) actor2 w1 = (Inr y, w2)"
  shows "stock_sum iv_available a b w2 = stock_sum iv_available a b w \<and> stock_sum iv_reserved a b w2 = stock_sum iv_reserved a b w"
proof -
  have o: "row_order ord" using assms(1) by unfold_locales simp
  note more = row_order.reserve_returned [OF o assms(2-4)]
  have "stock_ok w1" by (rule stock_ok_reserved_more [OF assms(2) more assms(3)])
  from row_order.release_returned [OF o this assms(5) findReservation_new [OF more]] more
  show ?thesis by (auto simp: released_less_def reserved_more_def moved_def holding_def)
qed

theorem reserve_release_roundtrip_witness:
  "\<exists>x w1 y w2. reserve by_available (demo_reserve 4 None) None demo_world = (Inr x, w1)
     \<and> releaseReservation by_available (rs_id x) None w1 = (Inr y, w2) \<and> stock_sum iv_available ''w1'' ''v1'' w2 = 10"
proof -
  let ?both = "bindA (reserve by_available (demo_reserve 4 None) None) (\<lambda>x. releaseReservation by_available (rs_id x) None)"
  have "wp ?both demo_world (\<lambda>_ _. True) (\<lambda>_ _. False)" by code_simp
  from wp_returns [OF this] obtain y w2 where "?both demo_world = (Inr y, w2)" by blast
  then obtain x w1 where m: "reserve by_available (demo_reserve 4 None) None demo_world = (Inr x, w1)"
      "releaseReservation by_available (rs_id x) None w1 = (Inr y, w2)"
    by (auto simp: bindA_def split: prod.splits sum.splits)
  have "0 \<le> rd_quantity (demo_reserve 4 None)" by (simp add: demo_reserve_def)
  from reserve_release_roundtrip [OF by_available_mset demo_stock_ok this m, of "''w1''" "''v1''"] m demo_sums
  show ?thesis by auto
qed

section \<open>Refusals and failures\<close>

text \<open>
  C27: A request for more than the available stock of a live warehouse is refused with CONFLICT 409 once
  the lock is held, and changes neither stock nor reservations nor movements.
\<close>
theorem reserve_refuses_oversell:
  assumes "\<forall>rows. mset (ord rows) = mset rows" "findById (rd_warehouseId dto) w \<noteq> None"
    and "stock_sum iv_available (rd_warehouseId dto) (rd_variantId dto) w < rd_quantity dto"
    and "truthy_str (iw_grants w (iw_grant_no w))" "\<forall>n. \<exists>released. iw_unlocks w n = Inr released"
  shows "\<exists>message w'. reserve ord dto actor w = (Inl (AppException ''CONFLICT'' message 409), w')
    \<and> (iw_rows w', iw_reservations w', iw_movements w', iw_events w') = (iw_rows w, iw_reservations w, iw_movements w, iw_events w)"
proof -
  have o: "row_order ord" using assms(1) by unfold_locales simp
  obtain b where "iw_unlocks w (iw_unlock_no w) = Inr b" using assms(5) by blast
  then have "wp (reserve ord dto actor) w (\<lambda>_ _. False) (\<lambda>e w'. (\<exists>message. e = AppException ''CONFLICT'' message 409)
      \<and> (iw_rows w', iw_reservations w', iw_movements w', iw_events w') = (iw_rows w, iw_reservations w, iw_movements w, iw_events w))"
    using assms(2-4) row_order.findRows_sum [OF o]
    by (cases "findById (rd_warehouseId dto) w")
      (simp_all add: reserve_def reserve_body_def withLock_def requireWarehouse_def app_error_def findById_def findRows_def stock_sum_def)
  then show ?thesis by (auto simp: wp_def split: prod.splits sum.splits)
qed

theorem reserve_refuses_oversell_witness:
  "\<exists>message w'. reserve by_available (demo_reserve 11 None) None demo_world = (Inl (AppException ''CONFLICT'' message 409), w')
     \<and> iw_rows w' = [demo_row]"
  using reserve_refuses_oversell [OF by_available_mset, of "demo_reserve 11 None" demo_world None] demo_sums
  by (auto simp: demo_reserve_def demo_world_def findById_def truthy_str_def)

context row_order
begin

text \<open>The loop of a reservation does not fail when the quantities fit their columns.\<close>

lemma reserve_rows_returns:
  "holds_rows a b rows w \<Longrightarrow> \<forall>r\<in>set rows. int4 (iv_available r) \<and> int4 (iv_reserved r + q) \<and> 0 \<le> q \<Longrightarrow>
     ok (reserve_rows rows q actor) w (\<lambda>_ _. True)"
proof (induction rows q actor arbitrary: w rule: reserve_rows.induct)
  case (2 row rows q actor)
  let ?n = "min (iv_available row) q"
  note head = holds_rows_head [OF 2(3)]
  consider "q \<le> 0" | "\<not> q \<le> 0" "?n \<le> 0" | "\<not> q \<le> 0" "\<not> ?n \<le> 0" by blast
  then show ?case
  proof cases
    case none: 2
    then have "iv_available row = 0" using head by linarith
    with 2(1) [OF none(1) refl none(2) holds_rows_tail [OF 2(3)]] 2(4) none show ?thesis by simp
  next
    case some: 3
    let ?f = "\<lambda>d r. r\<lparr>iv_available := iv_available r - ?n, iv_reserved := iv_reserved r + ?n,
        iv_last_stock_update := Some d, iv_updated_by := upd_by actor (iv_updated_by r)\<rparr>"
    let ?w = "\<lambda>d. w\<lparr>iw_reads := Suc (iw_reads w), iw_rows := update_where (\<lambda>r. iv_id r = iv_id row) (?f d) (iw_rows w)\<rparr>"
    have bounds: "- iv_reserved row \<le> ?n" using head some by (auto simp: min_def)
    have step: "moved a b ?n w (?w d) \<and> holds_rows a b rows (?w d)" for d
      by (rule holds_rows_step [OF 2(3) bounds]) simp_all
    have "\<forall>r\<in>set rows. int4 (iv_available r) \<and> int4 (iv_reserved r + (q - ?n)) \<and> 0 \<le> q - ?n"
    proof
      fix r assume r: "r \<in> set rows"
      then have "0 \<le> iv_reserved r"
        using find_filter_some [OF holds_rowsD(4) [OF holds_rows_tail [OF 2(3)] r]] holds_rowsD(1) [OF 2(3)] by (simp add: nonneg_rows_def)
      with r 2(4) some show "int4 (iv_available r) \<and> int4 (iv_reserved r + (q - ?n)) \<and> 0 \<le> q - ?n" by (auto simp: int4_def min_def)
    qed
    note rest = 2(2) [OF some(1) refl some(2) conjunct2 [OF step] this]
    have "int4 (iv_available row - ?n) \<and> int4 (iv_reserved row + ?n)" using 2(4) head some by (auto simp: int4_def min_def)
    then show ?thesis using some head rest by (simp add: Let_def)
  qed (use 2 in simp)
qed simp

lemma reserve_body_strands:
  assumes "stock_ok w" "findById (rd_warehouseId dto) w \<noteq> None" "0 \<le> rd_quantity dto"
    and "rd_quantity dto \<le> stock_sum iv_available (rd_warehouseId dto) (rd_variantId dto) w"
    and "\<forall>r\<in>set (iw_rows w). int4 (iv_available r) \<and> int4 (iv_reserved r + rd_quantity dto)"
    and cart: "rd_cartId dto = Some c" "c \<noteq> []" "c \<notin> set (iw_carts w)"
  defines "a \<equiv> rd_warehouseId dto" and "b \<equiv> rd_variantId dto" and "q \<equiv> rd_quantity dto"
  shows "wp (reserve_body ord dto actor) w (\<lambda>_ _. False)
    (\<lambda>_ w'. moved a b q w w' \<and> iw_reservations w' = iw_reservations w)"
  unfolding reserve_body_def Let_def a_def [symmetric] b_def [symmetric] q_def [symmetric]
proof (rule wp_bindI [where R = "\<lambda>_ t. t = w" and F = "\<lambda>_ _. False"], goal_cases)
  case 1
  then show ?case using assms(2) by (auto simp: requireWarehouse_def a_def split: option.split)
next
  case (2 x t)
  have nn: "nonneg_rows (iw_rows w)" using assms(1) by (simp add: stock_ok_def)
  note holds = findRows_holds [OF nn, of a b]
  have "\<forall>r\<in>set (findRows ord a b w). int4 (iv_available r) \<and> int4 (iv_reserved r + q) \<and> 0 \<le> q"
    using find_filter_some [OF holds_rowsD(4) [OF holds]] assms(3,5) by (auto simp: q_def)
  then have "ok (transactionA (reserve_rows (findRows ord a b w) q actor)) w (\<lambda>_ _. True)"
    unfolding wp_transactionA by (rule reserve_rows_returns [OF holds])
  note tx = wp_conj [OF wp_reserve_transaction [OF nn assms(3,4) [folded a_def b_def q_def], of actor] this]
  show ?case unfolding 2
  proof (intro wp_bind_readI wp_bind_throwIfI, goal_cases)
    case 1
    then show ?case using assms(4) by (simp add: findRows_sum a_def b_def q_def)
  next
    case 2
    show ?case
    proof (rule wp_bindI [OF tx], unfold wp_bindA [of inv_now] wp_inv_now, goal_cases)
      case (1 u w2)
      then have m: "moved a b q w w2" "only_rows w w2" by blast+
      have "iw_carts w2 = iw_carts w" using arg_cong [OF m(2) [unfolded only_rows_def], of iw_carts] by simp
      moreover have "moved a b q w (w2\<lparr>iw_reads := k, iw_uuids := n\<rparr>)" for k n
        using m(1) moved_cong [of w w "w2\<lparr>iw_reads := k, iw_uuids := n\<rparr>" w2] by simp
      ultimately show ?case
        using cart only_rowsD [OF m(2)] by (simp add: createReservation_def Let_def truthy_id_def fk_ok_def)
    qed simp
  qed
qed simp

end

text \<open>
  C32: The stock of a reservation is moved in a transaction of its own, before the reservation is
  written: when the request names a cart that does not exist, the call throws and leaves the stock
  reserved with no reservation that holds it.
\<close>
theorem reserve_unknown_cart_strands_stock:
  assumes "\<forall>rows. mset (ord rows) = mset rows" "stock_ok w" "findById (rd_warehouseId dto) w \<noteq> None"
    and "0 \<le> rd_quantity dto" "rd_quantity dto \<le> stock_sum iv_available (rd_warehouseId dto) (rd_variantId dto) w"
    and "\<forall>r\<in>set (iw_rows w). int4 (iv_available r) \<and> int4 (iv_reserved r + rd_quantity dto)"
    and "truthy_str (iw_grants w (iw_grant_no w))" "rd_cartId dto = Some c" "c \<noteq> []" "c \<notin> set (iw_carts w)"
  shows "\<exists>e w'. reserve ord dto actor w = (Inl e, w') \<and> iw_reservations w' = iw_reservations w
    \<and> stock_sum iv_reserved (rd_warehouseId dto) (rd_variantId dto) w'
      = stock_sum iv_reserved (rd_warehouseId dto) (rd_variantId dto) w + rd_quantity dto"
proof -
  have o: "row_order ord" using assms(1) by unfold_locales simp
  let ?w = "w\<lparr>iw_grant_no := Suc (iw_grant_no w)\<rparr>"
  let ?a = "rd_warehouseId dto" and ?b = "rd_variantId dto" and ?q = "rd_quantity dto"
  have "wp (reserve_body ord dto actor) ?w (\<lambda>_ _. False) (\<lambda>_ t. moved ?a ?b ?q ?w t \<and> iw_reservations t = iw_reservations ?w)"
    using assms(3-10) stock_ok_cong [of ?w w] assms(2)
    by (intro row_order.reserve_body_strands [OF o]) (simp_all add: findById_def stock_sum_def)
  then have "wp (reserve ord dto actor) w (\<lambda>_ _. False) (\<lambda>_ w'. moved ?a ?b ?q w w' \<and> iw_reservations w' = iw_reservations w)"
    unfolding reserve_def
  proof (intro wp_withLock, elim wp_mono, goal_cases)
    case (2 e t)
    then show ?case using moved_cong [of ?w w t "t\<lparr>iw_unlock_no := n, iw_log := l\<rparr>" for n l] by simp
  qed (use assms(7) in simp_all)
  then show ?thesis by (auto simp: wp_def moved_def split: prod.splits sum.splits)
qed

theorem reserve_unknown_cart_strands_stock_witness:
  "\<exists>e w'. reserve by_available (demo_reserve 4 (Some ''c9'')) None demo_world = (Inl e, w')
     \<and> iw_reservations w' = iw_reservations demo_world \<and> stock_sum iv_reserved ''w1'' ''v1'' w' = 9"
proof -
  let ?d = "demo_reserve 4 (Some ''c9'')"
  have "findById (rd_warehouseId ?d) demo_world \<noteq> None" "truthy_str (iw_grants demo_world (iw_grant_no demo_world))"
    "\<forall>r\<in>set (iw_rows demo_world). int4 (iv_available r) \<and> int4 (iv_reserved r + rd_quantity ?d)"
    by (simp_all add: demo_reserve_def demo_world_def demo_row_def findById_def truthy_str_def int4_def)
  from reserve_unknown_cart_strands_stock [OF by_available_mset demo_stock_ok this(1) _ _ this(3,2), of "''c9''" None] demo_sums
  show ?thesis by (simp add: demo_reserve_def demo_world_def)
qed

text \<open>
  C33: The status of a reservation is checked before the lock is taken and not again under it: when two
  requests to release the same reservation have both passed the check, the second also moves its
  quantity back, out of the stock that other reservations hold. The reserved stock falls by twice the
  quantity and the available stock rises by it, while the active reservations fall by it only once.
\<close>
theorem double_release_frees_foreign_stock:
  assumes "\<forall>rows. mset (ord rows) = mset rows" "stock_ok w" "release_check i w = (Inr r, w)"
    and "2 * rs_quantity r \<le> stock_sum iv_reserved (rs_warehouse_id r) (rs_variant_id r) w"
    and "release_locked ord i r actor1 w = (Inr x1, w1)" "release_locked ord i r actor2 w1 = (Inr x2, w2)"
  shows "stock_sum iv_reserved (rs_warehouse_id r) (rs_variant_id r) w2
      = stock_sum iv_reserved (rs_warehouse_id r) (rs_variant_id r) w - 2 * rs_quantity r
    \<and> stock_sum iv_available (rs_warehouse_id r) (rs_variant_id r) w2
      = stock_sum iv_available (rs_warehouse_id r) (rs_variant_id r) w + 2 * rs_quantity r
    \<and> reserved_by (rs_warehouse_id r) (rs_variant_id r) w2 = reserved_by (rs_warehouse_id r) (rs_variant_id r) w - rs_quantity r"
proof -
  have o: "row_order ord" using assms(1) by unfold_locales simp
  have r: "findReservation i w = Some r" "rs_status r = ''active''"
    using assms(3) by (auto simp: release_check_def split: option.splits if_splits)
  note held = reservation_backed [OF assms(2) r]
  have nn: "nonneg_rows (iw_rows w)" "distinct (map rs_id (iw_reservations w))" using assms(2) by (simp_all add: stock_ok_def)
  from wp_Inr [OF row_order.wp_release_locked [OF o nn(1) held(1,2)] assms(5)]
  have first: "released_less (rs_warehouse_id r) (rs_variant_id r) (rs_quantity r) i actor1 w w1" by blast
  note fall1 = reserved_by_released [OF nn(2) first held(4)]
  have "nonneg_rows (iw_rows w1)" "rs_quantity r \<le> stock_sum iv_reserved (rs_warehouse_id r) (rs_variant_id r) w1"
    using first assms(4) by (auto simp: released_less_def moved_def)
  from wp_Inr [OF row_order.wp_release_locked [OF o this(1) held(1) this(2)] assms(6)]
  have second: "released_less (rs_warehouse_id r) (rs_variant_id r) (rs_quantity r) i actor2 w1 w2" by blast
  have "distinct (map rs_id (iw_reservations w1))" using fall1(2) nn(2) by simp
  note fall2 = reserved_by_released(1) [OF this second fall1(3)]
  have "\<not> holding (rs_warehouse_id r) (rs_variant_id r) (mark_released actor1 r)" by (simp add: holding_def mark_released_def)
  then show ?thesis using first second held(3) fall1(1) fall2 by (simp add: released_less_def moved_def)
qed

theorem double_release_frees_foreign_stock_witness:
  "\<exists>x1 w1 x2 w2. release_locked by_available ''s1'' (demo_reservation ''s1'' 2) None demo_world = (Inr x1, w1)
     \<and> release_locked by_available ''s1'' (demo_reservation ''s1'' 2) None w1 = (Inr x2, w2)
     \<and> stock_sum iv_reserved ''w1'' ''v1'' w2 = 1 \<and> reserved_by ''w1'' ''v1'' w2 = 3"
proof -
  let ?r = "demo_reservation ''s1'' 2"
  let ?m = "release_locked by_available ''s1'' ?r None"
  have "wp (bindA ?m (\<lambda>_. ?m)) demo_world (\<lambda>_ _. True) (\<lambda>_ _. False)" by code_simp
  from wp_returns [OF this] obtain x2 w2 where "bindA ?m (\<lambda>_. ?m) demo_world = (Inr x2, w2)" by blast
  then obtain x1 w1 where m: "?m demo_world = (Inr x1, w1)" "?m w1 = (Inr x2, w2)"
    by (auto simp: bindA_def split: prod.splits sum.splits)
  have c: "release_check ''s1'' demo_world = (Inr ?r, demo_world)"
    by (simp add: release_check_def findReservation_def demo_world_def demo_reservation_def bindA_def readA_def returnA_def)
  have q: "rs_warehouse_id ?r = ''w1''" "rs_variant_id ?r = ''v1''" "rs_quantity ?r = 2" by (simp_all add: demo_reservation_def)
  then have "2 * rs_quantity ?r \<le> stock_sum iv_reserved (rs_warehouse_id ?r) (rs_variant_id ?r) demo_world" using demo_sums by simp
  from double_release_frees_foreign_stock [OF by_available_mset demo_stock_ok c this m] m demo_sums q show ?thesis by auto
qed

text \<open>
  The reason of an adjustment is checked by the database only after the stock row has been changed,
  and outside a transaction: an adjustment of an existing row whose reason is not one of the seven
  throws, and the available stock has changed by the delta with no adjustment and no movement on record.
\<close>
theorem adjust_unknown_reason_changes_stock:
  assumes "stock_ok w" "findById (ad_warehouseId dto) w \<noteq> None" "bin_in (ad_binId dto) (ad_warehouseId dto) w"
    and "findRow (ad_binId dto) (ad_variantId dto) w = Some r" "0 \<le> iv_available r + ad_quantityDelta dto"
    and "int4 (iv_available r + ad_quantityDelta dto)" "int4 (iv_reserved r)"
    and "ad_reason dto = Some reason" "reason \<notin> set ADJUSTMENT_REASONS" "truthy_str (iw_grants w (iw_grant_no w))"
  shows "\<exists>e w'. adjust ord dto actor w = (Inl e, w')
    \<and> variant_total (ad_variantId dto) w' = variant_total (ad_variantId dto) w + ad_quantityDelta dto
    \<and> iw_adjustments w' = iw_adjustments w \<and> iw_movements w' = iw_movements w"
proof -
  obtain h where h: "findById (ad_warehouseId dto) w = Some h" using assms(2) by blast
  have r: "r \<in> set (iw_rows w)" "iv_variant_id r = ad_variantId dto" "distinct (map iv_id (iw_rows w))" "0 \<le> iv_reserved r"
    using find_filter_some [OF assms(4) [unfolded findRow_def]] assms(1) by (auto simp: stock_ok_def nonneg_rows_def)
  from find_by_id [of iv_id, OF r(3,1)]
  have f: "find (\<lambda>x. iv_id x = iv_id r) (iw_rows w) = Some r" .
  have "sum_list (map iv_available (filter (\<lambda>x. iv_variant_id x = ad_variantId dto)
        (update_where (\<lambda>x. iv_id x = iv_id r) (add_available (ad_quantityDelta dto) d actor) (iw_rows w))))
      = variant_total (ad_variantId dto) w + ad_quantityDelta dto" for d
    using sum_update_key [OF r(3) f, of iv_available "\<lambda>x. iv_variant_id x = ad_variantId dto" "add_available (ad_quantityDelta dto) d actor"] r(2)
    by (simp add: variant_total_def add_available_def)
  moreover have "bin_in x y (w\<lparr>iw_grant_no := n\<rparr>) = bin_in x y w" "findRow x y (w\<lparr>iw_grant_no := n\<rparr>) = findRow x y w"
    "findById x (w\<lparr>iw_grant_no := n\<rparr>) = findById x w" for x y n
    by (simp_all add: bin_in_def findBin_def bin_warehouse_def findRow_def findById_def split: option.split)
  ultimately have "wp (adjust ord dto actor) w (\<lambda>_ _. False) (\<lambda>e w'.
      variant_total (ad_variantId dto) w' = variant_total (ad_variantId dto) w + ad_quantityDelta dto
      \<and> iw_adjustments w' = iw_adjustments w \<and> iw_movements w' = iw_movements w)"
    using assms h f r(4) unfolding adjust_def
    by (intro wp_withLock) (simp_all add: requireWarehouse_def stock_add_def createAdjustment_def variant_total_def add_available_def Let_def)
  then show ?thesis by (auto simp: wp_def split: prod.splits sum.splits)
qed

theorem adjust_unknown_reason_changes_stock_witness:
  "\<exists>e w'. adjust by_available (demo_adjust 5 ''gift'') None demo_world = (Inl e, w')
     \<and> variant_total ''v1'' w' = 15 \<and> iw_movements w' = []"
  using adjust_unknown_reason_changes_stock [OF demo_stock_ok, of "demo_adjust 5 ''gift''" demo_row "''gift''" by_available None] demo_sums
  by (auto simp: demo_adjust_def demo_world_def demo_row_def findById_def truthy_str_def int4_def findRow_def bin_in_def findBin_def
    bin_warehouse_def ADJUSTMENT_REASONS_def)

end
