(* ===== verification/Shop.thy ===== *)
theory Shop
  imports Inventory
begin

text \<open>
  The world that the orders and payments modules share: the tables of carts, orders and payments beside
  the inventory world, whose clock, random ids, cache, locks and lists of ids they use as well, the
  job queue, the published events, and the calls to the payment gateway.

  The answers of the gateway, of the queue and of \<open>Math.random()\<close> are sequences in the world, read one
  at a time; nothing is assumed of them. What the code only prints numbers with is the record
  \<open>js_text\<close>. Money columns round to cents (\<open>dec2\<close>) and refuse what does not fit them.
\<close>

section \<open>Tables\<close>

record payment_row =
  py_id :: string
  py_order_id :: string
  py_customer_id :: "string option"
  py_gateway_id :: string
  py_payment_method_id :: "string option"
  py_saved_method_id :: "string option"
  py_gateway_order_id :: "string option"
  py_gateway_payment_id :: "string option"
  py_gateway_signature :: "string option"
  py_amount :: rat
  py_currency :: string
  py_refunded_amount :: rat
  py_status :: string
  py_authorized_at :: "int option"
  py_captured_at :: "int option"
  py_failed_at :: "int option"
  py_created_at :: int
  py_updated_at :: int
  py_deleted_at :: "int option"
  py_created_by :: "string option"
  py_updated_by :: "string option"

record attempt_row =
  pa_payment_id :: string
  pa_customer_id :: "string option"
  pa_attempt_number :: int
  pa_gateway_response :: "json option"
  pa_error_message :: "string option"
  pa_status :: string
  pa_completed_at :: "int option"
  pa_deleted_at :: "int option"
  pa_created_by :: "string option"

record transaction_row =
  tx_payment_id :: string
  tx_type :: string
  tx_amount :: rat
  tx_currency :: string
  tx_gateway_reference :: "string option"
  tx_raw_response :: "json option"
  tx_created_by :: "string option"

record payment_audit_row =
  pu_payment_id :: string
  pu_action :: string
  pu_actor_id :: "string option"
  pu_from_status :: "string option"
  pu_to_status :: "string option"
  pu_metadata :: "json option"

record payment_event_row =
  pe_payment_id :: string
  pe_event :: string
  pe_payload :: "json option"

record webhook_row =
  wk_id :: string
  wk_gateway_id :: string
  wk_event_id :: "string option"
  wk_event_type :: string
  wk_idempotency_key :: "string option"
  wk_signature :: string
  wk_payload :: json
  wk_verified :: bool
  wk_processing_status :: string
  wk_retry_count :: int
  wk_processed_at :: "int option"
  wk_error_message :: "string option"
  wk_deleted_at :: "int option"

record refund_row =
  rf_id :: string
  rf_number :: string
  rf_payment_id :: string
  rf_order_id :: string
  rf_requested_by :: "string option"
  rf_type :: string
  rf_amount :: rat
  rf_currency :: string
  rf_reason_code :: "string option"
  rf_reason :: "string option"
  rf_gateway_refund_id :: "string option"
  rf_gateway_reference :: "string option"
  rf_status :: string
  rf_approved_at :: "int option"
  rf_processed_at :: "int option"
  rf_created_at :: int
  rf_deleted_at :: "int option"
  rf_created_by :: "string option"

record refund_item_row =
  ri_refund_id :: string
  ri_order_item_id :: "string option"
  ri_amount :: rat
  ri_quantity :: "int option"

record gateway_row =
  gw_id :: string
  gw_code :: string
  gw_is_primary :: bool
  gw_status :: string
  gw_deleted_at :: "int option"

record saved_method_row =
  sv_id :: string
  sv_customer_id :: string
  sv_gateway_id :: string
  sv_token :: string
  sv_brand :: "string option"
  sv_last_four :: "string option"
  sv_expiry_month :: "int option"
  sv_expiry_year :: "int option"
  sv_is_default :: bool
  sv_status :: string
  sv_created_at :: int
  sv_deleted_at :: "int option"

record order_row =
  or_id :: string
  or_number :: string
  or_customer_id :: "string option"
  or_cart_id :: "string option"
  or_warehouse_id :: "string option"
  or_currency :: string
  or_subtotal :: rat
  or_discount_total :: rat
  or_tax_total :: rat
  or_shipping_charge :: rat
  or_grand_total :: rat
  or_placed_at :: "int option"
  or_cancelled_at :: "int option"
  or_cancellation_reason_id :: "string option"
  or_status :: string
  or_created_at :: int
  or_deleted_at :: "int option"
  or_created_by :: "string option"
  or_updated_by :: "string option"

record order_item_row =
  oi_id :: string
  oi_order_id :: string
  oi_variant_id :: string
  oi_name :: string
  oi_sku :: string
  oi_quantity :: int
  oi_unit_price :: rat
  oi_line_total :: rat
  oi_deleted_at :: "int option"
  oi_created_by :: "string option"

record order_address_row =
  oa_id :: string
  oa_order_id :: string
  oa_type :: string
  oa_full_name :: string
  oa_phone :: "string option"
  oa_line1 :: string
  oa_line2 :: "string option"
  oa_city :: string
  oa_state :: string
  oa_country :: string
  oa_postal_code :: string
  oa_gstin :: "string option"
  oa_created_at :: int
  oa_deleted_at :: "int option"
  oa_created_by :: "string option"

record order_history_row =
  oh_order_id :: string
  oh_from_status :: "string option"
  oh_to_status :: string
  oh_note :: "string option"
  oh_changed_at :: int
  oh_created_by :: "string option"

record cart_row =
  ca_id :: string
  ca_user_id :: "string option"
  ca_session_key :: "string option"
  ca_currency :: string
  ca_status :: string
  ca_updated_at :: int
  ca_deleted_at :: "int option"
  ca_created_by :: "string option"

record cart_item_row =
  ci_id :: string
  ci_cart_id :: string
  ci_variant_id :: string
  ci_quantity :: int
  ci_unit_price :: rat
  ci_status :: string
  ci_created_at :: int
  ci_deleted_at :: "int option"
  ci_created_by :: "string option"

record wishlist_row =
  wl_id :: string
  wl_user_id :: string
  wl_name :: string
  wl_status :: string
  wl_deleted_at :: "int option"

record wishlist_item_row =
  wli_id :: string
  wli_wishlist_id :: string
  wli_variant_id :: string
  wli_status :: string
  wli_created_at :: int
  wli_deleted_at :: "int option"

record return_row =
  rt_id :: string
  rt_number :: string
  rt_order_id :: string
  rt_reason :: "string option"
  rt_status :: string
  rt_deleted_at :: "int option"
  rt_created_by :: "string option"

record return_item_row =
  rti_return_id :: string
  rti_order_item_id :: string
  rti_quantity :: int
  rti_reason :: "string option"

record exchange_row =
  ex_id :: string
  ex_number :: string
  ex_order_id :: string
  ex_order_item_id :: string
  ex_type :: string
  ex_from_variant_id :: string
  ex_to_variant_id :: "string option"
  ex_reason :: "string option"
  ex_state :: string
  ex_deleted_at :: "int option"
  ex_created_by :: "string option"

record fulfillment_row =
  fu_id :: string
  fu_number :: string
  fu_order_id :: string
  fu_warehouse_id :: string
  fu_status :: string
  fu_shipped_at :: "int option"
  fu_delivered_at :: "int option"
  fu_deleted_at :: "int option"
  fu_created_by :: "string option"

record fulfillment_item_row =
  fi_fulfillment_id :: string
  fi_order_item_id :: string
  fi_quantity :: int

text \<open>A pick list or a packing list.\<close>

record warehouse_list_row =
  wr_fulfillment_id :: string
  wr_number :: string
  wr_status :: string

record invoice_row =
  in_id :: string
  in_number :: string
  in_order_id :: string
  in_date :: int
  in_currency :: string
  in_subtotal :: rat
  in_discount_total :: rat
  in_shipping_charge :: rat
  in_grand_total :: rat
  in_status :: string
  in_deleted_at :: "int option"
  in_created_by :: "string option"

record invoice_item_row =
  ii_invoice_id :: string
  ii_order_item_id :: "string option"
  ii_variant_id :: string
  ii_description :: string
  ii_quantity :: int
  ii_unit_price :: rat
  ii_line_total :: rat

record variant_row =
  va_id :: string
  va_sku :: string
  va_sale_price :: rat
  va_status :: string
  va_deleted_at :: "int option"

record balance_row =
  ba_key :: string
  ba_balance :: rat
  ba_status :: string
  ba_deleted_at :: "int option"

record risk_score_row =
  rk_order_id :: string
  rk_score :: rat
  rk_level :: string

text \<open>Jobs of the payments queue and the events both modules publish.\<close>

datatype payment_job =
    WebhookJob string
  | RetryJob string string
  | RefundJob string string string
  | ReceiptEmailJob string string
  | SettlementSyncJob string

record payment_payload =
  pp_paymentId :: string
  pp_orderId :: string
  pp_amount :: rat
  pp_currency :: string
  pp_status :: string
  pp_gateway :: string

datatype shop_event =
    PaymentCreatedEvent payment_payload
  | PaymentPendingEvent payment_payload
  | PaymentAuthorizedEvent payment_payload
  | PaymentCapturedEvent payment_payload
  | PaymentFailedEvent payment_payload string
  | PaymentCancelledEvent payment_payload
  | PaymentRefundedEvent payment_payload string rat
  | PaymentPartiallyRefundedEvent payment_payload string rat
  | PaymentWebhookReceivedEvent string string
  | PaymentWebhookProcessedEvent string string "string option"
  | OrderCreatedEvent string string string
  | OrderConfirmedEvent string "string option"
  | OrderCancelledEvent string string "string option"
  | OrderReturnRequestedEvent string string string
  | OrderExchangeRequestedEvent string string string
  | OrderFulfillmentCreatedEvent string string string

text \<open>Calls to the gateway's HTTP interface, and its answers.\<close>

datatype razorpay_call =
    PostOrder jsobj
  | GetOrderPayments string
  | GetPayment string
  | PostCapture string jsobj
  | PostCancel string
  | PostRefund string jsobj

datatype http_body = JsonBody jsobj | OtherBody string

datatype http_answer = HttpResponse nat http_body | HttpFailed exn

record shop_world =
  sw_inv :: inv_world
  sw_payments :: "payment_row list"
  sw_attempts :: "attempt_row list"
  sw_transactions :: "transaction_row list"
  sw_payment_audit :: "payment_audit_row list"
  sw_payment_events :: "payment_event_row list"
  sw_webhooks :: "webhook_row list"
  sw_refunds :: "refund_row list"
  sw_refund_items :: "refund_item_row list"
  sw_gateways :: "gateway_row list"
  sw_payment_methods :: "string list"
  sw_saved_methods :: "saved_method_row list"
  sw_order_rows :: "order_row list"
  sw_order_items :: "order_item_row list"
  sw_order_addresses :: "order_address_row list"
  sw_order_history :: "order_history_row list"
  sw_cart_rows :: "cart_row list"
  sw_cart_items :: "cart_item_row list"
  sw_variant_rows :: "variant_row list"
  sw_gift_cards :: "balance_row list"
  sw_wallets :: "balance_row list"
  sw_risk_scores :: "risk_score_row list"
  sw_reasons :: "string list"
  sw_wishlists :: "wishlist_row list"
  sw_wishlist_items :: "wishlist_item_row list"
  sw_returns :: "return_row list"
  sw_return_items :: "return_item_row list"
  sw_exchanges :: "exchange_row list"
  sw_fulfillments :: "fulfillment_row list"
  sw_fulfillment_items :: "fulfillment_item_row list"
  sw_pick_lists :: "warehouse_list_row list"
  sw_packing_lists :: "warehouse_list_row list"
  sw_invoices :: "invoice_row list"
  sw_invoice_items :: "invoice_item_row list"
  sw_jobs :: "payment_job list"
  sw_queue :: "nat \<Rightarrow> string option"
  sw_queue_no :: nat
  sw_events :: "shop_event list"
  sw_calls :: "razorpay_call list"
  sw_http :: "nat \<Rightarrow> http_answer"
  sw_http_no :: nat
  sw_rand :: "nat \<Rightarrow> rat"
  sw_rand_no :: nat

type_synonym 'a shop_act = "(shop_world, 'a) act"

section \<open>The shared services\<close>

text \<open>An action of the inventory world, run in its part of the shop.\<close>

definition inI :: "'a inv_act \<Rightarrow> 'a shop_act" where
  "inI m = (\<lambda>w. case m (sw_inv w) of (r, i) \<Rightarrow> (r, w\<lparr>sw_inv := i\<rparr>))"

definition now :: "int shop_act" where
  "now = inI inv_now"

definition random_id :: "string shop_act" where
  "random_id = inI inv_uuid"

definition math_random :: "rat shop_act" where
  "math_random = (\<lambda>w. (Inr (sw_rand w (sw_rand_no w)), w\<lparr>sw_rand_no := Suc (sw_rand_no w)\<rparr>))"

definition emit :: "shop_event \<Rightarrow> unit shop_act" where
  "emit e = modifyA (\<lambda>w. w\<lparr>sw_events := sw_events w @ [e]\<rparr>)"

definition logA :: "string \<Rightarrow> unit shop_act" where
  "logA m = inI (modifyA (\<lambda>i. i\<lparr>iw_log := iw_log i @ [m]\<rparr>))"

definition enqueue :: "payment_job \<Rightarrow> unit shop_act" where
  "enqueue j = bindA (readA (\<lambda>w. sw_queue w (sw_queue_no w))) (\<lambda>answer.
     bindA (modifyA (\<lambda>w. w\<lparr>sw_queue_no := Suc (sw_queue_no w)\<rparr>)) (\<lambda>_.
     case answer of Some m \<Rightarrow> throwA (JsError m) | None \<Rightarrow> modifyA (\<lambda>w. w\<lparr>sw_jobs := sw_jobs w @ [j]\<rparr>)))"

text \<open>\<open>LockService.withLock\<close> around an action of the shop.\<close>

definition lockedA :: "string list \<Rightarrow> 'a shop_act \<Rightarrow> 'a shop_act" where
  "lockedA parts fn = (let resource = resourceKey parts in
     bindA (inI (lock_acquire resource)) (\<lambda>token.
     if \<not> truthy_str token then
       throwA (AppException ''LOCK_NOT_ACQUIRED'' (''Could not acquire lock for '' @ in_quotes resource) 409)
     else finallyA fn (bindA (inI (lock_release resource (the token))) (\<lambda>released.
       if released then returnA ()
       else logA (''Lock for '' @ in_quotes resource @ '' was not released (expired or stolen)'')))))"

definition cachedA :: "string \<Rightarrow> json shop_act \<Rightarrow> json shop_act" where
  "cachedA key factory = bindA (readA (\<lambda>w. iw_cache (sw_inv w) key)) (\<lambda>hit. case hit of
     Some v \<Rightarrow> returnA v
   | None \<Rightarrow> bindA factory (\<lambda>v.
       bindA (inI (modifyA (\<lambda>i. i\<lparr>iw_cache := (iw_cache i)(key \<mapsto> v)\<rparr>))) (\<lambda>_. returnA v)))"

definition uncacheA :: "string \<Rightarrow> unit shop_act" where
  "uncacheA key = inI (cache_del key)"

text \<open>Constraints of the tables: keys, foreign keys, checks, and what a money column can hold.\<close>

definition new_id :: "(shop_world \<Rightarrow> string list) \<Rightarrow> string shop_act" where
  "new_id ids = bindA random_id (\<lambda>i. bindA (readA (\<lambda>w. i \<in> set (ids w))) (\<lambda>dup.
     bindA (throwIf dup (prisma_error ''P2002'')) (\<lambda>_. returnA i)))"

definition constraint :: "string \<Rightarrow> (shop_world \<Rightarrow> bool) \<Rightarrow> unit shop_act" where
  "constraint code p = bindA (readA p) (\<lambda>good. throwIf (\<not> good) (prisma_error code))"

definition money_fits :: "rat \<Rightarrow> bool" where
  "money_fits x \<longleftrightarrow> \<bar>dec2 x\<bar> < 1000000000000"

text \<open>How numbers and dates print, and \<open>JSON.stringify\<close>.\<close>

record js_text =
  jt_num :: "rat \<Rightarrow> string"
  jt_date :: "int option \<Rightarrow> string"
  jt_json :: "json \<Rightarrow> string"
  jt_base36 :: "rat \<Rightarrow> string"

end
