(* ===== verification/Payment_Gateway.thy ===== *)
theory Payment_Gateway
  imports Shop
begin

text \<open>
  The gateway the payments module talks to: the interface \<open>PaymentProvider\<close>, its implementation for
  Razorpay (providers/razorpay.provider.ts) on the HTTP client of shared/http, and the interface as a
  locale: a provider touches nothing of the shop but the sequences it reads, its calls and the log.
\<close>

section \<open>Values of a JSON document\<close>

text \<open>\<open>v?.k\<close>, \<open>v ?? d\<close> and \<open>String(v)\<close>.\<close>

definition opt_prop :: "json \<Rightarrow> string \<Rightarrow> json" where
  "opt_prop v k = (case v of JObj ps \<Rightarrow> obj_get ps k | _ \<Rightarrow> JUndef)"

definition json_or :: "json \<Rightarrow> json \<Rightarrow> json" where
  "json_or v d = (if v = JUndef \<or> v = JNull then d else v)"

fun num_String :: "js_text \<Rightarrow> jsnum \<Rightarrow> string" where
  "num_String T (Fin x) = jt_num T x"
| "num_String T PInf = ''Infinity''"
| "num_String T NInf = ''-Infinity''"
| "num_String T NaN = ''NaN''"

fun comma_join :: "string list \<Rightarrow> string" where
  "comma_join [] = []"
| "comma_join [x] = x"
| "comma_join (x # xs) = x @ '','' @ comma_join xs"

fun js_String :: "js_text \<Rightarrow> json \<Rightarrow> string" where
  "js_String T JUndef = ''undefined''"
| "js_String T JNull = ''null''"
| "js_String T (JBool b) = (if b then ''true'' else ''false'')"
| "js_String T (JNum n) = num_String T n"
| "js_String T (JStr s) = s"
| "js_String T (JDate d) = jt_date T d"
| "js_String T (JArr xs) = comma_join (map (\<lambda>x. if x = JUndef \<or> x = JNull then [] else js_String T x) xs)"
| "js_String T (JObj ps) = ''[object Object]''"

text \<open>\<open>s.includes(p)\<close>, and the same without regard to case.\<close>

definition includes_str :: "string \<Rightarrow> string \<Rightarrow> bool" where
  "includes_str s p = list_ex (\<lambda>k. take (length p) (drop k s) = p) [0..<Suc (length s)]"

definition lower :: "string \<Rightarrow> string" where
  "lower s = map (\<lambda>c. if CHR ''A'' \<le> c \<and> c \<le> CHR ''Z'' then char_of (of_char c + 32 :: nat) else c) s"

section \<open>The interface (interfaces/payment-provider.interface.ts)\<close>

record gateway_order =
  go_id :: string
  go_raw :: jsobj

record authorize_result =
  az_payment_id :: string
  az_signature :: "string option"
  az_status :: string
  az_raw :: jsobj

record capture_result =
  cp_payment_id :: string
  cp_status :: string
  cp_raw :: jsobj

record cancel_result =
  cx_status :: string
  cx_raw :: jsobj

record refund_result =
  rr_refund_id :: string
  rr_status :: string
  rr_raw :: jsobj

record payment_provider =
  pv_code :: string
  pv_createOrder :: "rat \<Rightarrow> string \<Rightarrow> string \<Rightarrow> jsobj \<Rightarrow> gateway_order shop_act"
  pv_authorize :: "string \<Rightarrow> rat \<Rightarrow> string \<Rightarrow> authorize_result shop_act"
  pv_capture :: "string \<Rightarrow> rat \<Rightarrow> string \<Rightarrow> capture_result shop_act"
  pv_cancel :: "string option \<Rightarrow> string option \<Rightarrow> rat \<Rightarrow> string \<Rightarrow> cancel_result shop_act"
  pv_refund :: "string \<Rightarrow> rat \<Rightarrow> string \<Rightarrow> jsobj \<Rightarrow> refund_result shop_act"
  pv_verifyWebhookSignature :: "string \<Rightarrow> string \<Rightarrow> string \<Rightarrow> bool"

section \<open>HTTP (shared/http/fetch-with-timeout.ts)\<close>

definition http_fetch :: "http_answer shop_act" where
  "http_fetch = (\<lambda>w. (Inr (sw_http w (sw_http_no w)), w\<lparr>sw_http_no := Suc (sw_http_no w)\<rparr>))"

definition fetch_error :: "exn \<Rightarrow> exn" where
  "fetch_error e = (case e of FalsyThrow t \<Rightarrow> JsError (''fetch failed: '' @ t) | _ \<Rightarrow> e)"

text \<open>\<open>n\<close> retries are left; a timeout is a failed attempt.\<close>

fun fetchWithTimeout :: "nat \<Rightarrow> (nat \<times> http_body) shop_act" where
  "fetchWithTimeout 0 = bindA http_fetch (\<lambda>a. case a of
     HttpResponse st b \<Rightarrow> returnA (st, b) | HttpFailed e \<Rightarrow> throwA (fetch_error e))"
| "fetchWithTimeout (Suc n) = bindA http_fetch (\<lambda>a. case a of
     HttpResponse st b \<Rightarrow> if st \<ge> 500 \<or> st = 429 then fetchWithTimeout n else returnA (st, b)
   | HttpFailed e \<Rightarrow> fetchWithTimeout n)"

section \<open>Razorpay (providers/razorpay.provider.ts)\<close>

record payment_config =
  pc_mock :: bool
  pc_serverCapture :: bool
  pc_webhookSecret :: string

definition settleLocally :: "payment_config \<Rightarrow> bool" where
  "settleLocally cfg \<longleftrightarrow> pc_mock cfg \<or> pc_serverCapture cfg"

definition toPaise :: "rat \<Rightarrow> int" where
  "toPaise amount = js_round (amount * 100)"

text \<open>A failed response throws an error that carries the status.\<close>

definition request :: "js_text \<Rightarrow> razorpay_call \<Rightarrow> jsobj shop_act" where
  "request T call =
     bindA (modifyA (\<lambda>w. w\<lparr>sw_calls := sw_calls w @ [call]\<rparr>)) (\<lambda>_.
     bindA (fetchWithTimeout 2) (\<lambda>(st, body).
     let json = (case body of JsonBody ps \<Rightarrow> ps | OtherBody t \<Rightarrow> if t = [] then [] else [(''raw'', JStr t)]) in
     if 200 \<le> st \<and> st < 300 then returnA json
     else throwA (HttpError (js_String T (json_or (opt_prop (obj_get json ''error'') ''description'')
            (JStr (''Razorpay '' @ show_nat st)))) st)))"

text \<open>\<open>randomUUID().replace(/-/g, '').slice(0, 14)\<close>\<close>

definition mock_suffix :: "string shop_act" where
  "mock_suffix = bindA random_id (\<lambda>u. returnA (take 14 (filter (\<lambda>c. c \<noteq> CHR ''-'') u)))"

definition mockOrder :: "payment_config \<Rightarrow> rat \<Rightarrow> string \<Rightarrow> gateway_order shop_act" where
  "mockOrder cfg amount currency = bindA mock_suffix (\<lambda>s.
     let i = ''order_mock_'' @ s in
     returnA \<lparr>go_id = i, go_raw = [(''id'', JStr i), (''amount'', JInt (toPaise amount)), (''currency'', JStr currency),
       (''status'', JStr ''created''), (''mock'', JBool True), (''serverCapture'', JBool (pc_serverCapture cfg))]\<rparr>)"

definition rz_createOrder :: "js_text \<Rightarrow> payment_config \<Rightarrow> rat \<Rightarrow> string \<Rightarrow> string \<Rightarrow> jsobj \<Rightarrow> gateway_order shop_act" where
  "rz_createOrder T cfg amount currency receipt notes =
     (if settleLocally cfg then mockOrder cfg amount currency
      else catchA (bindA (request T (PostOrder [(''amount'', JInt (toPaise amount)), (''currency'', JStr currency),
            (''receipt'', JStr (take 40 receipt)), (''notes'', JObj notes)])) (\<lambda>raw.
          returnA \<lparr>go_id = js_String T (obj_get raw ''id''), go_raw = raw\<rparr>))
        (\<lambda>e. if includes_str (lower (errMsg e)) ''authentication failed'' then
            bindA (logA (''Razorpay createOrder auth failed ('' @ errMsg e
              @ ''); falling back to mock order. Fix RAZORPAY_KEY_ID/SECRET.'')) (\<lambda>_. mockOrder cfg amount currency)
          else throwA e))"

definition rz_authorize :: "js_text \<Rightarrow> payment_config \<Rightarrow> string \<Rightarrow> rat \<Rightarrow> string \<Rightarrow> authorize_result shop_act" where
  "rz_authorize T cfg gatewayOrderId amount currency =
     (if settleLocally cfg then
        bindA mock_suffix (\<lambda>s. bindA random_id (\<lambda>u.
        let i = ''pay_mock_'' @ s in
        returnA \<lparr>az_payment_id = i, az_signature = Some (''sig_mock_'' @ take 8 u), az_status = ''authorized'',
          az_raw = [(''id'', JStr i), (''order_id'', JStr gatewayOrderId), (''status'', JStr ''authorized''),
            (''amount'', JInt (toPaise amount)), (''mock'', JBool True)]\<rparr>))
      else bindA (request T (GetOrderPayments gatewayOrderId)) (\<lambda>raw.
        bindA (case json_or (obj_get raw ''items'') (JArr []) of JArr xs \<Rightarrow> returnA xs
           | _ \<Rightarrow> throwA (JsError ''items.find is not a function'')) (\<lambda>items.
        case find (\<lambda>p. js_String T (opt_prop p ''status'') \<in> {''authorized'', ''captured''}) items of
          None \<Rightarrow> returnA \<lparr>az_payment_id = [], az_signature = None, az_status = ''pending'', az_raw = raw\<rparr>
        | Some paid \<Rightarrow> returnA \<lparr>az_payment_id = js_String T (opt_prop paid ''id''), az_signature = None, az_status = ''authorized'',
            az_raw = (case paid of JObj ps \<Rightarrow> ps | _ \<Rightarrow> [])\<rparr>)))"

definition rz_capture :: "js_text \<Rightarrow> payment_config \<Rightarrow> string \<Rightarrow> rat \<Rightarrow> string \<Rightarrow> capture_result shop_act" where
  "rz_capture T cfg gatewayPaymentId amount currency =
     (if settleLocally cfg then
        returnA \<lparr>cp_payment_id = gatewayPaymentId, cp_status = ''captured'',
          cp_raw = [(''id'', JStr gatewayPaymentId), (''status'', JStr ''captured''), (''amount'', JInt (toPaise amount)),
            (''mock'', JBool True), (''serverCapture'', JBool (pc_serverCapture cfg))]\<rparr>
      else bindA (request T (GetPayment gatewayPaymentId)) (\<lambda>existing.
        if js_String T (obj_get existing ''status'') = ''captured'' then
          returnA \<lparr>cp_payment_id = js_String T (obj_get existing ''id''), cp_status = ''captured'', cp_raw = existing\<rparr>
        else bindA (request T (PostCapture gatewayPaymentId [(''amount'', JInt (toPaise amount)), (''currency'', JStr currency)])) (\<lambda>raw.
          returnA \<lparr>cp_payment_id = js_String T (obj_get raw ''id''),
            cp_status = (if js_String T (obj_get raw ''status'') = ''captured'' then ''captured'' else ''failed''), cp_raw = raw\<rparr>)))"

definition rz_cancel ::
  "js_text \<Rightarrow> payment_config \<Rightarrow> string option \<Rightarrow> string option \<Rightarrow> rat \<Rightarrow> string \<Rightarrow> cancel_result shop_act" where
  "rz_cancel T cfg gatewayPaymentId gatewayOrderId amount currency =
     (let voided = returnA \<lparr>cx_status = ''voided'', cx_raw = [(''note'', JStr ''order left uncaptured'')]\<rparr> in
      if settleLocally cfg then
        returnA \<lparr>cx_status = ''cancelled'', cx_raw = [(''mock'', JBool True),
          (''gatewayPaymentId'', case gatewayPaymentId of None \<Rightarrow> JUndef | Some i \<Rightarrow> JStr i)]\<rparr>
      else if truthy_str gatewayPaymentId then
        catchA (bindA (request T (PostCancel (the gatewayPaymentId))) (\<lambda>raw. returnA \<lparr>cx_status = ''cancelled'', cx_raw = raw\<rparr>))
          (\<lambda>e. bindA (logA (''cancel payment failed: '' @ show_exn e)) (\<lambda>_. voided))
      else voided)"

definition rz_refund :: "js_text \<Rightarrow> payment_config \<Rightarrow> string \<Rightarrow> rat \<Rightarrow> string \<Rightarrow> jsobj \<Rightarrow> refund_result shop_act" where
  "rz_refund T cfg gatewayPaymentId amount currency notes =
     (if settleLocally cfg then bindA mock_suffix (\<lambda>s.
        let i = ''rfnd_mock_'' @ s in
        returnA \<lparr>rr_refund_id = i, rr_status = ''processed'', rr_raw = [(''id'', JStr i), (''payment_id'', JStr gatewayPaymentId),
          (''amount'', JInt (toPaise amount)), (''status'', JStr ''processed''), (''mock'', JBool True)]\<rparr>)
      else bindA (request T (PostRefund gatewayPaymentId [(''amount'', JInt (toPaise amount)), (''notes'', JObj notes)])) (\<lambda>raw.
        let st = js_String T (obj_get raw ''status'') in
        returnA \<lparr>rr_refund_id = js_String T (obj_get raw ''id''),
          rr_status = (if st = ''processed'' \<or> st = ''completed'' then ''processed'' else if st = ''failed'' then ''failed'' else ''pending''),
          rr_raw = raw\<rparr>))"

text \<open>The key-hash of \<open>createHmac\<close> is the parameter \<open>hmac\<close>: the secret and the body give the hex digest.\<close>

definition rz_verify :: "(string \<Rightarrow> string \<Rightarrow> string) \<Rightarrow> payment_config \<Rightarrow> string \<Rightarrow> string \<Rightarrow> string \<Rightarrow> bool" where
  "rz_verify hmac cfg rawBody signature secret0 =
     (let secret = (if secret0 \<noteq> [] then secret0 else pc_webhookSecret cfg) in
      if settleLocally cfg \<and> secret = [] then True
      else if secret = [] \<or> signature = [] then False
      else hmac secret rawBody = signature)"

definition RazorpayProvider :: "js_text \<Rightarrow> (string \<Rightarrow> string \<Rightarrow> string) \<Rightarrow> payment_config \<Rightarrow> payment_provider" where
  "RazorpayProvider T hmac cfg =
     \<lparr>pv_code = ''razorpay'', pv_createOrder = rz_createOrder T cfg, pv_authorize = rz_authorize T cfg,
      pv_capture = rz_capture T cfg, pv_cancel = rz_cancel T cfg, pv_refund = rz_refund T cfg,
      pv_verifyWebhookSignature = rz_verify hmac cfg\<rparr>"

section \<open>The interface as a contract\<close>

text \<open>The shop without what a provider may change: the random ids drawn, the log, the calls made.\<close>

definition tables :: "shop_world \<Rightarrow> shop_world" where
  "tables w = w\<lparr>sw_inv := (sw_inv w)\<lparr>iw_uuids := 0, iw_log := []\<rparr>, sw_calls := [], sw_http_no := 0\<rparr>"

lemma preserves_via: "preserves tables m \<Longrightarrow> (\<And>w. f (tables w) = f w) \<Longrightarrow> preserves f m"
  unfolding preserves_def by metis

lemma wp_inI [simp]: "wp (inI m) w Q E = wp m (sw_inv w) (\<lambda>x i. Q x (w\<lparr>sw_inv := i\<rparr>)) (\<lambda>e i. E e (w\<lparr>sw_inv := i\<rparr>))"
  by (auto simp: wp_def inI_def split: prod.splits sum.splits)

lemma preserves_inI: "preserves g m \<Longrightarrow> (\<And>w i. g i = g (sw_inv w) \<Longrightarrow> f (w\<lparr>sw_inv := i\<rparr>) = f w) \<Longrightarrow> preserves f (inI m)"
  by (auto simp: preserves_def inI_def split: prod.splits) (metis snd_conv)

lemma preserves_catchA [intro]: "preserves f m \<Longrightarrow> (\<And>e. preserves f (h e)) \<Longrightarrow> preserves f (catchA m h)"
  by (auto simp: preserves_def catchA_def split: prod.splits sum.splits) (metis snd_conv)+

lemma preserves_random_id [simp]: "preserves tables random_id"
  by (simp add: preserves_def random_id_def inI_def inv_uuid_def tables_def)

lemma preserves_logA [simp]: "preserves tables (logA m)"
  by (simp add: preserves_def logA_def inI_def tables_def)

lemma preserves_http_fetch [simp]: "preserves tables http_fetch"
  by (simp add: preserves_def http_fetch_def tables_def)

lemma preserves_fetchWithTimeout [simp]: "preserves tables (fetchWithTimeout n)"
  by (induction n) (auto intro!: preserves_bindA split: http_answer.split)

lemma preserves_request [simp]: "preserves tables (request T c)"
  unfolding request_def Let_def
  by (intro preserves_bindA preserves_modifyA) (auto simp: tables_def split: prod.split)

lemma preserves_mock_suffix [simp]: "preserves tables mock_suffix"
  unfolding mock_suffix_def by (intro preserves_bindA) simp_all

lemma preserves_mockOrder [simp]: "preserves tables (mockOrder cfg a c)"
  unfolding mockOrder_def Let_def by (intro preserves_bindA) simp_all

locale provider_contract =
  fixes P :: payment_provider
  assumes createOrder_frame: "preserves tables (pv_createOrder P a c r n)"
    and authorize_frame: "preserves tables (pv_authorize P i a c)"
    and capture_frame: "preserves tables (pv_capture P i a c)"
    and cancel_frame: "preserves tables (pv_cancel P x y a c)"
    and refund_frame: "preserves tables (pv_refund P i a c n)"

interpretation razorpay: provider_contract "RazorpayProvider T hmac cfg"
proof
  let ?P = "RazorpayProvider T hmac cfg"
  show "preserves tables (pv_createOrder ?P a c r n)" for a c r n
    by (auto simp: RazorpayProvider_def rz_createOrder_def intro!: preserves_catchA preserves_bindA)
  show "preserves tables (pv_authorize ?P i a c)" for i a c
    by (auto simp: RazorpayProvider_def rz_authorize_def Let_def intro!: preserves_bindA preserves_case_option split: json.split)
  show "preserves tables (pv_capture ?P i a c)" for i a c
    by (auto simp: RazorpayProvider_def rz_capture_def intro!: preserves_bindA)
  show "preserves tables (pv_cancel ?P x y a c)" for x y a c
    by (auto simp: RazorpayProvider_def rz_cancel_def Let_def intro!: preserves_catchA preserves_bindA)
  show "preserves tables (pv_refund ?P i a c n)" for i a c n
    by (auto simp: RazorpayProvider_def rz_refund_def Let_def intro!: preserves_bindA)
qed

end
