(* ===== verification/Payments.thy ===== *)
theory Payments
  imports Payment_Gateway
begin

text \<open>
  The payments module (modules/payments): the status graph, the repositories, PaymentsService,
  RefundService, WebhookService and the worker of the payments queue, every operation that changes
  state. \<open>findFirst\<close> takes the first matching row of the table; where the source orders rows, the
  order is a parameter.
\<close>

section \<open>The status graph (validators/payment-state.validator.ts)\<close>

definition ALLOWED_PAYMENT :: "(string \<times> string list) list" where
  "ALLOWED_PAYMENT =
     [(''pending'', [''authorized'', ''captured'', ''failed'', ''cancelled'', ''expired'']),
      (''authorized'', [''captured'', ''cancelled'', ''failed'']),
      (''captured'', [''refunded'', ''partially_refunded'', ''chargeback'']),
      (''partially_refunded'', [''refunded'', ''partially_refunded'', ''chargeback'']),
      (''failed'', [''pending'', ''cancelled'']),
      (''cancelled'', []),
      (''expired'', []),
      (''refunded'', [''chargeback'']),
      (''chargeback'', [])]"

definition allowed_payment :: "string \<Rightarrow> string \<Rightarrow> bool" where
  "allowed_payment x y \<longleftrightarrow> y \<in> set (nullish (map_of ALLOWED_PAYMENT x) [])"

definition assertPaymentTransition :: "string \<Rightarrow> string \<Rightarrow> unit shop_act" where
  "assertPaymentTransition x y = throwIf (\<not> allowed_payment x y)
     (AppException ''CONFLICT'' (''Invalid payment transition '' @ x @ '' '' @ arrow @ '' '' @ y) 409)"

section \<open>Views (mappers/payment.mapper.ts)\<close>

record payment_view =
  pw_id :: string
  pw_orderId :: string
  pw_customerId :: "string option"
  pw_gatewayId :: string
  pw_gatewayCode :: "string option"
  pw_paymentMethodId :: "string option"
  pw_amount :: rat
  pw_currency :: string
  pw_refundedAmount :: rat
  pw_status :: string
  pw_gatewayOrderId :: "string option"
  pw_gatewayPaymentId :: "string option"
  pw_authorizedAt :: "int option"
  pw_capturedAt :: "int option"
  pw_failedAt :: "int option"
  pw_createdAt :: int
  pw_updatedAt :: int

definition mapPayment :: "gateway_row list \<Rightarrow> payment_row \<Rightarrow> payment_view" where
  "mapPayment gws p = \<lparr>pw_id = py_id p, pw_orderId = py_order_id p, pw_customerId = py_customer_id p,
     pw_gatewayId = py_gateway_id p, pw_gatewayCode = map_option gw_code (find (\<lambda>g. gw_id g = py_gateway_id p) gws),
     pw_paymentMethodId = py_payment_method_id p, pw_amount = py_amount p, pw_currency = py_currency p,
     pw_refundedAmount = py_refunded_amount p, pw_status = py_status p, pw_gatewayOrderId = py_gateway_order_id p,
     pw_gatewayPaymentId = py_gateway_payment_id p, pw_authorizedAt = py_authorized_at p, pw_capturedAt = py_captured_at p,
     pw_failedAt = py_failed_at p, pw_createdAt = py_created_at p, pw_updatedAt = py_updated_at p\<rparr>"

definition viewA :: "payment_row \<Rightarrow> payment_view shop_act" where
  "viewA p = readA (\<lambda>w. mapPayment (sw_gateways w) p)"

text \<open>The view as the cache keeps it.\<close>

definition jopt :: "('a \<Rightarrow> json) \<Rightarrow> 'a option \<Rightarrow> json" where
  "jopt f x = (case x of None \<Rightarrow> JNull | Some v \<Rightarrow> f v)"

definition view_json :: "js_text \<Rightarrow> payment_view \<Rightarrow> json" where
  "view_json T v = (let date = (\<lambda>t. JStr (jt_date T (Some t))) in JObj
     [(''id'', JStr (pw_id v)), (''orderId'', JStr (pw_orderId v)), (''customerId'', jopt JStr (pw_customerId v)),
      (''gatewayId'', JStr (pw_gatewayId v)), (''gatewayCode'', jopt JStr (pw_gatewayCode v)),
      (''paymentMethodId'', jopt JStr (pw_paymentMethodId v)), (''amount'', JNum (Fin (pw_amount v))),
      (''currency'', JStr (pw_currency v)), (''refundedAmount'', JNum (Fin (pw_refundedAmount v))),
      (''status'', JStr (pw_status v)), (''gatewayOrderId'', jopt JStr (pw_gatewayOrderId v)),
      (''gatewayPaymentId'', jopt JStr (pw_gatewayPaymentId v)), (''authorizedAt'', jopt date (pw_authorizedAt v)),
      (''capturedAt'', jopt date (pw_capturedAt v)), (''failedAt'', jopt date (pw_failedAt v)),
      (''createdAt'', date (pw_createdAt v)), (''updatedAt'', date (pw_updatedAt v))])"

definition mapSavedMethod :: "js_text \<Rightarrow> saved_method_row \<Rightarrow> json" where
  "mapSavedMethod T m = JObj [(''id'', JStr (sv_id m)), (''gatewayId'', JStr (sv_gateway_id m)), (''brand'', jopt JStr (sv_brand m)),
     (''lastFour'', jopt JStr (sv_last_four m)), (''expiryMonth'', jopt JInt (sv_expiry_month m)),
     (''expiryYear'', jopt JInt (sv_expiry_year m)), (''isDefault'', JBool (sv_is_default m)),
     (''status'', JStr (sv_status m)), (''createdAt'', JStr (jt_date T (Some (sv_created_at m))))]"

section \<open>Repositories\<close>

definition findPayment :: "string \<Rightarrow> shop_world \<Rightarrow> payment_row option" where
  "findPayment i w = find (\<lambda>p. py_id p = i \<and> py_deleted_at p = None) (sw_payments w)"

definition findByOrderId :: "(payment_row list \<Rightarrow> payment_row list) \<Rightarrow> string \<Rightarrow> shop_world \<Rightarrow> payment_row list" where
  "findByOrderId ord orderId w = ord (filter (\<lambda>p. py_order_id p = orderId \<and> py_deleted_at p = None) (sw_payments w))"

definition findByGatewayPaymentId :: "string \<Rightarrow> shop_world \<Rightarrow> payment_row option" where
  "findByGatewayPaymentId i w = find (\<lambda>p. py_gateway_payment_id p = Some i \<and> py_deleted_at p = None) (sw_payments w)"

definition findByGatewayOrderId :: "string \<Rightarrow> shop_world \<Rightarrow> payment_row option" where
  "findByGatewayOrderId i w = find (\<lambda>p. py_gateway_order_id p = Some i \<and> py_deleted_at p = None) (sw_payments w)"

definition findPrimaryGateway :: "shop_world \<Rightarrow> gateway_row option" where
  "findPrimaryGateway w = find (\<lambda>g. gw_is_primary g \<and> gw_status g = ''active'' \<and> gw_deleted_at g = None) (sw_gateways w)"

definition findGatewayByCode :: "string \<Rightarrow> shop_world \<Rightarrow> gateway_row option" where
  "findGatewayByCode c w = find (\<lambda>g. gw_code g = c \<and> gw_status g = ''active'' \<and> gw_deleted_at g = None) (sw_gateways w)"

definition findOrder :: "string \<Rightarrow> shop_world \<Rightarrow> order_row option" where
  "findOrder i w = find (\<lambda>r. or_id r = i \<and> or_deleted_at r = None) (sw_order_rows w)"

text \<open>What the table asks of a payment row (016_payments.sql, 017_payment_indexes.sql).\<close>

definition payment_row_ok :: "payment_row \<Rightarrow> payment_row list \<Rightarrow> bool" where
  "payment_row_ok p rows \<longleftrightarrow> 0 \<le> py_amount p \<and> 0 \<le> py_refunded_amount p \<and> py_refunded_amount p \<le> py_amount p
     \<and> money_fits (py_amount p)
     \<and> (py_gateway_payment_id p = None \<or> py_deleted_at p \<noteq> None \<or> \<not> list_ex (\<lambda>q. py_id q \<noteq> py_id p
          \<and> py_gateway_payment_id q = py_gateway_payment_id p \<and> py_deleted_at q = None) rows)"

text \<open>\<open>payment.update\<close>: the client stamps \<open>updated_at\<close> unless the data gives it.\<close>

definition payment_update :: "string \<Rightarrow> (payment_row \<Rightarrow> payment_row) \<Rightarrow> payment_row shop_act" where
  "payment_update i f =
     bindA (readA (\<lambda>w. find (\<lambda>p. py_id p = i) (sw_payments w))) (\<lambda>found.
     bindA (row_or_throw found) (\<lambda>p.
     bindA now (\<lambda>t.
     let g = (\<lambda>p. f (p\<lparr>py_updated_at := t\<rparr>)) in
     bindA (constraint ''23514'' (\<lambda>w. payment_row_ok (g p) (sw_payments w))) (\<lambda>_.
     bindA (modifyA (\<lambda>w. w\<lparr>sw_payments := update_where (\<lambda>p. py_id p = i) g (sw_payments w)\<rparr>)) (\<lambda>_.
     returnA (g p))))))"

definition payment_create :: "(string \<Rightarrow> int \<Rightarrow> payment_row) \<Rightarrow> payment_row shop_act" where
  "payment_create mk =
     bindA (new_id (\<lambda>w. map py_id (sw_payments w))) (\<lambda>i.
     bindA now (\<lambda>t.
     let p = mk i t in
     bindA (constraint ''P2003'' (\<lambda>w. py_order_id p \<in> set (map or_id (sw_order_rows w)) \<and> fk_ok (py_customer_id p) (iw_users (sw_inv w))
       \<and> py_gateway_id p \<in> set (map gw_id (sw_gateways w)) \<and> fk_ok (py_payment_method_id p) (sw_payment_methods w)
       \<and> fk_ok (py_saved_method_id p) (map sv_id (sw_saved_methods w)))) (\<lambda>_.
     bindA (constraint ''23514'' (\<lambda>w. payment_row_ok p (sw_payments w))) (\<lambda>_.
     bindA (modifyA (\<lambda>w. w\<lparr>sw_payments := sw_payments w @ [p]\<rparr>)) (\<lambda>_. returnA p)))))"

definition payment_ids :: "shop_world \<Rightarrow> string list" where
  "payment_ids w = map py_id (sw_payments w)"

definition nextAttemptNumber :: "string \<Rightarrow> shop_world \<Rightarrow> int" where
  "nextAttemptNumber i w = fold max (map pa_attempt_number
     (filter (\<lambda>a. pa_payment_id a = i \<and> pa_deleted_at a = None) (sw_attempts w))) 0 + 1"

definition createAttempt ::
  "payment_row \<Rightarrow> int \<Rightarrow> json option \<Rightarrow> string option \<Rightarrow> string \<Rightarrow> string option \<Rightarrow> unit shop_act" where
  "createAttempt p n response message st actor =
     bindA now (\<lambda>t.
     bindA (constraint ''P2003'' (\<lambda>w. py_id p \<in> set (payment_ids w))) (\<lambda>_.
     bindA (constraint ''P2002'' (\<lambda>w. \<not> list_ex (\<lambda>a. pa_payment_id a = py_id p \<and> pa_attempt_number a = n
       \<and> pa_deleted_at a = None) (sw_attempts w))) (\<lambda>_.
     modifyA (\<lambda>w. w\<lparr>sw_attempts := sw_attempts w @ [\<lparr>pa_payment_id = py_id p, pa_customer_id = py_customer_id p,
       pa_attempt_number = n, pa_gateway_response = response, pa_error_message = message, pa_status = st,
       pa_completed_at = Some t, pa_deleted_at = None, pa_created_by = actor\<rparr>]\<rparr>))))"

definition createTransaction ::
  "string \<Rightarrow> string \<Rightarrow> rat \<Rightarrow> string \<Rightarrow> string option \<Rightarrow> json option \<Rightarrow> string option \<Rightarrow> unit shop_act" where
  "createTransaction i kind amount currency reference raw actor =
     bindA (constraint ''P2003'' (\<lambda>w. i \<in> set (payment_ids w))) (\<lambda>_.
     bindA (constraint ''23514'' (\<lambda>_. 0 \<le> dec2 amount \<and> money_fits amount)) (\<lambda>_.
     modifyA (\<lambda>w. w\<lparr>sw_transactions := sw_transactions w @ [\<lparr>tx_payment_id = i, tx_type = kind, tx_amount = dec2 amount,
       tx_currency = currency, tx_gateway_reference = reference, tx_raw_response = raw, tx_created_by = actor\<rparr>]\<rparr>)))"

definition createPaymentEvent :: "string \<Rightarrow> string \<Rightarrow> json option \<Rightarrow> unit shop_act" where
  "createPaymentEvent i event payload =
     bindA (constraint ''P2003'' (\<lambda>w. i \<in> set (payment_ids w))) (\<lambda>_.
     modifyA (\<lambda>w. w\<lparr>sw_payment_events := sw_payment_events w @ [\<lparr>pe_payment_id = i, pe_event = event, pe_payload = payload\<rparr>]\<rparr>))"

definition createAudit ::
  "string \<Rightarrow> string \<Rightarrow> string option \<Rightarrow> string option \<Rightarrow> string option \<Rightarrow> json option \<Rightarrow> unit shop_act" where
  "createAudit i action actor x y metadata =
     bindA (constraint ''P2003'' (\<lambda>w. i \<in> set (payment_ids w))) (\<lambda>_.
     modifyA (\<lambda>w. w\<lparr>sw_payment_audit := sw_payment_audit w @ [\<lparr>pu_payment_id = i, pu_action = action, pu_actor_id = actor,
       pu_from_status = x, pu_to_status = y, pu_metadata = metadata\<rparr>]\<rparr>))"

definition invalidatePayment :: "string \<Rightarrow> string \<Rightarrow> unit shop_act" where
  "invalidatePayment i orderId =
     bindA (uncacheA (''payments:status:'' @ i)) (\<lambda>_.
     if orderId \<noteq> [] then uncacheA (''payments:order:'' @ orderId) else returnA ())"

definition invalidateSaved :: "string \<Rightarrow> unit shop_act" where
  "invalidateSaved customerId = uncacheA (''payments:saved:'' @ customerId)"

section \<open>PaymentsService (services/payments.service.ts)\<close>

text \<open>What the services are given: the provider, the configuration, the correlation id of the request.\<close>

record pay_env =
  px_provider :: payment_provider
  px_config :: payment_config
  px_text :: js_text
  px_correlationId :: "string option"

record create_payment_dto =
  cpd_orderId :: string
  cpd_amount :: rat
  cpd_currency :: "string option"
  cpd_paymentMethodId :: "string option"
  cpd_savedPaymentMethodId :: "string option"

definition retryable :: "exn \<Rightarrow> bool" where
  "retryable e = (case e of HttpError m st \<Rightarrow> st \<ge> 500 \<or> st = 429 | AppException c m st \<Rightarrow> st \<ge> 500 | _ \<Rightarrow> False)"

text \<open>\<open>n\<close> attempts are left after the next one; waiting only lets time pass.\<close>

fun withRetry :: "nat \<Rightarrow> 'a shop_act \<Rightarrow> 'a shop_act" where
  "withRetry 0 fn = fn"
| "withRetry (Suc n) fn = catchA fn (\<lambda>e. if retryable e then withRetry n fn else throwA e)"

definition assertCanAccess :: "string option \<Rightarrow> string \<Rightarrow> unit shop_act" where
  "assertCanAccess customerId actorId = throwIf (truthy_str customerId \<and> customerId \<noteq> Some actorId)
     (ForbiddenException ''Not your payment'')"

definition assertAdminOrOwner :: "string \<Rightarrow> string \<Rightarrow> unit shop_act" where
  "assertAdminOrOwner actorId ownerId = throwIf (actorId \<noteq> ownerId) (ForbiddenException ''Order ownership required'')"

definition requirePayment :: "string \<Rightarrow> payment_row shop_act" where
  "requirePayment i = bindA (readA (findPayment i)) (\<lambda>x. case x of
     None \<Rightarrow> throwA (AppException ''NOT_FOUND'' ''Payment not found'' 404) | Some p \<Rightarrow> returnA p)"

definition payload_of :: "pay_env \<Rightarrow> payment_row \<Rightarrow> string \<Rightarrow> payment_payload" where
  "payload_of env p st = \<lparr>pp_paymentId = py_id p, pp_orderId = py_order_id p, pp_amount = py_amount p,
     pp_currency = py_currency p, pp_status = st, pp_gateway = pv_code (px_provider env)\<rparr>"

definition create_payment :: "pay_env \<Rightarrow> string \<Rightarrow> create_payment_dto \<Rightarrow> payment_view shop_act" where
  "create_payment env actorId dto =
     bindA (readA (findOrder (cpd_orderId dto))) (\<lambda>found. case found of
       None \<Rightarrow> throwA (AppException ''NOT_FOUND'' ''Order not found'' 404)
     | Some order \<Rightarrow>
       bindA (if truthy_str (or_customer_id order) \<and> or_customer_id order \<noteq> Some actorId
         then assertAdminOrOwner actorId (the (or_customer_id order)) else returnA ()) (\<lambda>_.
       bindA (throwIf (cpd_amount dto < 0) (AppException ''BAD_REQUEST'' ''Invalid amount'' 400)) (\<lambda>_.
       bindA (readA (\<lambda>w. case findPrimaryGateway w of Some g \<Rightarrow> Some g | None \<Rightarrow> findGatewayByCode ''razorpay'' w)) (\<lambda>gw. case gw of
         None \<Rightarrow> throwA (AppException ''INTERNAL_ERROR'' ''Payment gateway unavailable'' 503)
       | Some gateway \<Rightarrow>
         let currency = nullish (cpd_currency dto) ''INR'';
             receipt = take 40 (''ord_'' @ or_number order) in
         bindA (withRetry 2 (pv_createOrder (px_provider env) (cpd_amount dto) currency receipt
           [(''orderId'', JStr (or_id order)), (''correlationId'', JStr (nullish (px_correlationId env) []))])) (\<lambda>gwOrder.
         bindA (payment_create (\<lambda>i t. \<lparr>py_id = i, py_order_id = or_id order,
           py_customer_id = Some (nullish (or_customer_id order) actorId), py_gateway_id = gw_id gateway,
           py_payment_method_id = cpd_paymentMethodId dto, py_saved_method_id = cpd_savedPaymentMethodId dto,
           py_gateway_order_id = Some (go_id gwOrder), py_gateway_payment_id = None, py_gateway_signature = None,
           py_amount = dec2 (cpd_amount dto), py_currency = currency, py_refunded_amount = 0, py_status = ''pending'',
           py_authorized_at = None, py_captured_at = None, py_failed_at = None, py_created_at = t, py_updated_at = t,
           py_deleted_at = None, py_created_by = Some actorId, py_updated_by = Some actorId\<rparr>)) (\<lambda>p.
         bindA (createAttempt p 1 (Some (JObj (go_raw gwOrder))) None ''pending'' (Some actorId)) (\<lambda>_.
         let meta = JObj [(''gatewayOrderId'', JStr (go_id gwOrder))] in
         bindA (createAudit (py_id p) ''create'' (Some actorId) None (Some ''pending'') (Some meta)) (\<lambda>_.
         bindA (createPaymentEvent (py_id p) ''payment.created'' (Some meta)) (\<lambda>_.
         bindA (emit (PaymentCreatedEvent (payload_of env p (py_status p)))) (\<lambda>_.
         bindA (emit (PaymentPendingEvent (payload_of env p (py_status p)))) (\<lambda>_.
         bindA (invalidatePayment (py_id p) (py_order_id p)) (\<lambda>_.
         bindA (logA (''payment created id='' @ py_id p @ '' order='' @ py_order_id p @ '' corr=''
           @ nullish (px_correlationId env) ''undefined'')) (\<lambda>_.
         viewA p)))))))))))))"

definition createForCheckout :: "pay_env \<Rightarrow> string \<Rightarrow> string \<Rightarrow> rat \<Rightarrow> string option \<Rightarrow> string option \<Rightarrow> payment_view shop_act" where
  "createForCheckout env orderId userId amount currency paymentMethodId =
     create_payment env userId \<lparr>cpd_orderId = orderId, cpd_amount = amount, cpd_currency = Some (nullish currency ''INR''),
       cpd_paymentMethodId = paymentMethodId, cpd_savedPaymentMethodId = None\<rparr>"

definition markFailed :: "pay_env \<Rightarrow> payment_row \<Rightarrow> string \<Rightarrow> string \<Rightarrow> jsobj \<Rightarrow> payment_view shop_act" where
  "markFailed env p actorId reason raw =
     bindA now (\<lambda>t.
     bindA (payment_update (py_id p) (\<lambda>q. q\<lparr>py_status := ''failed'', py_failed_at := Some t, py_updated_by := Some actorId\<rparr>)) (\<lambda>_.
     bindA (createAudit (py_id p) ''fail'' (Some actorId) (Some (py_status p)) (Some ''failed'')
       (Some (JObj [(''reason'', JStr reason), (''raw'', JObj raw)]))) (\<lambda>_.
     bindA (emit (PaymentFailedEvent (payload_of env p ''failed'') reason)) (\<lambda>_.
     bindA (invalidatePayment (py_id p) (py_order_id p)) (\<lambda>_.
     throwA (AppException ''CONFLICT'' reason 409))))))"

text \<open>\<open>String(err).slice(0, 2000)\<close>\<close>

fun slice2000 :: "string \<Rightarrow> string" where
  "slice2000 [] = []"
| "slice2000 (c # cs) = take 2000 (c # cs)"

definition message2000 :: "exn \<Rightarrow> string" where
  "message2000 err = slice2000 (show_exn err)"

text \<open>
  The part of \<open>authorize\<close> inside \<open>try\<close>. It gives the action that is left to do: \<open>return this.markFailed(...)\<close>
  without \<open>await\<close> leaves the block before that promise settles, so its throw passes the \<open>catch\<close> by.
\<close>

definition authorize_try :: "pay_env \<Rightarrow> payment_row \<Rightarrow> string \<Rightarrow> int \<Rightarrow> (payment_view shop_act) shop_act" where
  "authorize_try env p actorId attemptNo =
     bindA (throwIf (\<not> truthy_str (py_gateway_order_id p)) (AppException ''CONFLICT'' ''Missing gateway order'' 409)) (\<lambda>_.
     bindA (withRetry 2 (pv_authorize (px_provider env) (the (py_gateway_order_id p)) (py_amount p) (py_currency p))) (\<lambda>result.
     let raw = Some (JObj (az_raw result)) in
     if az_status result = ''pending'' then
       bindA (createAttempt p attemptNo raw None ''pending'' None) (\<lambda>_. returnA (viewA p))
     else if az_status result = ''failed'' \<or> az_payment_id result = [] then
       returnA (markFailed env p actorId ''Authorization failed'' (az_raw result))
     else
       bindA now (\<lambda>t.
       bindA (payment_update (py_id p) (\<lambda>q. q\<lparr>py_status := ''authorized'', py_gateway_payment_id := Some (az_payment_id result),
         py_gateway_signature := (case az_signature result of None \<Rightarrow> py_gateway_signature q | Some s \<Rightarrow> Some s),
         py_authorized_at := Some t, py_updated_by := Some actorId\<rparr>)) (\<lambda>updated.
       bindA (createTransaction (py_id p) ''authorize'' (py_amount p) (py_currency p) (Some (az_payment_id result)) raw (Some actorId)) (\<lambda>_.
       bindA (createAttempt p attemptNo raw None ''authorized'' None) (\<lambda>_.
       bindA (createAudit (py_id p) ''authorize'' (Some actorId) (Some (py_status p)) (Some ''authorized'') None) (\<lambda>_.
       bindA (createPaymentEvent (py_id p) ''payment.authorized'' None) (\<lambda>_.
       bindA (emit (PaymentAuthorizedEvent (payload_of env p ''authorized''))) (\<lambda>_.
       bindA (invalidatePayment (py_id p) (py_order_id p)) (\<lambda>_.
       returnA (viewA updated)))))))))))"

definition authorize :: "pay_env \<Rightarrow> string \<Rightarrow> string \<Rightarrow> bool \<Rightarrow> payment_view shop_act" where
  "authorize env paymentId actorId asAdmin =
     lockedA [''payments'', ''authorize'', paymentId]
     (bindA (requirePayment paymentId) (\<lambda>p.
      bindA (if asAdmin then returnA () else assertCanAccess (py_customer_id p) actorId) (\<lambda>_.
      bindA (assertPaymentTransition (py_status p) ''authorized'') (\<lambda>_.
      bindA (readA (nextAttemptNumber (py_id p))) (\<lambda>attemptNo.
      bindA (catchA (authorize_try env p actorId attemptNo) (\<lambda>err.
        bindA (createAttempt p attemptNo None (Some (message2000 err)) ''failed'' None) (\<lambda>_. throwA err))) (\<lambda>rest.
      rest))))))"

definition needsPostCaptureOrderConfirm :: "pay_env \<Rightarrow> bool" where
  "needsPostCaptureOrderConfirm env \<longleftrightarrow> \<not> pc_mock (px_config env) \<and> \<not> pc_serverCapture (px_config env)"

text \<open>\<open>order.update({ where: { id } })\<close> and \<open>cart.update\<close>\<close>

definition order_update :: "string \<Rightarrow> (order_row \<Rightarrow> order_row) \<Rightarrow> order_row shop_act" where
  "order_update i f = bindA (readA (\<lambda>w. find (\<lambda>r. or_id r = i) (sw_order_rows w))) (\<lambda>found.
     bindA (row_or_throw found) (\<lambda>r.
     bindA (modifyA (\<lambda>w. w\<lparr>sw_order_rows := update_where (\<lambda>r. or_id r = i) f (sw_order_rows w)\<rparr>)) (\<lambda>_. returnA (f r))))"

definition cart_update :: "string \<Rightarrow> (cart_row \<Rightarrow> cart_row) \<Rightarrow> unit shop_act" where
  "cart_update i f = bindA (readA (\<lambda>w. find (\<lambda>r. ca_id r = i) (sw_cart_rows w))) (\<lambda>found.
     bindA (row_or_throw found) (\<lambda>_.
     bindA now (\<lambda>t.
     modifyA (\<lambda>w. w\<lparr>sw_cart_rows := update_where (\<lambda>r. ca_id r = i) (\<lambda>r. f (r\<lparr>ca_updated_at := t\<rparr>)) (sw_cart_rows w)\<rparr>))))"

definition history_create :: "string \<Rightarrow> string option \<Rightarrow> string \<Rightarrow> string option \<Rightarrow> string option \<Rightarrow> unit shop_act" where
  "history_create orderId x y note actor =
     bindA now (\<lambda>t.
     bindA (constraint ''P2003'' (\<lambda>w. orderId \<in> set (map or_id (sw_order_rows w)))) (\<lambda>_.
     modifyA (\<lambda>w. w\<lparr>sw_order_history := sw_order_history w @ [\<lparr>oh_order_id = orderId, oh_from_status = x, oh_to_status = y,
       oh_note = note, oh_changed_at = t, oh_created_by = actor\<rparr>]\<rparr>)))"

definition confirmPendingOrderAfterCapture :: "string \<Rightarrow> string \<Rightarrow> unit shop_act" where
  "confirmPendingOrderAfterCapture orderId actorId =
     bindA (readA (findOrder orderId)) (\<lambda>found. case found of
       None \<Rightarrow> returnA ()
     | Some order \<Rightarrow>
       if or_status order \<noteq> ''pending'' then returnA ()
       else catchA (transactionA (
           bindA now (\<lambda>t.
           bindA (order_update orderId (\<lambda>r. r\<lparr>or_status := ''confirmed'', or_placed_at := Some t, or_updated_by := Some actorId\<rparr>)) (\<lambda>_.
           bindA (history_create orderId (Some ''pending'') ''confirmed'' (Some ''Payment captured'') (Some actorId)) (\<lambda>_.
           if truthy_str (or_cart_id order) then cart_update (the (or_cart_id order)) (\<lambda>c. c\<lparr>ca_status := ''converted''\<rparr>)
           else returnA ())))))
         (\<lambda>e. logA (''confirmPendingOrderAfterCapture failed for '' @ orderId @ '': '' @ show_exn e)))"

text \<open>\<open>capture\<close>: the checks on the row that was read, and the rest, which works on that row.\<close>

definition capture_zero :: "payment_row \<Rightarrow> string \<Rightarrow> payment_view shop_act" where
  "capture_zero p actorId =
     bindA now (\<lambda>t.
     bindA (payment_update (py_id p) (\<lambda>q. q\<lparr>py_status := ''captured'', py_captured_at := Some t, py_updated_by := Some actorId\<rparr>)) (\<lambda>updated.
     bindA (createAudit (py_id p) ''capture'' (Some actorId) (Some (py_status p)) (Some ''captured'') None) (\<lambda>_.
     viewA updated)))"

definition capture_rest :: "pay_env \<Rightarrow> payment_row \<Rightarrow> string \<Rightarrow> payment_view shop_act" where
  "capture_rest env p actorId =
     (if \<not> truthy_str (py_gateway_payment_id p) \<and> py_amount p = 0 then capture_zero p actorId
      else if \<not> truthy_str (py_gateway_payment_id p) then throwA (AppException ''CONFLICT'' ''Payment not authorized'' 409)
      else
        bindA (withRetry 2 (pv_capture (px_provider env) (the (py_gateway_payment_id p)) (py_amount p) (py_currency p))) (\<lambda>result.
        if cp_status result \<noteq> ''captured'' then markFailed env p actorId ''Capture failed'' (cp_raw result)
        else
          bindA now (\<lambda>t.
          bindA (payment_update (py_id p) (\<lambda>q. q\<lparr>py_status := ''captured'', py_captured_at := Some t, py_updated_by := Some actorId\<rparr>)) (\<lambda>updated.
          bindA (createTransaction (py_id p) ''capture'' (py_amount p) (py_currency p) (Some (cp_payment_id result))
            (Some (JObj (cp_raw result))) (Some actorId)) (\<lambda>_.
          bindA (createAudit (py_id p) ''capture'' (Some actorId) (Some (py_status p)) (Some ''captured'') None) (\<lambda>_.
          bindA (createPaymentEvent (py_id p) ''payment.captured'' None) (\<lambda>_.
          bindA (emit (PaymentCapturedEvent (payload_of env p ''captured''))) (\<lambda>_.
          bindA (if needsPostCaptureOrderConfirm env then confirmPendingOrderAfterCapture (py_order_id p) actorId else returnA ()) (\<lambda>_.
          bindA (enqueue (ReceiptEmailJob (py_id p) (py_order_id p))) (\<lambda>_.
          bindA (invalidatePayment (py_id p) (py_order_id p)) (\<lambda>_.
          viewA updated)))))))))))"

definition capture_checked :: "pay_env \<Rightarrow> payment_row \<Rightarrow> string \<Rightarrow> payment_view shop_act" where
  "capture_checked env p actorId =
     (if py_status p = ''captured'' then viewA p
      else bindA (assertPaymentTransition (py_status p) ''captured'') (\<lambda>_. capture_rest env p actorId))"

definition capture :: "pay_env \<Rightarrow> string \<Rightarrow> string \<Rightarrow> bool \<Rightarrow> payment_view shop_act" where
  "capture env paymentId actorId asAdmin =
     lockedA [''payments'', ''capture'', paymentId]
     (bindA (requirePayment paymentId) (\<lambda>p.
      bindA (if asAdmin then returnA () else assertCanAccess (py_customer_id p) actorId) (\<lambda>_.
      capture_checked env p actorId)))"

definition cancel_payment :: "pay_env \<Rightarrow> string \<Rightarrow> string \<Rightarrow> bool \<Rightarrow> payment_view shop_act" where
  "cancel_payment env paymentId actorId asAdmin =
     lockedA [''payments'', ''cancel'', paymentId]
     (bindA (requirePayment paymentId) (\<lambda>p.
      bindA (if asAdmin then returnA () else assertCanAccess (py_customer_id p) actorId) (\<lambda>_.
      if py_status p = ''cancelled'' \<or> py_status p = ''refunded'' then viewA p
      else
        bindA (throwIf (py_status p = ''captured'' \<or> py_status p = ''partially_refunded'')
          (AppException ''CONFLICT'' ''Captured payments must be refunded'' 409)) (\<lambda>_.
        bindA (pv_cancel (px_provider env) (py_gateway_payment_id p) (py_gateway_order_id p) (py_amount p) (py_currency p)) (\<lambda>_.
        bindA (payment_update (py_id p) (\<lambda>q. q\<lparr>py_status := ''cancelled'', py_updated_by := Some actorId\<rparr>)) (\<lambda>updated.
        bindA (createTransaction (py_id p) ''void'' (py_amount p) (py_currency p) (py_gateway_payment_id p) None (Some actorId)) (\<lambda>_.
        bindA (createAudit (py_id p) ''cancel'' (Some actorId) (Some (py_status p)) (Some ''cancelled'') None) (\<lambda>_.
        bindA (createPaymentEvent (py_id p) ''payment.cancelled'' None) (\<lambda>_.
        bindA (emit (PaymentCancelledEvent (payload_of env p ''cancelled''))) (\<lambda>_.
        bindA (invalidatePayment (py_id p) (py_order_id p)) (\<lambda>_.
        viewA updated)))))))))))"

definition voidOrCancel :: "pay_env \<Rightarrow> string \<Rightarrow> string \<Rightarrow> unit shop_act" where
  "voidOrCancel env paymentId actorId =
     bindA (readA (findPayment paymentId)) (\<lambda>found. case found of
       None \<Rightarrow> returnA ()
     | Some p \<Rightarrow>
       if py_status p = ''cancelled'' \<or> py_status p = ''failed'' then returnA ()
       else catchA (bindA (cancel_payment env paymentId actorId False) (\<lambda>_. returnA ()))
         (\<lambda>e. logA (''voidOrCancel '' @ paymentId @ '': '' @ show_exn e)))"

definition retry_payment :: "pay_env \<Rightarrow> string \<Rightarrow> string \<Rightarrow> payment_view shop_act" where
  "retry_payment env paymentId actorId =
     bindA (requirePayment paymentId) (\<lambda>p.
     bindA (assertCanAccess (py_customer_id p) actorId) (\<lambda>_.
     bindA (throwIf (py_status p \<noteq> ''failed'' \<and> py_status p \<noteq> ''pending'')
       (AppException ''CONFLICT'' ''Payment not retryable'' 409)) (\<lambda>_.
     bindA (enqueue (RetryJob paymentId actorId)) (\<lambda>_.
     bindA (if py_status p = ''failed'' then
         bindA (payment_update (py_id p) (\<lambda>q. q\<lparr>py_status := ''pending'', py_failed_at := None, py_updated_by := Some actorId\<rparr>)) (\<lambda>_. returnA ())
       else returnA ()) (\<lambda>_.
     bindA (authorize env paymentId actorId False) (\<lambda>authorized.
     if pw_status authorized = ''authorized'' then capture env paymentId actorId False else returnA authorized))))))"

definition getById :: "pay_env \<Rightarrow> string \<Rightarrow> string \<Rightarrow> bool \<Rightarrow> json shop_act" where
  "getById env paymentId actorId isAdmin =
     cachedA (''payments:status:'' @ paymentId)
     (bindA (requirePayment paymentId) (\<lambda>p.
      bindA (if isAdmin then returnA () else assertCanAccess (py_customer_id p) actorId) (\<lambda>_.
      bindA (viewA p) (\<lambda>v. returnA (view_json (px_text env) v)))))"

definition getByOrder ::
  "(payment_row list \<Rightarrow> payment_row list) \<Rightarrow> pay_env \<Rightarrow> string \<Rightarrow> string \<Rightarrow> bool \<Rightarrow> json shop_act" where
  "getByOrder ord env orderId actorId isAdmin =
     cachedA (''payments:order:'' @ orderId)
     (bindA (readA (findByOrderId ord orderId)) (\<lambda>rows.
      bindA (if isAdmin then returnA () else forA rows (\<lambda>p. assertCanAccess (py_customer_id p) actorId)) (\<lambda>_.
      readA (\<lambda>w. JArr (map (\<lambda>p. view_json (px_text env) (mapPayment (sw_gateways w) p)) rows)))))"

text \<open>Saved methods; the gateway and token are unique, and so is a customer's default.\<close>

record save_method_dto =
  smd_gatewayId :: string
  smd_token :: string
  smd_brand :: "string option"
  smd_lastFour :: "string option"
  smd_expiryMonth :: "int option"
  smd_expiryYear :: "int option"
  smd_isDefault :: "bool option"

definition RAZORPAY_GATEWAY_ID :: string where
  "RAZORPAY_GATEWAY_ID = ''60000000-0000-0000-0000-000000000001''"

definition listSaved :: "(saved_method_row list \<Rightarrow> saved_method_row list) \<Rightarrow> pay_env \<Rightarrow> string \<Rightarrow> json shop_act" where
  "listSaved ord env customerId = cachedA (''payments:saved:'' @ customerId)
     (readA (\<lambda>w. JArr (map (mapSavedMethod (px_text env)) (ord (filter (\<lambda>m. sv_customer_id m = customerId
        \<and> sv_status m = ''active'' \<and> sv_deleted_at m = None) (sw_saved_methods w))))))"

definition clear_default :: "string \<Rightarrow> unit shop_act" where
  "clear_default customerId = modifyA (\<lambda>w. w\<lparr>sw_saved_methods := update_where
     (\<lambda>m. sv_customer_id m = customerId \<and> sv_deleted_at m = None) (\<lambda>m. m\<lparr>sv_is_default := False\<rparr>) (sw_saved_methods w)\<rparr>)"

definition default_taken :: "string \<Rightarrow> string \<Rightarrow> shop_world \<Rightarrow> bool" where
  "default_taken customerId i w = list_ex (\<lambda>m. sv_id m \<noteq> i \<and> sv_customer_id m = customerId \<and> sv_is_default m
     \<and> sv_deleted_at m = None) (sw_saved_methods w)"

definition saveMethod :: "pay_env \<Rightarrow> string \<Rightarrow> save_method_dto \<Rightarrow> json shop_act" where
  "saveMethod env customerId input =
     bindA (if smd_isDefault input = Some True then clear_default customerId else returnA ()) (\<lambda>_.
     bindA (new_id (\<lambda>w. map sv_id (sw_saved_methods w))) (\<lambda>i.
     bindA now (\<lambda>t.
     let m = \<lparr>sv_id = i, sv_customer_id = customerId,
         sv_gateway_id = (if smd_gatewayId input \<noteq> [] then smd_gatewayId input else RAZORPAY_GATEWAY_ID),
         sv_token = smd_token input, sv_brand = smd_brand input, sv_last_four = smd_lastFour input,
         sv_expiry_month = smd_expiryMonth input, sv_expiry_year = smd_expiryYear input,
         sv_is_default = nullish (smd_isDefault input) False, sv_status = ''active'', sv_created_at = t, sv_deleted_at = None\<rparr> in
     bindA (constraint ''P2003'' (\<lambda>w. customerId \<in> set (iw_users (sw_inv w)) \<and> sv_gateway_id m \<in> set (map gw_id (sw_gateways w)))) (\<lambda>_.
     bindA (constraint ''P2002'' (\<lambda>w. \<not> list_ex (\<lambda>x. sv_gateway_id x = sv_gateway_id m \<and> sv_token x = sv_token m
       \<and> sv_deleted_at x = None) (sw_saved_methods w) \<and> \<not> (sv_is_default m \<and> default_taken customerId i w))) (\<lambda>_.
     bindA (modifyA (\<lambda>w. w\<lparr>sw_saved_methods := sw_saved_methods w @ [m]\<rparr>)) (\<lambda>_.
     bindA (invalidateSaved customerId) (\<lambda>_. returnA (mapSavedMethod (px_text env) m))))))))"

definition findSaved :: "string \<Rightarrow> string \<Rightarrow> shop_world \<Rightarrow> saved_method_row option" where
  "findSaved customerId i w = find (\<lambda>m. sv_id m = i \<and> sv_customer_id m = customerId \<and> sv_deleted_at m = None) (sw_saved_methods w)"

definition requireSaved :: "string \<Rightarrow> string \<Rightarrow> unit shop_act" where
  "requireSaved customerId i = bindA (readA (findSaved customerId i)) (\<lambda>x.
     throwIf (x = None) (AppException ''NOT_FOUND'' ''Saved method not found'' 404))"

definition deleteSaved :: "string \<Rightarrow> string \<Rightarrow> unit shop_act" where
  "deleteSaved customerId i =
     bindA (requireSaved customerId i) (\<lambda>_.
     bindA now (\<lambda>t.
     bindA (modifyA (\<lambda>w. w\<lparr>sw_saved_methods := update_where (\<lambda>m. sv_id m = i)
       (\<lambda>m. m\<lparr>sv_deleted_at := Some t, sv_status := ''inactive''\<rparr>) (sw_saved_methods w)\<rparr>)) (\<lambda>_.
     invalidateSaved customerId)))"

definition setDefaultSaved ::
  "(saved_method_row list \<Rightarrow> saved_method_row list) \<Rightarrow> pay_env \<Rightarrow> string \<Rightarrow> string \<Rightarrow> json shop_act" where
  "setDefaultSaved ord env customerId i =
     bindA (requireSaved customerId i) (\<lambda>_.
     bindA (clear_default customerId) (\<lambda>_.
     bindA (constraint ''P2002'' (\<lambda>w. \<not> default_taken customerId i w)) (\<lambda>_.
     bindA (modifyA (\<lambda>w. w\<lparr>sw_saved_methods := update_where (\<lambda>m. sv_id m = i) (\<lambda>m. m\<lparr>sv_is_default := True\<rparr>) (sw_saved_methods w)\<rparr>)) (\<lambda>_.
     bindA (invalidateSaved customerId) (\<lambda>_. listSaved ord env customerId)))))"

definition applyGatewayStatus :: "string \<Rightarrow> string \<Rightarrow> string option \<Rightarrow> json \<Rightarrow> payment_row shop_act" where
  "applyGatewayStatus paymentId st gatewayPaymentId raw =
     bindA (requirePayment paymentId) (\<lambda>p.
     bindA now (\<lambda>t.
     bindA (if st \<in> {''authorized'', ''captured'', ''failed''} then now else returnA 0) (\<lambda>t2.
     bindA (payment_update paymentId (\<lambda>q. q\<lparr>py_status := st, py_updated_at := t,
       py_gateway_payment_id := (if truthy_str gatewayPaymentId then gatewayPaymentId else py_gateway_payment_id q),
       py_authorized_at := (if st = ''authorized'' then Some t2 else py_authorized_at q),
       py_captured_at := (if st = ''captured'' then Some t2 else py_captured_at q),
       py_failed_at := (if st = ''failed'' then Some t2 else py_failed_at q)\<rparr>)) (\<lambda>updated.
     bindA (createAudit paymentId (''webhook.'' @ st) None (Some (py_status p)) (Some st) (Some raw)) (\<lambda>_.
     bindA (createPaymentEvent paymentId (''payment.'' @ st) (Some raw)) (\<lambda>_.
     bindA (invalidatePayment paymentId (py_order_id p)) (\<lambda>_. returnA updated)))))))"

section \<open>RefundService (services/refund.service.ts)\<close>

record refund_item_dto =
  rid_orderItemId :: "string option"
  rid_amount :: rat
  rid_quantity :: "int option"

record refund_dto =
  rfd_amount :: rat
  rfd_reasonCode :: "string option"
  rfd_reason :: "string option"
  rfd_items :: "refund_item_dto list option"

definition refund_update :: "string \<Rightarrow> (refund_row \<Rightarrow> refund_row) \<Rightarrow> refund_row shop_act" where
  "refund_update i f = bindA (readA (\<lambda>w. find (\<lambda>r. rf_id r = i) (sw_refunds w))) (\<lambda>found.
     bindA (row_or_throw found) (\<lambda>r.
     bindA (modifyA (\<lambda>w. w\<lparr>sw_refunds := update_where (\<lambda>r. rf_id r = i) f (sw_refunds w)\<rparr>)) (\<lambda>_. returnA (f r))))"

definition refund_create :: "(string \<Rightarrow> int \<Rightarrow> refund_row) \<Rightarrow> refund_row shop_act" where
  "refund_create mk =
     bindA (new_id (\<lambda>w. map rf_id (sw_refunds w))) (\<lambda>i.
     bindA now (\<lambda>t.
     let r = mk i t in
     bindA (constraint ''P2003'' (\<lambda>w. rf_payment_id r \<in> set (payment_ids w) \<and> rf_order_id r \<in> set (map or_id (sw_order_rows w))
       \<and> fk_ok (rf_requested_by r) (iw_users (sw_inv w)))) (\<lambda>_.
     bindA (constraint ''P2002'' (\<lambda>w. \<not> list_ex (\<lambda>x. rf_number x = rf_number r \<and> rf_deleted_at x = None) (sw_refunds w))) (\<lambda>_.
     bindA (constraint ''23514'' (\<lambda>_. rf_amount r > 0 \<and> money_fits (rf_amount r))) (\<lambda>_.
     bindA (modifyA (\<lambda>w. w\<lparr>sw_refunds := sw_refunds w @ [r]\<rparr>)) (\<lambda>_. returnA r))))))"

definition refund_items_create :: "string \<Rightarrow> refund_item_dto list \<Rightarrow> unit shop_act" where
  "refund_items_create refundId items =
     bindA (constraint ''P2003'' (\<lambda>w. list_all (\<lambda>i. fk_ok (rid_orderItemId i) (map oi_id (sw_order_items w))) items)) (\<lambda>_.
     bindA (constraint ''23514'' (\<lambda>_. list_all (\<lambda>i. 0 \<le> dec2 (rid_amount i) \<and> money_fits (rid_amount i)
       \<and> (case rid_quantity i of None \<Rightarrow> True | Some q \<Rightarrow> q > 0)) items)) (\<lambda>_.
     modifyA (\<lambda>w. w\<lparr>sw_refund_items := sw_refund_items w @ map (\<lambda>i. \<lparr>ri_refund_id = refundId,
       ri_order_item_id = rid_orderItemId i, ri_amount = dec2 (rid_amount i), ri_quantity = rid_quantity i\<rparr>) items\<rparr>)))"

text \<open>The part inside \<open>try\<close>: the gateway first, then the rows.\<close>

definition refund_try :: "pay_env \<Rightarrow> payment_row \<Rightarrow> string \<Rightarrow> refund_dto \<Rightarrow> refund_row \<Rightarrow> refund_row shop_act" where
  "refund_try env p actorId dto refund0 =
     bindA (pv_refund (px_provider env) (the (py_gateway_payment_id p)) (rfd_amount dto) (py_currency p)
       [(''refundNumber'', JStr (rf_number refund0)), (''reason'', JStr (nullish (rfd_reason dto) []))]) (\<lambda>gw.
     bindA (if rr_status gw = ''processed'' then bindA now (\<lambda>t. returnA (Some t)) else returnA None) (\<lambda>processed.
     bindA now (\<lambda>t.
     bindA (refund_update (rf_id refund0) (\<lambda>r. r\<lparr>rf_status := (if rr_status gw = ''processed'' then ''processed'' else ''processing''),
       rf_gateway_refund_id := Some (rr_refund_id gw), rf_gateway_reference := Some (rr_refund_id gw),
       rf_processed_at := processed, rf_approved_at := Some t\<rparr>)) (\<lambda>refund.
     bindA (createTransaction (py_id p) ''refund'' (rfd_amount dto) (py_currency p) (Some (rr_refund_id gw))
       (Some (JObj (rr_raw gw))) (Some actorId)) (\<lambda>_.
     let newRefunded = py_refunded_amount p + rfd_amount dto;
         newStatus = (if newRefunded \<ge> py_amount p - 1 / 1000 then ''refunded'' else ''partially_refunded'') in
     bindA (payment_update (py_id p) (\<lambda>q. q\<lparr>py_refunded_amount := dec2 newRefunded, py_status := newStatus, py_updated_by := Some actorId\<rparr>)) (\<lambda>_.
     bindA (createAudit (py_id p) ''refund'' (Some actorId) (Some (py_status p)) (Some newStatus)
       (Some (JObj [(''refundId'', JStr (rf_id refund)), (''amount'', JNum (Fin (rfd_amount dto)))]))) (\<lambda>_.
     bindA (createPaymentEvent (py_id p) (''payment.'' @ newStatus) (Some (JObj [(''refundId'', JStr (rf_id refund))]))) (\<lambda>_.
     bindA (emit (if newStatus = ''refunded'' then PaymentRefundedEvent (payload_of env p newStatus) (rf_id refund) (rfd_amount dto)
       else PaymentPartiallyRefundedEvent (payload_of env p newStatus) (rf_id refund) (rfd_amount dto))) (\<lambda>_.
     bindA (invalidatePayment (py_id p) (py_order_id p)) (\<lambda>_.
     bindA (logA (''refund '' @ rf_id refund @ '' payment='' @ py_id p @ '' amount='' @ jt_num (px_text env) (rfd_amount dto))) (\<lambda>_.
     returnA refund)))))))))))"

definition refund :: "pay_env \<Rightarrow> string \<Rightarrow> string \<Rightarrow> refund_dto \<Rightarrow> bool \<Rightarrow> refund_row shop_act" where
  "refund env paymentId actorId dto asAdmin =
     lockedA [''payments'', ''refund'', paymentId]
     (bindA (requirePayment paymentId) (\<lambda>p.
      bindA (throwIf (\<not> asAdmin \<and> truthy_str (py_customer_id p) \<and> py_customer_id p \<noteq> Some actorId)
        (AppException ''FORBIDDEN'' ''Not your payment'' 403)) (\<lambda>_.
      bindA (throwIf (py_status p \<noteq> ''captured'' \<and> py_status p \<noteq> ''partially_refunded'')
        (AppException ''CONFLICT'' ''Only captured payments can be refunded'' 409)) (\<lambda>_.
      let remaining = py_amount p - py_refunded_amount p in
      bindA (throwIf (rfd_amount dto > remaining + 1 / 1000) (AppException ''BAD_REQUEST''
        (''Refund exceeds remaining amount ('' @ jt_num (px_text env) remaining @ '')'') 400)) (\<lambda>_.
      bindA now (\<lambda>t.
      bindA math_random (\<lambda>x.
      bindA (refund_create (\<lambda>i c. \<lparr>rf_id = i,
        rf_number = ''RFN-'' @ show_int t @ ''-'' @ show_int \<lfloor>x * 1000\<rfloor>, rf_payment_id = py_id p, rf_order_id = py_order_id p,
        rf_requested_by = Some actorId, rf_type = (if rfd_amount dto \<ge> remaining - 1 / 1000 then ''full'' else ''partial''),
        rf_amount = dec2 (rfd_amount dto), rf_currency = py_currency p, rf_reason_code = rfd_reasonCode dto, rf_reason = rfd_reason dto,
        rf_gateway_refund_id = None, rf_gateway_reference = None, rf_status = ''processing'', rf_approved_at = None,
        rf_processed_at = None, rf_created_at = c, rf_deleted_at = None, rf_created_by = Some actorId\<rparr>)) (\<lambda>refund0.
      bindA (case rfd_items dto of None \<Rightarrow> returnA ()
        | Some items \<Rightarrow> if items = [] then returnA () else refund_items_create (rf_id refund0) items) (\<lambda>_.
      bindA (throwIf (\<not> truthy_str (py_gateway_payment_id p)) (AppException ''CONFLICT'' ''Missing gateway payment id'' 409)) (\<lambda>_.
      catchA (refund_try env p actorId dto refund0) (\<lambda>err.
        bindA (refund_update (rf_id refund0) (\<lambda>r. r\<lparr>rf_status := ''failed'', rf_reason := Some (take 500 (show_exn err))\<rparr>)) (\<lambda>_.
        bindA (enqueue (RefundJob (rf_id refund0) (py_id p) actorId)) (\<lambda>_. throwA err)))))))))))))"

section \<open>WebhookService (services/webhook.service.ts)\<close>

definition findByIdempotency :: "string \<Rightarrow> string \<Rightarrow> shop_world \<Rightarrow> webhook_row option" where
  "findByIdempotency gatewayId key w = find (\<lambda>k. wk_gateway_id k = gatewayId \<and> wk_idempotency_key k = Some key
     \<and> wk_deleted_at k = None) (sw_webhooks w)"

definition webhook_create :: "(string \<Rightarrow> webhook_row) \<Rightarrow> webhook_row shop_act" where
  "webhook_create mk =
     bindA (new_id (\<lambda>w. map wk_id (sw_webhooks w))) (\<lambda>i.
     let k = mk i in
     bindA (constraint ''P2003'' (\<lambda>w. wk_gateway_id k \<in> set (map gw_id (sw_gateways w)))) (\<lambda>_.
     bindA (constraint ''P2002'' (\<lambda>w. \<not> list_ex (\<lambda>x. wk_gateway_id x = wk_gateway_id k
       \<and> wk_idempotency_key x = wk_idempotency_key k \<and> wk_deleted_at x = None) (sw_webhooks w))) (\<lambda>_.
     bindA (modifyA (\<lambda>w. w\<lparr>sw_webhooks := sw_webhooks w @ [k]\<rparr>)) (\<lambda>_. returnA k))))"

definition webhook_update :: "string \<Rightarrow> (webhook_row \<Rightarrow> webhook_row) \<Rightarrow> unit shop_act" where
  "webhook_update i f = bindA (readA (\<lambda>w. find (\<lambda>k. wk_id k = i) (sw_webhooks w))) (\<lambda>found.
     bindA (row_or_throw found) (\<lambda>_.
     modifyA (\<lambda>w. w\<lparr>sw_webhooks := update_where (\<lambda>k. wk_id k = i) f (sw_webhooks w)\<rparr>)))"

definition webhook_mark :: "string \<Rightarrow> string \<Rightarrow> string option \<Rightarrow> unit shop_act" where
  "webhook_mark i st message =
     bindA (if st = ''processed'' then bindA now (\<lambda>t. returnA (Some t)) else returnA None) (\<lambda>t.
     webhook_update i (\<lambda>k. k\<lparr>wk_processing_status := st,
       wk_error_message := (case message of None \<Rightarrow> wk_error_message k | Some m \<Rightarrow> Some m),
       wk_retry_count := (if message = None then wk_retry_count k else wk_retry_count k + 1),
       wk_processed_at := (case t of None \<Rightarrow> wk_processed_at k | Some d \<Rightarrow> Some d)\<rparr>))"

text \<open>\<open>payload.payload?.payment?.entity\<close>\<close>

definition payment_entity :: "json \<Rightarrow> json" where
  "payment_entity payload = opt_prop (opt_prop (opt_prop payload ''payload'') ''payment'') ''entity''"

definition webhook_payment :: "js_text \<Rightarrow> json \<Rightarrow> shop_world \<Rightarrow> string \<times> payment_row option" where
  "webhook_payment T payload w =
     (let entity = payment_entity payload;
          gatewayPaymentId = (if truthy entity then js_String T (json_or (opt_prop entity ''id'')
            (json_or (opt_prop entity ''payment_id'') (JStr []))) else []);
          payment = (if gatewayPaymentId \<noteq> [] then findByGatewayPaymentId gatewayPaymentId w else None) in
      (gatewayPaymentId,
       if payment = None \<and> truthy (opt_prop entity ''order_id'')
       then findByGatewayOrderId (js_String T (opt_prop entity ''order_id'')) w else payment))"

definition webhook_apply :: "webhook_row \<Rightarrow> string \<Rightarrow> payment_row \<Rightarrow> unit shop_act" where
  "webhook_apply row gatewayPaymentId p =
     (let status = opt_prop (payment_entity (wk_payload row)) ''status'';
          says = (\<lambda>x. includes_str (wk_event_type row) x \<or> status = JStr x);
          gid = (if gatewayPaymentId \<noteq> [] then Some gatewayPaymentId
                 else if truthy_str (py_gateway_payment_id p) then py_gateway_payment_id p else None) in
      bindA (if says ''authorized'' then bindA (applyGatewayStatus (py_id p) ''authorized'' gid (wk_payload row)) (\<lambda>_. returnA ())
        else if says ''captured'' then bindA (applyGatewayStatus (py_id p) ''captured'' gid (wk_payload row)) (\<lambda>_. returnA ())
        else if says ''failed'' then bindA (applyGatewayStatus (py_id p) ''failed'' None (wk_payload row)) (\<lambda>_. returnA ())
        else returnA ()) (\<lambda>_.
      createAudit (py_id p) ''webhook'' None None None
        (Some (JObj [(''webhookId'', JStr (wk_id row)), (''eventType'', JStr (wk_event_type row))]))))"

definition processWebhook :: "pay_env \<Rightarrow> string \<Rightarrow> unit shop_act" where
  "processWebhook env webhookId =
     bindA (readA (\<lambda>w. find (\<lambda>k. wk_id k = webhookId \<and> wk_deleted_at k = None) (sw_webhooks w))) (\<lambda>found. case found of
       None \<Rightarrow> returnA ()
     | Some row \<Rightarrow>
       if wk_processing_status row = ''processed'' then returnA ()
       else catchA (
           bindA (readA (webhook_payment (px_text env) (wk_payload row))) (\<lambda>(gatewayPaymentId, payment).
           bindA (case payment of None \<Rightarrow> returnA () | Some p \<Rightarrow> webhook_apply row gatewayPaymentId p) (\<lambda>_.
           bindA (webhook_mark webhookId ''processed'' None) (\<lambda>_.
           emit (PaymentWebhookProcessedEvent webhookId (wk_event_type row) (map_option py_id payment))))))
         (\<lambda>err. bindA (webhook_mark webhookId ''failed'' (Some (message2000 err))) (\<lambda>_. throwA err)))"

record webhook_result =
  wr_duplicate :: bool
  wr_webhookId :: string
  wr_requeued :: bool

definition idempotency_key :: "js_text \<Rightarrow> jsobj \<Rightarrow> string option \<times> string \<times> string" where
  "idempotency_key T payload =
     (let eventType = js_String T (json_or (obj_get payload ''event'') (JStr ''unknown''));
          text = js_String T (json_or (obj_get payload ''id'')
            (json_or (opt_prop (payment_entity (JObj payload)) ''id'') (JStr [])));
          eventId = (if text \<noteq> [] then Some text else None) in
      (eventId, eventType, take 128 (case eventId of Some e \<Rightarrow> e
         | None \<Rightarrow> eventType @ '':'' @ take 80 (jt_json T (JObj payload)))))"

definition receiveRazorpay :: "pay_env \<Rightarrow> string \<Rightarrow> string \<Rightarrow> jsobj \<Rightarrow> webhook_result shop_act" where
  "receiveRazorpay env rawBody signature payload =
     bindA (readA (\<lambda>w. case findGatewayByCode ''razorpay'' w of Some g \<Rightarrow> gw_id g | None \<Rightarrow> RAZORPAY_GATEWAY_ID)) (\<lambda>gatewayId.
     bindA (throwIf (\<not> pv_verifyWebhookSignature (px_provider env) rawBody signature [])
       (AppException ''UNAUTHORIZED'' ''Invalid webhook signature'' 401)) (\<lambda>_.
     let (eventId, eventType, key) = idempotency_key (px_text env) payload in
     lockedA [''payments'', ''webhook'', key]
     (bindA (readA (findByIdempotency gatewayId key)) (\<lambda>found. case found of
        Some existing \<Rightarrow>
          if wk_processing_status existing = ''processed'' then
            returnA \<lparr>wr_duplicate = True, wr_webhookId = wk_id existing, wr_requeued = False\<rparr>
          else bindA (enqueue (WebhookJob (wk_id existing))) (\<lambda>_.
            returnA \<lparr>wr_duplicate = True, wr_webhookId = wk_id existing, wr_requeued = True\<rparr>)
      | None \<Rightarrow>
          bindA (webhook_create (\<lambda>i. \<lparr>wk_id = i, wk_gateway_id = gatewayId, wk_event_id = eventId, wk_event_type = take 120 eventType,
            wk_idempotency_key = Some key, wk_signature = take 512 signature, wk_payload = JObj payload, wk_verified = True,
            wk_processing_status = ''verified'', wk_retry_count = 0, wk_processed_at = None, wk_error_message = None,
            wk_deleted_at = None\<rparr>)) (\<lambda>row.
          bindA (emit (PaymentWebhookReceivedEvent (wk_id row) eventType)) (\<lambda>_.
          bindA (enqueue (WebhookJob (wk_id row))) (\<lambda>_.
          bindA (catchA (processWebhook env (wk_id row)) (\<lambda>e. logA (''inline webhook process failed: '' @ show_exn e))) (\<lambda>_.
          returnA \<lparr>wr_duplicate = False, wr_webhookId = wk_id row, wr_requeued = False\<rparr>))))))))"

section \<open>The worker (workers/payments.worker.ts)\<close>

definition process_job :: "pay_env \<Rightarrow> payment_job \<Rightarrow> unit shop_act" where
  "process_job env job = (case job of
     WebhookJob i \<Rightarrow> processWebhook env i
   | RetryJob paymentId actorId \<Rightarrow> bindA (authorize env paymentId actorId False) (\<lambda>_. returnA ())
   | RefundJob _ _ _ \<Rightarrow> logA ''ack job payment.refund.process''
   | ReceiptEmailJob _ _ \<Rightarrow> logA ''ack job payment.receipt.email''
   | SettlementSyncJob _ \<Rightarrow> logA ''ack job payment.settlement.sync'')"

end
