(* ===== verification/Payment_Ledger.thy ===== *)
theory Payment_Ledger
  imports Payments
begin

text \<open>
  What the payments module promises about money, as an abstract machine. A ledger is the table of
  payments and the refund transactions; a step opens a payment, moves its status along the graph,
  books a refund, or, for a gateway's webhook, overwrites the status. Every operation of the module is
  shown to do nothing else to the ledger.
\<close>

section \<open>The abstract machine\<close>

type_synonym ledger = "payment_row list \<times> transaction_row list"

definition ledger_of :: "shop_world \<Rightarrow> ledger" where
  "ledger_of w = (sw_payments w, filter (\<lambda>x. tx_type x = ''refund'') (sw_transactions w))"

text \<open>An update that leaves the money and the identity of a payment alone.\<close>

definition same_money :: "payment_row \<Rightarrow> payment_row \<Rightarrow> bool" where
  "same_money q p \<longleftrightarrow> py_id q = py_id p \<and> py_amount q = py_amount p \<and> py_refunded_amount q = py_refunded_amount p
     \<and> py_order_id q = py_order_id p \<and> py_deleted_at q = py_deleted_at p"

abbreviation put_row :: "payment_row \<Rightarrow> payment_row list \<Rightarrow> payment_row list" where
  "put_row q ps \<equiv> update_where (\<lambda>p. py_id p = py_id q) (\<lambda>_. q) ps"

abbreviation row_at :: "string \<Rightarrow> payment_row list \<Rightarrow> payment_row option" where
  "row_at i ps \<equiv> find (\<lambda>p. py_id p = i) ps"

definition cents :: "rat \<Rightarrow> bool" where
  "cents x \<longleftrightarrow> dec2 x = x"

definition refund_status :: "rat \<Rightarrow> rat \<Rightarrow> string" where
  "refund_status refunded amount = (if refunded \<ge> amount - 1 / 1000 then ''refunded'' else ''partially_refunded'')"

text \<open>The statuses the module itself writes; a chargeback or an expiry comes from elsewhere.\<close>

definition LIVE :: "string list" where
  "LIVE = [''pending'', ''authorized'', ''captured'', ''failed'', ''cancelled'', ''refunded'', ''partially_refunded'']"

inductive ledger_step :: "bool \<Rightarrow> ledger \<Rightarrow> ledger \<Rightarrow> bool" for webhooks :: bool where
  opened: "py_id p \<notin> set (map py_id ps) \<Longrightarrow> py_status p = ''pending'' \<Longrightarrow> py_refunded_amount p = 0 \<Longrightarrow> cents (py_amount p)
    \<Longrightarrow> py_gateway_payment_id p = None \<Longrightarrow> payment_row_ok p ps \<Longrightarrow> ledger_step webhooks (ps, ts) (ps @ [p], ts)"
| moved: "p \<in> set ps \<Longrightarrow> allowed_payment (py_status p) (py_status q) \<Longrightarrow> py_status q \<in> set LIVE \<Longrightarrow> same_money q p
    \<Longrightarrow> payment_row_ok q ps \<Longrightarrow> ledger_step webhooks (ps, ts) (put_row q ps, ts)"
| refunded: "p \<in> set ps \<Longrightarrow> py_status p = ''captured'' \<or> py_status p = ''partially_refunded'' \<Longrightarrow> tx_amount x > 0
    \<Longrightarrow> cents (tx_amount x) \<Longrightarrow> py_refunded_amount q = py_refunded_amount p + tx_amount x
    \<Longrightarrow> py_status q = refund_status (py_refunded_amount q) (py_amount p)
    \<Longrightarrow> same_money (q\<lparr>py_refunded_amount := py_refunded_amount p\<rparr>) p \<Longrightarrow> payment_row_ok q ps \<Longrightarrow> tx_payment_id x = py_id p
    \<Longrightarrow> ledger_step webhooks (ps, ts) (put_row q ps, ts @ [x])"
| overwritten: "webhooks \<Longrightarrow> p \<in> set ps \<Longrightarrow> py_status q \<in> {''authorized'', ''captured'', ''failed''} \<Longrightarrow> same_money q p
    \<Longrightarrow> payment_row_ok q ps \<Longrightarrow> ledger_step webhooks (ps, ts) (put_row q ps, ts)"

abbreviation ledger_steps :: "bool \<Rightarrow> ledger \<Rightarrow> ledger \<Rightarrow> bool" where
  "ledger_steps b \<equiv> (ledger_step b)\<^sup>*\<^sup>*"

section \<open>Well-formed ledgers\<close>

definition ledger_ok :: "ledger \<Rightarrow> bool" where
  "ledger_ok l \<longleftrightarrow> distinct (map py_id (fst l)) \<and> list_all (\<lambda>p. py_status p \<in> set LIVE \<and> payment_row_ok p (fst l)
     \<and> cents (py_amount p) \<and> cents (py_refunded_amount p)) (fst l)"

lemma row_at_member: "distinct (map py_id ps) \<Longrightarrow> p \<in> set ps \<Longrightarrow> row_at (py_id p) ps = Some p"
  by (induction ps) auto

lemma row_atD: "row_at i ps = Some p \<Longrightarrow> py_id p = i \<and> p \<in> set ps"
  by (auto simp: find_Some_iff)

lemma in_put_row: "x \<in> set (put_row q ps) \<longleftrightarrow> (x \<in> set ps \<and> py_id x \<noteq> py_id q) \<or> (x = q \<and> py_id q \<in> py_id ` set ps)"
  by (induction ps) (auto simp: update_where_def)

lemma ids_put_row [simp]: "map py_id (put_row q ps) = map py_id ps"
  by (auto simp: update_where_def)

lemma put_row_eq:
  assumes "distinct (map py_id ps)" "p \<in> set ps" "py_id (g p) = py_id p"
  shows "update_where (\<lambda>x. py_id x = py_id p) g ps = put_row (g p) ps"
  using assms by (auto simp: update_where_def distinct_map dest: inj_onD)

lemma row_at_put_row: "row_at i (put_row q ps) = map_option (\<lambda>p. if py_id p = py_id q then q else p) (row_at i ps)"
  by (induction ps) (auto simp: update_where_def)

text \<open>A row's own uniqueness is that of the whole table: replacing a row keeps the others legal.\<close>

lemma row_ok_put_row:
  assumes "payment_row_ok q ps" "payment_row_ok p ps" "py_id p \<noteq> py_id q" "p \<in> set ps"
  shows "payment_row_ok p (put_row q ps)"
  using assms unfolding payment_row_ok_def by (fastforce simp: list_ex_iff in_put_row)

lemma row_ok_self: "payment_row_ok q ps \<Longrightarrow> payment_row_ok q (put_row q ps)"
  unfolding payment_row_ok_def by (auto simp: list_ex_iff in_put_row)

lemma row_ok_append:
  "payment_row_ok x ps \<Longrightarrow> payment_row_ok p ps \<Longrightarrow> py_gateway_payment_id p = None \<Longrightarrow> payment_row_ok x (ps @ [p])"
  unfolding payment_row_ok_def by auto

lemma ledger_ok_put_row:
  assumes "ledger_ok (ps, ts)" "payment_row_ok q ps" "py_status q \<in> set LIVE" "cents (py_amount q)" "cents (py_refunded_amount q)"
  shows "ledger_ok (put_row q ps, us)"
proof -
  have "py_status x \<in> set LIVE \<and> payment_row_ok x (put_row q ps) \<and> cents (py_amount x) \<and> cents (py_refunded_amount x)"
    if "x \<in> set (put_row q ps)" for x
  proof (cases "x = q")
    case True
    then show ?thesis using assms row_ok_self by simp
  next
    case False
    with that have "x \<in> set ps" "py_id x \<noteq> py_id q" by (simp_all add: in_put_row)
    then show ?thesis using assms row_ok_put_row [of q ps x] by (simp add: ledger_ok_def list_all_iff)
  qed
  moreover have "distinct (map py_id (put_row q ps))" using assms by (simp add: ledger_ok_def)
  ultimately show ?thesis by (simp add: ledger_ok_def list_all_iff)
qed

lemma cents_iff: "cents x \<longleftrightarrow> (\<exists>n. x = of_int n / 100)"
proof
  assume "cents x"
  then have "x = (if x \<ge> 0 then of_int \<lfloor>x * 100 + 1 / 2\<rfloor> / 100 else of_int (- \<lfloor>- x * 100 + 1 / 2\<rfloor>) / 100)"
    by (simp add: cents_def dec2_def split: if_splits)
  then show "\<exists>n. x = of_int n / 100" by metis
next
  assume "\<exists>n. x = of_int n / 100"
  then obtain n where x: "x = of_int n / 100" by blast
  have "\<lfloor>of_int m + 1 / 2 :: rat\<rfloor> = m" for m by linarith
  from this [of n] this [of "- n"] show "cents x" by (simp add: cents_def dec2_def x)
qed

lemma cents_add: "cents x \<Longrightarrow> cents y \<Longrightarrow> cents (x + y)"
  unfolding cents_iff by (metis add_divide_distrib of_int_add)

lemma cents_minus: "cents x \<Longrightarrow> cents (- x)"
  unfolding cents_iff by (metis minus_divide_left of_int_minus)

lemma cents_dec2 [simp]: "cents (dec2 x)"
  unfolding cents_iff dec2_def by (metis of_int_minus minus_divide_left)

lemma cents_zero [simp]: "cents 0"
  unfolding cents_iff by (rule exI [of _ 0]) simp

text \<open>Amounts in cents make the tolerance of the comparisons harmless.\<close>

lemma cents_le: "cents x \<Longrightarrow> cents y \<Longrightarrow> x \<le> y + 1 / 1000 \<longleftrightarrow> x \<le> y"
proof -
  assume "cents x" "cents y"
  then obtain n m where nm: "x = of_int n / 100" "y = of_int m / 100" by (auto simp: cents_iff)
  show ?thesis
  proof
    assume "x \<le> y + 1 / 1000"
    then have "(of_int n :: rat) < of_int (m + 1)" unfolding nm by simp
    then have "n \<le> m" unfolding of_int_less_iff by simp
    then show "x \<le> y" by (simp add: nm divide_right_mono)
  qed simp
qed

lemma allowed_live: "allowed_payment x y \<Longrightarrow> x \<in> set LIVE \<Longrightarrow> y = ''expired'' \<or> y = ''chargeback'' \<or> y \<in> set LIVE"
  by (auto simp: allowed_payment_def ALLOWED_PAYMENT_def LIVE_def split: if_splits)

lemma ledger_step_ok: "ledger_step b l m \<Longrightarrow> ledger_ok l \<Longrightarrow> ledger_ok m"
proof (induction rule: ledger_step.induct)
  case (opened p ps ts)
  then show ?case by (auto simp: ledger_ok_def list_all_iff LIVE_def row_ok_append)
next
  case (moved p ps q ts)
  then have "cents (py_amount q)" "cents (py_refunded_amount q)" by (auto simp: ledger_ok_def list_all_iff same_money_def)
  with moved show ?case by (auto intro: ledger_ok_put_row)
next
  case (refunded p ps x q ts)
  then have "cents (py_amount q)" "cents (py_refunded_amount q)"
    by (auto simp: ledger_ok_def list_all_iff same_money_def intro: cents_add)
  moreover have "py_status q \<in> set LIVE" using refunded by (simp add: refund_status_def LIVE_def)
  ultimately show ?case using refunded by (auto intro: ledger_ok_put_row)
next
  case (overwritten p ps q ts)
  then have "cents (py_amount q)" "cents (py_refunded_amount q)" by (auto simp: ledger_ok_def list_all_iff same_money_def)
  moreover have "py_status q \<in> set LIVE" using overwritten by (auto simp: LIVE_def)
  ultimately show ?case using overwritten by (auto intro: ledger_ok_put_row)
qed

lemma ledger_steps_ok: "ledger_steps b l m \<Longrightarrow> ledger_ok l \<Longrightarrow> ledger_ok m"
  by (induction rule: rtranclp_induct) (auto intro: ledger_step_ok)

end
