(* ===== verification/Payment_Refinement.thy ===== *)
theory Payment_Refinement
  imports Payment_Ledger
begin

text \<open>
  Every operation of the payments module refines the ledger: whatever the gateway, the queue, the locks
  and the clock answer, and whether the operation returns or throws, what it does to the ledger is a
  sequence of ledger steps. The provider is used only through \<open>provider_contract\<close>.
\<close>

named_theorems calm "actions that leave the ledger alone"

section \<open>Actions that leave the ledger alone\<close>

abbreviation calm :: "'a shop_act \<Rightarrow> bool" where
  "calm m \<equiv> preserves ledger_of m"

lemma calm_tables: "preserves tables m \<Longrightarrow> calm m"
  by (erule preserves_via) (simp add: ledger_of_def tables_def)

lemma calm_inI [calm]: "calm (inI m)"
  by (simp add: preserves_def inI_def ledger_of_def split: prod.split)

lemma calm_services [calm]:
  "calm now" "calm random_id" "calm (logA x)" "calm (uncacheA k)" "calm math_random" "calm (emit e)" "calm (constraint c q)"
  by (simp_all add: now_def random_id_def logA_def uncacheA_def calm_inI emit_def preserves_modifyA ledger_of_def)
    (simp_all add: preserves_def math_random_def constraint_def bindA_def ledger_of_def)

lemma calm_enqueue [calm]: "calm (enqueue j)"
  unfolding enqueue_def by (intro preserves_bindA preserves_modifyA preserves_case_option) (auto simp: ledger_of_def preserves_modifyA)

lemma calm_new_id [calm]: "calm (new_id f)"
  unfolding new_id_def by (intro preserves_bindA calm) simp_all

lemma calm_row_or_throw [calm]: "calm (row_or_throw x)"
  by (simp add: preserves_def row_or_throw_def split: option.split)

lemma calm_lockedA: "calm m \<Longrightarrow> calm (lockedA parts m)"
  unfolding lockedA_def Let_def by (auto intro!: preserves_bindA preserves_finallyA calm)

lemma calm_cachedA: "calm m \<Longrightarrow> calm (cachedA k m)"
  unfolding cachedA_def by (auto intro!: preserves_bindA preserves_case_option calm)

lemma calm_withRetry: "calm m \<Longrightarrow> calm (withRetry n m)"
  by (induction n) (auto intro!: preserves_catchA)

lemma calm_rows [calm]:
  "calm (createAttempt p n r msg st a)" "calm (createPaymentEvent i ev pl)" "calm (createAudit i act a x y m)"
  "calm (invalidatePayment i oid)" "calm (invalidateSaved c)" "calm (history_create oid x z note a)"
  "calm (order_update oid f)" "calm (cart_update oid g)"
  unfolding createAttempt_def createPaymentEvent_def createAudit_def invalidatePayment_def invalidateSaved_def
    history_create_def order_update_def cart_update_def
  by (auto intro!: preserves_bindA calm preserves_modifyA simp: ledger_of_def)

lemma calm_createTransaction [calm]: "kind \<noteq> ''refund'' \<Longrightarrow> calm (createTransaction i kind a c r raw u)"
  unfolding createTransaction_def by (intro preserves_bindA calm preserves_modifyA) (simp add: ledger_of_def)

lemma calm_refund_rows [calm]: "calm (refund_update i f)" "calm (refund_create mk)" "calm (refund_items_create i items)"
  unfolding refund_update_def refund_create_def refund_items_create_def Let_def
  by (auto intro!: preserves_bindA calm preserves_modifyA simp: ledger_of_def)

lemma calm_webhook_rows [calm]: "calm (webhook_create mk)" "calm (webhook_update i f)" "calm (webhook_mark i st m)"
  unfolding webhook_create_def webhook_mark_def webhook_update_def Let_def
  by (auto intro!: preserves_bindA calm preserves_modifyA simp: ledger_of_def)

lemma calm_reads [calm]:
  "calm (viewA p)" "calm (requirePayment i)" "calm (assertCanAccess c a)" "calm (assertAdminOrOwner a d)" "calm (assertPaymentTransition x y)"
  unfolding viewA_def requirePayment_def assertCanAccess_def assertAdminOrOwner_def assertPaymentTransition_def
  by (auto intro!: preserves_bindA preserves_case_option)

lemma calm_confirm [calm]: "calm (confirmPendingOrderAfterCapture oid a)"
  unfolding confirmPendingOrderAfterCapture_def
  by (auto intro!: preserves_bindA preserves_case_option preserves_catchA preserves_transactionA calm)

lemma calm_saved [calm]:
  "calm (getById env i a adm)" "calm (getByOrder ord env i a adm)" "calm (listSaved sord env c)" "calm (saveMethod env c dto)"
  "calm (deleteSaved c i)" "calm (setDefaultSaved sord env c i)"
  unfolding getById_def getByOrder_def listSaved_def saveMethod_def deleteSaved_def setDefaultSaved_def clear_default_def requireSaved_def Let_def
  by (auto intro!: preserves_bindA calm preserves_modifyA calm_cachedA preserves_forA simp: ledger_of_def)

section \<open>Refinement of one action\<close>

definition refines :: "bool \<Rightarrow> shop_world \<Rightarrow> 'a shop_act \<Rightarrow> bool" where
  "refines b w m \<longleftrightarrow> ledger_steps b (ledger_of w) (ledger_of (snd (m w)))"

lemma refines_calm: "calm m \<Longrightarrow> refines b w m"
  by (simp add: refines_def preserves_def)

lemma refines_bind:
  "refines b w m \<Longrightarrow> (\<And>x t. m w = (Inr x, t) \<Longrightarrow> ledger_steps b (ledger_of w) (ledger_of t) \<Longrightarrow> refines b t (f x)) \<Longrightarrow> refines b w (bindA m f)"
  by (cases "m w"; cases "fst (m w)") (auto simp: refines_def bindA_def intro: rtranclp_trans)

lemma refines_then_calm: "refines b w m \<Longrightarrow> (\<And>x. calm (f x)) \<Longrightarrow> refines b w (bindA m f)"
  by (erule refines_bind) (simp add: refines_calm)

lemma refines_calm_bind:
  "calm m \<Longrightarrow> (\<And>x t. m w = (Inr x, t) \<Longrightarrow> ledger_of t = ledger_of w \<Longrightarrow> refines b t (f x)) \<Longrightarrow> refines b w (bindA m f)"
  by (rule refines_bind [OF refines_calm]) (auto simp: preserves_def dest: arg_cong [where f = snd], metis snd_conv)

lemma refines_throwIf: "(\<not> c \<Longrightarrow> refines b w (f ())) \<Longrightarrow> refines b w (bindA (throwIf c e) f)"
  by (cases c) (auto simp: refines_def bindA_def)

lemma refines_read: "refines b w (f (g w)) \<Longrightarrow> refines b w (bindA (readA g) f)"
  by (simp add: refines_def bindA_def)

lemma refines_catch: "refines b w m \<Longrightarrow> (\<And>e. calm (h e)) \<Longrightarrow> refines b w (catchA m h)"
  by (cases "m w"; cases "fst (m w)") (auto simp: refines_def catchA_def preserves_def)

lemma refines_lockedA:
  assumes "\<And>t. ledger_of t = ledger_of w \<Longrightarrow> refines b t m"
  shows "refines b w (lockedA parts m)"
proof -
  have fin: "refines b t (finallyA m f)" if "ledger_of t = ledger_of w" "calm f" for t and f :: "unit shop_act"
    using assms [OF that(1)] that(2) by (auto simp: refines_def finallyA_def preserves_def split: prod.split sum.split) (metis snd_conv)+
  show ?thesis unfolding lockedA_def Let_def
    by (rule refines_calm_bind [OF calm_inI]) (auto intro!: fin preserves_bindA calm simp: refines_calm)
qed

lemma refines_payment:
  assumes "\<And>p. p \<in> set (sw_payments w) \<Longrightarrow> py_id p = i \<Longrightarrow> refines b w (f p)"
  shows "refines b w (bindA (requirePayment i) f)"
  using assms unfolding requirePayment_def bindA_assoc
  by (intro refines_read) (auto simp: findPayment_def refines_def find_Some_iff bindA_def split: option.split)

section \<open>Writes to the payments table\<close>

lemma refines_update:
  assumes ok: "ledger_ok (ledger_of w)" and p: "p \<in> set (sw_payments w)" "py_id p = i"
    and f: "\<And>t. same_money (f (p\<lparr>py_updated_at := t\<rparr>)) p"
    and st: "\<And>t. py_status (f (p\<lparr>py_updated_at := t\<rparr>)) = y"
    and y: "allowed_payment (py_status p) y \<and> y \<in> set LIVE \<or> b \<and> y \<in> {''authorized'', ''captured'', ''failed''}"
  shows "refines b w (payment_update i f)"
proof -
  have d: "distinct (map py_id (sw_payments w))" using ok by (simp add: ledger_ok_def ledger_of_def)
  have row: "row_at i (sw_payments w) = Some p" using row_at_member [OF d p(1)] p(2) by simp
  have put: "update_where (\<lambda>x. py_id x = i) (\<lambda>x. f (x\<lparr>py_updated_at := t\<rparr>)) (sw_payments w)
      = put_row (f (p\<lparr>py_updated_at := t\<rparr>)) (sw_payments w)" for t
    using put_row_eq [OF d p(1), of "\<lambda>x. f (x\<lparr>py_updated_at := t\<rparr>)"] f [of t] p(2) by (simp add: same_money_def)
  have step: "ledger_step b (sw_payments w, ts) (put_row (f (p\<lparr>py_updated_at := t\<rparr>)) (sw_payments w), ts)"
    if "payment_row_ok (f (p\<lparr>py_updated_at := t\<rparr>)) (sw_payments w)" for t ts
    using y
  proof
    assume "allowed_payment (py_status p) y \<and> y \<in> set LIVE"
    then show ?thesis using ledger_step.moved [OF p(1) _ _ f that] st by simp
  next
    assume "b \<and> y \<in> {''authorized'', ''captured'', ''failed''}"
    then show ?thesis using ledger_step.overwritten [OF _ p(1) _ f that] st by simp
  qed
  show ?thesis unfolding refines_def payment_update_def
    by (auto simp: row row_or_throw_def bindA_def now_def inI_def inv_now_def constraint_def ledger_of_def put intro: step)
qed

lemma refines_create:
  assumes ok: "ledger_ok (ledger_of w)"
    and mk: "\<And>i t. py_id (mk i t) = i" "\<And>i t. py_status (mk i t) = ''pending''" "\<And>i t. py_refunded_amount (mk i t) = 0"
      "\<And>i t. cents (py_amount (mk i t))" "\<And>i t. py_gateway_payment_id (mk i t) = None"
  shows "refines b w (payment_create mk)"
  unfolding payment_create_def new_id_def bindA_assoc Let_def
proof (rule refines_calm_bind [OF calm_services(2)], rule refines_read, rule refines_throwIf, goal_cases)
  case (1 i t)
  then have fresh: "i \<notin> set (map py_id (sw_payments t))" by simp
  have "refines b u (bindA (constraint c q) (\<lambda>_. bindA (constraint c' (\<lambda>w. payment_row_ok (mk i d) (sw_payments w)))
      (\<lambda>_. bindA (modifyA (\<lambda>w. w\<lparr>sw_payments := sw_payments w @ [mk i d]\<rparr>)) (\<lambda>_. returnA (mk i d)))))"
    if "ledger_of u = ledger_of t" for u d c c' q
    using fresh that mk ledger_step.opened [of "mk i d" "sw_payments u" b]
    by (auto simp: refines_def constraint_def bindA_def ledger_of_def intro!: r_into_rtranclp)
  then show ?case by (auto simp: bindA_def intro!: refines_calm_bind [OF calm_services(1), unfolded bindA_def])
qed

text \<open>A refund: the transaction and the new amount go together, the second write cannot fail.\<close>

lemma refines_refund_pair:
  assumes ok: "ledger_ok (ledger_of w)" and p: "p \<in> set (sw_payments w)"
    and st: "py_status p = ''captured'' \<or> py_status p = ''partially_refunded''"
    and a: "cents a" "a > 0" "a \<le> py_amount p - py_refunded_amount p"
    and f: "f = (\<lambda>q. q\<lparr>py_refunded_amount := dec2 (py_refunded_amount p + a),
      py_status := refund_status (py_refunded_amount p + a) (py_amount p), py_updated_by := u\<rparr>)"
    and k: "\<And>x. calm (k x)"
  shows "refines b w (bindA (createTransaction (py_id p) ''refund'' a cur ref raw v) (\<lambda>_. bindA (payment_update (py_id p) f) k))"
proof -
  let ?x = "\<lparr>tx_payment_id = py_id p, tx_type = ''refund'', tx_amount = dec2 a, tx_currency = cur, tx_gateway_reference = ref,
    tx_raw_response = raw, tx_created_by = v\<rparr>"
  let ?q = "\<lambda>t. f (p\<lparr>py_updated_at := t\<rparr>)"
  have d: "distinct (map py_id (sw_payments w))" using ok by (simp add: ledger_ok_def ledger_of_def)
  have row: "row_at (py_id p) (sw_payments w) = Some p" by (rule row_at_member [OF d p])
  have pr: "payment_row_ok p (sw_payments w)" "cents (py_refunded_amount p)"
    using ok p by (auto simp: ledger_ok_def ledger_of_def list_all_iff)
  have sum: "dec2 (py_refunded_amount p + a) = py_refunded_amount p + a" "dec2 a = a"
    using a pr(2) cents_add cents_def by auto
  have q: "payment_row_ok (?q t) (sw_payments w)" for t using pr(1) a by (auto simp: payment_row_ok_def f sum)
  have put: "update_where (\<lambda>x. py_id x = py_id p) (\<lambda>x. f (x\<lparr>py_updated_at := t\<rparr>)) (sw_payments w) = put_row (?q t) (sw_payments w)" for t
    using put_row_eq [OF d p, of "\<lambda>x. f (x\<lparr>py_updated_at := t\<rparr>)"] by (simp add: f)
  have "ledger_step b (sw_payments w, ts) (put_row (?q t) (sw_payments w), ts @ [?x])" for t ts
    by (rule ledger_step.refunded [OF p st]) (use a q [of t] in \<open>auto simp: f sum same_money_def\<close>)
  then have "refines b w (bindA (createTransaction (py_id p) ''refund'' a cur ref raw v) (\<lambda>_. payment_update (py_id p) f))"
    by (auto simp: refines_def createTransaction_def payment_update_def row row_or_throw_def bindA_def now_def inI_def inv_now_def
      constraint_def ledger_of_def put q)
  from refines_then_calm [OF this k] show ?thesis by (simp add: bindA_assoc)
qed

text \<open>
  An action that gives an action: \<open>ends\<close> says that it refines the ledger and that what it returns has a
  property. With it \<open>try\<close> blocks are taken one statement at a time.
\<close>

definition ends :: "bool \<Rightarrow> shop_world \<Rightarrow> 'a shop_act \<Rightarrow> ('a \<Rightarrow> bool) \<Rightarrow> bool" where
  "ends b w m C \<longleftrightarrow> refines b w m \<and> (\<forall>r t. m w = (Inr r, t) \<longrightarrow> C r)"

lemma ends_returnA [simp]: "ends b w (returnA r) C = C r"
  by (auto simp: ends_def refines_calm)

lemma ends_bind: "refines b w m \<Longrightarrow> (\<And>x t. ends b t (f x) C) \<Longrightarrow> ends b w (bindA m f) C"
  unfolding ends_def by (auto intro!: refines_bind simp: bindA_eq_Inr)

lemma ends_calm_bind:
  "calm m \<Longrightarrow> (\<And>x t. ledger_of t = ledger_of w \<Longrightarrow> ends b t (f x) C) \<Longrightarrow> ends b w (bindA m f) C"
  unfolding ends_def by (auto intro!: refines_calm_bind simp: bindA_eq_Inr preserves_def) (metis snd_conv)

lemma rethrow: "\<exists>e'. bindA g (\<lambda>_. throwA e) t = (Inl e', snd (g t))"
  by (cases "g t"; cases "fst (g t)") (auto simp: bindA_def)

lemma refines_try_ends:
  fixes m :: "'a shop_act shop_act"
  assumes "ends b w m calm" "\<And>e. calm (g e)"
  shows "refines b w (bindA (catchA m (\<lambda>e. bindA (g e) (\<lambda>_. throwA e))) (\<lambda>r. r))"
proof (cases "m w")
  case (Pair s t)
  show ?thesis
  proof (cases s)
    case (Inl e)
    obtain e' where "(bindA (g e) (\<lambda>_. throwA e) :: 'a shop_act shop_act) t = (Inl e', snd (g e t))" using rethrow [of "g e" e t] by (elim exE)
    with Pair Inl have "bindA (catchA m (\<lambda>e. bindA (g e) (\<lambda>_. throwA e))) (\<lambda>r. r) w = (Inl e', snd (g e t))"
      by (intro bindA_Inl) simp
    then show ?thesis using assms Pair by (simp add: ends_def refines_def preserves_def)
  next
    case (Inr r)
    then show ?thesis using assms(1) Pair by (simp add: ends_def refines_def catchA_def bindA_def preserves_def)
  qed
qed

lemma refines_try_bind:
  fixes f :: "'c \<Rightarrow> 'a shop_act shop_act"
  assumes m: "calm m" and g: "\<And>e. calm (g e)"
    and f: "\<And>x t. ledger_of t = ledger_of w \<Longrightarrow> refines b t (bindA (catchA (f x) (\<lambda>e. bindA (g e) (\<lambda>_. throwA e))) (\<lambda>r. r))"
  shows "refines b w (bindA (catchA (bindA m f) (\<lambda>e. bindA (g e) (\<lambda>_. throwA e))) (\<lambda>r. r))"
proof (cases "m w")
  case (Pair s t)
  with m have t: "ledger_of t = ledger_of w" unfolding preserves_def by (metis snd_conv)
  show ?thesis
  proof (cases s)
    case (Inl e)
    obtain e' where "(bindA (g e) (\<lambda>_. throwA e) :: 'a shop_act shop_act) t = (Inl e', snd (g e t))" using rethrow [of "g e" e t] by (elim exE)
    with Pair Inl have "bindA (catchA (bindA m f) (\<lambda>e. bindA (g e) (\<lambda>_. throwA e))) (\<lambda>r. r) w = (Inl e', snd (g e t))"
      by (intro bindA_Inl) simp
    then show ?thesis using g [of e] t by (simp add: refines_def preserves_def)
  next
    case (Inr x)
    then show ?thesis using f [OF t, of x] Pair t by (simp add: refines_def catchA_def bindA_def)
  qed
qed

section \<open>The operations\<close>

context provider_contract
begin

lemma provider_calm [calm]:
  "calm (pv_createOrder P x c r n)" "calm (pv_authorize P i x c)" "calm (pv_capture P i x c)"
  "calm (pv_cancel P o1 o2 x c)" "calm (pv_refund P i x c n)"
  using createOrder_frame authorize_frame capture_frame cancel_frame refund_frame by (blast intro: calm_tables)+

lemma create_refines:
  assumes "px_provider env = P" "ledger_ok (ledger_of w)"
  shows "refines b w (create_payment env actor dto)"
  unfolding create_payment_def Let_def assms(1)
proof (rule refines_read, cases "findOrder (cpd_orderId dto) w", goal_cases)
  case 1
  then show ?case by (simp add: refines_calm)
next
  case (2 order)
  show ?case unfolding 2 option.case
  proof (intro refines_calm_bind refines_read, goal_cases)
    case (4 x t xa ta gw tb)
    then have ok: "ledger_ok (ledger_of tb)" using assms(2) by simp
    show ?case
    proof (cases gw)
      case None
      then show ?thesis by (simp add: refines_calm)
    next
      case (Some g)
      show ?thesis unfolding Some option.case
        by (rule refines_calm_bind [OF calm_withRetry [OF provider_calm(1)]], rule refines_then_calm [OF refines_create])
          (use ok in \<open>auto intro!: preserves_bindA calm\<close>)
    qed
  qed (auto intro!: calm)
qed

lemma markFailed_refines:
  assumes "ledger_ok (ledger_of w)" "p \<in> set (sw_payments w)" "allowed_payment (py_status p) ''failed''"
  shows "refines b w (markFailed env p actor reason raw)"
  unfolding markFailed_def
proof (rule refines_calm_bind [OF calm_services(1)], rule refines_then_calm [OF refines_update])
  fix x t u assume "ledger_of t = ledger_of w"
  then show "ledger_ok (ledger_of t)" "p \<in> set (sw_payments t)" using assms(1,2) by (simp_all add: ledger_of_def)
qed (use assms(3) in \<open>auto simp: same_money_def LIVE_def intro!: preserves_bindA calm\<close>)

lemma authorize_refines:
  assumes env: "px_provider env = P" and ok: "ledger_ok (ledger_of w)"
  shows "refines b w (authorize env i actor adm)"
  unfolding authorize_def
proof (rule refines_lockedA, rule refines_payment, rule refines_calm_bind, goal_cases)
  case (2 t p x u)
  have frame: "ledger_ok (ledger_of v) \<and> p \<in> set (sw_payments v)" if "ledger_of v = ledger_of u" for v
    using 2 that ok by (simp add: ledger_of_def)
  show ?case unfolding assertPaymentTransition_def
  proof (rule refines_throwIf, rule refines_read)
    assume "\<not> \<not> allowed_payment (py_status p) ''authorized''"
    then have st: "allowed_payment (py_status p) ''authorized''" "allowed_payment (py_status p) ''failed''"
      by (auto simp: allowed_payment_def ALLOWED_PAYMENT_def split: if_splits)
    show "refines b u (bindA (catchA (authorize_try env p actor (nextAttemptNumber (py_id p) u)) (\<lambda>err.
        bindA (createAttempt p (nextAttemptNumber (py_id p) u) None (Some (message2000 err)) ''failed'' None) (\<lambda>_. throwA err))) (\<lambda>rest. rest))"
      (is "refines b u (bindA (catchA _ ?h) _)")
      unfolding authorize_try_def Let_def env
    proof (rule refines_try_bind [OF preserves_throwIf], goal_cases)
      case (2 x t)
      show ?case
      proof (rule refines_try_bind [OF calm_withRetry [OF provider_calm(2)]], goal_cases)
        case (2 r v)
        then have v: "ledger_of v = ledger_of u" using \<open>ledger_of t = ledger_of u\<close> by simp
        show ?case
        proof (cases "az_status r = ''pending''")
          case True
          then show ?thesis by (auto intro!: refines_try_ends ends_bind [OF refines_calm] calm)
        next
          case False
          show ?thesis
          proof (cases "az_status r = ''failed'' \<or> az_payment_id r = []")
            case True
            then show ?thesis using markFailed_refines [of v p] frame [OF v] st False by (simp add: bindA_def catchA_def)
          next
            case failed: False
            have "ends b v (bindA now (\<lambda>d. bindA (payment_update (py_id p) (\<lambda>q. q\<lparr>py_status := ''authorized'', py_gateway_payment_id := Some (az_payment_id r),
                py_gateway_signature := (case az_signature r of None \<Rightarrow> py_gateway_signature q | Some s \<Rightarrow> Some s),
                py_authorized_at := Some d, py_updated_by := Some actor\<rparr>)) (\<lambda>updated. k updated))) calm"
              if "\<And>z y. ends b y (k z) calm" for k
              by (rule ends_calm_bind [OF calm_services(1)], rule ends_bind [OF refines_update], insert frame st v)
                (auto simp: same_money_def LIVE_def that)
            note upd = this
            show ?thesis using False failed
              by (simp, intro refines_try_ends upd) (auto intro!: calm ends_bind [OF refines_calm])
          qed
        qed
      qed (auto intro!: calm preserves_bindA)
    qed (auto intro!: calm preserves_bindA)
  qed
qed (auto intro!: calm)

lemma capture_rest_refines:
  assumes env: "px_provider env = P" and ok: "ledger_ok (ledger_of w)" and p: "p \<in> set (sw_payments w)"
    and st: "allowed_payment (py_status p) ''captured''"
  shows "refines b w (capture_rest env p actor)"
proof -
  have fl: "allowed_payment (py_status p) ''failed''"
    using st by (auto simp: allowed_payment_def ALLOWED_PAYMENT_def split: if_splits)
  have frame: "ledger_ok (ledger_of v) \<and> p \<in> set (sw_payments v)" if "ledger_of v = ledger_of w" for v
    using that ok p by (simp add: ledger_of_def)
  have upd: "refines b v (bindA now (\<lambda>d. bindA (payment_update (py_id p) (\<lambda>q. q\<lparr>py_status := ''captured'',
      py_captured_at := Some d, py_updated_by := Some actor\<rparr>)) k))"
    if "ledger_of v = ledger_of w" "\<And>z. calm (k z)" for v and k :: "payment_row \<Rightarrow> payment_view shop_act"
    by (rule refines_calm_bind [OF calm_services(1)], rule refines_then_calm [OF refines_update], insert frame st that)
      (auto simp: same_money_def LIVE_def)
  show ?thesis unfolding capture_rest_def capture_zero_def env
    using frame fl
    by (auto simp: refines_calm intro!: upd calm preserves_bindA refines_calm_bind [OF calm_withRetry [OF provider_calm(3)]] markFailed_refines)
qed

lemma capture_refines:
  assumes env: "px_provider env = P" and ok: "ledger_ok (ledger_of w)"
  shows "refines b w (capture env i actor adm)"
  unfolding capture_def
proof (rule refines_lockedA, rule refines_payment, rule refines_calm_bind, goal_cases)
  case (2 t p x u)
  then have "ledger_ok (ledger_of u)" "p \<in> set (sw_payments u)" using ok by (simp_all add: ledger_of_def)
  then show ?case unfolding capture_checked_def assertPaymentTransition_def
    by (auto simp: refines_calm calm intro!: refines_throwIf capture_rest_refines env)
qed (auto intro!: calm)

lemma cancel_refines:
  assumes env: "px_provider env = P" and ok: "ledger_ok (ledger_of w)"
  shows "refines b w (cancel_payment env i actor adm)"
  unfolding cancel_payment_def env
proof (rule refines_lockedA, rule refines_payment, rule refines_calm_bind, goal_cases)
  case (2 t p x u)
  then have frame: "ledger_ok (ledger_of v) \<and> p \<in> set (sw_payments v)" if "ledger_of v = ledger_of u" for v
    using ok that by (simp add: ledger_of_def)
  have "py_status p \<in> set LIVE" using frame [of u] by (auto simp: ledger_ok_def ledger_of_def list_all_iff)
  then have st: "allowed_payment (py_status p) ''cancelled'' \<and> ''cancelled'' \<in> set LIVE"
    if "py_status p \<noteq> ''cancelled''" "py_status p \<noteq> ''refunded''" "\<not> (py_status p = ''captured'' \<or> py_status p = ''partially_refunded'')"
    using that by (auto simp: LIVE_def allowed_payment_def ALLOWED_PAYMENT_def)
  show ?case
  proof (cases "py_status p = ''cancelled'' \<or> py_status p = ''refunded''")
    case True
    then show ?thesis by (simp add: refines_calm calm)
  next
    case False
    then show ?thesis
      by (simp, intro refines_throwIf refines_calm_bind [OF provider_calm(4)] refines_then_calm [OF refines_update [where y = "''cancelled''"]])
        (use frame st in \<open>auto simp: same_money_def intro!: preserves_bindA calm\<close>)
  qed
qed (auto intro!: calm)

lemma voidOrCancel_refines:
  assumes "px_provider env = P" "ledger_ok (ledger_of w)"
  shows "refines b w (voidOrCancel env i actor)"
  unfolding voidOrCancel_def
  by (rule refines_read)
    (auto simp: refines_calm split: option.split intro!: refines_catch refines_then_calm cancel_refines assms calm)

lemma retry_refines:
  assumes env: "px_provider env = P" and ok: "ledger_ok (ledger_of w)"
  shows "refines b w (retry_payment env i actor)"
  unfolding retry_payment_def
proof (rule refines_payment, rule refines_calm_bind [OF calm_reads(3)], rule refines_throwIf, rule refines_calm_bind [OF calm_enqueue], goal_cases)
  case (1 p x t y u)
  then have u: "ledger_ok (ledger_of u)" "p \<in> set (sw_payments u)" using ok by (simp_all add: ledger_of_def)
  have keep: "ledger_ok (ledger_of v)" if "ledger_steps b (ledger_of u) (ledger_of v)" for v using ledger_steps_ok [OF that u(1)] .
  have upd: "refines b u (if py_status p = ''failed'' then bindA (payment_update (py_id p)
      (\<lambda>q. q\<lparr>py_status := ''pending'', py_failed_at := None, py_updated_by := Some actor\<rparr>)) (\<lambda>_. returnA ()) else returnA ())"
  proof (cases "py_status p = ''failed''")
    case True
    then show ?thesis
      by (simp, intro refines_then_calm refines_update [OF u, where y = "''pending''"])
        (auto simp: same_money_def allowed_payment_def ALLOWED_PAYMENT_def LIVE_def)
  qed (simp add: refines_calm)
  show ?case
  proof (rule refines_bind [OF upd], rule refines_bind [OF authorize_refines [OF env]], goal_cases)
    case (1 x v)
    then show ?case using keep by blast
  next
    case (2 x v y z)
    then have "ledger_ok (ledger_of z)" using keep ledger_steps_ok by blast
    then show ?case by (auto simp: refines_calm intro: capture_refines [OF env])
  qed
qed

lemma refund_try_refines:
  assumes env: "px_provider env = P" and ok: "ledger_ok (ledger_of w)" and p: "p \<in> set (sw_payments w)"
    and st: "py_status p = ''captured'' \<or> py_status p = ''partially_refunded''"
    and a: "cents (rfd_amount dto)" "rfd_amount dto > 0" "rfd_amount dto \<le> py_amount p - py_refunded_amount p"
  shows "refines b w (refund_try env p actor dto r)"
  unfolding refund_try_def Let_def env
proof (rule refines_calm_bind [OF provider_calm(5)], rule refines_calm_bind, goal_cases)
  case (2 gw t x u)
  have frame: "ledger_ok (ledger_of v) \<and> p \<in> set (sw_payments v)" if "ledger_of v = ledger_of w" for v
    using that ok p by (simp add: ledger_of_def)
  from 2 show ?case
    by (intro refines_calm_bind [OF calm_services(1)] refines_calm_bind [OF calm_refund_rows(1)] refines_refund_pair)
      (use frame st a in \<open>auto simp: refund_status_def intro!: preserves_bindA calm\<close>)
qed (auto intro!: calm preserves_bindA)

lemma refund_refines:
  assumes env: "px_provider env = P" and ok: "ledger_ok (ledger_of w)" and a: "cents (rfd_amount dto)" "rfd_amount dto > 0"
  shows "refines b w (refund env i actor dto adm)"
  unfolding refund_def Let_def
proof (rule refines_lockedA, rule refines_payment, (rule refines_throwIf)+, rule refines_calm_bind [OF calm_services(1)],
    rule refines_calm_bind [OF calm_services(5)], rule refines_calm_bind [OF calm_refund_rows(2)], rule refines_calm_bind,
    goal_cases)
  case (2 t p d u x v r y z s)
  then have l: "ledger_ok (ledger_of s)" "p \<in> set (sw_payments s)" using ok by (simp_all add: ledger_of_def)
  then have "cents (py_amount p - py_refunded_amount p)"
    using cents_add [of "py_amount p" "- py_refunded_amount p"] by (auto simp: ledger_ok_def ledger_of_def list_all_iff cents_minus)
  from cents_le [OF a(1) this, THEN iffD1] 2(6) have "rfd_amount dto \<le> py_amount p - py_refunded_amount p" by linarith
  moreover have "py_status p = ''captured'' \<or> py_status p = ''partially_refunded''" using 2(5) by blast
  ultimately show ?case using l a
    by (auto intro!: refines_throwIf refines_catch refund_try_refines env preserves_bindA calm)
qed (auto intro!: calm preserves_case_option)

lemma applyGatewayStatus_refines:
  assumes ok: "ledger_ok (ledger_of w)" and st: "st \<in> {''authorized'', ''captured'', ''failed''}"
  shows "refines True w (applyGatewayStatus i st gid raw)"
  unfolding applyGatewayStatus_def
proof (rule refines_payment, rule refines_calm_bind [OF calm_services(1)], rule refines_calm_bind, goal_cases)
  case (2 p d t e u)
  then have "ledger_ok (ledger_of u)" "p \<in> set (sw_payments u)" using ok by (simp_all add: ledger_of_def)
  then show ?case using 2(2) st
    by (intro refines_then_calm [OF refines_update [where y = st]]) (auto simp: same_money_def intro!: preserves_bindA calm)
qed (auto intro!: calm)

lemma processWebhook_refines: "ledger_ok (ledger_of w) \<Longrightarrow> refines True w (processWebhook env i)"
  unfolding processWebhook_def
proof (rule refines_read, cases "find (\<lambda>k. wk_id k = i \<and> wk_deleted_at k = None) (sw_webhooks w)", goal_cases)
  case 1
  then show ?case by (simp add: refines_calm)
next
  case (2 row)
  have app: "refines True w (webhook_apply row g p)" for g p
    unfolding webhook_apply_def Let_def
    by (rule refines_then_calm) (auto simp: refines_calm intro!: refines_then_calm applyGatewayStatus_refines 2(1) calm)
  then have "refines True w (case payment of None \<Rightarrow> returnA () | Some p \<Rightarrow> webhook_apply row g p)" for payment g
    by (auto simp: refines_calm split: option.split)
  then show ?case using 2
    by (auto simp: refines_calm split: prod.split intro!: refines_catch refines_read refines_then_calm preserves_bindA calm)
qed

lemma receiveRazorpay_refines: "ledger_ok (ledger_of w) \<Longrightarrow> refines True w (receiveRazorpay env body sig payload)"
  unfolding receiveRazorpay_def
proof (rule refines_read, rule refines_throwIf, goal_cases)
  case 1
  obtain eid et key where key: "idempotency_key (px_text env) payload = (eid, et, key)" by (cases "idempotency_key (px_text env) payload") auto
  show ?case unfolding key Let_def prod.case
  proof (rule refines_lockedA, rule refines_read, goal_cases)
    case (1 t)
    then have ok: "ledger_ok (ledger_of t)" using \<open>ledger_ok (ledger_of w)\<close> by simp
    show ?case
    proof (cases "findByIdempotency (case findGatewayByCode ''razorpay'' w of None \<Rightarrow> RAZORPAY_GATEWAY_ID | Some g \<Rightarrow> gw_id g) key t")
      case None
      show ?thesis unfolding None option.case
        by (intro refines_calm_bind [OF calm_webhook_rows(1)] refines_calm_bind [OF calm_services(6)] refines_calm_bind [OF calm_enqueue]
            refines_then_calm refines_catch processWebhook_refines)
          (use ok in \<open>auto intro!: calm\<close>)
    next
      case (Some k)
      then show ?thesis by (auto intro!: refines_calm preserves_bindA calm)
    qed
  qed
qed

lemma process_job_refines:
  assumes "px_provider env = P" "ledger_ok (ledger_of w)" "(\<exists>i. job = WebhookJob i) \<longrightarrow> b"
  shows "refines b w (process_job env job)"
  using assms processWebhook_refines [OF assms(2), of env]
  by (auto simp: process_job_def refines_calm calm split: payment_job.split intro!: refines_then_calm authorize_refines)

end

section \<open>The service as a whole\<close>

text \<open>Requests to the module, in the order they are served; \<open>WebhookOp\<close> and webhook jobs come from the gateway.\<close>

datatype pay_op =
    CreateOp string create_payment_dto
  | AuthorizeOp string string bool
  | CaptureOp string string bool
  | CancelOp string string bool
  | VoidOp string string
  | RetryOp string string
  | RefundOp string string refund_dto bool
  | GetOp string string bool
  | SaveMethodOp string save_method_dto
  | DeleteSavedOp string string
  | WebhookOp string string jsobj
  | JobOp payment_job

definition voidA :: "'a shop_act \<Rightarrow> unit shop_act" where
  "voidA m = bindA m (\<lambda>_. returnA ())"

fun pay_request :: "pay_env \<Rightarrow> pay_op \<Rightarrow> unit shop_act" where
  "pay_request env (CreateOp actor dto) = voidA (create_payment env actor dto)"
| "pay_request env (AuthorizeOp i actor adm) = voidA (authorize env i actor adm)"
| "pay_request env (CaptureOp i actor adm) = voidA (capture env i actor adm)"
| "pay_request env (CancelOp i actor adm) = voidA (cancel_payment env i actor adm)"
| "pay_request env (VoidOp i actor) = voidOrCancel env i actor"
| "pay_request env (RetryOp i actor) = voidA (retry_payment env i actor)"
| "pay_request env (RefundOp i actor dto adm) = voidA (refund env i actor dto adm)"
| "pay_request env (GetOp i actor adm) = voidA (getById env i actor adm)"
| "pay_request env (SaveMethodOp c dto) = voidA (saveMethod env c dto)"
| "pay_request env (DeleteSavedOp c i) = deleteSaved c i"
| "pay_request env (WebhookOp body sig payload) = voidA (receiveRazorpay env body sig payload)"
| "pay_request env (JobOp job) = process_job env job"

text \<open>A failed request leaves what it wrote and the next one is served.\<close>

fun serve :: "pay_env \<Rightarrow> pay_op list \<Rightarrow> shop_world \<Rightarrow> shop_world" where
  "serve env [] w = w"
| "serve env (p # ps) w = serve env ps (snd (pay_request env p w))"

definition from_gateway :: "pay_op \<Rightarrow> bool" where
  "from_gateway p = (case p of WebhookOp _ _ _ \<Rightarrow> True | JobOp j \<Rightarrow> (case j of WebhookJob _ \<Rightarrow> True | _ \<Rightarrow> False) | _ \<Rightarrow> False)"

text \<open>The validation pipe: a refund is of at least one cent, in whole cents.\<close>

definition valid_pay_op :: "pay_op \<Rightarrow> bool" where
  "valid_pay_op p = (case p of RefundOp _ _ dto _ \<Rightarrow> cents (rfd_amount dto) \<and> rfd_amount dto \<ge> 1 / 100 | _ \<Rightarrow> True)"

context provider_contract
begin

lemma request_refines:
  assumes "px_provider env = P" "ledger_ok (ledger_of w)" "valid_pay_op p" "from_gateway p \<longrightarrow> b"
  shows "refines b w (pay_request env p)"
  using assms receiveRazorpay_refines [OF assms(2), of env]
  by (cases p) (auto simp: voidA_def valid_pay_op_def from_gateway_def refines_calm calm split: payment_job.splits
    intro!: refines_then_calm create_refines authorize_refines capture_refines cancel_refines voidOrCancel_refines
      retry_refines refund_refines process_job_refines)

lemma serve_refines:
  assumes "px_provider env = P"
  shows "ledger_ok (ledger_of w) \<Longrightarrow> list_all valid_pay_op ps \<Longrightarrow> list_ex from_gateway ps \<longrightarrow> b
    \<Longrightarrow> ledger_steps b (ledger_of w) (ledger_of (serve env ps w))"
proof (induction ps arbitrary: w)
  case (Cons p ps)
  have "ledger_steps b (ledger_of w) (ledger_of (snd (pay_request env p w)))"
    using request_refines [OF assms Cons.prems(1), of p b] Cons.prems(2,3) by (simp add: refines_def)
  moreover from ledger_steps_ok [OF this Cons.prems(1)] Cons
  have "ledger_steps b (ledger_of (snd (pay_request env p w))) (ledger_of (serve env (p # ps) w))" by simp
  ultimately show ?case by (rule rtranclp_trans)
qed simp

end

end
