(* ===== verification/Payment_Safety.thy ===== *)
theory Payment_Safety
  imports Payment_Refinement
begin

text \<open>
  What the ledger machine guarantees, by rule induction, and what that says of the payments module:
  statuses follow the graph, refunds are booked exactly and never exceed the payment. Then what is left
  to the gateway's webhooks, to reads through the cache and to operations that overlap.
\<close>

section \<open>Guarantees of the ledger machine\<close>

lemma row_at_append: "row_at i ps = Some p \<Longrightarrow> row_at i (ps @ qs) = Some p"
  by (induction ps) (auto split: if_splits)

lemma row_at_put:
  assumes "ledger_ok (ps, ts)" "x \<in> set ps" "py_id q = py_id x" "row_at i ps = Some p"
  shows "row_at i (put_row q ps) = Some q \<and> p = x \<or> row_at i (put_row q ps) = Some p"
  unfolding row_at_put_row using assms row_at_member [of ps x] by (cases "i = py_id x") (auto simp: ledger_ok_def dest: row_atD)

lemma ledger_step_row:
  assumes "ledger_step b l m" "ledger_ok l" "row_at i (fst l) = Some p"
  shows "\<exists>q. row_at i (fst m) = Some q \<and> py_amount q = py_amount p \<and> py_order_id q = py_order_id p
    \<and> (\<not> b \<longrightarrow> py_status q = py_status p \<or> allowed_payment (py_status p) (py_status q))"
  using assms
proof (induction rule: ledger_step.induct)
  case (opened x ps ts)
  then show ?case by (simp add: row_at_append)
next
  case (moved x ps q ts)
  then have "py_id q = py_id x" "py_amount q = py_amount x" "py_order_id q = py_order_id x" by (simp_all add: same_money_def)
  with row_at_put [of ps ts x q i p] moved show ?case by fastforce
next
  case (refunded x ps r q ts)
  then have "py_id q = py_id x" "py_amount q = py_amount x" "py_order_id q = py_order_id x" by (simp_all add: same_money_def)
  moreover have "allowed_payment (py_status x) (py_status q)"
    using refunded by (auto simp: refund_status_def allowed_payment_def ALLOWED_PAYMENT_def)
  ultimately show ?case using row_at_put [of ps ts x q i p] refunded by fastforce
next
  case (overwritten x ps q ts)
  then have "py_id q = py_id x" "py_amount q = py_amount x" "py_order_id q = py_order_id x" by (simp_all add: same_money_def)
  with row_at_put [of ps ts x q i p] overwritten show ?case by fastforce
qed

lemma ledger_steps_row:
  assumes "ledger_steps b l m" "ledger_ok l" "row_at i (fst l) = Some p"
  shows "\<exists>q. row_at i (fst m) = Some q \<and> py_amount q = py_amount p \<and> py_order_id q = py_order_id p \<and> (\<not> b \<longrightarrow> allowed_payment\<^sup>*\<^sup>* (py_status p) (py_status q))"
  using assms(1)
proof (induction rule: rtranclp_induct)
  case base
  show ?case using assms(3) by simp
next
  case (step m n)
  then obtain q where q: "row_at i (fst m) = Some q" "py_amount q = py_amount p" "py_order_id q = py_order_id p" "\<not> b \<longrightarrow> allowed_payment\<^sup>*\<^sup>* (py_status p) (py_status q)" by blast
  from ledger_step_row [OF step(2) ledger_steps_ok [OF step(1) assms(2)] q(1)] show ?case
    using q(2-4) by (auto intro: rtranclp.rtrancl_into_rtrancl)
qed

text \<open>The refund transactions of a payment add up to what its row says was refunded.\<close>

definition refund_total :: "string \<Rightarrow> transaction_row list \<Rightarrow> rat" where
  "refund_total i ts = sum_list (map tx_amount (filter (\<lambda>x. tx_type x = ''refund'' \<and> tx_payment_id x = i) ts))"

definition booked :: "ledger \<Rightarrow> bool" where
  "booked l \<longleftrightarrow> list_all (\<lambda>p. py_refunded_amount p = sum_list (map tx_amount (filter (\<lambda>x. tx_payment_id x = py_id p) (snd l)))) (fst l)
     \<and> list_all (\<lambda>x. tx_payment_id x \<in> set (map py_id (fst l))) (snd l)"

lemma booked_put_row:
  assumes "booked (ps, ts)" "ledger_ok (ps, ts)" "p \<in> set ps" "py_id q = py_id p" "py_refunded_amount q = py_refunded_amount p"
  shows "booked (put_row q ps, ts)"
proof -
  have "py_refunded_amount r = sum_list (map tx_amount (filter (\<lambda>y. tx_payment_id y = py_id r) ts))" if "r \<in> set (put_row q ps)" for r
    using that [unfolded in_put_row] assms by (auto simp: booked_def list_all_iff)
  moreover have "set (map py_id (put_row q ps)) = set (map py_id ps)" by simp
  ultimately show ?thesis using assms(1) unfolding booked_def list_all_iff fst_conv snd_conv by blast
qed

lemma booked_opened:
  assumes "booked (ps, ts)" "py_id p \<notin> set (map py_id ps)" "py_refunded_amount p = 0"
  shows "booked (ps @ [p], ts)"
proof -
  have ids: "\<forall>x\<in>set ts. tx_payment_id x \<in> set (map py_id ps)" using assms(1) by (simp add: booked_def list_all_iff)
  then have "tx_payment_id x \<noteq> py_id p" if "x \<in> set ts" for x using that assms(2) by metis
  then have "filter (\<lambda>x. tx_payment_id x = py_id p) ts = []" by (simp add: filter_empty_conv)
  with assms(1,3) ids show ?thesis by (simp add: booked_def list_all_iff)
qed

lemma booked_refunded:
  assumes "booked (ps, ts)" "p \<in> set ps" "py_id q = py_id p" "tx_payment_id x = py_id p"
    "py_refunded_amount q = py_refunded_amount p + tx_amount x"
  shows "booked (put_row q ps, ts @ [x])"
proof -
  have "py_refunded_amount r = sum_list (map tx_amount (filter (\<lambda>y. tx_payment_id y = py_id r) (ts @ [x])))" if "r \<in> set (put_row q ps)" for r
    using that [unfolded in_put_row] assms by (auto simp: booked_def list_all_iff)
  moreover have "set (map py_id (put_row q ps)) = set (map py_id ps)" by simp
  moreover have "tx_payment_id y \<in> set (map py_id ps)" if "y \<in> set (ts @ [x])" for y
    using that assms by (auto simp: booked_def list_all_iff)
  ultimately show ?thesis unfolding booked_def list_all_iff fst_conv snd_conv by blast
qed

lemma ledger_step_booked: "ledger_step b l m \<Longrightarrow> ledger_ok l \<Longrightarrow> booked l \<Longrightarrow> booked m"
proof (induction rule: ledger_step.induct)
  case (opened p ps ts)
  then show ?case by (intro booked_opened) simp_all
next
  case (moved p ps q ts)
  then show ?case by (intro booked_put_row [of ps ts p q]) (simp_all add: same_money_def)
next
  case (refunded p ps x q ts)
  then show ?case by (intro booked_refunded [of ps ts p q x]) (simp_all add: same_money_def)
next
  case (overwritten p ps q ts)
  then show ?case by (intro booked_put_row [of ps ts p q]) (simp_all add: same_money_def)
qed

lemma ledger_steps_booked: "ledger_steps b l m \<Longrightarrow> ledger_ok l \<Longrightarrow> booked l \<Longrightarrow> booked m"
  by (induction rule: rtranclp_induct) (auto intro: ledger_step_booked ledger_steps_ok)

lemma filter_refund: "filter (\<lambda>x. tx_payment_id x = i) (snd (ledger_of w))
  = filter (\<lambda>x. tx_type x = ''refund'' \<and> tx_payment_id x = i) (sw_transactions w)"
  by (simp add: ledger_of_def conj_commute)

lemma booked_total: "booked (ledger_of w) \<Longrightarrow> p \<in> set (sw_payments w) \<Longrightarrow> refund_total (py_id p) (sw_transactions w) = py_refunded_amount p"
  unfolding booked_def filter_refund refund_total_def by (simp add: list_all_iff ledger_of_def)

section \<open>A small shop\<close>

text \<open>One order of 100.00, a gateway in mock mode, and everything granted; the facts below run on it.\<close>

definition demo_inv :: inv_world where
  "demo_inv = \<lparr>iw_warehouses = [], iw_zones = [], iw_racks = [], iw_bins = [], iw_rows = [], iw_reservations = [],
     iw_movements = [], iw_adjustments = [], iw_alerts = [], iw_receipts = [], iw_receipt_items = [],
     iw_transfers = [], iw_transfer_items = [], iw_pos = [], iw_po_items = [], iw_serials = [], iw_cycles = [],
     iw_variants = [], iw_carts = [], iw_orders = [], iw_suppliers = [], iw_users = [''ann''], iw_cache = (\<lambda>_. None),
     iw_events = [], iw_log = [], iw_clock = int, iw_reads = 0, iw_uuid = (\<lambda>n. CHR ''u'' # show_nat n), iw_uuids = 0,
     iw_grants = (\<lambda>_. Some ''token''), iw_grant_no = 0, iw_unlocks = (\<lambda>_. Inr True), iw_unlock_no = 0\<rparr>"

definition demo_order :: order_row where
  "demo_order = \<lparr>or_id = ''o1'', or_number = ''N1'', or_customer_id = Some ''ann'', or_cart_id = None, or_warehouse_id = None,
     or_currency = ''INR'', or_subtotal = 100, or_discount_total = 0, or_tax_total = 0, or_shipping_charge = 0, or_grand_total = 100,
     or_placed_at = None, or_cancelled_at = None, or_cancellation_reason_id = None, or_status = ''pending'', or_created_at = 0,
     or_deleted_at = None, or_created_by = None, or_updated_by = None\<rparr>"

definition demo_gateway :: gateway_row where
  "demo_gateway = \<lparr>gw_id = ''g1'', gw_code = ''razorpay'', gw_is_primary = True, gw_status = ''active'', gw_deleted_at = None\<rparr>"

definition demo_shop :: shop_world where
  "demo_shop = \<lparr>sw_inv = demo_inv, sw_payments = [], sw_attempts = [], sw_transactions = [], sw_payment_audit = [], sw_payment_events = [],
     sw_webhooks = [], sw_refunds = [], sw_refund_items = [], sw_gateways = [demo_gateway], sw_payment_methods = [], sw_saved_methods = [],
     sw_order_rows = [demo_order], sw_order_items = [], sw_order_addresses = [], sw_order_history = [], sw_cart_rows = [],
     sw_cart_items = [], sw_variant_rows = [], sw_gift_cards = [], sw_wallets = [], sw_risk_scores = [], sw_reasons = [],
     sw_wishlists = [], sw_wishlist_items = [], sw_returns = [], sw_return_items = [], sw_exchanges = [], sw_fulfillments = [],
     sw_fulfillment_items = [], sw_pick_lists = [], sw_packing_lists = [], sw_invoices = [], sw_invoice_items = [],
     sw_jobs = [], sw_queue = (\<lambda>_. None), sw_queue_no = 0, sw_events = [], sw_calls = [],
     sw_http = (\<lambda>_. HttpResponse 200 (JsonBody [])), sw_http_no = 0, sw_rand = (\<lambda>_. 1 / 2), sw_rand_no = 0\<rparr>"

definition demo_text :: js_text where
  "demo_text = \<lparr>jt_num = (\<lambda>_. ''n''), jt_date = (\<lambda>_. ''d''), jt_json = (\<lambda>_. ''j''), jt_base36 = (\<lambda>_. ''b'')\<rparr>"

definition demo_config :: payment_config where
  "demo_config = \<lparr>pc_mock = True, pc_serverCapture = False, pc_webhookSecret = []\<rparr>"

definition demo_env :: pay_env where
  "demo_env = \<lparr>px_provider = RazorpayProvider demo_text (\<lambda>_ _. ''h'') demo_config, px_config = demo_config,
     px_text = demo_text, px_correlationId = None\<rparr>"

definition demo_payment :: "string \<Rightarrow> payment_row" where
  "demo_payment st = \<lparr>py_id = ''p1'', py_order_id = ''o1'', py_customer_id = Some ''ann'', py_gateway_id = ''g1'',
     py_payment_method_id = None, py_saved_method_id = None, py_gateway_order_id = Some ''go1'', py_gateway_payment_id = Some ''gp1'',
     py_gateway_signature = None, py_amount = 100, py_currency = ''INR'', py_refunded_amount = 0, py_status = st,
     py_authorized_at = None, py_captured_at = None, py_failed_at = None, py_created_at = 0, py_updated_at = 0, py_deleted_at = None,
     py_created_by = None, py_updated_by = None\<rparr>"

definition demo_paid :: "string \<Rightarrow> shop_world" where
  "demo_paid st = demo_shop\<lparr>sw_payments := [demo_payment st]\<rparr>"

definition demo_refund :: "rat \<Rightarrow> pay_op" where
  "demo_refund a = RefundOp ''p1'' ''ann'' \<lparr>rfd_amount = a, rfd_reasonCode = None, rfd_reason = None, rfd_items = None\<rparr> False"

definition demo_webhook :: "string \<Rightarrow> jsobj" where
  "demo_webhook st = [(''event'', JStr (''payment.'' @ st)), (''payload'', JObj [(''payment'', JObj [(''entity'',
     JObj [(''id'', JStr ''gp1''), (''status'', JStr st)])])])]"

lemma demo_ok: "ledger_ok (ledger_of (demo_paid ''captured''))" "ledger_ok (ledger_of (demo_paid ''authorized''))"
  "booked (ledger_of (demo_paid ''captured''))"
  by code_simp+

lemma demo_provider: "px_provider demo_env = RazorpayProvider demo_text (\<lambda>_ _. ''h'') demo_config"
  by (simp add: demo_env_def)

section \<open>The module\<close>

text \<open>
  C9: Whatever requests the payments module is given, in whatever order, and whatever the gateway, the
  queue and the locks answer, the payments and the refund transactions change only by steps of the
  ledger machine: a payment is opened, moved along the status graph, or refunded within its amount;
  only when gateway webhooks are among the requests may a status be overwritten.
\<close>

theorem payments_refine_ledger:
  assumes "px_provider env = RazorpayProvider T hmac cfg" "ledger_ok (ledger_of w)" "list_all valid_pay_op ps"
  shows "ledger_steps (list_ex from_gateway ps) (ledger_of w) (ledger_of (serve env ps w))"
  using razorpay.serve_refines [OF assms] by simp

theorem payments_refine_ledger_witness:
  "ledger_steps False (ledger_of (demo_paid ''captured'')) (ledger_of (serve demo_env [demo_refund 40, demo_refund 70] (demo_paid ''captured'')))
   \<and> map (\<lambda>p. (py_status p, py_refunded_amount p)) (sw_payments (serve demo_env [demo_refund 40, demo_refund 70] (demo_paid ''captured'')))
     = [(''partially_refunded'', 40)]"
proof -
  have v: "list_all valid_pay_op [demo_refund 40, demo_refund 70]" by code_simp
  have "list_ex from_gateway [demo_refund 40, demo_refund 70] = False" by code_simp
  with payments_refine_ledger [OF demo_provider demo_ok(1) v]
  have "ledger_steps False (ledger_of (demo_paid ''captured'')) (ledger_of (serve demo_env [demo_refund 40, demo_refund 70] (demo_paid ''captured'')))"
    by simp
  moreover have "map (\<lambda>p. (py_status p, py_refunded_amount p)) (sw_payments (serve demo_env [demo_refund 40, demo_refund 70] (demo_paid ''captured'')))
     = [(''partially_refunded'', 40)]" by code_simp
  ultimately show ?thesis ..
qed

text \<open>
  C11: Without gateway webhooks, the status of a payment only moves along the status graph: after any
  sequence of requests, failed ones included, its status is one the graph reaches from the status
  before, and its amount is the same.
\<close>

theorem payment_status_follows_graph:
  assumes "px_provider env = RazorpayProvider T hmac cfg" "ledger_ok (ledger_of w)" "list_all valid_pay_op ps"
    "\<not> list_ex from_gateway ps" "row_at i (sw_payments w) = Some p"
  shows "\<exists>q. row_at i (sw_payments (serve env ps w)) = Some q \<and> py_amount q = py_amount p
    \<and> allowed_payment\<^sup>*\<^sup>* (py_status p) (py_status q)"
proof -
  have "ledger_steps False (ledger_of w) (ledger_of (serve env ps w))"
    using razorpay.serve_refines [OF assms(1-3)] assms(4) by simp
  from ledger_steps_row [OF this assms(2), of i p] assms(5) show ?thesis by (auto simp: ledger_of_def)
qed

theorem payment_status_follows_graph_witness:
  "\<exists>q. row_at ''p1'' (sw_payments (serve demo_env [CancelOp ''p1'' ''bob'' False, CaptureOp ''p1'' ''ann'' False, CancelOp ''p1'' ''ann'' False] (demo_paid ''authorized''))) = Some q
     \<and> py_status q = ''captured'' \<and> allowed_payment\<^sup>*\<^sup>* ''authorized'' (py_status q)"
proof -
  let ?ops = "[CancelOp ''p1'' ''bob'' False, CaptureOp ''p1'' ''ann'' False, CancelOp ''p1'' ''ann'' False]"
  have v: "list_all valid_pay_op ?ops" "\<not> list_ex from_gateway ?ops" by code_simp+
  have "row_at ''p1'' (sw_payments (demo_paid ''authorized'')) = Some (demo_payment ''authorized'')" by code_simp
  from payment_status_follows_graph [OF demo_provider demo_ok(2) v this]
  obtain q where q: "row_at ''p1'' (sw_payments (serve demo_env ?ops (demo_paid ''authorized''))) = Some q"
    "allowed_payment\<^sup>*\<^sup>* (py_status (demo_payment ''authorized'')) (py_status q)" by blast
  have "map_option py_status (row_at ''p1'' (sw_payments (serve demo_env ?ops (demo_paid ''authorized'')))) = Some ''captured''" by code_simp
  with q show ?thesis by (simp add: demo_payment_def)
qed

text \<open>
  C10: Refunds never exceed the payment: after any sequence of requests, webhooks included, the refund
  transactions of every payment add up to the refunded amount in its row, which is at most its amount.
\<close>

theorem refunds_never_exceed_payment:
  assumes "px_provider env = RazorpayProvider T hmac cfg" "ledger_ok (ledger_of w)" "list_all valid_pay_op ps"
    "booked (ledger_of w)" "p \<in> set (sw_payments (serve env ps w))"
  shows "refund_total (py_id p) (sw_transactions (serve env ps w)) = py_refunded_amount p \<and> py_refunded_amount p \<le> py_amount p"
proof -
  have steps: "ledger_steps True (ledger_of w) (ledger_of (serve env ps w))"
    using razorpay.serve_refines [OF assms(1-3)] by simp
  have "ledger_ok (ledger_of (serve env ps w))" by (rule ledger_steps_ok [OF steps assms(2)])
  then have "py_refunded_amount p \<le> py_amount p" using assms(5) by (auto simp: ledger_ok_def ledger_of_def list_all_iff payment_row_ok_def)
  with booked_total [OF ledger_steps_booked [OF steps assms(2,4)] assms(5)] show ?thesis by simp
qed

theorem refunds_never_exceed_payment_witness:
  "\<exists>p. sw_payments (serve demo_env [demo_refund 100, WebhookOp [] [] (demo_webhook ''captured''), demo_refund 40] (demo_paid ''captured'')) = [p]
     \<and> refund_total (py_id p) (sw_transactions (serve demo_env [demo_refund 100, WebhookOp [] [] (demo_webhook ''captured''), demo_refund 40] (demo_paid ''captured''))) = 100
     \<and> py_refunded_amount p = 100 \<and> py_amount p = 100 \<and> py_status p = ''captured''"
proof -
  let ?ops = "[demo_refund 100, WebhookOp [] [] (demo_webhook ''captured''), demo_refund 40]"
  let ?w = "serve demo_env ?ops (demo_paid ''captured'')"
  have v: "list_all valid_pay_op ?ops" by code_simp
  have m: "map (\<lambda>p. (py_status p, py_refunded_amount p, py_amount p)) (sw_payments ?w) = [(''captured'', 100, 100)]" by code_simp
  then obtain p where p: "sw_payments ?w = [p]" by auto
  then have "p \<in> set (sw_payments ?w)" by simp
  from refunds_never_exceed_payment [OF demo_provider demo_ok(1) v demo_ok(3) this] m p show ?thesis by auto
qed

text \<open>
  C4: the payment rows stay well-typed: after any sequence of requests, webhooks included, ids are distinct, every
  status is one the services know, and the two amounts of every row are whole cents that fit the column, with the
  refunded one between zero and the amount.
\<close>

theorem payments_stay_well_typed:
  assumes "px_provider env = RazorpayProvider T hmac cfg" "ledger_ok (ledger_of w)" "list_all valid_pay_op ps"
  shows "distinct (map py_id (sw_payments (serve env ps w))) \<and> (\<forall>p\<in>set (sw_payments (serve env ps w)).
    py_status p \<in> {''pending'', ''authorized'', ''captured'', ''failed'', ''cancelled'', ''refunded'', ''partially_refunded''}
    \<and> cents (py_amount p) \<and> cents (py_refunded_amount p) \<and> money_fits (py_amount p)
    \<and> 0 \<le> py_refunded_amount p \<and> py_refunded_amount p \<le> py_amount p)"
proof -
  have steps: "ledger_steps True (ledger_of w) (ledger_of (serve env ps w))"
    using razorpay.serve_refines [OF assms] by simp
  have "ledger_ok (ledger_of (serve env ps w))" by (rule ledger_steps_ok [OF steps assms(2)])
  then show ?thesis by (simp add: ledger_ok_def ledger_of_def list_all_iff payment_row_ok_def LIVE_def)
qed

theorem payments_stay_well_typed_witness:
  "distinct (map py_id (sw_payments (serve demo_env [demo_refund 40, WebhookOp [] [] (demo_webhook ''captured'')] (demo_paid ''captured''))))
   \<and> map py_refunded_amount (sw_payments (serve demo_env [demo_refund 40, WebhookOp [] [] (demo_webhook ''captured'')] (demo_paid ''captured''))) = [40]"
proof -
  let ?ops = "[demo_refund 40, WebhookOp [] [] (demo_webhook ''captured'')]"
  have v: "list_all valid_pay_op ?ops" by code_simp
  have "map py_refunded_amount (sw_payments (serve demo_env ?ops (demo_paid ''captured''))) = [40]" by code_simp
  with payments_stay_well_typed [OF demo_provider demo_ok(1) v] show ?thesis by blast
qed

end
