(* ===== verification/Payment_Frame.thy ===== *)
theory Payment_Frame
  imports Payments
begin

text \<open>
  What the operations of the payments module leave alone, and that what they throw is an error object.
  \<open>tame f m\<close> says both of an action: the part \<open>f\<close> of the state is the same afterwards, and a thrown value
  is truthy. It is proved once for the largest part, \<open>beyond\<close>: all but the payment tables, the published
  events, the cache, the log and the counters of the sequences.
\<close>

named_theorems tame "rules for actions that leave a part of the state alone and throw errors only"

section \<open>Tame actions\<close>

definition tame :: "('s \<Rightarrow> 'p) \<Rightarrow> ('s, 'a) act \<Rightarrow> bool" where
  "tame f m \<longleftrightarrow> (\<forall>s. f (snd (m s)) = f s \<and> (\<forall>e. fst (m s) = Inl e \<longrightarrow> truthy_exn e))"

lemma tame_preserves: "tame f m \<Longrightarrow> preserves f m"
  by (simp add: tame_def preserves_def)

lemma tame_truthy: "tame f m \<Longrightarrow> m s = (Inl e, t) \<Longrightarrow> truthy_exn e"
  unfolding tame_def by (metis fst_conv)

lemma tame_via: "tame f m \<Longrightarrow> (\<And>s t. f s = f t \<Longrightarrow> g s = g t) \<Longrightarrow> tame g m"
  unfolding tame_def by blast

lemma tame_values [tame]:
  "tame f (returnA x)" "tame f (readA g)" "truthy_exn e \<Longrightarrow> tame f (throwA e)" "truthy_exn e \<Longrightarrow> tame f (throwIf c e)"
  by (simp_all add: tame_def)

lemma tame_modifyA: "(\<And>s. f (g s) = f s) \<Longrightarrow> tame f (modifyA g)"
  by (simp add: tame_def)

lemma tame_bindA [tame]: "tame f m \<Longrightarrow> (\<And>x. tame f (g x)) \<Longrightarrow> tame f (bindA m g)"
  by (auto simp: tame_def bindA_def split: prod.split sum.split) (metis fst_conv snd_conv)+

lemma tame_finallyA [tame]: "tame f m \<Longrightarrow> tame f g \<Longrightarrow> tame f (finallyA m g)"
  by (auto simp: tame_def finallyA_def split: prod.split sum.split) (metis fst_conv snd_conv)+

lemma tame_catchA [tame]: "tame f m \<Longrightarrow> (\<And>e. truthy_exn e \<Longrightarrow> tame f (h e)) \<Longrightarrow> tame f (catchA m h)"
  by (auto simp: tame_def catchA_def split: prod.split sum.split) (metis fst_conv snd_conv)+

lemma tame_transactionA [tame]: "tame f m \<Longrightarrow> tame f (transactionA m)"
  by (auto simp: tame_def transactionA_def split: prod.split sum.split) (metis fst_conv snd_conv)+

lemma tame_forA [tame]: "(\<And>x. tame f (g x)) \<Longrightarrow> tame f (forA xs g)"
  by (induction xs) (auto intro: tame)

lemma tame_if [tame]: "(c \<Longrightarrow> tame f m) \<Longrightarrow> (\<not> c \<Longrightarrow> tame f n) \<Longrightarrow> tame f (if c then m else n)"
  by simp

lemma tame_case_option [tame]: "(x = None \<Longrightarrow> tame f m) \<Longrightarrow> (\<And>y. x = Some y \<Longrightarrow> tame f (g y)) \<Longrightarrow> tame f (case x of None \<Rightarrow> m | Some y \<Rightarrow> g y)"
  by (cases x) auto

lemma tame_row_or_throw [tame]: "tame f (row_or_throw x)"
  by (simp add: tame_def row_or_throw_def prisma_error_def split: option.split)

text \<open>An action that gives an action.\<close>

definition gives :: "('a \<Rightarrow> bool) \<Rightarrow> ('s, 'a) act \<Rightarrow> bool" where
  "gives C m \<longleftrightarrow> (\<forall>s x t. m s = (Inr x, t) \<longrightarrow> C x)"

lemma gives_simps [simp]: "gives C (returnA x) = C x" "gives C (throwA e)"
  by (auto simp: gives_def)

lemma gives_bindA: "(\<And>x. gives C (g x)) \<Longrightarrow> gives C (bindA m g)"
  unfolding gives_def bindA_eq_Inr by blast

lemma gives_catchA: "gives C m \<Longrightarrow> (\<And>e. gives C (h e)) \<Longrightarrow> gives C (catchA m h)"
  by (auto simp: gives_def catchA_def split: prod.splits sum.splits)

lemma tame_run: "tame f m \<Longrightarrow> gives (tame f) m \<Longrightarrow> tame f (bindA m (\<lambda>r. r))"
  by (auto simp: tame_def gives_def bindA_def split: prod.split sum.split) (metis fst_conv snd_conv)+

section \<open>Beyond the payment tables\<close>

definition beyond :: "shop_world \<Rightarrow> shop_world" where
  "beyond w = w\<lparr>sw_inv := (sw_inv w)\<lparr>iw_cache := Map.empty, iw_log := [], iw_reads := 0, iw_uuids := 0, iw_grant_no := 0, iw_unlock_no := 0\<rparr>,
     sw_payments := [], sw_attempts := [], sw_transactions := [], sw_payment_audit := [], sw_payment_events := [],
     sw_refunds := [], sw_refund_items := [], sw_jobs := [], sw_queue_no := 0, sw_events := [], sw_calls := [], sw_http_no := 0, sw_rand_no := 0\<rparr>"

abbreviation apart :: "'a shop_act \<Rightarrow> bool" where
  "apart m \<equiv> tame beyond m"

lemma apart_tables: "preserves tables m \<Longrightarrow> preserves beyond m"
  by (erule preserves_via) (simp add: beyond_def tables_def)

lemma apart_inI: "tame (\<lambda>i. i\<lparr>iw_cache := Map.empty, iw_log := [], iw_reads := 0, iw_uuids := 0, iw_grant_no := 0, iw_unlock_no := 0\<rparr>) m
    \<Longrightarrow> apart (inI m)"
  by (auto simp: tame_def inI_def beyond_def split: prod.split) (metis snd_conv fst_conv)+

lemma apart_services [tame]:
  "apart now" "apart random_id" "apart (logA x)" "apart (uncacheA k)" "apart math_random" "apart (emit e)" "apart (constraint c q)"
  "apart (inI (lock_acquire r))" "apart (inI (lock_release r t))" "apart (inI (modifyA (\<lambda>i. i\<lparr>iw_cache := h i\<rparr>)))"
  by (auto simp: tame_def now_def random_id_def logA_def uncacheA_def emit_def math_random_def constraint_def bindA_def inI_def inv_now_def
      inv_uuid_def cache_del_def lock_acquire_def lock_release_def prisma_error_def beyond_def)
    (metis (no_types, lifting) map_sum.simps sum.exhaust sum.inject(1) sum.distinct(1) truthy_exn_simps(3))

lemma apart_enqueue [tame]: "apart (enqueue j)"
  unfolding enqueue_def by (intro tame tame_modifyA) (auto simp: beyond_def)

lemma apart_new_id [tame]: "apart (new_id f)"
  unfolding new_id_def by (intro tame) (simp add: prisma_error_def)

lemma apart_lockedA [tame]: "apart m \<Longrightarrow> apart (lockedA parts m)"
  unfolding lockedA_def Let_def by (intro tame) simp_all

lemma apart_cachedA [tame]: "apart m \<Longrightarrow> apart (cachedA k m)"
  unfolding cachedA_def by (intro tame)

lemma apart_withRetry [tame]: "apart m \<Longrightarrow> apart (withRetry n m)"
  by (induction n) (auto intro!: tame)

lemma apart_rows [tame]:
  "apart (createAttempt p n r msg st a)" "apart (createPaymentEvent i ev pl)" "apart (createAudit i act a x y m)"
  "apart (createTransaction i kind amt c ref raw u)" "apart (payment_update i pf)" "apart (payment_create mk)"
  "apart (invalidatePayment i oid)" "apart (invalidateSaved c)" "apart (refund_update i rf)" "apart (refund_create rmk)" "apart (refund_items_create i items)"
  unfolding createAttempt_def createPaymentEvent_def createAudit_def createTransaction_def payment_update_def payment_create_def
    invalidatePayment_def invalidateSaved_def refund_update_def refund_create_def refund_items_create_def Let_def
  by (auto intro!: tame tame_modifyA simp: beyond_def prisma_error_def)

lemma apart_reads [tame]:
  "apart (viewA p)" "apart (requirePayment i)" "apart (assertCanAccess c a)" "apart (assertAdminOrOwner a d)" "apart (assertPaymentTransition x y)"
  unfolding viewA_def requirePayment_def assertCanAccess_def assertAdminOrOwner_def assertPaymentTransition_def
  by (auto intro!: tame)

lemma apart_markFailed [tame]: "apart (markFailed env p a reason raw)"
  unfolding markFailed_def by (auto intro!: tame)

section \<open>The operations\<close>

text \<open>A provider as the module relies on it: it keeps to its own tables and rejects with errors.\<close>

locale honest_provider = provider_contract +
  assumes createOrder_honest: "pv_createOrder P a c r n w = (Inl e, w') \<Longrightarrow> truthy_exn e"
    and authorize_honest: "pv_authorize P i a c w = (Inl e, w') \<Longrightarrow> truthy_exn e"
    and capture_honest: "pv_capture P i a c w = (Inl e, w') \<Longrightarrow> truthy_exn e"
    and cancel_honest: "pv_cancel P x y a c w = (Inl e, w') \<Longrightarrow> truthy_exn e"
    and refund_honest: "pv_refund P i a c n w = (Inl e, w') \<Longrightarrow> truthy_exn e"
begin

lemma apart_provider [tame]:
  "apart (pv_createOrder P x c r n)" "apart (pv_authorize P i x c)" "apart (pv_capture P i x c)"
  "apart (pv_cancel P o1 o2 x c)" "apart (pv_refund P i x c n)"
  using apart_tables [OF createOrder_frame] apart_tables [OF authorize_frame] apart_tables [OF capture_frame]
    apart_tables [OF cancel_frame] apart_tables [OF refund_frame]
  unfolding tame_def preserves_def
  by (metis createOrder_honest prod.collapse, metis authorize_honest prod.collapse, metis capture_honest prod.collapse,
      metis cancel_honest prod.collapse, metis refund_honest prod.collapse)

lemma apart_create:
  assumes "px_provider env = P"
  shows "apart (create_payment env actor dto)"
  unfolding create_payment_def Let_def assms by (intro tame) simp_all

lemma apart_authorize:
  assumes "px_provider env = P"
  shows "apart (authorize env i actor adm)"
proof -
  have "apart (authorize_try env p actor n)" "gives apart (authorize_try env p actor n)" for p n
    unfolding authorize_try_def Let_def assms by (auto intro!: tame gives_bindA)
  then have "apart (bindA (catchA (authorize_try env p actor n) (\<lambda>err. bindA (createAttempt p n None (Some (message2000 err)) ''failed'' None)
      (\<lambda>_. throwA err))) (\<lambda>rest. rest))" for p n
    by (intro tame_run tame_catchA gives_catchA gives_bindA) (auto intro!: tame)
  then show ?thesis unfolding authorize_def
    by (intro apart_lockedA tame_bindA [OF apart_reads(2)] tame_bindA [OF apart_reads(5)] tame_bindA [OF tame_values(2)]
      tame_bindA [of beyond "if adm then returnA () else assertCanAccess c actor" for c]) (auto intro!: tame)
qed

lemma apart_capture:
  assumes "px_provider env = P" "\<not> needsPostCaptureOrderConfirm env"
  shows "apart (capture env i actor adm)"
  unfolding capture_def capture_checked_def capture_rest_def capture_zero_def assms(1) using assms(2)
  by (intro tame) simp_all

lemma apart_cancel:
  assumes "px_provider env = P"
  shows "apart (cancel_payment env i actor adm)"
  unfolding cancel_payment_def assms by (intro tame) simp_all

lemma apart_void: "px_provider env = P \<Longrightarrow> apart (voidOrCancel env i actor)"
  unfolding voidOrCancel_def by (intro tame apart_cancel)

end

text \<open>Razorpay's client rejects with errors only.\<close>

lemma honest_http [tame]: "tame (\<lambda>_. ()) http_fetch" "tame (\<lambda>_. ()) (fetchWithTimeout n)" "tame (\<lambda>_. ()) (request T c)"
  "tame (\<lambda>_. ()) mock_suffix" "tame (\<lambda>_. ()) (mockOrder cfg a cur)"
proof -
  show fetch: "tame (\<lambda>_. ()) http_fetch" by (simp add: tame_def http_fetch_def)
  show timed: "tame (\<lambda>_. ()) (fetchWithTimeout n)" for n
    by (induction n) (auto intro!: tame fetch simp: fetch_error_def split: http_answer.split exn.split)
  show "tame (\<lambda>_. ()) (request T c)"
    unfolding request_def Let_def by (intro tame tame_modifyA timed) (auto intro!: tame split: prod.split)
  have rid: "tame (\<lambda>_. ()) random_id" by (rule tame_via [OF apart_services(2)]) simp
  then show "tame (\<lambda>_. ()) mock_suffix" "tame (\<lambda>_. ()) (mockOrder cfg a cur)"
    by (auto simp: mock_suffix_def mockOrder_def Let_def intro!: tame)
qed

interpretation razorpay_honest: honest_provider "RazorpayProvider T hmac cfg"
proof
  let ?P = "RazorpayProvider T hmac cfg"
  have rid: "tame (\<lambda>_. ()) random_id" "tame (\<lambda>_. ()) (logA m)" for m by (rule tame_via [OF apart_services(2)] tame_via [OF apart_services(3)], simp)+
  note defs = RazorpayProvider_def rz_createOrder_def rz_authorize_def rz_capture_def rz_cancel_def rz_refund_def Let_def
  have "tame (\<lambda>_. ()) (pv_createOrder ?P a c r n)" "tame (\<lambda>_. ()) (pv_authorize ?P i a c)" "tame (\<lambda>_. ()) (pv_capture ?P i a c)"
    "tame (\<lambda>_. ()) (pv_cancel ?P x y a c)" "tame (\<lambda>_. ()) (pv_refund ?P i a c n)" for a c r n i x y
    by (auto simp: defs intro!: tame rid split: json.split)
  note honest = this [THEN tame_truthy]
  show "truthy_exn e" if "pv_createOrder ?P a c r n w = (Inl e, w')" for a c r n w e w'
    by (rule honest(1) [OF that])
  show "truthy_exn e" if "pv_authorize ?P i a c w = (Inl e, w')" for i a c w e w'
    by (rule honest(2) [OF that])
  show "truthy_exn e" if "pv_capture ?P i a c w = (Inl e, w')" for i a c w e w'
    by (rule honest(3) [OF that])
  show "truthy_exn e" if "pv_cancel ?P x y a c w = (Inl e, w')" for x y a c w e w'
    by (rule honest(4) [OF that])
  show "truthy_exn e" if "pv_refund ?P i a c n w = (Inl e, w')" for i a c n w e w'
    by (rule honest(5) [OF that])
qed

end
