(* ===== verification/Payment_Webhooks.thy ===== *)
theory Payment_Webhooks
  imports Payment_Refinement Payment_Frame
begin

text \<open>
  The gateway's webhooks: a delivery that was accepted stays accepted whatever the module does next, and
  a delivery with an accepted key changes nothing.
\<close>

named_theorems hook "actions that leave the accepted webhooks alone"

section \<open>Accepted webhooks stay accepted\<close>

definition hook_part :: "shop_world \<Rightarrow> (string \<times> string option \<times> int option) list \<times> gateway_row list" where
  "hook_part w = (map (\<lambda>k. (wk_gateway_id k, wk_idempotency_key k, wk_deleted_at k)) (sw_webhooks w), sw_gateways w)"

abbreviation still :: "'a shop_act \<Rightarrow> bool" where
  "still m \<equiv> preserves hook_part m"

lemma beyond_hooks: "hook_part (beyond w) = hook_part w"
  by (simp add: hook_part_def beyond_def)

lemma still_apart: "apart m \<Longrightarrow> still m"
  by (rule tame_preserves, erule tame_via) (metis (no_types, lifting) beyond_hooks)

lemma still_inI [hook]: "still (inI m)"
  by (simp add: preserves_def inI_def hook_part_def split: prod.split)

lemma still_modifyA: "(\<And>w. sw_webhooks (f w) = sw_webhooks w \<and> sw_gateways (f w) = sw_gateways w) \<Longrightarrow> still (modifyA f)"
  by (rule preserves_modifyA) (simp add: hook_part_def)

lemmas still_services [hook] = apart_services [THEN still_apart] apart_enqueue [THEN still_apart] apart_new_id [THEN still_apart]
  apart_rows [THEN still_apart] apart_reads [THEN still_apart] apart_markFailed [THEN still_apart] tame_row_or_throw [THEN still_apart]

lemma still_lockedA: "still m \<Longrightarrow> still (lockedA parts m)"
  unfolding lockedA_def Let_def by (auto intro!: preserves_bindA preserves_finallyA hook)

lemma still_cachedA: "still m \<Longrightarrow> still (cachedA k m)"
  unfolding cachedA_def by (auto intro!: preserves_bindA preserves_case_option hook)

lemma still_withRetry: "still m \<Longrightarrow> still (withRetry n m)"
  by (induction n) (auto intro!: preserves_catchA)

lemma still_rows [hook]: "still (history_create oid x z note a)" "still (order_update oid f)" "still (cart_update oid g)"
  unfolding history_create_def order_update_def cart_update_def
  by (auto intro!: preserves_bindA hook still_modifyA)

lemma still_webhook_mark [hook]: "still (webhook_mark i st m)"
  unfolding webhook_mark_def webhook_update_def
  by (auto intro!: preserves_bindA hook preserves_modifyA simp: hook_part_def update_where_def)

lemma still_confirm [hook]: "still (confirmPendingOrderAfterCapture oid a)"
  unfolding confirmPendingOrderAfterCapture_def
  by (auto intro!: preserves_bindA preserves_case_option preserves_catchA preserves_transactionA hook)

lemma still_saved [hook]: "still (getById env i a adm)" "still (saveMethod env c dto)" "still (deleteSaved c i)"
  unfolding getById_def saveMethod_def deleteSaved_def clear_default_def requireSaved_def Let_def
  by (auto intro!: preserves_bindA hook still_modifyA still_cachedA)

lemma still_processWebhook [hook]: "still (processWebhook env i)"
  unfolding processWebhook_def webhook_apply_def applyGatewayStatus_def Let_def
  by (auto intro!: preserves_bindA preserves_case_option preserves_catchA hook split: prod.split)

context honest_provider
begin

lemmas provider_still [hook] = apart_provider [THEN still_apart]

lemmas create_still = apart_create [THEN still_apart]
  and authorize_still = apart_authorize [THEN still_apart]
  and cancel_still = apart_cancel [THEN still_apart]
  and void_still = apart_void [THEN still_apart]

lemma capture_still:
  assumes "px_provider env = P"
  shows "still (capture env i actor adm)"
  unfolding capture_def capture_checked_def capture_rest_def capture_zero_def assms
  by (auto intro!: still_lockedA preserves_bindA still_withRetry hook)

lemma retry_still: "px_provider env = P \<Longrightarrow> still (retry_payment env i actor)"
  unfolding retry_payment_def by (auto intro!: preserves_bindA authorize_still capture_still hook)

lemma refund_still:
  assumes "px_provider env = P"
  shows "still (refund env i actor dto adm)"
  unfolding refund_def refund_try_def Let_def assms
  by (auto intro!: still_lockedA preserves_bindA preserves_case_option preserves_catchA hook)

lemma job_still: "px_provider env = P \<Longrightarrow> still (process_job env job)"
  unfolding process_job_def by (cases job) (auto intro!: preserves_bindA authorize_still hook)

end

text \<open>A delivery that was accepted is found by its key from then on.\<close>

definition accepted :: "string \<Rightarrow> string \<Rightarrow> gateway_row list \<Rightarrow> shop_world \<Rightarrow> bool" where
  "accepted gatewayId key gws w \<longleftrightarrow> findByIdempotency gatewayId key w \<noteq> None \<and> sw_gateways w = gws"

lemma accepted_hook_part:
  "accepted g key gws w \<longleftrightarrow> (g, Some key, None) \<in> set (fst (hook_part w)) \<and> snd (hook_part w) = gws"
  by (auto simp: accepted_def hook_part_def findByIdempotency_def find_None_iff)

lemma still_accepted: "still m \<Longrightarrow> keeps (accepted g key gws) m"
  by (erule preserves_keeps) (simp add: accepted_hook_part)

lemma webhook_create_accepts:
  assumes "\<And>i. wk_gateway_id (mk i) = g \<and> wk_idempotency_key (mk i) = Some key \<and> wk_deleted_at (mk i) = None"
  shows "wp (webhook_create mk) w (\<lambda>_ t. accepted g key (sw_gateways w) t) (\<lambda>_ _. True)"
  using assms by (simp add: webhook_create_def new_id_def random_id_def inv_uuid_def constraint_def wp_def bindA_def inI_def
    accepted_hook_part hook_part_def Let_def)

lemma webhook_create_keeps: "keeps (accepted g key gws) (webhook_create mk)"
  unfolding webhook_create_def Let_def
  by (intro keeps_intros still_accepted hook keeps_modifyA) (auto simp: accepted_hook_part hook_part_def)

definition razorpay_id :: "gateway_row list \<Rightarrow> string" where
  "razorpay_id gws = (case find (\<lambda>g. gw_code g = ''razorpay'' \<and> gw_status g = ''active'' \<and> gw_deleted_at g = None) gws of
     None \<Rightarrow> RAZORPAY_GATEWAY_ID | Some g \<Rightarrow> gw_id g)"

lemma razorpay_id: "(case findGatewayByCode ''razorpay'' w of Some g \<Rightarrow> gw_id g | None \<Rightarrow> RAZORPAY_GATEWAY_ID) = razorpay_id (sw_gateways w)"
  by (simp add: razorpay_id_def findGatewayByCode_def)

lemma receive_keeps: "keeps (accepted g key gws) (receiveRazorpay env body sig payload)"
proof -
  have lk: "keeps (accepted g key gws) (lockedA parts m)" if "keeps (accepted g key gws) m" for parts and m :: "webhook_result shop_act"
  proof -
    have fin: "keeps (accepted g key gws) (finallyA m f)" if "still f" for f
      using that \<open>keeps (accepted g key gws) m\<close> by (intro keeps_finallyA) (simp_all add: still_accepted)
    show ?thesis unfolding lockedA_def Let_def
      by (rule keeps_bindA [OF still_accepted [OF still_inI]]) (auto intro!: fin preserves_bindA hook)
  qed
  obtain eid et k where k: "idempotency_key (px_text env) payload = (eid, et, k)"
    by (cases "idempotency_key (px_text env) payload") auto
  show ?thesis unfolding receiveRazorpay_def k Let_def prod.case
  proof (rule keeps_bindA [OF keeps_readA], rule keeps_bindA [OF keeps_throwIf], rule lk, rule keeps_bindA [OF keeps_readA], goal_cases)
    case (1 gid x found)
    show ?case
    proof (cases found)
      case None
      show ?thesis unfolding None option.case
        by (rule keeps_bindA [OF webhook_create_keeps], rule still_accepted) (auto intro!: preserves_bindA preserves_catchA hook)
    next
      case (Some row)
      then show ?thesis by (auto intro!: still_accepted preserves_bindA hook)
    qed
  qed
qed

lemma wp_lockedA_frame:
  assumes "\<And>t. hook_part t = hook_part w \<Longrightarrow> ledger_of t = ledger_of w
    \<Longrightarrow> wp m t (\<lambda>x u. Q x \<and> ledger_of u = ledger_of w) (\<lambda>_ u. ledger_of u = ledger_of w)"
  shows "wp (lockedA parts m) w (\<lambda>x u. Q x \<and> ledger_of u = ledger_of w) (\<lambda>_ u. ledger_of u = ledger_of w)"
proof -
  have acquire: "preserves (\<lambda>w. (hook_part w, ledger_of w)) (inI (lock_acquire r))" for r
    using still_inI calm_inI unfolding preserves_def by (metis (no_types, lifting))
  have release: "wp f u (\<lambda>_ v. Z \<and> ledger_of v = ledger_of w) (\<lambda>_ v. ledger_of v = ledger_of w)"
    if "calm f" "ledger_of u = ledger_of w" Z for f :: "unit shop_act" and u Z
    by (rule preserves_wpI [OF that(1)]) (simp_all add: that)
  have fin: "wp (finallyA m f) t (\<lambda>x u. Q x \<and> ledger_of u = ledger_of w) (\<lambda>_ u. ledger_of u = ledger_of w)"
    if "hook_part t = hook_part w" "ledger_of t = ledger_of w" "calm f" for t f
    unfolding wp_finallyA
    by (rule wp_mono [OF assms [OF that(1,2)]]) (use release [OF that(3)] release [OF that(3), of _ True] in auto)
  show ?thesis unfolding lockedA_def Let_def wp_bindA
    by (rule preserves_wpI [OF acquire]) (auto simp del: wp_finallyA intro!: fin preserves_bindA calm)
qed

lemma accepted_no_change:
  assumes acc: "accepted (razorpay_id gws) key gws w" and key: "snd (snd (idempotency_key (px_text env) payload)) = key"
  shows "wp (receiveRazorpay env body sig payload) w (\<lambda>r t. wr_duplicate r \<and> ledger_of t = ledger_of w) (\<lambda>_ t. ledger_of t = ledger_of w)"
proof -
  obtain eid et where k: "idempotency_key (px_text env) payload = (eid, et, key)" using key by (metis prod.collapse)
  have g: "razorpay_id (sw_gateways w) = razorpay_id gws" using acc by (simp add: accepted_def)
  have "wp (bindA (readA (findByIdempotency (razorpay_id gws) key)) f) t Q E"
    if "hook_part t = hook_part w" "\<And>row. wp (f (Some row)) t Q E" for t and f :: "webhook_row option \<Rightarrow> webhook_result shop_act" and Q E
  proof -
    have "accepted (razorpay_id gws) key gws t" using acc that(1) by (simp add: accepted_hook_part)
    then show ?thesis using that(2) by (auto simp: accepted_def)
  qed
  note found = this
  show ?thesis unfolding receiveRazorpay_def razorpay_id k Let_def prod.case
    by (auto simp: g intro!: wp_lockedA_frame found preserves_wpI [OF calm_enqueue])
qed

lemma receive_accepts:
  assumes "snd (snd (idempotency_key (px_text env) payload)) = key"
  shows "wp (receiveRazorpay env body sig payload) w (\<lambda>_. accepted (razorpay_id (sw_gateways w)) key (sw_gateways w)) (\<lambda>_ _. True)"
proof -
  let ?A = "accepted (razorpay_id (sw_gateways w)) key (sw_gateways w)"
  obtain eid et where k: "idempotency_key (px_text env) payload = (eid, et, key)" using assms by (metis prod.collapse)
  have lock: "wp (lockedA parts m) w (\<lambda>_. ?A) (\<lambda>_ _. True)"
    if "\<And>t. hook_part t = hook_part w \<Longrightarrow> wp m t (\<lambda>_. ?A) (\<lambda>_ _. True)" for parts and m :: "webhook_result shop_act"
  proof -
    have fin: "wp (finallyA m f) t (\<lambda>_. ?A) (\<lambda>_ _. True)" if "hook_part t = hook_part w" "still f" for t f
      unfolding wp_finallyA
    proof (rule wp_mono [OF \<open>hook_part t = hook_part w \<Longrightarrow> wp m t (\<lambda>_. ?A) (\<lambda>_ _. True)\<close>])
      fix x u assume "?A u"
      then show "wp f u (\<lambda>_. ?A) (\<lambda>_ _. True)" by (intro preserves_wpI [OF that(2)]) (simp_all add: accepted_hook_part)
    qed (use that in \<open>auto simp: wp_def split: prod.split sum.split\<close>)
    show ?thesis unfolding lockedA_def Let_def wp_bindA
      by (rule preserves_wpI [OF still_inI]) (auto simp del: wp_finallyA intro!: fin preserves_bindA hook)
  qed
  have stay: "wp m t (\<lambda>_. ?A) (\<lambda>_ _. True)" if "still m" "?A t" for t and m :: "webhook_result shop_act"
    by (rule preserves_wpI [OF that(1)]) (use that(2) in \<open>simp_all add: accepted_hook_part\<close>)
  have body: "wp (case findByIdempotency (razorpay_id (sw_gateways w)) key t of None \<Rightarrow> bindA (webhook_create mk) f | Some row \<Rightarrow> h row) t (\<lambda>_. ?A) (\<lambda>_ _. True)"
    if "hook_part t = hook_part w" "\<And>k. still (f k)" "\<And>k. still (h k)"
      "\<And>i. wk_gateway_id (mk i) = razorpay_id (sw_gateways w) \<and> wk_idempotency_key (mk i) = Some key \<and> wk_deleted_at (mk i) = None"
    for t mk f and h :: "webhook_row \<Rightarrow> webhook_result shop_act"
  proof (cases "findByIdempotency (razorpay_id (sw_gateways w)) key t")
    case None
    have "sw_gateways t = sw_gateways w" using that(1) by (simp add: hook_part_def)
    with webhook_create_accepts [OF that(4), where w = t] have "wp (webhook_create mk) t (\<lambda>_. ?A) (\<lambda>_ _. True)" by simp
    then show ?thesis unfolding None option.case wp_bindA by (rule wp_mono) (simp_all add: stay that(2))
  next
    case (Some row)
    then have "?A t" using that(1) by (auto simp: accepted_def hook_part_def)
    then show ?thesis using Some stay that(3) by simp
  qed
  show ?thesis unfolding receiveRazorpay_def razorpay_id k Let_def prod.case wp_bindA wp_readA wp_throwIf
    by (auto simp del: wp_bindA wp_case_option simp: wp_bindA [of "readA _"] intro!: lock body preserves_bindA preserves_catchA hook)
qed

text \<open>Requests served in between do not matter.\<close>

context honest_provider
begin

lemma request_accepted:
  assumes "px_provider env = P"
  shows "keeps (accepted g key gws) (pay_request env p)"
proof (cases p)
  case (WebhookOp body sig payload)
  show ?thesis unfolding WebhookOp pay_request.simps voidA_def by (rule keeps_bindA [OF receive_keeps keeps_returnA])
qed (auto simp: voidA_def intro!: still_accepted preserves_bindA create_still authorize_still capture_still
    cancel_still void_still retry_still refund_still job_still hook assms)

lemma serve_accepted: "px_provider env = P \<Longrightarrow> accepted g key gws w \<Longrightarrow> accepted g key gws (serve env ps w)"
  by (induction ps arbitrary: w) (use request_accepted in \<open>auto simp: keeps_def\<close>)

lemma redelivery:
  assumes "px_provider env = P" "receiveRazorpay env body sig payload w = (Inr r, t)"
    "snd (snd (idempotency_key (px_text env) payload2)) = snd (snd (idempotency_key (px_text env) payload))"
    "receiveRazorpay env body2 sig2 payload2 (serve env ps t) = (res, u)"
  shows "ledger_of u = ledger_of (serve env ps t) \<and> (\<forall>r2. res = Inr r2 \<longrightarrow> wr_duplicate r2)"
proof -
  have "accepted (razorpay_id (sw_gateways w)) (snd (snd (idempotency_key (px_text env) payload))) (sw_gateways w) t"
    using wp_Inr [OF receive_accepts [OF refl] assms(2)] .
  from accepted_no_change [OF serve_accepted [OF assms(1) this] assms(3), of body2 sig2 ps] assms(4) show ?thesis
    by (cases res) (auto simp: wp_def)
qed

end

end
