(* ===== verification/Payment_Contract.thy ===== *)
theory Payment_Contract
  imports Payment_Safety Payment_Webhooks
begin

text \<open>
  The payments module towards the gateway and its customers: webhook deliveries, cached reads, and a
  capture that overlaps a cancellation.
\<close>

lemma wp_now: "wp now w Q E = Q (iw_clock (sw_inv w) (iw_reads (sw_inv w))) (w\<lparr>sw_inv := (sw_inv w)\<lparr>iw_reads := Suc (iw_reads (sw_inv w))\<rparr>\<rparr>)"
  by (simp add: now_def inv_now_def wp_def inI_def)

lemma wp_constraint: "wp (constraint c p) w Q E = (if p w then Q () w else E (prisma_error c) w)"
  by (simp add: constraint_def)

lemma now_frame: "ok now w (\<lambda>_ t. sw_payments t = sw_payments w)"
  by (simp add: wp_now)

lemma requirePayment_returns: "findPayment i w = Some p \<Longrightarrow> ok (requirePayment i) w (\<lambda>q t. q = p \<and> t = w)"
  by (simp add: requirePayment_def)

lemma payment_update_returns:
  assumes "distinct (map py_id (sw_payments w))" "p \<in> set (sw_payments w)" "py_id p = i" "\<And>x. py_id (f x) = py_id x"
    "\<And>d. payment_row_ok (f (p\<lparr>py_updated_at := d\<rparr>)) (sw_payments w)"
  shows "ok (payment_update i f) w (\<lambda>q t. (\<exists>d. q = f (p\<lparr>py_updated_at := d\<rparr>)) \<and> row_at i (sw_payments t) = Some q)"
proof -
  have row: "row_at i (sw_payments w) = Some p" using row_at_member [OF assms(1,2)] assms(3) by simp
  have "row_at i (update_where (\<lambda>q. py_id q = i) (\<lambda>q. f (q\<lparr>py_updated_at := d\<rparr>)) (sw_payments w)) = Some (f (p\<lparr>py_updated_at := d\<rparr>))" for d
    by (subst find_update_where) (simp_all add: row assms(3,4))
  then show ?thesis by (auto simp: payment_update_def row assms(5) wp_now wp_constraint)
qed

text \<open>The rows written after an update of the payment.\<close>

lemma tail_returns:
  assumes "row_at i (sw_payments w) = Some q"
  shows "ok (bindA (createAudit i a b c d e) (\<lambda>_. bindA (createPaymentEvent i f g) (\<lambda>_. bindA (invalidatePayment i h) (\<lambda>_. returnA r)))) w
    (\<lambda>x t. x = r \<and> row_at i (sw_payments t) = Some q)"
proof -
  have "i \<in> set (payment_ids w)" using assms by (auto simp: payment_ids_def dest: row_atD)
  then show ?thesis using assms
    by (simp add: createAudit_def createPaymentEvent_def invalidatePayment_def uncacheA_def cache_del_def payment_ids_def wp_constraint)
qed

section \<open>Webhooks\<close>

text \<open>
  C15: A webhook is applied at most once: when a delivery was answered, a second delivery of the same
  payload, with any requests served in between, changes no payment and no refund, and if it is answered
  it is reported as a duplicate.
\<close>

theorem redelivered_webhook_changes_nothing:
  assumes "px_provider env = RazorpayProvider T hmac cfg" "receiveRazorpay env body sig payload w = (Inr r, t)"
    "receiveRazorpay env body2 sig2 payload (serve env ps t) = (res, u)"
  shows "ledger_of u = ledger_of (serve env ps t) \<and> (\<forall>r2. res = Inr r2 \<longrightarrow> wr_duplicate r2)"
  by (rule razorpay_honest.redelivery [OF assms(1,2) refl assms(3)])

theorem redelivered_webhook_changes_nothing_witness:
  "\<exists>r t r2 u. receiveRazorpay demo_env [] [] (demo_webhook ''captured'') (demo_paid ''authorized'') = (Inr r, t)
     \<and> receiveRazorpay demo_env [] [] (demo_webhook ''captured'') (serve demo_env [] t) = (Inr r2, u)
     \<and> \<not> wr_duplicate r \<and> wr_duplicate r2 \<and> map py_status (sw_payments t) = [''captured''] \<and> ledger_of u = ledger_of t"
proof -
  let ?rec = "receiveRazorpay demo_env [] [] (demo_webhook ''captured'')"
  have "ok ?rec (demo_paid ''authorized'') (\<lambda>r t. \<not> wr_duplicate r \<and> map py_status (sw_payments t) = [''captured''] \<and> ok ?rec t (\<lambda>_ _. True))"
    by code_simp
  from okD [OF this] obtain r t where t: "?rec (demo_paid ''authorized'') = (Inr r, t)" "\<not> wr_duplicate r"
    "map py_status (sw_payments t) = [''captured'']" "ok ?rec t (\<lambda>_ _. True)" by (elim exE conjE)
  from okD [OF t(4)] obtain r2 u where u: "?rec (serve demo_env [] t) = (Inr r2, u)" by auto
  from redelivered_webhook_changes_nothing [OF demo_provider t(1) u] t u show ?thesis by auto
qed

text \<open>
  C34: The key that recognises a copy is the id of the payment when the payload has no id of its own, as
  the gateway's webhook payloads have none. So the second event of a payment is taken for a copy of the
  first: once any webhook of the payment was answered, a later one for the same payment, whatever its
  event and status say, changes no payment.
\<close>

theorem later_event_of_payment_dropped:
  assumes "px_provider env = RazorpayProvider T hmac cfg" "x \<noteq> []"
    "obj_get payload ''id'' = JUndef" "opt_prop (payment_entity (JObj payload)) ''id'' = JStr x"
    "obj_get payload2 ''id'' = JUndef" "opt_prop (payment_entity (JObj payload2)) ''id'' = JStr x"
    "receiveRazorpay env body sig payload w = (Inr r, t)"
    "receiveRazorpay env body2 sig2 payload2 (serve env ps t) = (res, u)"
  shows "ledger_of u = ledger_of (serve env ps t) \<and> (\<forall>r2. res = Inr r2 \<longrightarrow> wr_duplicate r2)"
proof -
  have "snd (snd (idempotency_key (px_text env) payload2)) = snd (snd (idempotency_key (px_text env) payload))"
    using assms by (simp add: idempotency_key_def json_or_def Let_def)
  from razorpay_honest.redelivery [OF assms(1,7) this assms(8)] show ?thesis .
qed

theorem later_event_of_payment_dropped_witness:
  "\<exists>r t r2 u. receiveRazorpay demo_env [] [] (demo_webhook ''authorized'') (demo_paid ''pending'') = (Inr r, t)
     \<and> receiveRazorpay demo_env [] [] (demo_webhook ''captured'') (serve demo_env [] t) = (Inr r2, u)
     \<and> wr_duplicate r2 \<and> map py_status (sw_payments u) = [''authorized'']"
proof -
  let ?a = "receiveRazorpay demo_env [] [] (demo_webhook ''authorized'')" and ?c = "receiveRazorpay demo_env [] [] (demo_webhook ''captured'')"
  have "ok ?a (demo_paid ''pending'') (\<lambda>r t. map py_status (sw_payments t) = [''authorized''] \<and> ok ?c t (\<lambda>_ _. True))" by code_simp
  from okD [OF this] obtain r t where t: "?a (demo_paid ''pending'') = (Inr r, t)" "map py_status (sw_payments t) = [''authorized'']"
    "ok ?c t (\<lambda>_ _. True)" by (elim exE conjE)
  from okD [OF t(3)] obtain r2 u where u: "?c (serve demo_env [] t) = (Inr r2, u)" by auto
  have e: "obj_get (demo_webhook st) ''id'' = JUndef" "opt_prop (payment_entity (JObj (demo_webhook st))) ''id'' = JStr ''gp1''" for st
    by (simp_all add: demo_webhook_def obj_get_def payment_entity_def opt_prop_def)
  from later_event_of_payment_dropped [OF demo_provider _ e e t(1) u] t u have "ledger_of u = ledger_of t \<and> wr_duplicate r2" by simp
  with t u show ?thesis by (auto simp: ledger_of_def)
qed

text \<open>
  A webhook does not ask the status graph: whatever status a payment has, captured, refunded or
  cancelled, \<open>applyGatewayStatus\<close> for a status of the gateway returns and leaves the payment in that status.
\<close>

theorem webhook_overwrites_any_status:
  assumes "ledger_ok (ledger_of w)" "findPayment i w = Some p" "gid = None \<or> gid = py_gateway_payment_id p"
    "st \<in> {''authorized'', ''captured'', ''failed''}"
  shows "\<exists>q t. applyGatewayStatus i st gid raw w = (Inr q, t) \<and> row_at i (sw_payments t) = Some q \<and> py_status q = st"
proof -
  have p: "p \<in> set (sw_payments w)" "py_id p = i" using assms(2) by (auto simp: findPayment_def find_Some_iff)
  have d: "distinct (map py_id (sw_payments w))" and good: "payment_row_ok p (sw_payments w)"
    using assms(1) p(1) by (auto simp: ledger_ok_def ledger_of_def list_all_iff)
  have "ok (applyGatewayStatus i st gid raw) w (\<lambda>q t. row_at i (sw_payments t) = Some q \<and> py_status q = st)"
    unfolding applyGatewayStatus_def
  proof (rule wp_bindI [OF requirePayment_returns [OF assms(2)]], goal_cases)
    case (1 x s)
    then have s: "x = p" "s = w" by simp_all
    show ?case
    proof (rule wp_bindI [OF now_frame], goal_cases)
      case (1 t u)
      have "ok (if st \<in> {''authorized'', ''captured'', ''failed''} then now else returnA 0) u (\<lambda>_ v. sw_payments v = sw_payments u)"
        using assms(4) now_frame by simp
      then show ?case
      proof (rule wp_bindI, goal_cases)
        case (1 t2 v)
        with \<open>sw_payments u = sw_payments s\<close> s have v: "sw_payments v = sw_payments w" by simp
        show ?case
        proof (rule wp_bindI [OF payment_update_returns [of v p]], goal_cases)
          case 5
          show ?case using good assms(3) unfolding v by (auto simp: payment_row_ok_def)
        next
          case (6 q y)
          then have "row_at i (sw_payments y) = Some q" "py_status q = st" by auto
          then show ?case by (intro wp_mono [OF tail_returns]) simp_all
        qed (simp_all add: v d p)
      qed simp
    qed simp
  qed simp
  from okD [OF this] show ?thesis by blast
qed

theorem webhook_overwrites_any_status_witness:
  "\<exists>q t. applyGatewayStatus ''p1'' ''authorized'' (Some ''gp1'') JNull (demo_paid ''captured'') = (Inr q, t)
     \<and> row_at ''p1'' (sw_payments t) = Some q \<and> py_status q = ''authorized'' \<and> \<not> allowed_payment ''captured'' ''authorized''"
proof -
  have p: "findPayment ''p1'' (demo_paid ''captured'') = Some (demo_payment ''captured'')" by code_simp
  have "Some ''gp1'' = py_gateway_payment_id (demo_payment ''captured'')" by code_simp
  moreover have "\<not> allowed_payment ''captured'' ''authorized''" by code_simp
  ultimately show ?thesis using webhook_overwrites_any_status [OF demo_ok(1) p, of "Some ''gp1''" "''authorized''" JNull] by simp
qed

section \<open>Reads through the cache\<close>

text \<open>
  C37: A payment that was read through the API is served from the cache without the ownership check: once
  its owner has read it, any other customer who asks for it gets the same answer.
\<close>

theorem cached_payment_read_by_anyone:
  assumes "getById env i owner isAdmin w = (Inr v, t)"
  shows "getById env i other False t = (Inr v, t)"
proof -
  let ?key = "''payments:status:'' @ i"
  have "wp (cachedA ?key m) w (\<lambda>v t. iw_cache (sw_inv t) ?key = Some v) (\<lambda>_ _. True)" for m
    by (auto simp: cachedA_def wp_def bindA_def inI_def split: option.split prod.split sum.split)
  from wp_Inr [OF this] assms have "iw_cache (sw_inv t) ?key = Some v" unfolding getById_def by blast
  then show ?thesis by (simp add: getById_def cachedA_def bindA_def)
qed

theorem cached_payment_read_by_anyone_witness:
  "\<exists>v t e u. getById demo_env ''p1'' ''ann'' False (demo_paid ''captured'') = (Inr v, t)
     \<and> getById demo_env ''p1'' ''bob'' False t = (Inr v, t)
     \<and> getById demo_env ''p1'' ''bob'' False (demo_paid ''captured'') = (Inl (ForbiddenException e), u)"
proof -
  have "ok (getById demo_env ''p1'' ''ann'' False) (demo_paid ''captured'') (\<lambda>_ _. True)" by code_simp
  from okD [OF this] obtain v t where t: "getById demo_env ''p1'' ''ann'' False (demo_paid ''captured'') = (Inr v, t)" by blast
  have "fst (getById demo_env ''p1'' ''bob'' False (demo_paid ''captured'')) = Inl (ForbiddenException ''Not your payment'')" by code_simp
  then have "getById demo_env ''p1'' ''bob'' False (demo_paid ''captured'')
    = (Inl (ForbiddenException ''Not your payment''), snd (getById demo_env ''p1'' ''bob'' False (demo_paid ''captured'')))"
    by (metis prod.collapse)
  with t cached_payment_read_by_anyone [OF t] show ?thesis by blast
qed

section \<open>Operations that overlap\<close>

text \<open>What an action that returns has made of the ledger; \<open>R\<close> is any property of it.\<close>

definition status_in :: "string \<Rightarrow> ledger \<Rightarrow> string option" where
  "status_in i l = map_option py_status (row_at i (fst l))"

lemma wp_calm_bind:
  "calm m \<Longrightarrow> (\<And>x t. ledger_of t = ledger_of w \<Longrightarrow> wp (f x) t Q (\<lambda>_ _. True)) \<Longrightarrow> wp (bindA m f) w Q (\<lambda>_ _. True)"
  unfolding wp_bindA by (erule preserves_wpI) simp_all

lemma wp_then_calm:
  "wp m w (\<lambda>_ t. R (ledger_of t)) (\<lambda>_ _. True) \<Longrightarrow> (\<And>x. calm (f x)) \<Longrightarrow> wp (bindA m f) w (\<lambda>_ t. R (ledger_of t)) (\<lambda>_ _. True)"
  unfolding wp_bindA by (erule wp_mono) (rule preserves_wpI [where f = ledger_of], blast, simp_all)

lemma wp_throws: "(\<And>x t. wp (f x) t Q (\<lambda>_ _. True)) \<Longrightarrow> wp (bindA m f) w Q (\<lambda>_ _. True)"
  by (rule wp_bindI [where R = "\<lambda>_ _. True" and F = "\<lambda>_ _. True"]) (auto simp: wp_def [of m] split: prod.split sum.split)

lemma throwIf_False: "bindA (throwIf False e) f = f ()"
  by (simp add: bindA_def fun_eq_iff)

lemma wp_locked_ledger:
  assumes "\<And>t. ledger_of t = ledger_of w \<Longrightarrow> wp m t (\<lambda>_ u. R (ledger_of u)) (\<lambda>_ _. True)"
  shows "wp (lockedA parts m) w (\<lambda>_ u. R (ledger_of u)) (\<lambda>_ _. True)"
proof -
  have fin: "wp (finallyA m f) t (\<lambda>_ u. R (ledger_of u)) (\<lambda>_ _. True)" if "ledger_of t = ledger_of w" "calm f" for t f
    unfolding wp_finallyA
    by (rule wp_mono [OF assms [OF that(1)]]) (auto intro: preserves_wpI [OF that(2)])
  show ?thesis unfolding lockedA_def Let_def
    by (rule wp_calm_bind [OF calm_inI]) (auto simp del: wp_finallyA intro!: fin preserves_bindA calm)
qed

lemma payment_update_status:
  assumes "ledger_ok (ledger_of w)" "row_at i (sw_payments w) = Some p" "\<And>x. py_id (f x) = py_id x" "\<And>x. py_status (f x) = st"
  shows "wp (payment_update i f) w (\<lambda>_ t. status_in i (ledger_of t) = Some st) (\<lambda>_ _. True)"
proof -
  have "py_id p = i" using row_atD [OF assms(2)] by simp
  then have "row_at i (update_where (\<lambda>q. py_id q = i) (\<lambda>q. f (q\<lparr>py_updated_at := d\<rparr>)) (sw_payments w)) = Some (f (p\<lparr>py_updated_at := d\<rparr>))" for d
    by (subst find_update_where) (simp_all add: assms(2,3))
  then show ?thesis by (simp add: payment_update_def assms(2,4) wp_now wp_constraint ledger_of_def status_in_def)
qed

lemma find_same: "ledger_of t = ledger_of w \<Longrightarrow> findPayment i t = findPayment i w \<and> sw_payments t = sw_payments w"
  by (simp add: ledger_of_def findPayment_def)

lemma findPayment_row: "ledger_ok (ledger_of w) \<Longrightarrow> findPayment i w = Some p \<Longrightarrow> row_at i (sw_payments w) = Some p \<and> py_id p = i"
  using row_at_member [of "sw_payments w" p] by (auto simp: findPayment_def find_Some_iff ledger_ok_def ledger_of_def)

context provider_contract
begin

lemma cancel_cancels:
  assumes env: "px_provider env = P" and ok: "ledger_ok (ledger_of w)" and p: "findPayment i w = Some p" "py_status p = ''authorized''"
  shows "wp (cancel_payment env i a adm) w (\<lambda>_ t. status_in i (ledger_of t) = Some ''cancelled'') (\<lambda>_ _. True)"
  unfolding cancel_payment_def env
proof (rule wp_locked_ledger, goal_cases)
  case (1 t)
  show ?case
  proof (rule wp_bindI [OF requirePayment_returns [of i t p]], goal_cases)
    case 1
    show ?case using find_same [OF \<open>ledger_of t = ledger_of w\<close>] p(1) by simp
  next
    case (2 q s)
    then have q: "q = p" "ledger_of s = ledger_of w" using 1 by simp_all
    show ?case unfolding q
    proof (rule wp_calm_bind, goal_cases)
      case (2 x u)
      then have u: "ledger_of u = ledger_of w" using q by simp
      have pid: "py_id p = i" and row: "row_at i (sw_payments w) = Some p" using findPayment_row [OF ok p(1)] by simp_all
      have frame: "ledger_ok (ledger_of y)" "row_at i (sw_payments y) = Some p" if "ledger_of y = ledger_of u" for y
        using that u ok row find_same [of y w] by simp_all
      show ?case
        by (simp add: p(2) pid throwIf_False del: wp_bindA, rule wp_calm_bind [OF provider_calm(4)],
            rule wp_then_calm [OF payment_update_status [OF frame]])
          (simp_all add: preserves_bindA calm)
    qed (cases adm, simp add: preserves_def, simp add: calm)
  qed simp
qed

lemma capture_rest_captures:
  assumes env: "px_provider env = P" and ok: "ledger_ok (ledger_of w)" and row: "row_at (py_id p) (sw_payments w) = Some c"
  shows "wp (capture_rest env p a) w (\<lambda>_ t. status_in (py_id p) (ledger_of t) = Some ''captured'') (\<lambda>_ _. True)"
proof -
  have frame: "ledger_ok (ledger_of y)" "row_at (py_id p) (sw_payments y) = Some c" if "ledger_of y = ledger_of w" for y
    using that ok row find_same [of y w] by simp_all
  have upd: "wp (bindA now (\<lambda>d. bindA (payment_update (py_id p) (\<lambda>q. q\<lparr>py_status := ''captured'', py_captured_at := Some d, py_updated_by := Some a\<rparr>)) k)) v
      (\<lambda>_ t. status_in (py_id p) (ledger_of t) = Some ''captured'') (\<lambda>_ _. True)"
    if "ledger_of v = ledger_of w" "\<And>z. calm (k z)" for v and k :: "payment_row \<Rightarrow> payment_view shop_act"
    by (rule wp_calm_bind [OF calm_services(1)], rule wp_then_calm [OF payment_update_status [OF frame]])
      (simp_all add: that)
  have fail: "wp (markFailed env p a reason raw) v Q (\<lambda>_ _. True)" for v reason raw and Q
    unfolding markFailed_def by (intro wp_throws) simp
  show ?thesis
  proof (cases "truthy_str (py_gateway_payment_id p)")
    case True
    have "wp (if cp_status r \<noteq> ''captured'' then markFailed env p a ''Capture failed'' (cp_raw r) else m) v Q (\<lambda>_ _. True)"
      if "wp m v Q (\<lambda>_ _. True)" for r m v Q using that fail by simp
    note either = this
    show ?thesis unfolding capture_rest_def env
      by (simp only: True simp_thms if_False, intro wp_calm_bind [OF calm_withRetry [OF provider_calm(3)]] either upd)
        (auto intro!: calm preserves_bindA)
  next
    case False
    then show ?thesis unfolding capture_rest_def capture_zero_def
      by (simp del: wp_bindA, intro conjI impI upd) (auto intro!: calm preserves_bindA)
  qed
qed

lemma stale_capture_captures:
  assumes "px_provider env = P" "ledger_ok (ledger_of w)" "row_at (py_id p) (sw_payments w) = Some c" "py_status p = ''authorized''"
  shows "wp (capture_checked env p a) w (\<lambda>_ t. status_in (py_id p) (ledger_of t) = Some ''captured'') (\<lambda>_ _. True)"
proof -
  have "py_status p \<noteq> ''captured''" "allowed_payment (py_status p) ''captured''"
    by (simp_all add: assms(4) allowed_payment_def ALLOWED_PAYMENT_def)
  then show ?thesis using capture_rest_captures [OF assms(1-3)] by (simp add: capture_checked_def assertPaymentTransition_def)
qed

lemma capture_captures:
  assumes env: "px_provider env = P" and ok: "ledger_ok (ledger_of w)"
  shows "wp (capture env i a adm) w (\<lambda>_ t. status_in i (ledger_of t) = Some ''captured'') (\<lambda>_ _. True)"
  unfolding capture_def
proof (rule wp_locked_ledger, goal_cases)
  case (1 t)
  then have okt: "ledger_ok (ledger_of t)" using ok by simp
  show ?case
  proof (cases "findPayment i t")
    case None
    then show ?thesis by (simp add: wp_def requirePayment_def bindA_def)
  next
    case (Some p)
    have p: "py_id p = i" "row_at i (sw_payments t) = Some p" using findPayment_row [OF okt Some] by simp_all
    show ?thesis
    proof (rule wp_bindI [OF requirePayment_returns [OF Some]], rule wp_calm_bind, goal_cases)
      case (2 q s x u)
      then have u: "q = p" "ledger_of u = ledger_of t" by simp_all
      then have frame: "ledger_ok (ledger_of u)" "row_at (py_id p) (sw_payments u) = Some p" using okt p find_same [of u t] by simp_all
      have "status_in i (ledger_of u) = Some (py_status p)" using frame(2) p(1) by (simp add: status_in_def ledger_of_def)
      then show ?case using capture_rest_captures [OF env frame] unfolding u(1)
        by (simp add: capture_checked_def assertPaymentTransition_def viewA_def p(1))
    qed (auto intro!: calm)
  qed
qed

end

section \<open>A capture that overlaps a cancellation\<close>

text \<open>An action that neither reads nor writes the table of payments.\<close>

definition blind :: "'a shop_act \<Rightarrow> bool" where
  "blind m \<longleftrightarrow> (\<forall>w xs. m (w\<lparr>sw_payments := xs\<rparr>) = (fst (m w), (snd (m w))\<lparr>sw_payments := xs\<rparr>))"

lemma blindD: "blind m \<Longrightarrow> m w = (r, v) \<Longrightarrow> m (w\<lparr>sw_payments := xs\<rparr>) = (r, v\<lparr>sw_payments := xs\<rparr>)"
  by (simp add: blind_def)

lemma blind_bindA: "blind m \<Longrightarrow> (\<And>x. blind (f x)) \<Longrightarrow> blind (bindA m f)"
  by (auto simp: blind_def bindA_def split: prod.splits sum.splits)

lemma blind_catchA: "blind m \<Longrightarrow> (\<And>e. blind (h e)) \<Longrightarrow> blind (catchA m h)"
  by (auto simp: blind_def catchA_def split: prod.splits sum.splits)

lemma blind_basic: "blind (returnA x)" "blind (throwA e)" "blind now" "blind http_fetch"
  "blind (modifyA (\<lambda>w. w\<lparr>sw_calls := sw_calls w @ [c]\<rparr>))"
  by (simp_all add: blind_def now_def inI_def inv_now_def http_fetch_def)

lemma blind_fetch: "blind (fetchWithTimeout n)"
  by (induction n) (auto intro!: blind_bindA blind_basic split: http_answer.split)

lemma blind_request: "blind (request T c)"
  unfolding request_def Let_def by (auto intro!: blind_bindA blind_basic blind_fetch split: prod.split)

lemma blind_capture: "blind (pv_capture (RazorpayProvider T hmac cfg) i a c)"
  by (auto simp: RazorpayProvider_def rz_capture_def intro!: blind_bindA blind_basic blind_request)

lemma blind_retry: "blind m \<Longrightarrow> blind (withRetry n m)"
  by (induction n) (auto intro!: blind_catchA blind_basic)

text \<open>
  The world with another status of the payment \<open>i\<close>, and that an action answers the same in both and
  does the same outside the table of payments.
\<close>

definition with_status :: "string \<Rightarrow> string \<Rightarrow> shop_world \<Rightarrow> shop_world" where
  "with_status i s w = w\<lparr>sw_payments := update_where (\<lambda>q. py_id q = i) (\<lambda>q. q\<lparr>py_status := s\<rparr>) (sw_payments w)\<rparr>"

definition unmoved :: "string \<Rightarrow> string \<Rightarrow> 'a shop_act \<Rightarrow> bool" where
  "unmoved i s m \<longleftrightarrow> (\<forall>w. fst (m (with_status i s w)) = fst (m w)
     \<and> (snd (m (with_status i s w)))\<lparr>sw_payments := []\<rparr> = (snd (m w))\<lparr>sw_payments := []\<rparr>)"

lemma unmoved_throwA: "unmoved i s (throwA e)"
  by (simp add: unmoved_def with_status_def)

lemma unmoved_bind:
  assumes "blind m" "\<And>x. unmoved i s (f x)"
  shows "unmoved i s (bindA m f)"
  unfolding unmoved_def
proof
  fix w
  obtain r v where m: "m w = (r, v)" by force
  have "sw_payments v = sw_payments w" using blindD [OF assms(1) m, of "sw_payments w"] m by (cases v) simp
  then have m': "m (with_status i s w) = (r, with_status i s v)"
    using blindD [OF assms(1) m] by (simp add: with_status_def)
  show "fst (bindA m f (with_status i s w)) = fst (bindA m f w)
      \<and> (snd (bindA m f (with_status i s w)))\<lparr>sw_payments := []\<rparr> = (snd (bindA m f w))\<lparr>sw_payments := []\<rparr>"
    using assms(2) by (cases r) (simp_all add: bindA_def m m' unmoved_def, simp add: with_status_def)
qed

text \<open>An update that sets the status does not see the old one.\<close>

lemma payment_update_run:
  "payment_update i f w = (case find (\<lambda>q. py_id q = i) (sw_payments w) of
     None \<Rightarrow> (Inl (prisma_error ''P2025''), w)
   | Some q \<Rightarrow> let g = (\<lambda>q. f (q\<lparr>py_updated_at := iw_clock (sw_inv w) (iw_reads (sw_inv w))\<rparr>));
         w1 = w\<lparr>sw_inv := (sw_inv w)\<lparr>iw_reads := Suc (iw_reads (sw_inv w))\<rparr>\<rparr> in
       if payment_row_ok (g q) (sw_payments w)
       then (Inr (g q), w1\<lparr>sw_payments := update_where (\<lambda>q. py_id q = i) g (sw_payments w)\<rparr>)
       else (Inl (prisma_error ''23514''), w1))"
  by (cases "find (\<lambda>q. py_id q = i) (sw_payments w)")
    (simp_all add: payment_update_def row_or_throw_def now_def inI_def inv_now_def constraint_def Let_def)

lemma unmoved_update:
  assumes f: "\<And>q s. f (q\<lparr>py_status := s\<rparr>) = f q" "\<And>q. py_id (f q) = py_id q"
  shows "unmoved i s (bindA (payment_update i f) k)"
proof -
  let ?set = "update_where (\<lambda>q. py_id q = i) (\<lambda>q. q\<lparr>py_status := s\<rparr>)"
  have upd: "f (q\<lparr>py_status := s, py_updated_at := d\<rparr>) = f (q\<lparr>py_updated_at := d\<rparr>)" for q d
    using f(1) [of s "q\<lparr>py_updated_at := d\<rparr>"] by (cases q) simp
  have found: "find (\<lambda>q. py_id q = i) (?set xs) = map_option (\<lambda>q. q\<lparr>py_status := s\<rparr>) (find (\<lambda>q. py_id q = i) xs)" for xs
    by (induction xs) (simp_all add: update_where_def)
  have ok: "payment_row_ok p (?set xs) = payment_row_ok p xs" for p xs
  proof -
    have "list_ex (\<lambda>q. py_id q \<noteq> py_id p \<and> py_gateway_payment_id q = py_gateway_payment_id p \<and> py_deleted_at q = None) (?set xs)
        = list_ex (\<lambda>q. py_id q \<noteq> py_id p \<and> py_gateway_payment_id q = py_gateway_payment_id p \<and> py_deleted_at q = None) xs"
      by (induction xs) (simp_all add: update_where_def)
    then show ?thesis by (simp add: payment_row_ok_def)
  qed
  have again: "update_where (\<lambda>q. py_id q = i) (\<lambda>q. f (q\<lparr>py_updated_at := d\<rparr>)) (?set xs)
      = update_where (\<lambda>q. py_id q = i) (\<lambda>q. f (q\<lparr>py_updated_at := d\<rparr>)) xs" for d xs
    by (induction xs) (simp_all add: update_where_def upd)
  show ?thesis
    unfolding unmoved_def
  proof
    fix w
    show "fst (bindA (payment_update i f) k (with_status i s w)) = fst (bindA (payment_update i f) k w)
      \<and> (snd (bindA (payment_update i f) k (with_status i s w)))\<lparr>sw_payments := []\<rparr>
        = (snd (bindA (payment_update i f) k w))\<lparr>sw_payments := []\<rparr>"
      by (cases "find (\<lambda>q. py_id q = i) (sw_payments w)")
        (simp_all add: payment_update_run with_status_def found ok again upd Let_def bindA_def)
  qed
qed

lemma unmoved_capture:
  assumes "px_provider env = RazorpayProvider T hmac cfg" "py_status p \<noteq> ''captured''"
  shows "unmoved (py_id p) s (capture_checked env p a)"
proof -
  have upd: "unmoved (py_id p) s (bindA now (\<lambda>d. bindA (payment_update (py_id p) (\<lambda>q. q\<lparr>py_status := st, py_captured_at := Some d, py_updated_by := b\<rparr>)) (k d)))"
    "unmoved (py_id p) s (bindA now (\<lambda>d. bindA (payment_update (py_id p) (\<lambda>q. q\<lparr>py_status := st, py_failed_at := Some d, py_updated_by := b\<rparr>)) (k d)))"
    for st b and k :: "int \<Rightarrow> payment_row \<Rightarrow> payment_view shop_act"
    by (intro unmoved_bind blind_basic unmoved_update; simp)+
  have rest: "unmoved (py_id p) s (capture_rest env p a)"
    unfolding capture_rest_def capture_zero_def markFailed_def assms(1)
    by (auto intro!: unmoved_bind [OF blind_retry [OF blind_capture]] upd unmoved_throwA)
  show ?thesis unfolding capture_checked_def assertPaymentTransition_def
    using assms(2) by (auto intro!: unmoved_bind rest simp: throwIf_def blind_basic)
qed

text \<open>
  C38: \<open>capture\<close> and \<open>cancel\<close> of one payment take different locks, so a cancellation may run between the
  moment a capture has read the payment and the rest of the capture. A cancellation that succeeds there
  leaves the payment cancelled and does not stop the capture: for every answer of the gateway, the
  database and the queue, the rest of the capture answers what it answers when the payment is
  still authorized, and does the same outside the table of payments, the calls of the gateway included; and when it returns the
  payment is captured, a move from cancelled that the status graph forbids.
\<close>

theorem capture_overtakes_cancel:
  assumes "px_provider env = RazorpayProvider T hmac cfg" "ledger_ok (ledger_of w)" "findPayment i w = Some p" "py_status p = ''authorized''"
    "cancel_payment env i a adm w = (Inr v, t)"
  defines "t' \<equiv> t\<lparr>sw_payments := update_where (\<lambda>q. py_id q = i) (\<lambda>q. q\<lparr>py_status := ''authorized''\<rparr>) (sw_payments t)\<rparr>"
  shows "map_option py_status (row_at i (sw_payments t)) = Some ''cancelled''
    \<and> fst (capture_checked env p b t) = fst (capture_checked env p b t')
    \<and> (snd (capture_checked env p b t))\<lparr>sw_payments := []\<rparr> = (snd (capture_checked env p b t'))\<lparr>sw_payments := []\<rparr>
    \<and> (\<forall>v2 u. capture_checked env p b t = (Inr v2, u) \<longrightarrow> map_option py_status (row_at i (sw_payments u)) = Some ''captured'')
    \<and> \<not> allowed_payment ''cancelled'' ''captured''"
proof -
  have t: "map_option py_status (row_at i (sw_payments t)) = Some ''cancelled''"
    using wp_Inr [OF razorpay.cancel_cancels [OF assms(1-4)] assms(5)] by (simp add: ledger_of_def status_in_def)
  have ok: "ledger_ok (ledger_of t)"
    using razorpay.cancel_refines [OF assms(1,2), of False i a adm] assms(2,5) ledger_steps_ok by (auto simp: refines_def)
  have i: "py_id p = i" using findPayment_row [OF assms(2,3)] by simp
  have "map_option py_status (row_at i (sw_payments u)) = Some ''captured''" if "capture_checked env p b t = (Inr v2, u)" for v2 u
    using t ok i wp_Inr [OF razorpay.stale_capture_captures [OF assms(1) _ _ assms(4)] that] by (auto simp: ledger_of_def status_in_def)
  moreover have "unmoved i ''authorized'' (capture_checked env p b)"
    using unmoved_capture [OF assms(1), of p "''authorized''" b] assms(4) i by simp
  moreover have "\<not> allowed_payment ''cancelled'' ''captured''" by (simp add: allowed_payment_def ALLOWED_PAYMENT_def)
  ultimately show ?thesis using t unfolding unmoved_def with_status_def t'_def by simp
qed

theorem capture_overtakes_cancel_witness:
  "\<exists>v t v2 u. cancel_payment demo_env ''p1'' ''ann'' False (demo_paid ''authorized'') = (Inr v, t)
     \<and> map_option py_status (row_at ''p1'' (sw_payments t)) = Some ''cancelled''
     \<and> capture_checked demo_env (demo_payment ''authorized'') ''ann'' t = (Inr v2, u)
     \<and> map_option py_status (row_at ''p1'' (sw_payments u)) = Some ''captured'' \<and> \<not> allowed_payment ''cancelled'' ''captured''"
proof -
  let ?c = "cancel_payment demo_env ''p1'' ''ann'' False" and ?d = "capture_checked demo_env (demo_payment ''authorized'') ''ann''"
  have "ok ?c (demo_paid ''authorized'') (\<lambda>_ t. ok ?d t (\<lambda>_ _. True))" by code_simp
  from okD [OF this] obtain v t where t: "?c (demo_paid ''authorized'') = (Inr v, t)" "ok ?d t (\<lambda>_ _. True)" by (elim exE conjE)
  from okD [OF t(2)] obtain v2 u where u: "?d t = (Inr v2, u)" by (elim exE conjE)
  have p: "findPayment ''p1'' (demo_paid ''authorized'') = Some (demo_payment ''authorized'')"
    "py_status (demo_payment ''authorized'') = ''authorized''" by code_simp+
  from capture_overtakes_cancel [OF demo_provider demo_ok(2) p t(1), of "''ann''"] t(1) u show ?thesis by blast
qed

end
