(* ===== verification/Payment_Effort.thy ===== *)
theory Payment_Effort
  imports Payment_Refinement
begin

text \<open>
  How many HTTP requests a call of the payment gateway can send: the retries of \<open>fetchWithTimeout\<close> inside those of
  the payments service.
\<close>

section \<open>Requests to the gateway\<close>

text \<open>An action sends at most \<open>k\<close> HTTP requests, whatever the gateway answers.\<close>

definition spends :: "nat \<Rightarrow> 'a shop_act \<Rightarrow> bool" where
  "spends k m \<longleftrightarrow> (\<forall>w r t. m w = (r, t) \<longrightarrow> sw_http_no t \<le> sw_http_no w + k)"

lemma spends_count: "spends k m \<Longrightarrow> sw_http_no (snd (m w)) \<le> sw_http_no w + k"
  unfolding spends_def by (metis prod.collapse)

lemma spends_bindA:
  assumes "spends j m" "\<And>x. spends k (f x)"
  shows "spends (j + k) (bindA m f)"
  unfolding spends_def
proof (intro allI impI)
  fix w r t assume run: "bindA m f w = (r, t)"
  obtain y v where m: "m w = (y, v)" by force
  then have v: "sw_http_no v \<le> sw_http_no w + j" using assms(1) by (simp add: spends_def)
  show "sw_http_no t \<le> sw_http_no w + (j + k)"
  proof (cases y)
    case (Inl e)
    then show ?thesis using run m v by (simp add: bindA_def)
  next
    case (Inr x)
    then have "f x v = (r, t)" using run m by (simp add: bindA_def)
    then have "sw_http_no t \<le> sw_http_no v + k" using assms(2) unfolding spends_def by blast
    then show ?thesis using v by simp
  qed
qed

lemma spends_catchA:
  assumes "spends j m" "\<And>e. spends k (h e)"
  shows "spends (j + k) (catchA m h)"
  unfolding spends_def
proof (intro allI impI)
  fix w r t assume run: "catchA m h w = (r, t)"
  obtain y v where m: "m w = (y, v)" by force
  then have v: "sw_http_no v \<le> sw_http_no w + j" using assms(1) by (simp add: spends_def)
  show "sw_http_no t \<le> sw_http_no w + (j + k)"
  proof (cases y)
    case (Inl e)
    then have "h e v = (r, t)" using run m by (simp add: catchA_def)
    then have "sw_http_no t \<le> sw_http_no v + k" using assms(2) unfolding spends_def by blast
    then show ?thesis using v by simp
  next
    case (Inr x)
    then show ?thesis using run m v by (simp add: catchA_def)
  qed
qed

lemma spends_if: "spends k m \<Longrightarrow> spends k m' \<Longrightarrow> spends k (if c then m else m')"
  by simp

lemma spends_nothing [simp]: "spends k (returnA x)" "spends k (throwA e)" "spends k (logA l)" "spends k random_id" "spends k mock_suffix"
  "spends k (modifyA (\<lambda>w. w\<lparr>sw_calls := g w\<rparr>))"
  by (simp_all add: spends_def logA_def random_id_def inI_def mock_suffix_def bindA_def inv_uuid_def split: prod.split)

lemma spends_then: "spends k m \<Longrightarrow> (\<And>x. spends 0 (f x)) \<Longrightarrow> spends k (bindA m f)"
  using spends_bindA [of k m 0 f] by simp

lemma spends_after: "spends 0 m \<Longrightarrow> (\<And>x. spends k (f x)) \<Longrightarrow> spends k (bindA m f)"
  using spends_bindA [of 0 m k f] by simp

lemma spends_fetch: "spends (Suc n) (fetchWithTimeout n)"
proof (induction n)
  have one: "spends 1 http_fetch" by (simp add: spends_def http_fetch_def)
  case 0
  then show ?case unfolding fetchWithTimeout.simps One_nat_def [symmetric] by (rule spends_then [OF one]) (simp split: http_answer.split)
  case (Suc n)
  have "spends (1 + Suc n) (bindA http_fetch (\<lambda>a. case a of HttpResponse st b \<Rightarrow> if st \<ge> 500 \<or> st = 429 then fetchWithTimeout n else returnA (st, b)
      | HttpFailed e \<Rightarrow> fetchWithTimeout n))"
    by (rule spends_bindA [OF one]) (use Suc in \<open>auto split: http_answer.split\<close>)
  then show ?case by simp
qed

lemma spends_request: "spends 3 (request T call)"
  unfolding request_def
proof (rule spends_after [OF spends_nothing(6)])
  show "spends 3 (bindA (fetchWithTimeout 2) (\<lambda>(st, body). let json = (case body of JsonBody ps \<Rightarrow> ps | OtherBody t \<Rightarrow> if t = [] then [] else [(''raw'', JStr t)]) in
     if 200 \<le> st \<and> st < 300 then returnA json
     else throwA (HttpError (js_String T (json_or (opt_prop (obj_get json ''error'') ''description'')
            (JStr (''Razorpay '' @ show_nat st)))) st)))"
    by (rule spends_then) (use spends_fetch [of 2] in \<open>auto simp: Let_def numeral_3_eq_3\<close>)
qed

lemma spends_withRetry: "spends k m \<Longrightarrow> spends (Suc n * k) (withRetry n m)"
proof (induction n)
  case (Suc n)
  have "spends (k + Suc n * k) (catchA m (\<lambda>e. if retryable e then withRetry n m else throwA e))"
    by (rule spends_catchA [OF Suc.prems]) (use Suc in simp)
  then show ?case by simp
qed simp

lemma spends_provider:
  "spends 3 (rz_createOrder T cfg a c r notes)" "spends 3 (rz_authorize T cfg i a c)" "spends 6 (rz_capture T cfg i a c)"
  "spends 3 (rz_cancel T cfg gp go a c)" "spends 3 (rz_refund T cfg i a c notes)"
proof -
  note req = spends_request [of T]
  have mock: "spends k (mockOrder cfg a c)" for k a c by (simp add: mockOrder_def Let_def spends_after)
  show "spends 3 (rz_createOrder T cfg a c r notes)" unfolding rz_createOrder_def
    by (intro spends_if mock spends_catchA [where j = 3 and k = 0, simplified] spends_then [OF req] spends_nothing spends_after [OF spends_nothing(3)])
  show "spends 3 (rz_authorize T cfg i a c)" unfolding rz_authorize_def
    by (auto simp: Let_def intro!: spends_if spends_then [OF req] spends_after split: json.split option.split)
  have "spends (3 + 3) (bindA (request T (GetPayment i)) (\<lambda>existing.
        if js_String T (obj_get existing ''status'') = ''captured'' then
          returnA \<lparr>cp_payment_id = js_String T (obj_get existing ''id''), cp_status = ''captured'', cp_raw = existing\<rparr>
        else bindA (request T (PostCapture i [(''amount'', JInt (toPaise a)), (''currency'', JStr c)])) (\<lambda>raw.
          returnA \<lparr>cp_payment_id = js_String T (obj_get raw ''id''),
            cp_status = (if js_String T (obj_get raw ''status'') = ''captured'' then ''captured'' else ''failed''), cp_raw = raw\<rparr>)))"
    by (rule spends_bindA [OF req]) (auto intro!: spends_then [OF req])
  then show "spends 6 (rz_capture T cfg i a c)" unfolding rz_capture_def by (auto intro!: spends_if)
  show "spends 3 (rz_cancel T cfg gp go a c)" unfolding rz_cancel_def Let_def
    by (auto intro!: spends_if spends_catchA [where j = 3 and k = 0, simplified] spends_then [OF req] spends_after)
  show "spends 3 (rz_refund T cfg i a c notes)" unfolding rz_refund_def Let_def
    by (auto intro!: spends_if spends_then [OF req] spends_after)
qed

text \<open>
  C5: Every call of the gateway ends after a bounded number of HTTP requests, whatever the gateway answers: three
  for one request, and with the service's retries nine for an order or an authorization and eighteen for a capture.
\<close>

theorem gateway_requests_bounded:
  "sw_http_no (snd (withRetry 2 (pv_createOrder (RazorpayProvider T hmac cfg) a c r notes) w)) \<le> sw_http_no w + 9
   \<and> sw_http_no (snd (withRetry 2 (pv_authorize (RazorpayProvider T hmac cfg) i a c) w)) \<le> sw_http_no w + 9
   \<and> sw_http_no (snd (withRetry 2 (pv_capture (RazorpayProvider T hmac cfg) i a c) w)) \<le> sw_http_no w + 18
   \<and> sw_http_no (snd (pv_cancel (RazorpayProvider T hmac cfg) gp go a c w)) \<le> sw_http_no w + 3
   \<and> sw_http_no (snd (pv_refund (RazorpayProvider T hmac cfg) i a c notes w)) \<le> sw_http_no w + 3"
proof -
  have calls: "spends 9 (withRetry 2 (rz_createOrder T cfg a c r notes))" "spends 9 (withRetry 2 (rz_authorize T cfg i a c))"
    "spends 18 (withRetry 2 (rz_capture T cfg i a c))"
    using spends_withRetry [OF spends_provider(1), of 2] spends_withRetry [OF spends_provider(2), of 2] spends_withRetry [OF spends_provider(3), of 2]
    by simp_all
  show ?thesis unfolding RazorpayProvider_def payment_provider.simps
    by (intro conjI spends_count calls spends_provider)
qed
end
