(* ===== verification/Orders.thy ===== *)
theory Orders
  imports Payments
begin

text \<open>
  The orders module (modules/orders) but for checkout: CartService, OrdersService and the repositories
  they use. Carts and orders are rows of the shop; the inventory world knows them by their ids, as
  reservations refer to them. Where the source orders rows, the order is a field of \<open>orders_env\<close>;
  rows without an order come in the order of the table. Unicode white space other than ASCII is outside
  the model of \<open>trim\<close>.
\<close>

record orders_env =
  oe_pay :: pay_env
  oe_carts :: "cart_row list \<Rightarrow> cart_row list"
  oe_cart_items :: "cart_item_row list \<Rightarrow> cart_item_row list"
  oe_wishlist_items :: "wishlist_item_row list \<Rightarrow> wishlist_item_row list"
  oe_orders :: "order_row list \<Rightarrow> order_row list"
  oe_addresses :: "order_address_row list \<Rightarrow> order_address_row list"
  oe_history :: "order_history_row list \<Rightarrow> order_history_row list"
  oe_stock :: "stock_row list \<Rightarrow> stock_row list"

abbreviation oe_text :: "orders_env \<Rightarrow> js_text" where
  "oe_text env \<equiv> px_text (oe_pay env)"

definition head_opt :: "'a list \<Rightarrow> 'a option" where
  "head_opt xs = (case xs of [] \<Rightarrow> None | x # _ \<Rightarrow> Some x)"

fun mapA :: "('a \<Rightarrow> ('s, 'b) act) \<Rightarrow> 'a list \<Rightarrow> ('s, 'b list) act" where
  "mapA f [] = returnA []"
| "mapA f (x # xs) = bindA (f x) (\<lambda>y. bindA (mapA f xs) (\<lambda>ys. returnA (y # ys)))"

text \<open>A \<open>NUMERIC(12, 2)\<close> column.\<close>

definition price_fits :: "rat \<Rightarrow> bool" where
  "price_fits x \<longleftrightarrow> \<bar>dec2 x\<bar> < 10000000000"

definition uppercase :: "string \<Rightarrow> string" where
  "uppercase s = map (\<lambda>c. if CHR ''a'' \<le> c \<and> c \<le> CHR ''z'' then char_of (of_char c - 32 :: nat) else c) s"

section \<open>Numbers and states (validators/order-state.validator.ts)\<close>

definition ALLOWED_CANCEL_FROM :: "string list" where
  "ALLOWED_CANCEL_FROM = [''pending'', ''confirmed'']"

definition ALLOWED_RETURN_FROM :: "string list" where
  "ALLOWED_RETURN_FROM = [''delivered'', ''completed'', ''shipped'']"

definition canCancel :: "string \<Rightarrow> bool" where
  "canCancel st \<longleftrightarrow> st \<in> set ALLOWED_CANCEL_FROM"

definition canRequestReturn :: "string \<Rightarrow> bool" where
  "canRequestReturn st \<longleftrightarrow> st \<in> set ALLOWED_RETURN_FROM"

definition stamp36 :: "js_text \<Rightarrow> string shop_act" where
  "stamp36 T = bindA now (\<lambda>t. returnA (uppercase (jt_base36 T (of_int t))))"

definition nextOrderNumber :: "js_text \<Rightarrow> string shop_act" where
  "nextOrderNumber T = bindA (stamp36 T) (\<lambda>ts. bindA math_random (\<lambda>r.
     returnA (''ORD-'' @ ts @ ''-'' @ uppercase (take 4 (drop 2 (jt_base36 T r))))))"

definition next_number :: "js_text \<Rightarrow> string \<Rightarrow> string shop_act" where
  "next_number T prefix = bindA (stamp36 T) (\<lambda>ts. returnA (prefix @ ts))"

section \<open>Carts (repositories/cart.repository.ts)\<close>

record cart_full =
  cf_cart :: cart_row
  cf_items :: "(cart_item_row \<times> variant_row option) list"

definition with_items :: "shop_world \<Rightarrow> cart_row \<Rightarrow> cart_full" where
  "with_items w c = \<lparr>cf_cart = c, cf_items = map (\<lambda>i. (i, find (\<lambda>v. va_id v = ci_variant_id i) (sw_variant_rows w)))
     (filter (\<lambda>i. ci_cart_id i = ca_id c \<and> ci_deleted_at i = None) (sw_cart_items w))\<rparr>"

definition findActiveByUser :: "orders_env \<Rightarrow> string \<Rightarrow> shop_world \<Rightarrow> cart_full option" where
  "findActiveByUser env userId w = map_option (with_items w) (head_opt (oe_carts env
     (filter (\<lambda>c. ca_user_id c = Some userId \<and> ca_status c = ''active'' \<and> ca_deleted_at c = None) (sw_cart_rows w))))"

definition findActiveBySession :: "orders_env \<Rightarrow> string \<Rightarrow> shop_world \<Rightarrow> cart_full option" where
  "findActiveBySession env key w = map_option (with_items w) (head_opt (oe_carts env
     (filter (\<lambda>c. ca_session_key c = Some key \<and> ca_status c = ''active'' \<and> ca_deleted_at c = None) (sw_cart_rows w))))"

definition cart_findById :: "string \<Rightarrow> shop_world \<Rightarrow> cart_full option" where
  "cart_findById i w = map_option (with_items w) (find (\<lambda>c. ca_id c = i \<and> ca_deleted_at c = None) (sw_cart_rows w))"

definition cart_create :: "string option \<Rightarrow> string option \<Rightarrow> cart_full shop_act" where
  "cart_create userId sessionKey =
     bindA (new_id (\<lambda>w. map ca_id (sw_cart_rows w))) (\<lambda>i.
     bindA now (\<lambda>t.
     bindA (constraint ''P2003'' (\<lambda>w. fk_ok userId (iw_users (sw_inv w)))) (\<lambda>_.
     let c = \<lparr>ca_id = i, ca_user_id = userId, ca_session_key = sessionKey, ca_currency = ''INR'', ca_status = ''active'',
         ca_updated_at = t, ca_deleted_at = None, ca_created_by = userId\<rparr> in
     bindA (modifyA (\<lambda>w. w\<lparr>sw_cart_rows := sw_cart_rows w @ [c], sw_inv := (sw_inv w)\<lparr>iw_carts := iw_carts (sw_inv w) @ [i]\<rparr>\<rparr>)) (\<lambda>_.
     readA (\<lambda>w. with_items w c)))))"

definition item_ok :: "int \<Rightarrow> rat \<Rightarrow> bool" where
  "item_ok quantity price \<longleftrightarrow> quantity > 0 \<and> int4 quantity \<and> dec2 price \<ge> 0 \<and> price_fits price"

definition live_twin :: "string \<Rightarrow> string \<Rightarrow> string \<Rightarrow> shop_world \<Rightarrow> bool" where
  "live_twin cartId variantId i w = list_ex (\<lambda>x. ci_id x \<noteq> i \<and> ci_cart_id x = cartId \<and> ci_variant_id x = variantId
     \<and> ci_deleted_at x = None) (sw_cart_items w)"

definition upsertItem :: "orders_env \<Rightarrow> string \<Rightarrow> string \<Rightarrow> int \<Rightarrow> rat \<Rightarrow> string option \<Rightarrow> unit shop_act" where
  "upsertItem env cartId variantId quantity unitPrice actor =
     bindA (readA (\<lambda>w. head_opt (oe_cart_items env (filter (\<lambda>i. ci_cart_id i = cartId \<and> ci_variant_id i = variantId) (sw_cart_items w))))) (\<lambda>existing.
     case existing of
       Some x \<Rightarrow>
         bindA (constraint ''23514'' (\<lambda>_. item_ok quantity unitPrice)) (\<lambda>_.
         bindA (constraint ''23505'' (\<lambda>w. \<not> live_twin cartId variantId (ci_id x) w)) (\<lambda>_.
         modifyA (\<lambda>w. w\<lparr>sw_cart_items := update_where (\<lambda>i. ci_id i = ci_id x)
           (\<lambda>i. i\<lparr>ci_quantity := quantity, ci_unit_price := dec2 unitPrice, ci_deleted_at := None, ci_status := ''active''\<rparr>) (sw_cart_items w)\<rparr>)))
     | None \<Rightarrow>
         bindA (new_id (\<lambda>w. map ci_id (sw_cart_items w))) (\<lambda>i.
         bindA now (\<lambda>t.
         bindA (constraint ''23503'' (\<lambda>w. cartId \<in> set (map ca_id (sw_cart_rows w)) \<and> variantId \<in> set (map va_id (sw_variant_rows w)))) (\<lambda>_.
         bindA (constraint ''23514'' (\<lambda>_. item_ok quantity unitPrice)) (\<lambda>_.
         bindA (constraint ''23505'' (\<lambda>w. \<not> live_twin cartId variantId i w)) (\<lambda>_.
         modifyA (\<lambda>w. w\<lparr>sw_cart_items := sw_cart_items w @ [\<lparr>ci_id = i, ci_cart_id = cartId, ci_variant_id = variantId, ci_quantity = quantity,
           ci_unit_price = dec2 unitPrice, ci_status = ''active'', ci_created_at = t, ci_deleted_at = None, ci_created_by = actor\<rparr>]\<rparr>)))))))"

definition cart_item_update :: "string \<Rightarrow> (cart_item_row \<Rightarrow> cart_item_row) \<Rightarrow> unit shop_act" where
  "cart_item_update i f =
     bindA (readA (\<lambda>w. find (\<lambda>x. ci_id x = i) (sw_cart_items w))) (\<lambda>found.
     bindA (row_or_throw found) (\<lambda>x.
     bindA (constraint ''23514'' (\<lambda>_. item_ok (ci_quantity (f x)) (ci_unit_price (f x)))) (\<lambda>_.
     modifyA (\<lambda>w. w\<lparr>sw_cart_items := update_where (\<lambda>x. ci_id x = i) f (sw_cart_items w)\<rparr>))))"

definition updateItemQty :: "string \<Rightarrow> int \<Rightarrow> unit shop_act" where
  "updateItemQty i quantity = cart_item_update i (\<lambda>x. x\<lparr>ci_quantity := quantity\<rparr>)"

definition softDeleteItem :: "string \<Rightarrow> unit shop_act" where
  "softDeleteItem i = bindA now (\<lambda>t. cart_item_update i (\<lambda>x. x\<lparr>ci_deleted_at := Some t, ci_status := ''archived''\<rparr>))"

definition markConverted :: "string \<Rightarrow> unit shop_act" where
  "markConverted i = cart_update i (\<lambda>c. c\<lparr>ca_status := ''converted''\<rparr>)"

section \<open>CartService (services/cart.service.ts)\<close>

text \<open>What \<open>mapCart\<close> shows: a missing or deleted variant hides the item.\<close>

definition shown_items :: "cart_full \<Rightarrow> (cart_item_row \<times> variant_row) list" where
  "shown_items c = concat (map (\<lambda>(i, v). case v of None \<Rightarrow> []
     | Some x \<Rightarrow> if ci_deleted_at i = None \<and> va_deleted_at x = None then [(i, x)] else []) (cf_items c))"

definition mapCart :: "cart_full \<Rightarrow> json" where
  "mapCart c = (let items = shown_items c; line = (\<lambda>i. ci_unit_price i * of_int (ci_quantity i)) in JObj
     [(''id'', JStr (ca_id (cf_cart c))), (''userId'', jopt JStr (ca_user_id (cf_cart c))),
      (''sessionKey'', jopt JStr (ca_session_key (cf_cart c))), (''currency'', JStr (ca_currency (cf_cart c))),
      (''status'', JStr (ca_status (cf_cart c))), (''subtotal'', JNum (Fin (sum_list (map (line \<circ> fst) items)))),
      (''items'', JArr (map (\<lambda>(i, v). JObj [(''id'', JStr (ci_id i)), (''variantId'', JStr (ci_variant_id i)), (''sku'', JStr (va_sku v)),
        (''quantity'', JInt (ci_quantity i)), (''unitPrice'', JNum (Fin (ci_unit_price i))), (''lineTotal'', JNum (Fin (line i)))]) items))])"

definition json_str :: "json \<Rightarrow> string" where
  "json_str v = (case v of JStr s \<Rightarrow> s | _ \<Rightarrow> [])"

definition json_list :: "json \<Rightarrow> json list" where
  "json_list v = (case v of JArr xs \<Rightarrow> xs | _ \<Rightarrow> [])"

definition cart_cacheKey :: "string option \<Rightarrow> string option \<Rightarrow> string" where
  "cart_cacheKey userId sessionKey = (if truthy_str userId then ''user:'' @ the userId else ''session:'' @ nullish sessionKey ''anon'')"

definition invalidateCart :: "string \<Rightarrow> unit shop_act" where
  "invalidateCart key = uncacheA (''orders:cart:'' @ key)"

definition getOrCreate :: "orders_env \<Rightarrow> string option \<Rightarrow> string option \<Rightarrow> json shop_act" where
  "getOrCreate env userId sessionKey =
     bindA (throwIf (\<not> truthy_str userId \<and> \<not> truthy_str sessionKey)
       (AppException ''BAD_REQUEST'' ''user or sessionKey required for cart'' 400)) (\<lambda>_.
     cachedA (''orders:cart:'' @ cart_cacheKey userId sessionKey)
     (bindA (readA (if truthy_str userId then findActiveByUser env (the userId) else findActiveBySession env (the sessionKey))) (\<lambda>found.
      bindA (case found of None \<Rightarrow> cart_create userId sessionKey | Some c \<Rightarrow> returnA c) (\<lambda>c. returnA (mapCart c)))))"

definition addItem :: "orders_env \<Rightarrow> string \<Rightarrow> int \<Rightarrow> string option \<Rightarrow> string option \<Rightarrow> json shop_act" where
  "addItem env variantId quantity userId sessionKey =
     bindA (readA (\<lambda>w. find (\<lambda>v. va_id v = variantId \<and> va_deleted_at v = None \<and> va_status v = ''active'') (sw_variant_rows w))) (\<lambda>found.
     case found of None \<Rightarrow> throwA (AppException ''NOT_FOUND'' ''Variant not found'' 404)
     | Some variant \<Rightarrow>
       bindA (getOrCreate env userId sessionKey) (\<lambda>mapped.
       bindA (upsertItem env (json_str (opt_prop mapped ''id'')) variantId quantity (va_sale_price variant) userId) (\<lambda>_.
       bindA (invalidateCart (cart_cacheKey userId sessionKey)) (\<lambda>_.
       getOrCreate env userId sessionKey))))"

definition in_cart :: "json \<Rightarrow> string \<Rightarrow> bool" where
  "in_cart cart itemId = list_ex (\<lambda>i. opt_prop i ''id'' = JStr itemId) (json_list (opt_prop cart ''items''))"

definition updateItem :: "orders_env \<Rightarrow> string \<Rightarrow> int \<Rightarrow> string option \<Rightarrow> string option \<Rightarrow> json shop_act" where
  "updateItem env itemId quantity userId sessionKey =
     bindA (getOrCreate env userId sessionKey) (\<lambda>cart.
     bindA (throwIf (\<not> in_cart cart itemId) (AppException ''NOT_FOUND'' ''Cart item not found'' 404)) (\<lambda>_.
     bindA (updateItemQty itemId quantity) (\<lambda>_.
     bindA (invalidateCart (cart_cacheKey userId sessionKey)) (\<lambda>_.
     getOrCreate env userId sessionKey))))"

definition removeItem :: "orders_env \<Rightarrow> string \<Rightarrow> string option \<Rightarrow> string option \<Rightarrow> json shop_act" where
  "removeItem env itemId userId sessionKey =
     bindA (getOrCreate env userId sessionKey) (\<lambda>cart.
     bindA (throwIf (\<not> in_cart cart itemId) (AppException ''NOT_FOUND'' ''Cart item not found'' 404)) (\<lambda>_.
     bindA (softDeleteItem itemId) (\<lambda>_.
     bindA (invalidateCart (cart_cacheKey userId sessionKey)) (\<lambda>_.
     getOrCreate env userId sessionKey))))"

definition requireCart :: "string \<Rightarrow> string option \<Rightarrow> cart_full shop_act" where
  "requireCart cartId userId =
     bindA (readA (cart_findById cartId)) (\<lambda>found. case found of
       None \<Rightarrow> throwA (AppException ''NOT_FOUND'' ''Cart not found'' 404)
     | Some c \<Rightarrow>
       bindA (throwIf (ca_status (cf_cart c) \<noteq> ''active'') (AppException ''NOT_FOUND'' ''Cart not found'' 404)) (\<lambda>_.
       bindA (throwIf (truthy_str userId \<and> truthy_str (ca_user_id (cf_cart c)) \<and> ca_user_id (cf_cart c) \<noteq> userId)
         (AppException ''FORBIDDEN'' ''Cart does not belong to user'' 403)) (\<lambda>_. returnA c)))"

section \<open>Orders (repositories/order.repository.ts)\<close>

definition transitionStatus :: "string \<Rightarrow> string option \<Rightarrow> string \<Rightarrow> string option \<Rightarrow> string option \<Rightarrow> order_row shop_act" where
  "transitionStatus orderId x y note actor = transactionA (
     bindA (if y = ''cancelled'' \<or> y = ''confirmed'' then bindA now (\<lambda>t. returnA (Some t)) else returnA None) (\<lambda>t.
     bindA (order_update orderId (\<lambda>r. r\<lparr>or_status := y, or_cancelled_at := (if y = ''cancelled'' then t else or_cancelled_at r),
       or_placed_at := (if y = ''confirmed'' then t else or_placed_at r), or_updated_by := upd_by actor (or_updated_by r)\<rparr>)) (\<lambda>order.
     bindA (history_create orderId x y note actor) (\<lambda>_. returnA order))))"

text \<open>\<open>/^[0-9a-f]{8}-[0-9a-f]{4}-[0-9a-f]{4}-[0-9a-f]{4}-[0-9a-f]{12}$/i\<close>\<close>

definition is_hex :: "char \<Rightarrow> bool" where
  "is_hex c \<longleftrightarrow> CHR ''0'' \<le> c \<and> c \<le> CHR ''9'' \<or> CHR ''a'' \<le> c \<and> c \<le> CHR ''f'' \<or> CHR ''A'' \<le> c \<and> c \<le> CHR ''F''"

definition is_uuid :: "string \<Rightarrow> bool" where
  "is_uuid s \<longleftrightarrow> length s = 36 \<and> list_all (\<lambda>(k, c). if k \<in> {8, 13, 18, 23 :: nat} then c = CHR ''-'' else is_hex c) (zip [0..<36] s)"

definition is_space :: "char \<Rightarrow> bool" where
  "is_space c \<longleftrightarrow> c \<in> {CHR '' '', CHR 0x09, CHR 0x0A, CHR 0x0B, CHR 0x0C, CHR 0x0D}"

definition trim :: "string \<Rightarrow> string" where
  "trim s = rev (dropWhile is_space (rev (dropWhile is_space s)))"

definition findByNumber :: "string \<Rightarrow> shop_world \<Rightarrow> order_row option" where
  "findByNumber n w = find (\<lambda>r. or_number r = n \<and> or_deleted_at r = None) (sw_order_rows w)"

definition findByIdOrNumber :: "string \<Rightarrow> shop_world \<Rightarrow> order_row option" where
  "findByIdOrNumber s w = (let key = trim s in if is_uuid key then findOrder key w else findByNumber key w)"

definition items_of :: "string \<Rightarrow> shop_world \<Rightarrow> order_item_row list" where
  "items_of orderId w = filter (\<lambda>i. oi_order_id i = orderId \<and> oi_deleted_at i = None) (sw_order_items w)"

definition addresses_of :: "string \<Rightarrow> shop_world \<Rightarrow> order_address_row list" where
  "addresses_of orderId w = filter (\<lambda>a. oa_order_id a = orderId \<and> oa_deleted_at a = None) (sw_order_addresses w)"

definition listByCustomer :: "orders_env \<Rightarrow> string \<Rightarrow> nat \<Rightarrow> shop_world \<Rightarrow> order_row list" where
  "listByCustomer env customerId n w = take n (oe_orders env (filter (\<lambda>r. or_customer_id r = Some customerId \<and> or_deleted_at r = None) (sw_order_rows w)))"

definition recentAddresses :: "orders_env \<Rightarrow> string \<Rightarrow> shop_world \<Rightarrow> order_address_row list" where
  "recentAddresses env customerId w = take 10 (oe_addresses env (filter (\<lambda>a. oa_deleted_at a = None \<and> oa_type a = ''shipping''
     \<and> list_ex (\<lambda>r. or_id r = oa_order_id a \<and> or_customer_id r = Some customerId \<and> or_deleted_at r = None) (sw_order_rows w)) (sw_order_addresses w)))"

section \<open>OrdersService (services/orders.service.ts)\<close>

text \<open>\<open>mapOrderSummary\<close>; a property that is undefined is left out.\<close>

definition opt_field :: "string \<Rightarrow> json option \<Rightarrow> jsobj" where
  "opt_field k v = (case v of None \<Rightarrow> [] | Some x \<Rightarrow> [(k, x)])"

definition mapOrderSummary :: "js_text \<Rightarrow> order_row \<Rightarrow> nat option \<Rightarrow> jsobj" where
  "mapOrderSummary T r count = (let num = (\<lambda>x. JNum (Fin x)); date = (\<lambda>t. JStr (jt_date T (Some t))) in
     [(''id'', JStr (or_id r)), (''orderNumber'', JStr (or_number r)), (''status'', JStr (or_status r)), (''currency'', JStr (or_currency r)),
      (''subtotal'', num (or_subtotal r)), (''discountTotal'', num (or_discount_total r)), (''taxTotal'', num (or_tax_total r)),
      (''shippingCharge'', num (or_shipping_charge r)), (''grandTotal'', num (or_grand_total r)),
      (''placedAt'', jopt date (or_placed_at r)), (''cancelledAt'', jopt date (or_cancelled_at r))]
     @ opt_field ''itemCount'' (map_option (JInt \<circ> int) count) @ opt_field ''customerId'' (map_option JStr (or_customer_id r)))"

definition order_detail :: "orders_env \<Rightarrow> order_row \<Rightarrow> shop_world \<Rightarrow> json" where
  "order_detail env r w = (let T = oe_text env; items = items_of (or_id r) w in JObj (mapOrderSummary T r (Some (length items)) @
     [(''items'', JArr (map (\<lambda>i. JObj [(''id'', JStr (oi_id i)), (''variantId'', JStr (oi_variant_id i)), (''sku'', JStr (oi_sku i)),
        (''name'', JStr (oi_name i)), (''quantity'', JInt (oi_quantity i)), (''unitPrice'', JNum (Fin (oi_unit_price i))),
        (''lineTotal'', JNum (Fin (oi_line_total i)))]) items)),
      (''addresses'', JArr (map (\<lambda>a. JObj [(''id'', JStr (oa_id a)), (''type'', JStr (oa_type a)), (''fullName'', JStr (oa_full_name a)),
        (''phone'', jopt JStr (oa_phone a)), (''line1'', JStr (oa_line1 a)), (''line2'', jopt JStr (oa_line2 a)), (''city'', JStr (oa_city a)),
        (''state'', JStr (oa_state a)), (''country'', JStr (oa_country a)), (''postalCode'', JStr (oa_postal_code a))]) (addresses_of (or_id r) w))),
      (''statusHistory'', JArr (map (\<lambda>h. JObj [(''from'', jopt JStr (oh_from_status h)), (''to'', JStr (oh_to_status h)),
        (''note'', jopt JStr (oh_note h)), (''changedAt'', JStr (jt_date T (Some (oh_changed_at h))))])
        (oe_history env (filter (\<lambda>h. oh_order_id h = or_id r) (sw_order_history w)))))]))"

definition invalidateOrder :: "string \<Rightarrow> string option \<Rightarrow> unit shop_act" where
  "invalidateOrder orderId userId = bindA (uncacheA (''orders:order:'' @ orderId)) (\<lambda>_.
     if truthy_str userId then uncacheA (''orders:recent:'' @ the userId) else returnA ())"

definition getOrder :: "orders_env \<Rightarrow> string \<Rightarrow> string option \<Rightarrow> json shop_act" where
  "getOrder env idOrNumber customerId = cachedA (''orders:order:'' @ idOrNumber)
     (bindA (readA (findByIdOrNumber idOrNumber)) (\<lambda>found. case found of
        None \<Rightarrow> throwA (AppException ''NOT_FOUND'' ''Order not found'' 404)
      | Some r \<Rightarrow>
        bindA (throwIf (truthy_str customerId \<and> truthy_str (or_customer_id r) \<and> or_customer_id r \<noteq> customerId)
          (AppException ''FORBIDDEN'' ''Order access denied'' 403)) (\<lambda>_. readA (order_detail env r))))"

definition order_history :: "orders_env \<Rightarrow> string \<Rightarrow> json shop_act" where
  "order_history env customerId = cachedA (''orders:recent:'' @ customerId)
     (readA (\<lambda>w. JArr (map (\<lambda>r. JObj (mapOrderSummary (oe_text env) r (Some (length (items_of (or_id r) w))))) (listByCustomer env customerId 20 w))))"

text \<open>The address book: the first of the recent addresses with each key.\<close>

definition address_key :: "order_address_row \<Rightarrow> string" where
  "address_key a = oa_line1 a @ ''|'' @ oa_postal_code a @ ''|'' @ oa_full_name a"

fun first_by :: "('a \<Rightarrow> 'k) \<Rightarrow> 'k list \<Rightarrow> 'a list \<Rightarrow> 'a list" where
  "first_by key seen [] = []"
| "first_by key seen (x # xs) = (if key x \<in> set seen then first_by key seen xs else x # first_by key (key x # seen) xs)"

definition listAddresses :: "orders_env \<Rightarrow> string \<Rightarrow> shop_world \<Rightarrow> order_address_row list" where
  "listAddresses env customerId w = first_by address_key [] (recentAddresses env customerId w)"

record cancel_dto =
  cd_cancellationReasonId :: "string option"
  cd_note :: "string option"

definition set_reason :: "string \<Rightarrow> string option \<Rightarrow> unit shop_act" where
  "set_reason orderId reason =
     bindA (constraint ''P2003'' (\<lambda>w. fk_ok reason (sw_reasons w))) (\<lambda>_.
     bindA (order_update orderId (\<lambda>r. r\<lparr>or_cancellation_reason_id := upd_by reason (or_cancellation_reason_id r)\<rparr>)) (\<lambda>_. returnA ()))"

definition active_reservations :: "string \<Rightarrow> shop_world \<Rightarrow> reservation_row list" where
  "active_reservations orderId w = filter (\<lambda>r. rs_order_id r = Some orderId \<and> rs_status r = ''active'' \<and> rs_deleted_at r = None)
     (iw_reservations (sw_inv w))"

definition release_all :: "orders_env \<Rightarrow> reservation_row list \<Rightarrow> string \<Rightarrow> unit shop_act" where
  "release_all env rs userId = forA rs (\<lambda>r. bindA (inI (releaseReservation (oe_stock env) (rs_id r) (Some userId))) (\<lambda>_. returnA ()))"

definition cancel_order :: "orders_env \<Rightarrow> string \<Rightarrow> string \<Rightarrow> cancel_dto \<Rightarrow> bool \<Rightarrow> (string \<times> string) shop_act" where
  "cancel_order env orderId userId dto isAdmin =
     lockedA [''orders'', orderId]
     (bindA (readA (findOrder orderId)) (\<lambda>found. case found of
        None \<Rightarrow> throwA (AppException ''NOT_FOUND'' ''Order not found'' 404)
      | Some order \<Rightarrow>
        bindA (throwIf (\<not> isAdmin \<and> or_customer_id order \<noteq> Some userId) (AppException ''FORBIDDEN'' ''Order access denied'' 403)) (\<lambda>_.
        bindA (throwIf (\<not> canCancel (or_status order)) (AppException ''CONFLICT'' (''Cannot cancel order in status '' @ or_status order) 409)) (\<lambda>_.
        bindA (set_reason orderId (cd_cancellationReasonId dto)) (\<lambda>_.
        bindA (transitionStatus orderId (Some (or_status order)) ''cancelled'' (Some (nullish (cd_note dto) ''Cancelled by customer'')) (Some userId)) (\<lambda>_.
        bindA (readA (active_reservations orderId)) (\<lambda>reservations.
        bindA (release_all env reservations userId) (\<lambda>_.
        bindA (invalidateOrder orderId (or_customer_id order)) (\<lambda>_.
        bindA (emit (OrderCancelledEvent orderId (or_number order) (cd_cancellationReasonId dto))) (\<lambda>_.
        returnA (orderId, ''cancelled'')))))))))))"

definition requireOwnedOrder :: "string \<Rightarrow> string \<Rightarrow> order_row shop_act" where
  "requireOwnedOrder orderId userId = bindA (readA (findOrder orderId)) (\<lambda>found. case found of
     None \<Rightarrow> throwA (AppException ''NOT_FOUND'' ''Order not found'' 404)
   | Some r \<Rightarrow> bindA (throwIf (or_customer_id r \<noteq> Some userId) (AppException ''FORBIDDEN'' ''Order access denied'' 403)) (\<lambda>_. returnA r))"

text \<open>A value for an \<open>Int\<close> column: the client refuses a fraction, the column what it cannot hold.\<close>

definition int_arg :: "rat \<Rightarrow> int shop_act" where
  "int_arg x = bindA (throwIf (of_int \<lfloor>x\<rfloor> \<noteq> x) (JsError ''PrismaClientValidationError'')) (\<lambda>_.
     bindA (throwIf (\<not> int4 \<lfloor>x\<rfloor>) (prisma_error ''P2033'')) (\<lambda>_. returnA \<lfloor>x\<rfloor>))"

record return_dto =
  rtd_orderItemId :: string
  rtd_quantity :: rat
  rtd_reason :: "string option"

definition createReturn :: "string \<Rightarrow> string \<Rightarrow> return_dto \<Rightarrow> string \<Rightarrow> return_row shop_act" where
  "createReturn number orderId dto actor =
     bindA (int_arg (rtd_quantity dto)) (\<lambda>quantity.
     bindA (new_id (\<lambda>w. map rt_id (sw_returns w))) (\<lambda>i.
     bindA (constraint ''P2003'' (\<lambda>w. orderId \<in> set (map or_id (sw_order_rows w)) \<and> rtd_orderItemId dto \<in> set (map oi_id (sw_order_items w)))) (\<lambda>_.
     bindA (constraint ''P2002'' (\<lambda>w. \<not> list_ex (\<lambda>r. rt_number r = number \<and> rt_deleted_at r = None) (sw_returns w))) (\<lambda>_.
     bindA (constraint ''23514'' (\<lambda>_. quantity > 0)) (\<lambda>_.
     let r = \<lparr>rt_id = i, rt_number = number, rt_order_id = orderId, rt_reason = rtd_reason dto, rt_status = ''requested'',
         rt_deleted_at = None, rt_created_by = Some actor\<rparr> in
     bindA (modifyA (\<lambda>w. w\<lparr>sw_returns := sw_returns w @ [r], sw_return_items := sw_return_items w @ [\<lparr>rti_return_id = i,
       rti_order_item_id = rtd_orderItemId dto, rti_quantity = quantity, rti_reason = rtd_reason dto\<rparr>]\<rparr>)) (\<lambda>_. returnA r))))))"

definition requestReturn :: "orders_env \<Rightarrow> string \<Rightarrow> string \<Rightarrow> return_dto \<Rightarrow> return_row shop_act" where
  "requestReturn env userId orderId dto =
     bindA (requireOwnedOrder orderId userId) (\<lambda>order.
     bindA (throwIf (\<not> canRequestReturn (or_status order)) (AppException ''CONFLICT'' (''Cannot return order in status '' @ or_status order) 409)) (\<lambda>_.
     bindA (readA (\<lambda>w. find (\<lambda>i. oi_id i = rtd_orderItemId dto) (items_of orderId w))) (\<lambda>found. case found of
       None \<Rightarrow> throwA (AppException ''NOT_FOUND'' ''Order item not found'' 404)
     | Some item \<Rightarrow>
       bindA (throwIf (rtd_quantity dto > of_int (oi_quantity item)) (AppException ''BAD_REQUEST'' ''Quantity exceeds ordered'' 400)) (\<lambda>_.
       bindA (next_number (oe_text env) ''RET-'') (\<lambda>number.
       bindA (createReturn number orderId dto userId) (\<lambda>ret.
       bindA (emit (OrderReturnRequestedEvent (rt_id ret) orderId (rt_number ret))) (\<lambda>_. returnA ret)))))))"

record exchange_dto =
  xd_orderItemId :: string
  xd_exchangeType :: string
  xd_toVariantId :: "string option"
  xd_reason :: "string option"

definition createExchange :: "string \<Rightarrow> string \<Rightarrow> exchange_dto \<Rightarrow> string \<Rightarrow> string \<Rightarrow> exchange_row shop_act" where
  "createExchange number orderId dto fromVariantId actor =
     bindA (throwIf (xd_exchangeType dto \<notin> {''same_variant'', ''different_variant'', ''store_credit''}) (JsError ''PrismaClientValidationError'')) (\<lambda>_.
     bindA (new_id (\<lambda>w. map ex_id (sw_exchanges w))) (\<lambda>i.
     bindA (constraint ''P2003'' (\<lambda>w. orderId \<in> set (map or_id (sw_order_rows w)) \<and> xd_orderItemId dto \<in> set (map oi_id (sw_order_items w))
       \<and> fromVariantId \<in> set (map va_id (sw_variant_rows w)) \<and> fk_ok (xd_toVariantId dto) (map va_id (sw_variant_rows w)))) (\<lambda>_.
     bindA (constraint ''P2002'' (\<lambda>w. \<not> list_ex (\<lambda>r. ex_number r = number \<and> ex_deleted_at r = None) (sw_exchanges w))) (\<lambda>_.
     let r = \<lparr>ex_id = i, ex_number = number, ex_order_id = orderId, ex_order_item_id = xd_orderItemId dto, ex_type = xd_exchangeType dto,
         ex_from_variant_id = fromVariantId, ex_to_variant_id = xd_toVariantId dto, ex_reason = xd_reason dto, ex_state = ''requested'',
         ex_deleted_at = None, ex_created_by = Some actor\<rparr> in
     bindA (modifyA (\<lambda>w. w\<lparr>sw_exchanges := sw_exchanges w @ [r]\<rparr>)) (\<lambda>_. returnA r)))))"

definition requestExchange :: "orders_env \<Rightarrow> string \<Rightarrow> string \<Rightarrow> exchange_dto \<Rightarrow> exchange_row shop_act" where
  "requestExchange env userId orderId dto =
     bindA (requireOwnedOrder orderId userId) (\<lambda>order.
     bindA (readA (\<lambda>w. find (\<lambda>i. oi_id i = xd_orderItemId dto) (items_of orderId w))) (\<lambda>found. case found of
       None \<Rightarrow> throwA (AppException ''NOT_FOUND'' ''Order item not found'' 404)
     | Some item \<Rightarrow>
       bindA (next_number (oe_text env) ''EXC-'') (\<lambda>number.
       bindA (createExchange number orderId dto (oi_variant_id item) userId) (\<lambda>exchange.
       bindA (emit (OrderExchangeRequestedEvent (ex_id exchange) orderId (ex_number exchange))) (\<lambda>_. returnA exchange)))))"

record fulfillment_dto =
  fd_warehouseId :: string
  fd_orderItemIds :: "string list option"

text \<open>One statement creates the fulfillment, its items, and its pick and packing lists.\<close>

definition create_fulfillment_rows :: "js_text \<Rightarrow> string \<Rightarrow> fulfillment_dto \<Rightarrow> order_item_row list \<Rightarrow> string option \<Rightarrow> fulfillment_row shop_act" where
  "create_fulfillment_rows T orderId dto items actor =
     bindA (next_number T ''FUL-'') (\<lambda>number.
     bindA (next_number T ''PICK-'') (\<lambda>pick.
     bindA (next_number T ''PACK-'') (\<lambda>pack.
     bindA (new_id (\<lambda>w. map fu_id (sw_fulfillments w))) (\<lambda>i.
     bindA (constraint ''P2003'' (\<lambda>w. orderId \<in> set (map or_id (sw_order_rows w)) \<and> fd_warehouseId dto \<in> set (warehouse_ids (sw_inv w)))) (\<lambda>_.
     bindA (constraint ''P2002'' (\<lambda>w. \<not> list_ex (\<lambda>f. fu_number f = number \<and> fu_deleted_at f = None) (sw_fulfillments w)
       \<and> pick \<notin> set (map wr_number (sw_pick_lists w)) \<and> pack \<notin> set (map wr_number (sw_packing_lists w)))) (\<lambda>_.
     let f = \<lparr>fu_id = i, fu_number = number, fu_order_id = orderId, fu_warehouse_id = fd_warehouseId dto, fu_status = ''pending'',
         fu_shipped_at = None, fu_delivered_at = None, fu_deleted_at = None, fu_created_by = actor\<rparr> in
     bindA (modifyA (\<lambda>w. w\<lparr>sw_fulfillments := sw_fulfillments w @ [f],
       sw_fulfillment_items := sw_fulfillment_items w @ map (\<lambda>x. \<lparr>fi_fulfillment_id = i, fi_order_item_id = oi_id x, fi_quantity = oi_quantity x\<rparr>) items,
       sw_pick_lists := sw_pick_lists w @ [\<lparr>wr_fulfillment_id = i, wr_number = pick, wr_status = ''open''\<rparr>],
       sw_packing_lists := sw_packing_lists w @ [\<lparr>wr_fulfillment_id = i, wr_number = pack, wr_status = ''open''\<rparr>]\<rparr>)) (\<lambda>_. returnA f)))))))"

definition createFulfillment :: "orders_env \<Rightarrow> string \<Rightarrow> fulfillment_dto \<Rightarrow> string option \<Rightarrow> fulfillment_row shop_act" where
  "createFulfillment env orderId dto actor =
     lockedA [''orders'', ''fulfill'', orderId]
     (bindA (readA (findOrder orderId)) (\<lambda>found. case found of
        None \<Rightarrow> throwA (AppException ''NOT_FOUND'' ''Order not found'' 404)
      | Some order \<Rightarrow>
        bindA (throwIf (or_status order \<notin> {''confirmed'', ''processing'', ''packed''})
          (AppException ''CONFLICT'' (''Cannot fulfill order in status '' @ or_status order) 409)) (\<lambda>_.
        bindA (readA (\<lambda>w. case fd_orderItemIds dto of
            Some ids \<Rightarrow> if ids \<noteq> [] then filter (\<lambda>i. oi_id i \<in> set ids) (items_of orderId w) else items_of orderId w
          | None \<Rightarrow> items_of orderId w)) (\<lambda>items.
        bindA (create_fulfillment_rows (oe_text env) orderId dto items actor) (\<lambda>fo.
        bindA (if or_status order = ''confirmed''
          then bindA (transitionStatus orderId (Some ''confirmed'') ''processing'' (Some ''Fulfillment created'') actor) (\<lambda>_. returnA ())
          else returnA ()) (\<lambda>_.
        bindA (emit (OrderFulfillmentCreatedEvent (fu_id fo) orderId (fu_number fo))) (\<lambda>_.
        bindA (invalidateOrder orderId (or_customer_id order)) (\<lambda>_. returnA fo))))))))"

definition updateFulfillmentStatus :: "string \<Rightarrow> string \<Rightarrow> fulfillment_row shop_act" where
  "updateFulfillmentStatus fulfillmentId st =
     bindA (readA (\<lambda>w. find (\<lambda>f. fu_id f = fulfillmentId \<and> fu_deleted_at f = None) (sw_fulfillments w))) (\<lambda>found. case found of
       None \<Rightarrow> throwA (AppException ''NOT_FOUND'' ''Fulfillment not found'' 404)
     | Some f0 \<Rightarrow>
       bindA (if st = ''shipped'' \<or> st = ''delivered'' then bindA now (\<lambda>t. returnA (Some t)) else returnA None) (\<lambda>t.
       let g = (\<lambda>f. f\<lparr>fu_status := st, fu_shipped_at := (if st = ''shipped'' then t else fu_shipped_at f),
         fu_delivered_at := (if st = ''delivered'' then t else fu_delivered_at f)\<rparr>) in
       bindA (modifyA (\<lambda>w. w\<lparr>sw_fulfillments := update_where (\<lambda>f. fu_id f = fulfillmentId) g (sw_fulfillments w)\<rparr>)) (\<lambda>_. returnA (g f0))))"

definition createInvoice :: "orders_env \<Rightarrow> string \<Rightarrow> string option \<Rightarrow> invoice_row shop_act" where
  "createInvoice env orderId actor =
     bindA (readA (findOrder orderId)) (\<lambda>found. case found of
       None \<Rightarrow> throwA (AppException ''NOT_FOUND'' ''Order not found'' 404)
     | Some order \<Rightarrow>
       bindA (readA (items_of orderId)) (\<lambda>items.
       bindA (next_number (oe_text env) ''INV-'') (\<lambda>number.
       bindA now (\<lambda>t.
       bindA (new_id (\<lambda>w. map in_id (sw_invoices w))) (\<lambda>i.
       bindA (constraint ''P2002'' (\<lambda>w. \<not> list_ex (\<lambda>r. in_number r = number \<and> in_deleted_at r = None) (sw_invoices w))) (\<lambda>_.
       let r = \<lparr>in_id = i, in_number = number, in_order_id = orderId, in_date = t, in_currency = or_currency order,
           in_subtotal = or_subtotal order, in_discount_total = or_discount_total order, in_shipping_charge = or_shipping_charge order,
           in_grand_total = or_grand_total order, in_status = ''issued'', in_deleted_at = None, in_created_by = actor\<rparr> in
       bindA (modifyA (\<lambda>w. w\<lparr>sw_invoices := sw_invoices w @ [r], sw_invoice_items := sw_invoice_items w @ map (\<lambda>x.
         \<lparr>ii_invoice_id = i, ii_order_item_id = Some (oi_id x), ii_variant_id = oi_variant_id x, ii_description = oi_name x,
          ii_quantity = oi_quantity x, ii_unit_price = oi_unit_price x, ii_line_total = oi_line_total x\<rparr>) items\<rparr>)) (\<lambda>_. returnA r)))))))"

section \<open>Wishlists (repositories/wishlist.repository.ts)\<close>

definition wishlist_getOrCreate :: "string \<Rightarrow> wishlist_row shop_act" where
  "wishlist_getOrCreate userId =
     bindA (readA (\<lambda>w. find (\<lambda>l. wl_user_id l = userId \<and> wl_deleted_at l = None \<and> wl_status l = ''active'') (sw_wishlists w))) (\<lambda>found.
     case found of Some l \<Rightarrow> returnA l
     | None \<Rightarrow>
       bindA (new_id (\<lambda>w. map wl_id (sw_wishlists w))) (\<lambda>i.
       bindA (constraint ''P2003'' (\<lambda>w. userId \<in> set (iw_users (sw_inv w)))) (\<lambda>_.
       let l = \<lparr>wl_id = i, wl_user_id = userId, wl_name = ''Default'', wl_status = ''active'', wl_deleted_at = None\<rparr> in
       bindA (modifyA (\<lambda>w. w\<lparr>sw_wishlists := sw_wishlists w @ [l]\<rparr>)) (\<lambda>_. returnA l))))"

definition wishlist_addItem :: "orders_env \<Rightarrow> string \<Rightarrow> string \<Rightarrow> unit shop_act" where
  "wishlist_addItem env wishlistId variantId =
     bindA (readA (\<lambda>w. head_opt (oe_wishlist_items env
       (filter (\<lambda>i. wli_wishlist_id i = wishlistId \<and> wli_variant_id i = variantId) (sw_wishlist_items w))))) (\<lambda>existing.
     let twin = (\<lambda>i w. list_ex (\<lambda>x. wli_id x \<noteq> i \<and> wli_wishlist_id x = wishlistId \<and> wli_variant_id x = variantId
       \<and> wli_deleted_at x = None) (sw_wishlist_items w)) in
     case existing of
       Some x \<Rightarrow>
         bindA (constraint ''23505'' (\<lambda>w. \<not> twin (wli_id x) w)) (\<lambda>_.
         modifyA (\<lambda>w. w\<lparr>sw_wishlist_items := update_where (\<lambda>i. wli_id i = wli_id x)
           (\<lambda>i. i\<lparr>wli_deleted_at := None, wli_status := ''active''\<rparr>) (sw_wishlist_items w)\<rparr>))
     | None \<Rightarrow>
         bindA (new_id (\<lambda>w. map wli_id (sw_wishlist_items w))) (\<lambda>i.
         bindA now (\<lambda>t.
         bindA (constraint ''23503'' (\<lambda>w. wishlistId \<in> set (map wl_id (sw_wishlists w)) \<and> variantId \<in> set (map va_id (sw_variant_rows w)))) (\<lambda>_.
         bindA (constraint ''23505'' (\<lambda>w. \<not> twin i w)) (\<lambda>_.
         modifyA (\<lambda>w. w\<lparr>sw_wishlist_items := sw_wishlist_items w @ [\<lparr>wli_id = i, wli_wishlist_id = wishlistId, wli_variant_id = variantId,
           wli_status = ''active'', wli_created_at = t, wli_deleted_at = None\<rparr>]\<rparr>))))))"

definition wishlist_removeItem :: "string \<Rightarrow> unit shop_act" where
  "wishlist_removeItem itemId =
     bindA now (\<lambda>t.
     bindA (readA (\<lambda>w. find (\<lambda>i. wli_id i = itemId) (sw_wishlist_items w))) (\<lambda>found.
     bindA (row_or_throw found) (\<lambda>_.
     modifyA (\<lambda>w. w\<lparr>sw_wishlist_items := update_where (\<lambda>i. wli_id i = itemId)
       (\<lambda>i. i\<lparr>wli_deleted_at := Some t, wli_status := ''archived''\<rparr>) (sw_wishlist_items w)\<rparr>))))"

definition getWishlist :: "string \<Rightarrow> (wishlist_row \<times> wishlist_item_row list) shop_act" where
  "getWishlist userId = bindA (wishlist_getOrCreate userId) (\<lambda>l.
     readA (\<lambda>w. (l, filter (\<lambda>i. wli_wishlist_id i = wl_id l \<and> wli_deleted_at i = None) (sw_wishlist_items w))))"

definition addWishlistItem :: "orders_env \<Rightarrow> string \<Rightarrow> string \<Rightarrow> (wishlist_row \<times> wishlist_item_row list) shop_act" where
  "addWishlistItem env userId variantId = bindA (wishlist_getOrCreate userId) (\<lambda>l.
     bindA (wishlist_addItem env (wl_id l) variantId) (\<lambda>_. getWishlist userId))"

definition removeWishlistItem :: "string \<Rightarrow> string \<Rightarrow> (wishlist_row \<times> wishlist_item_row list) shop_act" where
  "removeWishlistItem userId itemId = bindA (wishlist_removeItem itemId) (\<lambda>_. getWishlist userId)"

end
