(* ===== verification/Checkout.thy ===== *)
theory Checkout
  imports Orders Workflow
begin

text \<open>
  CheckoutService (modules/orders/services/checkout.service.ts): the saga that makes an order of a cart.
  The saga's context holds values of several types, so they are a datatype; a value that the source's
  types promise is read with a default for the case that cannot arise. A step is run to its end, and
  \<open>slow ms w\<close> says whether its timer of \<open>ms\<close> milliseconds had won by then, nothing being assumed of it:
  the code that outlives its timer does its work before the saga goes on.
\<close>

section \<open>Requests and the context (dto/checkout.dto.ts, interfaces/index.ts)\<close>

record checkout_address =
  ad_fullName :: string
  ad_phone :: "string option"
  ad_line1 :: string
  ad_line2 :: "string option"
  ad_city :: string
  ad_state :: string
  ad_country :: "string option"
  ad_postalCode :: string
  ad_gstin :: "string option"

record checkout_dto =
  cod_cartId :: "string option"
  cod_warehouseId :: string
  cod_shipping :: checkout_address
  cod_billing :: "checkout_address option"
  cod_giftCardCode :: "string option"
  cod_walletAmount :: "rat option"

datatype cval = CStr string | CNum rat | CStrs "string list" | CAddr checkout_address

definition ctx_str :: "cval wctx \<Rightarrow> string \<Rightarrow> string option" where
  "ctx_str ctx k = (case ctx k of Some (CStr s) \<Rightarrow> Some s | _ \<Rightarrow> None)"

definition ctx_num :: "cval wctx \<Rightarrow> string \<Rightarrow> rat option" where
  "ctx_num ctx k = (case ctx k of Some (CNum x) \<Rightarrow> Some x | _ \<Rightarrow> None)"

definition ctx_strs :: "cval wctx \<Rightarrow> string \<Rightarrow> string list option" where
  "ctx_strs ctx k = (case ctx k of Some (CStrs xs) \<Rightarrow> Some xs | _ \<Rightarrow> None)"

definition ctx_addr :: "cval wctx \<Rightarrow> string \<Rightarrow> checkout_address option" where
  "ctx_addr ctx k = (case ctx k of Some (CAddr a) \<Rightarrow> Some a | _ \<Rightarrow> None)"

text \<open>A property whose type is \<open>string\<close>, or one asserted with \<open>!\<close>.\<close>

definition req_str :: "cval wctx \<Rightarrow> string \<Rightarrow> string" where
  "req_str ctx k = nullish (ctx_str ctx k) []"

definition in_India :: "checkout_address \<Rightarrow> checkout_address" where
  "in_India a = a\<lparr>ad_country := Some (nullish (ad_country a) ''India'')\<rparr>"

definition put_opt :: "string \<Rightarrow> cval option \<Rightarrow> cval wctx \<Rightarrow> cval wctx" where
  "put_opt k v ctx = (case v of None \<Rightarrow> ctx | Some x \<Rightarrow> ctx(k \<mapsto> x))"

definition cart_amount :: "cart_full \<Rightarrow> rat" where
  "cart_amount c = sum_list (map (\<lambda>(i, _). ci_unit_price i * of_int (ci_quantity i)) (cf_items c))"

definition checkout_context :: "string \<Rightarrow> checkout_dto \<Rightarrow> cart_full \<Rightarrow> cval wctx" where
  "checkout_context userId dto c =
     put_opt ''walletAmount'' (map_option CNum (cod_walletAmount dto))
    (put_opt ''giftCardCode'' (map_option CStr (cod_giftCardCode dto))
    (put_opt ''billing'' (map_option (CAddr \<circ> in_India) (cod_billing dto))
     [''userId'' \<mapsto> CStr userId, ''cartId'' \<mapsto> CStr (ca_id (cf_cart c)), ''warehouseId'' \<mapsto> CStr (cod_warehouseId dto),
      ''amount'' \<mapsto> CNum (cart_amount c), ''shipping'' \<mapsto> CAddr (in_India (cod_shipping dto)), ''reservationIds'' \<mapsto> CStrs []]))"

section \<open>Tenders (\<open>validateTenders\<close>, fulfillment.repository.ts)\<close>

definition live_balance :: "string \<Rightarrow> balance_row list \<Rightarrow> balance_row option" where
  "live_balance key rows = find (\<lambda>b. ba_key b = key \<and> ba_deleted_at b = None \<and> ba_status b = ''active'') rows"

definition validateTenders :: "string \<Rightarrow> checkout_dto \<Rightarrow> unit shop_act" where
  "validateTenders userId dto =
     bindA (if truthy_str (cod_giftCardCode dto) then
         bindA (readA (\<lambda>w. live_balance (the (cod_giftCardCode dto)) (sw_gift_cards w))) (\<lambda>gc.
         throwIf (case gc of None \<Rightarrow> True | Some b \<Rightarrow> ba_balance b \<le> 0) (AppException ''BAD_REQUEST'' ''Invalid gift card'' 400))
       else returnA ()) (\<lambda>_.
     case cod_walletAmount dto of
       None \<Rightarrow> returnA ()
     | Some amount \<Rightarrow>
       if amount > 0 then
         bindA (readA (\<lambda>w. live_balance userId (sw_wallets w))) (\<lambda>wallet.
         throwIf (case wallet of None \<Rightarrow> True | Some b \<Rightarrow> ba_balance b < amount)
           (AppException ''BAD_REQUEST'' ''Insufficient wallet balance'' 400))
       else returnA ())"

definition createRiskScore :: "string \<Rightarrow> rat \<Rightarrow> string \<Rightarrow> unit shop_act" where
  "createRiskScore orderId score level =
     bindA (constraint ''P2003'' (\<lambda>w. orderId \<in> set (map or_id (sw_order_rows w)))) (\<lambda>_.
     bindA (constraint ''P2002'' (\<lambda>w. orderId \<notin> set (map rk_order_id (sw_risk_scores w)))) (\<lambda>_.
     bindA (constraint ''23514'' (\<lambda>_. 0 \<le> score \<and> score \<le> 100)) (\<lambda>_.
     modifyA (\<lambda>w. w\<lparr>sw_risk_scores := sw_risk_scores w @ [\<lparr>rk_order_id = orderId, rk_score = score, rk_level = level\<rparr>]\<rparr>))))"

section \<open>The draft order (\<open>order.create\<close> with its items, addresses and first history row)\<close>

definition create_order_row :: "string \<Rightarrow> cval wctx \<Rightarrow> string \<Rightarrow> order_row shop_act" where
  "create_order_row number ctx currency =
     (let userId = req_str ctx ''userId''; amount = nullish (ctx_num ctx ''amount'') 0 in
     bindA (new_id (\<lambda>w. map or_id (sw_order_rows w))) (\<lambda>i.
     bindA now (\<lambda>t.
     bindA (constraint ''P2003'' (\<lambda>w. userId \<in> set (iw_users (sw_inv w)) \<and> req_str ctx ''cartId'' \<in> set (map ca_id (sw_cart_rows w))
       \<and> req_str ctx ''warehouseId'' \<in> set (warehouse_ids (sw_inv w)))) (\<lambda>_.
     bindA (constraint ''P2002'' (\<lambda>w. \<not> list_ex (\<lambda>r. or_number r = number \<and> or_deleted_at r = None) (sw_order_rows w))) (\<lambda>_.
     bindA (constraint ''22003'' (\<lambda>_. money_fits amount)) (\<lambda>_.
     bindA (constraint ''23514'' (\<lambda>_. dec2 amount \<ge> 0)) (\<lambda>_.
     let r = \<lparr>or_id = i, or_number = number, or_customer_id = Some userId, or_cart_id = Some (req_str ctx ''cartId''),
         or_warehouse_id = Some (req_str ctx ''warehouseId''), or_currency = currency, or_subtotal = dec2 amount, or_discount_total = 0,
         or_tax_total = 0, or_shipping_charge = 0, or_grand_total = dec2 amount, or_placed_at = None, or_cancelled_at = None,
         or_cancellation_reason_id = None, or_status = ''pending'', or_created_at = t, or_deleted_at = None,
         or_created_by = Some userId, or_updated_by = Some userId\<rparr> in
     bindA (modifyA (\<lambda>w. w\<lparr>sw_order_rows := sw_order_rows w @ [r], sw_inv := (sw_inv w)\<lparr>iw_orders := iw_orders (sw_inv w) @ [i]\<rparr>\<rparr>)) (\<lambda>_.
     returnA r))))))))"

definition create_order_item :: "string \<Rightarrow> string \<Rightarrow> cart_item_row \<times> variant_row option \<Rightarrow> unit shop_act" where
  "create_order_item orderId userId item = (case item of (i, v) \<Rightarrow>
     bindA (case v of None \<Rightarrow> throwA (JsError ''Cannot read properties of null (reading sku)'') | Some x \<Rightarrow> returnA (va_sku x)) (\<lambda>sku.
     bindA (new_id (\<lambda>w. map oi_id (sw_order_items w))) (\<lambda>k.
     let total = ci_unit_price i * of_int (ci_quantity i) in
     bindA (constraint ''P2003'' (\<lambda>w. ci_variant_id i \<in> set (map va_id (sw_variant_rows w)))) (\<lambda>_.
     bindA (constraint ''22003'' (\<lambda>_. money_fits total)) (\<lambda>_.
     bindA (constraint ''23514'' (\<lambda>_. item_ok (ci_quantity i) (ci_unit_price i) \<and> dec2 total \<ge> 0)) (\<lambda>_.
     modifyA (\<lambda>w. w\<lparr>sw_order_items := sw_order_items w @ [\<lparr>oi_id = k, oi_order_id = orderId, oi_variant_id = ci_variant_id i, oi_name = sku,
       oi_sku = sku, oi_quantity = ci_quantity i, oi_unit_price = dec2 (ci_unit_price i), oi_line_total = dec2 total, oi_deleted_at = None,
       oi_created_by = Some userId\<rparr>]\<rparr>)))))))"

definition create_order_address :: "string \<Rightarrow> string \<Rightarrow> string \<Rightarrow> checkout_address option \<Rightarrow> unit shop_act" where
  "create_order_address orderId userId kind address = (case address of
     None \<Rightarrow> throwA (JsError ''Cannot read properties of undefined (reading fullName)'')
   | Some a \<Rightarrow>
     bindA (new_id (\<lambda>w. map oa_id (sw_order_addresses w))) (\<lambda>k.
     bindA now (\<lambda>t.
     bindA (constraint ''P2002'' (\<lambda>w. \<not> list_ex (\<lambda>x. oa_order_id x = orderId \<and> oa_type x = kind \<and> oa_deleted_at x = None) (sw_order_addresses w))) (\<lambda>_.
     modifyA (\<lambda>w. w\<lparr>sw_order_addresses := sw_order_addresses w @ [\<lparr>oa_id = k, oa_order_id = orderId, oa_type = kind, oa_full_name = ad_fullName a,
       oa_phone = ad_phone a, oa_line1 = ad_line1 a, oa_line2 = ad_line2 a, oa_city = ad_city a, oa_state = ad_state a,
       oa_country = nullish (ad_country a) ''India'', oa_postal_code = ad_postalCode a, oa_gstin = ad_gstin a, oa_created_at = t,
       oa_deleted_at = None, oa_created_by = Some userId\<rparr>]\<rparr>)))))"

definition order_create :: "string \<Rightarrow> cval wctx \<Rightarrow> cart_full \<Rightarrow> order_row shop_act" where
  "order_create number ctx cart =
     (let userId = req_str ctx ''userId''; shipping = ctx_addr ctx ''shipping'' in
     transactionA (
     bindA (create_order_row number ctx (ca_currency (cf_cart cart))) (\<lambda>order.
     bindA (forA (cf_items cart) (create_order_item (or_id order) userId)) (\<lambda>_.
     bindA (create_order_address (or_id order) userId ''shipping'' shipping) (\<lambda>_.
     bindA (create_order_address (or_id order) userId ''billing'' (case ctx_addr ctx ''billing'' of Some b \<Rightarrow> Some b | None \<Rightarrow> shipping)) (\<lambda>_.
     bindA (history_create (or_id order) None ''pending'' (Some ''Draft order created'') (Some userId)) (\<lambda>_.
     returnA order)))))))"

section \<open>The steps (\<open>buildDefinition\<close>)\<close>

definition autoSettlePayment :: "orders_env \<Rightarrow> bool" where
  "autoSettlePayment env \<longleftrightarrow> pc_mock (px_config (oe_pay env)) \<or> pc_serverCapture (px_config (oe_pay env))"

definition draft_execute :: "orders_env \<Rightarrow> cart_full \<Rightarrow> cval wctx \<Rightarrow> cval wctx option shop_act" where
  "draft_execute env cart ctx =
     bindA (nextOrderNumber (oe_text env)) (\<lambda>number.
     bindA (order_create number ctx cart) (\<lambda>order.
     bindA (emit (OrderCreatedEvent (or_id order) (or_number order) (req_str ctx ''userId''))) (\<lambda>_.
     returnA (Some [''orderId'' \<mapsto> CStr (or_id order), ''orderNumber'' \<mapsto> CStr (or_number order)]))))"

definition draft_compensate :: "cval wctx \<Rightarrow> unit shop_act" where
  "draft_compensate ctx = (if \<not> truthy_str (ctx_str ctx ''orderId'') then returnA ()
     else bindA (transitionStatus (req_str ctx ''orderId'') (Some ''pending'') ''cancelled'' (Some ''Checkout compensation'')
       (Some (req_str ctx ''userId''))) (\<lambda>_. returnA ()))"

definition reserve_item :: "orders_env \<Rightarrow> cval wctx \<Rightarrow> cart_item_row \<times> variant_row option \<Rightarrow> string shop_act" where
  "reserve_item env ctx item = bindA (inI (reserve (oe_stock env) \<lparr>rd_warehouseId = req_str ctx ''warehouseId'',
       rd_variantId = ci_variant_id (fst item), rd_quantity = ci_quantity (fst item), rd_cartId = ctx_str ctx ''cartId'',
       rd_orderId = ctx_str ctx ''orderId'', rd_sessionKey = None, rd_ttlMinutes = None\<rparr> (Some (req_str ctx ''userId''))))
     (\<lambda>res. returnA (rs_id res))"

definition link_reservations :: "string list \<Rightarrow> string option \<Rightarrow> unit shop_act" where
  "link_reservations ids orderId =
     (let hit = (\<lambda>r. rs_id r \<in> set ids) in
     bindA (constraint ''P2003'' (\<lambda>w. list_ex hit (iw_reservations (sw_inv w)) \<longrightarrow> fk_ok orderId (iw_orders (sw_inv w)))) (\<lambda>_.
     inI (modifyA (\<lambda>i. i\<lparr>iw_reservations := update_where hit (\<lambda>r. r\<lparr>rs_order_id := upd_by orderId (rs_order_id r)\<rparr>) (iw_reservations i)\<rparr>))))"

definition reserve_execute :: "orders_env \<Rightarrow> cart_full \<Rightarrow> cval wctx \<Rightarrow> cval wctx option shop_act" where
  "reserve_execute env cart ctx =
     bindA (mapA (reserve_item env ctx) (cf_items cart)) (\<lambda>reservationIds.
     bindA (link_reservations reservationIds (ctx_str ctx ''orderId'')) (\<lambda>_.
     returnA (Some [''reservationIds'' \<mapsto> CStrs reservationIds])))"

definition reserve_compensate :: "orders_env \<Rightarrow> cval wctx \<Rightarrow> unit shop_act" where
  "reserve_compensate env ctx = forA (nullish (ctx_strs ctx ''reservationIds'') []) (\<lambda>i.
     catchA (bindA (inI (releaseReservation (oe_stock env) i (Some (req_str ctx ''userId'')))) (\<lambda>_. returnA ()))
       (\<lambda>e. logA (''release '' @ i @ '' failed: '' @ show_exn e)))"

definition payment_execute :: "orders_env \<Rightarrow> cval wctx \<Rightarrow> cval wctx option shop_act" where
  "payment_execute env ctx =
     (let amount = nullish (ctx_num ctx ''amount'') 0 in
     bindA (throwIf (amount < 0) (JsError ''Invalid payment amount'')) (\<lambda>_.
     bindA (createForCheckout (oe_pay env) (req_str ctx ''orderId'') (req_str ctx ''userId'') amount None None) (\<lambda>payment.
     returnA (Some [''paymentId'' \<mapsto> CStr (pw_id payment)]))))"

definition payment_compensate :: "orders_env \<Rightarrow> cval wctx \<Rightarrow> unit shop_act" where
  "payment_compensate env ctx = (if \<not> truthy_str (ctx_str ctx ''paymentId'') then returnA ()
     else voidOrCancel (oe_pay env) (req_str ctx ''paymentId'') (req_str ctx ''userId''))"

definition authorize_execute :: "orders_env \<Rightarrow> cval wctx \<Rightarrow> cval wctx option shop_act" where
  "authorize_execute env ctx = (if \<not> autoSettlePayment env then returnA (Some Map.empty)
     else bindA (authorize (oe_pay env) (req_str ctx ''paymentId'') (req_str ctx ''userId'') False) (\<lambda>_. returnA (Some Map.empty)))"

definition authorize_compensate :: "orders_env \<Rightarrow> cval wctx \<Rightarrow> unit shop_act" where
  "authorize_compensate env ctx = (if \<not> autoSettlePayment env \<or> \<not> truthy_str (ctx_str ctx ''paymentId'') then returnA ()
     else voidOrCancel (oe_pay env) (req_str ctx ''paymentId'') (req_str ctx ''userId''))"

definition capture_execute :: "orders_env \<Rightarrow> cval wctx \<Rightarrow> cval wctx option shop_act" where
  "capture_execute env ctx = (if \<not> autoSettlePayment env then returnA (Some Map.empty)
     else bindA (capture (oe_pay env) (req_str ctx ''paymentId'') (req_str ctx ''userId'') False) (\<lambda>_. returnA (Some Map.empty)))"

definition capture_compensate :: "orders_env \<Rightarrow> cval wctx \<Rightarrow> unit shop_act" where
  "capture_compensate env ctx = (if \<not> autoSettlePayment env \<or> \<not> truthy_str (ctx_str ctx ''paymentId'') then returnA ()
     else catchA (voidOrCancel (oe_pay env) (req_str ctx ''paymentId'') (req_str ctx ''userId''))
       (\<lambda>_. logA (''capture compensate failed for '' @ req_str ctx ''paymentId'')))"

definition confirm_execute :: "orders_env \<Rightarrow> cval wctx \<Rightarrow> cval wctx option shop_act" where
  "confirm_execute env ctx = (if \<not> autoSettlePayment env then returnA (Some Map.empty)
     else
       bindA (throwIf (nullish (ctx_strs ctx ''reservationIds'') [] = []) (JsError ''Inventory reservation required before confirmation'')) (\<lambda>_.
       bindA (transitionStatus (req_str ctx ''orderId'') (Some ''pending'') ''confirmed'' (Some ''Payment captured'') (Some (req_str ctx ''userId''))) (\<lambda>_.
       bindA (markConverted (req_str ctx ''cartId'')) (\<lambda>_.
       bindA (createRiskScore (req_str ctx ''orderId'') 10 ''low'') (\<lambda>_.
       bindA (emit (OrderConfirmedEvent (req_str ctx ''orderId'') (ctx_str ctx ''orderNumber''))) (\<lambda>_.
       returnA (Some Map.empty)))))))"

definition confirm_compensate :: "orders_env \<Rightarrow> cval wctx \<Rightarrow> unit shop_act" where
  "confirm_compensate env ctx = (if \<not> autoSettlePayment env \<or> \<not> truthy_str (ctx_str ctx ''orderId'') then returnA ()
     else bindA (transitionStatus (req_str ctx ''orderId'') (Some ''confirmed'') ''cancelled'' (Some ''Confirm compensation'')
       (Some (req_str ctx ''userId''))) (\<lambda>_. returnA ()))"

text \<open>A promise raced against a timer.\<close>

definition settle :: "(int \<Rightarrow> shop_world \<Rightarrow> bool) \<Rightarrow> 'a shop_act \<Rightarrow> int \<Rightarrow> shop_world \<Rightarrow> 'a settled \<times> shop_world" where
  "settle slow m ms w = (case m w of (r, t) \<Rightarrow>
     (if slow ms t then Pending else case r of Inl e \<Rightarrow> Rejected e | Inr x \<Rightarrow> Resolved x, t))"

definition checkout_step ::
  "(int \<Rightarrow> shop_world \<Rightarrow> bool) \<Rightarrow> string \<Rightarrow> int \<Rightarrow> int option \<Rightarrow> (cval wctx \<Rightarrow> cval wctx option shop_act) \<Rightarrow> (cval wctx \<Rightarrow> unit shop_act)
     \<Rightarrow> (shop_world, cval) workflow_step" where
  "checkout_step slow name ms attempts execute compensate =
     \<lparr>ws_name = name, ws_execute = (\<lambda>ctx. settle slow (execute ctx)), ws_compensate = Some compensate,
      ws_retry = map_option (\<lambda>n. \<lparr>maxAttempts = Some n, delayMs = Some 200, backoffFactor = None\<rparr>) attempts, ws_timeoutMs = Some ms\<rparr>"

definition buildDefinition :: "orders_env \<Rightarrow> (int \<Rightarrow> shop_world \<Rightarrow> bool) \<Rightarrow> cart_full \<Rightarrow> (shop_world, cval) workflow_definition" where
  "buildDefinition env slow cart =
     \<lparr>wd_name = ''order.placement'',
      wd_steps =
       [checkout_step slow ''create_draft_order'' 15000 None (draft_execute env cart) draft_compensate,
        checkout_step slow ''reserve_inventory'' 30000 None (reserve_execute env cart) (reserve_compensate env),
        checkout_step slow ''create_payment'' 20000 (Some 2) (payment_execute env) (payment_compensate env),
        checkout_step slow ''authorize_payment'' 30000 (Some 2) (authorize_execute env) (authorize_compensate env),
        checkout_step slow ''capture_payment'' 30000 (Some 2) (capture_execute env) (capture_compensate env),
        checkout_step slow ''confirm_order'' 15000 None (confirm_execute env) (confirm_compensate env)],
      wd_timeoutMs = Some 120000, wd_retry = Some \<lparr>maxAttempts = Some 1, delayMs = None, backoffFactor = None\<rparr>\<rparr>"

section \<open>\<open>checkout\<close>\<close>

type_synonym saga_world = "(shop_world, cval) saga_state"

definition onShop :: "'a shop_act \<Rightarrow> (saga_world, 'a) act" where
  "onShop m g = (case m (sg_world g) of (r, w) \<Rightarrow> (r, g\<lparr>sg_world := w\<rparr>))"

text \<open>\<open>withLock\<close> around the whole of it.\<close>

definition saga_locked :: "string list \<Rightarrow> (saga_world, 'a) act \<Rightarrow> (saga_world, 'a) act" where
  "saga_locked parts fn = (let resource = resourceKey parts in
     bindA (onShop (inI (lock_acquire resource))) (\<lambda>token.
     if \<not> truthy_str token then
       throwA (AppException ''LOCK_NOT_ACQUIRED'' (''Could not acquire lock for '' @ in_quotes resource) 409)
     else finallyA fn (onShop (bindA (inI (lock_release resource (the token))) (\<lambda>released.
       if released then returnA ()
       else logA (''Lock for '' @ in_quotes resource @ '' was not released (expired or stolen)''))))))"

definition saga_run ::
  "(nat \<Rightarrow> int) \<Rightarrow> (shop_world, cval) workflow_definition \<Rightarrow> cval wctx \<Rightarrow> (saga_world, cval workflow_instance) act" where
  "saga_run clock d ctx = bindA (onShop random_id) (\<lambda>wid. \<lambda>g. case run_workflow clock wid d ctx g of (inst, g') \<Rightarrow> (Inr inst, g'))"

record checkout_result =
  cor_workflowId :: string
  cor_order :: "jsobj option"
  cor_paymentId :: "string option"
  cor_reservationIds :: "string list option"

definition checkout_cart :: "orders_env \<Rightarrow> string \<Rightarrow> checkout_dto \<Rightarrow> cart_full shop_act" where
  "checkout_cart env userId dto =
     bindA (if truthy_str (cod_cartId dto) then bindA (requireCart (the (cod_cartId dto)) (Some userId)) (\<lambda>c. returnA (Some c))
       else readA (findActiveByUser env userId)) (\<lambda>found. case found of
         None \<Rightarrow> throwA (AppException ''BAD_REQUEST'' ''Cart is empty'' 400)
       | Some c \<Rightarrow> bindA (throwIf (cf_items c = []) (AppException ''BAD_REQUEST'' ''Cart is empty'' 400)) (\<lambda>_. returnA c))"

definition checkout_answer :: "orders_env \<Rightarrow> string \<Rightarrow> cval workflow_instance \<Rightarrow> checkout_result shop_act" where
  "checkout_answer env userId result =
     bindA (throwIf (wi_status result \<noteq> Wf_completed)
       (AppException ''CONFLICT'' (nullish (wi_error result) ''Checkout workflow failed'') 409)) (\<lambda>_.
     bindA (readA (\<lambda>w. map_option (\<lambda>r. (r, length (items_of (or_id r) w))) (findOrder (req_str (wi_context result) ''orderId'') w))) (\<lambda>order.
     bindA (invalidateCart (''user:'' @ userId)) (\<lambda>_.
     bindA (case order of None \<Rightarrow> returnA () | Some r \<Rightarrow> invalidateOrder (or_id (fst r)) (Some userId)) (\<lambda>_.
     returnA \<lparr>cor_workflowId = wi_id result, cor_order = map_option (\<lambda>(r, n). mapOrderSummary (oe_text env) r (Some n)) order,
       cor_paymentId = ctx_str (wi_context result) ''paymentId'', cor_reservationIds = ctx_strs (wi_context result) ''reservationIds''\<rparr>))))"

definition checkout ::
  "orders_env \<Rightarrow> (nat \<Rightarrow> int) \<Rightarrow> (int \<Rightarrow> shop_world \<Rightarrow> bool) \<Rightarrow> string \<Rightarrow> checkout_dto \<Rightarrow> (saga_world, checkout_result) act" where
  "checkout env clock slow userId dto =
     saga_locked [''orders'', ''checkout'', userId]
     (bindA (onShop (checkout_cart env userId dto)) (\<lambda>cart.
      bindA (onShop (validateTenders userId dto)) (\<lambda>_.
      bindA (saga_run clock (buildDefinition env slow cart) (checkout_context userId dto cart)) (\<lambda>result.
      onShop (checkout_answer env userId result)))))"

end
