(* ===== verification/Checkout_Saga.thy ===== *)
theory Checkout_Saga
  imports Checkout Payment_Contract Inventory_Contract
begin

text \<open>
  What a checkout that settles its payment by itself has done when it returns. The saga's steps are taken
  one at a time: an invariant says what holds before step \<open>i\<close>, each step is shown to establish the next
  one, and the coordinator's theorem carries it to the end, retries and timeouts included.
\<close>

section \<open>Invariants of sagas\<close>

text \<open>
  A predicate on the context and the world before each step that a success takes to the next step and
  that a failing attempt leaves in place, where there is a second attempt.
\<close>

locale saga_invariant =
  fixes d :: "('s, 'v) workflow_definition" and Inv :: "nat \<Rightarrow> 'v wctx \<Rightarrow> 's \<Rightarrow> bool"
  assumes retried: "i < length (wd_steps d) \<Longrightarrow> 1 < pol_maxAttempts (step_policy d (wd_steps d ! i)) \<Longrightarrow> Inv i ctx w
      \<Longrightarrow> ws_execute (wd_steps d ! i) ctx ms w = (r, w') \<Longrightarrow> failed_try r \<Longrightarrow> Inv i ctx w'"
    and advanced: "i < length (wd_steps d) \<Longrightarrow> Inv i ctx w \<Longrightarrow> ws_execute (wd_steps d ! i) ctx ms w = (Resolved p, w')
      \<Longrightarrow> Inv (Suc i) (merge_patch ctx p) w'"
begin

lemma tries_Inv:
  "tries (wd_steps d ! i) ctx k w w' \<Longrightarrow> i < length (wd_steps d) \<Longrightarrow> 1 < pol_maxAttempts (step_policy d (wd_steps d ! i)) \<Longrightarrow> Inv i ctx w \<Longrightarrow> Inv i ctx w'"
  by (induction rule: tries.induct) (auto intro: retried)

lemma forward_Inv: "forward d ctx w n ctx' w' \<Longrightarrow> Inv 0 ctx w \<Longrightarrow> Inv n ctx' w'"
proof (induction rule: forward.induct)
  case (forward_step i ctx1 w1 k w2 ms p w3)
  have "Inv i ctx1 w2"
  proof (cases k)
    case 0
    then have "w2 = w1" using forward_step.hyps(3) by (auto elim: tries.cases)
    then show ?thesis using forward_step.IH forward_step.prems by simp
  next
    case (Suc m)
    then show ?thesis using tries_Inv [OF forward_step.hyps(3,2)] forward_step by simp
  qed
  then show ?case using advanced [OF forward_step.hyps(2)] forward_step.hyps(5) by simp
qed

lemma completed_Inv:
  assumes "sound_definition d" "run_workflow clock wid d ctx g = (inst, g')" "wi_status inst = Wf_completed" "Inv 0 ctx (sg_world g)"
  shows "Inv (length (wd_steps d)) (wi_context inst) (sg_world g')"
  using run_workflow_spec [OF assms(1,2)] assms(3,4) by (auto simp: stopped_def run_inv_def intro: forward_Inv)

end

section \<open>No step throws a falsy value\<close>

abbreviation honest :: "('s, 'a) act \<Rightarrow> bool" where
  "honest m \<equiv> tame (\<lambda>_. ()) m"

lemma honest_apart: "apart m \<Longrightarrow> honest m"
  by (erule tame_via) simp

lemma honest_inI: "honest m \<Longrightarrow> honest (inI m)"
  by (auto simp: tame_def inI_def split: prod.split) (metis fst_conv)

lemma honest_mapA: "(\<And>x. honest (f x)) \<Longrightarrow> honest (mapA f xs)"
  by (induction xs) (auto intro!: tame)

lemma honest_inv [tame]:
  "honest inv_now" "honest inv_uuid" "honest (inv_emit e)" "honest (lock_acquire r)" "honest (lock_release r t)" "honest (cache_del k)"
  "honest (fk_check p)" "honest (connect_check p)" "honest (int4_check n)" "honest (db_check b)"
  by (auto simp: tame_def inv_now_def inv_uuid_def inv_emit_def lock_acquire_def lock_release_def cache_del_def fk_check_def connect_check_def
      int4_check_def db_check_def bindA_def prisma_error_def)
    (metis (no_types, lifting) map_sum.simps sum.exhaust sum.inject(1) sum.distinct(1) truthy_exn_simps(3))

lemma honest_fresh_id [tame]: "honest (fresh_id ids)"
  unfolding fresh_id_def by (intro tame) (simp add: prisma_error_def)

lemma honest_withLock [tame]: "honest m \<Longrightarrow> honest (withLock r m)"
  unfolding withLock_def by (intro tame tame_modifyA) simp_all

lemma honest_stock_update [tame]: "honest (stock_update i f)"
  unfolding stock_update_def by (intro tame tame_modifyA) simp_all

lemma honest_reserve_rows [tame]: "honest (reserve_rows rows n actor)"
  by (induction rows arbitrary: n) (auto simp: Let_def intro!: tame)

lemma honest_reserve [tame]: "honest (reserve ord dto actor)"
  unfolding reserve_def reserve_body_def requireWarehouse_def createReservation_def createMovement_def maybeLowStock_def
    upsertLowStockAlert_def invalidateStock_def app_error_def Let_def
  by (intro tame tame_modifyA) simp_all

lemma honest_shop [tame]:
  "honest now" "honest random_id" "honest (logA x)" "honest (uncacheA k)" "honest math_random" "honest (emit e)" "honest (constraint c q)"
  "honest (new_id ids)"
  by (rule honest_apart, intro tame)+

lemma honest_rows [tame]:
  "honest (order_update i f)" "honest (history_create i x y note a)" "honest (cart_update i g)"
  unfolding order_update_def history_create_def cart_update_def by (intro tame tame_modifyA, simp)+

lemma honest_order_create [tame]: "honest (order_create number ctx cart)"
proof -
  have "honest (create_order_row n c cur)" "honest (create_order_item i u item)" "honest (create_order_address i u kind a)" for n c cur i u item kind a
    unfolding create_order_row_def create_order_item_def create_order_address_def Let_def
    by (auto intro!: tame tame_modifyA split: prod.split)
  then show ?thesis unfolding order_create_def Let_def by (intro tame)
qed

lemma honest_transition [tame]: "honest (transitionStatus i x y note a)"
  unfolding transitionStatus_def by (intro tame)

section \<open>The environment of a checkout that settles by itself\<close>

definition env_ok :: "orders_env \<Rightarrow> bool" where
  "env_ok env \<longleftrightarrow> autoSettlePayment env \<and> (\<exists>T hmac cfg. px_provider (oe_pay env) = RazorpayProvider T hmac cfg)
     \<and> (\<forall>rows. mset (oe_stock env rows) = mset rows) \<and> (\<forall>cs. mset (oe_carts env cs) = mset cs)"

lemma env_okD:
  assumes "env_ok env"
  obtains T hmac cfg where "px_provider (oe_pay env) = RazorpayProvider T hmac cfg" "autoSettlePayment env"
    "\<not> needsPostCaptureOrderConfirm (oe_pay env)" "row_order (oe_stock env)"
  using assms that by (fastforce simp: env_ok_def autoSettlePayment_def needsPostCaptureOrderConfirm_def row_order_def)

lemma settle_honest: "honest m \<Longrightarrow> settle slow m ms w = (Rejected e, w') \<Longrightarrow> truthy_exn e"
  by (auto simp: settle_def tame_def split: prod.splits sum.splits if_splits) (metis fst_conv)

lemma steps_honest:
  assumes "env_ok env"
  shows "honest (draft_execute env cart ctx)" "honest (reserve_execute env cart ctx)" "honest (payment_execute env ctx)"
    "honest (authorize_execute env ctx)" "honest (capture_execute env ctx)" "honest (confirm_execute env ctx)"
proof -
  obtain T hmac cfg where env: "px_provider (oe_pay env) = RazorpayProvider T hmac cfg" "\<not> needsPostCaptureOrderConfirm (oe_pay env)"
    using env_okD [OF assms] by metis
  note pay = honest_apart [OF razorpay_honest.apart_create [OF env(1)]] honest_apart [OF razorpay_honest.apart_authorize [OF env(1)]]
    honest_apart [OF razorpay_honest.apart_capture [OF env]]
  show "honest (draft_execute env cart ctx)"
    unfolding draft_execute_def nextOrderNumber_def stamp36_def by (intro tame)
  show "honest (reserve_execute env cart ctx)"
    unfolding reserve_execute_def reserve_item_def link_reservations_def Let_def by (intro tame honest_mapA honest_inI tame_modifyA) simp_all
  show "honest (payment_execute env ctx)"
    unfolding payment_execute_def createForCheckout_def Let_def by (intro tame pay) simp
  show "honest (authorize_execute env ctx)" "honest (capture_execute env ctx)"
    unfolding authorize_execute_def capture_execute_def by (intro tame pay)+
  show "honest (confirm_execute env ctx)"
    unfolding confirm_execute_def markConverted_def createRiskScore_def by (intro tame tame_modifyA) simp_all
qed

lemma checkout_sound: "env_ok env \<Longrightarrow> sound_definition (buildDefinition env slow cart)"
  unfolding sound_definition_def buildDefinition_def
  by (auto simp: checkout_step_def step_policy_def spread_retry_def DEFAULT_RETRY_def dest: settle_honest [rotated] intro: steps_honest)

section \<open>What holds before each step\<close>

text \<open>The part of the shop that the invariant speaks of.\<close>

definition goods :: "shop_world \<Rightarrow> ledger \<times> stock_row list \<times> reservation_row list" where
  "goods w = (ledger_of w, stock_part (sw_inv w))"

definition scope where
  "scope w = (goods w, sw_order_rows w, sw_order_items w, sw_cart_rows w)"

definition item_key :: "order_item_row \<Rightarrow> string \<times> int \<times> rat" where
  "item_key x = (oi_variant_id x, oi_quantity x, oi_unit_price x)"

definition cart_key :: "cart_item_row \<times> variant_row option \<Rightarrow> string \<times> int \<times> rat" where
  "cart_key i = (ci_variant_id (fst i), ci_quantity (fst i), dec2 (ci_unit_price (fst i)))"

text \<open>What the request asks for, the order row with its items, the reservations, and the payment.\<close>

definition asked :: "string \<Rightarrow> string \<Rightarrow> cart_full \<Rightarrow> cval wctx \<Rightarrow> bool" where
  "asked user wh cart ctx \<longleftrightarrow> ctx_str ctx ''userId'' = Some user \<and> ctx_str ctx ''cartId'' = Some (ca_id (cf_cart cart))
     \<and> ctx_str ctx ''warehouseId'' = Some wh \<and> ctx_num ctx ''amount'' = Some (cart_amount cart)"

definition drafted :: "string \<Rightarrow> cart_full \<Rightarrow> order_item_row list \<Rightarrow> string \<Rightarrow> string \<Rightarrow> shop_world \<Rightarrow> bool" where
  "drafted user cart items0 oid st w \<longleftrightarrow>
     (\<exists>r. find (\<lambda>r. or_id r = oid) (sw_order_rows w) = Some r \<and> or_status r = st \<and> or_customer_id r = Some user
        \<and> or_grand_total r = dec2 (cart_amount cart) \<and> or_deleted_at r = None)
     \<and> (\<exists>new. sw_order_items w = items0 @ new \<and> map item_key new = map cart_key (cf_items cart) \<and> list_all (\<lambda>x. oi_order_id x = oid) new)
     \<and> list_all (\<lambda>i. 0 < ci_quantity (fst i)) (cf_items cart)"

definition held :: "string \<Rightarrow> cart_full \<Rightarrow> string \<Rightarrow> string list \<Rightarrow> shop_world \<Rightarrow> bool" where
  "held wh cart oid rids w \<longleftrightarrow> list_all2 (\<lambda>k i. \<exists>x. findReservation k (sw_inv w) = Some x \<and> holding wh (ci_variant_id (fst i)) x
     \<and> rs_quantity x = ci_quantity (fst i) \<and> rs_order_id x = Some oid) rids (cf_items cart)"

definition billed :: "cart_full \<Rightarrow> string \<Rightarrow> string \<Rightarrow> shop_world \<Rightarrow> bool" where
  "billed cart oid pid w \<longleftrightarrow> (\<exists>p. row_at pid (sw_payments w) = Some p \<and> py_order_id p = oid \<and> py_amount p = dec2 (cart_amount cart))"

definition converted :: "cart_full \<Rightarrow> shop_world \<Rightarrow> bool" where
  "converted cart w \<longleftrightarrow> (\<exists>c. find (\<lambda>c. ca_id c = ca_id (cf_cart cart)) (sw_cart_rows w) = Some c \<and> ca_status c = ''converted'')"

definition stage :: "string \<Rightarrow> string \<Rightarrow> cart_full \<Rightarrow> order_item_row list \<Rightarrow> nat \<Rightarrow> cval wctx \<Rightarrow> string \<Rightarrow> shop_world \<Rightarrow> bool" where
  "stage user wh cart items0 i ctx oid w \<longleftrightarrow> drafted user cart items0 oid (if i < 6 then ''pending'' else ''confirmed'') w
     \<and> (2 \<le> i \<longrightarrow> (\<exists>rids. ctx_strs ctx ''reservationIds'' = Some rids \<and> held wh cart oid rids w))
     \<and> (3 \<le> i \<longrightarrow> (\<exists>pid. ctx_str ctx ''paymentId'' = Some pid \<and> billed cart oid pid w
        \<and> (5 \<le> i \<longrightarrow> status_in pid (ledger_of w) = Some ''captured'')))
     \<and> (6 \<le> i \<longrightarrow> converted cart w)"

definition checkout_inv ::
  "orders_env \<Rightarrow> string \<Rightarrow> string \<Rightarrow> cart_full \<Rightarrow> order_item_row list \<Rightarrow> nat \<Rightarrow> cval wctx \<Rightarrow> shop_world \<Rightarrow> bool" where
  "checkout_inv env user wh cart items0 i ctx w \<longleftrightarrow> env_ok env \<and> asked user wh cart ctx \<and> ledger_ok (ledger_of w) \<and> stock_ok (sw_inv w)
     \<and> (if i = 0 then sw_order_items w = items0
        else \<exists>oid. ctx_str ctx ''orderId'' = Some oid \<and> stage user wh cart items0 i ctx oid w)"

lemma scope_cong:
  assumes "scope w' = scope w"
  shows "checkout_inv env user wh cart items0 i ctx w' = checkout_inv env user wh cart items0 i ctx w"
proof -
  have "ledger_of w' = ledger_of w" "sw_payments w' = sw_payments w" "stock_part (sw_inv w') = stock_part (sw_inv w)"
    "iw_reservations (sw_inv w') = iw_reservations (sw_inv w)" "sw_order_rows w' = sw_order_rows w"
    "sw_order_items w' = sw_order_items w" "sw_cart_rows w' = sw_cart_rows w"
    using assms by (simp_all add: scope_def goods_def ledger_of_def)
  then show ?thesis using stock_ok_cong [of "sw_inv w'" "sw_inv w"]
    by (simp add: checkout_inv_def stage_def drafted_def held_def billed_def converted_def findReservation_def)
qed

definition side where
  "side w = (stock_part (sw_inv w), sw_order_rows w, sw_order_items w, sw_cart_rows w)"

lemma apart_side: "apart m \<Longrightarrow> preserves side m"
  by (rule tame_preserves, erule tame_via) (auto simp: beyond_def side_def dest: arg_cong [where f = side])

lemma scope_quiet: "apart m \<Longrightarrow> calm m \<Longrightarrow> preserves scope m"
  using apart_side [of m] by (simp add: preserves_def scope_def goods_def side_def)

section \<open>The draft order\<close>

lemmas shop_wp = wp_now wp_constraint new_id_def random_id_def

lemma create_order_row_spec:
  assumes "ctx_num ctx ''amount'' = Some a"
  shows "wp (create_order_row n ctx cur) w (\<lambda>r t. or_id r \<notin> or_id ` set (sw_order_rows w) \<and> sw_order_rows t = sw_order_rows w @ [r]
     \<and> sw_order_items t = sw_order_items w \<and> goods t = goods w \<and> or_status r = ''pending'' \<and> or_customer_id r = Some (req_str ctx ''userId'')
     \<and> or_grand_total r = dec2 a \<and> or_deleted_at r = None) (\<lambda>_ _. True)"
  by (simp add: create_order_row_def Let_def shop_wp assms goods_def ledger_of_def)

lemma create_order_items_spec:
  "wp (forA items (create_order_item oid u)) w (\<lambda>_ t. (\<exists>new. sw_order_items t = sw_order_items w @ new \<and> map item_key new = map cart_key items
       \<and> list_all (\<lambda>x. oi_order_id x = oid) new) \<and> list_all (\<lambda>i. 0 < ci_quantity (fst i)) items
     \<and> sw_order_rows t = sw_order_rows w \<and> goods t = goods w) (\<lambda>_ _. True)"
proof (induction items arbitrary: w)
  case (Cons item items)
  have one: "wp (create_order_item oid u item) w (\<lambda>_ t. (\<exists>x. sw_order_items t = sw_order_items w @ [x] \<and> item_key x = cart_key item \<and> oi_order_id x = oid)
      \<and> 0 < ci_quantity (fst item) \<and> sw_order_rows t = sw_order_rows w \<and> goods t = goods w) (\<lambda>_ _. True)"
    by (cases item) (simp add: create_order_item_def Let_def shop_wp item_ok_def item_key_def cart_key_def goods_def ledger_of_def split: option.split)
  show ?case unfolding forA.simps
  proof (rule wp_bindI [OF one], goal_cases)
    case (1 y t)
    show ?case by (rule wp_mono [OF Cons.IH [of t]]) (use 1 in auto)
  qed simp
qed simp

lemma scope_address: "preserves scope (create_order_address oid u kind a)"
  unfolding create_order_address_def
  by (intro preserves_case_option preserves_bindA preserves_modifyA scope_quiet calm tame) (simp_all add: scope_def goods_def ledger_of_def)

lemma scope_history: "preserves scope (history_create oid x y note a)"
  unfolding history_create_def
  by (intro preserves_bindA preserves_modifyA scope_quiet calm tame) (simp_all add: scope_def goods_def ledger_of_def)

lemma wp_scope_bind:
  "preserves scope m \<Longrightarrow> (\<And>x t. scope t = scope w \<Longrightarrow> wp (f x) t Q (\<lambda>_ _. True)) \<Longrightarrow> wp (bindA m f) w Q (\<lambda>_ _. True)"
  unfolding wp_bindA by (erule preserves_wpI) simp_all

lemma order_create_spec:
  assumes "ctx_num ctx ''amount'' = Some (cart_amount cart)"
  shows "wp (order_create n ctx cart) w (\<lambda>r t. drafted (req_str ctx ''userId'') cart (sw_order_items w) (or_id r) ''pending'' t \<and> goods t = goods w) (\<lambda>_ _. True)"
  unfolding order_create_def Let_def wp_transactionA
proof (rule wp_bindI [OF create_order_row_spec [OF assms]], rule wp_bindI [OF create_order_items_spec], goal_cases)
  case (1 r t x u)
  have "find (\<lambda>y. or_id y = or_id r) (rows @ [r]) = Some r" if "or_id r \<notin> or_id ` set rows" for rows
    using that by (induction rows) auto
  with 1 have u: "drafted (req_str ctx ''userId'') cart (sw_order_items w) (or_id r) ''pending'' u" "goods u = goods w"
    by (auto simp: drafted_def)
  have "drafted (req_str ctx ''userId'') cart (sw_order_items w) (or_id r) ''pending'' v \<and> goods v = goods w" if "scope v = scope u" for v
    using u that by (simp add: drafted_def scope_def)
  then show ?case by (intro wp_scope_bind scope_address scope_history) simp
qed simp_all

lemma draft_step:
  assumes "ctx_num ctx ''amount'' = Some (cart_amount cart)"
  shows "wp (draft_execute env cart ctx) w (\<lambda>p t. \<exists>oid num. p = Some [''orderId'' \<mapsto> CStr oid, ''orderNumber'' \<mapsto> CStr num]
     \<and> drafted (req_str ctx ''userId'') cart (sw_order_items w) oid ''pending'' t \<and> goods t = goods w) (\<lambda>_ _. True)"
  unfolding draft_execute_def
proof (rule wp_scope_bind, goal_cases)
  case 1
  show ?case unfolding nextOrderNumber_def stamp36_def bindA_assoc by (intro preserves_bindA scope_quiet calm tame) simp_all
next
  case (2 number t)
  show ?case
  proof (rule wp_bindI [OF order_create_spec [OF assms]], rule wp_scope_bind, goal_cases)
    case (2 r u x v)
    then have "drafted (req_str ctx ''userId'') cart (sw_order_items w) (or_id r) ''pending'' v \<and> goods v = goods w"
      using \<open>scope t = scope w\<close> by (simp add: drafted_def scope_def)
    then show ?case by simp blast
  qed (simp_all add: scope_quiet calm tame)
qed

section \<open>The reservations\<close>

definition rest where
  "rest w = (ledger_of w, sw_order_rows w, sw_order_items w, sw_cart_rows w)"

lemma rest_inI: "preserves rest (inI m)"
  by (simp add: preserves_def rest_def inI_def ledger_of_def split: prod.split)

lemma find_append_some: "find p xs = Some x \<Longrightarrow> find p (xs @ ys) = Some x"
  by (induction xs) (auto split: if_splits)

definition kept :: "string \<Rightarrow> string list \<Rightarrow> (cart_item_row \<times> variant_row option) list \<Rightarrow> inv_world \<Rightarrow> bool" where
  "kept wh rids items w \<longleftrightarrow> list_all2 (\<lambda>k i. \<exists>x. findReservation k w = Some x \<and> holding wh (ci_variant_id (fst i)) x
     \<and> rs_quantity x = ci_quantity (fst i)) rids items"

lemma kept_append: "kept wh rids items w \<Longrightarrow> iw_reservations v = iw_reservations w @ R \<Longrightarrow> kept wh rids items v"
  unfolding kept_def by (erule list_all2_mono) (auto simp: findReservation_def intro: find_append_some)

lemma reserve_item_spec:
  assumes "row_order (oe_stock env)" "stock_ok (sw_inv w)" "0 < ci_quantity (fst item)"
  shows "wp (reserve_item env ctx item) w (\<lambda>k t. kept (req_str ctx ''warehouseId'') [k] [item] (sw_inv t) \<and> stock_ok (sw_inv t)
     \<and> (\<exists>R. iw_reservations (sw_inv t) = iw_reservations (sw_inv w) @ R) \<and> rest t = rest w) (\<lambda>_ _. True)"
proof -
  let ?dto = "\<lparr>rd_warehouseId = req_str ctx ''warehouseId'', rd_variantId = ci_variant_id (fst item), rd_quantity = ci_quantity (fst item),
    rd_cartId = ctx_str ctx ''cartId'', rd_orderId = ctx_str ctx ''orderId'', rd_sessionKey = None, rd_ttlMinutes = None\<rparr>"
  let ?m = "reserve (oe_stock env) ?dto (Some (req_str ctx ''userId''))"
  have q: "0 \<le> rd_quantity ?dto" using assms(3) by simp
  have "kept (req_str ctx ''warehouseId'') [rs_id x] [item] i \<and> stock_ok i \<and> (\<exists>R. iw_reservations i = iw_reservations (sw_inv w) @ R)"
    if "?m (sw_inv w) = (Inr x, i)" for x i
  proof -
    have more: "reserved_more (rd_warehouseId ?dto) (rd_variantId ?dto) (rd_quantity ?dto) (sw_inv w) x i"
      using row_order.reserve_returned [OF assms(1,2) q that] .
    from findReservation_new [OF more] stock_ok_reserved_more [OF assms(2) more q] more show ?thesis
      by (auto simp: kept_def reserved_more_def)
  qed
  then have "wp ?m (sw_inv w) (\<lambda>x i. kept (req_str ctx ''warehouseId'') [rs_id x] [item] i \<and> stock_ok i
      \<and> (\<exists>R. iw_reservations i = iw_reservations (sw_inv w) @ R)) (\<lambda>_ _. True)"
    by (auto simp: wp_def split: prod.split sum.split)
  then show ?thesis unfolding reserve_item_def wp_bindA wp_inI wp_returnA
    by (rule wp_mono) (simp_all add: rest_def ledger_of_def)
qed

lemma reserve_items_spec:
  assumes "row_order (oe_stock env)"
  shows "stock_ok (sw_inv w) \<Longrightarrow> list_all (\<lambda>i. 0 < ci_quantity (fst i)) items \<Longrightarrow>
    wp (mapA (reserve_item env ctx) items) w (\<lambda>ks t. kept (req_str ctx ''warehouseId'') ks items (sw_inv t) \<and> stock_ok (sw_inv t)
     \<and> (\<exists>R. iw_reservations (sw_inv t) = iw_reservations (sw_inv w) @ R) \<and> rest t = rest w) (\<lambda>_ _. True)"
proof (induction items arbitrary: w)
  case Nil
  then show ?case by (simp add: kept_def)
next
  case (Cons item items)
  have q: "0 < ci_quantity (fst item)" using Cons.prems(2) by simp
  show ?case unfolding mapA.simps
  proof (rule wp_bindI [OF reserve_item_spec [OF assms Cons.prems(1) q]], goal_cases)
    case (1 k t)
    then have IH: "wp (mapA (reserve_item env ctx) items) t (\<lambda>ks u. kept (req_str ctx ''warehouseId'') ks items (sw_inv u) \<and> stock_ok (sw_inv u)
      \<and> (\<exists>R. iw_reservations (sw_inv u) = iw_reservations (sw_inv t) @ R) \<and> rest u = rest t) (\<lambda>_ _. True)"
      using Cons.IH [of t] Cons.prems(2) by simp
    show ?case
    proof (rule wp_bindI [OF IH], goal_cases)
      case (1 ks u)
      then have "kept (req_str ctx ''warehouseId'') [k] [item] (sw_inv u)"
        using \<open>kept (req_str ctx ''warehouseId'') [k] [item] (sw_inv t) \<and> _\<close> kept_append by blast
      with 1 \<open>kept (req_str ctx ''warehouseId'') [k] [item] (sw_inv t) \<and> _\<close> show ?case by (auto simp: kept_def)
    qed simp
  qed simp
qed

lemma stock_ok_relabel:
  assumes "stock_ok w" "iw_rows v = iw_rows w" "iw_reservations v = update_where p f (iw_reservations w)"
    "\<And>r. rs_id (f r) = rs_id r \<and> rs_quantity (f r) = rs_quantity r \<and> (\<forall>a b. holding a b (f r) = holding a b r)"
  shows "stock_ok v"
proof -
  let ?g = "\<lambda>r. if p r then f r else r"
  have "reserved_by a b v = reserved_by a b w" for a b
  proof -
    have "sum_list (map rs_quantity (filter (holding a b) (map ?g rs))) = sum_list (map rs_quantity (filter (holding a b) rs))" for rs
      using assms(4) by (induction rs) auto
    then show ?thesis by (simp add: reserved_by_def assms(3) update_where_def)
  qed
  moreover have "map rs_id (map ?g rs) = map rs_id rs" for rs using assms(4) by (induction rs) auto
  moreover have "\<forall>r\<in>set (iw_reservations v). 0 \<le> rs_quantity r"
    using assms(1,4) unfolding assms(3) by (auto simp: stock_ok_def update_where_def)
  ultimately show ?thesis using assms(1-3) by (simp add: stock_ok_def stock_sum_def update_where_def del: map_map)
qed

lemma link_spec:
  assumes "kept wh rids (cf_items cart) (sw_inv w)" "stock_ok (sw_inv w)"
  shows "wp (link_reservations rids (Some oid)) w (\<lambda>_ t. held wh cart oid rids t \<and> stock_ok (sw_inv t) \<and> rest t = rest w) (\<lambda>_ _. True)"
proof -
  let ?f = "\<lambda>r. r\<lparr>rs_order_id := Some oid\<rparr>" and ?p = "\<lambda>r. rs_id r \<in> set rids"
  let ?i = "(sw_inv w)\<lparr>iw_reservations := update_where ?p ?f (iw_reservations (sw_inv w))\<rparr>"
  have look: "findReservation k ?i = map_option (\<lambda>r. if ?p r then ?f r else r) (findReservation k (sw_inv w))" for k
    unfolding findReservation_def by (simp add: find_update_where)
  have "held wh cart oid rids (w\<lparr>sw_inv := ?i\<rparr>)"
    unfolding held_def
  proof (rule list.rel_mono_strong [OF assms(1) [unfolded kept_def]], goal_cases)
    case (1 k i)
    then obtain x where x: "findReservation k (sw_inv w) = Some x" "holding wh (ci_variant_id (fst i)) x" "rs_quantity x = ci_quantity (fst i)" by blast
    moreover from x(1) have "rs_id x = k" by (auto simp: findReservation_def find_Some_iff)
    ultimately show ?case using 1 by (simp add: look holding_def)
  qed
  moreover have "stock_ok ?i" by (rule stock_ok_relabel [OF assms(2)]) (auto simp: holding_def)
  ultimately show ?thesis
    by (simp add: link_reservations_def Let_def wp_constraint upd_by_def rest_def ledger_of_def)
qed

lemma reserve_step:
  assumes "row_order (oe_stock env)" "stock_ok (sw_inv w)" "list_all (\<lambda>i. 0 < ci_quantity (fst i)) (cf_items cart)" "ctx_str ctx ''orderId'' = Some oid"
  shows "wp (reserve_execute env cart ctx) w (\<lambda>p t. (\<exists>rids. p = Some [''reservationIds'' \<mapsto> CStrs rids]
     \<and> held (req_str ctx ''warehouseId'') cart oid rids t) \<and> stock_ok (sw_inv t) \<and> rest t = rest w) (\<lambda>_ _. True)"
  unfolding reserve_execute_def assms(4)
proof (rule wp_bindI [OF reserve_items_spec [OF assms(1-3)]], goal_cases)
  case (1 ks t)
  then have "kept (req_str ctx ''warehouseId'') ks (cf_items cart) (sw_inv t)" "stock_ok (sw_inv t)" "rest t = rest w" by simp_all
  then show ?case by (intro wp_bindI [OF link_spec [of "req_str ctx ''warehouseId''" ks cart t oid]]) auto
qed simp

section \<open>The payment\<close>

lemma preserves_if: "preserves f m \<Longrightarrow> preserves f n \<Longrightarrow> preserves f (if c then m else n)"
  by simp

lemma wp_calm_chain:
  assumes "calm m" "\<And>x t. wp (f x) t (\<lambda>v y. R v \<and> ledger_of y = ledger_of t) (\<lambda>_ _. True)"
  shows "wp (bindA m f) u (\<lambda>v y. R v \<and> ledger_of y = ledger_of u) (\<lambda>_ _. True)"
proof (rule wp_calm_bind [OF assms(1)])
  fix x t assume "ledger_of t = ledger_of u"
  then show "wp (f x) t (\<lambda>v y. R v \<and> ledger_of y = ledger_of u) (\<lambda>_ _. True)" using assms(2) [of x t] by simp
qed

lemma payment_create_row:
  assumes "\<And>i d. py_id (mk i d) = i"
  shows "wp (payment_create mk) w (\<lambda>p t. row_at (py_id p) (sw_payments t) = Some p \<and> (\<exists>i d. p = mk i d)) (\<lambda>_ _. True)"
proof -
  have "row_at i (ps @ [mk i d]) = Some (mk i d)" if "i \<notin> py_id ` set ps" for i d ps
    using that assms by (induction ps) auto
  then show ?thesis unfolding payment_create_def Let_def by (simp add: shop_wp assms) blast
qed

context provider_contract
begin

lemma create_payment_row:
  assumes env: "px_provider env = P"
  shows "wp (create_payment env actor dto) w (\<lambda>v t. \<exists>p. row_at (pw_id v) (sw_payments t) = Some p \<and> py_order_id p = cpd_orderId dto
     \<and> py_amount p = dec2 (cpd_amount dto)) (\<lambda>_ _. True)" (is "wp _ _ ?Q _")
proof (cases "findOrder (cpd_orderId dto) w")
  case None
  then show ?thesis by (simp add: create_payment_def wp_def bindA_def)
next
  case (Some order)
  then have oid: "or_id order = cpd_orderId dto" by (auto simp: findOrder_def find_Some_iff)
  have made: "wp (bindA (payment_create mk) f) t ?Q (\<lambda>_ _. True)"
    if mk: "\<And>i d. py_id (mk i d) = i" "\<And>i d. py_order_id (mk i d) = cpd_orderId dto \<and> py_amount (mk i d) = dec2 (cpd_amount dto)"
      and f: "\<And>p u. wp (f p) u (\<lambda>v x. pw_id v = py_id p \<and> ledger_of x = ledger_of u) (\<lambda>_ _. True)" for mk f t
  proof (rule wp_bindI [OF payment_create_row [OF mk(1)]], goal_cases)
    case (1 p u)
    then show ?case using mk(2) by (intro wp_mono [OF f]) (auto simp: ledger_of_def)
  qed simp
  have gw: "wp (case g of None \<Rightarrow> throwA e | Some x \<Rightarrow> m x) t ?Q (\<lambda>_ _. True)" if "\<And>x. wp (m x) t ?Q (\<lambda>_ _. True)" for g e t
    and m :: "gateway_row \<Rightarrow> payment_view shop_act"
    using that by (cases g) simp_all
  show ?thesis unfolding create_payment_def Let_def env
    by (rule wp_bind_readI, simp only: Some option.case,
        intro wp_calm_bind [OF preserves_if] wp_calm_bind [OF preserves_throwIf] wp_bind_readI gw
          wp_calm_bind [OF calm_withRetry [OF provider_calm(1)]] made)
      (auto simp: oid viewA_def mapPayment_def simp del: wp_bindA intro!: calm wp_calm_chain)
qed

end

text \<open>The three payment steps touch nothing but the ledger, and that by ledger steps.\<close>

lemma payment_steps_side:
  assumes "env_ok env"
  shows "preserves side (payment_execute env ctx)" "preserves side (authorize_execute env ctx)" "preserves side (capture_execute env ctx)"
proof -
  obtain T hmac cfg where env: "px_provider (oe_pay env) = RazorpayProvider T hmac cfg" "\<not> needsPostCaptureOrderConfirm (oe_pay env)"
    using env_okD [OF assms] by metis
  note pay = apart_side [OF razorpay_honest.apart_create [OF env(1)]] apart_side [OF razorpay_honest.apart_authorize [OF env(1)]]
    apart_side [OF razorpay_honest.apart_capture [OF env]]
  show "preserves side (payment_execute env ctx)" "preserves side (authorize_execute env ctx)" "preserves side (capture_execute env ctx)"
    unfolding payment_execute_def createForCheckout_def authorize_execute_def capture_execute_def Let_def
    by (intro preserves_bindA preserves_if preserves_throwIf preserves_returnA pay)+
qed

lemma payment_steps_refine:
  assumes "env_ok env" "ledger_ok (ledger_of w)"
  shows "refines False w (payment_execute env ctx)" "refines False w (authorize_execute env ctx)" "refines False w (capture_execute env ctx)"
proof -
  obtain T hmac cfg where env: "px_provider (oe_pay env) = RazorpayProvider T hmac cfg" using env_okD [OF assms(1)] by metis
  note pay = razorpay.create_refines [OF env assms(2)] razorpay.authorize_refines [OF env assms(2)] razorpay.capture_refines [OF env assms(2)]
  show "refines False w (payment_execute env ctx)"
    unfolding payment_execute_def createForCheckout_def Let_def by (intro refines_throwIf refines_then_calm pay) simp
  show "refines False w (authorize_execute env ctx)" "refines False w (capture_execute env ctx)"
    unfolding authorize_execute_def capture_execute_def by (auto simp: refines_calm intro!: refines_then_calm pay)
qed

lemma payment_step_billed:
  assumes "env_ok env" "ctx_num ctx ''amount'' = Some (cart_amount cart)"
  shows "wp (payment_execute env ctx) w (\<lambda>p t. \<exists>pid. p = Some [''paymentId'' \<mapsto> CStr pid] \<and> billed cart (req_str ctx ''orderId'') pid t) (\<lambda>_ _. True)"
proof -
  obtain T hmac cfg where env: "px_provider (oe_pay env) = RazorpayProvider T hmac cfg" using env_okD [OF assms(1)] by metis
  show ?thesis unfolding payment_execute_def createForCheckout_def Let_def assms(2) nullish_simps
    by (rule wp_calm_bind [OF preserves_throwIf], rule wp_bindI [OF razorpay.create_payment_row [OF env]]) (auto simp: billed_def)
qed

lemma capture_step_captured:
  assumes "env_ok env" "ledger_ok (ledger_of w)"
  shows "wp (capture_execute env ctx) w (\<lambda>p t. p = Some Map.empty \<and> status_in (req_str ctx ''paymentId'') (ledger_of t) = Some ''captured'') (\<lambda>_ _. True)"
proof -
  obtain T hmac cfg where env: "px_provider (oe_pay env) = RazorpayProvider T hmac cfg" "autoSettlePayment env" using env_okD [OF assms(1)] by metis
  show ?thesis unfolding capture_execute_def by (simp add: env(2) wp_mono [OF razorpay.capture_captures [OF env(1) assms(2)]])
qed

lemma authorize_step_patch: "wp (authorize_execute env ctx) w (\<lambda>p t. p = Some Map.empty) (\<lambda>_ _. True)"
  unfolding authorize_execute_def by (auto simp del: wp_bindA intro!: wp_throws)

section \<open>Confirmation\<close>

lemma transition_spec:
  assumes "find (\<lambda>r. or_id r = oid) (sw_order_rows w) = Some r"
  shows "wp (transitionStatus oid x y note a) w (\<lambda>_ t. (\<exists>q. find (\<lambda>r. or_id r = oid) (sw_order_rows t) = Some q \<and> or_status q = y
       \<and> or_customer_id q = or_customer_id r \<and> or_grand_total q = or_grand_total r \<and> or_deleted_at q = or_deleted_at r)
     \<and> sw_order_items t = sw_order_items w \<and> sw_cart_rows t = sw_cart_rows w \<and> goods t = goods w) (\<lambda>_ _. True)"
proof -
  have "or_id r = oid" using assms by (auto simp: find_Some_iff)
  then have "find (\<lambda>r. or_id r = oid) (update_where (\<lambda>r. or_id r = oid) f (sw_order_rows w)) = Some (f r)" if "\<And>x. or_id (f x) = or_id x" for f
    by (subst find_update_where) (simp_all add: assms that)
  then show ?thesis
    by (simp add: transitionStatus_def order_update_def history_create_def assms wp_now wp_constraint goods_def ledger_of_def)
qed

lemma markConverted_spec:
  "wp (markConverted (ca_id (cf_cart cart))) w (\<lambda>_ t. converted cart t \<and> sw_order_rows t = sw_order_rows w
     \<and> sw_order_items t = sw_order_items w \<and> goods t = goods w) (\<lambda>_ _. True)"
proof (cases "find (\<lambda>c. ca_id c = ca_id (cf_cart cart)) (sw_cart_rows w)")
  case None
  then show ?thesis by (simp add: markConverted_def cart_update_def)
next
  case (Some c)
  then have "ca_id c = ca_id (cf_cart cart)" by (auto simp: find_Some_iff)
  then have "find (\<lambda>c. ca_id c = ca_id (cf_cart cart)) (update_where (\<lambda>c. ca_id c = ca_id (cf_cart cart)) f (sw_cart_rows w)) = Some (f c)"
    if "\<And>x. ca_id (f x) = ca_id x" for f
    by (subst find_update_where) (simp_all add: Some that)
  with Some show ?thesis by (simp add: markConverted_def cart_update_def wp_now converted_def goods_def ledger_of_def)
qed

lemma confirm_step:
  assumes "env_ok env" "drafted user cart items0 oid ''pending'' w" "ctx_str ctx ''orderId'' = Some oid" "ctx_str ctx ''cartId'' = Some (ca_id (cf_cart cart))"
  shows "wp (confirm_execute env ctx) w (\<lambda>p t. p = Some Map.empty \<and> drafted user cart items0 oid ''confirmed'' t \<and> converted cart t \<and> goods t = goods w) (\<lambda>_ _. True)"
proof -
  from assms(2) obtain r where r: "find (\<lambda>r. or_id r = oid) (sw_order_rows w) = Some r" "or_customer_id r = Some user"
    "or_grand_total r = dec2 (cart_amount cart)" "or_deleted_at r = None" by (auto simp: drafted_def)
  have req: "req_str ctx ''orderId'' = oid" "req_str ctx ''cartId'' = ca_id (cf_cart cart)" by (simp_all add: req_str_def assms(3,4))
  have auto: "autoSettlePayment env" using assms(1) by (simp add: env_ok_def)
  have risk: "preserves scope (createRiskScore oid n l)" for n l
    unfolding createRiskScore_def
    by (intro preserves_bindA preserves_modifyA scope_quiet calm tame) (simp_all add: scope_def goods_def ledger_of_def)
  show ?thesis unfolding confirm_execute_def req
  proof (simp only: auto simp_thms if_False, rule wp_scope_bind [OF preserves_throwIf], goal_cases)
    case (1 x v)
    then have v: "find (\<lambda>r. or_id r = oid) (sw_order_rows v) = Some r" using r(1) by (simp add: scope_def)
    show ?case
    proof (rule wp_bindI [OF transition_spec [OF v]], rule wp_bindI [OF markConverted_spec], goal_cases)
      case (1 y t z u)
      then have "drafted user cart items0 oid ''confirmed'' u" "converted cart u" "goods u = goods w"
        using assms(2) r \<open>scope v = scope w\<close> by (auto simp: drafted_def scope_def)
      then have "drafted user cart items0 oid ''confirmed'' s \<and> converted cart s \<and> goods s = goods w" if "scope s = scope u" for s
        using that by (simp add: drafted_def converted_def scope_def)
      then show ?case by (intro wp_scope_bind [OF risk] wp_scope_bind [OF scope_quiet]) (simp_all add: calm tame)
    qed simp_all
  qed
qed

section \<open>The saga\<close>

lemma settleD: "settle slow m ms w = (r, t) \<Longrightarrow> snd (m w) = t \<and> (\<forall>p. r = Resolved p \<longrightarrow> m w = (Inr p, t))"
  by (auto simp: settle_def split: prod.splits sum.splits if_splits)

lemma ctx_upd [simp]:
  "ctx_str (ctx(k \<mapsto> v)) k' = (if k' = k then (case v of CStr s \<Rightarrow> Some s | _ \<Rightarrow> None) else ctx_str ctx k')"
  "ctx_num (ctx(k \<mapsto> v)) k' = (if k' = k then (case v of CNum s \<Rightarrow> Some s | _ \<Rightarrow> None) else ctx_num ctx k')"
  "ctx_strs (ctx(k \<mapsto> v)) k' = (if k' = k then (case v of CStrs s \<Rightarrow> Some s | _ \<Rightarrow> None) else ctx_strs ctx k')"
  by (simp_all add: ctx_str_def ctx_num_def ctx_strs_def split: cval.split)

lemma merge_upd [simp]: "merge_patch ctx (Some Map.empty) = ctx" "merge_patch ctx (Some [k \<mapsto> v]) = ctx(k \<mapsto> v)"
  "merge_patch ctx (Some [k \<mapsto> v, k' \<mapsto> v']) = ctx(k \<mapsto> v, k' \<mapsto> v')"
  by (simp_all add: merge_patch_def)

definition execs :: "orders_env \<Rightarrow> cart_full \<Rightarrow> (cval wctx \<Rightarrow> cval wctx option shop_act) list" where
  "execs env cart = [draft_execute env cart, reserve_execute env cart, payment_execute env, authorize_execute env, capture_execute env, confirm_execute env]"

lemma less_six: "i < (6 :: nat) \<longleftrightarrow> i \<in> {0, 1, 2, 3, 4, 5}"
  by auto

lemma build_steps:
  "length (wd_steps (buildDefinition env slow cart)) = 6"
  "i < 6 \<Longrightarrow> ws_execute (wd_steps (buildDefinition env slow cart) ! i) ctx = settle slow ((execs env cart ! i) ctx)"
  "i < 6 \<Longrightarrow> 1 < pol_maxAttempts (step_policy (buildDefinition env slow cart) (wd_steps (buildDefinition env slow cart) ! i)) \<longleftrightarrow> i = 2 \<or> i = 3 \<or> i = 4"
  unfolding less_six
  by (auto simp: buildDefinition_def checkout_step_def execs_def step_policy_def spread_retry_def DEFAULT_RETRY_def)

lemma inv_frame:
  assumes inv: "checkout_inv env user wh cart items0 i ctx w" and i: "0 < i" "i < 5"
    and side: "side w' = side w" and steps: "ledger_steps False (ledger_of w) (ledger_of w')"
  shows "checkout_inv env user wh cart items0 i ctx w'"
proof -
  have ok: "ledger_ok (ledger_of w)" using inv by (simp add: checkout_inv_def)
  have billed: "billed cart oid pid w'" if b: "billed cart oid pid w" for oid pid
    using b ledger_steps_row [OF steps ok, of pid] by (fastforce simp: billed_def ledger_of_def)
  have same: "drafted user cart items0 oid st w' = drafted user cart items0 oid st w" "held wh cart oid rids w' = held wh cart oid rids w" for oid st rids
    using side by (simp_all add: drafted_def held_def side_def findReservation_def)
  have "stage user wh cart items0 i ctx oid w'" if "stage user wh cart items0 i ctx oid w" for oid
    using that i billed unfolding stage_def same by auto
  moreover have "stock_ok (sw_inv w') = stock_ok (sw_inv w)" using side by (intro stock_ok_cong) (simp add: side_def)
  ultimately show ?thesis using inv i(1) ledger_steps_ok [OF steps ok] unfolding checkout_inv_def by auto
qed

lemma payment_exec_frame:
  assumes inv: "checkout_inv env user wh cart items0 i ctx w" and i: "i = 2 \<or> i = 3 \<or> i = 4" and m: "m = (execs env cart ! i) ctx"
  shows "checkout_inv env user wh cart items0 i ctx (snd (m w))"
proof -
  have env: "env_ok env" "ledger_ok (ledger_of w)" using inv unfolding checkout_inv_def by blast+
  have "m = payment_execute env ctx \<or> m = authorize_execute env ctx \<or> m = capture_execute env ctx"
    using i unfolding m execs_def by (elim disjE) simp_all
  then have "preserves side m \<and> refines False w m"
    using payment_steps_side [OF env(1), of ctx] payment_steps_refine [OF env, of ctx] by (elim disjE) simp_all
  then have "side (snd (m w)) = side w" "ledger_steps False (ledger_of w) (ledger_of (snd (m w)))"
    unfolding preserves_def refines_def by blast+
  moreover have "0 < i" "i < 5" using i by auto
  ultimately show ?thesis using inv_frame [OF inv] by blast
qed

text \<open>One step at a time.\<close>

lemma step_draft:
  assumes "checkout_inv env user wh cart items0 0 ctx w" "draft_execute env cart ctx w = (Inr p, t)"
  shows "checkout_inv env user wh cart items0 1 (merge_patch ctx p) t"
proof -
  have inv: "env_ok env" "asked user wh cart ctx" "ledger_ok (ledger_of w)" "stock_ok (sw_inv w)" "sw_order_items w = items0"
    using assms(1) by (simp_all add: checkout_inv_def)
  then have amount: "ctx_num ctx ''amount'' = Some (cart_amount cart)" and user: "req_str ctx ''userId'' = user" by (simp_all add: asked_def req_str_def)
  obtain oid num where p: "p = Some [''orderId'' \<mapsto> CStr oid, ''orderNumber'' \<mapsto> CStr num]" "drafted user cart items0 oid ''pending'' t" "goods t = goods w"
    using wp_Inr [OF draft_step [OF amount] assms(2)] user inv(5) by auto
  have "ledger_of t = ledger_of w" "stock_ok (sw_inv t)" using p(3) inv(4) stock_ok_cong [of "sw_inv t" "sw_inv w"] by (simp_all add: goods_def)
  then show ?thesis using inv p by (simp add: checkout_inv_def stage_def asked_def)
qed

lemma step_reserve:
  assumes "checkout_inv env user wh cart items0 1 ctx w" "reserve_execute env cart ctx w = (Inr p, t)"
  shows "checkout_inv env user wh cart items0 2 (merge_patch ctx p) t"
proof -
  from assms(1) obtain oid where inv: "env_ok env" "asked user wh cart ctx" "ledger_ok (ledger_of w)" "stock_ok (sw_inv w)"
    "ctx_str ctx ''orderId'' = Some oid" "drafted user cart items0 oid ''pending'' w" by (auto simp: checkout_inv_def stage_def)
  obtain T hmac cfg where "row_order (oe_stock env)" using env_okD [OF inv(1)] by metis
  moreover have "list_all (\<lambda>i. 0 < ci_quantity (fst i)) (cf_items cart)" using inv(6) by (simp add: drafted_def)
  ultimately obtain rids where p: "p = Some [''reservationIds'' \<mapsto> CStrs rids]" "held wh cart oid rids t" "stock_ok (sw_inv t)" "rest t = rest w"
    using wp_Inr [OF reserve_step [OF _ inv(4) _ inv(5)] assms(2)] inv(2) by (auto simp: asked_def req_str_def)
  then show ?thesis using inv by (simp add: checkout_inv_def stage_def asked_def drafted_def rest_def)
qed

lemma step_payment:
  assumes "checkout_inv env user wh cart items0 2 ctx w" "payment_execute env ctx w = (Inr p, t)"
  shows "checkout_inv env user wh cart items0 3 (merge_patch ctx p) t"
proof -
  have t: "checkout_inv env user wh cart items0 2 ctx t" using payment_exec_frame [OF assms(1)] assms(2) by (simp add: execs_def)
  then obtain oid where inv: "env_ok env" "asked user wh cart ctx" "ctx_str ctx ''orderId'' = Some oid" by (auto simp: checkout_inv_def)
  from inv(2) have amount: "ctx_num ctx ''amount'' = Some (cart_amount cart)" by (simp add: asked_def)
  obtain pid where p: "p = Some [''paymentId'' \<mapsto> CStr pid]" "billed cart oid pid t"
    using wp_Inr [OF payment_step_billed [OF inv(1) amount] assms(2)] inv(3) by (auto simp: req_str_def)
  then show ?thesis using t inv(3) by (auto simp: checkout_inv_def stage_def asked_def)
qed

lemma step_authorize:
  assumes "checkout_inv env user wh cart items0 3 ctx w" "authorize_execute env ctx w = (Inr p, t)"
  shows "checkout_inv env user wh cart items0 4 (merge_patch ctx p) t"
proof -
  have "checkout_inv env user wh cart items0 3 ctx t" using payment_exec_frame [OF assms(1)] assms(2) by (simp add: execs_def numeral_3_eq_3)
  moreover have "p = Some Map.empty" using wp_Inr [OF authorize_step_patch assms(2)] .
  ultimately show ?thesis by (simp add: checkout_inv_def stage_def)
qed

lemma step_capture:
  assumes "checkout_inv env user wh cart items0 4 ctx w" "capture_execute env ctx w = (Inr p, t)"
  shows "checkout_inv env user wh cart items0 5 (merge_patch ctx p) t"
proof -
  have t: "checkout_inv env user wh cart items0 4 ctx t" using payment_exec_frame [OF assms(1)] assms(2) by (simp add: execs_def)
  have "env_ok env" "ledger_ok (ledger_of w)" using assms(1) by (simp_all add: checkout_inv_def)
  from wp_Inr [OF capture_step_captured [OF this] assms(2)] t show ?thesis by (auto simp: checkout_inv_def stage_def req_str_def)
qed

lemma step_confirm:
  assumes "checkout_inv env user wh cart items0 5 ctx w" "confirm_execute env ctx w = (Inr p, t)"
  shows "checkout_inv env user wh cart items0 6 (merge_patch ctx p) t"
proof -
  from assms(1) obtain oid where inv: "env_ok env" "asked user wh cart ctx" "ctx_str ctx ''orderId'' = Some oid" "drafted user cart items0 oid ''pending'' w"
    "stage user wh cart items0 5 ctx oid w" by (auto simp: checkout_inv_def stage_def)
  have "ctx_str ctx ''cartId'' = Some (ca_id (cf_cart cart))" using inv(2) by (simp add: asked_def)
  note p = wp_Inr [OF confirm_step [OF inv(1,4,3) this] assms(2)]
  then have same: "ledger_of t = ledger_of w" "sw_payments t = sw_payments w" "iw_reservations (sw_inv t) = iw_reservations (sw_inv w)"
    "stock_ok (sw_inv t) = stock_ok (sw_inv w)" using stock_ok_cong [of "sw_inv t" "sw_inv w"] by (simp_all add: goods_def ledger_of_def)
  then have "held wh cart oid rids t = held wh cart oid rids w" "billed cart oid pid t = billed cart oid pid w" for rids pid
    by (simp_all add: held_def billed_def findReservation_def)
  with assms(1) inv p same show ?thesis by (simp add: checkout_inv_def stage_def)
qed

interpretation order_placement: saga_invariant "buildDefinition env slow cart" "checkout_inv env user wh cart items0"
proof
  let ?d = "buildDefinition env slow cart" and ?I = "checkout_inv env user wh cart items0"
  fix i ctx w ms r w'
  assume i: "i < length (wd_steps ?d)" and inv: "?I i ctx w" and ex: "ws_execute (wd_steps ?d ! i) ctx ms w = (r, w')"
  then have six: "i < 6" by (simp add: build_steps)
  note out = settleD [OF ex [unfolded build_steps(2) [OF six]]]
  show "?I i ctx w'" if "1 < pol_maxAttempts (step_policy ?d (wd_steps ?d ! i))"
    using payment_exec_frame [OF inv, of "(execs env cart ! i) ctx"] that out build_steps(3) [OF six] by auto
next
  let ?d = "buildDefinition env slow cart" and ?I = "checkout_inv env user wh cart items0"
  fix i ctx w ms p w'
  assume i: "i < length (wd_steps ?d)" and inv: "?I i ctx w" and ex: "ws_execute (wd_steps ?d ! i) ctx ms w = (Resolved p, w')"
  then have six: "i < 6" by (simp add: build_steps)
  have run: "(execs env cart ! i) ctx w = (Inr p, w')" using settleD [OF ex [unfolded build_steps(2) [OF six]]] by simp
  show "?I (Suc i) (merge_patch ctx p) w'"
    using six [unfolded less_six] run inv step_draft step_reserve step_payment step_authorize step_capture step_confirm
    by (elim insertE emptyE) (auto simp: execs_def numeral_2_eq_2 numeral_3_eq_3 eval_nat_numeral)
qed

section \<open>The whole request\<close>

text \<open>Actions of the shop that leave everything the theorem speaks of alone.\<close>

definition quiet :: "'a shop_act \<Rightarrow> bool" where
  "quiet m \<longleftrightarrow> apart m \<and> calm m"

definition same_shop :: "shop_world \<Rightarrow> shop_world \<Rightarrow> bool" where
  "same_shop w v \<longleftrightarrow> beyond w = beyond v \<and> ledger_of w = ledger_of v"

lemma quietD: "quiet m \<Longrightarrow> m w = (r, t) \<Longrightarrow> same_shop t w"
  unfolding quiet_def same_shop_def tame_def preserves_def by (metis snd_conv)

lemma same_shop_trans: "same_shop w v \<Longrightarrow> same_shop v u \<Longrightarrow> same_shop w u"
  by (simp add: same_shop_def)

lemma same_shop_refl: "same_shop w w"
  by (simp add: same_shop_def)

lemma same_shop_scope: "same_shop w v \<Longrightarrow> scope w = scope v"
  by (auto simp: same_shop_def scope_def goods_def beyond_def dest: arg_cong [where f = "\<lambda>w. (stock_part (sw_inv w), sw_order_rows w, sw_order_items w, sw_cart_rows w)"])

lemma same_shop_carts: "same_shop w v \<Longrightarrow> with_items w c = with_items v c"
  by (auto simp: same_shop_def with_items_def beyond_def dest: arg_cong [where f = "\<lambda>w. (sw_cart_items w, sw_variant_rows w)"])

lemma quiet_services:
  "quiet random_id" "quiet (inI (lock_acquire r))" "quiet (validateTenders user dto)" "quiet (checkout_answer env user inst)"
  "quiet (bindA (inI (lock_release r t)) (\<lambda>released. if released then returnA () else logA l))"
  unfolding quiet_def validateTenders_def checkout_answer_def invalidateCart_def invalidateOrder_def
  by (auto intro!: tame calm preserves_bindA preserves_case_option preserves_if)

lemma onShop_eq: "onShop m g = (r, g') \<longleftrightarrow> (\<exists>w. m (sg_world g) = (r, w) \<and> g' = g\<lparr>sg_world := w\<rparr>)"
  by (auto simp: onShop_def split: prod.split)

lemma saga_locked_returned:
  assumes "saga_locked parts fn g = (Inr x, g')"
  obtains g1 g2 where "fn g1 = (Inr x, g2)" "same_shop (sg_world g1) (sg_world g)" "same_shop (sg_world g') (sg_world g2)"
proof -
  from assms obtain token g1 where tok: "onShop (inI (lock_acquire (resourceKey parts))) g = (Inr token, g1)"
    and fin: "finallyA fn (onShop (bindA (inI (lock_release (resourceKey parts) (the token))) (\<lambda>released. if released then returnA ()
      else logA (''Lock for '' @ in_quotes (resourceKey parts) @ '' was not released (expired or stolen)'')))) g1 = (Inr x, g')"
    unfolding saga_locked_def Let_def bindA_eq_Inr [of "onShop (inI (lock_acquire (resourceKey parts)))"] by (auto split: if_splits)
  from fin obtain g2 where g2: "fn g1 = (Inr x, g2)" "\<exists>r. onShop (bindA (inI (lock_release (resourceKey parts) (the token))) (\<lambda>released. if released then returnA ()
      else logA (''Lock for '' @ in_quotes (resourceKey parts) @ '' was not released (expired or stolen)''))) g2 = (r, g')"
    by (auto simp: finallyA_def split: prod.splits sum.splits)
  have "same_shop (sg_world g1) (sg_world g)" using tok quietD [OF quiet_services(2)] by (auto simp: onShop_eq)
  moreover have "same_shop (sg_world g') (sg_world g2)" using g2(2) quietD [OF quiet_services(5)] by (auto simp: onShop_eq)
  ultimately show thesis using that g2(1) by blast
qed

lemma checkout_cart_returned:
  assumes "checkout_cart env user dto w = (Inr cart, t)" "env_ok env"
  shows "t = w \<and> (\<exists>c. cart = with_items w c \<and> c \<in> set (sw_cart_rows w) \<and> ca_status c = ''active'') \<and> cf_items cart \<noteq> []"
proof -
  have ord: "set (oe_carts env cs) = set cs" for cs using assms(2) by (metis env_ok_def set_mset_mset)
  have head: "head_opt (oe_carts env (filter q cs)) = Some c \<Longrightarrow> c \<in> set cs \<and> q c" for q cs c
    using ord [of "filter q cs"] by (auto simp: head_opt_def split: list.splits)
  show ?thesis using assms(1)
    by (auto simp: checkout_cart_def requireCart_def findActiveByUser_def cart_findById_def bindA_eq_Inr with_items_def find_Some_iff
      throwIf_eq_Inr dest!: head split: if_splits option.splits)
qed

lemma asked_initial: "asked user (cod_warehouseId dto) cart (checkout_context user dto cart)"
  by (simp add: asked_def checkout_context_def put_opt_def ctx_str_def ctx_num_def split: option.split)

lemma answer_returned:
  "checkout_answer env user inst w = (Inr res, t) \<Longrightarrow> wi_status inst = Wf_completed \<and> cor_workflowId res = wi_id inst
     \<and> cor_paymentId res = ctx_str (wi_context inst) ''paymentId'' \<and> cor_reservationIds res = ctx_strs (wi_context inst) ''reservationIds''
     \<and> cor_order res = map_option (\<lambda>r. mapOrderSummary (oe_text env) r (Some (length (items_of (or_id r) w))))
        (findOrder (req_str (wi_context inst) ''orderId'') w)"
  unfolding checkout_answer_def bindA_eq_Inr throwIf_eq_Inr
  by (cases "findOrder (req_str (wi_context inst) ''orderId'') w") auto

lemma saga_run_returned:
  assumes "saga_run clock d ctx g = (Inr inst, g')"
  obtains wid w where "random_id (sg_world g) = (Inr wid, w)" "run_workflow clock wid d ctx (g\<lparr>sg_world := w\<rparr>) = (inst, g')"
proof -
  from assms obtain wid w where w: "random_id (sg_world g) = (Inr wid, w)"
    "fst (run_workflow clock wid d ctx (g\<lparr>sg_world := w\<rparr>)) = inst" "snd (run_workflow clock wid d ctx (g\<lparr>sg_world := w\<rparr>)) = g'"
    unfolding saga_run_def bindA_eq_Inr onShop_eq by (auto simp: split_def)
  show thesis by (rule that [OF w(1)]) (use w(2,3) in \<open>simp add: prod_eq_iff\<close>)
qed

lemma checkout_body_returned:
  assumes "bindA (onShop m) (\<lambda>x. bindA (onShop n) (\<lambda>_. bindA (saga_run clock (d x) (ctx x)) (\<lambda>inst. onShop (k inst)))) g1 = (Inr res, g2)"
  obtains x w1 u w2 wid w3 inst g3 w4 where "m (sg_world g1) = (Inr x, w1)" "n w1 = (Inr u, w2)" "random_id w2 = (Inr wid, w3)"
    "run_workflow clock wid (d x) (ctx x) (g1\<lparr>sg_world := w3\<rparr>) = (inst, g3)" "k inst (sg_world g3) = (Inr res, w4)" "sg_world g2 = w4"
proof -
  from assms obtain x w1 u w2 inst g3 w4 where xs: "m (sg_world g1) = (Inr x, w1)" "n w1 = (Inr u, w2)"
    "saga_run clock (d x) (ctx x) (g1\<lparr>sg_world := w2\<rparr>) = (Inr inst, g3)" "k inst (sg_world g3) = (Inr res, w4)" "sg_world g2 = w4"
    unfolding bindA_eq_Inr onShop_eq by auto
  show thesis by (rule saga_run_returned [OF xs(3)]) (rule that [OF xs(1,2) _ _ xs(4,5)], simp_all)
qed

lemma checkout_returned:
  assumes "env_ok env" "ledger_ok (ledger_of (sg_world g))" "stock_ok (sw_inv (sg_world g))" "checkout env clock slow user dto g = (Inr res, g')"
  shows "\<exists>c (inst :: cval workflow_instance). c \<in> set (sw_cart_rows (sg_world g)) \<and> ca_status c = ''active'' \<and> cf_items (with_items (sg_world g) c) \<noteq> []
    \<and> checkout_inv env user (cod_warehouseId dto) (with_items (sg_world g) c) (sw_order_items (sg_world g)) 6 (wi_context inst) (sg_world g')
    \<and> cor_workflowId res = wi_id inst \<and> cor_paymentId res = ctx_str (wi_context inst) ''paymentId''
    \<and> cor_reservationIds res = ctx_strs (wi_context inst) ''reservationIds''
    \<and> cor_order res = map_option (\<lambda>r. mapOrderSummary (oe_text env) r (Some (length (items_of (or_id r) (sg_world g')))))
        (findOrder (req_str (wi_context inst) ''orderId'') (sg_world g'))"
proof -
  obtain g1 g2 where body: "bindA (onShop (checkout_cart env user dto)) (\<lambda>cart. bindA (onShop (validateTenders user dto)) (\<lambda>_.
      bindA (saga_run clock (buildDefinition env slow cart) (checkout_context user dto cart)) (\<lambda>result.
      onShop (checkout_answer env user result)))) g1 = (Inr res, g2)"
    and near: "same_shop (sg_world g1) (sg_world g)" "same_shop (sg_world g') (sg_world g2)"
    by (rule saga_locked_returned [OF assms(4) [unfolded checkout_def]])
  obtain cart w1 u w2 wid w3 inst g3 w4 where cart: "checkout_cart env user dto (sg_world g1) = (Inr cart, w1)"
    and val: "validateTenders user dto w1 = (Inr u, w2)" and wid: "random_id w2 = (Inr wid, w3)"
    and wf: "run_workflow clock wid (buildDefinition env slow cart) (checkout_context user dto cart) (g1\<lparr>sg_world := w3\<rparr>) = (inst, g3)"
    and ans: "checkout_answer env user inst (sg_world g3) = (Inr res, w4)" "sg_world g2 = w4"
    by (rule checkout_body_returned [OF body])
  note out = answer_returned [OF ans(1)]
  from checkout_cart_returned [OF cart assms(1)] obtain c where c: "w1 = sg_world g1" "cart = with_items (sg_world g1) c"
    "c \<in> set (sw_cart_rows (sg_world g1))" "ca_status c = ''active''" "cf_items cart \<noteq> []" by blast
  have w3: "same_shop w3 (sg_world g)"
    using same_shop_trans [OF quietD [OF quiet_services(1) wid] same_shop_trans [OF quietD [OF quiet_services(3) val]]] near(1) c(1) by simp
  have cart_g: "cart = with_items (sg_world g) c" using c(2) same_shop_carts [OF near(1)] by simp
  let ?I = "checkout_inv env user (cod_warehouseId dto) cart (sw_order_items (sg_world g))"
  have "scope w3 = scope (sg_world g)" by (rule same_shop_scope [OF w3])
  then have "?I 0 (checkout_context user dto cart) w3"
    using assms(1-3) stock_ok_cong [of "sw_inv w3" "sw_inv (sg_world g)"] asked_initial by (simp add: checkout_inv_def scope_def goods_def)
  then have inv: "?I 6 (wi_context inst) (sg_world g3)"
    using order_placement.completed_Inv [OF checkout_sound [OF assms(1)] wf] out by (simp add: build_steps(1))
  have g4: "same_shop w4 (sg_world g3)" by (rule quietD [OF quiet_services(4) ans(1)])
  then have "same_shop (sg_world g') (sg_world g3)" using same_shop_trans [OF near(2)] ans(2) by simp
  then have sc: "scope (sg_world g') = scope (sg_world g3)" by (rule same_shop_scope)
  from inv have fin: "?I 6 (wi_context inst) (sg_world g')" unfolding scope_cong [OF sc] .
  have look: "findOrder k (sg_world g') = findOrder k (sg_world g3)" "items_of k (sg_world g') = items_of k (sg_world g3)" for k
    using sc by (simp_all add: scope_def findOrder_def items_of_def)
  have rows: "sw_cart_rows (sg_world g1) = sw_cart_rows (sg_world g)" using same_shop_scope [OF near(1)] by (simp add: scope_def)
  show ?thesis by (rule exI [of _ c], rule exI [of _ inst]) (use out c(3-5) fin look rows in \<open>simp add: cart_g\<close>)
qed

end
