(* ===== verification/Checkout_Example.thy ===== *)
theory Checkout_Example
  imports Checkout_Saga
begin

text \<open>
  A checkout that returns, followed step by step: the store, what each of the six steps of the saga needs and
  leaves there, and the whole request. The contract of the orders module is applied to it.
\<close>

section \<open>A small store\<close>

text \<open>One customer with one item in the cart, enough stock, and everything granted.\<close>

definition demo_cart :: cart_row where
  "demo_cart = \<lparr>ca_id = ''c1'', ca_user_id = Some ''ann'', ca_session_key = None, ca_currency = ''INR'', ca_status = ''active'',
     ca_updated_at = 0, ca_deleted_at = None, ca_created_by = None\<rparr>"

definition demo_item :: cart_item_row where
  "demo_item = \<lparr>ci_id = ''ci1'', ci_cart_id = ''c1'', ci_variant_id = ''v1'', ci_quantity = 2, ci_unit_price = 50, ci_status = ''active'',
     ci_created_at = 0, ci_deleted_at = None, ci_created_by = None\<rparr>"

definition demo_variant :: variant_row where
  "demo_variant = \<lparr>va_id = ''v1'', va_sku = ''sku1'', va_sale_price = 50, va_status = ''active'', va_deleted_at = None\<rparr>"

definition demo_uuid :: "nat \<Rightarrow> string" where
  "demo_uuid n = [''a'', ''b'', ''c'', ''d'', ''e'', ''f'', ''g'', ''h'', ''i'', ''j'', ''k'', ''l'', ''m''] ! n"

definition demo_store :: shop_world where
  "demo_store = demo_shop\<lparr>sw_inv := demo_world\<lparr>iw_rows := [demo_row\<lparr>iv_reorder_level := 0\<rparr>], iw_users := [''ann''], iw_carts := [''c1''], iw_uuid := demo_uuid\<rparr>,
     sw_order_rows := [], sw_cart_rows := [demo_cart], sw_cart_items := [demo_item], sw_variant_rows := [demo_variant]\<rparr>"

definition demo_orders :: orders_env where
  "demo_orders = \<lparr>oe_pay = demo_env, oe_carts = id, oe_cart_items = id, oe_wishlist_items = id, oe_orders = id, oe_addresses = id,
     oe_history = id, oe_stock = by_available\<rparr>"

definition demo_address :: checkout_address where
  "demo_address = \<lparr>ad_fullName = ''Ann'', ad_phone = None, ad_line1 = ''l'', ad_line2 = None, ad_city = ''c'', ad_state = ''s'',
     ad_country = None, ad_postalCode = ''1'', ad_gstin = None\<rparr>"

definition demo_checkout :: checkout_dto where
  "demo_checkout = \<lparr>cod_cartId = None, cod_warehouseId = ''w1'', cod_shipping = demo_address, cod_billing = None, cod_giftCardCode = None,
     cod_walletAmount = None\<rparr>"

definition demo_saga :: "shop_world \<Rightarrow> saga_world" where
  "demo_saga w = \<lparr>sg_world = w, sg_instances = [], sg_reads = 0, sg_log = [], sg_context = None\<rparr>"

definition demo_full :: cart_full where
  "demo_full = \<lparr>cf_cart = demo_cart, cf_items = [(demo_item, Some demo_variant)]\<rparr>"

text \<open>
  The saga on this store, a step at a time: \<open>demo_at n w\<close> says what a step needs of the world, after \<open>n\<close>
  random ids.
\<close>

definition demo_at :: "nat \<Rightarrow> shop_world \<Rightarrow> bool" where
  "demo_at n w \<longleftrightarrow> iw_users (sw_inv w) = [''ann''] \<and> iw_warehouses (sw_inv w) = iw_warehouses demo_world \<and> iw_variants (sw_inv w) = [''v1'']
     \<and> iw_carts (sw_inv w) = [''c1''] \<and> iw_uuid (sw_inv w) = demo_uuid \<and> iw_uuids (sw_inv w) = n
     \<and> iw_grants (sw_inv w) = (\<lambda>_. Some ''token'') \<and> iw_unlocks (sw_inv w) = (\<lambda>_. Inr True) \<and> sw_queue w = (\<lambda>_. None)
     \<and> sw_gateways w = [demo_gateway] \<and> sw_variant_rows w = [demo_variant] \<and> sw_cart_rows w = [demo_cart] \<and> sw_risk_scores w = []"


lemma wp_math_random: "wp math_random w Q E = Q (sw_rand w (sw_rand_no w)) (w\<lparr>sw_rand_no := Suc (sw_rand_no w)\<rparr>)"
  by (simp add: math_random_def wp_def)

lemmas demo_eval = shop_wp demo_at_def demo_uuid_def


definition demo_asked :: "cval wctx \<Rightarrow> bool" where
  "demo_asked ctx \<longleftrightarrow> req_str ctx ''userId'' = ''ann'' \<and> req_str ctx ''cartId'' = ''c1'' \<and> req_str ctx ''warehouseId'' = ''w1''
     \<and> ctx_num ctx ''amount'' = Some 100 \<and> ctx_addr ctx ''shipping'' = Some (in_India demo_address) \<and> ctx_addr ctx ''billing'' = None"

definition demo_ordered :: "shop_world \<Rightarrow> bool" where
  "demo_ordered w \<longleftrightarrow> (\<exists>r. sw_order_rows w = [r] \<and> or_id r = ''b'' \<and> or_customer_id r = Some ''ann'' \<and> or_deleted_at r = None) \<and> iw_orders (sw_inv w) = [''b'']"


lemma bindA_returnA: "bindA (returnA x) f = f x"
  by (simp add: bindA_def fun_eq_iff)

definition demo_kept where
  "demo_kept w = (goods w, sw_attempts w)"

lemma demo_order_row:
  assumes "demo_at 1 w" "sw_order_rows w = []" "iw_orders (sw_inv w) = []" "demo_asked ctx"
  shows "ok (create_order_row num ctx cur) w (\<lambda>r t. or_id r = ''b'' \<and> demo_at 2 t \<and> demo_ordered t \<and> demo_kept t = demo_kept w
     \<and> sw_order_items t = sw_order_items w \<and> sw_order_addresses t = sw_order_addresses w)"
  using assms by (simp add: create_order_row_def Let_def demo_eval demo_asked_def demo_ordered_def demo_cart_def demo_world_def warehouse_ids_def
    money_fits_def dec2_def demo_kept_def goods_def ledger_of_def)

lemma demo_order_item:
  assumes "demo_at 2 w" "demo_ordered w" "sw_order_items w = []"
  shows "ok (create_order_item oid u (demo_item, Some demo_variant)) w (\<lambda>_ t. demo_at 3 t \<and> demo_ordered t \<and> demo_kept t = demo_kept w
     \<and> sw_order_addresses t = sw_order_addresses w)"
  using assms by (simp add: create_order_item_def Let_def demo_eval demo_ordered_def demo_item_def demo_variant_def item_ok_def money_fits_def
    price_fits_def int4_def dec2_def demo_kept_def goods_def ledger_of_def)

lemma demo_order_address:
  assumes "demo_at n w" "demo_ordered w" "\<forall>x\<in>set (sw_order_addresses w). oa_id x \<noteq> demo_uuid n \<and> oa_type x \<noteq> kind"
  shows "ok (create_order_address oid u kind (Some a)) w (\<lambda>_ t. demo_at (Suc n) t \<and> demo_ordered t \<and> demo_kept t = demo_kept w
     \<and> (\<exists>x. sw_order_addresses t = sw_order_addresses w @ [x] \<and> oa_id x = demo_uuid n \<and> oa_type x = kind))"
  using assms by (auto simp: create_order_address_def shop_wp demo_at_def demo_ordered_def demo_kept_def goods_def ledger_of_def list_ex_iff)

lemma demo_history:
  assumes "demo_at n w" "demo_ordered w"
  shows "ok (history_create ''b'' x y note a) w (\<lambda>_ t. demo_at n t \<and> demo_ordered t \<and> demo_kept t = demo_kept w)"
  using assms by (auto simp: history_create_def shop_wp demo_at_def demo_ordered_def demo_kept_def goods_def ledger_of_def)

lemma demo_order_create:
  assumes w: "demo_at 1 w" "sw_order_rows w = []" "iw_orders (sw_inv w) = []" "sw_order_items w = []" "sw_order_addresses w = []" and ctx: "demo_asked ctx"
  shows "ok (order_create num ctx demo_full) w (\<lambda>r t. or_id r = ''b'' \<and> demo_at 5 t \<and> demo_ordered t \<and> demo_kept t = demo_kept w)"
proof -
  have ask: "req_str ctx ''userId'' = ''ann''" "ctx_addr ctx ''shipping'' = Some (in_India demo_address)" "ctx_addr ctx ''billing'' = None"
    using ctx by (simp_all add: demo_asked_def)
  have items: "forA (cf_items demo_full) f = bindA (f (demo_item, Some demo_variant)) (\<lambda>_. returnA ())" for f :: "_ \<Rightarrow> unit shop_act"
    by (simp add: demo_full_def)
  show ?thesis unfolding order_create_def Let_def wp_transactionA ask option.case items bindA_assoc bindA_returnA
  proof (rule wp_bindI [OF demo_order_row [OF w(1-3) ctx]], goal_cases)
    case (1 r t)
    then have t: "demo_at 2 t" "demo_ordered t" "sw_order_items t = []" "sw_order_addresses t = []" "or_id r = ''b''" "demo_kept t = demo_kept w" using w by simp_all
    show ?case
    proof (rule wp_bindI [OF demo_order_item [OF t(1-3)]], goal_cases)
      case (1 x u)
      then have u: "demo_at 3 u" "demo_ordered u" "\<forall>x\<in>set (sw_order_addresses u). oa_id x \<noteq> demo_uuid 3 \<and> oa_type x \<noteq> ''shipping''" "demo_kept u = demo_kept w"
        using t by simp_all
      show ?case
      proof (rule wp_bindI [OF demo_order_address [OF u(1-3)]], goal_cases)
        case (1 y v)
        then have v: "demo_at 4 v" "demo_ordered v" "\<forall>x\<in>set (sw_order_addresses v). oa_id x \<noteq> demo_uuid 4 \<and> oa_type x \<noteq> ''billing''" "demo_kept v = demo_kept w"
          using u(4) \<open>demo_at 3 u \<and> _\<close> t(4) by (auto simp: demo_uuid_def)
        show ?case
        proof (rule wp_bindI [OF demo_order_address [OF v(1-3)]], goal_cases)
          case (1 z s)
          then have "demo_at 5 s" "demo_ordered s" "demo_kept s = demo_kept w" using v(4) by simp_all
          then show ?case unfolding t(5) by (intro wp_bindI [OF demo_history]) (simp_all add: t(5))
        qed simp
      qed simp
    qed simp
  qed simp
qed

lemma demo_draft:
  assumes "demo_at 1 w" "sw_order_rows w = []" "iw_orders (sw_inv w) = []" "sw_order_items w = []" "sw_order_addresses w = []" "demo_asked ctx"
  shows "ok (draft_execute demo_orders demo_full ctx) w (\<lambda>p t. (\<exists>num. p = Some [''orderId'' \<mapsto> CStr ''b'', ''orderNumber'' \<mapsto> CStr num])
     \<and> demo_at 5 t \<and> demo_ordered t \<and> demo_kept t = demo_kept w)"
proof -
  have "ok (nextOrderNumber T) w (\<lambda>_ t. demo_at 1 t \<and> sw_order_rows t = [] \<and> iw_orders (sw_inv t) = [] \<and> sw_order_items t = []
      \<and> sw_order_addresses t = [] \<and> demo_kept t = demo_kept w)" for T
    using assms by (simp add: nextOrderNumber_def stamp36_def wp_now wp_math_random demo_at_def demo_kept_def goods_def ledger_of_def)
  then show ?thesis unfolding draft_execute_def wp_bindA
  proof (rule wp_mono, goal_cases)
    case (1 num v)
    then show ?case using assms(6)
      by (intro wp_mono [OF demo_order_create]) (auto simp: emit_def demo_at_def demo_ordered_def demo_kept_def goods_def ledger_of_def)
  qed
qed

lemma demo_reserve_body:
  assumes "iw_rows i = [demo_row\<lparr>iv_reorder_level := 0\<rparr>]" "iw_reservations i = iw_reservations demo_world" "iw_warehouses i = iw_warehouses demo_world"
    "iw_variants i = [''v1'']" "iw_carts i = [''c1'']" "iw_orders i = [''b'']" "iw_uuid i = demo_uuid" "iw_uuids i = 5"
    "rd_warehouseId dto = ''w1''" "rd_variantId dto = ''v1''" "rd_quantity dto = 2" "rd_cartId dto = Some ''c1''" "rd_orderId dto = Some ''b''"
  shows "ok (reserve_body by_available dto a) i (\<lambda>r j. rs_id r = ''f'' \<and> iw_uuids j = 6 \<and> iw_users j = iw_users i \<and> iw_warehouses j = iw_warehouses i
    \<and> iw_variants j = iw_variants i \<and> iw_carts j = iw_carts i \<and> iw_orders j = iw_orders i \<and> iw_uuid j = iw_uuid i \<and> iw_grants j = iw_grants i
    \<and> iw_unlocks j = iw_unlocks i)"
  using assms by (simp add: reserve_body_def requireWarehouse_def findById_def findRows_def live_row_def by_available_def demo_row_def demo_world_def
    createReservation_def createMovement_def movement_def invalidateStock_def cache_del_def maybeLowStock_def demo_reservation_def warehouse_ids_def
    demo_uuid_def int4_def Let_def truthy_id_def fk_ok_def update_where_def)

lemma demo_reserved:
  assumes "demo_at 5 w" "demo_ordered w" "iw_rows (sw_inv w) = [demo_row\<lparr>iv_reorder_level := 0\<rparr>]" "iw_reservations (sw_inv w) = iw_reservations demo_world"
    "demo_asked ctx" "ctx_str ctx ''cartId'' = Some ''c1''" "ctx_str ctx ''orderId'' = Some ''b''"
  shows "ok (reserve_execute demo_orders demo_full ctx) w (\<lambda>p t. p = Some [''reservationIds'' \<mapsto> CStrs [''f'']] \<and> demo_at 6 t \<and> demo_ordered t
     \<and> sw_payments t = sw_payments w \<and> sw_attempts t = sw_attempts w)"
proof -
  let ?dto = "\<lparr>rd_warehouseId = ''w1'', rd_variantId = ''v1'', rd_quantity = 2, rd_cartId = Some ''c1'', rd_orderId = Some ''b'',
    rd_sessionKey = None, rd_ttlMinutes = None\<rparr>"
  let ?i = "(sw_inv w)\<lparr>iw_grant_no := Suc (iw_grant_no (sw_inv w))\<rparr>"
  have body: "ok (reserve_body by_available ?dto a) ?i (\<lambda>r j. rs_id r = ''f'' \<and> iw_uuids j = 6 \<and> iw_users j = [''ann''] \<and> iw_warehouses j = iw_warehouses demo_world
    \<and> iw_variants j = [''v1''] \<and> iw_carts j = [''c1''] \<and> iw_orders j = [''b''] \<and> iw_uuid j = demo_uuid \<and> iw_grants j = (\<lambda>_. Some ''token'')
    \<and> iw_unlocks j = (\<lambda>_. Inr True))" for a
    by (rule wp_mono [OF demo_reserve_body]) (use assms in \<open>simp_all add: demo_at_def demo_ordered_def\<close>)
  have "ok (reserve by_available ?dto a) (sw_inv w) (\<lambda>r j. rs_id r = ''f'' \<and> iw_uuids j = 6 \<and> iw_users j = [''ann''] \<and> iw_warehouses j = iw_warehouses demo_world
    \<and> iw_variants j = [''v1''] \<and> iw_carts j = [''c1''] \<and> iw_orders j = [''b''] \<and> iw_uuid j = demo_uuid \<and> iw_grants j = (\<lambda>_. Some ''token'')
    \<and> iw_unlocks j = (\<lambda>_. Inr True))" for a
    using assms(1) by (simp add: reserve_def withLock_def demo_at_def) (rule wp_mono [OF body], auto)
  then show ?thesis
    using assms by (simp add: reserve_execute_def reserve_item_def demo_full_def demo_item_def demo_asked_def demo_orders_def)
     (rule wp_mono, assumption, auto simp: link_reservations_def Let_def wp_constraint fk_ok_def demo_at_def demo_ordered_def)
qed

definition demo_billed :: "string \<Rightarrow> string option \<Rightarrow> shop_world \<Rightarrow> bool" where
  "demo_billed st gp w \<longleftrightarrow> (\<exists>q. sw_payments w = [q] \<and> py_id q = ''h'' \<and> py_order_id q = ''b'' \<and> py_customer_id q = Some ''ann'' \<and> py_gateway_id q = ''g1''
     \<and> py_gateway_order_id q = Some ''order_mock_g'' \<and> py_gateway_payment_id q = gp \<and> py_amount q = 100 \<and> py_refunded_amount q = 0 \<and> py_status q = st \<and> py_deleted_at q = None)"

lemma demo_amount: "dec2 100 = 100" "money_fits 100"
  by code_simp+

text \<open>In mock mode the gateway never rejects, so there is nothing to retry.\<close>

lemma withRetry_steady: "(\<And>s. \<exists>x t. m s = (Inr x, t)) \<Longrightarrow> withRetry n m = m"
proof (cases n)
  case (Suc k)
  assume steady: "\<And>s. \<exists>x t. m s = (Inr x, t)"
  have "catchA m h s = m s" for h s using steady [of s] by (auto simp: catchA_def)
  then show ?thesis by (simp add: Suc fun_eq_iff)
qed simp

lemma mock_steady: "\<exists>x t. mock_suffix s = (Inr x, t)" "\<exists>x t. random_id s = (Inr x, t)"
  by (simp_all add: mock_suffix_def random_id_def inI_def inv_uuid_def bindA_def)

lemma demo_gateway_calls:
  "withRetry n (pv_createOrder (px_provider demo_env) a c r o1) = mockOrder demo_config a c"
  "withRetry n (pv_authorize (px_provider demo_env) i a c) = rz_authorize demo_text demo_config i a c"
  "withRetry n (pv_capture (px_provider demo_env) i a c) = rz_capture demo_text demo_config i a c"
proof -
  have "\<exists>x t. mockOrder demo_config a c s = (Inr x, t)" for s
    using mock_steady(1) [of s] by (auto simp: mockOrder_def Let_def)
  then show "withRetry n (pv_createOrder (px_provider demo_env) a c r o1) = mockOrder demo_config a c"
    by (simp add: demo_env_def RazorpayProvider_def rz_createOrder_def settleLocally_def demo_config_def withRetry_steady)
  have "\<exists>x t. rz_authorize demo_text demo_config i a c s = (Inr x, t)" for s
  proof -
    obtain x t where "mock_suffix s = (Inr x, t)" using mock_steady(1) by blast
    moreover obtain y u where "random_id t = (Inr y, u)" using mock_steady(2) by blast
    ultimately show ?thesis by (simp add: rz_authorize_def settleLocally_def demo_config_def Let_def)
  qed
  then show "withRetry n (pv_authorize (px_provider demo_env) i a c) = rz_authorize demo_text demo_config i a c"
    by (simp add: demo_env_def RazorpayProvider_def withRetry_steady)
  show "withRetry n (pv_capture (px_provider demo_env) i a c) = rz_capture demo_text demo_config i a c"
    by (simp add: demo_env_def RazorpayProvider_def withRetry_steady rz_capture_def settleLocally_def demo_config_def)
qed

lemmas demo_pay = findOrder_def findPrimaryGateway_def demo_gateway_def Let_def demo_gateway_calls mock_suffix_def settleLocally_def demo_config_def
  payment_create_def createAttempt_def createAudit_def createPaymentEvent_def createTransaction_def invalidatePayment_def uncacheA_def cache_del_def emit_def logA_def
  viewA_def mapPayment_def payment_row_ok_def payment_ids_def demo_amount fk_ok_def demo_eval demo_ordered_def demo_billed_def

lemma wp_weak_cong: "m = m' \<Longrightarrow> w = w' \<Longrightarrow> wp m w Q E = wp m' w' Q E"
  by simp

lemma bindA_weak_cong: "m = m' \<Longrightarrow> bindA m f = bindA m' f"
  by simp

lemma demo_payment_made:
  assumes "demo_at 6 w" "demo_ordered w" "sw_payments w = []" "sw_attempts w = []" "demo_asked ctx" "ctx_str ctx ''orderId'' = Some ''b''"
  shows "ok (payment_execute demo_orders ctx) w (\<lambda>p t. p = Some [''paymentId'' \<mapsto> CStr ''h''] \<and> demo_at 8 t \<and> demo_ordered t \<and> demo_billed ''pending'' None t
     \<and> (\<exists>a. sw_attempts t = [a] \<and> pa_payment_id a = ''h'' \<and> pa_attempt_number a = 1 \<and> pa_deleted_at a = None))"
proof -
  obtain r where r: "sw_order_rows w = [r]" "or_id r = ''b''" "or_customer_id r = Some ''ann''" "or_deleted_at r = None" "iw_orders (sw_inv w) = [''b'']"
    using assms(2) unfolding demo_ordered_def by (elim exE conjE)
  show ?thesis using assms(1,3-) r
    by (simp add: payment_execute_def createForCheckout_def create_payment_def demo_orders_def mockOrder_def demo_asked_def req_str_def demo_pay cong: wp_weak_cong bindA_weak_cong)
qed

lemma demo_auto: "autoSettlePayment demo_orders" "oe_pay demo_orders = demo_env"
  by (simp_all add: autoSettlePayment_def demo_orders_def demo_env_def demo_config_def)

lemma demo_authorized:
  assumes "demo_at 8 w" "demo_ordered w" "demo_billed ''pending'' None w" "demo_asked ctx" "ctx_str ctx ''paymentId'' = Some ''h''"
    "sw_attempts w = [a]" "pa_payment_id a = ''h''" "pa_attempt_number a = 1" "pa_deleted_at a = None"
  shows "ok (authorize_execute demo_orders ctx) w (\<lambda>p t. p = Some Map.empty \<and> demo_at 10 t \<and> demo_ordered t \<and> demo_billed ''authorized'' (Some ''pay_mock_i'') t)"
proof -
  obtain q where q: "sw_payments w = [q]" "py_id q = ''h''" "py_order_id q = ''b''" "py_customer_id q = Some ''ann''" "py_gateway_id q = ''g1''"
     "py_gateway_order_id q = Some ''order_mock_g''" "py_gateway_payment_id q = None" "py_amount q = 100" "py_refunded_amount q = 0" "py_status q = ''pending''" "py_deleted_at q = None"
    using assms(3) unfolding demo_billed_def by (elim exE conjE)
  show ?thesis using assms(1,2,4-) q
    by (simp add: authorize_execute_def demo_auto authorize_def lockedA_def requirePayment_def findPayment_def assertCanAccess_def
      assertPaymentTransition_def allowed_payment_def ALLOWED_PAYMENT_def authorize_try_def rz_authorize_def payment_update_def update_where_def
      demo_asked_def req_str_def demo_pay nextAttemptNumber_def cong: wp_weak_cong bindA_weak_cong)
qed

lemma demo_captured:
  assumes "demo_at 10 w" "demo_ordered w" "demo_billed ''authorized'' (Some ''pay_mock_i'') w" "demo_asked ctx" "ctx_str ctx ''paymentId'' = Some ''h''"
  shows "ok (capture_execute demo_orders ctx) w (\<lambda>p t. p = Some Map.empty \<and> demo_at 10 t \<and> demo_ordered t)"
proof -
  obtain q where q: "sw_payments w = [q]" "py_id q = ''h''" "py_order_id q = ''b''" "py_customer_id q = Some ''ann''" "py_gateway_id q = ''g1''"
     "py_gateway_order_id q = Some ''order_mock_g''" "py_gateway_payment_id q = Some ''pay_mock_i''" "py_amount q = 100" "py_refunded_amount q = 0" "py_status q = ''authorized''" "py_deleted_at q = None"
    using assms(3) unfolding demo_billed_def by (elim exE conjE)
  have "\<not> needsPostCaptureOrderConfirm demo_env" by (simp add: needsPostCaptureOrderConfirm_def demo_env_def demo_config_def)
  then show ?thesis using assms(1,2,4-) q
    by (simp add: capture_execute_def demo_auto capture_def capture_checked_def capture_rest_def lockedA_def requirePayment_def findPayment_def assertCanAccess_def
      assertPaymentTransition_def allowed_payment_def ALLOWED_PAYMENT_def rz_capture_def payment_update_def update_where_def enqueue_def
      demo_asked_def req_str_def demo_pay cong: wp_weak_cong bindA_weak_cong)
qed

lemma demo_confirmed:
  assumes "demo_at 10 w" "demo_ordered w" "demo_asked ctx" "ctx_str ctx ''orderId'' = Some ''b''" "ctx_strs ctx ''reservationIds'' = Some [''f'']"
  shows "ok (confirm_execute demo_orders ctx) w (\<lambda>p t. p = Some Map.empty \<and> iw_unlocks (sw_inv t) = (\<lambda>_. Inr True))"
proof -
  obtain r where r: "sw_order_rows w = [r]" "or_id r = ''b''" "or_customer_id r = Some ''ann''" "or_deleted_at r = None" "iw_orders (sw_inv w) = [''b'']"
    using assms(2) unfolding demo_ordered_def by (elim exE conjE)
  show ?thesis using assms(1,3-) r
    by (simp add: confirm_execute_def demo_auto transitionStatus_def order_update_def history_create_def markConverted_def cart_update_def createRiskScore_def
      update_where_def demo_cart_def demo_asked_def req_str_def emit_def demo_eval cong: wp_weak_cong bindA_weak_cong)
qed

section \<open>The saga runs\<close>

lemma run_step_resolved:
  assumes "ws_execute st (wi_context inst) ms (sg_world g) = (Resolved p, w')" "ws_timeoutMs st = Some ms" "c (sg_reads g) \<le> dl"
    "pol_maxAttempts (step_policy d st) = 1 + int k"
  shows "\<exists>inst' g'. run_steps c d dl i (st # sts) inst g = run_steps c d dl (Suc i) sts inst' g' \<and> wi_context inst' = merge_patch (wi_context inst) p
     \<and> sg_world g' = w' \<and> sg_reads g' = sg_reads g + 5"
proof -
  have tries: "nat (pol_maxAttempts (step_policy d st)) = Suc k" using assms(4) by simp
  define g1 where "g1 = snd (date_now c g)"
  define inst3 g4 where d: "inst3 = fst (begin_step c i inst g1)" "g4 = snd (begin_step c i inst g1)"
  define X where "X = complete_step c i p (upd_record i (\<lambda>r. r\<lparr>sr_attempts := 1\<rparr>) inst3) (g4\<lparr>sg_world := w'\<rparr>)"
  have ex: "ws_execute st (wi_context inst3) ms (sg_world g4) = (Resolved p, w')" using assms(1) by (simp add: d g1_def)
  have now: "fst (date_now c g) \<le> dl" using assms(3) by (simp add: date_now_def)
  have "run_steps c d dl i (st # sts) inst g = run_steps c d dl (Suc i) sts (fst X) (snd X)"
    using now ex by (simp add: Let_def split_def step_timeout_def assms(2) tries withTimeout_def X_def d g1_def)
  moreover have "wi_context (fst X) = merge_patch (wi_context inst) p" "sg_world (snd X) = w'" by (simp_all add: X_def d)
  moreover have "sg_reads (snd X) = sg_reads g + 5"
    by (simp add: X_def d g1_def complete_step_def begin_step_def touch_def date_now_def store_save_def Let_def split_def)
  ultimately show ?thesis by blast
qed

lemma settle_now: "m w = (Inr p, t) \<Longrightarrow> settle (\<lambda>_ _. False) m ms w = (Resolved p, t)"
  by (simp add: settle_def)


lemma ctx_addr_upd: "ctx_addr (ctx(k \<mapsto> v)) k' = (if k' = k then (case v of CAddr s \<Rightarrow> Some s | _ \<Rightarrow> None) else ctx_addr ctx k')"
  by (simp add: ctx_addr_def split: cval.split)

lemma demo_asked_upd:
  "demo_asked ctx \<Longrightarrow> k \<notin> {''userId'', ''cartId'', ''warehouseId'', ''amount'', ''shipping'', ''billing''} \<Longrightarrow> demo_asked (ctx(k \<mapsto> v))"
  by (auto simp: demo_asked_def req_str_def ctx_addr_upd)

text \<open>Six resolved steps, within the time of the workflow, complete it.\<close>

lemma demo_run:
  assumes w: "demo_at 1 w" "sw_order_rows w = []" "iw_orders (sw_inv w) = []" "sw_order_items w = []" "sw_order_addresses w = []"
      "iw_rows (sw_inv w) = [demo_row\<lparr>iv_reorder_level := 0\<rparr>]" "iw_reservations (sw_inv w) = iw_reservations demo_world" "sw_payments w = []" "sw_attempts w = []"
    and ctx: "demo_asked ctx" "ctx_str ctx ''cartId'' = Some ''c1''"
  shows "\<exists>p1 w1 p2 w2 p3 w3 w4 w5 w6. draft_execute demo_orders demo_full ctx w = (Inr p1, w1)
    \<and> reserve_execute demo_orders demo_full (merge_patch ctx p1) w1 = (Inr p2, w2)
    \<and> payment_execute demo_orders (merge_patch (merge_patch ctx p1) p2) w2 = (Inr p3, w3)
    \<and> (let c = merge_patch (merge_patch (merge_patch ctx p1) p2) p3 in authorize_execute demo_orders c w3 = (Inr (Some Map.empty), w4)
      \<and> capture_execute demo_orders c w4 = (Inr (Some Map.empty), w5) \<and> confirm_execute demo_orders c w5 = (Inr (Some Map.empty), w6))
    \<and> iw_unlocks (sw_inv w6) = (\<lambda>_. Inr True)"
proof -
  obtain p1 w1 num where 1: "draft_execute demo_orders demo_full ctx w = (Inr p1, w1)" "p1 = Some [''orderId'' \<mapsto> CStr ''b'', ''orderNumber'' \<mapsto> CStr num]"
    "demo_at 5 w1" "demo_ordered w1" "demo_kept w1 = demo_kept w"
    using okD [OF demo_draft [OF w(1-5) ctx(1)]] by (elim exE conjE)
  define c1 where "c1 = merge_patch ctx p1"
  have c1: "demo_asked c1" "ctx_str c1 ''cartId'' = Some ''c1''" "ctx_str c1 ''orderId'' = Some ''b''"
    using ctx by (simp_all add: c1_def 1(2) demo_asked_upd)
  have g1: "iw_rows (sw_inv w1) = [demo_row\<lparr>iv_reorder_level := 0\<rparr>]" "iw_reservations (sw_inv w1) = iw_reservations demo_world" "sw_payments w1 = []" "sw_attempts w1 = []"
    using 1(5) w by (simp_all add: demo_kept_def goods_def ledger_of_def)
  obtain p2 w2 where 2: "reserve_execute demo_orders demo_full c1 w1 = (Inr p2, w2)" "p2 = Some [''reservationIds'' \<mapsto> CStrs [''f'']]"
    "demo_at 6 w2" "demo_ordered w2" "sw_payments w2 = sw_payments w1" "sw_attempts w2 = sw_attempts w1"
    using okD [OF demo_reserved [OF 1(3,4) g1(1,2) c1]] by (elim exE conjE)
  define c2 where "c2 = merge_patch c1 p2"
  have c2: "demo_asked c2" "ctx_str c2 ''orderId'' = Some ''b''" "ctx_strs c2 ''reservationIds'' = Some [''f'']"
    using c1 by (simp_all add: c2_def 2(2) demo_asked_upd)
  have e2: "sw_payments w2 = []" "sw_attempts w2 = []" using 2(5,6) g1 by simp_all
  obtain p3 w3 a where 3: "payment_execute demo_orders c2 w2 = (Inr p3, w3)" "p3 = Some [''paymentId'' \<mapsto> CStr ''h'']" "demo_at 8 w3" "demo_ordered w3"
    "demo_billed ''pending'' None w3" "sw_attempts w3 = [a]" "pa_payment_id a = ''h''" "pa_attempt_number a = 1" "pa_deleted_at a = None"
    using okD [OF demo_payment_made [OF 2(3,4) e2 c2(1,2)]] by (elim exE conjE)
  define c3 where "c3 = merge_patch c2 p3"
  have c3: "demo_asked c3" "ctx_str c3 ''paymentId'' = Some ''h''" "ctx_str c3 ''orderId'' = Some ''b''" "ctx_strs c3 ''reservationIds'' = Some [''f'']"
    using c2 by (simp_all add: c3_def 3(2) demo_asked_upd)
  obtain p4 w4 where 4: "authorize_execute demo_orders c3 w3 = (Inr p4, w4)" "p4 = Some Map.empty" "demo_at 10 w4" "demo_ordered w4"
    "demo_billed ''authorized'' (Some ''pay_mock_i'') w4"
    using okD [OF demo_authorized [OF 3(3-5) c3(1,2) 3(6-9)]] by (elim exE conjE)
  obtain p5 w5 where 5: "capture_execute demo_orders c3 w4 = (Inr p5, w5)" "p5 = Some Map.empty" "demo_at 10 w5" "demo_ordered w5"
    using okD [OF demo_captured [OF 4(3-5) c3(1,2)]] by (elim exE conjE)
  obtain p6 w6 where 6: "confirm_execute demo_orders c3 w5 = (Inr p6, w6)" "p6 = Some Map.empty" "iw_unlocks (sw_inv w6) = (\<lambda>_. Inr True)"
    using okD [OF demo_confirmed [OF 5(3,4) c3(1,3,4)]] by (elim exE conjE)
  show ?thesis using 1(1) 2(1) 3(1) 4(1,2) 5(1,2) 6 unfolding Let_def c3_def c2_def c1_def by blast
qed

lemma demo_steps:
  "wd_steps (buildDefinition demo_orders slow demo_full) =
     [checkout_step slow ''create_draft_order'' 15000 None (draft_execute demo_orders demo_full) draft_compensate,
      checkout_step slow ''reserve_inventory'' 30000 None (reserve_execute demo_orders demo_full) (reserve_compensate demo_orders),
      checkout_step slow ''create_payment'' 20000 (Some 2) (payment_execute demo_orders) (payment_compensate demo_orders),
      checkout_step slow ''authorize_payment'' 30000 (Some 2) (authorize_execute demo_orders) (authorize_compensate demo_orders),
      checkout_step slow ''capture_payment'' 30000 (Some 2) (capture_execute demo_orders) (capture_compensate demo_orders),
      checkout_step slow ''confirm_order'' 15000 None (confirm_execute demo_orders) (confirm_compensate demo_orders)]"
  by (simp add: buildDefinition_def)


lemma demo_attempts:
  "pol_maxAttempts (step_policy (buildDefinition demo_orders slow demo_full) (checkout_step slow name ms None e u)) = 1 + int 0"
  "pol_maxAttempts (step_policy (buildDefinition demo_orders slow demo_full) (checkout_step slow name ms (Some 2) e u)) = 1 + int 1"
  by (simp_all add: step_policy_def buildDefinition_def checkout_step_def spread_retry_def DEFAULT_RETRY_def)

text \<open>Steps that all resolve at the first attempt, within the time of the workflow, run to the end.\<close>

primrec walks where
  "walks d [] ctx w ctx' w' \<longleftrightarrow> ctx' = ctx \<and> w' = w"
| "walks d (st # sts) ctx w ctx' w' \<longleftrightarrow> (\<exists>ms p u k. ws_timeoutMs st = Some ms \<and> ws_execute st ctx ms w = (Resolved p, u)
     \<and> pol_maxAttempts (step_policy d st) = 1 + int k \<and> walks d sts (merge_patch ctx p) u ctx' w')"

lemma run_steps_walks:
  assumes "walks d sts (wi_context inst) (sg_world g) ctx' w'" "\<forall>n \<le> sg_reads g + 5 * length sts. c n \<le> dl"
  shows "\<exists>inst' g'. run_steps c d dl i sts inst g = (True, inst', g') \<and> wi_context inst' = ctx' \<and> sg_world g' = w'"
  using assms
proof (induction sts arbitrary: inst g i)
  case (Cons st sts)
  then obtain ms p u k where st: "ws_timeoutMs st = Some ms" "ws_execute st (wi_context inst) ms (sg_world g) = (Resolved p, u)"
    "pol_maxAttempts (step_policy d st) = 1 + int k" "walks d sts (merge_patch (wi_context inst) p) u ctx' w'" by auto
  obtain inst1 g1 where 1: "run_steps c d dl i (st # sts) inst g = run_steps c d dl (Suc i) sts inst1 g1"
    "wi_context inst1 = merge_patch (wi_context inst) p" "sg_world g1 = u" "sg_reads g1 = sg_reads g + 5"
    using run_step_resolved [OF st(2,1) _ st(3)] Cons.prems(2) by (metis le_add1)
  show ?case unfolding 1(1) by (rule Cons.IH) (use st(4) 1 Cons.prems(2) in simp_all)
qed simp

lemma run_workflow_walks:
  assumes "walks d (wd_steps d) ctx (sg_world g) ctx' w'" "wd_timeoutMs d = Some ms" "int (sg_reads g + 2 + 5 * length (wd_steps d)) \<le> ms"
  shows "\<exists>inst g'. run_workflow int wid d ctx g = (inst, g') \<and> wi_status inst = Wf_completed \<and> sg_world g' = w'"
proof -
  define g4 where "g4 = snd (date_now int (store_save (initial_instance wid d ctx (int (sg_reads g)))
    ((snd (date_now int g))\<lparr>sg_context := map_option (\<lambda>c. c(''workflowId'' \<mapsto> wid)) (sg_context (snd (date_now int g)))\<rparr>)))"
  have g4: "sg_world g4 = sg_world g" "sg_reads g4 = sg_reads g + 2"
    by (simp_all add: g4_def date_now_def store_save_def)
  have "\<exists>inst' g'. run_steps int d (1 + (ms + int (sg_reads g))) 0 (wd_steps d) (initial_instance wid d ctx (int (sg_reads g))) g4 = (True, inst', g')
    \<and> wi_context inst' = ctx' \<and> sg_world g' = w'"
    by (rule run_steps_walks) (use assms g4 in \<open>auto simp: initial_instance_def\<close>)
  then obtain inst' g' where run: "run_steps int d (1 + (ms + int (sg_reads g))) 0 (wd_steps d) (initial_instance wid d ctx (int (sg_reads g))) g4 = (True, inst', g')"
    "sg_world g' = w'" by blast
  have "fst (date_now int g) = int (sg_reads g)" "\<And>h. fst (date_now int h) = int (sg_reads h)"
    "sg_reads (store_save (initial_instance wid d ctx (int (sg_reads g)))
    ((snd (date_now int g))\<lparr>sg_context := map_option (\<lambda>c. c(''workflowId'' \<mapsto> wid)) (sg_context (snd (date_now int g)))\<rparr>)) = sg_reads g + 1"
    by (simp_all add: date_now_def store_save_def)
  note now = this
  show ?thesis using run unfolding run_workflow_def
    by (simp add: Let_def split_def now g4_def [symmetric] assms(2) add.commute add.left_commute)
      (simp add: touch_def store_save_def Let_def split_def)
qed

lemma merge_patch_nothing: "merge_patch ctx (Some Map.empty) = ctx"
  by (simp add: merge_patch_def)

lemma demo_walks:
  assumes w: "demo_at 1 w" "sw_order_rows w = []" "iw_orders (sw_inv w) = []" "sw_order_items w = []" "sw_order_addresses w = []"
      "iw_rows (sw_inv w) = [demo_row\<lparr>iv_reorder_level := 0\<rparr>]" "iw_reservations (sw_inv w) = iw_reservations demo_world" "sw_payments w = []" "sw_attempts w = []"
    and ctx: "demo_asked ctx" "ctx_str ctx ''cartId'' = Some ''c1''"
  shows "\<exists>ctx' w'. walks (buildDefinition demo_orders (\<lambda>_ _. False) demo_full) (wd_steps (buildDefinition demo_orders (\<lambda>_ _. False) demo_full)) ctx w ctx' w'
     \<and> iw_unlocks (sw_inv w') = (\<lambda>_. Inr True)"
proof -
  have step: "walks d (checkout_step (\<lambda>_ _. False) name ms attempts execute undo # sts) c v c' v'"
    if "execute c v = (Inr p, u)" "pol_maxAttempts (step_policy d (checkout_step (\<lambda>_ _. False) name ms attempts execute undo)) = 1 + int k"
      "walks d sts (merge_patch c p) u c' v'" for d name ms attempts execute undo sts c v c' v' p u k
  proof -
    have "ws_timeoutMs (checkout_step (\<lambda>_ _. False) name ms attempts execute undo) = Some ms"
      "ws_execute (checkout_step (\<lambda>_ _. False) name ms attempts execute undo) c ms v = (Resolved p, u)"
      using that(1) by (simp_all add: checkout_step_def settle_now)
    then show ?thesis using that(2,3) unfolding walks.simps by blast
  qed
  from demo_run [OF w ctx] show ?thesis unfolding Let_def demo_steps
    apply (elim exE conjE)
    apply (rule exI)+
    apply (rule conjI)
     apply ((rule step, assumption, rule demo_attempts, (simp only: merge_patch_nothing)?)+)
     apply (rule walks.simps(1) [THEN iffD2], rule conjI [OF refl refl])
    apply assumption
    done
qed

section \<open>The checkout returns\<close>

lemma demo_context:
  "demo_asked (checkout_context ''ann'' demo_checkout demo_full)" "ctx_str (checkout_context ''ann'' demo_checkout demo_full) ''cartId'' = Some ''c1''"
  by (simp_all (no_asm) add: checkout_context_def demo_asked_def demo_checkout_def demo_full_def demo_cart_def demo_item_def put_opt_def cart_amount_def req_str_def
    ctx_addr_upd) (simp add: ctx_addr_def)

lemma demo_cart_found:
  assumes "sw_cart_rows w = [demo_cart]" "sw_cart_items w = [demo_item]" "sw_variant_rows w = [demo_variant]"
  shows "checkout_cart demo_orders ''ann'' demo_checkout w = (Inr demo_full, w)"
  using assms by (simp add: checkout_cart_def demo_checkout_def findActiveByUser_def demo_orders_def with_items_def demo_full_def demo_cart_def demo_item_def
    demo_variant_def bindA_def readA_def returnA_def throwIf_def head_opt_def)

lemma demo_tenders: "validateTenders ''ann'' demo_checkout w = (Inr (), w)"
  by (simp add: validateTenders_def demo_checkout_def bindA_def returnA_def)

lemma checkout_answers:
  assumes "wi_status inst = Wf_completed" "iw_unlocks (sw_inv w) = (\<lambda>_. Inr True)"
  shows "\<exists>res t. checkout_answer env user inst w = (Inr res, t) \<and> iw_unlocks (sw_inv t) = (\<lambda>_. Inr True)"
proof -
  have "ok (checkout_answer env user inst) w (\<lambda>_ t. iw_unlocks (sw_inv t) = (\<lambda>_. Inr True))"
    using assms by (auto simp: checkout_answer_def invalidateCart_def invalidateOrder_def uncacheA_def cache_del_def split: option.split)
  then show ?thesis by (rule okD)
qed

lemma saga_unlocked:
  assumes "iw_grants (sw_inv (sg_world g)) = (\<lambda>_. Some ''token'')"
    "fn (g\<lparr>sg_world := (sg_world g)\<lparr>sw_inv := (sw_inv (sg_world g))\<lparr>iw_grant_no := Suc (iw_grant_no (sw_inv (sg_world g)))\<rparr>\<rparr>\<rparr>) = (Inr res, g')"
    "iw_unlocks (sw_inv (sg_world g')) = (\<lambda>_. Inr True)"
  shows "\<exists>g''. saga_locked parts fn g = (Inr res, g'')"
  using assms by (simp add: saga_locked_def Let_def bindA_def onShop_def inI_def lock_acquire_def lock_release_def finallyA_def returnA_def truthy_str_def)

lemma demo_returns: "\<exists>res g'. checkout demo_orders int (\<lambda>_ _. False) ''ann'' demo_checkout (demo_saga demo_store) = (Inr res, g')"
proof -
  let ?ctx = "checkout_context ''ann'' demo_checkout demo_full" and ?d = "buildDefinition demo_orders (\<lambda>_ _. False) demo_full"
  define w0 where "w0 = demo_store\<lparr>sw_inv := (sw_inv demo_store)\<lparr>iw_grant_no := 1\<rparr>\<rparr>"
  define w1 where "w1 = w0\<lparr>sw_inv := (sw_inv w0)\<lparr>iw_uuids := 1\<rparr>\<rparr>"
  let ?g0 = "(demo_saga demo_store)\<lparr>sg_world := w0\<rparr>"
  let ?g1 = "(demo_saga demo_store)\<lparr>sg_world := w1\<rparr>"
  note store = demo_store_def demo_shop_def demo_inv_def demo_world_def
  have id: "random_id w0 = (Inr ''a'', w1)"
    by (simp add: random_id_def inI_def inv_uuid_def w1_def w0_def store demo_uuid_def)
  have "\<exists>ctx' w'. walks ?d (wd_steps ?d) ?ctx w1 ctx' w' \<and> iw_unlocks (sw_inv w') = (\<lambda>_. Inr True)"
    by (rule demo_walks) (simp_all add: demo_context w1_def w0_def store demo_at_def)
  then obtain ctx' w' where walk: "walks ?d (wd_steps ?d) ?ctx (sg_world ?g1) ctx' w'" "iw_unlocks (sw_inv w') = (\<lambda>_. Inr True)" by auto
  obtain inst g2 where run: "run_workflow int ''a'' ?d ?ctx ?g1 = (inst, g2)" "wi_status inst = Wf_completed" "sg_world g2 = w'"
    using run_workflow_walks [OF walk(1), of 120000 "''a''"] by (auto simp: buildDefinition_def demo_saga_def)
  obtain res t where ans: "checkout_answer demo_orders ''ann'' inst w' = (Inr res, t)" "iw_unlocks (sw_inv t) = (\<lambda>_. Inr True)"
    using checkout_answers [OF run(2) walk(2)] by blast
  have cart: "checkout_cart demo_orders ''ann'' demo_checkout w0 = (Inr demo_full, w0)"
    by (rule demo_cart_found) (simp_all add: w0_def store)
  have body: "bindA (onShop (checkout_cart demo_orders ''ann'' demo_checkout)) (\<lambda>cart.
      bindA (onShop (validateTenders ''ann'' demo_checkout)) (\<lambda>_.
      bindA (saga_run int (buildDefinition demo_orders (\<lambda>_ _. False) cart) (checkout_context ''ann'' demo_checkout cart)) (\<lambda>result.
      onShop (checkout_answer demo_orders ''ann'' result)))) ?g0 = (Inr res, g2\<lparr>sg_world := t\<rparr>)"
    using run ans(1) by (simp add: bindA_def onShop_def saga_run_def cart demo_tenders id)
  have g0: "(demo_saga demo_store)\<lparr>sg_world := (sg_world (demo_saga demo_store))\<lparr>sw_inv := (sw_inv (sg_world (demo_saga demo_store)))
      \<lparr>iw_grant_no := Suc (iw_grant_no (sw_inv (sg_world (demo_saga demo_store))))\<rparr>\<rparr>\<rparr> = ?g0"
    "iw_grants (sw_inv (sg_world (demo_saga demo_store))) = (\<lambda>_. Some ''token'')"
    by (simp_all add: demo_saga_def w0_def store)
  show ?thesis unfolding checkout_def
    by (rule exI, rule saga_unlocked [OF g0(2), unfolded g0(1)], rule body) (simp add: ans(2))
qed

end
