(* ===== verification/Checkout_Contract.thy ===== *)
theory Checkout_Contract
  imports Checkout_Example
begin

text \<open>
  The orders module as its customers see it: what a checkout that returns has done, and what one that fails
  or is cancelled leaves behind.
\<close>

section \<open>Orders placed\<close>

lemma find_both: "find P xs = Some x \<Longrightarrow> Q x \<Longrightarrow> find (\<lambda>y. P y \<and> Q y) xs = Some x"
  by (induction xs) (auto split: if_splits)

text \<open>
  C1: a checkout that returns has placed the order it was asked for, where the shop settles payments by itself
  (mock mode or server capture). There was an active cart of the shop with items; the order row is confirmed, belongs to the customer and its
  total is the cart's; the order items are those of the cart, with their quantities and prices, and belong to the order; the payment in
  the answer is captured, for that order and that total; the reservations in the answer are active and hold each item's
  quantity in the warehouse of the request for that order; the cart is converted. Retries, slow steps and whatever gateway,
  queue, locks and clock answer are included.
\<close>

theorem checkout_completes_order:
  assumes "autoSettlePayment env" "px_provider (oe_pay env) = RazorpayProvider T hmac cfg"
    "\<And>rows. mset (oe_stock env rows) = mset rows" "\<And>cs. mset (oe_carts env cs) = mset cs"
    "ledger_ok (ledger_of (sg_world g))" "stock_ok (sw_inv (sg_world g))" "checkout env clock slow user dto g = (Inr res, g')"
  shows "\<exists>c cart order new pid p rids. c \<in> set (sw_cart_rows (sg_world g)) \<and> ca_status c = ''active'' \<and> cart = with_items (sg_world g) c \<and> cf_items cart \<noteq> []
    \<and> find (\<lambda>r. or_id r = or_id order) (sw_order_rows (sg_world g')) = Some order \<and> or_status order = ''confirmed'' \<and> or_customer_id order = Some user
    \<and> or_grand_total order = dec2 (cart_amount cart)
    \<and> sw_order_items (sg_world g') = sw_order_items (sg_world g) @ new \<and> map item_key new = map cart_key (cf_items cart) \<and> (\<forall>x\<in>set new. oi_order_id x = or_id order)
    \<and> cor_paymentId res = Some pid \<and> row_at pid (sw_payments (sg_world g')) = Some p \<and> py_status p = ''captured'' \<and> py_order_id p = or_id order
    \<and> py_amount p = or_grand_total order
    \<and> cor_reservationIds res = Some rids \<and> list_all2 (\<lambda>k i. \<exists>x. findReservation k (sw_inv (sg_world g')) = Some x \<and> rs_status x = ''active''
        \<and> rs_warehouse_id x = cod_warehouseId dto \<and> rs_variant_id x = ci_variant_id (fst i) \<and> rs_quantity x = ci_quantity (fst i)
        \<and> rs_order_id x = Some (or_id order)) rids (cf_items cart)
    \<and> (\<exists>off. find (\<lambda>x. ca_id x = ca_id c) (sw_cart_rows (sg_world g')) = Some off \<and> ca_status off = ''converted'')
    \<and> cor_order res = Some (mapOrderSummary (oe_text env) order (Some (length (items_of (or_id order) (sg_world g')))))
    \<and> stock_ok (sw_inv (sg_world g')) \<and> ledger_ok (ledger_of (sg_world g'))"
proof -
  have env: "env_ok env" using assms(1-4) by (auto simp: env_ok_def)
  obtain c and inst :: "cval workflow_instance" where c: "c \<in> set (sw_cart_rows (sg_world g))" "ca_status c = ''active''" "cf_items (with_items (sg_world g) c) \<noteq> []"
    and inv: "checkout_inv env user (cod_warehouseId dto) (with_items (sg_world g) c) (sw_order_items (sg_world g)) 6 (wi_context inst) (sg_world g')"
    and res: "cor_paymentId res = ctx_str (wi_context inst) ''paymentId''" "cor_reservationIds res = ctx_strs (wi_context inst) ''reservationIds''"
    "cor_order res = map_option (\<lambda>r. mapOrderSummary (oe_text env) r (Some (length (items_of (or_id r) (sg_world g')))))
        (findOrder (req_str (wi_context inst) ''orderId'') (sg_world g'))"
    using checkout_returned [OF env assms(5-7)] by (elim exE conjE)
  from inv obtain oid where oid: "ctx_str (wi_context inst) ''orderId'' = Some oid"
    and st: "stage user (cod_warehouseId dto) (with_items (sg_world g) c) (sw_order_items (sg_world g)) 6 (wi_context inst) oid (sg_world g')"
    and ok: "stock_ok (sw_inv (sg_world g'))" "ledger_ok (ledger_of (sg_world g'))"
    by (auto simp: checkout_inv_def)
  from st obtain r new where r: "find (\<lambda>r. or_id r = oid) (sw_order_rows (sg_world g')) = Some r" "or_status r = ''confirmed''" "or_customer_id r = Some user"
      "or_grand_total r = dec2 (cart_amount (with_items (sg_world g) c))" "or_deleted_at r = None"
    and new: "sw_order_items (sg_world g') = sw_order_items (sg_world g) @ new" "map item_key new = map cart_key (cf_items (with_items (sg_world g) c))"
      "list_all (\<lambda>x. oi_order_id x = oid) new"
    by (auto simp: stage_def drafted_def)
  have id: "or_id r = oid" using r(1) by (auto simp: find_Some_iff)
  from st obtain rids where rids: "ctx_strs (wi_context inst) ''reservationIds'' = Some rids" "held (cod_warehouseId dto) (with_items (sg_world g) c) oid rids (sg_world g')"
    by (auto simp: stage_def)
  from st obtain pid p where p: "ctx_str (wi_context inst) ''paymentId'' = Some pid" "row_at pid (sw_payments (sg_world g')) = Some p" "py_status p = ''captured''"
      "py_order_id p = oid" "py_amount p = dec2 (cart_amount (with_items (sg_world g) c))"
    by (auto simp: stage_def billed_def status_in_def ledger_of_def)
  from st obtain c' where c': "find (\<lambda>x. ca_id x = ca_id c) (sw_cart_rows (sg_world g')) = Some c'" "ca_status c' = ''converted''"
    by (auto simp: stage_def converted_def with_items_def)
  have order: "findOrder oid (sg_world g') = Some r" using find_both [OF r(1), of "\<lambda>x. or_deleted_at x = None"] r(5) by (simp add: findOrder_def)
  have res_rows: "list_all2 (\<lambda>k i. \<exists>x. findReservation k (sw_inv (sg_world g')) = Some x \<and> rs_status x = ''active''
        \<and> rs_warehouse_id x = cod_warehouseId dto \<and> rs_variant_id x = ci_variant_id (fst i) \<and> rs_quantity x = ci_quantity (fst i)
        \<and> rs_order_id x = Some (or_id r)) rids (cf_items (with_items (sg_world g) c))"
    using rids(2) unfolding held_def id by (rule list_all2_mono) (auto simp: holding_def)
  show ?thesis
    by (rule exI [of _ c], rule exI [of _ "with_items (sg_world g) c"], rule exI [of _ r], rule exI [of _ new], rule exI [of _ pid], rule exI [of _ p],
        rule exI [of _ rids]) (use c r new p c' ok res oid order rids(1) res_rows in \<open>simp add: id list_all_iff req_str_def\<close>)
qed

lemma demo_store_ok: "ledger_ok (ledger_of (sg_world (demo_saga demo_store)))" "stock_ok (sw_inv (sg_world (demo_saga demo_store)))"
  by (simp_all add: demo_saga_def demo_store_def demo_shop_def ledger_ok_def ledger_of_def,
      simp_all add: stock_ok_def nonneg_rows_def demo_world_def demo_row_def demo_reservation_def reserved_by_def stock_sum_def holding_def live_row_def)

theorem checkout_completes_order_witness:
  "\<exists>res g' order pid p. checkout demo_orders int (\<lambda>_ _. False) ''ann'' demo_checkout (demo_saga demo_store) = (Inr res, g')
     \<and> find (\<lambda>r. or_id r = or_id order) (sw_order_rows (sg_world g')) = Some order \<and> or_status order = ''confirmed'' \<and> or_grand_total order = 100
     \<and> cor_paymentId res = Some pid \<and> row_at pid (sw_payments (sg_world g')) = Some p \<and> py_status p = ''captured'' \<and> py_amount p = 100"
proof -
  obtain res g' where run: "checkout demo_orders int (\<lambda>_ _. False) ''ann'' demo_checkout (demo_saga demo_store) = (Inr res, g')"
    using demo_returns by blast
  have env: "px_provider (oe_pay demo_orders) = RazorpayProvider demo_text (\<lambda>_ _. ''h'') demo_config"
    "\<And>rows. mset (oe_stock demo_orders rows) = mset rows" "\<And>cs. mset (oe_carts demo_orders cs) = mset cs"
    by (simp_all add: demo_auto demo_provider) (simp_all add: demo_orders_def by_available_mset)
  have cart: "dec2 (cart_amount (with_items demo_store demo_cart)) = 100" "sw_cart_rows demo_store = [demo_cart]"
    by code_simp (simp add: demo_store_def)
  show ?thesis using checkout_completes_order [OF demo_auto(1) env demo_store_ok run] run cart unfolding demo_saga_def by auto
qed

section \<open>Orders cancelled\<close>

lemma find_by_key: "distinct (map k xs) \<Longrightarrow> x \<in> set xs \<Longrightarrow> P x \<Longrightarrow> find (\<lambda>y. k y = k x \<and> P y) xs = Some x"
  by (induction xs) (auto simp: image_iff)

text \<open>The reservations of an order are released one by one; their quantities go back to the shelf.\<close>

definition freed :: "reservation_row list \<Rightarrow> string \<Rightarrow> shop_world \<Rightarrow> shop_world \<Rightarrow> bool" where
  "freed rs user w t \<longleftrightarrow> stock_ok (sw_inv t) \<and> rest t = rest w
     \<and> iw_reservations (sw_inv t) = map (\<lambda>r. if rs_id r \<in> rs_id ` set rs then mark_released (Some user) r else r) (iw_reservations (sw_inv w))
     \<and> (\<forall>a b. stock_sum iv_available a b (sw_inv t) = stock_sum iv_available a b (sw_inv w) + sum_list (map rs_quantity (filter (holding a b) rs)))"

lemma mark_released_simps [simp]: "rs_id (mark_released u r) = rs_id r" "rs_status (mark_released u r) = ''released''"
  "mark_released u (mark_released u r) = mark_released u r"
  by (simp_all add: mark_released_def upd_by_def split: option.split)

lemma freed_trans:
  assumes "freed [r] user w v" "freed rs user v t"
  shows "freed (r # rs) user w t"
  using assms by (auto simp: freed_def)

lemma release_step:
  assumes "row_order ord" "stock_ok (sw_inv w)" "r \<in> set (iw_reservations (sw_inv w))" "rs_status r = ''active''" "rs_deleted_at r = None"
  shows "wp (inI (releaseReservation ord (rs_id r) (Some user))) w (\<lambda>_ t. freed [r] user w t) (\<lambda>_ _. True)"
proof -
  have "distinct (map rs_id (iw_reservations (sw_inv w)))" using assms(2) by (simp add: stock_ok_def)
  then have found: "findReservation (rs_id r) (sw_inv w) = Some r"
    unfolding findReservation_def by (rule find_by_key) (use assms in auto)
  show ?thesis unfolding wp_inI
    by (rule wp_mono [OF row_order.wp_releaseReservation [OF assms(1,2)]])
      (auto simp: found freed_def released_less_def moved_def holding_def assms rest_def ledger_of_def update_where_def)
qed

lemma release_all_spec:
  assumes "row_order (oe_stock env)"
  shows "stock_ok (sw_inv w) \<Longrightarrow> set rs \<subseteq> set (iw_reservations (sw_inv w)) \<Longrightarrow> distinct (map rs_id rs)
    \<Longrightarrow> \<forall>r\<in>set rs. rs_status r = ''active'' \<and> rs_deleted_at r = None
    \<Longrightarrow> wp (release_all env rs user) w (\<lambda>_ t. freed rs user w t) (\<lambda>_ _. True)"
  unfolding release_all_def
proof (induction rs arbitrary: w)
  case Nil
  then show ?case by (simp add: freed_def)
next
  case (Cons r rs)
  have "wp (inI (releaseReservation (oe_stock env) (rs_id r) (Some user))) w (\<lambda>_ t. freed [r] user w t) (\<lambda>_ _. True)"
    by (rule release_step [OF assms Cons.prems(1)]) (use Cons.prems in auto)
  then show ?case unfolding forA.simps bindA_assoc bindA_returnA
  proof (rule wp_bindI, goal_cases)
    case (1 x v)
    then have fr: "freed [r] user w v" by simp
    have "x \<in> set (iw_reservations (sw_inv v))" if "x \<in> set rs" for x
    proof -
      have "rs_id r \<notin> rs_id ` set rs" using Cons.prems(3) by simp
      then have "rs_id x \<noteq> rs_id r" using that by (metis imageI)
      moreover have "x \<in> set (iw_reservations (sw_inv w))" using Cons.prems(2) that by auto
      ultimately show ?thesis using fr unfolding freed_def by (auto simp: image_iff intro!: bexI [of _ x])
    qed
    then have v: "stock_ok (sw_inv v)" "set rs \<subseteq> set (iw_reservations (sw_inv v))" using fr by (auto simp: freed_def)
    show ?case by (rule wp_mono [OF Cons.IH [OF v]]) (use Cons.prems freed_trans [OF fr] in simp_all)
  qed simp
qed

lemma set_reason_spec:
  assumes "find (\<lambda>r. or_id r = oid) (sw_order_rows w) = Some r"
  shows "wp (set_reason oid why) w (\<lambda>_ t. (\<exists>q. find (\<lambda>r. or_id r = oid) (sw_order_rows t) = Some q) \<and> goods t = goods w) (\<lambda>_ _. True)"
proof -
  have "or_id r = oid" using assms by (auto simp: find_Some_iff)
  then have "find (\<lambda>r. or_id r = oid) (update_where (\<lambda>r. or_id r = oid) f (sw_order_rows w)) = Some (f r)" if "\<And>x. or_id (f x) = or_id x" for f
    by (subst find_update_where) (simp_all add: assms that)
  then show ?thesis by (simp add: set_reason_def order_update_def wp_constraint assms goods_def ledger_of_def)
qed

lemma scope_lock:
  "preserves scope (inI (lock_acquire r))" "preserves scope (bindA (inI (lock_release r s)) (\<lambda>released. if released then returnA () else logA x))"
  by (auto simp: preserves_def inI_def lock_acquire_def lock_release_def logA_def bindA_def scope_def goods_def ledger_of_def split: sum.splits prod.splits)

lemma wp_lockedA_scope:
  assumes body: "\<And>t. scope t = scope w \<Longrightarrow> wp m t Q (\<lambda>_ _. True)" and stable: "\<And>x t u. scope u = scope t \<Longrightarrow> Q x t \<Longrightarrow> Q x u"
  shows "wp (lockedA parts m) w Q (\<lambda>_ _. True)"
  unfolding lockedA_def Let_def
proof (rule wp_scope_bind [OF scope_lock(1)], goal_cases)
  case (1 token t)
  have fin: "wp (bindA (inI (lock_release r s)) (\<lambda>released. if released then returnA () else logA y)) v (\<lambda>_ u. Z \<longrightarrow> Q x u) (\<lambda>_ _. True)"
    if "Z \<Longrightarrow> Q x v" for r s y v x Z
    by (rule preserves_wpI [OF scope_lock(2)]) (use that stable in blast)+
  have "wp (finallyA m (bindA (inI (lock_release r s)) (\<lambda>released. if released then returnA () else logA y))) t Q (\<lambda>_ _. True)" for r s y
    unfolding wp_finallyA by (rule wp_mono [OF body [OF 1]]) (use fin [of True] fin [of False] in simp_all)
  then show ?case by simp
qed

definition called_off :: "string \<Rightarrow> shop_world \<Rightarrow> shop_world \<Rightarrow> bool" where
  "called_off oid w t \<longleftrightarrow> (\<exists>q. find (\<lambda>r. or_id r = oid) (sw_order_rows t) = Some q \<and> or_status q = ''cancelled'')
    \<and> active_reservations oid t = [] \<and> stock_ok (sw_inv t) \<and> sw_payments t = sw_payments w
    \<and> (\<forall>a b. stock_sum iv_available a b (sw_inv t) = stock_sum iv_available a b (sw_inv w)
         + sum_list (map rs_quantity (filter (holding a b) (active_reservations oid w))))"

lemma called_off_cong:
  assumes "scope u = scope t" "called_off oid w t"
  shows "called_off oid w u"
proof -
  have "stock_ok (sw_inv u) = stock_ok (sw_inv t)" by (rule stock_ok_cong) (use assms(1) in \<open>simp add: scope_def goods_def\<close>)
  then show ?thesis using assms by (simp add: called_off_def scope_def goods_def ledger_of_def active_reservations_def stock_sum_def)
qed

lemma goods_sums: "goods u = goods t \<Longrightarrow> stock_sum f a b (sw_inv u) = stock_sum f a b (sw_inv t)"
  "goods u = goods t \<Longrightarrow> active_reservations oid u = active_reservations oid t" "goods u = goods t \<Longrightarrow> sw_payments u = sw_payments t"
  by (simp_all add: goods_def stock_sum_def active_reservations_def ledger_of_def)

lemma freed_called_off:
  assumes "freed (active_reservations oid v) user v t" "goods v = goods w" "find (\<lambda>r. or_id r = oid) (sw_order_rows v) = Some q" "or_status q = ''cancelled''"
  shows "called_off oid w t"
proof -
  have "active_reservations oid t = []"
    using assms(1) unfolding freed_def by (auto simp: active_reservations_def filter_empty_conv)
  then show ?thesis using assms(1,3,4) goods_sums [OF assms(2)] by (simp add: called_off_def freed_def rest_def ledger_of_def)
qed

lemma findOrder_found:
  assumes "findOrder oid w = Some r"
  shows "\<exists>q. find (\<lambda>r. or_id r = oid) (sw_order_rows w) = Some q"
proof -
  have "r \<in> set (sw_order_rows w)" "or_id r = oid" using assms by (auto simp: findOrder_def find_Some_iff)
  then show ?thesis by (cases "find (\<lambda>r. or_id r = oid) (sw_order_rows w)") (auto simp: find_None_iff)
qed

lemma wp_guard: "(\<not> c \<Longrightarrow> wp (f ()) t Q (\<lambda>_ _. True)) \<Longrightarrow> wp (bindA (throwIf c e) f) t Q (\<lambda>_ _. True)"
  by (simp add: throwIf_def)

lemma cancel_spec:
  assumes o: "row_order (oe_stock env)" and ok: "stock_ok (sw_inv w)"
  shows "wp (cancel_order env oid user dto isAdmin) w
    (\<lambda>_ t. (\<exists>r. findOrder oid w = Some r \<and> canCancel (or_status r) \<and> (isAdmin \<or> or_customer_id r = Some user)) \<and> called_off oid w t) (\<lambda>_ _. True)"
  unfolding cancel_order_def
proof (rule wp_lockedA_scope, goal_cases)
  case (1 t)
  have look: "findOrder oid t = findOrder oid w" and gt: "goods t = goods w" using 1 by (simp_all add: findOrder_def scope_def)
  show ?case
  proof (cases "findOrder oid w")
    case None
    then show ?thesis by (simp add: look)
  next
    case (Some r)
    let ?fine = "canCancel (or_status r) \<and> (isAdmin \<or> or_customer_id r = Some user)"
    obtain q where q: "find (\<lambda>r. or_id r = oid) (sw_order_rows t) = Some q" using Some findOrder_found [of oid t r] look by auto
    have "wp (bindA (set_reason oid (cd_cancellationReasonId dto)) (\<lambda>_.
        bindA (transitionStatus oid (Some (or_status r)) ''cancelled'' (Some (nullish (cd_note dto) ''Cancelled by customer'')) (Some user)) (\<lambda>_.
        bindA (readA (active_reservations oid)) (\<lambda>reservations.
        bindA (release_all env reservations user) (\<lambda>_.
        bindA (invalidateOrder oid (or_customer_id r)) (\<lambda>_.
        bindA (emit (OrderCancelledEvent oid (or_number r) (cd_cancellationReasonId dto))) (\<lambda>_.
        returnA (oid, ''cancelled''))))))) ) t (\<lambda>_. called_off oid w) (\<lambda>_ _. True)"
    proof (rule wp_bindI [OF set_reason_spec [OF q]], goal_cases)
      case (1 _ v)
      then obtain q1 where q1: "find (\<lambda>r. or_id r = oid) (sw_order_rows v) = Some q1" and gv: "goods v = goods w" using gt by auto
      show ?case
      proof (rule wp_bindI [OF transition_spec [OF q1]], goal_cases)
        case (1 _ u)
        then obtain q2 where q2: "find (\<lambda>r. or_id r = oid) (sw_order_rows u) = Some q2" "or_status q2 = ''cancelled''" and gu: "goods u = goods w"
          using gv by auto
        have su: "stock_ok (sw_inv u)" using ok stock_ok_cong [of "sw_inv u" "sw_inv w"] gu by (simp add: goods_def)
        then have "distinct (map rs_id (iw_reservations (sw_inv u)))" by (simp add: stock_ok_def)
        then have rs: "set (active_reservations oid u) \<subseteq> set (iw_reservations (sw_inv u))" "distinct (map rs_id (active_reservations oid u))"
            "\<forall>r\<in>set (active_reservations oid u). rs_status r = ''active'' \<and> rs_deleted_at r = None"
          by (auto simp: active_reservations_def distinct_map_filter)
        have fin: "wp (bindA (invalidateOrder oid (or_customer_id r)) (\<lambda>_. bindA (emit e) (\<lambda>_. returnA y))) x (\<lambda>_. called_off oid w) (\<lambda>_ _. True)"
          if "called_off oid w x" for x e y
          by (rule preserves_wpI [where f = scope]) (use that called_off_cong in
            \<open>auto simp: invalidateOrder_def intro!: scope_quiet calm tame preserves_bindA\<close>)
        show ?case unfolding wp_bindA [of "readA _"] wp_readA
          by (rule wp_bindI [OF release_all_spec [OF o su rs]]) (use fin freed_called_off [OF _ gu q2] in auto)
      qed simp
    qed simp
    note cancels = this
    show ?thesis unfolding wp_bindA [of "readA _"] wp_readA look Some option.case
      by (intro wp_guard wp_mono [OF cancels]) auto
  qed
qed (use called_off_cong in blast)

text \<open>
  C2: a cancellation that returns was asked for by the customer of the order or an administrator, in a status that
  allows it. The order is cancelled, no active reservation names it any more, and their quantities are available
  again, warehouse by warehouse and variant by variant; the stock still covers the other reservations. No payment changes: a captured
  payment of the order is not refunded.
\<close>

theorem cancel_frees_order:
  assumes "\<And>rows. mset (oe_stock env rows) = mset rows" "stock_ok (sw_inv w)" "cancel_order env oid user dto isAdmin w = (Inr res, w')"
  shows "(\<exists>r. findOrder oid w = Some r \<and> canCancel (or_status r) \<and> (isAdmin \<or> or_customer_id r = Some user))
    \<and> (\<exists>q. find (\<lambda>r. or_id r = oid) (sw_order_rows w') = Some q \<and> or_status q = ''cancelled'')
    \<and> active_reservations oid w' = [] \<and> stock_ok (sw_inv w') \<and> sw_payments w' = sw_payments w
    \<and> (\<forall>a b. stock_sum iv_available a b (sw_inv w') = stock_sum iv_available a b (sw_inv w)
         + sum_list (map rs_quantity (filter (holding a b) (active_reservations oid w))))"
proof -
  have "row_order (oe_stock env)" using assms(1) by unfold_locales simp
  from wp_Inr [OF cancel_spec [OF this assms(2)] assms(3)] show ?thesis unfolding called_off_def .
qed

definition demo_placed :: shop_world where
  "demo_placed = demo_store\<lparr>sw_inv := (sw_inv demo_store)\<lparr>iw_orders := [''o1''], iw_reservations :=
       [(demo_reservation ''s1'' 2)\<lparr>rs_order_id := Some ''o1''\<rparr>, demo_reservation ''s2'' 3]\<rparr>,
     sw_order_rows := [demo_order\<lparr>or_status := ''confirmed'', or_customer_id := Some ''ann''\<rparr>], sw_payments := sw_payments (demo_paid ''captured'')\<rparr>"

lemma demo_placed_ok: "stock_ok (sw_inv demo_placed)"
  by (simp add: demo_placed_def demo_store_def demo_shop_def stock_ok_def nonneg_rows_def demo_world_def demo_row_def demo_reservation_def reserved_by_def
    stock_sum_def holding_def live_row_def)

lemma demo_cancels: "ok (cancel_order demo_orders ''o1'' ''ann'' \<lparr>cd_cancellationReasonId = None, cd_note = None\<rparr> False) demo_placed (\<lambda>_ _. True)"
  by code_simp

theorem cancel_frees_order_witness:
  "\<exists>res w'. cancel_order demo_orders ''o1'' ''ann'' \<lparr>cd_cancellationReasonId = None, cd_note = None\<rparr> False demo_placed = (Inr res, w')
     \<and> active_reservations ''o1'' w' = [] \<and> stock_sum iv_available ''w1'' ''v1'' (sw_inv w') = 12 \<and> map py_status (sw_payments w') = [''captured'']"
proof -
  let ?dto = "\<lparr>cd_cancellationReasonId = None, cd_note = None\<rparr>"
  obtain res w' where run: "cancel_order demo_orders ''o1'' ''ann'' ?dto False demo_placed = (Inr res, w')" using okD [OF demo_cancels] by blast
  have sums: "stock_sum iv_available ''w1'' ''v1'' (sw_inv demo_placed) = 10"
    "sum_list (map rs_quantity (filter (holding ''w1'' ''v1'') (active_reservations ''o1'' demo_placed))) = 2"
    "map py_status (sw_payments demo_placed) = [''captured'']" by code_simp+
  have "\<And>rows. mset (oe_stock demo_orders rows) = mset rows" by (simp add: demo_orders_def by_available_mset)
  from cancel_frees_order [OF this demo_placed_ok run] run sums show ?thesis by auto
qed

section \<open>Orders undone\<close>

text \<open>\<open>voidOrCancel\<close> leaves a captured payment, and everything else of the shop, as it is.\<close>

lemma keeps_lockedA: "keeps (\<lambda>t. scope t = s) m \<Longrightarrow> keeps (\<lambda>t. scope t = s) (lockedA parts m)"
  unfolding lockedA_def Let_def
  by (rule keeps_bindA, rule preserves_keeps [OF scope_lock(1)], simp)
    (auto intro!: keeps_finallyA preserves_keeps [OF scope_lock(2)])

lemma void_captured:
  assumes "findPayment pid w = Some p" "py_status p = ''captured''"
  shows "scope (snd (voidOrCancel env pid user w)) = scope w"
proof -
  let ?P = "\<lambda>t. scope t = scope w"
  have found: "findPayment pid t = Some p" if "?P t" for t
    using that assms(1) by (simp add: findPayment_def scope_def goods_def ledger_of_def)
  have "keeps ?P (cancel_payment env pid user False)" unfolding cancel_payment_def
    by (rule keeps_lockedA) (auto simp: keeps_def requirePayment_def assertCanAccess_def bindA_def throwIf_def found assms(2) fun_eq_iff)
  then have "keeps ?P (catchA (bindA (cancel_payment env pid user False) (\<lambda>_. returnA ())) (\<lambda>e. logA (''voidOrCancel '' @ pid @ '': '' @ show_exn e)))"
    by (intro keeps_catchA keeps_bindA) (auto simp: keeps_def logA_def inI_def scope_def goods_def ledger_of_def)
  then show ?thesis using assms by (simp add: voidOrCancel_def bindA_def keeps_def)
qed

lemma rest_scope: "scope t = scope w \<Longrightarrow> rest t = rest w"
  by (simp add: scope_def rest_def goods_def)

lemma rest_reserve_compensate: "preserves rest (reserve_compensate env ctx)"
  unfolding reserve_compensate_def logA_def by (intro preserves_forA preserves_catchA preserves_bindA rest_inI preserves_returnA)

lemma undo_chain:
  "undo_all (undos (buildDefinition env slow cart) 5) ctx w =
     snd (draft_compensate ctx (snd (reserve_compensate env ctx (snd (payment_compensate env ctx (snd (authorize_compensate env ctx (snd (capture_compensate env ctx w)))))))))"
  by (simp add: undo_all_def undos_def buildDefinition_def checkout_step_def)

lemma keeps_void:
  assumes "findPayment pid w = Some p" "py_status p = ''captured''"
  shows "keeps (\<lambda>t. scope t = scope w) (voidOrCancel env pid user)"
  unfolding keeps_def
proof (intro allI impI)
  fix t assume t: "scope t = scope w"
  then have "findPayment pid t = Some p" using assms(1) by (simp add: findPayment_def scope_def goods_def ledger_of_def)
  from void_captured [OF this assms(2)] show "scope (snd (voidOrCancel env pid user t)) = scope w" by (simp add: t)
qed

lemma keeps_payment_undone:
  assumes "ctx_str ctx ''paymentId'' = Some pid" "findPayment pid w = Some p" "py_status p = ''captured''"
  shows "keeps (\<lambda>t. scope t = scope w) (capture_compensate env ctx)" "keeps (\<lambda>t. scope t = scope w) (authorize_compensate env ctx)"
    "keeps (\<lambda>t. scope t = scope w) (payment_compensate env ctx)"
proof -
  have pid: "req_str ctx ''paymentId'' = pid" using assms(1) by (simp add: req_str_def)
  note void = keeps_void [OF assms(2,3)]
  have "preserves scope (logA x)" for x by (rule scope_quiet) (intro tame calm)+
  then have log: "keeps (\<lambda>t. scope t = scope w) (logA x)" for x by (rule preserves_keeps) simp
  show "keeps (\<lambda>t. scope t = scope w) (capture_compensate env ctx)" "keeps (\<lambda>t. scope t = scope w) (authorize_compensate env ctx)"
    "keeps (\<lambda>t. scope t = scope w) (payment_compensate env ctx)"
    unfolding capture_compensate_def authorize_compensate_def payment_compensate_def pid using void log
    by (auto intro: keeps_catchA)
qed

lemma transition_done:
  assumes "find (\<lambda>r. or_id r = oid) (sw_order_rows w) = Some r"
  shows "ok (transitionStatus oid x y note a) w (\<lambda>_ t. (\<exists>q. find (\<lambda>r. or_id r = oid) (sw_order_rows t) = Some q \<and> or_status q = y) \<and> goods t = goods w)"
proof -
  have r: "or_id r = oid" "r \<in> set (sw_order_rows w)" using assms by (auto simp: find_Some_iff)
  have "find (\<lambda>r. or_id r = oid) (update_where (\<lambda>r. or_id r = oid) f (sw_order_rows w)) = Some (f r)"
    "oid \<in> or_id ` set (update_where (\<lambda>r. or_id r = oid) f (sw_order_rows w))" if "\<And>x. or_id (f x) = or_id x" for f
  proof -
    show "find (\<lambda>r. or_id r = oid) (update_where (\<lambda>r. or_id r = oid) f (sw_order_rows w)) = Some (f r)"
      by (subst find_update_where) (simp_all add: assms that r)
    then show "oid \<in> or_id ` set (update_where (\<lambda>r. or_id r = oid) f (sw_order_rows w))"
      by (auto simp: find_Some_iff image_iff) (metis nth_mem)
  qed
  then show ?thesis
    by (simp add: transitionStatus_def order_update_def history_create_def assms wp_now wp_constraint goods_def ledger_of_def)
qed

text \<open>
  C3: A captured payment survives the undoing of its order. When the confirmation step fails, the undo actions of
  the five steps before it set the order to cancelled, but the payment stays captured: \<open>voidOrCancel\<close> refuses a
  captured payment, logs the refusal and returns, so the money of a cancelled order stays with the shop.
\<close>

theorem failed_confirmation_keeps_the_money:
  assumes "ctx_str ctx ''paymentId'' = Some pid" "findPayment pid w = Some p" "py_status p = ''captured''"
    and "ctx_str ctx ''orderId'' = Some oid" "oid \<noteq> []" "findOrder oid w = Some r"
    and "w' = undo_all (undos (buildDefinition env slow cart) 5) ctx w"
  shows "sw_payments w' = sw_payments w \<and> (\<exists>q. find (\<lambda>r. or_id r = oid) (sw_order_rows w') = Some q \<and> or_status q = ''cancelled'')"
proof -
  note void = keeps_payment_undone [OF assms(1-3), of env, unfolded keeps_def, rule_format]
  define w3 where "w3 = snd (payment_compensate env ctx (snd (authorize_compensate env ctx (snd (capture_compensate env ctx w)))))"
  have "scope w3 = scope w" unfolding w3_def by (rule void(3), rule void(2), rule void(1)) simp
  define w4 where "w4 = snd (reserve_compensate env ctx w3)"
  have "rest w4 = rest w3" using rest_reserve_compensate [of env ctx] by (simp add: preserves_def w4_def)
  with rest_scope [OF \<open>scope w3 = scope w\<close>] have w4: "rest w4 = rest w" by simp
  then have "findOrder oid w4 = Some r" using assms(6) by (simp add: findOrder_def rest_def)
  then obtain q where q: "find (\<lambda>r. or_id r = oid) (sw_order_rows w4) = Some q" using findOrder_found by blast
  obtain y w5 where run: "transitionStatus oid (Some ''pending'') ''cancelled'' (Some ''Checkout compensation'') (Some (req_str ctx ''userId'')) w4 = (Inr y, w5)"
    and off: "\<exists>q. find (\<lambda>r. or_id r = oid) (sw_order_rows w5) = Some q \<and> or_status q = ''cancelled''" "goods w5 = goods w4"
    using okD [OF transition_done [OF q, of "Some ''pending''" "''cancelled''" "Some ''Checkout compensation''" "Some (req_str ctx ''userId'')"]] by blast
  have "w' = snd (draft_compensate ctx w4)" unfolding assms(7) undo_chain w4_def w3_def ..
  also have "\<dots> = w5" using run assms(4,5) by (simp add: draft_compensate_def req_str_def bindA_def truthy_str_def)
  finally have "w' = w5" .
  then show ?thesis using off w4 by (simp add: goods_def rest_def ledger_of_def)
qed

theorem failed_confirmation_keeps_the_money_witness:
  "map py_status (sw_payments (undo_all (undos (buildDefinition demo_orders (\<lambda>_ _. False) demo_full) 5)
     [''paymentId'' \<mapsto> CStr ''p1'', ''orderId'' \<mapsto> CStr ''o1'', ''userId'' \<mapsto> CStr ''ann''] demo_placed)) = [''captured'']"
proof -
  let ?ctx = "[''paymentId'' \<mapsto> CStr ''p1'', ''orderId'' \<mapsto> CStr ''o1'', ''userId'' \<mapsto> CStr ''ann'']"
  have ctx: "ctx_str ?ctx ''paymentId'' = Some ''p1''" "ctx_str ?ctx ''orderId'' = Some ''o1''" by simp_all
  have rows: "findPayment ''p1'' demo_placed = Some (demo_payment ''captured'')" "py_status (demo_payment ''captured'') = ''captured''"
    "\<exists>r. findOrder ''o1'' demo_placed = Some r" "map py_status (sw_payments demo_placed) = [''captured'']"
    by (simp_all add: findPayment_def demo_placed_def demo_store_def demo_paid_def demo_payment_def findOrder_def demo_order_def)
  obtain r where "findOrder ''o1'' demo_placed = Some r" using rows(3) by blast
  from failed_confirmation_keeps_the_money [OF ctx(1) rows(1,2) ctx(2) _ this refl, of demo_orders "\<lambda>_ _. False" demo_full] rows(4)
  show ?thesis by simp
qed

end
