(* ===== verification/Marketing.thy ===== *)
theory Marketing
  imports Orders Rules
begin

text \<open>
  The marketing module (modules/marketing): its tables, the condition trees it builds for the rule engine, and
  coupons. The tables stand beside the shop, whose clock, ids, locks, queue, users and orders the services use.
  Created-by columns are kept where a service reads them back.
\<close>

section \<open>Tables (database/schema.prisma)\<close>

record coupon_row =
  cu_id :: string
  cu_code :: string
  cu_name :: string
  cu_discount_type :: string
  cu_discount_value :: rat
  cu_min_cart_value :: "rat option"
  cu_max_discount :: "rat option"
  cu_usage_limit :: "int option"
  cu_per_user_limit :: "int option"
  cu_starts_at :: "int option"
  cu_expires_at :: "int option"
  cu_status :: string
  cu_deleted_at :: "int option"

record coupon_rule_row =
  cr_coupon_id :: string
  cr_type :: string
  cr_brand_id :: "string option"
  cr_category_id :: "string option"
  cr_value :: "rat option"
  cr_status :: string
  cr_deleted_at :: "int option"

record usage_row =
  us_id :: string
  us_coupon_id :: string
  us_user_id :: "string option"
  us_order_id :: "string option"
  us_discount :: rat
  us_deleted_at :: "int option"

record account_row =
  la_id :: string
  la_customer_id :: string
  la_points :: int
  la_lifetime :: int
  la_tier :: string
  la_deleted_at :: "int option"
  la_updated_by :: "string option"

record points_row =
  lt_id :: string
  lt_account_id :: string
  lt_type :: string
  lt_points :: int
  lt_balance_after :: int
  lt_reference_type :: "string option"
  lt_reference_id :: "string option"
  lt_expires_at :: "int option"
  lt_notes :: "string option"
  lt_created_by :: "string option"

record reward_rule_row =
  rl_id :: string
  rl_code :: string
  rl_name :: string
  rl_points_per_rupee :: "rat option"
  rl_fixed_points :: "int option"
  rl_min_order_amount :: "rat option"
  rl_expiry_days :: "int option"
  rl_tier_required :: "string option"
  rl_status :: string
  rl_created_at :: int
  rl_deleted_at :: "int option"

record program_row =
  pg_id :: string
  pg_code :: string
  pg_name :: string
  pg_referrer_points :: int
  pg_referee_points :: int
  pg_status :: string
  pg_deleted_at :: "int option"

record reward_row =
  rw_id :: string
  rw_program_id :: string
  rw_referrer_id :: string
  rw_referee_id :: string
  rw_points :: int
  rw_deleted_at :: "int option"

record flag_rule_row =
  fr_flag_id :: string
  fr_priority :: int
  fr_conditions :: "json option"
  fr_rollout_percent :: "rat option"
  fr_enabled_value :: bool
  fr_status :: string
  fr_deleted_at :: "int option"

record flag_row =
  ff_id :: string
  ff_code :: string
  ff_name :: string
  ff_status :: string
  ff_default_value :: bool
  ff_deleted_at :: "int option"

record test_row =
  ab_id :: string
  ab_code :: string
  ab_name :: string
  ab_target_type :: string
  ab_target_key :: "string option"
  ab_status :: string
  ab_deleted_at :: "int option"

record variant_arm_row =
  av_id :: string
  av_test_id :: string
  av_code :: string
  av_name :: string
  av_is_control :: bool
  av_weight :: rat
  av_config :: "json option"
  av_status :: string
  av_deleted_at :: "int option"

record exposure_row =
  ax_test_id :: string
  ax_variant_id :: string
  ax_metric_key :: string
  ax_metric_value :: rat
  ax_sample_size :: int
  ax_created_by :: "string option"

record keyword_row =
  kw_id :: string
  kw_keyword :: string
  kw_autocomplete :: bool
  kw_boost :: int
  kw_status :: string
  kw_deleted_at :: "int option"

record synonym_row =
  sy_keyword_id :: string
  sy_synonym :: string
  sy_status :: string
  sy_deleted_at :: "int option"

record popular_row =
  pq_id :: string
  pq_keyword :: string
  pq_count :: int
  pq_last :: "int option"
  pq_status :: string
  pq_deleted_at :: "int option"

text \<open>A row of one of the four campaign tables, which the channel names.\<close>

record campaign_row =
  cg_id :: string
  cg_channel :: string
  cg_name :: string
  cg_template_id :: "string option"
  cg_segment_id :: "string option"
  cg_title :: "string option"
  cg_body :: "string option"
  cg_status :: string
  cg_scheduled_at :: "int option"
  cg_started_at :: "int option"
  cg_completed_at :: "int option"
  cg_updated_by :: "string option"

record recommendation_row =
  rm_id :: string
  rm_product_id :: string
  rm_recommended_id :: string
  rm_source :: string
  rm_score :: "rat option"
  rm_sort_order :: int
  rm_status :: string
  rm_deleted_at :: "int option"

record viewed_row =
  vw_customer_id :: string
  vw_product_id :: string
  vw_viewed_at :: int
  vw_deleted_at :: "int option"

record mkt_audit_row =
  ma_entity_type :: string
  ma_entity_id :: "string option"
  ma_action :: string
  ma_new_values :: "json option"
  ma_performed_by :: "string option"
  ma_created_at :: int

datatype mkt_event =
    CouponAppliedEvent string string "string option" rat
  | CouponRedeemedEvent string string "string option" "string option"
  | CampaignStartedEvent string string
  | CampaignCompletedEvent string string
  | LoyaltyPointsEarnedEvent string string int
  | LoyaltyPointsRedeemedEvent string string int
  | ReferralCreatedEvent string string string string
  | FeatureFlagEvaluatedEvent string bool "string option"
  | RecommendationGeneratedEvent string nat
  | SearchBoostAppliedEvent string int
  | AbTestExposureEvent string string "string option"

datatype mkt_job =
    DeliveryJob string string string
  | SearchAnalyticsJob string
  | ReferralRewardsJob string
  | OtherJob string

section \<open>The world\<close>

text \<open>
  What a cached read returns: on a miss the row of the database, whose dates are \<open>Date\<close> objects, on a hit what
  \<open>JSON.parse\<close> made of it, where they are strings (cache.service.ts).
\<close>

record loaded_coupon =
  lc_id :: string
  lc_code :: string
  lc_discount_type :: string
  lc_discount_value :: rat
  lc_min_cart_value :: "rat option"
  lc_max_discount :: "rat option"
  lc_usage_limit :: "int option"
  lc_per_user_limit :: "int option"
  lc_starts_at :: json
  lc_expires_at :: json
  lc_rules :: "coupon_rule_row list"

record suggestion =
  sg_text :: string
  sg_boost :: int
  sg_source :: string

record recommendation =
  rn_id :: string
  rn_productId :: string
  rn_recommendedProductId :: string
  rn_score :: "rat option"
  rn_source :: string

record mkt_world =
  mk_shop :: shop_world
  mk_coupons :: "coupon_row list"
  mk_coupon_rules :: "coupon_rule_row list"
  mk_usages :: "usage_row list"
  mk_order_coupon :: "string \<Rightarrow> string option"
  mk_accounts :: "account_row list"
  mk_points :: "points_row list"
  mk_reward_rules :: "reward_rule_row list"
  mk_programs :: "program_row list"
  mk_rewards :: "reward_row list"
  mk_flags :: "flag_row list"
  mk_flag_rules :: "flag_rule_row list"
  mk_tests :: "test_row list"
  mk_arms :: "variant_arm_row list"
  mk_exposures :: "exposure_row list"
  mk_keywords :: "keyword_row list"
  mk_synonyms :: "synonym_row list"
  mk_popular :: "popular_row list"
  mk_campaigns :: "campaign_row list"
  mk_recs :: "recommendation_row list"
  mk_viewed :: "viewed_row list"
  mk_audit :: "mkt_audit_row list"
  mk_brands :: "string list"
  mk_categories :: "string list"
  mk_products :: "string list"
  mk_templates :: "string list"
  mk_coupon_cache :: "string \<Rightarrow> loaded_coupon option"
  mk_flag_cache :: "(flag_row \<times> flag_rule_row list) list option"
  mk_suggest_cache :: "string \<Rightarrow> suggestion list option"
  mk_recs_cache :: "string \<Rightarrow> recommendation list option"
  mk_jobs :: "mkt_job list"
  mk_events :: "mkt_event list"

type_synonym 'a mkt_act = "(mkt_world, 'a) act"

text \<open>
  Of the language: the library of the rule engine, \<open>toISOString\<close> and the two case mappings. Of the database: the
  orders in which queries without a total order return rows, and its match for \<open>contains\<close> without regard to case.
\<close>

record mkt_env =
  me_lib :: js_lib
  me_iso :: "int \<Rightarrow> string"
  me_upper :: "string \<Rightarrow> string"
  me_lower :: "string \<Rightarrow> string"
  me_rules :: "reward_rule_row list \<Rightarrow> reward_rule_row list"
  me_flags :: "flag_row list \<Rightarrow> flag_row list"
  me_flag_rules :: "flag_rule_row list \<Rightarrow> flag_rule_row list"
  me_arms :: "variant_arm_row list \<Rightarrow> variant_arm_row list"
  me_keywords :: "keyword_row list \<Rightarrow> keyword_row list"
  me_synonyms :: "synonym_row list \<Rightarrow> synonym_row list"
  me_popular :: "popular_row list \<Rightarrow> popular_row list"
  me_recs :: "recommendation_row list \<Rightarrow> recommendation_row list"
  me_viewed :: "viewed_row list \<Rightarrow> viewed_row list"
  me_audit :: "mkt_audit_row list \<Rightarrow> mkt_audit_row list"
  me_ilike :: "string \<Rightarrow> string \<Rightarrow> bool"
  me_correlation :: string

definition inS :: "'a shop_act \<Rightarrow> 'a mkt_act" where
  "inS m = (\<lambda>w. case m (mk_shop w) of (r, s) \<Rightarrow> (r, w\<lparr>mk_shop := s\<rparr>))"

definition mkt_emit :: "mkt_event \<Rightarrow> unit mkt_act" where
  "mkt_emit e = modifyA (\<lambda>w. w\<lparr>mk_events := mk_events w @ [e]\<rparr>)"

definition mkt_enqueue :: "mkt_job \<Rightarrow> unit mkt_act" where
  "mkt_enqueue j = bindA (inS (\<lambda>s. (Inr (sw_queue s (sw_queue_no s)), s\<lparr>sw_queue_no := Suc (sw_queue_no s)\<rparr>))) (\<lambda>answer.
     case answer of Some m \<Rightarrow> throwA (JsError m) | None \<Rightarrow> modifyA (\<lambda>w. w\<lparr>mk_jobs := mk_jobs w @ [j]\<rparr>))"

definition mkt_locked :: "string list \<Rightarrow> 'a mkt_act \<Rightarrow> 'a mkt_act" where
  "mkt_locked parts fn = (let resource = resourceKey parts in
     bindA (inS (inI (lock_acquire resource))) (\<lambda>token.
     if \<not> truthy_str token then
       throwA (AppException ''LOCK_NOT_ACQUIRED'' (''Could not acquire lock for '' @ in_quotes resource) 409)
     else finallyA fn (inS (bindA (inI (lock_release resource (the token))) (\<lambda>released.
       if released then returnA ()
       else logA (''Lock for '' @ in_quotes resource @ '' was not released (expired or stolen)''))))))"

definition mkt_id :: "(mkt_world \<Rightarrow> string list) \<Rightarrow> string mkt_act" where
  "mkt_id ids = bindA (inS random_id) (\<lambda>i. bindA (readA (\<lambda>w. i \<in> set (ids w))) (\<lambda>dup.
     bindA (throwIf dup (prisma_error ''P2002'')) (\<lambda>_. returnA i)))"

definition mkt_check :: "string \<Rightarrow> (mkt_world \<Rightarrow> bool) \<Rightarrow> unit mkt_act" where
  "mkt_check code p = bindA (readA p) (\<lambda>good. throwIf (\<not> good) (prisma_error code))"

definition mkt_users :: "mkt_world \<Rightarrow> string list" where
  "mkt_users w = iw_users (sw_inv (mk_shop w))"

text \<open>\<open>MarketingRepository.audit\<close>\<close>

definition mkt_audit :: "string \<Rightarrow> string option \<Rightarrow> string \<Rightarrow> string option \<Rightarrow> json option \<Rightarrow> unit mkt_act" where
  "mkt_audit entityType entityId action actorId next = bindA (inS now) (\<lambda>t.
     modifyA (\<lambda>w. w\<lparr>mk_audit := mk_audit w @ [\<lparr>ma_entity_type = entityType, ma_entity_id = entityId, ma_action = action,
       ma_new_values = next, ma_performed_by = actorId, ma_created_at = t\<rparr>]\<rparr>))"

text \<open>\<open>MarketingCacheService.getOrSet\<close>: \<open>copy\<close> is what a later read finds.\<close>

definition mkt_getOrSet :: "(mkt_world \<Rightarrow> 'v option) \<Rightarrow> ('v \<Rightarrow> mkt_world \<Rightarrow> mkt_world) \<Rightarrow> ('v \<Rightarrow> 'v) \<Rightarrow> 'v mkt_act \<Rightarrow> 'v mkt_act" where
  "mkt_getOrSet get put copy factory = bindA (readA get) (\<lambda>hit. case hit of
     Some v \<Rightarrow> returnA v
   | None \<Rightarrow> bindA factory (\<lambda>v. bindA (modifyA (put (copy v))) (\<lambda>_. returnA v)))"

text \<open>\<open>this.rules.evaluate(conditions, facts)\<close>\<close>

definition evaluate :: "mkt_env \<Rightarrow> json \<Rightarrow> jsobj \<Rightarrow> rule_result" where
  "evaluate env conditions facts = evaluateRule (me_lib env) (OperatorRegistry (me_lib env)) conditions facts
     \<lparr>ro_collectReasons = None, ro_shortCircuit = None, ro_matchScore = None\<rparr> None"

abbreviation jnum :: "rat \<Rightarrow> json" where
  "jnum x \<equiv> JNum (Fin x)"

definition jstr_or_null :: "string option \<Rightarrow> json" where
  "jstr_or_null x = (case x of None \<Rightarrow> JNull | Some s \<Rightarrow> JStr s)"

section \<open>Condition trees and discounts (utils/rule-builders.ts)\<close>

definition iso_bound :: "mkt_env \<Rightarrow> string \<Rightarrow> json \<Rightarrow> exn + json list" where
  "iso_bound env op d = (if \<not> truthy d then Inr []
     else case d of JDate (Some t) \<Rightarrow> Inr [JObj [(''field'', JStr ''now''), (op, JStr (me_iso env t))]]
     | JDate None \<Rightarrow> Inl (JsError ''Invalid time value'')
     | _ \<Rightarrow> Inl (JsError ''toISOString is not a function''))"

definition any_of :: "string \<Rightarrow> string list \<Rightarrow> json" where
  "any_of field ids = JObj [(''any'', JArr (map (\<lambda>i. JObj [(''field'', JStr field), (''contains'', JStr i)]) ids))]"

definition all_parts :: "json list \<Rightarrow> json" where
  "all_parts parts = (case parts of [] \<Rightarrow> JObj [(''all'', JArr [])] | [p] \<Rightarrow> p | _ \<Rightarrow> JObj [(''all'', JArr parts)])"

definition buildCouponConditions ::
  "mkt_env \<Rightarrow> rat option \<Rightarrow> json \<Rightarrow> json \<Rightarrow> string list \<Rightarrow> string list \<Rightarrow> json option \<Rightarrow> exn + json" where
  "buildCouponConditions env minCartValue startsAt expiresAt brandIds categoryIds extra =
     (case iso_bound env ''gte'' startsAt of Inl e \<Rightarrow> Inl e | Inr starts \<Rightarrow>
      case iso_bound env ''lte'' expiresAt of Inl e \<Rightarrow> Inl e | Inr ends \<Rightarrow>
      Inr (all_parts
       ((case minCartValue of None \<Rightarrow> [] | Some v \<Rightarrow> [JObj [(''field'', JStr ''cart.total''), (''gte'', jnum v)]]) @ starts @ ends
        @ (if brandIds = [] then [] else [any_of ''cart.brandIds'' brandIds])
        @ (if categoryIds = [] then [] else [any_of ''cart.categoryIds'' categoryIds])
        @ (case extra of None \<Rightarrow> [] | Some x \<Rightarrow> [x]))))"

definition buildRewardConditions :: "rat option \<Rightarrow> string option \<Rightarrow> json" where
  "buildRewardConditions minOrderAmount tierRequired = JObj [(''all'', JArr
     ((case minOrderAmount of None \<Rightarrow> [] | Some v \<Rightarrow> [JObj [(''field'', JStr ''order.total''), (''gte'', jnum v)]])
      @ (if truthy_str tierRequired then [JObj [(''field'', JStr ''customer.tier''), (''eq'', JStr (the tierRequired))]] else [])))]"

definition computeCouponDiscount :: "string \<Rightarrow> rat \<Rightarrow> rat \<Rightarrow> rat option \<Rightarrow> rat" where
  "computeCouponDiscount discountType discountValue cartTotal maxDiscount =
     (let amount = (if discountType = ''percentage'' then cartTotal * discountValue / 100 else discountValue);
          capped = (case maxDiscount of None \<Rightarrow> amount | Some m \<Rightarrow> min amount m) in
      max 0 (min capped cartTotal))"

text \<open>\<open>validators/marketing.validators.ts\<close>\<close>

definition isCouponActive :: "string \<Rightarrow> int option \<Rightarrow> int option \<Rightarrow> int \<Rightarrow> bool" where
  "isCouponActive status startsAt expiresAt t \<longleftrightarrow> status = ''active''
     \<and> (case startsAt of None \<Rightarrow> True | Some s \<Rightarrow> \<not> s > t) \<and> (case expiresAt of None \<Rightarrow> True | Some e \<Rightarrow> \<not> e < t)"

section \<open>Coupons (services/coupon.service.ts)\<close>

record create_coupon_dto =
  ccd_code :: string
  ccd_name :: string
  ccd_discountType :: string
  ccd_discountValue :: rat
  ccd_minCartValue :: "rat option"
  ccd_maxDiscount :: "rat option"
  ccd_usageLimit :: "int option"
  ccd_perUserLimit :: "int option"
  ccd_startsAt :: "string option"
  ccd_expiresAt :: "string option"
  ccd_brandIds :: "string list option"
  ccd_categoryIds :: "string list option"

record coupon_dto =
  vcd_code :: string
  vcd_cartTotal :: rat
  vcd_brandIds :: "string list option"
  vcd_categoryIds :: "string list option"
  vcd_productIds :: "string list option"
  vcd_orderId :: "string option"

text \<open>\<open>x ? new Date(x) : undefined\<close>; the client refuses an invalid date.\<close>

definition date_arg :: "mkt_env \<Rightarrow> string option \<Rightarrow> int option mkt_act" where
  "date_arg env x = (if \<not> truthy_str x then returnA None
     else case jl_dateParse (me_lib env) (the x) of
       None \<Rightarrow> throwA (JsError ''PrismaClientValidationError'')
     | Some t \<Rightarrow> returnA (Some t))"

text \<open>The checks of the \<open>coupons\<close> table (sql/010_orders.sql) and its unique index.\<close>

definition opt_all :: "('a \<Rightarrow> bool) \<Rightarrow> 'a option \<Rightarrow> bool" where
  "opt_all p x = (case x of None \<Rightarrow> True | Some v \<Rightarrow> p v)"

definition price_ok :: "rat \<Rightarrow> bool" where
  "price_ok x \<longleftrightarrow> price_fits x \<and> dec2 x \<ge> 0"

definition coupon_row_ok :: "coupon_row \<Rightarrow> bool" where
  "coupon_row_ok c \<longleftrightarrow> price_ok (cu_discount_value c) \<and> opt_all price_ok (cu_min_cart_value c) \<and> opt_all price_ok (cu_max_discount c)
     \<and> opt_all (\<lambda>n. 0 < n \<and> int4 n) (cu_usage_limit c) \<and> opt_all (\<lambda>n. 0 < n \<and> int4 n) (cu_per_user_limit c)
     \<and> opt_all (\<lambda>e. opt_all (\<lambda>s. s \<le> e) (cu_starts_at c)) (cu_expires_at c)"

definition coupon_insert :: "coupon_row \<Rightarrow> unit mkt_act" where
  "coupon_insert c =
     bindA (mkt_check ''23514'' (\<lambda>_. coupon_row_ok c)) (\<lambda>_.
     bindA (mkt_check ''P2002'' (\<lambda>w. \<not> list_ex (\<lambda>d. cu_code d = cu_code c \<and> cu_deleted_at d = None) (mk_coupons w))) (\<lambda>_.
     modifyA (\<lambda>w. w\<lparr>mk_coupons := mk_coupons w @ [c\<lparr>cu_discount_value := dec2 (cu_discount_value c),
       cu_min_cart_value := map_option dec2 (cu_min_cart_value c), cu_max_discount := map_option dec2 (cu_max_discount c)\<rparr>]\<rparr>)))"

definition coupon_rule :: "string \<Rightarrow> string \<Rightarrow> string option \<Rightarrow> string option \<Rightarrow> coupon_rule_row" where
  "coupon_rule couponId kind brandId categoryId = \<lparr>cr_coupon_id = couponId, cr_type = kind, cr_brand_id = brandId,
     cr_category_id = categoryId, cr_value = None, cr_status = ''active'', cr_deleted_at = None\<rparr>"

definition coupon_rules_insert :: "coupon_rule_row list \<Rightarrow> unit mkt_act" where
  "coupon_rules_insert rs = (if rs = [] then returnA ()
     else bindA (mkt_check ''P2003'' (\<lambda>w. list_all (\<lambda>r. fk_ok (cr_brand_id r) (mk_brands w) \<and> fk_ok (cr_category_id r) (mk_categories w)) rs)) (\<lambda>_.
       modifyA (\<lambda>w. w\<lparr>mk_coupon_rules := mk_coupon_rules w @ rs\<rparr>)))"

definition invalidateCoupon :: "mkt_env \<Rightarrow> string \<Rightarrow> unit mkt_act" where
  "invalidateCoupon env code = modifyA (\<lambda>w. w\<lparr>mk_coupon_cache := (mk_coupon_cache w)(me_upper env code := None)\<rparr>)"

definition create_coupon :: "mkt_env \<Rightarrow> string \<Rightarrow> create_coupon_dto \<Rightarrow> (string \<times> string) mkt_act" where
  "create_coupon env actorId dto =
     (let code = me_upper env (ccd_code dto) in
     bindA (readA (\<lambda>w. find (\<lambda>c. cu_code c = code \<and> cu_deleted_at c = None) (mk_coupons w))) (\<lambda>existing.
     bindA (throwIf (existing \<noteq> None) (AppException ''CONFLICT'' ''Coupon code exists'' 409)) (\<lambda>_.
     bindA (date_arg env (ccd_startsAt dto)) (\<lambda>startsAt.
     bindA (date_arg env (ccd_expiresAt dto)) (\<lambda>expiresAt.
     bindA (mkt_id (\<lambda>w. map cu_id (mk_coupons w))) (\<lambda>i.
     bindA (coupon_insert \<lparr>cu_id = i, cu_code = code, cu_name = ccd_name dto, cu_discount_type = ccd_discountType dto,
       cu_discount_value = ccd_discountValue dto, cu_min_cart_value = ccd_minCartValue dto, cu_max_discount = ccd_maxDiscount dto,
       cu_usage_limit = ccd_usageLimit dto, cu_per_user_limit = ccd_perUserLimit dto, cu_starts_at = startsAt, cu_expires_at = expiresAt,
       cu_status = ''active'', cu_deleted_at = None\<rparr>) (\<lambda>_.
     bindA (coupon_rules_insert (map (\<lambda>b. coupon_rule i ''brand'' (Some b) None) (nullish (ccd_brandIds dto) [])
       @ map (\<lambda>c. coupon_rule i ''category'' None (Some c)) (nullish (ccd_categoryIds dto) []))) (\<lambda>_.
     bindA (mkt_audit ''coupon'' (Some i) ''create'' (Some actorId) (Some (JObj [(''code'', JStr code)]))) (\<lambda>_.
     bindA (invalidateCoupon env code) (\<lambda>_.
     returnA (i, code)))))))))))"

definition date_json :: "int option \<Rightarrow> json" where
  "date_json d = (case d of None \<Rightarrow> JNull | Some t \<Rightarrow> JDate (Some t))"

definition coupon_found :: "coupon_row \<Rightarrow> mkt_world \<Rightarrow> loaded_coupon" where
  "coupon_found c w = \<lparr>lc_id = cu_id c, lc_code = cu_code c, lc_discount_type = cu_discount_type c, lc_discount_value = cu_discount_value c,
     lc_min_cart_value = cu_min_cart_value c, lc_max_discount = cu_max_discount c, lc_usage_limit = cu_usage_limit c,
     lc_per_user_limit = cu_per_user_limit c, lc_starts_at = date_json (cu_starts_at c), lc_expires_at = date_json (cu_expires_at c),
     lc_rules = filter (\<lambda>r. cr_coupon_id r = cu_id c \<and> cr_deleted_at r = None \<and> cr_status r = ''active'') (mk_coupon_rules w)\<rparr>"

text \<open>\<open>JSON.parse(JSON.stringify(coupon))\<close>: a date is its ISO string.\<close>

definition date_copy :: "mkt_env \<Rightarrow> json \<Rightarrow> json" where
  "date_copy env d = (case d of JDate (Some t) \<Rightarrow> JStr (me_iso env t) | JDate None \<Rightarrow> JNull | _ \<Rightarrow> d)"

definition coupon_copy :: "mkt_env \<Rightarrow> loaded_coupon \<Rightarrow> loaded_coupon" where
  "coupon_copy env c = c\<lparr>lc_starts_at := date_copy env (lc_starts_at c), lc_expires_at := date_copy env (lc_expires_at c)\<rparr>"

definition loadCoupon :: "mkt_env \<Rightarrow> string \<Rightarrow> loaded_coupon mkt_act" where
  "loadCoupon env code = (let key = me_upper env code in
     mkt_getOrSet (\<lambda>w. mk_coupon_cache w key) (\<lambda>v w. w\<lparr>mk_coupon_cache := (mk_coupon_cache w)(key \<mapsto> v)\<rparr>) (coupon_copy env)
     (bindA (readA (\<lambda>w. map_option (\<lambda>c. (c, coupon_found c w)) (find (\<lambda>c. cu_code c = key \<and> cu_deleted_at c = None) (mk_coupons w)))) (\<lambda>found.
      case found of
        None \<Rightarrow> throwA (AppException ''NOT_FOUND'' ''Coupon not found'' 404)
      | Some (row, c) \<Rightarrow> bindA (throwIf (cu_status row \<noteq> ''active'') (AppException ''NOT_FOUND'' ''Coupon not found'' 404)) (\<lambda>_. returnA c))))"

definition restrictionNode :: "string list \<Rightarrow> string list \<Rightarrow> json option" where
  "restrictionNode brands categories =
     (let parts = (if brands = [] then [] else [any_of ''cart.brandIds'' brands])
        @ (if categories = [] then [] else [any_of ''cart.categoryIds'' categories]) in
      case parts of [] \<Rightarrow> None | [p] \<Rightarrow> Some p | _ \<Rightarrow> Some (JObj [(''all'', JArr parts)]))"

record eligibility =
  el_eligible :: bool
  el_reasons :: "string list"
  el_errors :: "string list option"

definition coupon_facts :: "mkt_env \<Rightarrow> string option \<Rightarrow> coupon_dto \<Rightarrow> int \<Rightarrow> jsobj" where
  "coupon_facts env customerId dto t =
     [(''cart'', JObj [(''total'', jnum (vcd_cartTotal dto)), (''brandIds'', JArr (map JStr (nullish (vcd_brandIds dto) []))),
        (''categoryIds'', JArr (map JStr (nullish (vcd_categoryIds dto) []))), (''productIds'', JArr (map JStr (nullish (vcd_productIds dto) [])))]),
      (''customer'', JObj [(''id'', jstr_or_null customerId)]), (''now'', JStr (me_iso env t))]"

definition coupon_conditions :: "mkt_env \<Rightarrow> loaded_coupon \<Rightarrow> exn + json" where
  "coupon_conditions env c =
     (let brands = map (\<lambda>r. the (cr_brand_id r)) (filter (\<lambda>r. cr_type r = ''brand'' \<and> truthy_str (cr_brand_id r)) (lc_rules c));
          categories = map (\<lambda>r. the (cr_category_id r)) (filter (\<lambda>r. cr_type r = ''category'' \<and> truthy_str (cr_category_id r)) (lc_rules c));
          minimum = (case lc_min_cart_value c of Some v \<Rightarrow> Some v
            | None \<Rightarrow> Option.bind (find (\<lambda>r. cr_type r = ''min_cart_value'') (lc_rules c)) cr_value) in
      buildCouponConditions env minimum (lc_starts_at c) (lc_expires_at c) [] [] (restrictionNode brands categories))"

definition used :: "(usage_row \<Rightarrow> bool) \<Rightarrow> string \<Rightarrow> mkt_world \<Rightarrow> nat" where
  "used p couponId w = length (filter (\<lambda>u. us_coupon_id u = couponId \<and> us_deleted_at u = None \<and> p u) (mk_usages w))"

definition over_limit :: "nat \<Rightarrow> int option \<Rightarrow> bool" where
  "over_limit n limit = (case limit of None \<Rightarrow> False | Some l \<Rightarrow> int n \<ge> l)"

definition evaluateEligibility :: "mkt_env \<Rightarrow> loaded_coupon \<Rightarrow> string option \<Rightarrow> coupon_dto \<Rightarrow> eligibility mkt_act" where
  "evaluateEligibility env c customerId dto =
     bindA (ofSum (coupon_conditions env c)) (\<lambda>conditions.
     bindA (inS now) (\<lambda>t.
     let evaluated = evaluate env conditions (coupon_facts env customerId dto t) in
     if \<not> rr_matched evaluated \<or> nullish (rr_errors evaluated) [] \<noteq> [] then
       returnA \<lparr>el_eligible = False, el_reasons = rr_reasons evaluated, el_errors = rr_errors evaluated\<rparr>
     else
       bindA (readA (used (\<lambda>_. True) (lc_id c))) (\<lambda>total.
       if over_limit total (lc_usage_limit c) then
         returnA \<lparr>el_eligible = False, el_reasons = [''usage_limit exceeded''], el_errors = None\<rparr>
       else
         bindA (readA (used (\<lambda>u. us_user_id u = customerId) (lc_id c))) (\<lambda>mine.
         if truthy_str customerId \<and> over_limit mine (lc_per_user_limit c) then
           returnA \<lparr>el_eligible = False, el_reasons = [''per_user_limit exceeded''], el_errors = None\<rparr>
         else returnA \<lparr>el_eligible = True, el_reasons = rr_reasons evaluated, el_errors = None\<rparr>))))"

record validation =
  vd_valid :: bool
  vd_couponId :: "string option"
  vd_code :: "string option"
  vd_discount :: "rat option"
  vd_reasons :: "string list"
  vd_errors :: "string list option"

definition validate_coupon :: "mkt_env \<Rightarrow> string option \<Rightarrow> coupon_dto \<Rightarrow> validation mkt_act" where
  "validate_coupon env customerId dto =
     bindA (loadCoupon env (vcd_code dto)) (\<lambda>c.
     bindA (evaluateEligibility env c customerId dto) (\<lambda>result.
     if \<not> el_eligible result then
       returnA \<lparr>vd_valid = False, vd_couponId = None, vd_code = None, vd_discount = None, vd_reasons = el_reasons result, vd_errors = el_errors result\<rparr>
     else
       let discount = computeCouponDiscount (lc_discount_type c) (lc_discount_value c) (vcd_cartTotal dto) (lc_max_discount c) in
       bindA (mkt_emit (CouponAppliedEvent (lc_id c) (lc_code c) customerId discount)) (\<lambda>_.
       returnA \<lparr>vd_valid = True, vd_couponId = Some (lc_id c), vd_code = Some (lc_code c), vd_discount = Some discount,
         vd_reasons = el_reasons result, vd_errors = None\<rparr>)))"

definition order_coupon :: "string \<Rightarrow> string \<Rightarrow> string option \<Rightarrow> unit mkt_act" where
  "order_coupon customerId couponId orderId = (if \<not> truthy_str orderId then returnA ()
     else bindA (readA (\<lambda>w. findOrder (the orderId) (mk_shop w))) (\<lambda>found.
       bindA (throwIf (found = None) (AppException ''NOT_FOUND'' ''Order not found'' 404)) (\<lambda>_.
       bindA (readA (\<lambda>w. mk_order_coupon w (the orderId))) (\<lambda>current.
       bindA (throwIf (truthy_str current \<and> current \<noteq> Some couponId) (AppException ''CONFLICT'' ''Coupon stacking not allowed'' 409)) (\<lambda>_.
       bindA (inS (order_update (the orderId) (\<lambda>r. r\<lparr>or_updated_by := Some customerId\<rparr>))) (\<lambda>_.
       modifyA (\<lambda>w. w\<lparr>mk_order_coupon := (mk_order_coupon w)(the orderId \<mapsto> couponId)\<rparr>)))))))"

definition usage_insert :: "string \<Rightarrow> string \<Rightarrow> string option \<Rightarrow> rat \<Rightarrow> string mkt_act" where
  "usage_insert couponId customerId orderId discount =
     bindA (mkt_id (\<lambda>w. map us_id (mk_usages w))) (\<lambda>i.
     bindA (mkt_check ''P2003'' (\<lambda>w. couponId \<in> set (map cu_id (mk_coupons w)) \<and> customerId \<in> set (mkt_users w)
       \<and> fk_ok orderId (map or_id (sw_order_rows (mk_shop w))))) (\<lambda>_.
     bindA (mkt_check ''23514'' (\<lambda>_. price_ok discount)) (\<lambda>_.
     bindA (modifyA (\<lambda>w. w\<lparr>mk_usages := mk_usages w @ [\<lparr>us_id = i, us_coupon_id = couponId, us_user_id = Some customerId, us_order_id = orderId,
       us_discount = dec2 discount, us_deleted_at = None\<rparr>]\<rparr>)) (\<lambda>_.
     returnA i))))"

definition apply_coupon :: "mkt_env \<Rightarrow> string \<Rightarrow> coupon_dto \<Rightarrow> (string \<times> string \<times> rat option) mkt_act" where
  "apply_coupon env customerId dto =
     mkt_locked [''marketing'', ''coupon'', me_upper env (vcd_code dto)]
     (bindA (validate_coupon env (Some customerId) dto) (\<lambda>validated.
      bindA (throwIf (\<not> vd_valid validated \<or> \<not> truthy_str (vd_couponId validated))
        (AppException ''CONFLICT'' (let s = join_semi (vd_reasons validated) in if s = [] then ''Coupon not eligible'' else s) 409)) (\<lambda>_.
      let couponId = the (vd_couponId validated) in
      bindA (order_coupon customerId couponId (vcd_orderId dto)) (\<lambda>_.
      bindA (usage_insert couponId customerId (vcd_orderId dto) (nullish (vd_discount validated) 0)) (\<lambda>usageId.
      bindA (mkt_emit (CouponRedeemedEvent couponId usageId (Some customerId) (vcd_orderId dto))) (\<lambda>_.
      bindA (mkt_audit ''coupon'' (Some couponId) ''redeem'' (Some customerId) None) (\<lambda>_.
      bindA (inS (logA (''coupon applied code='' @ vcd_code dto @ '' corr='' @ me_correlation env))) (\<lambda>_.
      returnA (usageId, couponId, vd_discount validated)))))))))"

end
