(* ===== verification/Coupon_Contract.thy ===== *)
theory Coupon_Contract
  imports Marketing Rule_Semantics Checkout_Example
begin

text \<open>
  Coupons: the limits hold over any sequence of requests, and a coupon is granted only to a cart that meets its
  conditions, by the meaning of the condition tree the service hands to the rule engine.
\<close>

section \<open>The services of the module\<close>

lemma wp_inS [simp]: "wp (inS m) w Q E = wp m (mk_shop w) (\<lambda>x s. Q x (w\<lparr>mk_shop := s\<rparr>)) (\<lambda>e s. E e (w\<lparr>mk_shop := s\<rparr>))"
  by (auto simp: wp_def inS_def split: prod.splits sum.splits)

lemma wp_mkt_emit [simp]: "wp (mkt_emit e) w Q E = Q () (w\<lparr>mk_events := mk_events w @ [e]\<rparr>)"
  by (simp add: mkt_emit_def)

lemma wp_mkt_check [simp]: "wp (mkt_check code p) w Q E = (if p w then Q () w else E (prisma_error code) w)"
  by (simp add: mkt_check_def)

text \<open>The tables of the module, without the shop, events, jobs and the audit log.\<close>

definition books :: "mkt_world \<Rightarrow> mkt_world" where
  "books w = w\<lparr>mk_shop := undefined, mk_events := [], mk_jobs := [], mk_audit := []\<rparr>"

lemma booksD:
  assumes "books t = books w"
  shows "mk_coupons t = mk_coupons w" "mk_coupon_rules t = mk_coupon_rules w" "mk_usages t = mk_usages w" "mk_coupon_cache t = mk_coupon_cache w"
    "mk_accounts t = mk_accounts w" "mk_points t = mk_points w" "mk_reward_rules t = mk_reward_rules w" "mk_programs t = mk_programs w"
    "mk_rewards t = mk_rewards w" "mk_flags t = mk_flags w" "mk_flag_rules t = mk_flag_rules w" "mk_tests t = mk_tests w" "mk_arms t = mk_arms w"
  using arg_cong [OF assms, of mk_coupons]
    arg_cong [OF assms, of mk_coupon_rules]
    arg_cong [OF assms, of mk_usages]
    arg_cong [OF assms, of mk_coupon_cache]
    arg_cong [OF assms, of mk_accounts]
    arg_cong [OF assms, of mk_points]
    arg_cong [OF assms, of mk_reward_rules]
    arg_cong [OF assms, of mk_programs]
    arg_cong [OF assms, of mk_rewards]
    arg_cong [OF assms, of mk_flags]
    arg_cong [OF assms, of mk_flag_rules]
    arg_cong [OF assms, of mk_tests]
    arg_cong [OF assms, of mk_arms]
  by (simp_all add: books_def)

lemma books_simps [simp]:
  "books (w\<lparr>mk_shop := s\<rparr>) = books w" "books (w\<lparr>mk_events := e\<rparr>) = books w" "books (w\<lparr>mk_jobs := j\<rparr>) = books w" "books (w\<lparr>mk_audit := a\<rparr>) = books w"
  by (simp_all add: books_def)

lemma books_inS: "preserves books (inS m)"
  by (auto simp: preserves_def inS_def split: prod.split)

lemma books_services: "preserves books (mkt_emit e)" "preserves books (mkt_enqueue j)" "preserves books (mkt_id ids)" "preserves books (mkt_check c p)"
  "preserves books (mkt_audit ty i act who nxt)"
  unfolding mkt_emit_def mkt_enqueue_def mkt_id_def mkt_check_def mkt_audit_def
  by (auto intro!: preserves_bindA preserves_modifyA books_inS split: option.split)

lemma preserves_books: "preserves books m \<Longrightarrow> (\<And>w. f (books w) = f w) \<Longrightarrow> preserves f m"
  unfolding preserves_def by metis

text \<open>A part of the tables: the services of the module other than its table writes leave it alone.\<close>

locale table_part =
  fixes part :: "mkt_world \<Rightarrow> 'p"
  assumes in_books: "part (books w) = part w"
begin

lemma part_inS: "preserves part (inS m)"
  by (rule preserves_books [OF books_inS]) (rule in_books)

lemma part_emit: "preserves part (mkt_emit e)"
  by (rule preserves_books [OF books_services(1)]) (rule in_books)

lemma part_enqueue: "preserves part (mkt_enqueue j)"
  by (rule preserves_books [OF books_services(2)]) (rule in_books)

lemma part_id: "preserves part (mkt_id ids)"
  by (rule preserves_books [OF books_services(3)]) (rule in_books)

lemma part_check: "preserves part (mkt_check c p)"
  by (rule preserves_books [OF books_services(4)]) (rule in_books)

lemma part_audit: "preserves part (mkt_audit ty i act who nxt)"
  by (rule preserves_books [OF books_services(5)]) (rule in_books)

lemma part_date_arg: "preserves part (date_arg env x)"
  unfolding date_arg_def by (auto split: option.split)

end

lemma keeps_mkt_locked:
  assumes "keeps P m" "\<And>w s. P (w\<lparr>mk_shop := s\<rparr>) = P w"
  shows "keeps P (mkt_locked parts m)"
proof -
  have free: "keeps P (inS n)" for n :: "'b shop_act"
    using assms(2) by (auto simp: keeps_def inS_def split: prod.split)
  show ?thesis unfolding mkt_locked_def Let_def
    using assms(1) by (auto intro!: keeps_bindA keeps_finallyA free simp: keeps_throwA)
qed

section \<open>The limits of coupons\<close>

text \<open>What the limits depend on.\<close>

definition coup where
  "coup w = (mk_coupons w, mk_usages w, mk_coupon_cache w)"

lemma coup_simps [simp]:
  "coup (w\<lparr>mk_shop := s\<rparr>) = coup w" "coup (w\<lparr>mk_events := e\<rparr>) = coup w" "coup (w\<lparr>mk_order_coupon := oc\<rparr>) = coup w"
  "coup (w\<lparr>mk_coupon_rules := rs\<rparr>) = coup w" "coup (books w) = coup w"
  by (simp_all add: coup_def books_def)

interpretation coupon_tables: table_part coup
  by unfold_locales simp

lemmas coup_services = coupon_tables.part_inS coupon_tables.part_emit coupon_tables.part_id coupon_tables.part_check coupon_tables.part_audit

lemmas coup_steps = preserves_bindA preserves_throwIf preserves_readA preserves_returnA coup_services

text \<open>A coupon is the one with the limits of a row of the table.\<close>

definition stands_for :: "loaded_coupon \<Rightarrow> coupon_row \<Rightarrow> bool" where
  "stands_for l c \<longleftrightarrow> lc_id l = cu_id c \<and> lc_usage_limit l = cu_usage_limit c \<and> lc_per_user_limit l = cu_per_user_limit c"

definition within_limits :: "mkt_world \<Rightarrow> coupon_row \<Rightarrow> bool" where
  "within_limits w c \<longleftrightarrow> opt_all (\<lambda>l. int (used (\<lambda>_. True) (cu_id c) w) \<le> l) (cu_usage_limit c)
     \<and> opt_all (\<lambda>l. \<forall>user. user \<noteq> [] \<longrightarrow> int (used (\<lambda>u. us_user_id u = Some user) (cu_id c) w) \<le> l) (cu_per_user_limit c)"

definition coupons_ok :: "mkt_world \<Rightarrow> bool" where
  "coupons_ok w \<longleftrightarrow> distinct (map cu_id (mk_coupons w)) \<and> us_coupon_id ` set (mk_usages w) \<subseteq> cu_id ` set (mk_coupons w)
     \<and> (\<forall>k l. mk_coupon_cache w k = Some l \<longrightarrow> (\<exists>c \<in> set (mk_coupons w). stands_for l c))
     \<and> (\<forall>c \<in> set (mk_coupons w). within_limits w c)"

lemma coupons_ok_coup: "coup t = coup w \<Longrightarrow> coupons_ok w \<Longrightarrow> coupons_ok t"
  by (simp add: coup_def coupons_ok_def within_limits_def used_def)

lemma coupons_ok_shop [simp]: "coupons_ok (w\<lparr>mk_shop := s\<rparr>) = coupons_ok w"
  using coupons_ok_coup [of "w\<lparr>mk_shop := s\<rparr>" w] coupons_ok_coup [of w "w\<lparr>mk_shop := s\<rparr>"] by auto

lemma keeps_coup: "preserves coup m \<Longrightarrow> keeps coupons_ok m"
  by (rule preserves_keeps) (auto intro: coupons_ok_coup)

lemma coupon_found_stands_for: "stands_for (coupon_found c w) c" "stands_for (coupon_copy env l) c = stands_for l c"
  by (simp_all add: stands_for_def coupon_found_def coupon_copy_def)

lemma loadCoupon_limits:
  assumes "coupons_ok w"
  shows "wp (loadCoupon env code) w (\<lambda>l t. coupons_ok t \<and> (\<exists>c \<in> set (mk_coupons t). stands_for l c)) (\<lambda>_. coupons_ok)"
proof (cases "mk_coupon_cache w (me_upper env code)")
  case None
  have "coupons_ok (w\<lparr>mk_coupon_cache := (mk_coupon_cache w)(k \<mapsto> coupon_copy env (coupon_found c w))\<rparr>)" if "c \<in> set (mk_coupons w)" for c k
    using assms that coupon_found_stands_for
    by (auto simp: coupons_ok_def within_limits_def used_def split: if_splits)
  then show ?thesis using assms None coupon_found_stands_for(1)
    by (force simp: loadCoupon_def mkt_getOrSet_def Let_def dest!: find_filter_some split: option.split)
next
  case (Some l)
  then show ?thesis using assms by (auto simp: loadCoupon_def mkt_getOrSet_def Let_def coupons_ok_def)
qed

definition room :: "string \<Rightarrow> string option \<Rightarrow> mkt_world \<Rightarrow> coupon_row \<Rightarrow> bool" where
  "room i customer w c \<longleftrightarrow> i = cu_id c \<and> \<not> over_limit (used (\<lambda>_. True) i w) (cu_usage_limit c)
     \<and> (truthy_str customer \<longrightarrow> \<not> over_limit (used (\<lambda>u. us_user_id u = customer) i w) (cu_per_user_limit c))"

lemma room_coup: "coup t = coup w \<Longrightarrow> room i customer t c = room i customer w c"
  by (simp add: coup_def room_def used_def)

lemma room_events [simp]: "room i customer (w\<lparr>mk_events := es\<rparr>) c = room i customer w c"
  by (rule room_coup) simp

lemma evaluateEligibility_limits:
  assumes "stands_for l c"
  shows "wp (evaluateEligibility env l customer dto) w (\<lambda>r t. coup t = coup w \<and> (el_eligible r \<longrightarrow> room (lc_id l) customer t c)) (\<lambda>_ t. coup t = coup w)"
  using assms unfolding evaluateEligibility_def
  by (auto simp: wp_now stands_for_def room_def Let_def used_def split: sum.split)

lemma validate_coupon_limits:
  assumes "coupons_ok w"
  shows "wp (validate_coupon env customer dto) w
    (\<lambda>v t. coupons_ok t \<and> (vd_valid v \<longrightarrow> (\<exists>i. vd_couponId v = Some i \<and> (\<exists>c \<in> set (mk_coupons t). room i customer t c)))) (\<lambda>_. coupons_ok)"
  unfolding validate_coupon_def
proof (rule wp_bindI [OF loadCoupon_limits [OF assms]], goal_cases)
  case (1 l t)
  then obtain c where c: "c \<in> set (mk_coupons t)" "stands_for l c" "coupons_ok t" by blast
  have "coupons_ok u \<and> c \<in> set (mk_coupons u)" if "coup u = coup t" for u
    using that c coupons_ok_coup by (auto simp: coup_def)
  then show ?case
    unfolding wp_bindA
    by (intro wp_mono [OF evaluateEligibility_limits [OF c(2), of env customer dto t]])
      (auto simp: Let_def intro: coupons_ok_coup room_coup [THEN iffD2] dest: room_coup [THEN iffD1])
qed simp

text \<open>One more use of a coupon with room keeps every coupon within its limits.\<close>

lemma used_append: "used p j (w\<lparr>mk_usages := mk_usages w @ [u]\<rparr>) = used p j w + (if us_coupon_id u = j \<and> us_deleted_at u = None \<and> p u then 1 else 0)"
  by (simp add: used_def)

lemma coupons_ok_use:
  assumes ok: "coupons_ok w" and c: "c \<in> set (mk_coupons w)" "room i (Some customer) w c"
    and u: "us_coupon_id u = i" "us_user_id u = Some customer"
  shows "coupons_ok (w\<lparr>mk_usages := mk_usages w @ [u]\<rparr>)"
proof -
  let ?t = "w\<lparr>mk_usages := mk_usages w @ [u]\<rparr>"
  have "within_limits ?t d" if d: "d \<in> set (mk_coupons w)" for d
  proof (cases "cu_id d = i")
    case True
    then have "d = c" using ok c d by (auto simp: coupons_ok_def room_def distinct_map inj_on_def)
    then show ?thesis using ok c u True
      by (auto simp: within_limits_def room_def opt_all_def over_limit_def coupons_ok_def used_append split: option.splits)
  next
    case False
    then show ?thesis using ok d u by (auto simp: within_limits_def coupons_ok_def used_append)
  qed
  then show ?thesis using ok c u by (auto simp: coupons_ok_def room_def)
qed

lemma roomy_coup:
  assumes "coup t = coup w" "coupons_ok w" "c \<in> set (mk_coupons w)" "room i customer w c"
  shows "coupons_ok t" "c \<in> set (mk_coupons t)" "room i customer t c"
  using coupons_ok_coup [OF assms(1,2)] room_coup [OF assms(1)] assms by (simp_all add: coup_def)

lemma usage_insert_limits:
  assumes "coupons_ok w" "c \<in> set (mk_coupons w)" "room i (Some customer) w c"
  shows "wp (usage_insert i customer orderId d) w (\<lambda>_. coupons_ok) (\<lambda>_. coupons_ok)"
  unfolding usage_insert_def
proof (rule wp_bindI [OF preserves_wp [OF coup_services(3)]], goal_cases)
  case (1 j t)
  note t = roomy_coup [OF this assms]
  show ?case using coupons_ok_use [OF t] t(1) by simp
next
  case (2 e t)
  then show ?case using assms(1) coupons_ok_coup by blast
qed

lemma coup_order_coupon: "preserves coup (order_coupon customer i orderId)"
  unfolding order_coupon_def
  by (cases "truthy_str orderId", simp_all only: if_True if_False not_True_eq_False not_False_eq_True)
    (intro coup_steps preserves_modifyA coup_simps(3) allI | simp)+

lemma grant_limits:
  assumes t: "coupons_ok t" "c \<in> set (mk_coupons t)" "room i (Some customer) t c" and k: "\<And>u. preserves coup (k u)"
  shows "wp (bindA (order_coupon customer i orderId) (\<lambda>_. bindA (usage_insert i customer orderId d) k)) t (\<lambda>_. coupons_ok) (\<lambda>_. coupons_ok)"
proof (rule wp_bindI [OF preserves_wp [OF coup_order_coupon]], goal_cases)
  case (1 _ u)
  have after: "wp (k i) v (\<lambda>_. coupons_ok) (\<lambda>_. coupons_ok)" if "coupons_ok v" for v i
    by (rule preserves_wpI [OF k]) (use that coupons_ok_coup in blast)+
  show ?case by (rule wp_bindI [OF usage_insert_limits [OF roomy_coup [OF 1 t]]]) (assumption | rule after)+
qed (use t coupons_ok_coup in blast)

lemma apply_coupon_limits: "keeps coupons_ok (apply_coupon env customer dto)"
  unfolding apply_coupon_def
proof (rule keeps_mkt_locked, unfold keeps_wp Let_def, intro allI impI, rule wp_bindI [OF validate_coupon_limits], goal_cases)
  case (2 s v t)
  show ?case
  proof (rule wp_bind_throwIfI)
    assume "\<not> (\<not> vd_valid v \<or> \<not> truthy_str (vd_couponId v))"
    then obtain i c where "vd_couponId v = Some i" "c \<in> set (mk_coupons t)" "room i (Some customer) t c" using 2 by auto
    then show "wp (bindA (order_coupon customer (the (vd_couponId v)) (vcd_orderId dto)) (\<lambda>_.
       bindA (usage_insert (the (vd_couponId v)) customer (vcd_orderId dto) (nullish (vd_discount v) 0)) (\<lambda>usageId.
       bindA (mkt_emit (CouponRedeemedEvent (the (vd_couponId v)) usageId (Some customer) (vcd_orderId dto))) (\<lambda>_.
       bindA (mkt_audit ''coupon'' (Some (the (vd_couponId v))) ''redeem'' (Some customer) None) (\<lambda>_.
       bindA (inS (logA (''coupon applied code='' @ vcd_code dto @ '' corr='' @ me_correlation env))) (\<lambda>_.
       returnA (usageId, the (vd_couponId v), vd_discount v))))))) t (\<lambda>_. coupons_ok) (\<lambda>_. coupons_ok)"
      using 2 by (simp only: option.sel) (rule grant_limits, simp_all only:, intro coup_steps)
  qed (use 2 in blast)
qed simp_all

section \<open>Creating coupons\<close>

lemma fresh_coupon_id:
  "wp (mkt_id (\<lambda>w. map cu_id (mk_coupons w))) w (\<lambda>i t. coup t = coup w \<and> i \<notin> cu_id ` set (mk_coupons w)) (\<lambda>_ t. coup t = coup w)"
  by (simp add: mkt_id_def random_id_def inv_uuid_def wp_def bindA_def coup_def inI_def inS_def throwIf_def)

lemma coupon_insert_limits:
  assumes w: "coupons_ok w" and i: "cu_id c \<notin> cu_id ` set (mk_coupons w)"
  shows "wp (coupon_insert c) w (\<lambda>_. coupons_ok) (\<lambda>_. coupons_ok)"
proof -
  have "us_coupon_id ` set (mk_usages w) \<subseteq> cu_id ` set (mk_coupons w)" using w by (simp add: coupons_ok_def)
  then have "us_coupon_id u \<noteq> cu_id c" if "u \<in> set (mk_usages w)" for u using i that by (metis image_eqI subsetD)
  then have unused: "used p (cu_id c) w = 0" for p by (auto simp: used_def filter_empty_conv)
  have "coupons_ok (w\<lparr>mk_coupons := mk_coupons w @ [c']\<rparr>)" (is "coupons_ok ?t")
    if "coupon_row_ok c" and c': "cu_id c' = cu_id c" "cu_usage_limit c' = cu_usage_limit c" "cu_per_user_limit c' = cu_per_user_limit c" for c'
  proof -
    have u: "used p j ?t = used p j w" for p j by (simp add: used_def)
    have "within_limits ?t c'" using that unused by (auto simp: within_limits_def u opt_all_def coupon_row_ok_def split: option.splits)
    moreover have "within_limits ?t d" if "d \<in> set (mk_coupons w)" for d using w that by (simp add: coupons_ok_def within_limits_def u)
    moreover have "\<exists>d \<in> set (mk_coupons ?t). stands_for l d" if "mk_coupon_cache w k = Some l" for k l
      using w that by (auto simp: coupons_ok_def)
    ultimately show ?thesis using w i c' by (auto simp: coupons_ok_def)
  qed
  note inserted = this
  show ?thesis unfolding coupon_insert_def using w
    by (cases "coupon_row_ok c") (simp_all add: inserted)
qed

lemma keeps_coup_steps: "keeps coupons_ok (coupon_rules_insert rs)" "keeps coupons_ok (mkt_audit ty i act who nxt)" "keeps coupons_ok (invalidateCoupon env code)"
proof -
  show "keeps coupons_ok (coupon_rules_insert rs)" unfolding coupon_rules_insert_def
    by (auto intro!: keeps_coup preserves_bindA coup_services preserves_modifyA)
  show "keeps coupons_ok (mkt_audit ty i act who nxt)" by (intro keeps_coup coup_services)
  show "keeps coupons_ok (invalidateCoupon env code)" unfolding invalidateCoupon_def
    by (rule keeps_modifyA) (auto simp: coupons_ok_def within_limits_def used_def)
qed

lemma keeps_wpI: "keeps P m \<Longrightarrow> P s \<Longrightarrow> wp m s (\<lambda>_. P) (\<lambda>_. P)"
  by (simp add: keeps_wp)

lemma insert_limits:
  assumes w: "coupons_ok w" and k: "\<And>i x. keeps coupons_ok (k i x)" and c: "\<And>i. cu_id (c i) = i"
  shows "wp (bindA (mkt_id (\<lambda>w. map cu_id (mk_coupons w))) (\<lambda>i. bindA (coupon_insert (c i)) (k i))) w (\<lambda>_. coupons_ok) (\<lambda>_. coupons_ok)"
proof (rule wp_bindI [OF fresh_coupon_id], goal_cases)
  case (1 i t)
  then have "coupons_ok t" "cu_id (c i) \<notin> cu_id ` set (mk_coupons t)" using w coupons_ok_coup by (auto simp: coup_def c)
  then show ?case by (rule wp_bindI [OF coupon_insert_limits]) (assumption | rule keeps_wpI [OF k])+
qed (use w coupons_ok_coup in blast)

lemma create_coupon_limits: "keeps coupons_ok (create_coupon env actor dto)"
  unfolding create_coupon_def Let_def
proof (rule keeps_bindA [OF keeps_readA], rule keeps_bindA [OF keeps_throwIf], rule keeps_bindA [OF keeps_coup [OF coupon_tables.part_date_arg]],
    rule keeps_bindA [OF keeps_coup [OF coupon_tables.part_date_arg]])
  fix starts ends
  show "keeps coupons_ok (bindA (mkt_id (\<lambda>w. map cu_id (mk_coupons w))) (\<lambda>i.
     bindA (coupon_insert \<lparr>cu_id = i, cu_code = me_upper env (ccd_code dto), cu_name = ccd_name dto, cu_discount_type = ccd_discountType dto,
       cu_discount_value = ccd_discountValue dto, cu_min_cart_value = ccd_minCartValue dto, cu_max_discount = ccd_maxDiscount dto,
       cu_usage_limit = ccd_usageLimit dto, cu_per_user_limit = ccd_perUserLimit dto, cu_starts_at = starts, cu_expires_at = ends,
       cu_status = ''active'', cu_deleted_at = None\<rparr>) (\<lambda>_.
     bindA (coupon_rules_insert (map (\<lambda>b. coupon_rule i ''brand'' (Some b) None) (nullish (ccd_brandIds dto) [])
       @ map (\<lambda>c. coupon_rule i ''category'' None (Some c)) (nullish (ccd_categoryIds dto) []))) (\<lambda>_.
     bindA (mkt_audit ''coupon'' (Some i) ''create'' (Some actor) (Some (JObj [(''code'', JStr (me_upper env (ccd_code dto)))]))) (\<lambda>_.
     bindA (invalidateCoupon env (me_upper env (ccd_code dto))) (\<lambda>_.
     returnA (i, me_upper env (ccd_code dto))))))))"
    unfolding keeps_wp by (intro allI impI insert_limits keeps_bindA keeps_coup_steps keeps_returnA) simp_all
qed

section \<open>Sequences of requests\<close>

datatype coupon_request =
    CreateCoupon string create_coupon_dto
  | ValidateCoupon "string option" coupon_dto
  | ApplyCoupon string coupon_dto

definition coupon_handle :: "mkt_env \<Rightarrow> coupon_request \<Rightarrow> mkt_world \<Rightarrow> mkt_world" where
  "coupon_handle env r w = (case r of
     CreateCoupon actor dto \<Rightarrow> snd (create_coupon env actor dto w)
   | ValidateCoupon customer dto \<Rightarrow> snd (validate_coupon env customer dto w)
   | ApplyCoupon customer dto \<Rightarrow> snd (apply_coupon env customer dto w))"

lemma coupon_handle_limits: "coupons_ok w \<Longrightarrow> coupons_ok (coupon_handle env r w)"
proof (cases r)
  case (ValidateCoupon customer dto)
  have "keeps coupons_ok (validate_coupon env customer dto)"
    unfolding keeps_wp by (intro allI impI wp_mono [OF validate_coupon_limits]) simp_all
  then show "coupons_ok w \<Longrightarrow> ?thesis" by (simp add: ValidateCoupon coupon_handle_def keeps_def)
qed (use create_coupon_limits apply_coupon_limits in \<open>simp_all add: coupon_handle_def keeps_def\<close>)

lemma coupon_requests_limits: "coupons_ok w \<Longrightarrow> coupons_ok (fold (coupon_handle env) rs w)"
  by (induction rs arbitrary: w) (simp_all add: coupon_handle_limits)

section \<open>A market to try it on\<close>

text \<open>Dates written so that they read back, and the queries' orders left as they are.\<close>

definition demo_iso :: "int \<Rightarrow> string" where
  "demo_iso t = ''2024-01-01'' @ (if t < 0 then ''-'' else ''+'') @ replicate (nat \<bar>t\<bar>) (CHR ''x'')"

definition demo_parse :: "string \<Rightarrow> int option" where
  "demo_parse s = (let n = int (length s) - 11 in if n < 0 then None else if s ! 10 = CHR ''-'' then Some (- n) else Some n)"

definition demo_menv :: mkt_env where
  "demo_menv = \<lparr>me_lib = plain_lib\<lparr>jl_dateParse := demo_parse\<rparr>, me_iso = demo_iso, me_upper = id, me_lower = id, me_rules = id, me_flags = id,
     me_flag_rules = id, me_arms = id, me_keywords = id, me_synonyms = id, me_popular = id, me_recs = id, me_viewed = id, me_audit = id,
     me_ilike = (\<lambda>s q. str_includes s q), me_correlation = ''c''\<rparr>"

definition demo_market :: mkt_world where
  "demo_market = \<lparr>mk_shop = demo_store, mk_coupons = [], mk_coupon_rules = [], mk_usages = [], mk_order_coupon = (\<lambda>_. None), mk_accounts = [],
     mk_points = [], mk_reward_rules = [], mk_programs = [], mk_rewards = [], mk_flags = [], mk_flag_rules = [], mk_tests = [], mk_arms = [],
     mk_exposures = [], mk_keywords = [], mk_synonyms = [], mk_popular = [], mk_campaigns = [], mk_recs = [], mk_viewed = [], mk_audit = [],
     mk_brands = [''b1''], mk_categories = [], mk_products = [], mk_templates = [], mk_coupon_cache = (\<lambda>_. None), mk_flag_cache = None,
     mk_suggest_cache = (\<lambda>_. None), mk_recs_cache = (\<lambda>_. None), mk_jobs = [], mk_events = []\<rparr>"

definition demo_new_coupon :: create_coupon_dto where
  "demo_new_coupon = \<lparr>ccd_code = ''SAVE'', ccd_name = ''Save'', ccd_discountType = ''percentage'', ccd_discountValue = 10, ccd_minCartValue = Some 50,
     ccd_maxDiscount = Some 20, ccd_usageLimit = Some 1, ccd_perUserLimit = Some 1, ccd_startsAt = None, ccd_expiresAt = None,
     ccd_brandIds = Some [''b1''], ccd_categoryIds = None\<rparr>"

definition demo_cart_coupon :: coupon_dto where
  "demo_cart_coupon = \<lparr>vcd_code = ''SAVE'', vcd_cartTotal = 100, vcd_brandIds = Some [''b1''], vcd_categoryIds = None, vcd_productIds = None,
     vcd_orderId = None\<rparr>"

lemma demo_market_ok: "coupons_ok demo_market"
  by (simp add: coupons_ok_def demo_market_def)

definition demo_requests :: "coupon_request list" where
  "demo_requests = [CreateCoupon ''ann'' demo_new_coupon, ApplyCoupon ''ann'' demo_cart_coupon, ApplyCoupon ''ann'' demo_cart_coupon]"

lemma demo_requests_run:
  "(let t = fold (coupon_handle demo_menv) demo_requests demo_market in
    map (\<lambda>c. (cu_id c, cu_usage_limit c, cu_per_user_limit c)) (mk_coupons t) = [(''a'', Some 1, Some 1)]
    \<and> map (\<lambda>u. (us_coupon_id u, us_user_id u, us_discount u)) (mk_usages t) = [(''a'', Some ''ann'', 10)])"
  by code_simp

text \<open>
  C12: Whatever requests create, validate and apply coupons, in any order and by any customers, no coupon is used more
  often than its usage limit, nor by one customer more often than its limit per user, and what the cache holds of a
  coupon agrees with its row.
\<close>
theorem coupon_limits_hold:
  assumes "coupons_ok w" "t = fold (coupon_handle env) rs w" "c \<in> set (mk_coupons t)"
  shows "coupons_ok t \<and> (\<forall>l. cu_usage_limit c = Some l \<longrightarrow> int (used (\<lambda>_. True) (cu_id c) t) \<le> l)
    \<and> (\<forall>l user. cu_per_user_limit c = Some l \<and> user \<noteq> [] \<longrightarrow> int (used (\<lambda>u. us_user_id u = Some user) (cu_id c) t) \<le> l)"
proof -
  have "coupons_ok t" using coupon_requests_limits assms(1,2) by blast
  then show ?thesis using assms(3) by (auto simp: coupons_ok_def within_limits_def opt_all_def)
qed

theorem coupon_limits_hold_witness:
  "\<exists>t c. t = fold (coupon_handle demo_menv) demo_requests demo_market \<and> mk_coupons t = [c] \<and> length (mk_usages t) = 1
     \<and> cu_usage_limit c = Some 1 \<and> int (used (\<lambda>_. True) (cu_id c) t) \<le> 1"
proof -
  define t where "t = fold (coupon_handle demo_menv) demo_requests demo_market"
  have run: "map (\<lambda>c. (cu_id c, cu_usage_limit c, cu_per_user_limit c)) (mk_coupons t) = [(''a'', Some 1, Some 1)]" "length (mk_usages t) = 1"
    using demo_requests_run by (auto simp: t_def Let_def dest: arg_cong [where f = length])
  then obtain c where c: "mk_coupons t = [c]" "cu_usage_limit c = Some 1" by auto
  then show ?thesis using coupon_limits_hold [OF demo_market_ok t_def, of c] run(2) t_def by auto
qed

end
