(* ===== verification/Coupon_Verdict.thy ===== *)
theory Coupon_Verdict
  imports Coupon_Contract
begin

text \<open>
  What the rule engine answers for the condition trees of the module: the verdict on the tree of a coupon is the
  conjunction of the coupon's conditions, stated without trees. From it the whole behaviour of \<open>validate\<close>, for a code
  that names nothing, a coupon from the database and one from the cache, and what the cache makes of a coupon with dates.
\<close>

section \<open>Nodes with a verdict\<close>

text \<open>A well-formed node whose meaning on these facts is a truth value.\<close>

definition decided :: "js_lib \<Rightarrow> jsobj \<Rightarrow> json \<Rightarrow> bool \<Rightarrow> bool" where
  "decided L facts c b \<longleftrightarrow> (\<forall>path. validateConditionTree c path = []) \<and> meaning (OperatorRegistry L) facts c = Some b \<and> \<not> is_nullish c"

lemma evaluate_decided:
  assumes "decided (me_lib env) facts c b" "distinct (map fst facts)"
  shows "rr_matched (evaluate env c facts) = b" "nullish (rr_errors (evaluate env c facts)) [] = []"
proof -
  have "denotes (evaluateConditions (OperatorRegistry (me_lib env)) c (deepFreezeFacts facts)
      \<lparr>ro_collectReasons = None, ro_shortCircuit = None, ro_matchScore = None\<rparr>) (Some b)"
    using assms evaluateConditions_denotes [of c _ "OperatorRegistry (me_lib env)" facts]
    by (simp add: decided_def deepFreezeFacts_same)
  then show "rr_matched (evaluate env c facts) = b" "nullish (rr_errors (evaluate env c facts)) [] = []"
    by (auto simp: evaluate_def denotes_def evaluateRule_def Let_def okResult_def nullish_def)
qed

lemma validate_children_nil: "(\<And>c path. c \<in> set cs \<Longrightarrow> validateConditionTree c path = []) \<Longrightarrow> validate_children cs i p = []"
  by (induction cs arbitrary: i) auto

lemma meaning_all_decided: "list_all2 (decided L facts) cs bs \<Longrightarrow> meaning_all (OperatorRegistry L) facts cs = Some (list_all id bs)"
  by (induction rule: list_all2_induct) (auto simp: decided_def split: bool.split)

lemma meaning_any_decided: "list_all2 (decided L facts) cs bs \<Longrightarrow> meaning_any (OperatorRegistry L) facts cs = Some (list_ex id bs)"
  by (induction rule: list_all2_induct) (auto simp: decided_def split: bool.split)

lemma decided_children: "list_all2 (decided L facts) cs bs \<Longrightarrow> validate_children cs i p = []"
  by (induction arbitrary: i rule: list_all2_induct) (auto simp: decided_def)

lemma decided_all: "list_all2 (decided L facts) cs bs \<Longrightarrow> decided L facts (JObj [(''all'', JArr cs)]) (list_all id bs)"
  by (simp add: decided_def is_nullish_def decided_children meaning_all_decided)

lemma decided_any: "list_all2 (decided L facts) cs bs \<Longrightarrow> decided L facts (JObj [(''any'', JArr cs)]) (list_ex id bs)"
  by (simp add: decided_def is_nullish_def decided_children meaning_any_decided)

lemma decided_all_parts: "list_all2 (decided L facts) cs bs \<Longrightarrow> decided L facts (all_parts cs) (list_all id bs)"
  using decided_all [of L facts cs bs]
  by (auto simp: all_parts_def list_all2_Cons1 split: list.split)

text \<open>A leaf on an identifier path with an operator of the registry.\<close>

lemma decided_leaf:
  assumes "walk (JObj facts) (split_dot path) = a" "isValidPath path" "path \<noteq> []" "or_error (f path a x) = None"
    "map_of (DEFAULT_OPERATORS L) op = Some f" "op \<in> set OPERATORS" "op \<noteq> ''field''" "op \<notin> set LOGICAL"
  shows "decided L facts (JObj [(''field'', JStr path), (op, x)]) (or_matched (f path a x))"
  using assms
  by (auto simp: decided_def is_nullish_def LOGICAL_def validate_leaf_def leaf_meaning_def leafOperator_def obj_keys_def obj_get_def
    OperatorRegistry_map Let_def)

lemma decided_compare:
  assumes "walk (JObj facts) (split_dot path) = a" "isValidPath path" "path \<noteq> []" "compareOrdered L a x = Inr (Some n)"
  shows "decided L facts (JObj [(''field'', JStr path), (''gte'', x)]) (0 \<le> n)" "decided L facts (JObj [(''field'', JStr path), (''lte'', x)]) (n \<le> 0)"
  using decided_leaf [OF assms(1-3), of "GteOperator L" x L "''gte''"] decided_leaf [OF assms(1-3), of "LteOperator L" x L "''lte''"] assms(4)
  by (simp_all add: GteOperator_def LteOperator_def cmpOp_def ok_res_def DEFAULT_OPERATORS_def OPERATORS_def LOGICAL_def Let_def)

section \<open>The tree of a coupon\<close>

text \<open>What the code relies on of the language: \<open>toISOString\<close> gives a date the date parser reads back.\<close>

definition iso_dates :: "mkt_env \<Rightarrow> bool" where
  "iso_dates env \<longleftrightarrow> (\<forall>t. jl_dateParse (me_lib env) (me_iso env t) = Some t \<and> date_like (me_iso env t))"

definition minimum_of :: "loaded_coupon \<Rightarrow> rat option" where
  "minimum_of l = (case lc_min_cart_value l of Some v \<Rightarrow> Some v
     | None \<Rightarrow> Option.bind (find (\<lambda>r. cr_type r = ''min_cart_value'') (lc_rules l)) cr_value)"

definition brands_of :: "loaded_coupon \<Rightarrow> string list" where
  "brands_of l = map (\<lambda>r. the (cr_brand_id r)) (filter (\<lambda>r. cr_type r = ''brand'' \<and> truthy_str (cr_brand_id r)) (lc_rules l))"

definition categories_of :: "loaded_coupon \<Rightarrow> string list" where
  "categories_of l = map (\<lambda>r. the (cr_category_id r)) (filter (\<lambda>r. cr_type r = ''category'' \<and> truthy_str (cr_category_id r)) (lc_rules l))"

definition touches :: "string list \<Rightarrow> string list \<Rightarrow> bool" where
  "touches restricted ids \<longleftrightarrow> restricted = [] \<or> (\<exists>i \<in> set restricted. i \<in> set ids)"

text \<open>The conditions of a coupon, without trees: minimum, dates, and a brand and a category of the cart.\<close>

definition coupon_admits :: "loaded_coupon \<Rightarrow> int option \<Rightarrow> int option \<Rightarrow> coupon_dto \<Rightarrow> int \<Rightarrow> bool" where
  "coupon_admits l starts expires dto t \<longleftrightarrow> opt_all (\<lambda>m. m \<le> vcd_cartTotal dto) (minimum_of l) \<and> opt_all (\<lambda>s. s \<le> t) starts \<and> opt_all (\<lambda>e. t \<le> e) expires
     \<and> touches (brands_of l) (nullish (vcd_brandIds dto) []) \<and> touches (categories_of l) (nullish (vcd_categoryIds dto) [])"

lemma fact_paths:
  "split_dot ''cart.total'' = [''cart'', ''total'']" "split_dot ''now'' = [''now'']" "split_dot ''cart.brandIds'' = [''cart'', ''brandIds'']"
  "split_dot ''cart.categoryIds'' = [''cart'', ''categoryIds'']"
  "isValidPath ''cart.total''" "isValidPath ''now''" "isValidPath ''cart.brandIds''" "isValidPath ''cart.categoryIds''"
  by code_simp+

lemma fact_values:
  "walk (JObj (coupon_facts env cust dto t)) (split_dot ''cart.total'') = jnum (vcd_cartTotal dto)"
  "walk (JObj (coupon_facts env cust dto t)) (split_dot ''now'') = JStr (me_iso env t)"
  "walk (JObj (coupon_facts env cust dto t)) (split_dot ''cart.brandIds'') = JArr (map JStr (nullish (vcd_brandIds dto) []))"
  "walk (JObj (coupon_facts env cust dto t)) (split_dot ''cart.categoryIds'') = JArr (map JStr (nullish (vcd_categoryIds dto) []))"
  by (simp_all add: fact_paths(1-4) coupon_facts_def obj_get_def)

lemma minimum_decided: "decided (me_lib env) (coupon_facts env cust dto t) (JObj [(''field'', JStr ''cart.total''), (''gte'', jnum v)]) (v \<le> vcd_cartTotal dto)"
  using decided_compare(1) [OF fact_values(1) fact_paths(5), where L = "me_lib env" and x = "jnum v" and n = "vcd_cartTotal dto - v"]
  by (simp add: compareOrdered_def toComparable_def)

lemma bounds_decided:
  assumes "iso_dates env"
  shows "decided (me_lib env) (coupon_facts env cust dto t) (JObj [(''field'', JStr ''now''), (''gte'', JStr (me_iso env s))]) (s \<le> t)"
    "decided (me_lib env) (coupon_facts env cust dto t) (JObj [(''field'', JStr ''now''), (''lte'', JStr (me_iso env s))]) (t \<le> s)"
proof -
  have "compareOrdered (me_lib env) (JStr (me_iso env t)) (JStr (me_iso env s)) = Inr (Some (of_int (t - s)))"
    using assms by (simp add: iso_dates_def compareOrdered_def toComparable_def)
  from decided_compare [OF fact_values(2) fact_paths(6) _ this]
  show "decided (me_lib env) (coupon_facts env cust dto t) (JObj [(''field'', JStr ''now''), (''gte'', JStr (me_iso env s))]) (s \<le> t)"
    "decided (me_lib env) (coupon_facts env cust dto t) (JObj [(''field'', JStr ''now''), (''lte'', JStr (me_iso env s))]) (t \<le> s)"
    by simp_all
qed

text \<open>Identifiers that do not look like dates are compared as strings.\<close>

lemma same_id: "\<not> date_like i \<Longrightarrow> valuesEqual L (JStr v) (JStr i) = (v = i)"
  by (auto simp: valuesEqual_def toComparable_def split: option.split)

lemma contains_decided:
  assumes "\<not> date_like i" "isValidPath path" "path \<noteq> []" "walk (JObj facts) (split_dot path) = JArr (map JStr ids)"
  shows "decided L facts (JObj [(''field'', JStr path), (''contains'', JStr i)]) (i \<in> set ids)"
proof -
  have "(\<exists>v \<in> set ids. v = i) = (i \<in> set ids)" by blast
  then show ?thesis
    using decided_leaf [OF assms(4,2,3), of "ContainsOperator L" "JStr i" L "''contains''"] assms same_id
    by (simp add: DEFAULT_OPERATORS_def OPERATORS_def LOGICAL_def ContainsOperator_def ok_res_def list_ex_iff)
qed

lemma any_of_decided:
  assumes "list_all (\<lambda>i. \<not> date_like i) restricted" "isValidPath path" "path \<noteq> []" "walk (JObj facts) (split_dot path) = JArr (map JStr ids)"
  shows "decided L facts (any_of path restricted) (\<exists>i \<in> set restricted. i \<in> set ids)"
proof -
  have "list_all2 (decided L facts) (map (\<lambda>i. JObj [(''field'', JStr path), (''contains'', JStr i)]) restricted) (map (\<lambda>i. i \<in> set ids) restricted)"
    using assms contains_decided by (simp add: list_all2_conv_all_nth list_all_length)
  from decided_any [OF this] show ?thesis by (simp add: any_of_def list_ex_iff)
qed

lemma restriction_decided:
  assumes "list_all (\<lambda>i. \<not> date_like i) (brands @ categories)"
  shows "list_all2 (decided (me_lib env) (coupon_facts env cust dto t)) (case restrictionNode brands categories of None \<Rightarrow> [] | Some x \<Rightarrow> [x])
    (case restrictionNode brands categories of None \<Rightarrow> [] | Some x \<Rightarrow>
      [touches brands (nullish (vcd_brandIds dto) []) \<and> touches categories (nullish (vcd_categoryIds dto) [])])
    \<and> (restrictionNode brands categories = None \<longrightarrow> brands = [] \<and> categories = [])"
proof -
  let ?F = "coupon_facts env cust dto t"
  have b: "decided (me_lib env) ?F (any_of ''cart.brandIds'' brands) (\<exists>i \<in> set brands. i \<in> set (nullish (vcd_brandIds dto) []))"
    by (rule any_of_decided [OF _ fact_paths(7) _ fact_values(3)]) (use assms in simp_all)
  have c: "decided (me_lib env) ?F (any_of ''cart.categoryIds'' categories) (\<exists>i \<in> set categories. i \<in> set (nullish (vcd_categoryIds dto) []))"
    by (rule any_of_decided [OF _ fact_paths(8) _ fact_values(4)]) (use assms in simp_all)
  have both: "decided (me_lib env) ?F (JObj [(''all'', JArr [any_of ''cart.brandIds'' brands, any_of ''cart.categoryIds'' categories])])
      ((\<exists>i \<in> set brands. i \<in> set (nullish (vcd_brandIds dto) [])) \<and> (\<exists>i \<in> set categories. i \<in> set (nullish (vcd_categoryIds dto) [])))"
    using decided_all [of "me_lib env" ?F "[any_of ''cart.brandIds'' brands, any_of ''cart.categoryIds'' categories]"
      "[\<exists>i \<in> set brands. i \<in> set (nullish (vcd_brandIds dto) []), \<exists>i \<in> set categories. i \<in> set (nullish (vcd_categoryIds dto) [])]"] b c
    by simp
  show ?thesis using b c both by (cases "brands = []"; cases "categories = []") (simp_all add: restrictionNode_def touches_def)
qed

lemma iso_bound_date:
  "iso_bound env op (date_json d) = Inr (case d of None \<Rightarrow> [] | Some s \<Rightarrow> [JObj [(''field'', JStr ''now''), (op, JStr (me_iso env s))]])"
  by (simp add: iso_bound_def date_json_def split: option.split)

definition plain_ids :: "loaded_coupon \<Rightarrow> bool" where
  "plain_ids l \<longleftrightarrow> list_all (\<lambda>i. \<not> date_like i) (brands_of l @ categories_of l)"

text \<open>Primary keys are UUIDs, which do not look like dates: their fifth character is no dash.\<close>

lemma uuid_not_date_like: "is_uuid s \<Longrightarrow> \<not> date_like s"
proof
  assume "is_uuid s" "date_like s"
  then have "s ! 4 = CHR ''-''" and len: "length s = 36" and
    all: "list_all (\<lambda>(k, c). if k \<in> {8, 13, 18, 23 :: nat} then c = CHR ''-'' else is_hex c) (zip [0..<36] s)"
    by (simp_all add: is_uuid_def date_like_def)
  moreover have "zip [0..<36] s ! 4 = (4, s ! 4)" using len by simp
  moreover have "(case zip [0..<36] s ! 4 of (k, c) \<Rightarrow> if k \<in> {8, 13, 18, 23 :: nat} then c = CHR ''-'' else is_hex c)"
    using all len by (simp add: list_all_length)
  ultimately have "is_hex CHR ''-''" by simp
  then show False by (simp add: is_hex_def)
qed

lemma uuids_plain: "list_all is_uuid (brands_of l @ categories_of l) \<Longrightarrow> plain_ids l"
  using uuid_not_date_like by (auto simp: plain_ids_def list_all_iff)

lemma coupon_tree_decided:
  assumes "iso_dates env" "plain_ids l" "lc_starts_at l = date_json starts" "lc_expires_at l = date_json expires"
  shows "\<exists>c. coupon_conditions env l = Inr c \<and> decided (me_lib env) (coupon_facts env cust dto t) c (coupon_admits l starts expires dto t)"
proof -
  let ?D = "decided (me_lib env) (coupon_facts env cust dto t)"
  let ?ids = "touches (brands_of l) (nullish (vcd_brandIds dto) []) \<and> touches (categories_of l) (nullish (vcd_categoryIds dto) [])"
  define m where "m = (case minimum_of l of None \<Rightarrow> [] | Some v \<Rightarrow> [JObj [(''field'', JStr ''cart.total''), (''gte'', jnum v)]])"
  define s where "s = (case starts of None \<Rightarrow> [] | Some d \<Rightarrow> [JObj [(''field'', JStr ''now''), (''gte'', JStr (me_iso env d))]])"
  define e where "e = (case expires of None \<Rightarrow> [] | Some d \<Rightarrow> [JObj [(''field'', JStr ''now''), (''lte'', JStr (me_iso env d))]])"
  define x where "x = (case restrictionNode (brands_of l) (categories_of l) of None \<Rightarrow> [] | Some n \<Rightarrow> [n])"
  have tree: "coupon_conditions env l = Inr (all_parts (m @ s @ e @ x))"
    by (simp add: coupon_conditions_def Let_def buildCouponConditions_def assms(3,4) iso_bound_date m_def s_def e_def x_def minimum_of_def brands_of_def
      categories_of_def cong: option.case_cong)
  have "list_all2 ?D m (case minimum_of l of None \<Rightarrow> [] | Some v \<Rightarrow> [v \<le> vcd_cartTotal dto])"
    by (simp add: m_def minimum_decided split: option.split)
  moreover have "list_all2 ?D s (case starts of None \<Rightarrow> [] | Some d \<Rightarrow> [d \<le> t])" "list_all2 ?D e (case expires of None \<Rightarrow> [] | Some d \<Rightarrow> [t \<le> d])"
    by (simp_all add: s_def e_def bounds_decided [OF assms(1)] split: option.split)
  moreover have x: "list_all2 ?D x (case restrictionNode (brands_of l) (categories_of l) of None \<Rightarrow> [] | Some n \<Rightarrow> [?ids])"
    "restrictionNode (brands_of l) (categories_of l) = None \<Longrightarrow> ?ids"
    using restriction_decided [OF assms(2) [unfolded plain_ids_def], of env cust dto t] by (auto simp: x_def touches_def)
  ultimately have "?D (all_parts (m @ s @ e @ x)) (list_all id ((case minimum_of l of None \<Rightarrow> [] | Some v \<Rightarrow> [v \<le> vcd_cartTotal dto])
      @ (case starts of None \<Rightarrow> [] | Some d \<Rightarrow> [d \<le> t]) @ (case expires of None \<Rightarrow> [] | Some d \<Rightarrow> [t \<le> d])
      @ (case restrictionNode (brands_of l) (categories_of l) of None \<Rightarrow> [] | Some n \<Rightarrow> [?ids])))"
    by (intro decided_all_parts list_all2_appendI)
  moreover have "list_all id ((case minimum_of l of None \<Rightarrow> [] | Some v \<Rightarrow> [v \<le> vcd_cartTotal dto])
      @ (case starts of None \<Rightarrow> [] | Some d \<Rightarrow> [d \<le> t]) @ (case expires of None \<Rightarrow> [] | Some d \<Rightarrow> [t \<le> d])
      @ (case restrictionNode (brands_of l) (categories_of l) of None \<Rightarrow> [] | Some n \<Rightarrow> [?ids])) = coupon_admits l starts expires dto t"
    using x(2) by (auto simp: coupon_admits_def opt_all_def split: option.splits)
  ultimately show ?thesis using tree by simp
qed

lemma coupon_verdict:
  assumes "iso_dates env" "plain_ids l" "lc_starts_at l = date_json starts" "lc_expires_at l = date_json expires"
  shows "\<exists>c. coupon_conditions env l = Inr c \<and> rr_matched (evaluate env c (coupon_facts env cust dto t)) = coupon_admits l starts expires dto t
    \<and> nullish (rr_errors (evaluate env c (coupon_facts env cust dto t))) [] = []"
  using coupon_tree_decided [OF assms, of cust dto t] evaluate_decided [of env "coupon_facts env cust dto t"]
  by (fastforce simp: coupon_facts_def)

section \<open>Validation\<close>

definition coupon_clock :: "mkt_world \<Rightarrow> int" where
  "coupon_clock w = iw_clock (sw_inv (mk_shop w)) (iw_reads (sw_inv (mk_shop w)))"

text \<open>The coupon a code names, as the database has it: present, active, and not cached yet.\<close>

definition listed :: "mkt_env \<Rightarrow> string \<Rightarrow> coupon_row \<Rightarrow> mkt_world \<Rightarrow> bool" where
  "listed env code c w \<longleftrightarrow> find (\<lambda>d. cu_code d = me_upper env code \<and> cu_deleted_at d = None) (mk_coupons w) = Some c \<and> cu_status c = ''active''
     \<and> mk_coupon_cache w (me_upper env code) = None"

text \<open>The coupon \<open>loadCoupon\<close> hands out for a code: the cached one, or the active one of the database.\<close>

definition served :: "mkt_env \<Rightarrow> string \<Rightarrow> mkt_world \<Rightarrow> loaded_coupon option" where
  "served env code w = (case mk_coupon_cache w (me_upper env code) of Some l \<Rightarrow> Some l
     | None \<Rightarrow> (case find (\<lambda>d. cu_code d = me_upper env code \<and> cu_deleted_at d = None) (mk_coupons w) of
         Some c \<Rightarrow> if cu_status c = ''active'' then Some (coupon_found c w) else None
       | None \<Rightarrow> None))"

text \<open>Its dates are absent or dates; or one of them is a text, as the cache keeps it.\<close>

definition date_of :: "json \<Rightarrow> int option" where
  "date_of v = (case v of JDate d \<Rightarrow> d | _ \<Rightarrow> None)"

definition live_dates :: "loaded_coupon \<Rightarrow> bool" where
  "live_dates l \<longleftrightarrow> lc_starts_at l = date_json (date_of (lc_starts_at l)) \<and> lc_expires_at l = date_json (date_of (lc_expires_at l))"

definition text_date :: "loaded_coupon \<Rightarrow> bool" where
  "text_date l \<longleftrightarrow> list_ex (\<lambda>v. case v of JStr s \<Rightarrow> s \<noteq> [] | _ \<Rightarrow> False) [lc_starts_at l, lc_expires_at l]"

lemma date_of_json [simp]: "date_of (date_json d) = d"
  by (simp add: date_of_def date_json_def split: option.split)

lemma found_dates: "live_dates (coupon_found c w)"
  by (simp add: live_dates_def coupon_found_def)

text \<open>What the cache keeps of a row is of the one kind or of the other.\<close>

lemma copied_dates:
  assumes "iso_dates env"
  shows "if cu_starts_at c = None \<and> cu_expires_at c = None then live_dates (coupon_copy env (coupon_found c w))
    else text_date (coupon_copy env (coupon_found c w))"
proof -
  have "10 \<le> length (me_iso env t)" for t using assms by (simp add: iso_dates_def date_like_def)
  then have "me_iso env t \<noteq> []" for t by (metis list.size(3) not_numeral_le_zero)
  then show ?thesis
    by (auto simp: live_dates_def text_date_def coupon_copy_def coupon_found_def date_copy_def date_json_def date_of_def split: option.splits)
qed

lemma text_date_throws: "text_date l \<Longrightarrow> \<exists>m. coupon_conditions env l = Inl (JsError m)"
  by (auto simp: text_date_def coupon_conditions_def Let_def buildCouponConditions_def iso_bound_def split: json.splits option.splits)

lemma loadCoupon_served:
  "\<exists>cache. loadCoupon env code w = ((case served env code w of Some l \<Rightarrow> Inr l
     | None \<Rightarrow> Inl (AppException ''NOT_FOUND'' ''Coupon not found'' 404)), w\<lparr>mk_coupon_cache := cache\<rparr>)"
proof (cases "mk_coupon_cache w (me_upper env code)")
  case (Some l)
  then show ?thesis
    by (intro exI [of _ "mk_coupon_cache w"]) (simp add: served_def loadCoupon_def mkt_getOrSet_def Let_def)
next
  case None
  show ?thesis
  proof (cases "find (\<lambda>d. cu_code d = me_upper env code \<and> cu_deleted_at d = None) (mk_coupons w)")
    case (Some c)
    show ?thesis
    proof (cases "cu_status c = ''active''")
      case True
      then show ?thesis using None Some
        by (intro exI [of _ "(mk_coupon_cache w)(me_upper env code \<mapsto> coupon_copy env (coupon_found c w))"])
          (simp add: served_def loadCoupon_def mkt_getOrSet_def Let_def)
    next
      case False
      then show ?thesis using None Some
        by (intro exI [of _ "mk_coupon_cache w"]) (simp add: served_def loadCoupon_def mkt_getOrSet_def Let_def)
    qed
  next
    case none: None
    then show ?thesis using None
      by (intro exI [of _ "mk_coupon_cache w"]) (simp add: served_def loadCoupon_def mkt_getOrSet_def Let_def)
  qed
qed

lemma wp_loadCoupon_listed:
  assumes "listed env code c w"
  shows "wp (loadCoupon env code) w Q E = Q (coupon_found c w)
    (w\<lparr>mk_coupon_cache := (mk_coupon_cache w)(me_upper env code \<mapsto> coupon_copy env (coupon_found c w))\<rparr>)"
  using assms by (simp add: listed_def loadCoupon_def mkt_getOrSet_def Let_def)

lemma evaluateEligibility_decides:
  assumes "coupon_conditions env l = Inr tree" "rr_matched (evaluate env tree (coupon_facts env customer dto (coupon_clock w))) = b"
    "nullish (rr_errors (evaluate env tree (coupon_facts env customer dto (coupon_clock w)))) [] = []"
  shows "ok (evaluateEligibility env l customer dto) w (\<lambda>r u. books u = books w \<and> el_eligible r = (b \<and> \<not> over_limit (used (\<lambda>_. True) (lc_id l) w) (lc_usage_limit l)
    \<and> \<not> (truthy_str customer \<and> over_limit (used (\<lambda>u. us_user_id u = customer) (lc_id l) w) (lc_per_user_limit l))))"
proof -
  have u: "used p i (w\<lparr>mk_shop := s\<rparr>) = used p i w" for p i s by (simp add: used_def)
  show ?thesis using assms unfolding evaluateEligibility_def coupon_clock_def
    by (cases b; cases "over_limit (used (\<lambda>_. True) (lc_id l) w) (lc_usage_limit l)") (simp_all add: wp_now Let_def u)
qed

lemma discount_bounds:
  "0 \<le> computeCouponDiscount ty v amount cap" "0 \<le> amount \<Longrightarrow> computeCouponDiscount ty v amount cap \<le> amount"
  "cap = Some m \<Longrightarrow> 0 \<le> m \<Longrightarrow> computeCouponDiscount ty v amount cap \<le> m"
  by (auto simp: computeCouponDiscount_def Let_def)

text \<open>A coupon of ten percent for carts of brand b1 from 50 on, from time 0 to 1000.\<close>

definition demo_coupon :: coupon_row where
  "demo_coupon = \<lparr>cu_id = ''k1'', cu_code = ''SAVE'', cu_name = ''Save'', cu_discount_type = ''percentage'', cu_discount_value = 10,
     cu_min_cart_value = Some 50, cu_max_discount = Some 20, cu_usage_limit = Some 5, cu_per_user_limit = Some 1, cu_starts_at = Some 0,
     cu_expires_at = Some 1000, cu_status = ''active'', cu_deleted_at = None\<rparr>"

definition demo_couponed :: mkt_world where
  "demo_couponed = demo_market\<lparr>mk_coupons := [demo_coupon], mk_coupon_rules := [coupon_rule ''k1'' ''brand'' (Some ''b1'') None]\<rparr>"

lemma demo_iso_dates: "iso_dates demo_menv"
  by (simp add: iso_dates_def demo_menv_def demo_parse_def demo_iso_def Let_def date_like_def digit_def nth_append)

lemma demo_listed: "listed demo_menv ''SAVE'' demo_coupon demo_couponed" "plain_ids (coupon_found demo_coupon demo_couponed)"
  by (simp add: listed_def demo_menv_def demo_coupon_def demo_couponed_def demo_market_def) code_simp

text \<open>The conditions of a coupon and both its limits.\<close>

definition coupon_open :: "loaded_coupon \<Rightarrow> string option \<Rightarrow> coupon_dto \<Rightarrow> mkt_world \<Rightarrow> bool" where
  "coupon_open l customer dto w \<longleftrightarrow> coupon_admits l (date_of (lc_starts_at l)) (date_of (lc_expires_at l)) dto (coupon_clock w)
     \<and> \<not> over_limit (used (\<lambda>_. True) (lc_id l) w) (lc_usage_limit l)
     \<and> \<not> (truthy_str customer \<and> over_limit (used (\<lambda>u. us_user_id u = customer) (lc_id l) w) (lc_per_user_limit l))"

lemma validate_live:
  assumes "iso_dates env" "plain_ids l" "served env (vcd_code dto) w = Some l" "live_dates l"
  shows "\<exists>v u. validate_coupon env customer dto w = (Inr v, u) \<and> mk_usages u = mk_usages w
    \<and> vd_valid v = coupon_open l customer dto w
    \<and> (vd_valid v \<longrightarrow> vd_couponId v = Some (lc_id l)
        \<and> vd_discount v = Some (computeCouponDiscount (lc_discount_type l) (lc_discount_value l) (vcd_cartTotal dto) (lc_max_discount l)))"
proof -
  let ?adm = "coupon_admits l (date_of (lc_starts_at l)) (date_of (lc_expires_at l)) dto (coupon_clock w)"
  obtain tree where tree: "coupon_conditions env l = Inr tree"
    "rr_matched (evaluate env tree (coupon_facts env customer dto (coupon_clock w))) = ?adm"
    "nullish (rr_errors (evaluate env tree (coupon_facts env customer dto (coupon_clock w)))) [] = []"
    using coupon_verdict [OF assms(1,2)] assms(4) unfolding live_dates_def by blast
  obtain cache where load: "loadCoupon env (vcd_code dto) w = (Inr l, w\<lparr>mk_coupon_cache := cache\<rparr>)"
    using loadCoupon_served [of env "vcd_code dto" w] assms(3) by auto
  define w' where "w' = w\<lparr>mk_coupon_cache := cache\<rparr>"
  have w': "coupon_clock w' = coupon_clock w" "used p i w' = used p i w" "mk_usages w' = mk_usages w" for p i
    by (simp_all add: w'_def coupon_clock_def used_def)
  have "ok (validate_coupon env customer dto) w (\<lambda>v u. mk_usages u = mk_usages w \<and> vd_valid v = coupon_open l customer dto w
    \<and> (vd_valid v \<longrightarrow> vd_couponId v = Some (lc_id l)
        \<and> vd_discount v = Some (computeCouponDiscount (lc_discount_type l) (lc_discount_value l) (vcd_cartTotal dto) (lc_max_discount l))))"
    unfolding validate_coupon_def wp_bindA wp_def [of "loadCoupon env (vcd_code dto)"] load prod.case sum.case w'_def [symmetric]
    by (rule wp_mono [OF evaluateEligibility_decides [OF tree(1), of customer dto w', unfolded w', OF tree(2,3)]])
      (elim conjE, drule booksD(3), simp_all add: Let_def coupon_open_def w')
  from okD [OF this] show ?thesis .
qed

lemma validate_text:
  assumes "served env (vcd_code dto) w = Some l" "text_date l"
  shows "\<exists>m u. validate_coupon env customer dto w = (Inl (JsError m), u) \<and> mk_usages u = mk_usages w"
proof -
  obtain cache where load: "loadCoupon env (vcd_code dto) w = (Inr l, w\<lparr>mk_coupon_cache := cache\<rparr>)"
    using loadCoupon_served [of env "vcd_code dto" w] assms(1) by auto
  from text_date_throws [OF assms(2)] obtain m where "coupon_conditions env l = Inl (JsError m)" by blast
  then show ?thesis
    by (simp add: validate_coupon_def bindA_def load evaluateEligibility_def ofSum_def throwA_def)
qed

text \<open>
  C14: What \<open>validate\<close> answers, whatever the code names. When neither the cache nor the active coupons have it, a
  NOT_FOUND (404), and nothing has changed. When the coupon served has its dates as dates, which is so when it comes from
  the database, and from the cache if it has none, \<open>validate\<close> returns, and answers that the coupon is valid exactly when the cart reaches its
  minimum, the clock is within its dates, the cart has one of its brands and one of its categories (where it names any),
  and neither limit is reached; the discount is then what the type of the coupon says of the cart, at least zero, at
  most the cart total (where that is not negative) and at most the coupon's cap. When it comes from the cache with a
  date, which is then a text, the call throws. In every case no use is recorded. The hypotheses are on the language and the keys:
  \<open>toISOString\<close> is read back by the date parser, and the brands and categories a coupon names do not look like dates, as
  UUIDs never do (\<open>uuids_plain\<close>).
\<close>
theorem validate_decides_admission:
  assumes "iso_dates env" "\<And>l. served env (vcd_code dto) w = Some l \<Longrightarrow> plain_ids l"
  shows "case served env (vcd_code dto) w of
      None \<Rightarrow> \<exists>u. validate_coupon env customer dto w = (Inl (AppException ''NOT_FOUND'' ''Coupon not found'' 404), u) \<and> mk_usages u = mk_usages w
    | Some l \<Rightarrow>
        (live_dates l \<longrightarrow> (\<exists>v u. validate_coupon env customer dto w = (Inr v, u) \<and> mk_usages u = mk_usages w
          \<and> vd_valid v = (coupon_admits l (date_of (lc_starts_at l)) (date_of (lc_expires_at l)) dto (coupon_clock w)
              \<and> \<not> over_limit (used (\<lambda>_. True) (lc_id l) w) (lc_usage_limit l)
              \<and> \<not> (truthy_str customer \<and> over_limit (used (\<lambda>u. us_user_id u = customer) (lc_id l) w) (lc_per_user_limit l)))
          \<and> (vd_valid v \<longrightarrow> vd_couponId v = Some (lc_id l) \<and> (\<exists>d. vd_discount v = Some d
              \<and> d = computeCouponDiscount (lc_discount_type l) (lc_discount_value l) (vcd_cartTotal dto) (lc_max_discount l)
              \<and> 0 \<le> d \<and> (0 \<le> vcd_cartTotal dto \<longrightarrow> d \<le> vcd_cartTotal dto)
              \<and> opt_all (\<lambda>m. 0 \<le> m \<longrightarrow> d \<le> m) (lc_max_discount l)))))
        \<and> (text_date l \<longrightarrow> (\<exists>m u. validate_coupon env customer dto w = (Inl (JsError m), u) \<and> mk_usages u = mk_usages w))
        \<and> (mk_coupon_cache w (me_upper env (vcd_code dto)) = None \<longrightarrow> live_dates l)"
proof (cases "served env (vcd_code dto) w")
  case None
  obtain cache where "loadCoupon env (vcd_code dto) w
      = (Inl (AppException ''NOT_FOUND'' ''Coupon not found'' 404), w\<lparr>mk_coupon_cache := cache\<rparr>)"
    using loadCoupon_served [of env "vcd_code dto" w] None by auto
  then show ?thesis using None by (simp add: validate_coupon_def bindA_def)
next
  case (Some l)
  let ?d = "computeCouponDiscount (lc_discount_type l) (lc_discount_value l) (vcd_cartTotal dto) (lc_max_discount l)"
  have cap: "opt_all (\<lambda>m. 0 \<le> m \<longrightarrow> ?d \<le> m) (lc_max_discount l)"
    by (auto simp: opt_all_def discount_bounds(3) split: option.split)
  have "live_dates l" if "mk_coupon_cache w (me_upper env (vcd_code dto)) = None"
    using Some that found_dates by (auto simp: served_def split: option.splits if_splits)
  moreover note validate_text [OF Some, of customer]
  moreover note validate_live [OF assms(1) assms(2) [OF Some] Some, of customer] cap
  ultimately show ?thesis
    unfolding Some option.case coupon_open_def by (simp add: discount_bounds(1,2))
qed

text \<open>The coupon above from the database, and the same without dates from the cache.\<close>

definition demo_undated :: mkt_world where
  "demo_undated = demo_couponed\<lparr>mk_coupons := [], mk_coupon_cache := (mk_coupon_cache demo_couponed)(''SAVE'' \<mapsto>
     (coupon_found (demo_coupon\<lparr>cu_starts_at := None, cu_expires_at := None\<rparr>) demo_couponed))\<rparr>"

lemma demo_served:
  "served demo_menv (vcd_code demo_cart_coupon) demo_couponed = Some (coupon_found demo_coupon demo_couponed)"
  "served demo_menv (vcd_code demo_cart_coupon) demo_undated
     = Some (coupon_found (demo_coupon\<lparr>cu_starts_at := None, cu_expires_at := None\<rparr>) demo_couponed)"
  by code_simp+

theorem validate_decides_admission_witness:
  "(\<exists>v u. validate_coupon demo_menv (Some ''ann'') demo_cart_coupon demo_couponed = (Inr v, u) \<and> vd_valid v \<and> vd_discount v = Some 10)
   \<and> (\<exists>v u. validate_coupon demo_menv (Some ''ann'') demo_cart_coupon demo_undated = (Inr v, u) \<and> vd_valid v \<and> vd_discount v = Some 10)"
proof -
  let ?l = "coupon_found demo_coupon demo_couponed"
  let ?m = "coupon_found (demo_coupon\<lparr>cu_starts_at := None, cu_expires_at := None\<rparr>) demo_couponed"
  have plain: "plain_ids ?l" "plain_ids ?m" by code_simp+
  have "coupon_open ?l (Some ''ann'') demo_cart_coupon demo_couponed" "coupon_open ?m (Some ''ann'') demo_cart_coupon demo_undated"
    "computeCouponDiscount (lc_discount_type ?l) (lc_discount_value ?l) (vcd_cartTotal demo_cart_coupon) (lc_max_discount ?l) = 10"
    "computeCouponDiscount (lc_discount_type ?m) (lc_discount_value ?m) (vcd_cartTotal demo_cart_coupon) (lc_max_discount ?m) = 10"
    by code_simp+
  note facts = this [unfolded coupon_open_def]
  show ?thesis
    using validate_decides_admission [OF demo_iso_dates, of demo_cart_coupon demo_couponed "Some ''ann''"] facts plain
      validate_decides_admission [OF demo_iso_dates, of demo_cart_coupon demo_undated "Some ''ann''"]
    unfolding demo_served option.case by (auto simp: found_dates)
qed

text \<open>
  C40: A coupon with a start or an expiry date can be read once: the cache keeps its dates as text, so until the entry
  expires or is dropped every further validation of its code throws, whatever the cart and whoever asks.
\<close>
theorem dated_coupon_fails_when_cached:
  assumes "iso_dates env" "listed env (vcd_code dto) c w" "cu_starts_at c \<noteq> None \<or> cu_expires_at c \<noteq> None"
    "me_upper env (vcd_code dto') = me_upper env (vcd_code dto)"
  shows "\<exists>u. validate_coupon env customer' dto' (snd (validate_coupon env customer dto w)) = (Inl (JsError ''toISOString is not a function''), u)"
proof -
  let ?u = "snd (validate_coupon env customer dto w)"
  have "preserves (\<lambda>w. mk_coupon_cache w) (evaluateEligibility env l customer dto)" for l
    unfolding evaluateEligibility_def Let_def
    by (auto simp: preserves_def inS_def bindA_def split: sum.split prod.split)
  then have "wp (validate_coupon env customer dto) w (\<lambda>_ u. mk_coupon_cache u = (mk_coupon_cache w)(me_upper env (vcd_code dto) \<mapsto> coupon_copy env (coupon_found c w)))
      (\<lambda>_ u. mk_coupon_cache u = (mk_coupon_cache w)(me_upper env (vcd_code dto) \<mapsto> coupon_copy env (coupon_found c w)))"
    unfolding validate_coupon_def wp_bindA wp_loadCoupon_listed [OF assms(2)]
    by (rule preserves_wpI) (simp_all add: Let_def)
  then have hit: "mk_coupon_cache ?u (me_upper env (vcd_code dto')) = Some (coupon_copy env (coupon_found c w))"
    using assms(4) by (simp add: wp_def split: prod.splits sum.splits)
  have "10 \<le> length (me_iso env t)" for t using assms(1) by (simp add: iso_dates_def date_like_def)
  then have "me_iso env t \<noteq> []" for t by (metis list.size(3) not_numeral_le_zero)
  then have "coupon_conditions env (coupon_copy env (coupon_found c w)) = Inl (JsError ''toISOString is not a function'')"
    using assms(3) by (auto simp: coupon_conditions_def Let_def buildCouponConditions_def coupon_copy_def coupon_found_def date_copy_def date_json_def
      iso_bound_def split: option.splits)
  then have "wp (validate_coupon env customer' dto') ?u (\<lambda>_ _. False) (\<lambda>e _. e = JsError ''toISOString is not a function'')"
    using hit by (simp add: validate_coupon_def loadCoupon_def mkt_getOrSet_def Let_def evaluateEligibility_def)
  then show ?thesis by (auto simp: wp_def split: prod.splits sum.splits)
qed

theorem dated_coupon_fails_when_cached_witness:
  "\<exists>u. validate_coupon demo_menv None demo_cart_coupon (snd (validate_coupon demo_menv (Some ''ann'') demo_cart_coupon demo_couponed))
     = (Inl (JsError ''toISOString is not a function''), u)"
  by (rule dated_coupon_fails_when_cached [OF demo_iso_dates, of demo_cart_coupon demo_coupon])
    (use demo_listed(1) in \<open>simp_all add: demo_cart_coupon_def demo_coupon_def\<close>)

end
