(* ===== verification/Loyalty.thy ===== *)
theory Loyalty
  imports Coupon_Contract
begin

text \<open>
  Loyalty accounts, reward rules and referrals (modules/marketing/services/growth.services.ts, \<open>LoyaltyService\<close> and
  \<open>ReferralService\<close>). Every account carries its statement: each transaction holds the balance after it, and the
  balance of the account is what they add up to. Requests that interleave can break it.
\<close>

section \<open>LoyaltyService\<close>

text \<open>\<open>findFirst\<close> and the insert of \<open>ensureAccount\<close>, with the table's defaults.\<close>

definition ensureAccount :: "string \<Rightarrow> account_row mkt_act" where
  "ensureAccount customerId =
     bindA (readA (\<lambda>w. find (\<lambda>a. la_customer_id a = customerId \<and> la_deleted_at a = None) (mk_accounts w))) (\<lambda>found.
     case found of Some account \<Rightarrow> returnA account
     | None \<Rightarrow>
       bindA (mkt_id (\<lambda>w. map la_id (mk_accounts w))) (\<lambda>i.
       bindA (mkt_check ''P2003'' (\<lambda>w. customerId \<in> set (mkt_users w))) (\<lambda>_.
       let account = \<lparr>la_id = i, la_customer_id = customerId, la_points = 0, la_lifetime = 0, la_tier = ''bronze'', la_deleted_at = None,
         la_updated_by = None\<rparr> in
       bindA (modifyA (\<lambda>w. w\<lparr>mk_accounts := mk_accounts w @ [account]\<rparr>)) (\<lambda>_.
       returnA account))))"

record reward_rule_dto =
  rrd_code :: string
  rrd_name :: string
  rrd_pointsPerRupee :: "rat option"
  rrd_fixedPoints :: "int option"
  rrd_minOrderAmount :: "rat option"
  rrd_tierRequired :: "string option"
  rrd_expiryDays :: "int option"

text \<open>A \<open>NUMERIC(8, 4)\<close> column.\<close>

definition dec4 :: "rat \<Rightarrow> rat" where
  "dec4 x = dec2 (x * 100) / 100"

definition rate_ok :: "rat \<Rightarrow> bool" where
  "rate_ok x \<longleftrightarrow> 0 \<le> dec4 x \<and> dec4 x < 10000"

definition amount_ok :: "rat \<Rightarrow> bool" where
  "amount_ok x \<longleftrightarrow> money_fits x \<and> dec2 x \<ge> 0"

definition reward_rule_ok :: "reward_rule_dto \<Rightarrow> bool" where
  "reward_rule_ok d \<longleftrightarrow> opt_all rate_ok (rrd_pointsPerRupee d) \<and> opt_all (\<lambda>n. 0 \<le> n \<and> int4 n) (rrd_fixedPoints d)
     \<and> opt_all amount_ok (rrd_minOrderAmount d) \<and> opt_all (\<lambda>n. 0 < n \<and> int4 n) (rrd_expiryDays d)"

definition createRewardRule :: "string \<Rightarrow> reward_rule_dto \<Rightarrow> (string \<times> string) mkt_act" where
  "createRewardRule actorId d =
     bindA (throwIf (\<not> opt_all (\<lambda>t. t \<in> set [''bronze'', ''silver'', ''gold'', ''platinum'']) (rrd_tierRequired d))
       (JsError ''PrismaClientValidationError'')) (\<lambda>_.
     bindA (mkt_id (\<lambda>w. map rl_id (mk_reward_rules w))) (\<lambda>i.
     bindA (mkt_check ''23514'' (\<lambda>_. reward_rule_ok d)) (\<lambda>_.
     bindA (mkt_check ''P2002'' (\<lambda>w. \<not> list_ex (\<lambda>r. rl_code r = rrd_code d \<and> rl_deleted_at r = None) (mk_reward_rules w))) (\<lambda>_.
     bindA (inS now) (\<lambda>t.
     bindA (modifyA (\<lambda>w. w\<lparr>mk_reward_rules := mk_reward_rules w @ [\<lparr>rl_id = i, rl_code = rrd_code d, rl_name = rrd_name d,
       rl_points_per_rupee = map_option dec4 (rrd_pointsPerRupee d), rl_fixed_points = rrd_fixedPoints d,
       rl_min_order_amount = map_option dec2 (rrd_minOrderAmount d), rl_expiry_days = rrd_expiryDays d, rl_tier_required = rrd_tierRequired d,
       rl_status = ''active'', rl_created_at = t, rl_deleted_at = None\<rparr>]\<rparr>)) (\<lambda>_.
     bindA (mkt_audit ''reward_rule'' (Some i) ''create'' (Some actorId) None) (\<lambda>_.
     returnA (i, rrd_code d))))))))"

record earn_dto =
  ed_customerId :: string
  ed_orderTotal :: rat
  ed_orderId :: "string option"
  ed_ruleCode :: "string option"

definition reward_rule_for :: "mkt_env \<Rightarrow> string option \<Rightarrow> mkt_world \<Rightarrow> reward_rule_row option" where
  "reward_rule_for env ruleCode w =
     (if truthy_str ruleCode then find (\<lambda>r. rl_code r = the ruleCode \<and> rl_deleted_at r = None \<and> rl_status r = ''active'') (mk_reward_rules w)
      else find (\<lambda>r. rl_deleted_at r = None \<and> rl_status r = ''active'') (me_rules env (mk_reward_rules w)))"

definition reward_facts :: "mkt_env \<Rightarrow> earn_dto \<Rightarrow> account_row \<Rightarrow> int \<Rightarrow> jsobj" where
  "reward_facts env dto account t =
     [(''order'', JObj [(''total'', jnum (ed_orderTotal dto))]),
      (''customer'', JObj [(''id'', JStr (ed_customerId dto)), (''tier'', JStr (la_tier account))]), (''now'', JStr (me_iso env t))]"

definition points_for :: "reward_rule_row \<Rightarrow> rat \<Rightarrow> int" where
  "points_for rule orderTotal = nullish (rl_fixed_points rule) \<lfloor>orderTotal * nullish (rl_points_per_rupee rule) 0\<rfloor>"

text \<open>\<open>tx.loyaltyAccount.update\<close> and \<open>tx.loyaltyTransaction.create\<close>: what the columns and their checks ask.\<close>

definition account_update :: "string \<Rightarrow> (account_row \<Rightarrow> account_row) \<Rightarrow> unit mkt_act" where
  "account_update i f =
     bindA (readA (\<lambda>w. find (\<lambda>a. la_id a = i) (mk_accounts w))) (\<lambda>found.
     bindA (row_or_throw found) (\<lambda>a.
     bindA (throwIf (\<not> (int4 (la_points (f a)) \<and> int4 (la_lifetime (f a)))) (prisma_error ''P2033'')) (\<lambda>_.
     bindA (throwIf (la_points (f a) < 0 \<or> la_lifetime (f a) < 0) (prisma_error ''23514'')) (\<lambda>_.
     modifyA (\<lambda>w. w\<lparr>mk_accounts := update_where (\<lambda>a. la_id a = i) f (mk_accounts w)\<rparr>)))))"

definition points_create :: "points_row \<Rightarrow> unit mkt_act" where
  "points_create row =
     bindA (mkt_id (\<lambda>w. map lt_id (mk_points w))) (\<lambda>i.
     bindA (throwIf (\<not> (int4 (lt_points row) \<and> int4 (lt_balance_after row))) (prisma_error ''P2033'')) (\<lambda>_.
     bindA (mkt_check ''P2003'' (\<lambda>w. lt_account_id row \<in> set (map la_id (mk_accounts w)))) (\<lambda>_.
     bindA (throwIf (lt_balance_after row < 0) (prisma_error ''23514'')) (\<lambda>_.
     modifyA (\<lambda>w. w\<lparr>mk_points := mk_points w @ [row\<lparr>lt_id := i\<rparr>]\<rparr>)))))"

text \<open>\<open>rule.expiry_days ? new Date(Date.now() + ...) : undefined\<close>\<close>

definition expiry_of :: "reward_rule_row \<Rightarrow> int option mkt_act" where
  "expiry_of rule = (case rl_expiry_days rule of None \<Rightarrow> returnA None
   | Some n \<Rightarrow> if n = 0 then returnA None
     else bindA (inS now) (\<lambda>t. case js_date (t + n * 86400000) of None \<Rightarrow> throwA (JsError ''PrismaClientValidationError'') | d \<Rightarrow> returnA d))"

text \<open>The body of \<open>earn\<close> up to the decision, which reads the account, and the transaction and event after it.\<close>

definition earn_decide :: "mkt_env \<Rightarrow> earn_dto \<Rightarrow> (account_row \<times> reward_rule_row \<times> int) mkt_act" where
  "earn_decide env dto =
     bindA (ensureAccount (ed_customerId dto)) (\<lambda>account.
     bindA (readA (reward_rule_for env (ed_ruleCode dto))) (\<lambda>found.
     case found of None \<Rightarrow> throwA (AppException ''NOT_FOUND'' ''Reward rule not found'' 404)
     | Some rule \<Rightarrow>
       let conditions = buildRewardConditions (rl_min_order_amount rule) (rl_tier_required rule) in
       bindA (inS now) (\<lambda>t.
       let evaluated = evaluate env conditions (reward_facts env dto account t) in
       bindA (throwIf (\<not> rr_matched evaluated)
         (AppException ''CONFLICT'' (let s = join_semi (rr_reasons evaluated) in if s = [] then ''Not eligible'' else s) 409)) (\<lambda>_.
       returnA (account, rule, points_for rule (ed_orderTotal dto))))))"

definition earn_commit :: "string \<Rightarrow> earn_dto \<Rightarrow> account_row \<times> reward_rule_row \<times> int \<Rightarrow> (int \<times> int) mkt_act" where
  "earn_commit actorId dto decided = (case decided of (account, rule, points) \<Rightarrow>
     if points \<le> 0 then returnA (0, la_points account)
     else let balance = la_points account + points in
       bindA (transactionA
         (bindA (account_update (la_id account) (\<lambda>a. a\<lparr>la_points := balance, la_lifetime := la_lifetime a + points, la_updated_by := Some actorId\<rparr>)) (\<lambda>_.
          bindA (expiry_of rule) (\<lambda>expires.
          points_create \<lparr>lt_id = [], lt_account_id = la_id account, lt_type = ''earn'', lt_points = points, lt_balance_after = balance,
            lt_reference_type = Some ''order'', lt_reference_id = ed_orderId dto, lt_expires_at = expires, lt_notes = None, lt_created_by = Some actorId\<rparr>)))) (\<lambda>_.
       bindA (mkt_emit (LoyaltyPointsEarnedEvent (la_id account) (ed_customerId dto) points)) (\<lambda>_.
       returnA (points, balance))))"

definition earn :: "mkt_env \<Rightarrow> string \<Rightarrow> earn_dto \<Rightarrow> (int \<times> int) mkt_act" where
  "earn env actorId dto = mkt_locked [''marketing'', ''loyalty'', ed_customerId dto] (bindA (earn_decide env dto) (earn_commit actorId dto))"

definition redeem_commit :: "string \<Rightarrow> int \<Rightarrow> string option \<Rightarrow> account_row \<Rightarrow> (int \<times> int) mkt_act" where
  "redeem_commit customerId points notes account =
     bindA (throwIf (la_points account < points) (AppException ''CONFLICT'' ''Insufficient points'' 409)) (\<lambda>_.
     let balance = la_points account - points in
     bindA (transactionA
       (bindA (account_update (la_id account) (\<lambda>a. a\<lparr>la_points := balance, la_updated_by := Some customerId\<rparr>)) (\<lambda>_.
        points_create \<lparr>lt_id = [], lt_account_id = la_id account, lt_type = ''redeem'', lt_points = - points, lt_balance_after = balance,
          lt_reference_type = None, lt_reference_id = None, lt_expires_at = None, lt_notes = notes, lt_created_by = Some customerId\<rparr>))) (\<lambda>_.
     bindA (mkt_emit (LoyaltyPointsRedeemedEvent (la_id account) customerId points)) (\<lambda>_.
     returnA (points, balance))))"

definition redeem :: "string \<Rightarrow> int \<Rightarrow> string option \<Rightarrow> (int \<times> int) mkt_act" where
  "redeem customerId points notes =
     mkt_locked [''marketing'', ''loyalty-redeem'', customerId] (bindA (ensureAccount customerId) (redeem_commit customerId points notes))"

section \<open>ReferralService\<close>

definition createProgram :: "string \<Rightarrow> string \<Rightarrow> string \<Rightarrow> int option \<Rightarrow> int option \<Rightarrow> (string \<times> string) mkt_act" where
  "createProgram actorId code name referrerPoints refereePoints =
     (let a = nullish referrerPoints 0; b = nullish refereePoints 0 in
     bindA (mkt_id (\<lambda>w. map pg_id (mk_programs w))) (\<lambda>i.
     bindA (throwIf (\<not> (int4 a \<and> int4 b)) (prisma_error ''P2033'')) (\<lambda>_.
     bindA (throwIf (a < 0 \<or> b < 0) (prisma_error ''23514'')) (\<lambda>_.
     bindA (mkt_check ''P2002'' (\<lambda>w. \<not> list_ex (\<lambda>p. pg_code p = code \<and> pg_deleted_at p = None) (mk_programs w))) (\<lambda>_.
     bindA (modifyA (\<lambda>w. w\<lparr>mk_programs := mk_programs w @ [\<lparr>pg_id = i, pg_code = code, pg_name = name, pg_referrer_points = a,
       pg_referee_points = b, pg_status = ''active'', pg_deleted_at = None\<rparr>]\<rparr>)) (\<lambda>_.
     bindA (mkt_audit ''referral_program'' (Some i) ''create'' (Some actorId) None) (\<lambda>_.
     returnA (i, code))))))))"

definition claim_body :: "string \<Rightarrow> string \<Rightarrow> string \<Rightarrow> (string \<times> int) mkt_act" where
  "claim_body refereeId programCode referrerId =
     bindA (throwIf (referrerId = refereeId) (AppException ''BAD_REQUEST'' ''Cannot self-refer'' 400)) (\<lambda>_.
     bindA (readA (\<lambda>w. find (\<lambda>p. pg_code p = programCode \<and> pg_deleted_at p = None \<and> pg_status p = ''active'') (mk_programs w))) (\<lambda>found.
     case found of None \<Rightarrow> throwA (AppException ''NOT_FOUND'' ''Program not found'' 404)
     | Some program \<Rightarrow>
       bindA (readA (\<lambda>w. list_ex (\<lambda>r. rw_program_id r = pg_id program \<and> rw_referee_id r = refereeId \<and> rw_deleted_at r = None) (mk_rewards w))) (\<lambda>existing.
       bindA (throwIf existing (AppException ''CONFLICT'' ''Already referred'' 409)) (\<lambda>_.
       let points = pg_referrer_points program + pg_referee_points program in
       bindA (mkt_id (\<lambda>w. map rw_id (mk_rewards w))) (\<lambda>i.
       bindA (throwIf (\<not> int4 points) (prisma_error ''P2033'')) (\<lambda>_.
       bindA (mkt_check ''P2003'' (\<lambda>w. referrerId \<in> set (mkt_users w) \<and> refereeId \<in> set (mkt_users w))) (\<lambda>_.
       bindA (modifyA (\<lambda>w. w\<lparr>mk_rewards := mk_rewards w @ [\<lparr>rw_id = i, rw_program_id = pg_id program, rw_referrer_id = referrerId,
         rw_referee_id = refereeId, rw_points = points, rw_deleted_at = None\<rparr>]\<rparr>)) (\<lambda>_.
       bindA (mkt_emit (ReferralCreatedEvent i (pg_id program) referrerId refereeId)) (\<lambda>_.
       bindA (mkt_enqueue (ReferralRewardsJob i)) (\<lambda>_.
       bindA (mkt_audit ''referral_reward'' (Some i) ''create'' (Some refereeId) None) (\<lambda>_.
       returnA (i, points))))))))))))"

definition claim :: "string \<Rightarrow> string \<Rightarrow> string \<Rightarrow> (string \<times> int) mkt_act" where
  "claim refereeId programCode referrerId =
     mkt_locked [''marketing'', ''referral'', refereeId] (claim_body refereeId programCode referrerId)"

section \<open>The statement of an account\<close>

definition txs :: "string \<Rightarrow> points_row list \<Rightarrow> points_row list" where
  "txs i rows = filter (\<lambda>x. lt_account_id x = i) rows"

fun statement :: "int \<Rightarrow> points_row list \<Rightarrow> bool" where
  "statement b [] = True"
| "statement b (x # xs) = (lt_balance_after x = b + lt_points x \<and> 0 \<le> lt_balance_after x \<and> statement (lt_balance_after x) xs)"

lemma statement_append: "statement b (xs @ [x]) = (statement b xs \<and> lt_balance_after x = b + (\<Sum>y\<leftarrow>xs. lt_points y) + lt_points x \<and> 0 \<le> lt_balance_after x)"
proof (induction xs arbitrary: b)
  case (Cons a xs)
  show ?case by (cases "lt_balance_after a = b + lt_points a") (simp_all add: Cons add.assoc)
qed simp

text \<open>What was ever earned.\<close>

definition earned :: "points_row list \<Rightarrow> int" where
  "earned xs = (\<Sum>x\<leftarrow>xs. if lt_type x = ''earn'' then lt_points x else 0)"

definition sound_account :: "points_row list \<Rightarrow> account_row \<Rightarrow> bool" where
  "sound_account rows a \<longleftrightarrow> la_points a = (\<Sum>x\<leftarrow>txs (la_id a) rows. lt_points x) \<and> 0 \<le> la_points a \<and> statement 0 (txs (la_id a) rows)
     \<and> la_lifetime a = earned (txs (la_id a) rows)"

definition loyalty_ok :: "mkt_world \<Rightarrow> bool" where
  "loyalty_ok w \<longleftrightarrow> distinct (map la_id (mk_accounts w)) \<and> lt_account_id ` set (mk_points w) \<subseteq> la_id ` set (mk_accounts w)
     \<and> (\<forall>a \<in> set (mk_accounts w). sound_account (mk_points w) a)"

definition accts where
  "accts w = (mk_accounts w, mk_points w)"

lemma accts_simps [simp]: "accts (w\<lparr>mk_shop := s\<rparr>) = accts w" "accts (w\<lparr>mk_events := e\<rparr>) = accts w" "accts (books w) = accts w"
  by (simp_all add: accts_def books_def)

interpretation loyalty_tables: table_part accts
  by unfold_locales simp

lemmas accts_services = loyalty_tables.part_inS loyalty_tables.part_emit loyalty_tables.part_id loyalty_tables.part_check loyalty_tables.part_audit
  loyalty_tables.part_enqueue

lemmas accts_steps = preserves_bindA preserves_throwIf preserves_readA preserves_returnA preserves_throwA accts_services

lemma loyalty_ok_accts: "accts t = accts w \<Longrightarrow> loyalty_ok w \<Longrightarrow> loyalty_ok t"
  by (simp add: accts_def loyalty_ok_def)

lemma loyalty_ok_shop [simp]: "loyalty_ok (w\<lparr>mk_shop := s\<rparr>) = loyalty_ok w"
  by (simp add: loyalty_ok_def)

text \<open>The account a request works on, as the table has it.\<close>

definition on_file :: "account_row \<Rightarrow> mkt_world \<Rightarrow> bool" where
  "on_file a w \<longleftrightarrow> a \<in> set (mk_accounts w)"

lemma fresh_mkt_id: "wp (mkt_id ids) w (\<lambda>i t. books t = books w \<and> i \<notin> set (ids t)) (\<lambda>_ t. books t = books w)"
  by (simp add: mkt_id_def random_id_def inv_uuid_def wp_def bindA_def inI_def inS_def throwIf_def)

lemma booksD_accts: "books t = books w \<Longrightarrow> accts t = accts w"
  using booksD(5,6) [of t w] by (simp add: accts_def)

lemma no_txs: "lt_account_id ` set rows \<subseteq> la_id ` set as \<Longrightarrow> i \<notin> la_id ` set as \<Longrightarrow> txs i rows = []"
  by (auto simp: txs_def filter_empty_conv)

lemma ensureAccount_ok:
  assumes "loyalty_ok w"
  shows "wp (ensureAccount customer) w (\<lambda>a t. loyalty_ok t \<and> on_file a t \<and> mk_points t = mk_points w) (\<lambda>_. loyalty_ok)"
proof (cases "find (\<lambda>a. la_customer_id a = customer \<and> la_deleted_at a = None) (mk_accounts w)")
  case None
  have "loyalty_ok (t\<lparr>mk_accounts := mk_accounts t @ [\<lparr>la_id = i, la_customer_id = customer, la_points = 0, la_lifetime = 0, la_tier = ''bronze'',
      la_deleted_at = None, la_updated_by = None\<rparr>]\<rparr>)"
    if t: "loyalty_ok t" "i \<notin> la_id ` set (mk_accounts t)" for t i
  proof -
    have "txs i (mk_points t) = []" using t no_txs by (auto simp: loyalty_ok_def)
    then show ?thesis using t by (auto simp: loyalty_ok_def sound_account_def earned_def)
  qed
  note add = this
  show ?thesis unfolding ensureAccount_def wp_bindA wp_readA None option.case
  proof (rule wp_mono [OF fresh_mkt_id], goal_cases)
    case (1 i t)
    then have t: "loyalty_ok t" "i \<notin> la_id ` set (mk_accounts t)" "mk_points t = mk_points w"
      using loyalty_ok_accts [OF booksD_accts assms] booksD(6) [of t w] by auto
    show ?case using t add [OF t(1,2)] by (simp add: Let_def on_file_def)
  next
    case (2 e t)
    then show ?case using loyalty_ok_accts [OF booksD_accts assms] by blast
  qed
next
  case (Some a)
  then show ?thesis using assms find_filter_some [OF Some] by (simp add: ensureAccount_def on_file_def)
qed

text \<open>A transaction moves one account by the points of the row it adds.\<close>

lemma txs_append: "txs i (rows @ [x]) = txs i rows @ (if lt_account_id x = i then [x] else [])"
  by (simp add: txs_def)

lemma earned_append: "earned (xs @ [x]) = earned xs + (if lt_type x = ''earn'' then lt_points x else 0)"
  by (simp add: earned_def)

lemma ids_update: "(\<And>b. la_id (f b) = la_id b) \<Longrightarrow> la_id ` set (update_where p f as) = la_id ` set as"
  by (induction as) (simp_all add: update_where_def)

lemma moved_ok:
  assumes w: "loyalty_ok w" "a \<in> set (mk_accounts w)"
    and f: "\<And>b. la_id (f b) = la_id b" "la_points (f a) = la_points a + lt_points x" "la_lifetime (f a) = la_lifetime a + (if lt_type x = ''earn'' then lt_points x else 0)"
    and x: "lt_account_id x = la_id a" "lt_balance_after x = la_points a + lt_points x" "0 \<le> lt_balance_after x"
  shows "loyalty_ok (w\<lparr>mk_accounts := update_where (\<lambda>b. la_id b = la_id a) f (mk_accounts w), mk_points := mk_points w @ [x]\<rparr>)"
proof -
  have d: "distinct (map la_id (mk_accounts w))" and r: "lt_account_id ` set (mk_points w) \<subseteq> la_id ` set (mk_accounts w)"
    and s: "\<And>b. b \<in> set (mk_accounts w) \<Longrightarrow> sound_account (mk_points w) b" using w(1) by (auto simp: loyalty_ok_def)
  have ids: "map la_id (update_where (\<lambda>b. la_id b = la_id a) f (mk_accounts w)) = map la_id (mk_accounts w)"
    by (simp add: update_where_def f(1))
  have "sound_account (mk_points w @ [x]) b'" if mem: "b' \<in> set (update_where (\<lambda>b. la_id b = la_id a) f (mk_accounts w))" for b'
  proof -
    obtain b where b: "b \<in> set (mk_accounts w)" "b' = (if la_id b = la_id a then f b else b)" 
      using mem unfolding update_where_def set_map by (elim imageE)
    show ?thesis
    proof (cases "la_id b = la_id a")
      case True
      then have "b = a" using d b(1) w(2) by (auto simp: distinct_map inj_on_def)
      then show ?thesis using s [OF w(2)] x f b(2)
        by (simp add: sound_account_def txs_append statement_append earned_append)
    next
      case False
      then show ?thesis using s [OF b(1)] b(2) x(1) by (simp add: sound_account_def txs_append)
    qed
  qed
  moreover have "la_id ` set (update_where (\<lambda>b. la_id b = la_id a) f (mk_accounts w)) = la_id ` set (mk_accounts w)" by (rule ids_update) (rule f(1))
  ultimately show ?thesis using d ids r w(2) x(1) by (auto simp: loyalty_ok_def)
qed

text \<open>The two writes of a transaction, with the row's id chosen by the database.\<close>

lemma find_distinct: "distinct (map k xs) \<Longrightarrow> a \<in> set xs \<Longrightarrow> find (\<lambda>b. k b = k a) xs = Some a"
  by (induction xs) (auto simp: image_iff)

lemma account_find: "loyalty_ok w \<Longrightarrow> on_file a w \<Longrightarrow> find (\<lambda>b. la_id b = la_id a) (mk_accounts w) = Some a"
  by (simp add: loyalty_ok_def on_file_def find_distinct)

lemma move_ok:
  assumes w: "loyalty_ok w" "on_file a w"
    and f: "\<And>b. la_id (f b) = la_id b" "la_points (f a) = la_points a + p" "la_lifetime (f a) = la_lifetime a + (if ty = ''earn'' then p else 0)"
    and g: "\<And>e. lt_account_id (g e) = la_id a" "\<And>e. lt_balance_after (g e) = la_points a + p" "\<And>e. lt_points (g e) = p" "\<And>e. lt_type (g e) = ty"
    and m: "preserves accts m"
  shows "wp (transactionA (bindA (account_update (la_id a) f) (\<lambda>_. bindA m (\<lambda>e. points_create (g e))))) w (\<lambda>_. loyalty_ok) (\<lambda>_. loyalty_ok)"
proof -
  let ?u = "w\<lparr>mk_accounts := update_where (\<lambda>b. la_id b = la_id a) f (mk_accounts w)\<rparr>"
  have create: "wp (points_create (g e)) t (\<lambda>_. loyalty_ok) (\<lambda>_ _. True)" if t: "accts t = accts ?u" for e t
    unfolding points_create_def
  proof (rule wp_bindI [OF fresh_mkt_id], goal_cases)
    case (1 i v)
    have "accts v = accts ?u" using booksD_accts [of v t] 1 t by simp
    then have "mk_accounts v = mk_accounts ?u" "mk_points v = mk_points w" by (simp_all add: accts_def)
    moreover have "loyalty_ok (w\<lparr>mk_accounts := update_where (\<lambda>b. la_id b = la_id a) f (mk_accounts w), mk_points := mk_points w @ [(g e)\<lparr>lt_id := i\<rparr>]\<rparr>)"
      if "0 \<le> lt_balance_after (g e)" using w f g that by (intro moved_ok) (simp_all add: on_file_def)
    ultimately show ?case by (simp add: loyalty_ok_def)
  qed simp
  have "wp (bindA m (\<lambda>e. points_create (g e))) ?u (\<lambda>_. loyalty_ok) (\<lambda>_ _. True)"
    by (rule wp_bindI [OF preserves_wp [OF m]]) (assumption | rule create | simp)+
  then show ?thesis using account_find [OF w] w(1) by (simp add: account_update_def)
qed

lemma accts_expiry_of: "preserves accts (expiry_of rule)"
  unfolding expiry_of_def by (auto intro!: accts_steps split: option.split)

section \<open>Every request keeps the statements\<close>

lemma keeps_accts: "preserves accts m \<Longrightarrow> keeps loyalty_ok m"
  by (rule preserves_keeps) (auto intro: loyalty_ok_accts)

lemma earn_decide_ok:
  assumes "loyalty_ok w"
  shows "wp (earn_decide env dto) w (\<lambda>d t. loyalty_ok t \<and> on_file (fst d) t) (\<lambda>_. loyalty_ok)"
  unfolding earn_decide_def
proof (rule wp_bindI [OF ensureAccount_ok [OF assms]], goal_cases)
  case (1 a t)
  then have "loyalty_ok (t\<lparr>mk_shop := s\<rparr>)" "on_file a (t\<lparr>mk_shop := s\<rparr>)" for s by (auto simp: on_file_def)
  then show ?case using 1 by (cases "reward_rule_for env (ed_ruleCode dto) t") (simp_all add: Let_def wp_now)
qed simp

lemma emit_ok: "loyalty_ok t \<Longrightarrow> loyalty_ok (t\<lparr>mk_events := e\<rparr>)"
  by (simp add: loyalty_ok_def)

lemma earn_commit_ok:
  assumes "loyalty_ok w" "on_file (fst d) w"
  shows "wp (earn_commit actor dto d) w (\<lambda>_. loyalty_ok) (\<lambda>_. loyalty_ok)"
proof -
  obtain a rule n where d: "d = (a, rule, n)" by (cases d)
  show ?thesis
  proof (cases "n \<le> 0")
    case False
    then show ?thesis unfolding earn_commit_def d prod.case if_not_P [OF False] Let_def
      by (intro wp_bindI [OF move_ok [OF assms [unfolded d fst_conv], where ty = "''earn''", OF _ _ _ _ _ _ _ accts_expiry_of]])
        (simp_all add: emit_ok)
  qed (simp add: earn_commit_def d assms)
qed

lemma redeem_commit_ok:
  assumes "loyalty_ok w" "on_file a w"
  shows "wp (redeem_commit customer n notes a) w (\<lambda>_. loyalty_ok) (\<lambda>_. loyalty_ok)"
proof -
  have "wp (transactionA (bindA (account_update (la_id a) (\<lambda>b. b\<lparr>la_points := la_points a - n, la_updated_by := Some customer\<rparr>)) (\<lambda>_.
      bindA (returnA ()) (\<lambda>_. points_create \<lparr>lt_id = [], lt_account_id = la_id a, lt_type = ''redeem'', lt_points = - n, lt_balance_after = la_points a - n,
          lt_reference_type = None, lt_reference_id = None, lt_expires_at = None, lt_notes = notes, lt_created_by = Some customer\<rparr>)))) w (\<lambda>_. loyalty_ok) (\<lambda>_. loyalty_ok)"
    by (rule move_ok [OF assms, where ty = "''redeem''"]) simp_all
  note m = this [unfolded bindA_returnA]
  show ?thesis unfolding redeem_commit_def Let_def
    by (rule wp_bind_throwIfI, rule assms(1), rule wp_bindI [OF m]) (simp_all add: emit_ok)
qed

lemma earn_ok: "keeps loyalty_ok (earn env actor dto)"
  unfolding earn_def
  by (rule keeps_mkt_locked, unfold keeps_wp, intro allI impI, rule wp_bindI [OF earn_decide_ok]) (auto intro: earn_commit_ok)

lemma redeem_ok: "keeps loyalty_ok (redeem customer n notes)"
  unfolding redeem_def
  by (rule keeps_mkt_locked, unfold keeps_wp, intro allI impI, rule wp_bindI [OF ensureAccount_ok]) (auto intro: redeem_commit_ok)

lemma accts_createRewardRule: "preserves accts (createRewardRule actor d)"
  unfolding createRewardRule_def by (intro accts_steps preserves_modifyA) (simp add: accts_def)

lemma accts_createProgram: "preserves accts (createProgram actor code name a b)"
  unfolding createProgram_def Let_def by (intro accts_steps preserves_modifyA) (simp add: accts_def)

lemma accts_claim_body: "preserves accts (claim_body referee code referrer)"
  unfolding claim_body_def Let_def by (intro accts_steps preserves_modifyA preserves_case_option) (simp add: accts_def)

lemma claim_ok: "keeps loyalty_ok (claim referee code referrer)"
  unfolding claim_def by (rule keeps_mkt_locked [OF keeps_accts [OF accts_claim_body]]) simp

datatype loyalty_request =
    EarnPoints string earn_dto
  | RedeemPoints string int "string option"
  | CreateRewardRule string reward_rule_dto
  | CreateProgram string string string "int option" "int option"
  | ClaimReferral string string string

definition loyalty_handle :: "mkt_env \<Rightarrow> loyalty_request \<Rightarrow> mkt_world \<Rightarrow> mkt_world" where
  "loyalty_handle env r w = (case r of
     EarnPoints actor dto \<Rightarrow> snd (earn env actor dto w)
   | RedeemPoints customer n notes \<Rightarrow> snd (redeem customer n notes w)
   | CreateRewardRule actor d \<Rightarrow> snd (createRewardRule actor d w)
   | CreateProgram actor code name a b \<Rightarrow> snd (createProgram actor code name a b w)
   | ClaimReferral referee code referrer \<Rightarrow> snd (claim referee code referrer w))"

lemma loyalty_handle_ok: "loyalty_ok w \<Longrightarrow> loyalty_ok (loyalty_handle env r w)"
  using earn_ok redeem_ok claim_ok keeps_accts [OF accts_createRewardRule] keeps_accts [OF accts_createProgram]
  by (cases r) (simp_all add: loyalty_handle_def keeps_def)

lemma loyalty_requests_ok: "loyalty_ok w \<Longrightarrow> loyalty_ok (fold (loyalty_handle env) rs w)"
  by (induction rs arbitrary: w) (simp_all add: loyalty_handle_ok)

section \<open>Earning and redeeming at once\<close>

text \<open>What a transaction does, whether or not the account is still as it was read.\<close>

lemma move_effect:
  assumes "preserves accts m" "\<And>e. lt_account_id (g e) = i \<and> lt_points (g e) = p"
  shows "wp (transactionA (bindA (account_update i f) (\<lambda>_. bindA m (\<lambda>e. points_create (g e))))) w
    (\<lambda>_ t. mk_accounts t = update_where (\<lambda>b. la_id b = i) f (mk_accounts w)
      \<and> (\<exists>x. mk_points t = mk_points w @ [x] \<and> lt_account_id x = i \<and> lt_points x = p)) (\<lambda>_ _. True)"
proof -
  let ?u = "w\<lparr>mk_accounts := update_where (\<lambda>b. la_id b = i) f (mk_accounts w)\<rparr>"
  have create: "wp (points_create (g e)) t (\<lambda>_ t. mk_accounts t = update_where (\<lambda>b. la_id b = i) f (mk_accounts w)
      \<and> (\<exists>x. mk_points t = mk_points w @ [x] \<and> lt_account_id x = i \<and> lt_points x = p)) (\<lambda>_ _. True)" if t: "accts t = accts ?u" for e t
    unfolding points_create_def
  proof (rule wp_bindI [OF fresh_mkt_id], goal_cases)
    case (1 j v)
    have "accts v = accts ?u" using booksD_accts [of v t] 1 t by simp
    then show ?case using assms(2) by (simp add: accts_def)
  qed simp
  have "wp (bindA m (\<lambda>e. points_create (g e))) ?u (\<lambda>_ t. mk_accounts t = update_where (\<lambda>b. la_id b = i) f (mk_accounts w)
      \<and> (\<exists>x. mk_points t = mk_points w @ [x] \<and> lt_account_id x = i \<and> lt_points x = p)) (\<lambda>_ _. True)"
    by (rule wp_bindI [OF preserves_wp [OF assms(1)]]) (assumption | rule create | simp)+
  then show ?thesis by (simp add: account_update_def split: option.split)
qed

lemma redeem_commit_effect:
  "wp (redeem_commit customer n notes a) w (\<lambda>_ t. mk_accounts t = update_where (\<lambda>b. la_id b = la_id a) (\<lambda>b. b\<lparr>la_points := la_points a - n, la_updated_by := Some customer\<rparr>) (mk_accounts w)
      \<and> (\<exists>x. mk_points t = mk_points w @ [x] \<and> lt_account_id x = la_id a \<and> lt_points x = - n)) (\<lambda>_ _. True)"
proof -
  note m = move_effect [where m = "returnA ()" and g = "\<lambda>_. \<lparr>lt_id = [], lt_account_id = la_id a, lt_type = ''redeem'', lt_points = - n, lt_balance_after = la_points a - n,
          lt_reference_type = None, lt_reference_id = None, lt_expires_at = None, lt_notes = notes, lt_created_by = Some customer\<rparr>"
      and i = "la_id a" and p = "- n" and f = "\<lambda>b. b\<lparr>la_points := la_points a - n, la_updated_by := Some customer\<rparr>" and w = w, unfolded bindA_returnA]
  show ?thesis unfolding redeem_commit_def Let_def
    by (rule wp_bind_throwIfI, simp, rule wp_bindI [OF m]) simp_all
qed

lemma earn_commit_effect:
  assumes "0 < n"
  shows "wp (earn_commit actor dto (a, rule, n)) w (\<lambda>_ t. mk_accounts t = update_where (\<lambda>b. la_id b = la_id a)
        (\<lambda>b. b\<lparr>la_points := la_points a + n, la_lifetime := la_lifetime b + n, la_updated_by := Some actor\<rparr>) (mk_accounts w)
      \<and> (\<exists>x. mk_points t = mk_points w @ [x] \<and> lt_account_id x = la_id a \<and> lt_points x = n)) (\<lambda>_ _. True)"
  using assms unfolding earn_commit_def prod.case Let_def
  by (simp only: not_less [symmetric] if_not_P not_False_eq_True if_False simp_thms)
    (rule wp_bindI [OF move_effect [OF accts_expiry_of]], simp_all)

lemma wp_trivial [simp]: "wp m s (\<lambda>_ _. True) (\<lambda>_ _. True)"
  by (simp add: wp_def split: prod.split sum.split)

lemma find_snoc: "find p xs = None \<Longrightarrow> find p (xs @ [x]) = (if p x then Some x else None)"
  by (induction xs) (auto split: if_splits)

lemma wp_locked_accts:
  assumes "\<And>s. wp m (w\<lparr>mk_shop := s\<rparr>) (\<lambda>_ t. R (accts t)) (\<lambda>_ _. True)"
  shows "wp (mkt_locked parts m) w (\<lambda>_ t. R (accts t)) (\<lambda>_ _. True)"
proof -
  have fin: "wp (inS n) t (\<lambda>_ u. R (accts u)) (\<lambda>_ _. True)" if "R (accts t)" for n :: "unit shop_act" and t
    by (rule preserves_wpI [OF accts_services(1)]) (use that in simp_all)
  have body: "wp (finallyA m (inS n)) (w\<lparr>mk_shop := s\<rparr>) (\<lambda>_ t. R (accts t)) (\<lambda>_ _. True)" for n s
    unfolding wp_finallyA by (rule wp_mono [OF assms]) (simp_all only: wp_trivial fin)
  show ?thesis unfolding mkt_locked_def Let_def wp_bindA wp_inS
    by (simp add: body del: wp_finallyA)
qed

lemma ensureAccount_found:
  "find (\<lambda>a. la_customer_id a = customer \<and> la_deleted_at a = None) (mk_accounts w) = Some a \<Longrightarrow> ensureAccount customer w = (Inr a, w)"
  by (simp add: ensureAccount_def bindA_def)

lemma ensureAccount_finds:
  "wp (ensureAccount customer) w (\<lambda>a t. find (\<lambda>a. la_customer_id a = customer \<and> la_deleted_at a = None) (mk_accounts t) = Some a) (\<lambda>_ _. True)"
proof (cases "find (\<lambda>a. la_customer_id a = customer \<and> la_deleted_at a = None) (mk_accounts w)")
  case None
  show ?thesis unfolding ensureAccount_def wp_bindA wp_readA None option.case
  proof (rule wp_mono [OF fresh_mkt_id], goal_cases)
    case (1 i t)
    then have "mk_accounts t = mk_accounts w" using booksD(5) [of t w] by simp
    then show ?case using None by (simp add: Let_def find_snoc)
  qed simp
next
  case (Some a)
  then show ?thesis by (simp add: ensureAccount_def)
qed

lemma earn_decide_finds:
  "wp (earn_decide env dto) w (\<lambda>d t. find (\<lambda>a. la_customer_id a = ed_customerId dto \<and> la_deleted_at a = None) (mk_accounts t) = Some (fst d)) (\<lambda>_ _. True)"
  unfolding earn_decide_def
proof (rule wp_bindI [OF ensureAccount_finds], goal_cases)
  case (1 a t)
  then show ?case by (cases "reward_rule_for env (ed_ruleCode dto) t") (simp_all add: Let_def wp_now)
qed simp

section \<open>An account to try it on\<close>

definition demo_rule :: reward_rule_dto where
  "demo_rule = \<lparr>rrd_code = ''R'', rrd_name = ''Rule'', rrd_pointsPerRupee = None, rrd_fixedPoints = Some 50, rrd_minOrderAmount = Some 10,
     rrd_tierRequired = None, rrd_expiryDays = None\<rparr>"

definition demo_earn :: earn_dto where
  "demo_earn = \<lparr>ed_customerId = ''ann'', ed_orderTotal = 100, ed_orderId = None, ed_ruleCode = Some ''R''\<rparr>"

definition demo_points :: mkt_world where
  "demo_points = fold (loyalty_handle demo_menv) [CreateRewardRule ''ann'' demo_rule, EarnPoints ''ann'' demo_earn] demo_market"

lemma demo_market_loyal: "loyalty_ok demo_market"
  by (simp add: loyalty_ok_def demo_market_def)

lemma demo_points_run: "map (\<lambda>a. (la_id a, la_points a)) (mk_accounts demo_points) = [(''b'', 50)]"
  by code_simp

lemma demo_points_ok: "loyalty_ok demo_points"
  unfolding demo_points_def by (rule loyalty_requests_ok [OF demo_market_loyal])

definition demo_spending :: "loyalty_request list" where
  "demo_spending = [CreateRewardRule ''ann'' demo_rule, EarnPoints ''ann'' demo_earn, RedeemPoints ''ann'' 20 None, RedeemPoints ''ann'' 100 None]"

lemma demo_spending_run: "map la_points (mk_accounts (fold (loyalty_handle demo_menv) demo_spending demo_market)) = [30]"
  by code_simp

lemma demo_race_run:
  "ok (earn_decide demo_menv demo_earn) demo_points (\<lambda>d t. snd (snd d) = 50 \<and> la_points (fst d) = 50
     \<and> ok (redeem ''ann'' 30 None) t (\<lambda>_ u. ok (earn_commit ''ann'' demo_earn d) u (\<lambda>_ _. True)))"
  by code_simp

section \<open>Properties\<close>

text \<open>
  C13: Over any sequence of loyalty and referral requests, each account's balance is the sum of its transactions and is
  never negative, every transaction records the balance after it, and the lifetime points are what was earned; a refused
  or failed request changes none of it.
\<close>
theorem loyalty_statements_hold:
  assumes "loyalty_ok w" "t = fold (loyalty_handle env) rs w" "a \<in> set (mk_accounts t)"
  shows "la_points a = (\<Sum>x\<leftarrow>txs (la_id a) (mk_points t). lt_points x) \<and> 0 \<le> la_points a \<and> statement 0 (txs (la_id a) (mk_points t))
    \<and> la_lifetime a = (\<Sum>x\<leftarrow>txs (la_id a) (mk_points t). if lt_type x = ''earn'' then lt_points x else 0)"
proof -
  have "loyalty_ok t" using loyalty_requests_ok assms(1,2) by blast
  then show ?thesis using assms(3) by (auto simp: loyalty_ok_def sound_account_def earned_def)
qed

theorem loyalty_statements_hold_witness:
  "\<exists>t a. t = fold (loyalty_handle demo_menv) demo_spending demo_market \<and> mk_accounts t = [a] \<and> la_points a = 30
     \<and> la_points a = (\<Sum>x\<leftarrow>txs (la_id a) (mk_points t). lt_points x)"
proof -
  define t where "t = fold (loyalty_handle demo_menv) demo_spending demo_market"
  obtain a where a: "mk_accounts t = [a]" "la_points a = 30" using demo_spending_run by (auto simp: t_def)
  then show ?thesis using loyalty_statements_hold [OF demo_market_loyal t_def, of a] t_def by auto
qed

text \<open>
  C39: Earning and redeeming take different locks. When a redemption runs between the moment an earning has read the
  account and its transaction, the account ends with the old balance plus the points earned: the customer has been
  given the redemption and keeps the points, which the transactions no longer add up to.
\<close>
theorem redemption_lost_to_earning:
  assumes "loyalty_ok w" "earn_decide env dto w = (Inr (a, rule, n), w1)" "0 < n"
    "redeem (ed_customerId dto) k notes w1 = (Inr r, w2)" "earn_commit actor dto (a, rule, n) w2 = (Inr r2, w3)"
  shows "\<exists>b \<in> set (mk_accounts w3). la_id b = la_id a \<and> la_points b = la_points a + n
    \<and> (\<Sum>x\<leftarrow>txs (la_id a) (mk_points w3). lt_points x) = la_points a + n - k"
proof -
  let ?i = "la_id a"
  have w1: "loyalty_ok w1" "on_file a w1" "find (\<lambda>a. la_customer_id a = ed_customerId dto \<and> la_deleted_at a = None) (mk_accounts w1) = Some a"
    using wp_Inr [OF earn_decide_ok [OF assms(1)] assms(2)] wp_Inr [OF earn_decide_finds assms(2)] by simp_all
  define R where "R = (\<lambda>(as :: account_row list, ps). ?i \<in> la_id ` set as \<and> (\<exists>x. ps = mk_points w1 @ [x] \<and> lt_account_id x = ?i \<and> lt_points x = - k))"
  have "wp (redeem (ed_customerId dto) k notes) w1 (\<lambda>_ t. R (accts t)) (\<lambda>_ _. True)"
    unfolding redeem_def
  proof (rule wp_locked_accts)
    fix s
    have "find (\<lambda>a. la_customer_id a = ed_customerId dto \<and> la_deleted_at a = None) (mk_accounts (w1\<lparr>mk_shop := s\<rparr>)) = Some a" using w1(3) by simp
    note found = ensureAccount_found [OF this]
    have "R (accts t)" if "mk_accounts t = update_where (\<lambda>b. la_id b = ?i) (\<lambda>b. b\<lparr>la_points := la_points a - k, la_updated_by := Some (ed_customerId dto)\<rparr>) (mk_accounts (w1\<lparr>mk_shop := s\<rparr>))
      \<and> (\<exists>x. mk_points t = mk_points (w1\<lparr>mk_shop := s\<rparr>) @ [x] \<and> lt_account_id x = ?i \<and> lt_points x = - k)" for t
      using that w1(2) by (auto simp: R_def accts_def on_file_def ids_update)
    note eff = this
    show "wp (bindA (ensureAccount (ed_customerId dto)) (redeem_commit (ed_customerId dto) k notes)) (w1\<lparr>mk_shop := s\<rparr>) (\<lambda>_ t. R (accts t)) (\<lambda>_ _. True)"
      unfolding wp_bindA by (rule wpI_Inr, rule found) (rule wp_mono [OF redeem_commit_effect], rule eff, assumption, simp)
  qed
  from wp_Inr [OF this assms(4)] obtain x where w2: "?i \<in> la_id ` set (mk_accounts w2)" "mk_points w2 = mk_points w1 @ [x]" "lt_account_id x = ?i" "lt_points x = - k"
    by (auto simp: R_def accts_def)
  from wp_Inr [OF earn_commit_effect [OF assms(3)] assms(5)]
  obtain y where w3: "mk_points w3 = mk_points w2 @ [y]" "lt_account_id y = ?i" "lt_points y = n"
    "mk_accounts w3 = update_where (\<lambda>b. la_id b = ?i) (\<lambda>b. b\<lparr>la_points := la_points a + n, la_lifetime := la_lifetime b + n, la_updated_by := Some actor\<rparr>) (mk_accounts w2)"
    by blast
  obtain c where c: "c \<in> set (mk_accounts w2)" "la_id c = ?i" using w2(1) by auto
  have "c\<lparr>la_points := la_points a + n, la_lifetime := la_lifetime c + n, la_updated_by := Some actor\<rparr> \<in> set (mk_accounts w3)"
    using c by (auto simp: w3(4) update_where_def image_iff intro!: bexI [of _ c])
  moreover have "(\<Sum>z\<leftarrow>txs ?i (mk_points w1). lt_points z) = la_points a" using w1(1,2) by (auto simp: loyalty_ok_def on_file_def sound_account_def)
  then have "(\<Sum>z\<leftarrow>txs ?i (mk_points w3). lt_points z) = la_points a + n - k" by (simp add: w3(1-3) w2(2-4) txs_def)
  ultimately show ?thesis using c(2) by (intro bexI) auto
qed

theorem redemption_lost_to_earning_witness:
  "\<exists>a rule w1 r w2 r2 w3 b. earn_decide demo_menv demo_earn demo_points = (Inr (a, rule, 50), w1) \<and> redeem ''ann'' 30 None w1 = (Inr r, w2)
     \<and> earn_commit ''ann'' demo_earn (a, rule, 50) w2 = (Inr r2, w3) \<and> b \<in> set (mk_accounts w3) \<and> la_points b = 100
     \<and> (\<Sum>x\<leftarrow>txs (la_id b) (mk_points w3). lt_points x) = 70"
proof -
  from okD [OF demo_race_run] obtain d w1 where d: "earn_decide demo_menv demo_earn demo_points = (Inr d, w1)" "snd (snd d) = 50" "la_points (fst d) = 50"
    "ok (redeem ''ann'' 30 None) w1 (\<lambda>_ u. ok (earn_commit ''ann'' demo_earn d) u (\<lambda>_ _. True))" by (elim exE conjE)
  from okD [OF d(4)] obtain r w2 where r: "redeem ''ann'' 30 None w1 = (Inr r, w2)" "ok (earn_commit ''ann'' demo_earn d) w2 (\<lambda>_ _. True)" by (elim exE conjE)
  from okD [OF r(2)] obtain r2 w3 where r2: "earn_commit ''ann'' demo_earn d w2 = (Inr r2, w3)" by (elim exE conjE)
  obtain a rule where dd: "d = (a, rule, 50)" using d(2) by (metis prod.collapse)
  have "redeem (ed_customerId demo_earn) 30 None w1 = (Inr r, w2)" using r(1) by (simp add: demo_earn_def)
  from redemption_lost_to_earning [OF demo_points_ok d(1) [unfolded dd] _ this r2 [unfolded dd]]
  obtain b where "b \<in> set (mk_accounts w3)" "la_id b = la_id a" "la_points b = 100" "(\<Sum>x\<leftarrow>txs (la_id a) (mk_points w3). lt_points x) = 70"
    using d(3) by (auto simp: dd)
  then show ?thesis using d(1) r(1) r2 dd by metis
qed

end
