(* ===== verification/Growth.thy ===== *)
theory Growth
  imports Loyalty "HOL-Library.Word"
begin

text \<open>
  The rest of growth.services.ts: feature flags, A/B tests, campaigns, search suggestions and recommendations, and the
  worker that takes the module's jobs (workers/marketing.worker.ts). \<open>hashPercent\<close> works on 32-bit words, as
  \<open>>>> 0\<close> makes of its sums.
\<close>

section \<open>FeatureFlagService\<close>

definition hashPercent :: "string \<Rightarrow> nat" where
  "hashPercent input = unat (fold (\<lambda>c h. h * 31 + of_char c) input (0 :: 32 word)) mod 100"

record flag_dto =
  fd_code :: string
  fd_name :: string
  fd_status :: "string option"
  fd_defaultValue :: "bool option"
  fd_conditionsJson :: "json option"
  fd_rolloutPercent :: "rat option"

text \<open>A \<open>NUMERIC(5, 2)\<close> percentage.\<close>

definition percent_ok :: "rat \<Rightarrow> bool" where
  "percent_ok x \<longleftrightarrow> 0 \<le> dec2 x \<and> dec2 x \<le> 100"

definition flag_create :: "string \<Rightarrow> flag_dto \<Rightarrow> (string \<times> string) mkt_act" where
  "flag_create actorId dto =
     bindA (throwIf (nullish (fd_status dto) ''disabled'' \<notin> set [''enabled'', ''disabled'', ''conditional'']) (JsError ''PrismaClientValidationError'')) (\<lambda>_.
     bindA (mkt_id (\<lambda>w. map ff_id (mk_flags w))) (\<lambda>i.
     bindA (mkt_check ''P2002'' (\<lambda>w. \<not> list_ex (\<lambda>f. ff_code f = fd_code dto \<and> ff_deleted_at f = None) (mk_flags w))) (\<lambda>_.
     bindA (modifyA (\<lambda>w. w\<lparr>mk_flags := mk_flags w @ [\<lparr>ff_id = i, ff_code = fd_code dto, ff_name = fd_name dto,
       ff_status = nullish (fd_status dto) ''disabled'', ff_default_value = nullish (fd_defaultValue dto) False, ff_deleted_at = None\<rparr>]\<rparr>)) (\<lambda>_.
     bindA (case fd_conditionsJson dto of None \<Rightarrow> returnA ()
       | Some conditions \<Rightarrow>
         bindA (mkt_check ''23514'' (\<lambda>_. opt_all percent_ok (fd_rolloutPercent dto))) (\<lambda>_.
         modifyA (\<lambda>w. w\<lparr>mk_flag_rules := mk_flag_rules w @ [\<lparr>fr_flag_id = i, fr_priority = 100, fr_conditions = Some conditions,
           fr_rollout_percent = map_option dec2 (fd_rolloutPercent dto), fr_enabled_value = True, fr_status = ''active'', fr_deleted_at = None\<rparr>]\<rparr>))) (\<lambda>_.
     bindA (modifyA (\<lambda>w. w\<lparr>mk_flag_cache := None\<rparr>)) (\<lambda>_.
     bindA (mkt_audit ''feature_flag'' (Some i) ''create'' (Some actorId) None) (\<lambda>_.
     returnA (i, fd_code dto))))))))"

text \<open>The loop over a conditional flag's rules: the first that matches decides.\<close>

fun flag_by_rules :: "mkt_env \<Rightarrow> jsobj \<Rightarrow> string option \<Rightarrow> string \<Rightarrow> bool \<Rightarrow> flag_rule_row list \<Rightarrow> bool" where
  "flag_by_rules env facts customerId code default_value [] = default_value"
| "flag_by_rules env facts customerId code default_value (rule # rules) =
     (if rr_matched (evaluate env (nullish (fr_conditions rule) (JObj [(''all'', JArr [])])) facts) then
        (case fr_rollout_percent rule of
           Some p \<Rightarrow> if truthy_str customerId \<and> of_nat (hashPercent (the customerId @ code)) \<ge> p then False else fr_enabled_value rule
         | None \<Rightarrow> fr_enabled_value rule)
      else flag_by_rules env facts customerId code default_value rules)"

definition flag_enabled :: "mkt_env \<Rightarrow> jsobj \<Rightarrow> string option \<Rightarrow> flag_row \<times> flag_rule_row list \<Rightarrow> bool" where
  "flag_enabled env facts customerId fr = (case fr of (f, rules) \<Rightarrow>
     if ff_status f = ''enabled'' then True else if ff_status f = ''disabled'' then False
     else flag_by_rules env facts customerId (ff_code f) (ff_default_value f) rules)"

definition flags_found :: "mkt_env \<Rightarrow> mkt_world \<Rightarrow> (flag_row \<times> flag_rule_row list) list" where
  "flags_found env w = map (\<lambda>f. (f, me_flag_rules env (filter (\<lambda>r. fr_flag_id r = ff_id f \<and> fr_deleted_at r = None \<and> fr_status r = ''active'') (mk_flag_rules w))))
     (me_flags env (filter (\<lambda>f. ff_deleted_at f = None) (mk_flags w)))"

definition listAndEvaluate :: "mkt_env \<Rightarrow> string option \<Rightarrow> jsobj option \<Rightarrow> (string \<times> string \<times> bool) list mkt_act" where
  "listAndEvaluate env customerId factsExtra =
     bindA (mkt_getOrSet mk_flag_cache (\<lambda>v w. w\<lparr>mk_flag_cache := Some v\<rparr>) id (readA (flags_found env))) (\<lambda>flags.
     bindA (inS now) (\<lambda>t.
     let facts = obj_spread [(''customer'', JObj [(''id'', jstr_or_null customerId)]), (''now'', JStr (me_iso env t))] (nullish factsExtra []) in
     bindA (forA flags (\<lambda>fr. mkt_emit (FeatureFlagEvaluatedEvent (ff_code (fst fr)) (flag_enabled env facts customerId fr) customerId))) (\<lambda>_.
     returnA (map (\<lambda>fr. (ff_code (fst fr), ff_name (fst fr), flag_enabled env facts customerId fr)) flags))))"

section \<open>AbTestService\<close>

record arm_dto =
  amd_code :: string
  amd_name :: string
  amd_isControl :: "bool option"
  amd_weightPercent :: rat
  amd_configJson :: "json option"

definition arm_create :: "string \<Rightarrow> arm_dto \<Rightarrow> unit mkt_act" where
  "arm_create testId v =
     bindA (mkt_id (\<lambda>w. map av_id (mk_arms w))) (\<lambda>i.
     bindA (mkt_check ''23514'' (\<lambda>_. 0 < dec2 (amd_weightPercent v) \<and> dec2 (amd_weightPercent v) \<le> 100)) (\<lambda>_.
     bindA (mkt_check ''P2002'' (\<lambda>w. \<not> list_ex (\<lambda>a. av_test_id a = testId \<and> av_code a = amd_code v \<and> av_deleted_at a = None) (mk_arms w))) (\<lambda>_.
     modifyA (\<lambda>w. w\<lparr>mk_arms := mk_arms w @ [\<lparr>av_id = i, av_test_id = testId, av_code = amd_code v, av_name = amd_name v,
       av_is_control = nullish (amd_isControl v) False, av_weight = dec2 (amd_weightPercent v), av_config = amd_configJson v,
       av_status = ''active'', av_deleted_at = None\<rparr>]\<rparr>))))"

definition ab_create :: "mkt_env \<Rightarrow> string \<Rightarrow> string \<Rightarrow> string \<Rightarrow> string \<Rightarrow> string option \<Rightarrow> arm_dto list
    \<Rightarrow> (string \<times> string \<times> (string \<times> string \<times> rat) list) mkt_act" where
  "ab_create env actorId code name targetType targetKey variants =
     bindA (transactionA
       (bindA (mkt_id (\<lambda>w. map ab_id (mk_tests w))) (\<lambda>i.
        bindA (mkt_check ''P2002'' (\<lambda>w. \<not> list_ex (\<lambda>t. ab_code t = code \<and> ab_deleted_at t = None) (mk_tests w))) (\<lambda>_.
        bindA (modifyA (\<lambda>w. w\<lparr>mk_tests := mk_tests w @ [\<lparr>ab_id = i, ab_code = code, ab_name = name, ab_target_type = targetType,
          ab_target_key = targetKey, ab_status = ''draft'', ab_deleted_at = None\<rparr>]\<rparr>)) (\<lambda>_.
        bindA (forA variants (arm_create i)) (\<lambda>_.
        returnA i)))))) (\<lambda>i.
     bindA (mkt_audit ''ab_test'' (Some i) ''create'' (Some actorId) None) (\<lambda>_.
     bindA (readA (\<lambda>w. me_arms env (filter (\<lambda>a. av_test_id a = i) (mk_arms w)))) (\<lambda>arms.
     returnA (i, code, map (\<lambda>v. (av_id v, av_code v, av_weight v)) arms))))"

text \<open>The loop of \<open>expose\<close>: the first variant whose cumulated weight exceeds the bucket, else the first of all.\<close>

fun pick_arm :: "nat \<Rightarrow> rat \<Rightarrow> variant_arm_row \<Rightarrow> variant_arm_row list \<Rightarrow> variant_arm_row" where
  "pick_arm bucket cursor chosen [] = chosen"
| "pick_arm bucket cursor chosen (v # vs) =
     (if of_nat bucket < cursor + av_weight v then v else pick_arm bucket (cursor + av_weight v) chosen vs)"

definition expose :: "mkt_env \<Rightarrow> string \<Rightarrow> string option \<Rightarrow> (string \<times> string \<times> string \<times> json option) mkt_act" where
  "expose env testCode customerId =
     bindA (readA (\<lambda>w. map_option (\<lambda>t. (t, me_arms env (filter (\<lambda>a. av_test_id a = ab_id t \<and> av_deleted_at a = None \<and> av_status a = ''active'') (mk_arms w))))
       (find (\<lambda>t. ab_code t = testCode \<and> ab_deleted_at t = None \<and> ab_status t = ''running'') (mk_tests w)))) (\<lambda>found.
     case found of
       Some (test, first # rest_arms) \<Rightarrow>
         let chosen = pick_arm (hashPercent (nullish customerId ''anon'' @ ab_id test)) 0 first (first # rest_arms) in
         bindA (modifyA (\<lambda>w. w\<lparr>mk_exposures := mk_exposures w @ [\<lparr>ax_test_id = ab_id test, ax_variant_id = av_id chosen, ax_metric_key = ''exposure'',
           ax_metric_value = 1, ax_sample_size = 1, ax_created_by = customerId\<rparr>]\<rparr>)) (\<lambda>_.
         bindA (mkt_emit (AbTestExposureEvent (ab_id test) (av_id chosen) customerId)) (\<lambda>_.
         returnA (ab_id test, av_id chosen, av_code chosen, av_config chosen)))
     | _ \<Rightarrow> throwA (AppException ''NOT_FOUND'' ''A/B test not found'' 404))"

section \<open>CampaignService\<close>

record campaign_dto =
  cgd_channel :: string
  cgd_name :: string
  cgd_templateId :: "string option"
  cgd_segmentId :: "string option"
  cgd_subject :: "string option"
  cgd_message :: "string option"
  cgd_scheduledAt :: "string option"
  cgd_launch :: "bool option"

text \<open>The table a channel's campaigns are in.\<close>

definition campaign_table :: "string \<Rightarrow> string" where
  "campaign_table channel = (if channel \<in> set [''email'', ''sms'', ''push''] then channel else ''notification'')"

definition campaign_row_of :: "campaign_dto \<Rightarrow> int option \<Rightarrow> string \<Rightarrow> campaign_row" where
  "campaign_row_of dto scheduled i = (let table = campaign_table (cgd_channel dto) in
     \<lparr>cg_id = i, cg_channel = table, cg_name = cgd_name dto, cg_template_id = cgd_templateId dto,
      cg_segment_id = (if table = ''email'' \<or> table = ''notification'' then cgd_segmentId dto else None),
      cg_title = (if table = ''email'' then cgd_subject dto else if table = ''push'' then Some (nullish (cgd_subject dto) (cgd_name dto)) else None),
      cg_body = (if table = ''sms'' then Some (nullish (cgd_message dto) (nullish (cgd_subject dto) (cgd_name dto)))
        else if table = ''push'' then Some (nullish (cgd_message dto) (cgd_name dto)) else None),
      cg_status = ''draft'', cg_scheduled_at = scheduled, cg_started_at = None, cg_completed_at = None, cg_updated_by = None\<rparr>)"

definition campaign_update :: "string \<Rightarrow> string \<Rightarrow> (campaign_row \<Rightarrow> campaign_row) \<Rightarrow> unit mkt_act" where
  "campaign_update table i f =
     bindA (readA (\<lambda>w. find (\<lambda>c. cg_channel c = table \<and> cg_id c = i) (mk_campaigns w))) (\<lambda>found.
     bindA (row_or_throw found) (\<lambda>_.
     modifyA (\<lambda>w. w\<lparr>mk_campaigns := update_where (\<lambda>c. cg_channel c = table \<and> cg_id c = i) f (mk_campaigns w)\<rparr>)))"

definition delivery_job :: "string \<Rightarrow> string" where
  "delivery_job channel = (if channel = ''sms'' then ''marketing.sms.delivery'' else if channel = ''push'' then ''marketing.push.delivery''
     else ''marketing.email.delivery'')"

definition launch :: "string \<Rightarrow> string \<Rightarrow> string \<Rightarrow> (string \<times> string) mkt_act" where
  "launch actorId channel campaignId =
     mkt_locked [''marketing'', ''campaign'', campaignId]
     (bindA (inS now) (\<lambda>t.
      bindA (campaign_update (campaign_table channel) campaignId
        (\<lambda>c. c\<lparr>cg_status := ''running'', cg_started_at := Some t, cg_updated_by := Some actorId\<rparr>)) (\<lambda>_.
      bindA (mkt_emit (CampaignStartedEvent campaignId channel)) (\<lambda>_.
      bindA (mkt_enqueue (DeliveryJob (delivery_job channel) campaignId channel)) (\<lambda>_.
      bindA (inS (logA (''campaign launched '' @ campaignId @ '' channel='' @ channel))) (\<lambda>_.
      returnA (campaignId, ''running'')))))))"

definition campaign_create :: "mkt_env \<Rightarrow> string \<Rightarrow> campaign_dto \<Rightarrow> (string \<times> string) mkt_act" where
  "campaign_create env actorId dto =
     bindA (date_arg env (cgd_scheduledAt dto)) (\<lambda>scheduled.
     bindA (mkt_id (\<lambda>w. map cg_id (filter (\<lambda>c. cg_channel c = campaign_table (cgd_channel dto)) (mk_campaigns w)))) (\<lambda>i.
     bindA (mkt_check ''P2003'' (\<lambda>w. fk_ok (cgd_templateId dto) (mk_templates w))) (\<lambda>_.
     bindA (modifyA (\<lambda>w. w\<lparr>mk_campaigns := mk_campaigns w @ [campaign_row_of dto scheduled i]\<rparr>)) (\<lambda>_.
     bindA (mkt_audit ''campaign'' (Some i) ''create'' (Some actorId) (Some (JObj [(''channel'', JStr (cgd_channel dto))]))) (\<lambda>_.
     bindA (if cgd_launch dto = Some True then bindA (launch actorId (cgd_channel dto) i) (\<lambda>_. returnA ()) else returnA ()) (\<lambda>_.
     returnA (i, cgd_channel dto)))))))"

definition complete :: "string \<Rightarrow> string \<Rightarrow> unit mkt_act" where
  "complete channel campaignId =
     bindA (inS now) (\<lambda>t.
     bindA (if channel = ''email'' then campaign_update ''email'' campaignId (\<lambda>c. c\<lparr>cg_status := ''completed'', cg_completed_at := Some t\<rparr>)
       else returnA ()) (\<lambda>_.
     mkt_emit (CampaignCompletedEvent campaignId channel)))"

section \<open>SearchMarketingService\<close>

definition synonym_create :: "string \<Rightarrow> string \<Rightarrow> unit mkt_act" where
  "synonym_create keywordId s =
     bindA (mkt_check ''P2002'' (\<lambda>w. \<not> list_ex (\<lambda>y. sy_keyword_id y = keywordId \<and> sy_synonym y = s \<and> sy_deleted_at y = None) (mk_synonyms w))) (\<lambda>_.
     modifyA (\<lambda>w. w\<lparr>mk_synonyms := mk_synonyms w @ [\<lparr>sy_keyword_id = keywordId, sy_synonym = s, sy_status = ''active'', sy_deleted_at = None\<rparr>]\<rparr>))"

definition createKeyword :: "string \<Rightarrow> int option \<Rightarrow> string list option \<Rightarrow> (string \<times> string) mkt_act" where
  "createKeyword keyword boost synonyms =
     bindA (transactionA
       (bindA (mkt_id (\<lambda>w. map kw_id (mk_keywords w))) (\<lambda>i.
        bindA (throwIf (\<not> int4 (nullish boost 0)) (prisma_error ''P2033'')) (\<lambda>_.
        bindA (mkt_check ''P2002'' (\<lambda>w. \<not> list_ex (\<lambda>k. kw_keyword k = keyword \<and> kw_deleted_at k = None) (mk_keywords w))) (\<lambda>_.
        bindA (modifyA (\<lambda>w. w\<lparr>mk_keywords := mk_keywords w @ [\<lparr>kw_id = i, kw_keyword = keyword, kw_autocomplete = True, kw_boost = nullish boost 0,
          kw_status = ''active'', kw_deleted_at = None\<rparr>]\<rparr>)) (\<lambda>_.
        bindA (forA (nullish synonyms []) (synonym_create i)) (\<lambda>_.
        returnA i))))))) (\<lambda>i.
     bindA (if nullish boost 0 > 0 then mkt_emit (SearchBoostAppliedEvent keyword (nullish boost 0)) else returnA ()) (\<lambda>_.
     returnA (i, keyword)))"

text \<open>The filter of \<open>suggestions\<close> with its set of keys seen.\<close>

fun unseen :: "(string \<Rightarrow> string) \<Rightarrow> string set \<Rightarrow> suggestion list \<Rightarrow> suggestion list" where
  "unseen lc seen [] = []"
| "unseen lc seen (s # ss) = (let key = lc (sg_text s) in
     if key \<in> seen then unseen lc seen ss else s # unseen lc (insert key seen) ss)"

definition keyword_hits :: "mkt_env \<Rightarrow> string \<Rightarrow> mkt_world \<Rightarrow> suggestion list" where
  "keyword_hits env query w = map (\<lambda>k. \<lparr>sg_text = kw_keyword k, sg_boost = kw_boost k, sg_source = ''keyword''\<rparr>)
     (take 10 (me_keywords env (filter (\<lambda>k. kw_deleted_at k = None \<and> kw_status k = ''active'' \<and> kw_autocomplete k \<and> me_ilike env (kw_keyword k) query)
       (mk_keywords w))))"

definition popular_hits :: "mkt_env \<Rightarrow> string \<Rightarrow> mkt_world \<Rightarrow> suggestion list" where
  "popular_hits env query w = map (\<lambda>p. \<lparr>sg_text = pq_keyword p, sg_boost = 0, sg_source = ''popular''\<rparr>)
     (take 5 (me_popular env (filter (\<lambda>p. pq_deleted_at p = None \<and> pq_status p = ''active'' \<and> me_ilike env (pq_keyword p) query) (mk_popular w))))"

definition synonym_hits :: "mkt_env \<Rightarrow> string \<Rightarrow> mkt_world \<Rightarrow> suggestion list" where
  "synonym_hits env query w = concat (map (\<lambda>y. case find (\<lambda>k. kw_id k = sy_keyword_id y) (mk_keywords w) of
       None \<Rightarrow> [] | Some k \<Rightarrow> [\<lparr>sg_text = kw_keyword k, sg_boost = kw_boost k, sg_source = ''synonym''\<rparr>])
     (take 5 (me_synonyms env (filter (\<lambda>y. sy_deleted_at y = None \<and> sy_status y = ''active'' \<and> me_ilike env (sy_synonym y) query) (mk_synonyms w)))))"

definition suggestions :: "mkt_env \<Rightarrow> string \<Rightarrow> suggestion list mkt_act" where
  "suggestions env q = (let query = me_lower env (trim q) in
     if query = [] then returnA []
     else let key = me_lower env query in
       mkt_getOrSet (\<lambda>w. mk_suggest_cache w key) (\<lambda>v w. w\<lparr>mk_suggest_cache := (mk_suggest_cache w)(key \<mapsto> v)\<rparr>) id
       (bindA (readA (\<lambda>w. keyword_hits env query w @ popular_hits env query w @ synonym_hits env query w)) (\<lambda>found.
        bindA (mkt_enqueue (SearchAnalyticsJob query)) (\<lambda>_.
        returnA (unseen (me_lower env) {} found)))))"

section \<open>RecommendationService\<close>

definition rec_create :: "string \<Rightarrow> string \<Rightarrow> string \<Rightarrow> rat option \<Rightarrow> json option \<Rightarrow> string mkt_act" where
  "rec_create actorId productId recommendedProductId score conditionsJson =
     bindA (mkt_id (\<lambda>w. map rm_id (mk_recs w))) (\<lambda>i.
     bindA (mkt_check ''P2003'' (\<lambda>w. productId \<in> set (mk_products w) \<and> recommendedProductId \<in> set (mk_products w))) (\<lambda>_.
     bindA (mkt_check ''23514'' (\<lambda>_. opt_all rate_ok score \<and> productId \<noteq> recommendedProductId)) (\<lambda>_.
     bindA (mkt_check ''P2002'' (\<lambda>w. \<not> list_ex (\<lambda>r. rm_product_id r = productId \<and> rm_recommended_id r = recommendedProductId \<and> rm_source r = ''manual''
       \<and> rm_deleted_at r = None) (mk_recs w))) (\<lambda>_.
     bindA (modifyA (\<lambda>w. w\<lparr>mk_recs := mk_recs w @ [\<lparr>rm_id = i, rm_product_id = productId, rm_recommended_id = recommendedProductId, rm_source = ''manual'',
       rm_score = map_option dec4 score, rm_sort_order = 0, rm_status = ''active'', rm_deleted_at = None\<rparr>]\<rparr>)) (\<lambda>_.
     bindA (case conditionsJson of None \<Rightarrow> returnA ()
       | Some c \<Rightarrow> mkt_audit ''recommendation_rule'' (Some i) ''conditions'' (Some actorId) (Some c)) (\<lambda>_.
     bindA (modifyA (\<lambda>w. w\<lparr>mk_recs_cache := (mk_recs_cache w)(productId := None)\<rparr>)) (\<lambda>_.
     returnA i)))))))"

text \<open>The conditions an audit entry holds for a recommendation: a row passes when there are none or they match.\<close>

definition rec_passes :: "mkt_env \<Rightarrow> jsobj \<Rightarrow> mkt_world \<Rightarrow> recommendation_row \<Rightarrow> bool" where
  "rec_passes env facts w r =
     (case find (\<lambda>a. ma_entity_type a = ''recommendation_rule'' \<and> ma_entity_id a = Some (rm_id r) \<and> ma_action a = ''conditions'') (me_audit env (mk_audit w)) of
        None \<Rightarrow> True
      | Some a \<Rightarrow> (case ma_new_values a of None \<Rightarrow> True
        | Some c \<Rightarrow> if truthy c then rr_matched (evaluate env c facts) else True))"

definition rec_of :: "recommendation_row \<Rightarrow> recommendation" where
  "rec_of r = \<lparr>rn_id = rm_id r, rn_productId = rm_product_id r, rn_recommendedProductId = rm_recommended_id r, rn_score = rm_score r, rn_source = rm_source r\<rparr>"

definition rec_facts :: "mkt_env \<Rightarrow> string \<Rightarrow> string option \<Rightarrow> int \<Rightarrow> jsobj" where
  "rec_facts env productId customerId t =
     [(''customer'', JObj [(''id'', jstr_or_null customerId)]), (''product'', JObj [(''id'', JStr productId)]), (''now'', JStr (me_iso env t))]"

definition rec_compute :: "mkt_env \<Rightarrow> string \<Rightarrow> string option \<Rightarrow> recommendation list mkt_act" where
  "rec_compute env productId customerId =
     bindA (readA (\<lambda>w. take 20 (me_recs env (filter (\<lambda>r. rm_product_id r = productId \<and> rm_deleted_at r = None \<and> rm_status r = ''active'') (mk_recs w))))) (\<lambda>rows.
     bindA (inS now) (\<lambda>t.
     bindA (readA (\<lambda>w. map rec_of (filter (rec_passes env (rec_facts env productId customerId t) w) rows))) (\<lambda>out.
     bindA (mkt_emit (RecommendationGeneratedEvent productId (length out))) (\<lambda>_.
     returnA out))))"

datatype listing = Recent "string list" | Recommended "recommendation list"

definition rec_list :: "mkt_env \<Rightarrow> string option \<Rightarrow> string option \<Rightarrow> string option \<Rightarrow> listing mkt_act" where
  "rec_list env productId customerId kind =
     (if kind = Some ''recent'' \<and> truthy_str customerId then
        bindA (readA (\<lambda>w. take 12 (me_viewed env (filter (\<lambda>v. vw_customer_id v = the customerId \<and> vw_deleted_at v = None) (mk_viewed w))))) (\<lambda>recent.
        returnA (Recent (map vw_product_id recent)))
      else if \<not> truthy_str productId then returnA (Recommended [])
      else bindA (mkt_getOrSet (\<lambda>w. mk_recs_cache w (the productId)) (\<lambda>v w. w\<lparr>mk_recs_cache := (mk_recs_cache w)(the productId \<mapsto> v)\<rparr>) id
          (rec_compute env (the productId) customerId)) (\<lambda>out.
        returnA (Recommended out)))"

section \<open>MarketingWorker\<close>

definition popular_count :: "string \<Rightarrow> unit mkt_act" where
  "popular_count q =
     bindA (readA (\<lambda>w. find (\<lambda>p. pq_keyword p = q \<and> pq_deleted_at p = None) (mk_popular w))) (\<lambda>existing.
     bindA (inS now) (\<lambda>t.
     case existing of
       Some p \<Rightarrow> modifyA (\<lambda>w. w\<lparr>mk_popular := update_where (\<lambda>r. pq_id r = pq_id p) (\<lambda>r. r\<lparr>pq_count := pq_count r + 1, pq_last := Some t\<rparr>) (mk_popular w)\<rparr>)
     | None \<Rightarrow>
       bindA (mkt_id (\<lambda>w. map pq_id (mk_popular w))) (\<lambda>i.
       modifyA (\<lambda>w. w\<lparr>mk_popular := mk_popular w @ [\<lparr>pq_id = i, pq_keyword = q, pq_count = 1, pq_last = Some t, pq_status = ''active'', pq_deleted_at = None\<rparr>]\<rparr>))))"

definition process :: "mkt_job \<Rightarrow> unit mkt_act" where
  "process job = (case job of
     DeliveryJob name campaignId channel \<Rightarrow>
       if campaignId \<noteq> [] \<and> channel \<noteq> [] then
         bindA (inS (logA (''deliver '' @ channel @ '' campaign='' @ campaignId))) (\<lambda>_. complete channel campaignId)
       else returnA ()
   | SearchAnalyticsJob query \<Rightarrow> let q = trim query in if q = [] then returnA () else popular_count q
   | ReferralRewardsJob i \<Rightarrow> inS (logA ''ack job marketing.referral.rewards'')
   | OtherJob name \<Rightarrow>
       if name = ''marketing.campaign.scheduler'' then inS (logA ''campaign scheduler tick'')
       else if name \<in> set [''marketing.coupon.expiry'', ''marketing.loyalty.expiry'', ''marketing.rec.refresh''] then inS (logA (''ack job '' @ name))
       else inS (logA (''unknown marketing job '' @ name)))"

end
