(* ===== verification/Growth_Contract.thy ===== *)
theory Growth_Contract
  imports Growth
begin

text \<open>
  What the growth services do over time: how variants share the customers of a test, which tests and campaigns ever
  change status, and what search suggestions and cached recommendations contain.
\<close>

section \<open>Variants\<close>

lemma pick_arm_prefix:
  assumes "\<And>v. v \<in> set vs \<Longrightarrow> 0 \<le> av_weight v" "cursor + (\<Sum>v\<leftarrow>vs. av_weight v) \<le> of_nat bucket"
  shows "pick_arm bucket cursor chosen (vs @ us) = pick_arm bucket (cursor + (\<Sum>v\<leftarrow>vs. av_weight v)) chosen us"
  using assms
proof (induction vs arbitrary: cursor)
  case (Cons v vs)
  have "0 \<le> (\<Sum>v\<leftarrow>vs. av_weight v)" using Cons.prems(1) by (intro sum_list_nonneg) auto
  then have "\<not> of_nat bucket < cursor + av_weight v" using Cons.prems(2) by (simp add: not_less)
  then show ?case using Cons.IH [of "cursor + av_weight v"] Cons.prems by (simp add: add.assoc)
qed simp

lemma pick_arm_early:
  assumes "\<And>v. v \<in> set vs \<Longrightarrow> 0 \<le> av_weight v" "of_nat bucket < cursor + (\<Sum>v\<leftarrow>vs. av_weight v)" "cursor \<le> of_nat bucket"
  shows "pick_arm bucket cursor chosen (vs @ us) \<in> set vs"
  using assms
proof (induction vs arbitrary: cursor)
  case (Cons v vs)
  show ?case
  proof (cases "of_nat bucket < cursor + av_weight v")
    case False
    then show ?thesis using Cons.IH [of "cursor + av_weight v"] Cons.prems by (simp add: add.assoc)
  qed simp
qed simp

definition weight_before :: "variant_arm_row list \<Rightarrow> nat \<Rightarrow> rat" where
  "weight_before vs i = (\<Sum>v\<leftarrow>take i vs. av_weight v)"

lemma pick_arm_at:
  assumes "i < length vs" "distinct vs" "\<And>v. v \<in> set vs \<Longrightarrow> 0 \<le> av_weight v" "of_nat b < (\<Sum>v\<leftarrow>vs. av_weight v)"
  shows "pick_arm b 0 chosen vs = vs ! i \<longleftrightarrow> weight_before vs i \<le> of_nat b \<and> of_nat b < weight_before vs i + av_weight (vs ! i)"
proof -
  define xs v ys where d: "xs = take i vs" "v = vs ! i" "ys = drop (Suc i) vs"
  have vs: "vs = xs @ v # ys" using assms(1) by (simp add: d id_take_nth_drop)
  have pos: "\<And>u. u \<in> set xs \<Longrightarrow> 0 \<le> av_weight u" "0 \<le> av_weight v" "\<And>u. u \<in> set ys \<Longrightarrow> 0 \<le> av_weight u" using assms(3) by (auto simp: vs)
  have fresh: "v \<notin> set xs" "v \<notin> set ys" using assms(2) by (auto simp: vs)
  have before: "weight_before vs i = (\<Sum>u\<leftarrow>xs. av_weight u)" by (simp add: weight_before_def d)
  consider "of_nat b < (\<Sum>u\<leftarrow>xs. av_weight u)" | "(\<Sum>u\<leftarrow>xs. av_weight u) \<le> of_nat b" "of_nat b < (\<Sum>u\<leftarrow>xs. av_weight u) + av_weight v"
    | "(\<Sum>u\<leftarrow>xs. av_weight u) + av_weight v \<le> of_nat b" by linarith
  then show ?thesis
  proof cases
    case 1
    then have "pick_arm b 0 chosen vs \<in> set xs" unfolding vs by (intro pick_arm_early) (use pos in auto)
    then show ?thesis using 1 fresh(1) by (auto simp: before d(2) [symmetric])
  next
    case 2
    then have "pick_arm b 0 chosen vs = v" using pick_arm_prefix [of xs 0 b chosen "v # ys"] pos by (simp add: vs)
    then show ?thesis using 2 by (simp add: before d(2) [symmetric])
  next
    case 3
    have "pick_arm b 0 chosen vs = pick_arm b ((\<Sum>u\<leftarrow>xs. av_weight u) + av_weight v) chosen ys"
      using pick_arm_prefix [of "xs @ [v]" 0 b chosen ys] pos 3 by (auto simp: vs)
    moreover have "pick_arm b ((\<Sum>u\<leftarrow>xs. av_weight u) + av_weight v) chosen (ys @ []) \<in> set ys"
      by (rule pick_arm_early) (use pos 3 assms(4) in \<open>auto simp: vs add.assoc\<close>)
    ultimately show ?thesis using 3 fresh(2) by (auto simp: before d(2) [symmetric])
  qed
qed

lemma hashPercent_bound: "hashPercent s < 100"
  by (simp add: hashPercent_def)

text \<open>
  C29: With whole weights that add up to a hundred, the hundred buckets \<open>hashPercent\<close> gives are shared exactly: each
  variant of a test gets as many of them as its weight says.
\<close>
theorem variants_share_buckets:
  assumes "distinct vs" "\<And>v. v \<in> set vs \<Longrightarrow> av_weight v = of_nat (k v)" "(\<Sum>v\<leftarrow>vs. k v) = 100" "v \<in> set vs"
  shows "card {b. b < 100 \<and> pick_arm b 0 (hd vs) vs = v} = k v \<and> hashPercent s < 100"
proof -
  obtain i where i: "i < length vs" "vs ! i = v" using assms(4) by (auto simp: in_set_conv_nth)
  have sums: "(\<Sum>u\<leftarrow>us. av_weight u) = of_nat (\<Sum>u\<leftarrow>us. k u)" if "set us \<subseteq> set vs" for us using that assms(2) by (induction us) auto
  define n where "n = (\<Sum>u\<leftarrow>take i vs. k u)"
  have n: "weight_before vs i = of_nat n" using sums [of "take i vs"] by (simp add: weight_before_def n_def set_take_subset)
  have "(\<Sum>u\<leftarrow>take i vs @ vs ! i # drop (Suc i) vs. k u) = 100" using assms(3) i(1) by (simp add: id_take_nth_drop [symmetric])
  then have le: "n + k v \<le> 100" by (simp add: n_def i(2))
  have "pick_arm b 0 (hd vs) vs = v \<longleftrightarrow> n \<le> b \<and> b < n + k v" if "b < 100" for b
  proof -
    have "(\<Sum>u\<leftarrow>vs. av_weight u) = 100" using sums [of vs] assms(3) by simp
    then have "of_nat b < (\<Sum>u\<leftarrow>vs. av_weight u)" using that by simp
    then show ?thesis using pick_arm_at [OF i(1) assms(1), of b "hd vs"] assms(2) assms(2) [OF assms(4)]
      by (simp add: i(2) n flip: of_nat_add)
  qed
  then have "{b. b < 100 \<and> pick_arm b 0 (hd vs) vs = v} = {n..<n + k v}"
    unfolding set_eq_iff mem_Collect_eq atLeastLessThan_iff using le by (metis order_less_le_trans)
  then show ?thesis by (simp add: hashPercent_bound)
qed

definition demo_arm :: "string \<Rightarrow> rat \<Rightarrow> variant_arm_row" where
  "demo_arm i weight = \<lparr>av_id = i, av_test_id = ''t1'', av_code = i, av_name = i, av_is_control = False, av_weight = weight, av_config = None,
     av_status = ''active'', av_deleted_at = None\<rparr>"

definition demo_arms :: "variant_arm_row list" where
  "demo_arms = [demo_arm ''A'' 30, demo_arm ''B'' 70]"

theorem variants_share_buckets_witness: "card {b. b < 100 \<and> pick_arm b 0 (hd demo_arms) demo_arms = demo_arm ''B'' 70} = 70"
proof -
  define k :: "variant_arm_row \<Rightarrow> nat" where "k = (\<lambda>v. if av_id v = ''A'' then 30 else 70)"
  have "distinct demo_arms" "(\<Sum>v\<leftarrow>demo_arms. k v) = 100" "demo_arm ''B'' 70 \<in> set demo_arms" "k (demo_arm ''B'' 70) = 70"
    by (simp_all add: demo_arms_def demo_arm_def k_def)
  moreover have "av_weight v = of_nat (k v)" if "v \<in> set demo_arms" for v using that by (auto simp: demo_arms_def demo_arm_def k_def)
  ultimately show ?thesis using variants_share_buckets [of demo_arms k "demo_arm ''B'' 70"] by metis
qed

section \<open>Tests never start\<close>

datatype ab_request =
    CreateTest string string string string "string option" "arm_dto list"
  | Expose string "string option"

definition ab_handle :: "mkt_env \<Rightarrow> ab_request \<Rightarrow> mkt_world \<Rightarrow> mkt_world" where
  "ab_handle env r w = (case r of
     CreateTest actor code name ty key vs \<Rightarrow> snd (ab_create env actor code name ty key vs w)
   | Expose code customer \<Rightarrow> snd (expose env code customer w))"

definition drafts_only :: "mkt_world \<Rightarrow> bool" where
  "drafts_only w \<longleftrightarrow> (\<forall>t \<in> set (mk_tests w). ab_status t = ''draft'')"

interpretation test_tables: table_part mk_tests
  by unfold_locales (simp add: books_def)

lemma drafts_keep: "preserves mk_tests m \<Longrightarrow> keeps drafts_only m"
  by (rule preserves_keeps) (auto simp: drafts_only_def)

lemma drafts_create: "keeps drafts_only (ab_create env actor code name ty key vs)"
  unfolding ab_create_def arm_create_def
  by (intro keeps_bindA keeps_transactionA keeps_forA keeps_readA keeps_returnA drafts_keep [OF test_tables.part_id] drafts_keep [OF test_tables.part_check]
      drafts_keep [OF test_tables.part_audit] keeps_modifyA) (auto simp: drafts_only_def)

lemma expose_nothing:
  assumes "drafts_only w"
  shows "expose env code customer w = (Inl (AppException ''NOT_FOUND'' ''A/B test not found'' 404), w)"
proof -
  have "find (\<lambda>t. ab_code t = code \<and> ab_deleted_at t = None \<and> ab_status t = ''running'') (mk_tests w) = None"
    using assms by (auto simp: find_None_iff drafts_only_def)
  then show ?thesis by (simp add: expose_def bindA_def)
qed

text \<open>
  A test is created as a draft and no operation of the service starts it: after any sequence of requests, every
  exposure, of any code and by any customer, is refused as not found and changes nothing.
\<close>
theorem ab_tests_never_exposed:
  assumes "drafts_only w"
  shows "expose env code customer (fold (ab_handle env) rs w) = (Inl (AppException ''NOT_FOUND'' ''A/B test not found'' 404), fold (ab_handle env) rs w)"
proof (rule expose_nothing)
  show "drafts_only (fold (ab_handle env) rs w)" using assms
  proof (induction rs arbitrary: w)
    case (Cons r rs)
    have "drafts_only (ab_handle env r w)"
      using drafts_create Cons.prems expose_nothing [OF Cons.prems] by (cases r) (simp_all add: ab_handle_def keeps_def)
    then show ?case using Cons.IH by simp
  qed simp
qed

definition demo_tests :: "ab_request list" where
  "demo_tests = [CreateTest ''ann'' ''T'' ''Test'' ''page'' None
     [\<lparr>amd_code = ''A'', amd_name = ''A'', amd_isControl = Some True, amd_weightPercent = 30, amd_configJson = None\<rparr>,
      \<lparr>amd_code = ''B'', amd_name = ''B'', amd_isControl = None, amd_weightPercent = 70, amd_configJson = None\<rparr>]]"

theorem ab_tests_never_exposed_witness:
  "length (mk_arms (fold (ab_handle demo_menv) demo_tests demo_market)) = 2
   \<and> fst (expose demo_menv ''T'' (Some ''ann'') (fold (ab_handle demo_menv) demo_tests demo_market)) = Inl (AppException ''NOT_FOUND'' ''A/B test not found'' 404)"
proof
  show "length (mk_arms (fold (ab_handle demo_menv) demo_tests demo_market)) = 2" by code_simp
  have "drafts_only demo_market" by (simp add: drafts_only_def demo_market_def)
  from ab_tests_never_exposed [OF this]
  show "fst (expose demo_menv ''T'' (Some ''ann'') (fold (ab_handle demo_menv) demo_tests demo_market)) = Inl (AppException ''NOT_FOUND'' ''A/B test not found'' 404)"
    by simp
qed

section \<open>Campaigns\<close>

datatype campaign_request =
    CreateCampaign string campaign_dto
  | LaunchCampaign string string string
  | WorkOff mkt_job

definition campaign_handle :: "mkt_env \<Rightarrow> campaign_request \<Rightarrow> mkt_world \<Rightarrow> mkt_world" where
  "campaign_handle env r w = (case r of
     CreateCampaign actor dto \<Rightarrow> snd (campaign_create env actor dto w)
   | LaunchCampaign actor channel i \<Rightarrow> snd (launch actor channel i w)
   | WorkOff job \<Rightarrow> snd (process job w))"

definition unfinished :: "campaign_row \<Rightarrow> bool" where
  "unfinished c \<longleftrightarrow> cg_status c \<in> {''draft'', ''running''} \<and> cg_completed_at c = None"

definition only_emails_end :: "mkt_world \<Rightarrow> bool" where
  "only_emails_end w \<longleftrightarrow> (\<forall>c \<in> set (mk_campaigns w). cg_channel c = ''email'' \<or> unfinished c)"

interpretation campaign_tables: table_part mk_campaigns
  by unfold_locales (simp add: books_def)

lemmas camps_services = campaign_tables.part_inS campaign_tables.part_emit campaign_tables.part_id campaign_tables.part_check campaign_tables.part_audit
  campaign_tables.part_enqueue

lemma camps_keep: "preserves mk_campaigns m \<Longrightarrow> keeps only_emails_end m"
  by (rule preserves_keeps) (auto simp: only_emails_end_def)

lemma camps_update:
  assumes "\<And>c. cg_channel (f c) = cg_channel c" "\<And>c. table \<noteq> ''email'' \<Longrightarrow> unfinished c \<Longrightarrow> unfinished (f c)"
  shows "keeps only_emails_end (campaign_update table i f)"
  unfolding campaign_update_def row_or_throw_def
proof (intro keeps_bindA keeps_readA keeps_modifyA)
  fix w assume "only_emails_end w"
  then show "only_emails_end (w\<lparr>mk_campaigns := update_where (\<lambda>c. cg_channel c = table \<and> cg_id c = i) f (mk_campaigns w)\<rparr>)"
    using assms(2) by (auto simp: only_emails_end_def update_where_def assms(1)) blast
qed (auto split: option.split)

lemma camps_launch: "keeps only_emails_end (launch actor channel i)"
  unfolding launch_def
  by (rule keeps_mkt_locked) (auto intro!: keeps_bindA camps_keep [OF camps_services(1)] camps_update camps_keep [OF camps_services(2)]
    camps_keep [OF camps_services(6)] simp: unfinished_def only_emails_end_def)

lemma camps_create: "keeps only_emails_end (campaign_create env actor dto)"
proof -
  have "keeps only_emails_end (if cgd_launch dto = Some True then bindA (launch actor (cgd_channel dto) i) (\<lambda>_. returnA ()) else returnA ())" for i
    by (auto intro: keeps_bindA camps_launch)
  moreover have "cg_channel (campaign_row_of dto t i) = ''email'' \<or> unfinished (campaign_row_of dto t i)" for t i
    by (simp add: unfinished_def campaign_row_of_def Let_def)
  ultimately show ?thesis unfolding campaign_create_def
    by (intro keeps_bindA keeps_modifyA camps_keep [OF camps_services(3)] camps_keep [OF camps_services(4)] camps_keep [OF camps_services(5)] camps_keep [OF campaign_tables.part_date_arg] keeps_returnA)
      (auto simp: only_emails_end_def)
qed

lemma camps_complete: "keeps only_emails_end (complete channel i)"
  unfolding complete_def by (auto intro!: keeps_bindA camps_keep [OF camps_services(1)] camps_keep [OF camps_services(2)] camps_update)

lemma camps_popular: "preserves mk_campaigns (popular_count q)"
  unfolding popular_count_def
  by (intro preserves_bindA preserves_readA camps_services preserves_case_option preserves_modifyA) simp_all

lemma camps_process: "keeps only_emails_end (process job)"
proof (cases job)
  case (DeliveryJob name i channel)
  then show ?thesis by (auto simp: process_def intro!: keeps_bindA camps_complete camps_keep [OF camps_services(1)])
next
  case (SearchAnalyticsJob q)
  then show ?thesis by (simp add: process_def Let_def camps_keep [OF camps_popular])
next
  case (ReferralRewardsJob i)
  then show ?thesis by (simp add: process_def camps_keep [OF camps_services(1)])
next
  case (OtherJob name)
  then show ?thesis by (simp add: process_def camps_keep [OF camps_services(1)])
qed

lemma campaigns_kept: "only_emails_end w \<Longrightarrow> only_emails_end (fold (campaign_handle env) rs w)"
proof (induction rs arbitrary: w)
  case (Cons r rs)
  have "only_emails_end (campaign_handle env r w)"
    using camps_create camps_launch camps_process Cons.prems by (cases r) (simp_all add: campaign_handle_def keeps_def)
  then show ?case using Cons.IH by simp
qed simp

text \<open>
  Only an e-mail campaign ever ends: whatever campaigns are created and launched and whatever jobs the worker takes,
  a campaign of any other channel is a draft or running and has no time of completion, its delivery included.
\<close>
theorem only_email_campaigns_complete:
  assumes "only_emails_end w" "t = fold (campaign_handle env) rs w" "c \<in> set (mk_campaigns t)" "cg_channel c \<noteq> ''email''"
  shows "cg_status c \<in> {''draft'', ''running''} \<and> cg_completed_at c = None"
  using campaigns_kept [OF assms(1), of env rs] assms(2-4) by (auto simp: only_emails_end_def unfinished_def)

definition demo_campaign :: campaign_dto where
  "demo_campaign = \<lparr>cgd_channel = ''sms'', cgd_name = ''Sale'', cgd_templateId = None, cgd_segmentId = None, cgd_subject = None, cgd_message = Some ''Hi'',
     cgd_scheduledAt = None, cgd_launch = Some True\<rparr>"

definition demo_campaigns :: "campaign_request list" where
  "demo_campaigns = [CreateCampaign ''ann'' demo_campaign, WorkOff (DeliveryJob ''marketing.sms.delivery'' ''a'' ''sms'')]"

theorem only_email_campaigns_complete_witness:
  "\<exists>t c. t = fold (campaign_handle demo_menv) demo_campaigns demo_market \<and> mk_campaigns t = [c] \<and> cg_status c = ''running''
     \<and> CampaignCompletedEvent ''a'' ''sms'' \<in> set (mk_events t) \<and> cg_completed_at c = None"
proof -
  define t where "t = fold (campaign_handle demo_menv) demo_campaigns demo_market"
  have "map (\<lambda>c. (cg_status c, cg_channel c)) (mk_campaigns t) = [(''running'', ''sms'')]" "CampaignCompletedEvent ''a'' ''sms'' \<in> set (mk_events t)"
    unfolding t_def by code_simp+
  then obtain c where c: "mk_campaigns t = [c]" "cg_status c = ''running''" "cg_channel c = ''sms''" "CampaignCompletedEvent ''a'' ''sms'' \<in> set (mk_events t)" by auto
  have "only_emails_end demo_market" by (simp add: only_emails_end_def demo_market_def)
  from only_email_campaigns_complete [OF this t_def, of c] c show ?thesis by (auto simp: t_def)
qed

section \<open>Suggestions\<close>

lemma unseen_keys:
  "distinct (map (\<lambda>s. lc (sg_text s)) (unseen lc seen ss)) \<and> (\<lambda>s. lc (sg_text s)) ` set (unseen lc seen ss) = (\<lambda>s. lc (sg_text s)) ` set ss - seen"
  by (induction ss arbitrary: seen) (auto simp: Let_def image_iff)

lemma unseen_first: "s \<in> set (unseen lc seen ss) \<Longrightarrow> find (\<lambda>x. lc (sg_text x) = lc (sg_text s)) ss = Some s \<and> lc (sg_text s) \<notin> seen"
  by (induction ss arbitrary: seen) (fastforce simp: Let_def split: if_splits)+

lemma unseen_length: "length (unseen lc seen ss) \<le> length ss"
  by (induction ss arbitrary: seen) (auto simp: Let_def le_SucI)

lemma hits_length: "length (keyword_hits env q w @ popular_hits env q w @ synonym_hits env q w) \<le> 20"
proof -
  have "length (concat (map (\<lambda>y. case g y of None \<Rightarrow> [] | Some k \<Rightarrow> [h k]) ys)) \<le> length ys" for g h and ys :: "synonym_row list"
    by (induction ys) (auto split: option.split)
  from le_trans [OF this, of "take 5 _" 5] have "length (synonym_hits env q w) \<le> 5" unfolding synonym_hits_def by simp
  moreover have "length (keyword_hits env q w) \<le> 10" "length (popular_hits env q w) \<le> 5" by (simp_all add: keyword_hits_def popular_hits_def)
  ultimately show ?thesis by simp
qed

text \<open>
  C30: The suggestions of a query not in the cache are the hits of the keywords, then the popular searches, then the
  synonyms, without repeats: no two agree but for case, every hit's text is among them, each is the first hit with its
  text, and there are at most twenty.
\<close>
theorem suggestions_without_repeats:
  assumes "suggestions env q w = (Inr ss, t)" "query = me_lower env (trim q)" "query \<noteq> []" "mk_suggest_cache w (me_lower env query) = None"
    "found = keyword_hits env query w @ popular_hits env query w @ synonym_hits env query w"
  shows "distinct (map (\<lambda>s. me_lower env (sg_text s)) ss) \<and> (\<lambda>s. me_lower env (sg_text s)) ` set ss = (\<lambda>s. me_lower env (sg_text s)) ` set found
    \<and> (\<forall>s \<in> set ss. find (\<lambda>x. me_lower env (sg_text x) = me_lower env (sg_text s)) found = Some s) \<and> length ss \<le> 20"
proof -
  have "wp (suggestions env q) w (\<lambda>ss _. ss = unseen (me_lower env) {} found) (\<lambda>_ _. True)"
    using assms(3,4) by (simp add: suggestions_def Let_def assms(2) [symmetric] assms(5) mkt_getOrSet_def mkt_enqueue_def wp_def bindA_def inS_def split: option.split)
  from wp_Inr [OF this assms(1)] have ss: "ss = unseen (me_lower env) {} found" .
  have "length ss \<le> 20" using unseen_length [of "me_lower env" "{}" found] hits_length [of env query w] by (simp add: ss assms(5))
  then show ?thesis using unseen_keys [of "me_lower env" "{}" found] unseen_first [of _ "me_lower env" "{}" found] by (auto simp: ss)
qed

definition demo_keyword :: "string \<Rightarrow> string \<Rightarrow> keyword_row" where
  "demo_keyword i text = \<lparr>kw_id = i, kw_keyword = text, kw_autocomplete = True, kw_boost = 1, kw_status = ''active'', kw_deleted_at = None\<rparr>"

definition demo_searched :: mkt_world where
  "demo_searched = demo_market\<lparr>mk_keywords := [demo_keyword ''k1'' ''phone'', demo_keyword ''k2'' ''phones''],
     mk_popular := [\<lparr>pq_id = ''p1'', pq_keyword = ''phone'', pq_count = 3, pq_last = None, pq_status = ''active'', pq_deleted_at = None\<rparr>],
     mk_synonyms := [\<lparr>sy_keyword_id = ''k2'', sy_synonym = ''telephone'', sy_status = ''active'', sy_deleted_at = None\<rparr>]\<rparr>"

theorem suggestions_without_repeats_witness:
  "\<exists>ss t. suggestions demo_menv '' phone'' demo_searched = (Inr ss, t) \<and> map sg_text ss = [''phone'', ''phones''] \<and> length ss \<le> 20"
proof -
  have "ok (suggestions demo_menv '' phone'') demo_searched (\<lambda>ss _. map sg_text ss = [''phone'', ''phones''])" by code_simp
  from okD [OF this] obtain ss t where ss: "suggestions demo_menv '' phone'' demo_searched = (Inr ss, t)" "map sg_text ss = [''phone'', ''phones'']" by (elim exE conjE)
  have "me_lower demo_menv (trim '' phone'') \<noteq> []" "mk_suggest_cache demo_searched (me_lower demo_menv (me_lower demo_menv (trim '' phone''))) = None"
    by code_simp (simp add: demo_searched_def demo_market_def)
  from suggestions_without_repeats [OF ss(1) refl this refl] have "length ss \<le> 20" by (elim conjE)
  with ss show ?thesis by (intro exI [of _ ss] exI [of _ t] conjI)
qed

section \<open>Recommendations\<close>

lemma rec_list_cached:
  "mk_recs_cache w p = Some out \<Longrightarrow> p \<noteq> [] \<Longrightarrow> kind \<noteq> Some ''recent'' \<Longrightarrow> rec_list env (Some p) customer kind w = (Inr (Recommended out), w)"
  by (simp add: rec_list_def mkt_getOrSet_def bindA_def)

text \<open>
  Recommendations have conditions on the customer, but the cache keeps one list for a product: after one customer's
  list was computed, every other customer gets it too, whatever the conditions say.
\<close>
theorem recommendations_shared_between_customers:
  assumes "rec_list env (Some p) customer kind w = (Inr (Recommended out), u)" "p \<noteq> []" "kind \<noteq> Some ''recent''" "kind' \<noteq> Some ''recent''"
  shows "rec_list env (Some p) customer' kind' u = (Inr (Recommended out), u)"
proof (rule rec_list_cached [OF _ assms(2,4)])
  have "wp (rec_list env (Some p) customer kind) w (\<lambda>l t. \<forall>out. l = Recommended out \<longrightarrow> mk_recs_cache t p = Some out) (\<lambda>_ _. True)"
    using assms(2,3) by (cases "mk_recs_cache w p") (simp_all add: rec_list_def mkt_getOrSet_def rec_compute_def wp_now)
  from wp_Inr [OF this assms(1)] show "mk_recs_cache u p = Some out" by simp
qed

definition demo_shelf :: mkt_world where
  "demo_shelf = snd (rec_create ''ann'' ''p1'' ''p2'' None (Some (JObj [(''field'', JStr ''customer.id''), (''eq'', JStr ''ann'')])) (demo_market\<lparr>mk_products := [''p1'', ''p2'']\<rparr>))"

theorem recommendations_shared_between_customers_witness:
  "\<exists>out u. rec_list demo_menv (Some ''p1'') (Some ''ann'') None demo_shelf = (Inr (Recommended out), u) \<and> map rn_recommendedProductId out = [''p2'']
     \<and> fst (rec_compute demo_menv ''p1'' (Some ''bob'') u) = Inr [] \<and> fst (rec_list demo_menv (Some ''p1'') (Some ''bob'') None u) = Inr (Recommended out)"
proof -
  have "ok (rec_list demo_menv (Some ''p1'') (Some ''ann'') None) demo_shelf
    (\<lambda>l u. case l of Recent _ \<Rightarrow> False | Recommended out \<Rightarrow> map rn_recommendedProductId out = [''p2''] \<and> fst (rec_compute demo_menv ''p1'' (Some ''bob'') u) = Inr [])"
    by code_simp
  from okD [OF this] obtain l u where l: "rec_list demo_menv (Some ''p1'') (Some ''ann'') None demo_shelf = (Inr l, u)"
    "case l of Recent _ \<Rightarrow> False | Recommended out \<Rightarrow> map rn_recommendedProductId out = [''p2''] \<and> fst (rec_compute demo_menv ''p1'' (Some ''bob'') u) = Inr []"
    by (elim exE conjE)
  then obtain out where out: "l = Recommended out" by (cases l) auto
  from recommendations_shared_between_customers [OF l(1) [unfolded out], of None "Some ''bob''"] l show ?thesis by (auto simp: out)
qed

end
