(* ===== verification/Auth.thy ===== *)
theory Auth
  imports Orders
begin

text \<open>
  Authentication (modules/auth): users, sessions, refresh tokens, one-time passwords, and every operation of AuthService
  that changes state. Cryptography is not modelled: digests, password hashes, signatures and the check of Firebase tokens
  are parameters or sequences of answers, as are random bytes and the mail services. The world is separate from the
  shop's, which knows users only by their ids.
\<close>

section \<open>Tables (database/schema.prisma)\<close>

record user_row =
  usr_id :: string
  usr_email :: "string option"
  usr_mobile :: "string option"
  usr_password_hash :: "string option"
  usr_email_verified_at :: "int option"
  usr_mobile_verified_at :: "int option"
  usr_user_type :: string
  usr_auth_provider :: string
  usr_last_login_at :: "int option"
  usr_last_login_ip :: "string option"
  usr_failed_login_count :: int
  usr_locked_until :: "int option"
  usr_status :: string
  usr_created_at :: int
  usr_deleted_at :: "int option"

record user_role_row =
  url_user_id :: string
  url_role_id :: string
  url_status :: string
  url_deleted_at :: "int option"

record role_row =
  rol_id :: string
  rol_code :: string
  rol_status :: string
  rol_deleted_at :: "int option"

record role_permission_row =
  rpm_role_id :: string
  rpm_permission_id :: string
  rpm_status :: string
  rpm_deleted_at :: "int option"

record permission_row =
  prm_id :: string
  prm_code :: string
  prm_status :: string
  prm_deleted_at :: "int option"

record token_row =
  tok_id :: string
  tok_user_id :: string
  tok_hash :: string
  tok_family_id :: string
  tok_replaced_by_id :: "string option"
  tok_user_agent :: "string option"
  tok_ip_address :: "string option"
  tok_expires_at :: int
  tok_revoked_at :: "int option"
  tok_status :: string
  tok_deleted_at :: "int option"

record session_row =
  ses_id :: string
  ses_user_id :: string
  ses_hash :: string
  ses_device_name :: "string option"
  ses_device_type :: "string option"
  ses_user_agent :: "string option"
  ses_ip_address :: "string option"
  ses_last_seen_at :: int
  ses_expires_at :: int
  ses_revoked_at :: "int option"
  ses_status :: string
  ses_created_at :: int
  ses_deleted_at :: "int option"

record otp_row =
  otp_id :: string
  otp_user_id :: "string option"
  otp_destination :: string
  otp_channel :: string
  otp_purpose :: string
  otp_code_hash :: string
  otp_attempts :: int
  otp_max_attempts :: int
  otp_expires_at :: int
  otp_consumed_at :: "int option"
  otp_status :: string
  otp_created_at :: int
  otp_deleted_at :: "int option"

record oauth_row =
  oau_user_id :: string
  oau_provider :: string
  oau_provider_user_id :: string
  oau_email :: "string option"
  oau_deleted_at :: "int option"

record attempt_log_row =
  lat_user_id :: "string option"
  lat_identifier :: string
  lat_ip_address :: "string option"
  lat_user_agent :: "string option"
  lat_success :: bool
  lat_failure_reason :: "string option"

record auth_audit_row =
  aud_entity_type :: string
  aud_entity_id :: "string option"
  aud_action :: string
  aud_new_values :: "jsobj option"
  aud_performed_by :: "string option"
  aud_ip_address :: "string option"
  aud_device :: "string option"
  aud_request_id :: "string option"

datatype auth_event =
    UserRegisteredEvent string "string option" "string option"
  | UserLoggedInEvent string string "string option"
  | UserLoggedOutEvent string "string option"
  | PasswordChangedEvent string
  | EmailVerifiedEvent string string
  | TokenReuseDetectedEvent string string

record auth_mail =
  aml_to :: string
  aml_subject :: string
  aml_template :: string
  aml_context :: "(string \<times> string) list"

record jwt_payload =
  jwt_sub :: string
  jwt_email :: "string option"
  jwt_mobile :: "string option"
  jwt_roles :: "string list"
  jwt_permissions :: "string list"
  jwt_sessionId :: "string option"
  jwt_tokenFamilyId :: string

record identity =
  idn_uid :: string
  idn_email :: "string option"
  idn_emailVerified :: bool
  idn_phone :: "string option"
  idn_signInProvider :: string

text \<open>
  The world: the tables, what was published, mailed and logged, and the answers still to come of the clock, of random
  ids, bytes and numbers, of the password hash, of the signature and of the mail queue and server.
\<close>

record auth_world =
  aw_users :: "user_row list"
  aw_user_roles :: "user_role_row list"
  aw_roles :: "role_row list"
  aw_role_permissions :: "role_permission_row list"
  aw_permissions :: "permission_row list"
  aw_tokens :: "token_row list"
  aw_sessions :: "session_row list"
  aw_otps :: "otp_row list"
  aw_oauth :: "oauth_row list"
  aw_attempts :: "attempt_log_row list"
  aw_audit :: "auth_audit_row list"
  aw_events :: "auth_event list"
  aw_mails :: "auth_mail list"
  aw_log :: "string list"
  aw_clock :: "nat \<Rightarrow> int"
  aw_reads :: nat
  aw_uuid :: "nat \<Rightarrow> string"
  aw_uuids :: nat
  aw_bytes :: "nat \<Rightarrow> string"
  aw_bytes_no :: nat
  aw_ints :: "nat \<Rightarrow> nat"
  aw_ints_no :: nat
  aw_argon :: "nat \<Rightarrow> string \<Rightarrow> exn + string"
  aw_argon_no :: nat
  aw_sign :: "nat \<Rightarrow> jwt_payload \<Rightarrow> exn + string"
  aw_sign_no :: nat
  aw_mailer :: "nat \<Rightarrow> exn option"
  aw_mailer_no :: nat

type_synonym 'a auth_act = "(auth_world, 'a) act"

text \<open>
  Parameters: SHA-256, the check of a password against a hash, the check of a Firebase token, \<open>toLowerCase\<close>, how the
  \<open>CITEXT\<close> column compares, the configured lifetime of access tokens, and the orders of rows a query leaves open.
\<close>

record auth_env =
  ae_sha256 :: "string \<Rightarrow> string"
  ae_argonVerify :: "string \<Rightarrow> string \<Rightarrow> exn + bool"
  ae_firebase :: "string \<Rightarrow> exn + identity"
  ae_lower :: "string \<Rightarrow> string"
  ae_citext :: "string \<Rightarrow> string"
  ae_accessExpiresIn :: string
  ae_roles :: "string list \<Rightarrow> string list"
  ae_permissions :: "string list \<Rightarrow> string list"
  ae_newest_otp :: "otp_row list \<Rightarrow> otp_row list"
  ae_sessions :: "session_row list \<Rightarrow> session_row list"

record request_meta =
  rqm_ipAddress :: "string option"
  rqm_userAgent :: "string option"
  rqm_requestId :: "string option"

text \<open>The same for a request whose handler does not pass it on.\<close>

definition no_meta :: request_meta where
  "no_meta = \<lparr>rqm_ipAddress = None, rqm_userAgent = None, rqm_requestId = None\<rparr>"

definition auth_now :: "int auth_act" where
  "auth_now = (\<lambda>w. (Inr (aw_clock w (aw_reads w)), w\<lparr>aw_reads := Suc (aw_reads w)\<rparr>))"

definition auth_uuid :: "string auth_act" where
  "auth_uuid = (\<lambda>w. (Inr (aw_uuid w (aw_uuids w)), w\<lparr>aw_uuids := Suc (aw_uuids w)\<rparr>))"

definition randomToken :: "string auth_act" where
  "randomToken = (\<lambda>w. (Inr (aw_bytes w (aw_bytes_no w)), w\<lparr>aw_bytes_no := Suc (aw_bytes_no w)\<rparr>))"

definition auth_publish :: "auth_event \<Rightarrow> unit auth_act" where
  "auth_publish e = modifyA (\<lambda>w. w\<lparr>aw_events := aw_events w @ [e]\<rparr>)"

definition auth_log :: "string \<Rightarrow> unit auth_act" where
  "auth_log m = modifyA (\<lambda>w. w\<lparr>aw_log := aw_log w @ [m]\<rparr>)"

definition auth_check :: "string \<Rightarrow> (auth_world \<Rightarrow> bool) \<Rightarrow> unit auth_act" where
  "auth_check code p = bindA (readA p) (\<lambda>good. throwIf (\<not> good) (prisma_error code))"

definition auth_id :: "(auth_world \<Rightarrow> string list) \<Rightarrow> string auth_act" where
  "auth_id ids = bindA auth_uuid (\<lambda>i. bindA (auth_check ''P2002'' (\<lambda>w. i \<notin> set (ids w))) (\<lambda>_. returnA i))"

definition user_ids :: "auth_world \<Rightarrow> string list" where
  "user_ids w = map usr_id (aw_users w)"

text \<open>\<open>AuditService.log\<close> for an action of a user on their own account.\<close>

definition audit :: "string \<Rightarrow> string \<Rightarrow> request_meta \<Rightarrow> jsobj option \<Rightarrow> unit auth_act" where
  "audit action userId meta newValues =
     bindA (auth_check ''P2003'' (\<lambda>w. userId \<in> set (user_ids w))) (\<lambda>_.
     modifyA (\<lambda>w. w\<lparr>aw_audit := aw_audit w @ [\<lparr>aud_entity_type = ''user'', aud_entity_id = Some userId, aud_action = action, aud_new_values = newValues,
       aud_performed_by = Some userId, aud_ip_address = rqm_ipAddress meta, aud_device = rqm_userAgent meta, aud_request_id = rqm_requestId meta\<rparr>]\<rparr>))"

definition CUSTOMER_ROLE_ID :: string where "CUSTOMER_ROLE_ID = ''10000000-0000-0000-0000-000000000003''"
definition MAX_FAILED_LOGINS :: int where "MAX_FAILED_LOGINS = 5"
definition LOCKOUT_MINUTES :: int where "LOCKOUT_MINUTES = 30"
definition OTP_TTL_MINUTES :: int where "OTP_TTL_MINUTES = 10"
definition REFRESH_DAYS :: int where "REFRESH_DAYS = 7"
definition SESSION_DAYS :: int where "SESSION_DAYS = 7"

definition addDays :: "int \<Rightarrow> int \<Rightarrow> int" where "addDays t n = t + n * 86400000"
definition addMinutes :: "int \<Rightarrow> int \<Rightarrow> int" where "addMinutes t n = t + n * 60000"

section \<open>Repositories\<close>

definition user_findById :: "string \<Rightarrow> auth_world \<Rightarrow> user_row option" where
  "user_findById i w = find (\<lambda>u. usr_id u = i \<and> usr_deleted_at u = None) (aw_users w)"

definition same_email :: "auth_env \<Rightarrow> string \<Rightarrow> user_row \<Rightarrow> bool" where
  "same_email env email u \<longleftrightarrow> map_option (ae_citext env) (usr_email u) = Some (ae_citext env email)"

definition findByEmail :: "auth_env \<Rightarrow> string \<Rightarrow> auth_world \<Rightarrow> user_row option" where
  "findByEmail env email w = find (\<lambda>u. same_email env (ae_lower env email) u \<and> usr_deleted_at u = None) (aw_users w)"

definition findByMobile :: "string \<Rightarrow> auth_world \<Rightarrow> user_row option" where
  "findByMobile mobile w = find (\<lambda>u. usr_mobile u = Some mobile \<and> usr_deleted_at u = None) (aw_users w)"

definition findByIdentifier :: "auth_env \<Rightarrow> string \<Rightarrow> auth_world \<Rightarrow> user_row option" where
  "findByIdentifier env identifier w = (let trimmed = trim identifier in
     if CHR ''@'' \<in> set trimmed then findByEmail env trimmed w else findByMobile trimmed w)"

text \<open>The unique indexes on live users and the check that there is a contact (001_initial.sql, 002_indexes.sql).\<close>

definition user_unique :: "auth_env \<Rightarrow> user_row \<Rightarrow> auth_world \<Rightarrow> bool" where
  "user_unique env u w \<longleftrightarrow> \<not> list_ex (\<lambda>v. usr_id v \<noteq> usr_id u \<and> usr_deleted_at v = None
     \<and> (usr_email u \<noteq> None \<and> same_email env (the (usr_email u)) v \<or> usr_mobile u \<noteq> None \<and> usr_mobile v = usr_mobile u)) (aw_users w)"

definition user_insert :: "auth_env \<Rightarrow> user_row \<Rightarrow> user_row auth_act" where
  "user_insert env u =
     bindA (auth_id user_ids) (\<lambda>i.
     bindA auth_now (\<lambda>t.
     let row = u\<lparr>usr_id := i, usr_created_at := t\<rparr> in
     bindA (throwIf (usr_email u = None \<and> usr_mobile u = None) (prisma_error ''23514'')) (\<lambda>_.
     bindA (auth_check ''P2002'' (user_unique env row)) (\<lambda>_.
     bindA (modifyA (\<lambda>w. w\<lparr>aw_users := aw_users w @ [row]\<rparr>)) (\<lambda>_.
     returnA row)))))"

definition new_user :: "string option \<Rightarrow> string option \<Rightarrow> string option \<Rightarrow> string \<Rightarrow> string \<Rightarrow> int option \<Rightarrow> int option \<Rightarrow> user_row" where
  "new_user email mobile passwordHash provider status emailVerified mobileVerified = \<lparr>usr_id = [], usr_email = email, usr_mobile = mobile,
     usr_password_hash = passwordHash, usr_email_verified_at = emailVerified, usr_mobile_verified_at = mobileVerified, usr_user_type = ''customer'',
     usr_auth_provider = provider, usr_last_login_at = None, usr_last_login_ip = None, usr_failed_login_count = 0, usr_locked_until = None,
     usr_status = status, usr_created_at = 0, usr_deleted_at = None\<rparr>"

definition user_create :: "auth_env \<Rightarrow> string option \<Rightarrow> string option \<Rightarrow> string \<Rightarrow> user_row auth_act" where
  "user_create env email mobile passwordHash =
     user_insert env (new_user (map_option (ae_lower env) email) mobile (Some passwordHash) ''local'' ''pending'' None None)"

definition when_true :: "bool \<Rightarrow> int option auth_act" where
  "when_true b = (if b then bindA auth_now (\<lambda>t. returnA (Some t)) else returnA None)"

definition createFromSocial :: "auth_env \<Rightarrow> string option \<Rightarrow> string option \<Rightarrow> string \<Rightarrow> bool \<Rightarrow> bool \<Rightarrow> user_row auth_act" where
  "createFromSocial env email mobile provider emailVerified mobileVerified =
     bindA (when_true emailVerified) (\<lambda>ev.
     bindA (when_true mobileVerified) (\<lambda>mv.
     user_insert env (new_user (map_option (ae_lower env) email) mobile None provider ''active'' ev mv)))"

definition user_update :: "auth_env \<Rightarrow> string \<Rightarrow> (user_row \<Rightarrow> user_row) \<Rightarrow> user_row auth_act" where
  "user_update env i f =
     bindA (readA (\<lambda>w. find (\<lambda>u. usr_id u = i) (aw_users w))) (\<lambda>found.
     bindA (row_or_throw found) (\<lambda>u.
     bindA (throwIf (usr_email (f u) = None \<and> usr_mobile (f u) = None) (prisma_error ''23514'')) (\<lambda>_.
     bindA (throwIf (\<not> int4 (usr_failed_login_count (f u))) (prisma_error ''P2033'')) (\<lambda>_.
     bindA (auth_check ''P2002'' (\<lambda>w. usr_deleted_at (f u) \<noteq> None \<or> user_unique env (f u) w)) (\<lambda>_.
     bindA (modifyA (\<lambda>w. w\<lparr>aw_users := update_where (\<lambda>u. usr_id u = i) f (aw_users w)\<rparr>)) (\<lambda>_.
     returnA (f u)))))))"

definition incrementFailedLogin :: "auth_env \<Rightarrow> string \<Rightarrow> user_row auth_act" where
  "incrementFailedLogin env i = user_update env i (\<lambda>u. u\<lparr>usr_failed_login_count := usr_failed_login_count u + 1\<rparr>)"

definition resetFailedLogin :: "auth_env \<Rightarrow> string \<Rightarrow> user_row auth_act" where
  "resetFailedLogin env i = user_update env i (\<lambda>u. u\<lparr>usr_failed_login_count := 0, usr_locked_until := None\<rparr>)"

definition lockUntil :: "auth_env \<Rightarrow> string \<Rightarrow> int \<Rightarrow> user_row auth_act" where
  "lockUntil env i until = user_update env i (\<lambda>u. u\<lparr>usr_locked_until := Some until\<rparr>)"

definition assignRole :: "string \<Rightarrow> string \<Rightarrow> unit auth_act" where
  "assignRole userId roleId =
     bindA (auth_check ''P2010'' (\<lambda>w. userId \<in> set (user_ids w) \<and> roleId \<in> set (map rol_id (aw_roles w)))) (\<lambda>_.
     modifyA (\<lambda>w. if list_ex (\<lambda>r. url_user_id r = userId \<and> url_role_id r = roleId \<and> url_deleted_at r = None) (aw_user_roles w)
       then w\<lparr>aw_user_roles := update_where (\<lambda>r. url_user_id r = userId \<and> url_role_id r = roleId \<and> url_deleted_at r = None)
         (\<lambda>r. r\<lparr>url_status := ''active''\<rparr>) (aw_user_roles w)\<rparr>
       else w\<lparr>aw_user_roles := aw_user_roles w @ [\<lparr>url_user_id = userId, url_role_id = roleId, url_status = ''active'', url_deleted_at = None\<rparr>]\<rparr>))"

definition findByOauth :: "string \<Rightarrow> string \<Rightarrow> auth_world \<Rightarrow> user_row option" where
  "findByOauth provider uid w = Option.bind (find (\<lambda>o1. oau_provider o1 = provider \<and> oau_provider_user_id o1 = uid \<and> oau_deleted_at o1 = None) (aw_oauth w))
     (\<lambda>o1. find (\<lambda>u. usr_id u = oau_user_id o1) (aw_users w))"

definition upsertOauth :: "auth_env \<Rightarrow> string \<Rightarrow> string \<Rightarrow> string \<Rightarrow> string option \<Rightarrow> unit auth_act" where
  "upsertOauth env userId provider uid email =
     (let same = (\<lambda>o1. oau_provider o1 = provider \<and> oau_provider_user_id o1 = uid \<and> oau_deleted_at o1 = None); e = map_option (ae_lower env) email in
     bindA (auth_check ''P2010'' (\<lambda>w. userId \<in> set (user_ids w) \<and> provider \<in> set [''google'', ''apple''])) (\<lambda>_.
     modifyA (\<lambda>w. if list_ex same (aw_oauth w) then w\<lparr>aw_oauth := update_where same (\<lambda>o1. o1\<lparr>oau_user_id := userId, oau_email := e\<rparr>) (aw_oauth w)\<rparr>
       else w\<lparr>aw_oauth := aw_oauth w @ [\<lparr>oau_user_id = userId, oau_provider = provider, oau_provider_user_id = uid, oau_email = e, oau_deleted_at = None\<rparr>]\<rparr>)))"

definition active_role :: "auth_world \<Rightarrow> string \<Rightarrow> role_row option" where
  "active_role w i = find (\<lambda>r. rol_id r = i \<and> rol_deleted_at r = None \<and> rol_status r = ''active'') (aw_roles w)"

definition held_roles :: "string \<Rightarrow> auth_world \<Rightarrow> role_row list" where
  "held_roles userId w = List.map_filter (\<lambda>r. if url_user_id r = userId \<and> url_status r = ''active'' \<and> url_deleted_at r = None
     then active_role w (url_role_id r) else None) (aw_user_roles w)"

definition getUserRoleCodes :: "auth_env \<Rightarrow> string \<Rightarrow> auth_world \<Rightarrow> string list" where
  "getUserRoleCodes env userId w = ae_roles env (map rol_code (held_roles userId w))"

definition getUserPermissionCodes :: "auth_env \<Rightarrow> string \<Rightarrow> auth_world \<Rightarrow> string list" where
  "getUserPermissionCodes env userId w =
     (let held = map rol_id (held_roles userId w);
          granted = remdups (map rpm_permission_id (filter (\<lambda>r. rpm_deleted_at r = None \<and> rpm_status r = ''active'' \<and> rpm_role_id r \<in> set held) (aw_role_permissions w))) in
      ae_permissions env (List.map_filter (\<lambda>i. map_option prm_code
        (find (\<lambda>p. prm_id p = i \<and> prm_deleted_at p = None \<and> prm_status p = ''active'') (aw_permissions w))) granted))"

definition token_create :: "string \<Rightarrow> string \<Rightarrow> string \<Rightarrow> string option \<Rightarrow> string option \<Rightarrow> int \<Rightarrow> string auth_act" where
  "token_create userId tokenHash familyId userAgent ipAddress expiresAt =
     bindA (auth_id (\<lambda>w. map tok_id (aw_tokens w))) (\<lambda>i.
     bindA (auth_check ''P2003'' (\<lambda>w. userId \<in> set (user_ids w))) (\<lambda>_.
     bindA (auth_check ''P2002'' (\<lambda>w. \<not> list_ex (\<lambda>x. tok_hash x = tokenHash \<and> tok_deleted_at x = None) (aw_tokens w))) (\<lambda>_.
     bindA (modifyA (\<lambda>w. w\<lparr>aw_tokens := aw_tokens w @ [\<lparr>tok_id = i, tok_user_id = userId, tok_hash = tokenHash, tok_family_id = familyId,
       tok_replaced_by_id = None, tok_user_agent = userAgent, tok_ip_address = ipAddress, tok_expires_at = expiresAt, tok_revoked_at = None,
       tok_status = ''active'', tok_deleted_at = None\<rparr>]\<rparr>)) (\<lambda>_.
     returnA i))))"

definition findByHash :: "string \<Rightarrow> auth_world \<Rightarrow> token_row option" where
  "findByHash h w = find (\<lambda>x. tok_hash x = h \<and> tok_deleted_at x = None) (aw_tokens w)"

definition token_update :: "string \<Rightarrow> (token_row \<Rightarrow> token_row) \<Rightarrow> unit auth_act" where
  "token_update i f =
     bindA (readA (\<lambda>w. find (\<lambda>x. tok_id x = i) (aw_tokens w))) (\<lambda>found.
     bindA (row_or_throw found) (\<lambda>_.
     modifyA (\<lambda>w. w\<lparr>aw_tokens := update_where (\<lambda>x. tok_id x = i) f (aw_tokens w)\<rparr>)))"

definition token_revoke :: "string \<Rightarrow> unit auth_act" where
  "token_revoke i = bindA auth_now (\<lambda>t. token_update i (\<lambda>x. x\<lparr>tok_status := ''revoked'', tok_revoked_at := Some t\<rparr>))"

definition token_rotate :: "string \<Rightarrow> string \<Rightarrow> unit auth_act" where
  "token_rotate i replacedById = bindA auth_now (\<lambda>t.
     token_update i (\<lambda>x. x\<lparr>tok_status := ''rotated'', tok_replaced_by_id := Some replacedById, tok_revoked_at := Some t\<rparr>))"

definition revoke_where :: "(token_row \<Rightarrow> bool) \<Rightarrow> unit auth_act" where
  "revoke_where p = bindA auth_now (\<lambda>t. modifyA (\<lambda>w. w\<lparr>aw_tokens := update_where (\<lambda>x. p x \<and> tok_status x = ''active'' \<and> tok_deleted_at x = None)
     (\<lambda>x. x\<lparr>tok_status := ''revoked'', tok_revoked_at := Some t\<rparr>) (aw_tokens w)\<rparr>))"

definition revokeFamily :: "string \<Rightarrow> unit auth_act" where
  "revokeFamily familyId = revoke_where (\<lambda>x. tok_family_id x = familyId)"

definition revokeAllForUser :: "string \<Rightarrow> unit auth_act" where
  "revokeAllForUser userId = revoke_where (\<lambda>x. tok_user_id x = userId)"

definition attempt_create :: "string option \<Rightarrow> string \<Rightarrow> request_meta \<Rightarrow> bool \<Rightarrow> string option \<Rightarrow> unit auth_act" where
  "attempt_create userId identifier meta success reason =
     bindA (auth_check ''P2003'' (\<lambda>w. fk_ok userId (user_ids w))) (\<lambda>_.
     modifyA (\<lambda>w. w\<lparr>aw_attempts := aw_attempts w @ [\<lparr>lat_user_id = userId, lat_identifier = identifier, lat_ip_address = rqm_ipAddress meta,
       lat_user_agent = rqm_userAgent meta, lat_success = success, lat_failure_reason = reason\<rparr>]\<rparr>))"

definition session_create :: "string \<Rightarrow> string \<Rightarrow> request_meta \<Rightarrow> string option \<Rightarrow> string option \<Rightarrow> int \<Rightarrow> session_row auth_act" where
  "session_create userId tokenHash meta deviceName deviceType expiresAt =
     bindA (auth_id (\<lambda>w. map ses_id (aw_sessions w))) (\<lambda>i.
     bindA (auth_check ''P2003'' (\<lambda>w. userId \<in> set (user_ids w))) (\<lambda>_.
     bindA (auth_check ''P2002'' (\<lambda>w. \<not> list_ex (\<lambda>x. ses_hash x = tokenHash \<and> ses_deleted_at x = None) (aw_sessions w))) (\<lambda>_.
     bindA auth_now (\<lambda>t.
     let row = \<lparr>ses_id = i, ses_user_id = userId, ses_hash = tokenHash, ses_device_name = deviceName, ses_device_type = deviceType,
       ses_user_agent = rqm_userAgent meta, ses_ip_address = rqm_ipAddress meta, ses_last_seen_at = t, ses_expires_at = expiresAt,
       ses_revoked_at = None, ses_status = ''active'', ses_created_at = t, ses_deleted_at = None\<rparr> in
     bindA (modifyA (\<lambda>w. w\<lparr>aw_sessions := aw_sessions w @ [row]\<rparr>)) (\<lambda>_.
     returnA row)))))"

definition session_findActive :: "auth_env \<Rightarrow> string \<Rightarrow> session_row list auth_act" where
  "session_findActive env userId = bindA auth_now (\<lambda>t. readA (\<lambda>w. ae_sessions env (filter (\<lambda>x. ses_user_id x = userId \<and> ses_status x = ''active''
     \<and> ses_revoked_at x = None \<and> ses_expires_at x > t \<and> ses_deleted_at x = None) (aw_sessions w))))"

definition findByIdForUser :: "string \<Rightarrow> string \<Rightarrow> auth_world \<Rightarrow> session_row option" where
  "findByIdForUser sessionId userId w = find (\<lambda>x. ses_id x = sessionId \<and> ses_user_id x = userId \<and> ses_deleted_at x = None) (aw_sessions w)"

definition session_update :: "string \<Rightarrow> (session_row \<Rightarrow> session_row) \<Rightarrow> unit auth_act" where
  "session_update i f =
     bindA (readA (\<lambda>w. find (\<lambda>x. ses_id x = i) (aw_sessions w))) (\<lambda>found.
     bindA (row_or_throw found) (\<lambda>_.
     modifyA (\<lambda>w. w\<lparr>aw_sessions := update_where (\<lambda>x. ses_id x = i) f (aw_sessions w)\<rparr>)))"

definition session_revoke :: "string \<Rightarrow> unit auth_act" where
  "session_revoke i = bindA auth_now (\<lambda>t. session_update i (\<lambda>x. x\<lparr>ses_status := ''revoked'', ses_revoked_at := Some t\<rparr>))"

definition touchLastSeen :: "string \<Rightarrow> unit auth_act" where
  "touchLastSeen i = bindA auth_now (\<lambda>t. session_update i (\<lambda>x. x\<lparr>ses_last_seen_at := t\<rparr>))"

definition session_revokeAllForUser :: "string \<Rightarrow> string option \<Rightarrow> nat auth_act" where
  "session_revokeAllForUser userId exceptId =
     (let hit = (\<lambda>x. ses_user_id x = userId \<and> ses_status x = ''active'' \<and> ses_revoked_at x = None
        \<and> (truthy_str exceptId \<longrightarrow> Some (ses_id x) \<noteq> exceptId) \<and> ses_deleted_at x = None) in
     bindA auth_now (\<lambda>t.
     bindA (readA (\<lambda>w. length (filter hit (aw_sessions w)))) (\<lambda>n.
     bindA (modifyA (\<lambda>w. w\<lparr>aw_sessions := update_where hit (\<lambda>x. x\<lparr>ses_status := ''revoked'', ses_revoked_at := Some t\<rparr>) (aw_sessions w)\<rparr>)) (\<lambda>_.
     returnA n))))"

definition otp_create :: "string option \<Rightarrow> string \<Rightarrow> string \<Rightarrow> string \<Rightarrow> string \<Rightarrow> int \<Rightarrow> int option \<Rightarrow> string auth_act" where
  "otp_create userId destination channel purpose codeHash expiresAt maxAttempts =
     bindA (auth_id (\<lambda>w. map otp_id (aw_otps w))) (\<lambda>i.
     bindA (auth_check ''P2003'' (\<lambda>w. fk_ok userId (user_ids w))) (\<lambda>_.
     bindA auth_now (\<lambda>t.
     bindA (modifyA (\<lambda>w. w\<lparr>aw_otps := aw_otps w @ [\<lparr>otp_id = i, otp_user_id = userId, otp_destination = destination, otp_channel = channel,
       otp_purpose = purpose, otp_code_hash = codeHash, otp_attempts = 0, otp_max_attempts = nullish maxAttempts 5, otp_expires_at = expiresAt,
       otp_consumed_at = None, otp_status = ''active'', otp_created_at = t, otp_deleted_at = None\<rparr>]\<rparr>)) (\<lambda>_.
     returnA i))))"

definition otp_open :: "string \<Rightarrow> string \<Rightarrow> int \<Rightarrow> otp_row \<Rightarrow> bool" where
  "otp_open destination purpose t x \<longleftrightarrow> otp_destination x = destination \<and> otp_purpose x = purpose \<and> otp_consumed_at x = None
     \<and> otp_status x = ''active'' \<and> otp_expires_at x > t \<and> otp_deleted_at x = None"

definition findLatestActive :: "auth_env \<Rightarrow> string \<Rightarrow> string \<Rightarrow> otp_row option auth_act" where
  "findLatestActive env destination purpose = bindA auth_now (\<lambda>t.
     readA (\<lambda>w. case ae_newest_otp env (filter (otp_open destination purpose t) (aw_otps w)) of [] \<Rightarrow> None | x # _ \<Rightarrow> Some x))"

definition otp_update :: "string \<Rightarrow> (otp_row \<Rightarrow> otp_row) \<Rightarrow> unit auth_act" where
  "otp_update i f =
     bindA (readA (\<lambda>w. find (\<lambda>x. otp_id x = i) (aw_otps w))) (\<lambda>found.
     bindA (row_or_throw found) (\<lambda>x.
     bindA (throwIf (\<not> int4 (otp_attempts (f x))) (prisma_error ''P2033'')) (\<lambda>_.
     modifyA (\<lambda>w. w\<lparr>aw_otps := update_where (\<lambda>x. otp_id x = i) f (aw_otps w)\<rparr>))))"

definition consume :: "string \<Rightarrow> unit auth_act" where
  "consume i = bindA auth_now (\<lambda>t. otp_update i (\<lambda>x. x\<lparr>otp_consumed_at := Some t, otp_status := ''inactive''\<rparr>))"

definition incrementAttempts :: "string \<Rightarrow> unit auth_act" where
  "incrementAttempts i = otp_update i (\<lambda>x. x\<lparr>otp_attempts := otp_attempts x + 1\<rparr>)"

section \<open>Passwords, sessions, one-time passwords, mail, tokens\<close>

text \<open>
  The pattern \<open>/^(?=.*[a-z])(?=.*[A-Z])(?=.*\d)(?=.*[^A-Za-z0-9]).{8,}$/\<close>: the dot matches no line terminator, so the
  last part allows none in the password.
\<close>

definition between :: "char \<Rightarrow> char \<Rightarrow> char \<Rightarrow> bool" where
  "between a b c \<longleftrightarrow> a \<le> c \<and> c \<le> b"

definition isStrongPassword :: "string \<Rightarrow> bool" where
  "isStrongPassword plain \<longleftrightarrow> list_ex (between CHR ''a'' CHR ''z'') plain \<and> list_ex (between CHR ''A'' CHR ''Z'') plain
     \<and> list_ex (between CHR ''0'' CHR ''9'') plain
     \<and> list_ex (\<lambda>c. \<not> between CHR ''a'' CHR ''z'' c \<and> \<not> between CHR ''A'' CHR ''Z'' c \<and> \<not> between CHR ''0'' CHR ''9'' c) plain
     \<and> list_all (\<lambda>c. c \<notin> {CHR 0x0A, CHR 0x0D}) plain \<and> 8 \<le> length plain"

definition password_hash :: "string \<Rightarrow> string auth_act" where
  "password_hash plain =
     bindA (readA (\<lambda>w. aw_argon w (aw_argon_no w) plain)) (\<lambda>r.
     bindA (modifyA (\<lambda>w. w\<lparr>aw_argon_no := Suc (aw_argon_no w)\<rparr>)) (\<lambda>_. ofSum r))"

definition password_verify :: "auth_env \<Rightarrow> string \<Rightarrow> string \<Rightarrow> bool auth_act" where
  "password_verify env h plain = catchA (ofSum (ae_argonVerify env h plain)) (\<lambda>_. returnA False)"

definition parseDeviceName :: "string option \<Rightarrow> string option" where
  "parseDeviceName userAgent = (if \<not> truthy_str userAgent then None
     else let agent = lower (the userAgent) in
       if includes_str agent ''mobile'' then Some ''Mobile'' else if includes_str agent ''tablet'' then Some ''Tablet'' else Some ''Desktop'')"

definition parseDeviceType :: "string option \<Rightarrow> string option" where
  "parseDeviceType userAgent = (if \<not> truthy_str userAgent then None
     else let agent = lower (the userAgent) in
       if includes_str agent ''android'' then Some ''android''
       else if includes_str agent ''iphone'' \<or> includes_str agent ''ipad'' \<or> includes_str agent ''ios'' then Some ''ios''
       else if includes_str agent ''windows'' then Some ''windows''
       else if includes_str agent ''mac os'' then Some ''macos''
       else if includes_str agent ''linux'' then Some ''linux'' else Some ''unknown'')"

definition createSession :: "auth_env \<Rightarrow> string \<Rightarrow> request_meta \<Rightarrow> session_row auth_act" where
  "createSession env userId meta =
     bindA randomToken (\<lambda>raw.
     bindA auth_now (\<lambda>t.
     session_create userId (ae_sha256 env raw) meta (parseDeviceName (rqm_userAgent meta)) (parseDeviceType (rqm_userAgent meta)) (addDays t SESSION_DAYS)))"

record session_summary =
  ss_id :: string
  ss_deviceName :: "string option"
  ss_deviceType :: "string option"
  ss_ipAddress :: "string option"
  ss_userAgent :: "string option"
  ss_lastSeenAt :: int
  ss_expiresAt :: int
  ss_createdAt :: int
  ss_current :: bool

definition listSessions :: "auth_env \<Rightarrow> string \<Rightarrow> string option \<Rightarrow> session_summary list auth_act" where
  "listSessions env userId currentId = bindA (session_findActive env userId) (\<lambda>rows. returnA (map (\<lambda>s. \<lparr>ss_id = ses_id s, ss_deviceName = ses_device_name s,
     ss_deviceType = ses_device_type s, ss_ipAddress = ses_ip_address s, ss_userAgent = ses_user_agent s, ss_lastSeenAt = ses_last_seen_at s,
     ss_expiresAt = ses_expires_at s, ss_createdAt = ses_created_at s, ss_current = (Some (ses_id s) = currentId)\<rparr>) rows))"

definition revokeSession :: "string \<Rightarrow> string \<Rightarrow> unit auth_act" where
  "revokeSession userId sessionId =
     bindA (readA (findByIdForUser sessionId userId)) (\<lambda>found.
     case found of None \<Rightarrow> returnA ()
     | Some s \<Rightarrow> if ses_revoked_at s \<noteq> None then returnA () else session_revoke sessionId)"

definition revokeAllSessions :: "string \<Rightarrow> string option \<Rightarrow> nat auth_act" where
  "revokeAllSessions userId exceptId = session_revokeAllForUser userId exceptId"

text \<open>\<open>randomInt(100000, 999999)\<close> excludes its upper bound.\<close>

definition generateCode :: "string auth_act" where
  "generateCode = (\<lambda>w. (Inr (show_nat (100000 + aw_ints w (aw_ints_no w) mod 899999)), w\<lparr>aw_ints_no := Suc (aw_ints_no w)\<rparr>))"

definition normalizeDestination :: "auth_env \<Rightarrow> string \<Rightarrow> string \<Rightarrow> string" where
  "normalizeDestination env destination channel = (if channel = ''email'' then trim (ae_lower env destination) else trim destination)"

definition issueOtp :: "auth_env \<Rightarrow> string \<Rightarrow> string \<Rightarrow> string \<Rightarrow> string option \<Rightarrow> string auth_act" where
  "issueOtp env destination channel purpose userId =
     bindA generateCode (\<lambda>code.
     bindA auth_now (\<lambda>t.
     bindA (otp_create userId (normalizeDestination env destination channel) channel purpose (ae_sha256 env code) (addMinutes t OTP_TTL_MINUTES) None) (\<lambda>_.
     returnA code)))"

definition otp_verify :: "auth_env \<Rightarrow> string \<Rightarrow> string \<Rightarrow> string \<Rightarrow> string auth_act" where
  "otp_verify env destination purpose code =
     (let normalized = (if CHR ''@'' \<in> set destination then ae_lower env destination else trim destination) in
     bindA (findLatestActive env normalized purpose) (\<lambda>found.
     case found of None \<Rightarrow> throwA (AppException ''AUTH_OTP_EXPIRED'' ''OTP expired or not found'' 400)
     | Some x \<Rightarrow>
       bindA (throwIf (otp_attempts x \<ge> otp_max_attempts x) (AppException ''AUTH_OTP_MAX_ATTEMPTS'' ''Maximum OTP attempts exceeded'' 400)) (\<lambda>_.
       if ae_sha256 env code \<noteq> otp_code_hash x then
         bindA (incrementAttempts (otp_id x)) (\<lambda>_. throwA (AppException ''AUTH_OTP_INVALID'' ''Invalid OTP code'' 400))
       else bindA (consume (otp_id x)) (\<lambda>_. returnA (otp_id x)))))"

definition mailer :: "unit auth_act" where
  "mailer = bindA (readA (\<lambda>w. aw_mailer w (aw_mailer_no w))) (\<lambda>r.
     bindA (modifyA (\<lambda>w. w\<lparr>aw_mailer_no := Suc (aw_mailer_no w)\<rparr>)) (\<lambda>_.
     case r of None \<Rightarrow> returnA () | Some e \<Rightarrow> throwA e))"

definition send_mail :: "string \<Rightarrow> string \<Rightarrow> string \<Rightarrow> (string \<times> string) list \<Rightarrow> unit auth_act" where
  "send_mail template addr subject ctx =
     (let sent = modifyA (\<lambda>w. w\<lparr>aw_mails := aw_mails w @ [\<lparr>aml_to = addr, aml_subject = subject, aml_template = template, aml_context = ctx\<rparr>]\<rparr>) in
     catchA (bindA mailer (\<lambda>_. sent)) (\<lambda>_.
       bindA (auth_log (''Queue unavailable for '' @ template @ ''; sending synchronously'')) (\<lambda>_.
       catchA (bindA mailer (\<lambda>_. sent)) (\<lambda>e. auth_log (''Failed to send '' @ template @ '' to '' @ addr @ '': '' @ errMsg e)))))"

definition sendVerificationEmail :: "string \<Rightarrow> string \<Rightarrow> unit auth_act" where
  "sendVerificationEmail email code = send_mail ''verify-email'' email ''Verify your email'' [(''code'', code), (''email'', email)]"

definition sendPasswordResetEmail :: "string \<Rightarrow> string \<Rightarrow> unit auth_act" where
  "sendPasswordResetEmail email code = send_mail ''reset-password'' email ''Reset your password'' [(''code'', code), (''email'', email)]"

definition sendOtpEmail :: "string \<Rightarrow> string \<Rightarrow> string \<Rightarrow> unit auth_act" where
  "sendOtpEmail email code purpose = send_mail ''otp'' email (''Your verification code ('' @ purpose @ '')'')
     [(''code'', code), (''email'', email), (''purpose'', purpose)]"

definition signAccessToken :: "jwt_payload \<Rightarrow> string auth_act" where
  "signAccessToken payload =
     bindA (readA (\<lambda>w. aw_sign w (aw_sign_no w) payload)) (\<lambda>r.
     bindA (modifyA (\<lambda>w. w\<lparr>aw_sign_no := Suc (aw_sign_no w)\<rparr>)) (\<lambda>_. ofSum r))"

definition digits_value :: "string \<Rightarrow> nat" where
  "digits_value s = foldl (\<lambda>n c. 10 * n + (of_char c - 48)) 0 s"

definition parseDurationToSeconds :: "string \<Rightarrow> nat" where
  "parseDurationToSeconds v = (let s = trim v; ds = butlast s in
     if ds = [] \<or> \<not> list_all (between CHR ''0'' CHR ''9'') ds then 900
     else if last s = CHR ''s'' then digits_value ds
     else if last s = CHR ''m'' then digits_value ds * 60
     else if last s = CHR ''h'' then digits_value ds * 3600
     else if last s = CHR ''d'' then digits_value ds * 86400
     else 900)"

definition getAccessExpiresInSeconds :: "auth_env \<Rightarrow> nat" where
  "getAccessExpiresInSeconds env = parseDurationToSeconds (ae_accessExpiresIn env)"

record token_pair =
  tp_accessToken :: string
  tp_refreshToken :: string
  tp_expiresIn :: nat

definition createRefreshPair :: "auth_env \<Rightarrow> user_row \<Rightarrow> request_meta \<Rightarrow> string option \<Rightarrow> string option \<Rightarrow> token_pair auth_act" where
  "createRefreshPair env user meta sessionId family =
     bindA (case family of Some f \<Rightarrow> returnA f | None \<Rightarrow> auth_uuid) (\<lambda>familyId.
     bindA randomToken (\<lambda>raw.
     bindA auth_now (\<lambda>t.
     bindA (readA (getUserRoleCodes env (usr_id user))) (\<lambda>roles.
     bindA (readA (getUserPermissionCodes env (usr_id user))) (\<lambda>permissions.
     bindA (token_create (usr_id user) (ae_sha256 env raw) familyId (rqm_userAgent meta) (rqm_ipAddress meta) (addDays t REFRESH_DAYS)) (\<lambda>_.
     bindA (signAccessToken \<lparr>jwt_sub = usr_id user, jwt_email = usr_email user, jwt_mobile = usr_mobile user, jwt_roles = roles,
       jwt_permissions = permissions, jwt_sessionId = sessionId, jwt_tokenFamilyId = familyId\<rparr>) (\<lambda>access.
     returnA \<lparr>tp_accessToken = access, tp_refreshToken = raw, tp_expiresIn = getAccessExpiresInSeconds env\<rparr>)))))))"

end
