(* ===== verification/Auth_Service.thy ===== *)
theory Auth_Service
  imports Auth
begin

text \<open>
  AuthService (modules/auth/services/auth.service.ts): registration, login by password and by Firebase, refresh, logout,
  profile, passwords, verification and one-time passwords; and the requests of its controller.
\<close>

record public_user =
  pu_id :: string
  pu_email :: "string option"
  pu_mobile :: "string option"
  pu_emailVerifiedAt :: "int option"
  pu_mobileVerifiedAt :: "int option"
  pu_userType :: string
  pu_status :: string
  pu_lastLoginAt :: "int option"
  pu_createdAt :: int

definition toPublicUser :: "user_row \<Rightarrow> public_user" where
  "toPublicUser u = \<lparr>pu_id = usr_id u, pu_email = usr_email u, pu_mobile = usr_mobile u, pu_emailVerifiedAt = usr_email_verified_at u,
     pu_mobileVerifiedAt = usr_mobile_verified_at u, pu_userType = usr_user_type u, pu_status = usr_status u,
     pu_lastLoginAt = usr_last_login_at u, pu_createdAt = usr_created_at u\<rparr>"

record login_response =
  lr_tokens :: token_pair
  lr_user :: public_user
  lr_roles :: "string list"
  lr_permissions :: "string list"

section \<open>Helpers\<close>

definition assertAccountAccessible :: "user_row \<Rightarrow> unit auth_act" where
  "assertAccountAccessible user =
     bindA (case usr_locked_until user of None \<Rightarrow> returnA ()
       | Some until \<Rightarrow> bindA auth_now (\<lambda>t. throwIf (until > t) (AppException ''AUTH_ACCOUNT_LOCKED'' ''Account is temporarily locked'' 403))) (\<lambda>_.
     throwIf (usr_status user \<in> {''inactive'', ''suspended'', ''archived''}) (AppException ''AUTH_ACCOUNT_INACTIVE'' ''Account is inactive'' 403))"

definition handleFailedLogin :: "auth_env \<Rightarrow> user_row \<Rightarrow> string \<Rightarrow> request_meta \<Rightarrow> string \<Rightarrow> unit auth_act" where
  "handleFailedLogin env user identifier meta reason =
     bindA (attempt_create (Some (usr_id user)) identifier meta False (Some reason)) (\<lambda>_.
     bindA (incrementFailedLogin env (usr_id user)) (\<lambda>updated.
     if usr_failed_login_count updated \<ge> MAX_FAILED_LOGINS then
       bindA auth_now (\<lambda>t.
       bindA (lockUntil env (usr_id user) (addMinutes t LOCKOUT_MINUTES)) (\<lambda>_. returnA ()))
     else returnA ()))"

definition createAuthResponse :: "auth_env \<Rightarrow> user_row \<Rightarrow> request_meta \<Rightarrow> (login_response \<times> string) auth_act" where
  "createAuthResponse env user meta =
     bindA (createSession env (usr_id user) meta) (\<lambda>session.
     bindA (createRefreshPair env user meta (Some (ses_id session)) None) (\<lambda>tokens.
     bindA (readA (getUserRoleCodes env (usr_id user))) (\<lambda>roles.
     bindA (readA (getUserPermissionCodes env (usr_id user))) (\<lambda>permissions.
     returnA (\<lparr>lr_tokens = tokens, lr_user = toPublicUser user, lr_roles = roles, lr_permissions = permissions\<rparr>, ses_id session)))))"

definition issueAuthResponse :: "auth_env \<Rightarrow> user_row \<Rightarrow> request_meta \<Rightarrow> login_response auth_act" where
  "issueAuthResponse env user meta =
     bindA (createAuthResponse env user meta) (\<lambda>(response, sessionId).
     bindA (auth_publish (UserLoggedInEvent (usr_id user) sessionId (rqm_ipAddress meta))) (\<lambda>_.
     returnA response))"

text \<open>A value that is \<open>undefined\<close> in the data of an update leaves the column.\<close>

definition set_or_keep :: "'a option \<Rightarrow> 'a option \<Rightarrow> 'a option" where
  "set_or_keep new old = (case new of None \<Rightarrow> old | Some v \<Rightarrow> Some v)"

section \<open>Registration and login\<close>

definition register :: "auth_env \<Rightarrow> string option \<Rightarrow> string option \<Rightarrow> string \<Rightarrow> request_meta \<Rightarrow> login_response auth_act" where
  "register env email mobile password meta =
     bindA (throwIf (\<not> truthy_str email \<and> \<not> truthy_str mobile) (AppException ''VALIDATION_ERROR'' ''Email or mobile is required'' 400)) (\<lambda>_.
     bindA (throwIf (\<not> isStrongPassword password) (AppException ''AUTH_WEAK_PASSWORD'' ''Password does not meet policy requirements'' 400)) (\<lambda>_.
     bindA (if truthy_str email then bindA (readA (findByEmail env (the email))) (\<lambda>existing.
         throwIf (existing \<noteq> None) (AppException ''AUTH_EMAIL_TAKEN'' ''Email is already registered'' 409)) else returnA ()) (\<lambda>_.
     bindA (if truthy_str mobile then bindA (readA (findByMobile (the mobile))) (\<lambda>existing.
         throwIf (existing \<noteq> None) (AppException ''AUTH_MOBILE_TAKEN'' ''Mobile number is already registered'' 409)) else returnA ()) (\<lambda>_.
     bindA (password_hash password) (\<lambda>passwordHash.
     bindA (user_create env email mobile passwordHash) (\<lambda>user.
     bindA (assignRole (usr_id user) CUSTOMER_ROLE_ID) (\<lambda>_.
     bindA (audit ''REGISTER'' (usr_id user) meta (Some [(''email'', jopt JStr (usr_email user)), (''mobile'', jopt JStr (usr_mobile user))])) (\<lambda>_.
     bindA (auth_publish (UserRegisteredEvent (usr_id user) (usr_email user) (usr_mobile user))) (\<lambda>_.
     bindA (if truthy_str (usr_email user) then
         catchA (bindA (issueOtp env (the (usr_email user)) ''email'' ''verify_email'' (Some (usr_id user))) (\<lambda>code.
           sendVerificationEmail (the (usr_email user)) code)) (\<lambda>_. returnA ()) else returnA ()) (\<lambda>_.
     bindA (createAuthResponse env user meta) (\<lambda>(response, _).
     returnA response)))))))))))"

definition login :: "auth_env \<Rightarrow> string \<Rightarrow> string \<Rightarrow> request_meta \<Rightarrow> login_response auth_act" where
  "login env identifier password meta =
     bindA (readA (findByIdentifier env identifier)) (\<lambda>found.
     case found of
       None \<Rightarrow> bindA (attempt_create None identifier meta False (Some ''user_not_found'')) (\<lambda>_.
         throwA (AppException ''AUTH_INVALID_CREDENTIALS'' ''Invalid credentials'' 401))
     | Some user \<Rightarrow>
       bindA (assertAccountAccessible user) (\<lambda>_.
       bindA (if truthy_str (usr_password_hash user) then password_verify env (the (usr_password_hash user)) password else returnA False) (\<lambda>passwordValid.
       if \<not> passwordValid then
         bindA (handleFailedLogin env user identifier meta ''invalid_password'') (\<lambda>_.
         throwA (AppException ''AUTH_INVALID_CREDENTIALS'' ''Invalid credentials'' 401))
       else
         bindA (resetFailedLogin env (usr_id user)) (\<lambda>_.
         bindA auth_now (\<lambda>t.
         bindA (user_update env (usr_id user) (\<lambda>u. u\<lparr>usr_last_login_at := Some t, usr_last_login_ip := set_or_keep (rqm_ipAddress meta) (usr_last_login_ip u)\<rparr>)) (\<lambda>_.
         bindA (readA (getUserRoleCodes env (usr_id user))) (\<lambda>roles.
         bindA (if roles = [] then assignRole (usr_id user) CUSTOMER_ROLE_ID else returnA ()) (\<lambda>_.
         bindA (attempt_create (Some (usr_id user)) identifier meta True None) (\<lambda>_.
         bindA (issueAuthResponse env user meta) (\<lambda>response.
         bindA (audit ''LOGIN'' (usr_id user) meta None) (\<lambda>_.
         returnA response))))))))))) "

definition mapFirebaseProvider :: "string \<Rightarrow> string" where
  "mapFirebaseProvider p = (if p = ''phone'' then ''otp'' else if p = ''google.com'' then ''google'' else if p = ''apple.com'' then ''apple'' else ''google'')"

definition firebase_by_contact :: "auth_env \<Rightarrow> identity \<Rightarrow> auth_world \<Rightarrow> user_row option" where
  "firebase_by_contact env idn w =
     (let byEmail = (if truthy_str (idn_email idn) then findByEmail env (the (idn_email idn)) w else None) in
      if byEmail = None \<and> truthy_str (idn_phone idn) then findByMobile (the (idn_phone idn)) w else byEmail)"

definition firebase_find :: "auth_env \<Rightarrow> string \<Rightarrow> identity \<Rightarrow> auth_world \<Rightarrow> user_row option" where
  "firebase_find env provider idn w = (case findByOauth provider (idn_uid idn) w of
     Some u \<Rightarrow> if usr_deleted_at u = None then Some u else firebase_by_contact env idn w
   | None \<Rightarrow> firebase_by_contact env idn w)"

text \<open>The account is new: it is created, or found after all when the insert fails.\<close>

definition firebase_create :: "auth_env \<Rightarrow> string \<Rightarrow> identity \<Rightarrow> user_row auth_act" where
  "firebase_create env provider idn =
     bindA (catchA
       (bindA (createFromSocial env (idn_email idn) (idn_phone idn) provider (idn_emailVerified idn) (truthy_str (idn_phone idn))) (\<lambda>u. returnA (u, True)))
       (\<lambda>_. bindA (readA (firebase_by_contact env idn)) (\<lambda>found. case found of Some u \<Rightarrow> returnA (u, False)
          | None \<Rightarrow> throwA (AppException ''INTERNAL_ERROR'' ''Could not create or link Firebase user'' 500)))) (\<lambda>(user, created).
     if created then
       bindA (assignRole (usr_id user) CUSTOMER_ROLE_ID) (\<lambda>_.
       bindA (auth_publish (UserRegisteredEvent (usr_id user) (usr_email user) (usr_mobile user))) (\<lambda>_.
       returnA user))
     else returnA user)"

text \<open>The account exists: it must be open, and what Firebase vouches for is written into it.\<close>

definition firebase_update :: "auth_env \<Rightarrow> identity \<Rightarrow> user_row \<Rightarrow> request_meta \<Rightarrow> user_row auth_act" where
  "firebase_update env idn user meta =
     bindA (assertAccountAccessible user) (\<lambda>_.
     bindA auth_now (\<lambda>t.
     bindA (when_true (idn_emailVerified idn \<and> usr_email_verified_at user = None)) (\<lambda>ev.
     bindA (when_true (truthy_str (idn_phone idn) \<and> usr_mobile_verified_at user = None)) (\<lambda>mv.
     user_update env (usr_id user) (\<lambda>u. u\<lparr>usr_last_login_at := Some t, usr_last_login_ip := set_or_keep (rqm_ipAddress meta) (usr_last_login_ip u),
       usr_email_verified_at := set_or_keep ev (usr_email_verified_at u), usr_mobile_verified_at := set_or_keep mv (usr_mobile_verified_at u),
       usr_status := (if usr_status user = ''pending'' then ''active'' else usr_status u)\<rparr>)))))"

definition loginWithFirebaseInner :: "auth_env \<Rightarrow> string \<Rightarrow> request_meta \<Rightarrow> login_response auth_act" where
  "loginWithFirebaseInner env idToken meta =
     bindA (ofSum (ae_firebase env idToken)) (\<lambda>idn.
     let provider = mapFirebaseProvider (idn_signInProvider idn) in
     bindA (throwIf (\<not> truthy_str (idn_email idn) \<and> \<not> truthy_str (idn_phone idn))
       (AppException ''VALIDATION_ERROR'' ''Firebase account must have an email or phone number'' 400)) (\<lambda>_.
     bindA (readA (firebase_find env provider idn)) (\<lambda>found.
     bindA (case found of None \<Rightarrow> firebase_create env provider idn | Some user \<Rightarrow> firebase_update env idn user meta) (\<lambda>user.
     bindA (if provider = ''google'' \<or> provider = ''apple'' then upsertOauth env (usr_id user) provider (idn_uid idn) (idn_email idn) else returnA ()) (\<lambda>_.
     bindA (resetFailedLogin env (usr_id user)) (\<lambda>_.
     bindA (attempt_create (Some (usr_id user)) (nullish (idn_email idn) (nullish (idn_phone idn) (idn_uid idn))) meta True None) (\<lambda>_.
     bindA (issueAuthResponse env user meta) (\<lambda>response.
     bindA (audit ''LOGIN_FIREBASE'' (usr_id user) meta (Some [(''provider'', JStr (idn_signInProvider idn))])) (\<lambda>_.
     returnA response)))))))))"

definition loginWithFirebase :: "auth_env \<Rightarrow> string \<Rightarrow> request_meta \<Rightarrow> login_response auth_act" where
  "loginWithFirebase env idToken meta = catchA (loginWithFirebaseInner env idToken meta) (\<lambda>err. case err of
     AppException c m st \<Rightarrow> throwA err
   | FalsyThrow t \<Rightarrow> bindA (auth_log (''loginWithFirebase failed: '' @ t)) (\<lambda>_. throwA (AppException ''INTERNAL_ERROR'' ''Firebase login failed'' 500))
   | _ \<Rightarrow> bindA (auth_log (''loginWithFirebase failed: '' @ errMsg err)) (\<lambda>_. throwA (AppException ''INTERNAL_ERROR'' (errMsg err) 500)))"

section \<open>Tokens and sessions\<close>

definition refresh :: "auth_env \<Rightarrow> string \<Rightarrow> token_pair auth_act" where
  "refresh env refreshToken =
     bindA (readA (findByHash (ae_sha256 env refreshToken))) (\<lambda>found.
     case found of None \<Rightarrow> throwA (AppException ''AUTH_INVALID_TOKEN'' ''Invalid refresh token'' 401)
     | Some stored \<Rightarrow>
       if tok_status stored = ''rotated'' \<or> tok_status stored = ''revoked'' then
         bindA (revokeFamily (tok_family_id stored)) (\<lambda>_.
         bindA (auth_publish (TokenReuseDetectedEvent (tok_user_id stored) (tok_family_id stored))) (\<lambda>_.
         throwA (AppException ''AUTH_TOKEN_REUSED'' ''Refresh token reuse detected'' 401)))
       else
       bindA (if tok_status stored \<noteq> ''active'' then returnA True else bindA auth_now (\<lambda>t. returnA (tok_expires_at stored \<le> t))) (\<lambda>over.
       bindA (throwIf over (AppException ''AUTH_INVALID_TOKEN'' ''Refresh token expired'' 401)) (\<lambda>_.
       bindA (readA (user_findById (tok_user_id stored))) (\<lambda>holder.
       case holder of None \<Rightarrow> throwA (AppException ''AUTH_INVALID_TOKEN'' ''Invalid refresh token'' 401)
       | Some user \<Rightarrow>
         bindA (assertAccountAccessible user) (\<lambda>_.
         bindA randomToken (\<lambda>raw.
         bindA auth_now (\<lambda>t.
         bindA (token_create (usr_id user) (ae_sha256 env raw) (tok_family_id stored) (tok_user_agent stored) (tok_ip_address stored) (addDays t REFRESH_DAYS)) (\<lambda>newId.
         bindA (token_rotate (tok_id stored) newId) (\<lambda>_.
         bindA (readA (getUserRoleCodes env (usr_id user))) (\<lambda>roles.
         bindA (readA (getUserPermissionCodes env (usr_id user))) (\<lambda>permissions.
         bindA (signAccessToken \<lparr>jwt_sub = usr_id user, jwt_email = usr_email user, jwt_mobile = usr_mobile user, jwt_roles = roles,
           jwt_permissions = permissions, jwt_sessionId = None, jwt_tokenFamilyId = tok_family_id stored\<rparr>) (\<lambda>access.
         returnA \<lparr>tp_accessToken = access, tp_refreshToken = raw, tp_expiresIn = getAccessExpiresInSeconds env\<rparr>))))))))))))"

definition logout :: "auth_env \<Rightarrow> string \<Rightarrow> string option \<Rightarrow> string option \<Rightarrow> unit auth_act" where
  "logout env userId refreshToken sessionId =
     bindA (if truthy_str refreshToken then
         bindA (readA (findByHash (ae_sha256 env (the refreshToken)))) (\<lambda>found.
         case found of None \<Rightarrow> returnA () | Some stored \<Rightarrow> if tok_user_id stored = userId then token_revoke (tok_id stored) else returnA ())
       else returnA ()) (\<lambda>_.
     bindA (if truthy_str sessionId then revokeSession userId (the sessionId) else returnA ()) (\<lambda>_.
     bindA (audit ''LOGOUT'' userId no_meta None) (\<lambda>_.
     auth_publish (UserLoggedOutEvent userId sessionId))))"

definition me_user :: "auth_env \<Rightarrow> string \<Rightarrow> string option \<Rightarrow> (public_user \<times> string list \<times> string list \<times> string option) auth_act" where
  "me_user env userId sessionId =
     bindA (readA (user_findById userId)) (\<lambda>found.
     case found of None \<Rightarrow> throwA (AppException ''NOT_FOUND'' ''User not found'' 404)
     | Some user \<Rightarrow>
       bindA (readA (getUserRoleCodes env userId)) (\<lambda>roles.
       bindA (readA (getUserPermissionCodes env userId)) (\<lambda>permissions.
       returnA (toPublicUser user, roles, permissions, sessionId))))"

section \<open>Profile, passwords, verification\<close>

definition updateProfile :: "auth_env \<Rightarrow> string \<Rightarrow> string option \<Rightarrow> public_user auth_act" where
  "updateProfile env userId mobile =
     bindA (if truthy_str mobile then bindA (readA (findByMobile (the mobile))) (\<lambda>existing.
         throwIf (case existing of None \<Rightarrow> False | Some u \<Rightarrow> usr_id u \<noteq> userId) (AppException ''AUTH_MOBILE_TAKEN'' ''Mobile number is already registered'' 409))
       else returnA ()) (\<lambda>_.
     bindA (user_update env userId (\<lambda>u. u\<lparr>usr_mobile := set_or_keep mobile (usr_mobile u)\<rparr>)) (\<lambda>user.
     bindA (audit ''UPDATE_PROFILE'' userId no_meta (Some [(''mobile'', jopt JStr (usr_mobile user))])) (\<lambda>_.
     returnA (toPublicUser user))))"

definition changePassword :: "auth_env \<Rightarrow> string \<Rightarrow> string \<Rightarrow> string \<Rightarrow> string option \<Rightarrow> unit auth_act" where
  "changePassword env userId currentPassword newPassword keepSessionId =
     bindA (readA (user_findById userId)) (\<lambda>found.
     let stored = Option.bind found usr_password_hash in
     bindA (throwIf (\<not> truthy_str stored) (AppException ''AUTH_CURRENT_PASSWORD_INVALID'' ''Current password is invalid'' 400)) (\<lambda>_.
     bindA (password_verify env (the stored) currentPassword) (\<lambda>valid.
     bindA (throwIf (\<not> valid) (AppException ''AUTH_CURRENT_PASSWORD_INVALID'' ''Current password is invalid'' 400)) (\<lambda>_.
     bindA (throwIf (\<not> isStrongPassword newPassword) (AppException ''AUTH_WEAK_PASSWORD'' ''Password does not meet policy requirements'' 400)) (\<lambda>_.
     bindA (password_hash newPassword) (\<lambda>passwordHash.
     bindA (user_update env userId (\<lambda>u. u\<lparr>usr_password_hash := Some passwordHash\<rparr>)) (\<lambda>_.
     bindA (revokeAllForUser userId) (\<lambda>_.
     bindA (revokeAllSessions userId keepSessionId) (\<lambda>_.
     bindA (audit ''CHANGE_PASSWORD'' userId no_meta None) (\<lambda>_.
     auth_publish (PasswordChangedEvent userId)))))))))))"

definition forgotPassword :: "auth_env \<Rightarrow> string \<Rightarrow> string auth_act" where
  "forgotPassword env identifier =
     bindA (readA (findByIdentifier env identifier)) (\<lambda>found.
     bindA (case found of Some user \<Rightarrow> if truthy_str (usr_email user) then
           bindA (issueOtp env (the (usr_email user)) ''email'' ''reset_password'' (Some (usr_id user))) (\<lambda>code.
           sendPasswordResetEmail (the (usr_email user)) code) else returnA ()
       | None \<Rightarrow> returnA ()) (\<lambda>_.
     returnA ''If an account exists for that identifier, password reset instructions have been sent.''))"

definition resetPassword :: "auth_env \<Rightarrow> string \<Rightarrow> string \<Rightarrow> string \<Rightarrow> unit auth_act" where
  "resetPassword env destination code newPassword =
     bindA (throwIf (\<not> isStrongPassword newPassword) (AppException ''AUTH_WEAK_PASSWORD'' ''Password does not meet policy requirements'' 400)) (\<lambda>_.
     bindA (otp_verify env destination ''reset_password'' code) (\<lambda>_.
     bindA (readA (findByIdentifier env destination)) (\<lambda>found.
     case found of None \<Rightarrow> throwA (AppException ''NOT_FOUND'' ''User not found'' 404)
     | Some user \<Rightarrow>
       bindA (password_hash newPassword) (\<lambda>passwordHash.
       bindA (user_update env (usr_id user) (\<lambda>u. u\<lparr>usr_password_hash := Some passwordHash\<rparr>)) (\<lambda>_.
       bindA (revokeAllForUser (usr_id user)) (\<lambda>_.
       bindA (revokeAllSessions (usr_id user) None) (\<lambda>_.
       audit ''RESET_PASSWORD'' (usr_id user) no_meta None)))))))"

definition verifyEmail :: "auth_env \<Rightarrow> string \<Rightarrow> string \<Rightarrow> unit auth_act" where
  "verifyEmail env email code =
     bindA (readA (findByEmail env email)) (\<lambda>found.
     case found of None \<Rightarrow> throwA (AppException ''NOT_FOUND'' ''User not found'' 404)
     | Some user \<Rightarrow>
       bindA (throwIf (usr_email_verified_at user \<noteq> None) (AppException ''AUTH_EMAIL_ALREADY_VERIFIED'' ''Email is already verified'' 400)) (\<lambda>_.
       bindA (otp_verify env email ''verify_email'' code) (\<lambda>_.
       bindA auth_now (\<lambda>t.
       bindA (user_update env (usr_id user) (\<lambda>u. u\<lparr>usr_email_verified_at := Some t, usr_status := ''active''\<rparr>)) (\<lambda>_.
       bindA (audit ''VERIFY_EMAIL'' (usr_id user) no_meta None) (\<lambda>_.
       auth_publish (EmailVerifiedEvent (usr_id user) email)))))))"

definition resendVerification :: "auth_env \<Rightarrow> string \<Rightarrow> string auth_act" where
  "resendVerification env email =
     bindA (readA (findByEmail env email)) (\<lambda>found.
     bindA (case found of Some user \<Rightarrow> if truthy_str (usr_email user) \<and> usr_email_verified_at user = None then
           bindA (issueOtp env (the (usr_email user)) ''email'' ''verify_email'' (Some (usr_id user))) (\<lambda>code.
           sendVerificationEmail (the (usr_email user)) code) else returnA ()
       | None \<Rightarrow> returnA ()) (\<lambda>_.
     returnA ''If an unverified account exists for that email, a verification code has been sent.''))"

definition sendOtp :: "auth_env \<Rightarrow> string \<Rightarrow> string \<Rightarrow> string \<Rightarrow> string option \<Rightarrow> string auth_act" where
  "sendOtp env destination channel purpose userId =
     bindA (issueOtp env destination channel purpose userId) (\<lambda>code.
     bindA (if channel = ''email'' then sendOtpEmail destination code purpose else returnA ()) (\<lambda>_.
     returnA ''OTP sent if destination is valid.''))"

definition verifyOtp :: "auth_env \<Rightarrow> string \<Rightarrow> string \<Rightarrow> string \<Rightarrow> bool auth_act" where
  "verifyOtp env destination purpose code = bindA (otp_verify env destination purpose code) (\<lambda>_. returnA True)"

section \<open>Requests (auth.controller.ts)\<close>

datatype auth_request =
    Register "string option" "string option" string request_meta
  | Login string string request_meta
  | Firebase string request_meta
  | Refresh string
  | Logout string "string option" "string option"
  | Me string "string option"
  | Profile string "string option"
  | Change_Password string string string "string option"
  | Forgot_Password string
  | Reset_Password string string string
  | Verify_Email string string
  | Resend_Verification string
  | Send_Otp string string string "string option"
  | Verify_Otp string string string
  | List_Sessions string "string option"
  | Revoke_Session string string
  | Revoke_Sessions string "string option"

definition ignoreA :: "('s, 'a) act \<Rightarrow> ('s, unit) act" where
  "ignoreA m = bindA m (\<lambda>_. returnA ())"

primrec auth_serve :: "auth_env \<Rightarrow> auth_request \<Rightarrow> unit auth_act" where
  "auth_serve env (Register email mobile password meta) = ignoreA (register env email mobile password meta)"
| "auth_serve env (Login identifier password meta) = ignoreA (login env identifier password meta)"
| "auth_serve env (Firebase idToken meta) = ignoreA (loginWithFirebase env idToken meta)"
| "auth_serve env (Refresh refreshToken) = ignoreA (refresh env refreshToken)"
| "auth_serve env (Logout userId refreshToken sessionId) = logout env userId refreshToken sessionId"
| "auth_serve env (Me userId sessionId) = ignoreA (me_user env userId sessionId)"
| "auth_serve env (Profile userId mobile) = ignoreA (updateProfile env userId mobile)"
| "auth_serve env (Change_Password userId current new keepId) = changePassword env userId current new keepId"
| "auth_serve env (Forgot_Password identifier) = ignoreA (forgotPassword env identifier)"
| "auth_serve env (Reset_Password destination code new) = resetPassword env destination code new"
| "auth_serve env (Verify_Email email code) = verifyEmail env email code"
| "auth_serve env (Resend_Verification email) = ignoreA (resendVerification env email)"
| "auth_serve env (Send_Otp destination channel purpose userId) = ignoreA (sendOtp env destination channel purpose userId)"
| "auth_serve env (Verify_Otp destination purpose code) = ignoreA (verifyOtp env destination purpose code)"
| "auth_serve env (List_Sessions userId sessionId) = ignoreA (listSessions env userId sessionId)"
| "auth_serve env (Revoke_Session userId sessionId) = revokeSession userId sessionId"
| "auth_serve env (Revoke_Sessions userId exceptId) = ignoreA (revokeAllSessions userId exceptId)"

text \<open>What a request leaves behind, whether it succeeds or fails.\<close>

definition auth_handle :: "auth_env \<Rightarrow> auth_request \<Rightarrow> auth_world \<Rightarrow> auth_world" where
  "auth_handle env r w = snd (auth_serve env r w)"

end
