(* ===== verification/Auth_Contract.thy ===== *)
theory Auth_Contract
  imports Auth_Service
begin

text \<open>
  Refresh tokens over any sequence of requests: a token that was used, or that was out when the password changed, is
  never good again. The interface of the requests, for properties of tokens and one-time passwords.
\<close>

section \<open>What the requests do to tokens and one-time passwords\<close>

definition cred :: "auth_world \<Rightarrow> token_row list \<times> otp_row list" where
  "cred w = (aw_tokens w, aw_otps w)"

lemma cred_simps [simp]:
  "cred (w\<lparr>aw_users := a\<rparr>) = cred w" "cred (w\<lparr>aw_user_roles := b\<rparr>) = cred w" "cred (w\<lparr>aw_sessions := c\<rparr>) = cred w" "cred (w\<lparr>aw_oauth := d\<rparr>) = cred w"
  "cred (w\<lparr>aw_attempts := e\<rparr>) = cred w" "cred (w\<lparr>aw_audit := f\<rparr>) = cred w" "cred (w\<lparr>aw_events := g\<rparr>) = cred w" "cred (w\<lparr>aw_mails := h\<rparr>) = cred w"
  "cred (w\<lparr>aw_log := i\<rparr>) = cred w" "cred (w\<lparr>aw_reads := j\<rparr>) = cred w" "cred (w\<lparr>aw_uuids := k\<rparr>) = cred w" "cred (w\<lparr>aw_bytes_no := l\<rparr>) = cred w"
  "cred (w\<lparr>aw_ints_no := m\<rparr>) = cred w" "cred (w\<lparr>aw_argon_no := n\<rparr>) = cred w" "cred (w\<lparr>aw_sign_no := p\<rparr>) = cred w" "cred (w\<lparr>aw_mailer_no := q\<rparr>) = cred w"
  by (simp_all add: cred_def)

lemma preserves_ofSum [intro, simp]: "preserves f (ofSum r)"
  by (simp add: preserves_def)

lemmas cred_steps = preserves_bindA preserves_catchA preserves_throwIf preserves_readA preserves_returnA preserves_throwA preserves_ofSum preserves_modifyA

lemma cred_draws: "preserves cred auth_now" "preserves cred auth_uuid" "preserves cred randomToken" "preserves cred generateCode"
  by (simp_all add: preserves_def auth_now_def auth_uuid_def randomToken_def generateCode_def)

lemma cred_checks: "preserves cred (auth_check c p)" "preserves cred (auth_id ids)" "preserves cred (row_or_throw r)"
  unfolding auth_check_def auth_id_def row_or_throw_def by (auto intro!: cred_steps cred_draws split: option.split)

lemma cred_logs: "preserves cred (auth_publish e)" "preserves cred (auth_log s)" "preserves cred (audit a i meta nv)"
  "preserves cred (attempt_create u s meta b r)"
  unfolding auth_publish_def auth_log_def audit_def attempt_create_def by (auto intro!: cred_steps cred_checks)

lemma cred_mail: "preserves cred (send_mail tpl addr subj ctx)"
  unfolding send_mail_def mailer_def Let_def by (auto intro!: cred_steps cred_logs split: option.split)

lemma cred_mails: "preserves cred (sendVerificationEmail e c)" "preserves cred (sendPasswordResetEmail e c)" "preserves cred (sendOtpEmail e c p)"
  unfolding sendVerificationEmail_def sendPasswordResetEmail_def sendOtpEmail_def by (rule cred_mail)+

lemma cred_crypto: "preserves cred (password_hash s)" "preserves cred (password_verify env h s)" "preserves cred (signAccessToken p)"
  unfolding password_hash_def password_verify_def signAccessToken_def by (auto intro!: cred_steps)

lemma cred_user_writes: "preserves cred (user_insert env u)" "preserves cred (user_update env i f)" "preserves cred (assignRole i r)"
  "preserves cred (upsertOauth env i pr uid e)"
  unfolding user_insert_def user_update_def assignRole_def upsertOauth_def Let_def by (auto intro!: cred_steps cred_checks cred_draws)

lemma cred_when: "preserves cred (when_true b)"
  unfolding when_true_def by (auto intro!: cred_steps cred_draws)

lemma cred_users: "preserves cred (user_create env e m h)" "preserves cred (createFromSocial env e m pr ev mv)" "preserves cred (incrementFailedLogin env i)"
  "preserves cred (resetFailedLogin env i)" "preserves cred (lockUntil env i t)"
  unfolding user_create_def createFromSocial_def incrementFailedLogin_def resetFailedLogin_def lockUntil_def
  by (auto intro!: cred_steps cred_user_writes cred_when)

lemma cred_sessions: "preserves cred (createSession env u meta)" "preserves cred (revokeSession u s)" "preserves cred (revokeAllSessions u x)"
  "preserves cred (listSessions env u x)"
  unfolding createSession_def session_create_def revokeSession_def session_revoke_def session_update_def revokeAllSessions_def
    session_revokeAllForUser_def listSessions_def session_findActive_def Let_def
  by (auto intro!: cred_steps cred_checks cred_draws split: option.split)

lemma cred_guards: "preserves cred (assertAccountAccessible u)" "preserves cred (handleFailedLogin env u s meta r)"
  unfolding assertAccountAccessible_def handleFailedLogin_def by (auto intro!: cred_steps cred_logs cred_draws cred_users split: option.split)

lemma cred_firebase: "preserves cred (firebase_create env pr idn)" "preserves cred (firebase_update env idn u meta)"
  unfolding firebase_create_def firebase_update_def
  by (auto intro!: cred_steps cred_users cred_user_writes cred_logs cred_draws cred_guards cred_when split: option.split prod.split)

lemmas cred_services = cred_draws cred_checks cred_logs cred_mails cred_crypto cred_user_writes cred_users cred_sessions cred_guards cred_firebase cred_when

text \<open>
  What has to be shown of a property of tokens and one-time passwords: that each operation of their repositories, and the
  check of a one-time password, keeps it. Then every request keeps it.
\<close>

locale credential_invariant =
  fixes env :: auth_env
    and Inv :: "auth_world \<Rightarrow> bool"
  assumes about_cred: "cred v = cred w \<Longrightarrow> Inv w \<Longrightarrow> Inv v"
    and kept_token_create: "keeps Inv (token_create u h f ua ip t)"
    and kept_token_revoke: "keeps Inv (token_revoke i)"
    and kept_rotate: "keeps Inv (token_rotate i j)"
    and kept_revoke_where: "keeps Inv (revoke_where p)"
    and kept_otp_create: "keeps Inv (otp_create holder d ch pu h t None)"
    and kept_otp_verify: "keeps Inv (otp_verify env d pu c)"
begin

lemma kept_cred: "preserves cred m \<Longrightarrow> keeps Inv m"
  by (erule preserves_keeps) (erule about_cred)

lemmas kept_services = cred_services [THEN kept_cred]

lemma kept_ofSum: "keeps Inv (ofSum r)"
  by (rule kept_cred) simp

lemmas kept_steps = keeps_bindA keeps_catchA keeps_throwIf keeps_readA keeps_returnA keeps_throwA kept_ofSum

lemma kept_revokes: "keeps Inv (revokeFamily f)" "keeps Inv (revokeAllForUser u)"
  unfolding revokeFamily_def revokeAllForUser_def by (rule kept_revoke_where)+

lemma kept_issueOtp: "keeps Inv (issueOtp env d ch pu u)"
  unfolding issueOtp_def by (intro kept_steps kept_services kept_otp_create)

lemma kept_createRefreshPair: "keeps Inv (createRefreshPair env u meta s f)"
  unfolding createRefreshPair_def by (auto intro!: kept_steps kept_services kept_token_create split: option.split)

lemma kept_responses: "keeps Inv (createAuthResponse env u meta)" "keeps Inv (issueAuthResponse env u meta)"
  unfolding issueAuthResponse_def createAuthResponse_def
  by (auto intro!: kept_steps kept_services kept_createRefreshPair split: prod.split)

lemma kept_register: "keeps Inv (register env e m p meta)"
  unfolding register_def by (auto intro!: kept_steps kept_services kept_issueOtp kept_responses split: prod.split)

lemma kept_login: "keeps Inv (login env i p meta)"
  unfolding login_def by (auto intro!: kept_steps kept_services kept_responses split: option.split)

lemma kept_firebase: "keeps Inv (loginWithFirebase env i meta)"
  unfolding loginWithFirebase_def loginWithFirebaseInner_def Let_def
  by (auto intro!: kept_steps kept_services kept_responses split: option.split exn.split)

lemma kept_refresh: "keeps Inv (refresh env r)"
  unfolding refresh_def by (auto intro!: kept_steps kept_services kept_revokes kept_token_create kept_rotate split: option.split)

lemma kept_logout: "keeps Inv (logout env u r s)"
  unfolding logout_def by (auto intro!: kept_steps kept_services kept_token_revoke split: option.split)

lemma kept_passwords: "keeps Inv (changePassword env u c n k)" "keeps Inv (forgotPassword env i)" "keeps Inv (resetPassword env d c n)"
  unfolding changePassword_def forgotPassword_def resetPassword_def Let_def
  by (auto intro!: kept_steps kept_services kept_revokes kept_issueOtp kept_otp_verify split: option.split)

lemma kept_verification: "keeps Inv (verifyEmail env e c)" "keeps Inv (resendVerification env e)" "keeps Inv (sendOtp env d ch pu u)" "keeps Inv (verifyOtp env d pu c)"
  unfolding verifyEmail_def resendVerification_def sendOtp_def verifyOtp_def
  by (auto intro!: kept_steps kept_services kept_issueOtp kept_otp_verify split: option.split)

lemma kept_profile: "keeps Inv (updateProfile env u m)" "keeps Inv (me_user env u s)"
  unfolding updateProfile_def me_user_def by (auto intro!: kept_steps kept_services split: option.split)

lemma kept_serve: "keeps Inv (auth_serve env r)"
  by (cases r) (auto simp: ignoreA_def intro!: kept_steps kept_services kept_register kept_login kept_firebase kept_refresh kept_logout kept_passwords
      kept_verification kept_profile)

lemma kept_handle: "Inv w \<Longrightarrow> Inv (auth_handle env r w)"
  using kept_serve [of r] by (simp add: keeps_def auth_handle_def)

lemma kept_requests: "Inv w \<Longrightarrow> Inv (fold (auth_handle env) rs w)"
  by (induction rs arbitrary: w) (simp_all add: kept_handle)

end

section \<open>Refresh tokens\<close>

text \<open>A later state of a row: its identity is the same, and once it is not active it stays so.\<close>

definition spent :: "token_row \<Rightarrow> bool" where
  "spent x \<longleftrightarrow> tok_status x = ''rotated'' \<or> tok_status x = ''revoked''"

definition token_after :: "token_row \<Rightarrow> token_row \<Rightarrow> bool" where
  "token_after x y \<longleftrightarrow> tok_id y = tok_id x \<and> tok_user_id y = tok_user_id x \<and> tok_hash y = tok_hash x \<and> tok_family_id y = tok_family_id x
     \<and> tok_deleted_at y = tok_deleted_at x \<and> (tok_status y = tok_status x \<or> spent y)"

definition tokens_after :: "token_row list \<Rightarrow> auth_world \<Rightarrow> bool" where
  "tokens_after xs w \<longleftrightarrow> list_all2 token_after xs (take (length xs) (aw_tokens w))"

lemma token_after_refl [simp]: "token_after x x"
  by (simp add: token_after_def)

lemma token_after_trans: "token_after x y \<Longrightarrow> token_after y z \<Longrightarrow> token_after x z"
  by (auto simp: token_after_def spent_def)

lemma tokens_after_refl: "tokens_after (aw_tokens w) w"
  by (simp add: tokens_after_def list_all2_same)

lemma tokens_after_append: "tokens_after xs w \<Longrightarrow> tokens_after xs (w\<lparr>aw_tokens := aw_tokens w @ ys\<rparr>)"
  by (auto simp: tokens_after_def list_all2_conv_all_nth)

lemma tokens_after_update:
  assumes "tokens_after xs w" "\<And>x. token_after x (f x)"
  shows "tokens_after xs (w\<lparr>aw_tokens := update_where p f (aw_tokens w)\<rparr>)"
  using assms(1) unfolding tokens_after_def update_where_def
  by (simp add: take_map list_all2_map2 if_distrib [of "token_after _"]) (erule list_all2_mono, simp add: token_after_trans [OF _ assms(2)])

lemma keeps_token_update: "(\<And>x. token_after x (f x)) \<Longrightarrow> keeps (tokens_after xs) (token_update i f)"
  unfolding token_update_def
  by (intro keeps_bindA keeps_readA keeps_modifyA preserves_keeps [OF cred_checks(3)] tokens_after_update) (simp_all add: tokens_after_def cred_def)

lemma tokens_after_cred: "cred v = cred w \<Longrightarrow> tokens_after xs w \<Longrightarrow> tokens_after xs v"
  by (simp add: tokens_after_def cred_def)

lemma keeps_tokens: "preserves aw_tokens m \<Longrightarrow> keeps (tokens_after xs) m"
  by (erule preserves_keeps) (simp add: tokens_after_def)

lemma preserves_tokens: "preserves cred m \<Longrightarrow> preserves aw_tokens m"
  by (simp add: preserves_def cred_def)

lemma tokens_draws: "preserves aw_tokens auth_now" "preserves aw_tokens (auth_id ids)" "preserves aw_tokens (auth_check c p)" "preserves aw_tokens (row_or_throw r :: 'r auth_act)"
  by (rule preserves_tokens, rule cred_draws cred_checks)+

lemma keeps_token_create: "keeps (tokens_after xs) (token_create u h f ua ip t)"
  unfolding token_create_def by (intro keeps_bindA keeps_returnA keeps_modifyA tokens_after_append) (auto intro!: keeps_tokens tokens_draws)

lemma keeps_token_writes: "keeps (tokens_after xs) (token_revoke i)" "keeps (tokens_after xs) (token_rotate i j)" "keeps (tokens_after xs) (revoke_where p)"
  unfolding token_revoke_def token_rotate_def revoke_where_def
  by (intro keeps_bindA keeps_tokens [OF tokens_draws(1)] keeps_token_update keeps_modifyA tokens_after_update; simp add: token_after_def spent_def)+

lemma tokens_otp: "preserves aw_tokens (otp_create u d ch pu h t n)" "preserves aw_tokens (otp_verify env d pu c)"
  unfolding otp_create_def otp_verify_def findLatestActive_def incrementAttempts_def consume_def otp_update_def Let_def
  by (auto intro!: cred_steps tokens_draws split: option.split)

interpretation token_history: credential_invariant env "tokens_after xs"
  by unfold_locales (auto intro: tokens_after_cred keeps_token_create keeps_token_writes keeps_tokens tokens_otp)

text \<open>A token found by its digest is found again, in a later state.\<close>

lemma find_after:
  assumes "list_all2 token_after xs ys" "find (\<lambda>x. tok_hash x = h \<and> tok_deleted_at x = None) xs = Some x"
  shows "\<exists>y. find (\<lambda>x. tok_hash x = h \<and> tok_deleted_at x = None) (ys @ zs) = Some y \<and> token_after x y"
  using assms by (induction rule: list_all2_induct) (auto simp: token_after_def split: if_splits)

lemma findByHash_after:
  assumes "tokens_after (aw_tokens v) w" "findByHash h v = Some x"
  shows "\<exists>y. findByHash h w = Some y \<and> token_after x y"
  using find_after [of "aw_tokens v" "take (length (aw_tokens v)) (aw_tokens w)" h x "drop (length (aw_tokens v)) (aw_tokens w)"] assms
  by (simp add: tokens_after_def findByHash_def)

lemma findByHash_cred: "cred v = cred w \<Longrightarrow> findByHash h v = findByHash h w"
  by (simp add: findByHash_def cred_def)

lemma findByHash_simps [simp]: "findByHash h (w\<lparr>aw_reads := j\<rparr>) = findByHash h w" "findByHash h (w\<lparr>aw_bytes_no := l\<rparr>) = findByHash h w"
  "findByHash h (w\<lparr>aw_events := g\<rparr>) = findByHash h w"
  by (simp_all add: findByHash_def)

lemma findByHash_update:
  assumes "findByHash h w = Some x" "\<And>x. tok_hash (f x) = tok_hash x" "\<And>x. tok_deleted_at (f x) = tok_deleted_at x"
  shows "findByHash h (w\<lparr>aw_tokens := update_where p f (aw_tokens w)\<rparr>) = Some (if p x then f x else x)"
  using assms by (simp add: findByHash_def find_update_where)

lemma wp_auth_now [simp]: "wp auth_now w Q E = Q (aw_clock w (aw_reads w)) (w\<lparr>aw_reads := Suc (aw_reads w)\<rparr>)"
  by (simp add: wp_def auth_now_def)

lemma wp_randomToken [simp]: "wp randomToken w Q E = Q (aw_bytes w (aw_bytes_no w)) (w\<lparr>aw_bytes_no := Suc (aw_bytes_no w)\<rparr>)"
  by (simp add: wp_def randomToken_def)

lemma wp_auth_publish [simp]: "wp (auth_publish e) w Q E = Q () (w\<lparr>aw_events := aw_events w @ [e]\<rparr>)"
  by (simp add: auth_publish_def)

lemma wp_token_create: "wp (token_create u hn f ua ip t) w (\<lambda>_ v. findByHash h w = Some x \<longrightarrow> findByHash h v = Some x) (\<lambda>_ _. True)"
proof -
  have found: "find q (as @ bs) = Some x" if "find q as = Some x" for q and as bs :: "token_row list"
    using that by (induction as) auto
  show ?thesis unfolding token_create_def
    by (intro wp_bindI preserves_wpI [OF tokens_draws(2)] preserves_wpI [OF tokens_draws(3)]) (auto simp: findByHash_def found)
qed

text \<open>A refresh leaves the token it was given rotated.\<close>

lemma wp_rotate: "findByHash h w = Some x \<Longrightarrow> wp (token_rotate (tok_id x) j) w (\<lambda>_ v. \<exists>y. findByHash h v = Some y \<and> spent y) (\<lambda>_ _. True)"
  unfolding token_rotate_def token_update_def
  by (intro wp_bindI preserves_wpI [OF tokens_draws(1)] preserves_wpI [OF tokens_draws(4)])
    (auto simp: findByHash_def find_update_where spent_def)

lemma refresh_rotates:
  assumes "refresh env raw w = (Inr pair, v)"
  shows "\<exists>x y. findByHash (ae_sha256 env raw) w = Some x \<and> findByHash (ae_sha256 env raw) v = Some y \<and> spent y"
proof -
  define h where "h = ae_sha256 env raw"
  show ?thesis
  proof (cases "findByHash h w")
    case None
    then show ?thesis using assms by (simp add: refresh_def h_def bindA_def)
  next
    case (Some x)
    have "wp (refresh env raw) w (\<lambda>_ v. \<exists>y. findByHash h v = Some y \<and> spent y) (\<lambda>_ _. True)"
      unfolding refresh_def h_def [symmetric]
      by (auto simp: Some revokeFamily_def revoke_where_def split: option.split
          intro!: preserves_wpI [OF cred_guards(1)] wp_mono [OF wp_token_create [of _ _ _ _ _ _ _ h x]]
           wp_mono [OF wp_rotate [of h _ x]] preserves_wpI [OF cred_crypto(3)] dest!: findByHash_cred [of _ _ h])
    from wp_Inr [OF this assms] show ?thesis using Some unfolding h_def by blast
  qed
qed

text \<open>A spent token is refused, and the whole family with it.\<close>

lemma refresh_spent:
  assumes "findByHash (ae_sha256 env raw) w = Some y" "spent y"
  shows "\<exists>v. refresh env raw w = (Inl (AppException ''AUTH_TOKEN_REUSED'' ''Refresh token reuse detected'' 401), v)
     \<and> (\<forall>z \<in> set (aw_tokens v). tok_family_id z = tok_family_id y \<and> tok_deleted_at z = None \<longrightarrow> tok_status z \<noteq> ''active'')"
  using assms by (auto simp: refresh_def spent_def bindA_def revokeFamily_def revoke_where_def auth_publish_def auth_now_def update_where_def)

section \<open>An example\<close>

definition demo_aenv :: auth_env where
  "demo_aenv = \<lparr>ae_sha256 = (\<lambda>s. CHR ''#'' # s), ae_argonVerify = (\<lambda>h p. Inr (h = CHR ''H'' # p)),
     ae_firebase = (\<lambda>tok. if tok = ''fb'' then Inr \<lparr>idn_uid = ''F1'', idn_email = Some ''ann@x.io'', idn_emailVerified = False, idn_phone = None,
       idn_signInProvider = ''password''\<rparr> else Inl (AppException ''UNAUTHORIZED'' ''Invalid Firebase ID token'' 401)),
     ae_lower = lower, ae_citext = lower, ae_accessExpiresIn = ''15m'', ae_roles = (\<lambda>xs. xs), ae_permissions = (\<lambda>xs. xs),
     ae_newest_otp = rev, ae_sessions = rev\<rparr>"

definition demo_user :: user_row where
  "demo_user = (new_user (Some ''ann@x.io'') None (Some ''HAnn-pass-1'') ''local'' ''active'' None None)\<lparr>usr_id := ''U1''\<rparr>"

definition demo_auth :: auth_world where
  "demo_auth = \<lparr>aw_users = [demo_user], aw_user_roles = [\<lparr>url_user_id = ''U1'', url_role_id = CUSTOMER_ROLE_ID, url_status = ''active'', url_deleted_at = None\<rparr>],
     aw_roles = [\<lparr>rol_id = CUSTOMER_ROLE_ID, rol_code = ''customer'', rol_status = ''active'', rol_deleted_at = None\<rparr>],
     aw_role_permissions = [], aw_permissions = [],
     aw_tokens = [\<lparr>tok_id = ''T1'', tok_user_id = ''U1'', tok_hash = ''#raw'', tok_family_id = ''F'', tok_replaced_by_id = None, tok_user_agent = None,
       tok_ip_address = None, tok_expires_at = 100000, tok_revoked_at = None, tok_status = ''active'', tok_deleted_at = None\<rparr>],
     aw_sessions = [], aw_otps = [], aw_oauth = [], aw_attempts = [], aw_audit = [], aw_events = [], aw_mails = [], aw_log = [],
     aw_clock = (\<lambda>n. 1000 + int n), aw_reads = 0, aw_uuid = (\<lambda>n. ''id'' @ show_nat n), aw_uuids = 0,
     aw_bytes = (\<lambda>n. ''b'' @ show_nat n), aw_bytes_no = 0, aw_ints = (\<lambda>n. n), aw_ints_no = 0,
     aw_argon = (\<lambda>n p. Inr (CHR ''H'' # p)), aw_argon_no = 0, aw_sign = (\<lambda>n p. Inr ''jwt''), aw_sign_no = 0, aw_mailer = (\<lambda>n. None), aw_mailer_no = 0\<rparr>"

lemma demo_picks: "set (ae_newest_otp demo_aenv xs) \<subseteq> set xs"
  by (simp add: demo_aenv_def)

lemma not_isl_Inr: "\<not> isl (fst (m w)) \<Longrightarrow> \<exists>x. m w = (Inr x, snd (m w))"
  by (cases "m w"; cases "fst (m w)") auto

section \<open>Used tokens and changed passwords\<close>

text \<open>
  C16: A refresh token is good for one refresh: presented again after any requests, it is refused as reused, and no token
  of its family is active then.
\<close>

theorem refresh_token_used_once:
  assumes "refresh env raw w = (Inr pair, v)"
  shows "\<exists>x u. findByHash (ae_sha256 env raw) w = Some x
     \<and> refresh env raw (fold (auth_handle env) rs v) = (Inl (AppException ''AUTH_TOKEN_REUSED'' ''Refresh token reuse detected'' 401), u)
     \<and> (\<forall>z \<in> set (aw_tokens u). tok_family_id z = tok_family_id x \<and> tok_deleted_at z = None \<longrightarrow> tok_status z \<noteq> ''active'')"
proof -
  obtain x y where xy: "findByHash (ae_sha256 env raw) w = Some x" "findByHash (ae_sha256 env raw) v = Some y" "spent y"
    using refresh_rotates [OF assms] by blast
  have "tokens_after (aw_tokens w) v"
    using keepsD [OF token_history.kept_refresh assms tokens_after_refl] .
  then have fam: "tok_family_id y = tok_family_id x"
    using findByHash_after [of w v "ae_sha256 env raw" x] xy(1,2) by (auto simp: token_after_def)
  have "tokens_after (aw_tokens v) (fold (auth_handle env) rs v)"
    by (rule token_history.kept_requests [OF tokens_after_refl])
  then obtain z where z: "findByHash (ae_sha256 env raw) (fold (auth_handle env) rs v) = Some z" "token_after y z"
    using findByHash_after xy(2) by blast
  then have "spent z" "tok_family_id z = tok_family_id x"
    using xy(3) fam by (auto simp: token_after_def spent_def)
  then show ?thesis using refresh_spent [OF z(1)] xy(1) by auto
qed

theorem refresh_token_used_once_witness:
  "\<exists>u. refresh demo_aenv ''raw'' (fold (auth_handle demo_aenv) [Refresh ''b0'', Login ''ann@x.io'' ''Ann-pass-1'' no_meta] (snd (refresh demo_aenv ''raw'' demo_auth)))
     = (Inl (AppException ''AUTH_TOKEN_REUSED'' ''Refresh token reuse detected'' 401), u)"
proof -
  have "\<not> isl (fst (refresh demo_aenv ''raw'' demo_auth))" by code_simp
  then obtain pair where "refresh demo_aenv ''raw'' demo_auth = (Inr pair, snd (refresh demo_aenv ''raw'' demo_auth))"
    using not_isl_Inr [of "refresh demo_aenv ''raw''" demo_auth] by blast
  from refresh_token_used_once [OF this] show ?thesis by blast
qed

text \<open>A token that is not active is refused, whatever its state.\<close>

lemma refresh_inactive:
  assumes "findByHash (ae_sha256 env raw) w = Some y" "tok_status y \<noteq> ''active''"
  shows "\<exists>e v. refresh env raw w = (Inl e, v) \<and> ex_status e = 401"
  using assms by (auto simp: refresh_def bindA_def revokeFamily_def revoke_where_def auth_publish_def auth_now_def)

text \<open>No token of the user is active.\<close>

definition signed_out :: "string \<Rightarrow> auth_world \<Rightarrow> bool" where
  "signed_out userId w \<longleftrightarrow> (\<forall>x \<in> set (aw_tokens w). tok_user_id x = userId \<and> tok_deleted_at x = None \<longrightarrow> tok_status x \<noteq> ''active'')"

lemma signed_out_cred: "cred v = cred w \<Longrightarrow> signed_out i w \<Longrightarrow> signed_out i v"
  by (simp add: signed_out_def cred_def)

lemma set_update_where: "set (update_where p f xs) = (\<lambda>x. if p x then f x else x) ` set xs"
  by (simp only: update_where_def set_map)

lemma signed_out_revoked:
  "signed_out i (w\<lparr>aw_tokens := update_where (\<lambda>x. tok_user_id x = i \<and> tok_status x = ''active'' \<and> tok_deleted_at x = None)
     (\<lambda>x. x\<lparr>tok_status := ''revoked'', tok_revoked_at := Some t\<rparr>) (aw_tokens w)\<rparr>)"
proof -
  have "aw_tokens (w\<lparr>aw_tokens := ys\<rparr>) = ys" for ys by simp
  then show ?thesis unfolding signed_out_def by (simp only: set_update_where ball_simps) (intro ballI impI, simp split: if_split_asm)
qed

lemma wp_revokeAll: "wp (revokeAllForUser i) w (\<lambda>_. signed_out i) (\<lambda>_ _. True)"
  unfolding revokeAllForUser_def revoke_where_def by (simp only: wp_bindA wp_auth_now wp_modifyA signed_out_revoked)

lemma wp_anything: "(\<And>x t. wp (f x) t Q (\<lambda>_ _. True)) \<Longrightarrow> wp (bindA m f) w Q (\<lambda>_ _. True)"
  by (rule wp_bindI [of _ _ "\<lambda>_ _. True" "\<lambda>_ _. True"]) (auto simp: wp_def split: prod.split sum.split)

lemma wp_then_quiet:
  assumes "wp m w (\<lambda>_. signed_out i) (\<lambda>_ _. True)" "\<And>x. preserves cred (f x)"
  shows "wp (bindA m f) w (\<lambda>_. signed_out i) (\<lambda>_ _. True)"
  by (simp, rule wp_mono [OF assms(1)]) (auto intro: preserves_wpI [OF assms(2)] signed_out_cred)

lemma changePassword_signs_out: "wp (changePassword env i cur new keepId) w (\<lambda>_. signed_out i) (\<lambda>_ _. True)"
  unfolding changePassword_def Let_def
  by (rule wp_then_quiet [OF wp_revokeAll] wp_anything)+ (intro cred_steps cred_services)

lemma users_otp_verify: "preserves aw_users (otp_verify env d pu c)"
proof -
  have now: "preserves aw_users auth_now" by (simp add: preserves_def auth_now_def)
  show ?thesis
    unfolding otp_verify_def findLatestActive_def incrementAttempts_def consume_def otp_update_def row_or_throw_def Let_def
    by (auto intro!: cred_steps now split: option.split)
qed

lemma findByIdentifier_users: "aw_users v = aw_users w \<Longrightarrow> findByIdentifier env d v = findByIdentifier env d w"
  by (simp add: findByIdentifier_def findByEmail_def findByMobile_def Let_def)

lemma resetPassword_signs_out:
  assumes "findByIdentifier env d w = Some u"
  shows "wp (resetPassword env d code new) w (\<lambda>_. signed_out (usr_id u)) (\<lambda>_ _. True)"
proof -
  have rest: "wp (bindA (password_hash new) (\<lambda>passwordHash.
       bindA (user_update env (usr_id u) (\<lambda>u. u\<lparr>usr_password_hash := Some passwordHash\<rparr>)) (\<lambda>_.
       bindA (revokeAllForUser (usr_id u)) (\<lambda>_.
       bindA (revokeAllSessions (usr_id u) None) (\<lambda>_.
       audit ''RESET_PASSWORD'' (usr_id u) no_meta None))))) v (\<lambda>_. signed_out (usr_id u)) (\<lambda>_ _. True)" for v
    by (rule wp_then_quiet [OF wp_revokeAll] wp_anything)+ (intro cred_steps cred_services)
  have "findByIdentifier env d v = Some u" if "aw_users v = aw_users w" for v
    using findByIdentifier_users [OF that] assms by simp
  then show ?thesis unfolding resetPassword_def
    by (intro wp_bind_throwIfI TrueI wp_bindI [OF preserves_wp [OF users_otp_verify]] wp_bind_readI) (simp_all add: rest del: wp_bindA)
qed

text \<open>
  C17: A change or a reset of the password ends every login of the user: no refresh token that was out before it, presented
  after any later requests, is exchanged again.
\<close>

theorem password_change_ends_refresh:
  assumes "(\<exists>cur new keepId. changePassword env (usr_id u) cur new keepId w = (Inr (), v))
      \<or> (\<exists>d code new. resetPassword env d code new w = (Inr (), v) \<and> findByIdentifier env d w = Some u)"
    and "findByHash (ae_sha256 env raw) w = Some x" "tok_user_id x = usr_id u"
  shows "\<exists>e t. refresh env raw (fold (auth_handle env) rs v) = (Inl e, t) \<and> ex_status e = 401"
proof -
  have out: "signed_out (usr_id u) v"
    using assms(1) wp_Inr [OF changePassword_signs_out] wp_Inr [OF resetPassword_signs_out] by blast
  have "tokens_after (aw_tokens w) v"
    using assms(1) keepsD [OF token_history.kept_passwords(1) _ tokens_after_refl]
      keepsD [OF token_history.kept_passwords(3) _ tokens_after_refl] by blast
  then obtain y where y: "findByHash (ae_sha256 env raw) v = Some y" "tok_user_id y = usr_id u"
    using findByHash_after [of w v "ae_sha256 env raw" x] assms(2,3) by (auto simp: token_after_def)
  then have "tok_status y \<noteq> ''active''"
    using out by (auto simp: findByHash_def signed_out_def dest!: find_filter_some)
  moreover obtain z where "findByHash (ae_sha256 env raw) (fold (auth_handle env) rs v) = Some z" "token_after y z"
    using findByHash_after [OF token_history.kept_requests [OF tokens_after_refl] y(1)] by blast
  ultimately show ?thesis
    using refresh_inactive [of env raw "fold (auth_handle env) rs v" z] by (auto simp: token_after_def spent_def)
qed

theorem password_change_ends_refresh_witness:
  "\<exists>e t. refresh demo_aenv ''raw'' (fold (auth_handle demo_aenv) [Login ''ann@x.io'' ''New-pass-2'' no_meta]
     (snd (changePassword demo_aenv ''U1'' ''Ann-pass-1'' ''New-pass-2'' None demo_auth))) = (Inl e, t) \<and> ex_status e = 401"
proof -
  have "\<not> isl (fst (changePassword demo_aenv ''U1'' ''Ann-pass-1'' ''New-pass-2'' None demo_auth))" by code_simp
  then have "changePassword demo_aenv (usr_id demo_user) ''Ann-pass-1'' ''New-pass-2'' None demo_auth
      = (Inr (), snd (changePassword demo_aenv ''U1'' ''Ann-pass-1'' ''New-pass-2'' None demo_auth))"
    using not_isl_Inr [of "changePassword demo_aenv ''U1'' ''Ann-pass-1'' ''New-pass-2'' None" demo_auth] by (simp add: demo_user_def)
  moreover have "findByHash (ae_sha256 demo_aenv ''raw'') demo_auth = Some (hd (aw_tokens demo_auth))" by code_simp
  moreover have "tok_user_id (hd (aw_tokens demo_auth)) = usr_id demo_user" by code_simp
  ultimately show ?thesis by (intro password_change_ends_refresh [of demo_aenv demo_user demo_auth]) blast+
qed

end
