(* ===== verification/Auth_Otp.thy ===== *)
theory Auth_Otp
  imports Auth_Contract
begin

text \<open>
  One-time passwords over any sequence of requests: each is accepted once, and only so many wrong codes are tried on it.
  The wrong codes are counted from the answers of the requests; the tries a password has left are the potential they are
  paid from, which no request raises and every wrong code lowers.
\<close>

lemma preserves_otps: "preserves cred m \<Longrightarrow> preserves aw_otps m"
  by (simp add: preserves_def cred_def)

lemma otps_draws: "preserves aw_otps auth_now" "preserves aw_otps (auth_id ids)" "preserves aw_otps (auth_check c p)" "preserves aw_otps (row_or_throw r :: 'r auth_act)"
  by (rule preserves_otps, rule cred_draws cred_checks)+

lemma otps_tokens: "preserves aw_otps (token_create u h f ua ip t)" "preserves aw_otps (token_revoke i)" "preserves aw_otps (token_rotate i j)" "preserves aw_otps (revoke_where p)"
  unfolding token_create_def token_revoke_def token_rotate_def revoke_where_def token_update_def by (auto intro!: cred_steps otps_draws)

text \<open>The one-time password is there, and it has been used.\<close>

definition otp_used :: "string \<Rightarrow> auth_world \<Rightarrow> bool" where
  "otp_used i w \<longleftrightarrow> i \<in> otp_id ` set (aw_otps w) \<and> (\<forall>x \<in> set (aw_otps w). otp_id x = i \<longrightarrow> otp_consumed_at x \<noteq> None)"

lemma otp_used_otps: "aw_otps v = aw_otps w \<Longrightarrow> otp_used i w \<Longrightarrow> otp_used i v"
  by (simp add: otp_used_def)

lemma keeps_used: "preserves aw_otps m \<Longrightarrow> keeps (otp_used i) m"
  by (erule preserves_keeps) (erule otp_used_otps)

lemma map_otp_id: "(\<And>x. otp_id (f x) = otp_id x) \<Longrightarrow> map otp_id (update_where p f xs) = map otp_id xs"
  by (simp add: update_where_def)

lemma otp_used_update:
  assumes "otp_used i w" "\<And>x. otp_id (f x) = otp_id x" "\<And>x. otp_consumed_at x \<noteq> None \<Longrightarrow> otp_consumed_at (f x) \<noteq> None"
  shows "otp_used i (w\<lparr>aw_otps := update_where p f (aw_otps w)\<rparr>)"
proof -
  have "otp_id ` set (update_where p f (aw_otps w)) = otp_id ` set (aw_otps w)"
    using map_otp_id [of f, OF assms(2)] by (metis set_map)
  moreover have "\<forall>x \<in> set (update_where p f (aw_otps w)). otp_id x = i \<longrightarrow> otp_consumed_at x \<noteq> None"
    unfolding set_update_where ball_simps using assms by (simp add: otp_used_def)
  ultimately show ?thesis using assms(1) unfolding otp_used_def by simp
qed

lemma used_otp_update:
  assumes "\<And>x. otp_id (f x) = otp_id x" "\<And>x. otp_consumed_at x \<noteq> None \<Longrightarrow> otp_consumed_at (f x) \<noteq> None"
  shows "keeps (otp_used i) (otp_update j f)"
  unfolding otp_update_def
  by (intro keeps_bindA keeps_readA keeps_throwIf keeps_modifyA keeps_used [OF otps_draws(4)] otp_used_update) (simp_all add: assms)

lemma used_otp_create: "keeps (otp_used i) (otp_create u d ch pu h t n)"
proof -
  have "otp_used i w \<longrightarrow> wp (otp_create u d ch pu h t n) w (\<lambda>_. otp_used i) (\<lambda>_. otp_used i)" for w
    by (auto simp: otp_create_def auth_id_def auth_check_def auth_uuid_def wp_def bindA_def auth_now_def otp_used_def)
  then show ?thesis by (simp add: keeps_wp)
qed

lemma used_otp_verify: "keeps (otp_used i) (otp_verify env d pu c)"
  unfolding otp_verify_def findLatestActive_def incrementAttempts_def consume_def Let_def
  by (auto intro!: keeps_bindA keeps_used [OF otps_draws(1)] used_otp_update split: option.split)

interpretation otp_use: credential_invariant env "otp_used i"
  by unfold_locales (auto intro: otp_used_otps used_otp_create used_otp_verify keeps_used otps_tokens simp: cred_def)

text \<open>What a check that succeeds has found, and that it uses the password up.\<close>

definition otp_key :: "auth_env \<Rightarrow> string \<Rightarrow> string" where
  "otp_key env d = (if CHR ''@'' \<in> set d then ae_lower env d else trim d)"

lemma wp_triv: "wp m w (\<lambda>_ _. True) (\<lambda>_ _. True)"
  by (auto simp: wp_def split: prod.split sum.split)

lemma otp_used_consume:
  assumes "find (\<lambda>x. otp_id x = i) (aw_otps w) = Some x"
  shows "otp_used i (w\<lparr>aw_otps := update_where (\<lambda>x. otp_id x = i) (\<lambda>x. x\<lparr>otp_consumed_at := Some t, otp_status := st\<rparr>) (aw_otps w)\<rparr>)"
    (is "otp_used i (w\<lparr>aw_otps := ?ys\<rparr>)")
proof -
  have "otp_id ` set ?ys = otp_id ` set (aw_otps w)"
    unfolding set_map [symmetric] by (subst map_otp_id) simp_all
  moreover have "i \<in> otp_id ` set (aw_otps w)"
    using find_filter_some [OF assms] by force
  moreover have "\<forall>x \<in> set ?ys. otp_id x = i \<longrightarrow> otp_consumed_at x \<noteq> None"
    unfolding set_update_where ball_simps by simp
  ultimately show ?thesis unfolding otp_used_def by simp
qed

lemma wp_consume: "wp (consume i) w (\<lambda>_. otp_used i) (\<lambda>_ _. True)"
  unfolding consume_def otp_update_def
  by (simp add: otp_used_consume [of i "w\<lparr>aw_reads := Suc (aw_reads w)\<rparr>", simplified] split: option.split)

lemma otp_verify_uses:
  assumes "\<And>xs. set (ae_newest_otp env xs) \<subseteq> set xs" "otp_verify env d pu code w = (Inr i, v)"
  shows "otp_used i v \<and> (\<exists>x \<in> set (aw_otps w). otp_id x = i \<and> otp_open (otp_key env d) pu (aw_clock w (aw_reads w)) x \<and> otp_attempts x < otp_max_attempts x
     \<and> otp_code_hash x = ae_sha256 env code)"
proof -
  let ?open = "filter (otp_open (otp_key env d) pu (aw_clock w (aw_reads w))) (aw_otps w)"
  let ?good = "\<lambda>i. \<exists>x \<in> set (aw_otps w). otp_id x = i \<and> otp_open (otp_key env d) pu (aw_clock w (aw_reads w)) x \<and> otp_attempts x < otp_max_attempts x
     \<and> otp_code_hash x = ae_sha256 env code"
  have good: "?good (otp_id x)" if "ae_newest_otp env ?open = x # xs" "otp_attempts x < otp_max_attempts x" "ae_sha256 env code = otp_code_hash x" for x xs
    using that assms(1) [of ?open] by (intro bexI [of _ x]) auto
  have "wp (otp_verify env d pu code) w (\<lambda>i v. otp_used i v \<and> ?good i) (\<lambda>_ _. True)"
  proof (cases "ae_newest_otp env ?open")
    case Nil
    then show ?thesis by (simp add: otp_verify_def findLatestActive_def Let_def otp_key_def [symmetric])
  next
    case (Cons x xs)
    then show ?thesis
      using good [OF Cons] wp_consume [of "otp_id x"]
      by (simp add: otp_verify_def findLatestActive_def Let_def otp_key_def [symmetric] wp_triv)
  qed
  from wp_Inr [OF this assms(2)] show ?thesis .
qed

text \<open>
  C18: A code is accepted only for a one-time password that was sent for the purpose, is not over, used or tried too
  often, and has that code; and no check accepts the same one again, after any requests.
\<close>

theorem otp_accepted_once:
  assumes "\<And>xs. set (ae_newest_otp env xs) \<subseteq> set xs" "otp_verify env d pu code w = (Inr i, v)"
  shows "(\<exists>x \<in> set (aw_otps w). otp_id x = i \<and> otp_open (otp_key env d) pu (aw_clock w (aw_reads w)) x \<and> otp_attempts x < otp_max_attempts x
      \<and> otp_code_hash x = ae_sha256 env code)
    \<and> fst (otp_verify env d' pu' code' (fold (auth_handle env) rs v)) \<noteq> Inr i"
proof -
  let ?u = "fold (auth_handle env) rs v"
  have used: "otp_used i ?u"
    using otp_verify_uses [OF assms] by (blast intro: otp_use.kept_requests)
  have "\<not> (\<exists>x \<in> set (aw_otps ?u). otp_id x = i \<and> otp_consumed_at x = None)"
    using used by (auto simp: otp_used_def)
  then have "otp_verify env d' pu' code' ?u \<noteq> (Inr i, t)" for t
    using otp_verify_uses [OF assms(1), of d' pu' code' ?u i t] by (fastforce simp: otp_open_def)
  then have "fst (otp_verify env d' pu' code' ?u) \<noteq> Inr i"
    by (metis prod.collapse)
  then show ?thesis using otp_verify_uses [OF assms] by blast
qed

text \<open>The example with a password reset code that was sent.\<close>

definition demo_forgot :: auth_world where
  "demo_forgot = demo_auth\<lparr>aw_otps := [\<lparr>otp_id = ''O1'', otp_user_id = Some ''U1'', otp_destination = ''ann@x.io'', otp_channel = ''email'',
     otp_purpose = ''reset_password'', otp_code_hash = ''#123456'', otp_attempts = 0, otp_max_attempts = 5, otp_expires_at = 601000,
     otp_consumed_at = None, otp_status = ''active'', otp_created_at = 1000, otp_deleted_at = None\<rparr>]\<rparr>"

theorem otp_accepted_once_witness:
  "fst (otp_verify demo_aenv ''Ann@x.io'' ''reset_password'' ''123456'' demo_forgot) = Inr ''O1''
   \<and> fst (otp_verify demo_aenv ''ann@x.io'' ''reset_password'' ''123456'' (fold (auth_handle demo_aenv) [Verify_Otp ''ann@x.io'' ''reset_password'' ''1'']
       (snd (otp_verify demo_aenv ''Ann@x.io'' ''reset_password'' ''123456'' demo_forgot)))) \<noteq> Inr ''O1''"
proof -
  have "fst (otp_verify demo_aenv ''Ann@x.io'' ''reset_password'' ''123456'' demo_forgot) = Inr ''O1''" by code_simp
  then show ?thesis
    using otp_accepted_once [OF demo_picks, of "''Ann@x.io''" "''reset_password''" "''123456''" demo_forgot "''O1''"] by (metis prod.collapse)
qed

text \<open>Distinct ids, and no more wrong codes tried than allowed.\<close>

definition otps_ok :: "auth_world \<Rightarrow> bool" where
  "otps_ok w \<longleftrightarrow> distinct (map otp_id (aw_otps w)) \<and> (\<forall>x \<in> set (aw_otps w). 0 \<le> otp_attempts x \<and> otp_attempts x \<le> otp_max_attempts x)"

definition picks :: "auth_env \<Rightarrow> bool" where
  "picks env \<longleftrightarrow> (\<forall>xs. set (ae_newest_otp env xs) \<subseteq> set xs)"

lemma otps_ok_otps: "aw_otps v = aw_otps w \<Longrightarrow> otps_ok w \<Longrightarrow> otps_ok v"
  by (simp add: otps_ok_def)

lemma keeps_ok: "preserves aw_otps m \<Longrightarrow> keeps otps_ok m"
  by (erule preserves_keeps) (erule otps_ok_otps)

lemma ok_otp_create: "keeps otps_ok (otp_create u d ch pu h t None)"
proof -
  have "otps_ok w \<longrightarrow> wp (otp_create u d ch pu h t None) w (\<lambda>_. otps_ok) (\<lambda>_. otps_ok)" for w
    by (auto simp: otp_create_def auth_id_def auth_check_def auth_uuid_def wp_def bindA_def auth_now_def otps_ok_def)
  then show ?thesis by (simp add: keeps_wp)
qed

lemma ok_otp_update:
  assumes "otps_ok w" "\<And>x. otp_id (f x) = otp_id x"
    and "\<And>x. x \<in> set (aw_otps w) \<Longrightarrow> otp_id x = i \<Longrightarrow> 0 \<le> otp_attempts (f x) \<and> otp_attempts (f x) \<le> otp_max_attempts (f x)"
  shows "wp (otp_update i f) w (\<lambda>_. otps_ok) (\<lambda>_. otps_ok)"
proof -
  have "otps_ok (w\<lparr>aw_otps := update_where (\<lambda>x. otp_id x = i) f (aw_otps w)\<rparr>)"
  proof -
    have "\<forall>x \<in> set (update_where (\<lambda>x. otp_id x = i) f (aw_otps w)). 0 \<le> otp_attempts x \<and> otp_attempts x \<le> otp_max_attempts x"
      unfolding set_update_where ball_simps using assms(1,3) by (simp add: otps_ok_def)
    then show ?thesis using assms(1) map_otp_id [of f, OF assms(2)] by (simp add: otps_ok_def)
  qed
  then show ?thesis unfolding otp_update_def using assms(1) by (simp split: option.split)
qed

lemma ok_otp_verify: "picks env \<Longrightarrow> keeps otps_ok (otp_verify env d pu c)"
proof -
  assume picks: "picks env"
  have "wp (otp_verify env d pu c) w (\<lambda>_. otps_ok) (\<lambda>_. otps_ok)" if ok: "otps_ok w" for w
  proof (cases "ae_newest_otp env (filter (otp_open (otp_key env d) pu (aw_clock w (aw_reads w))) (aw_otps w))")
    case Nil
    then show ?thesis using ok by (simp add: otp_verify_def findLatestActive_def Let_def otp_key_def [symmetric] otps_ok_otps [of _ w])
  next
    case (Cons x xs)
    let ?t = "w\<lparr>aw_reads := Suc (aw_reads w)\<rparr>"
    have x: "x \<in> set (aw_otps w)" using picks Cons
      unfolding picks_def by (metis filter_is_subset list.set_intros(1) subset_iff)
    have same: "y = x" if "y \<in> set (aw_otps w)" "otp_id y = otp_id x" for y
      using that x ok by (auto simp: otps_ok_def distinct_map dest: inj_onD)
    have t: "otps_ok ?t" using ok by (simp add: otps_ok_def)
    have "wp (incrementAttempts (otp_id x)) ?t (\<lambda>_. otps_ok) (\<lambda>_. otps_ok)" if "\<not> otp_max_attempts x \<le> otp_attempts x"
      unfolding incrementAttempts_def using t that ok by (intro ok_otp_update) (auto simp: otps_ok_def dest: same)
    moreover have "wp (consume (otp_id x)) ?t (\<lambda>_. otps_ok) (\<lambda>_. otps_ok)"
      unfolding consume_def wp_bindA wp_auth_now using t ok by (intro ok_otp_update) (auto simp: otps_ok_def)
    ultimately show ?thesis
      using t Cons by (simp add: otp_verify_def findLatestActive_def Let_def otp_key_def [symmetric])
  qed
  then show ?thesis by (simp add: keeps_wp)
qed

lemma keeps_imp: "(A \<Longrightarrow> keeps P m) \<Longrightarrow> keeps (\<lambda>w. A \<longrightarrow> P w) m"
  by (simp add: keeps_def)

interpretation otp_bound: credential_invariant env "\<lambda>w. picks env \<longrightarrow> otps_ok w"
  by unfold_locales (auto intro: keeps_imp keeps_ok otps_tokens ok_otp_create ok_otp_verify otps_ok_otps simp: cred_def)

text \<open>The tries the one-time password \<open>i\<close> has left, or will have when it is sent.\<close>

definition tries_left :: "string \<Rightarrow> auth_world \<Rightarrow> int" where
  "tries_left i w = (case find (\<lambda>x. otp_id x = i) (aw_otps w) of Some x \<Rightarrow> otp_max_attempts x - otp_attempts x | None \<Rightarrow> 5)"

lemma tries_left_otps: "aw_otps v = aw_otps w \<Longrightarrow> tries_left i v = tries_left i w"
  by (simp add: tries_left_def)

lemma tries_left_nonneg: "otps_ok w \<Longrightarrow> 0 \<le> tries_left i w"
  by (auto simp: tries_left_def otps_ok_def find_Some_iff split: option.split)

lemma tries_left_update:
  assumes "\<And>x. otp_id (f x) = otp_id x" "\<And>x. otp_max_attempts (f x) - otp_attempts (f x) = otp_max_attempts x - otp_attempts x - n"
    and "0 \<le> n"
  shows "tries_left i (w\<lparr>aw_otps := update_where (\<lambda>x. otp_id x = j) f (aw_otps w)\<rparr>) \<le> tries_left i w
    \<and> (find (\<lambda>x. otp_id x = i) (aw_otps w) \<noteq> None \<longrightarrow> j = i \<longrightarrow>
         tries_left i (w\<lparr>aw_otps := update_where (\<lambda>x. otp_id x = j) f (aw_otps w)\<rparr>) = tries_left i w - n)"
proof -
  have f: "find (\<lambda>x. otp_id x = i) (update_where (\<lambda>x. otp_id x = j) f (aw_otps w)) =
      map_option (\<lambda>x. if otp_id x = j then f x else x) (find (\<lambda>x. otp_id x = i) (aw_otps w))"
    by (rule find_update_where) (simp add: assms(1))
  show ?thesis
  proof (cases "find (\<lambda>x. otp_id x = i) (aw_otps w)")
    case None
    then show ?thesis using f by (simp add: tries_left_def)
  next
    case (Some x)
    then have "otp_id x = i" by (auto simp: find_Some_iff)
    with Some f assms(2) [of x] assms(3) show ?thesis by (auto simp: tries_left_def)
  qed
qed

lemma keeps_left: "preserves aw_otps m \<Longrightarrow> keeps (\<lambda>w. tries_left i w \<le> k) m"
  by (erule preserves_keeps) (simp only: tries_left_def)

lemma left_otp_update:
  assumes "\<And>x. otp_id (f x) = otp_id x" "\<And>x. otp_max_attempts (f x) - otp_attempts (f x) = otp_max_attempts x - otp_attempts x - n" "0 \<le> n"
  shows "keeps (\<lambda>w. tries_left i w \<le> k) (otp_update j f)"
proof -
  have le: "tries_left i (w\<lparr>aw_otps := update_where (\<lambda>x. otp_id x = j) f (aw_otps w)\<rparr>) \<le> tries_left i w" for w
    by (rule tries_left_update [THEN conjunct1]) (rule assms)+
  have "tries_left i w \<le> k \<Longrightarrow> wp (otp_update j f) w (\<lambda>_ v. tries_left i v \<le> k) (\<lambda>_ v. tries_left i v \<le> k)" for w
    unfolding otp_update_def using order_trans [OF le] by (simp split: option.split)
  then show ?thesis by (simp add: keeps_wp)
qed

lemma find_last_row: "find P (xs @ [y]) = (case find P xs of Some x \<Rightarrow> Some x | None \<Rightarrow> if P y then Some y else None)"
  by (induction xs) auto

lemma left_otp_create: "keeps (\<lambda>w. tries_left i w \<le> k) (otp_create u d ch pu h t None)"
proof -
  have "tries_left i w \<le> k \<longrightarrow> wp (otp_create u d ch pu h t None) w (\<lambda>_ w. tries_left i w \<le> k) (\<lambda>_ w. tries_left i w \<le> k)" for w
    by (auto simp: otp_create_def auth_id_def auth_check_def auth_uuid_def wp_def bindA_def auth_now_def tries_left_def find_last_row
        split: option.splits)
  then show ?thesis by (simp add: keeps_wp)
qed

lemma left_otp_verify: "keeps (\<lambda>w. tries_left i w \<le> k) (otp_verify env d pu c)"
proof -
  have "keeps (\<lambda>w. tries_left i w \<le> k) (consume j)" "keeps (\<lambda>w. tries_left i w \<le> k) (incrementAttempts j)" for j
    unfolding consume_def incrementAttempts_def
    by (intro keeps_bindA keeps_left [OF otps_draws(1)] left_otp_update [where n = 0]; simp)
      (rule left_otp_update [where n = 1]; simp)
  then show ?thesis
    unfolding otp_verify_def findLatestActive_def Let_def
    by (auto intro!: keeps_bindA keeps_readA keeps_throwIf keeps_throwA keeps_returnA keeps_left [OF otps_draws(1)] split: option.split)
qed

interpretation otp_left: credential_invariant env "\<lambda>w. tries_left i w \<le> k"
  by unfold_locales (auto intro: keeps_left otps_tokens left_otp_create left_otp_verify ord_eq_le_trans [OF tries_left_otps] simp: cred_def)

text \<open>
  The code a request offers, with the destination and the purpose, and the one-time password it is checked against.
\<close>

fun code_of :: "auth_request \<Rightarrow> (string \<times> string \<times> string) option" where
  "code_of (Verify_Otp d pu c) = Some (d, pu, c)"
| "code_of (Reset_Password d c new) = Some (d, ''reset_password'', c)"
| "code_of (Verify_Email d c) = Some (d, ''verify_email'', c)"
| "code_of _ = None"

definition checked_otp :: "auth_env \<Rightarrow> string \<Rightarrow> string \<Rightarrow> auth_world \<Rightarrow> string option" where
  "checked_otp env d pu w = (case ae_newest_otp env (filter (otp_open (otp_key env d) pu (aw_clock w (aw_reads w))) (aw_otps w)) of
     [] \<Rightarrow> None | x # _ \<Rightarrow> Some (otp_id x))"

abbreviation invalid_code :: exn where
  "invalid_code \<equiv> AppException ''AUTH_OTP_INVALID'' ''Invalid OTP code'' 400"

text \<open>A request that is told its code is not the one of \<open>i\<close>, and how many of a sequence are.\<close>

definition wrong_try :: "auth_env \<Rightarrow> string \<Rightarrow> auth_request \<Rightarrow> auth_world \<Rightarrow> bool" where
  "wrong_try env i r w = (case code_of r of None \<Rightarrow> False
     | Some (d, pu, c) \<Rightarrow> checked_otp env d pu w = Some i
         \<and> fst (otp_verify env d pu c w) = Inl invalid_code \<and> fst (auth_serve env r w) = Inl invalid_code)"

fun wrong_tries :: "auth_env \<Rightarrow> string \<Rightarrow> auth_request list \<Rightarrow> auth_world \<Rightarrow> nat" where
  "wrong_tries env i [] w = 0"
| "wrong_tries env i (r # rs) w = (if wrong_try env i r w then 1 else 0) + wrong_tries env i rs (auth_handle env r w)"

lemma bindA_throws: "fst (m w) = Inl e \<Longrightarrow> bindA m f w = (Inl e, snd (m w))"
  by (cases "m w") simp

lemma wrong_try_handled:
  assumes "wrong_try env i r w" "code_of r = Some (d, pu, c)"
  shows "auth_handle env r w = snd (otp_verify env d pu c w)"
proof -
  have a: "fst (otp_verify env d pu c w) = Inl invalid_code" "fst (auth_serve env r w) = Inl invalid_code"
    using assms by (simp_all add: wrong_try_def)
  show ?thesis
  proof (cases r)
    case (Reset_Password d' c' new)
    then show ?thesis using a assms(2)
      by (cases "isStrongPassword new") (auto simp: auth_handle_def resetPassword_def bindA_throws)
  next
    case (Verify_Email d' c')
    then show ?thesis using a assms(2)
      by (cases "findByEmail env d w") (auto simp: auth_handle_def verifyEmail_def throwIf_def bindA_throws split: if_splits)
  next
    case (Verify_Otp d' pu' c')
    then show ?thesis using a(1) assms(2)
      by (simp add: auth_handle_def ignoreA_def verifyOtp_def bindA_throws)
  qed (use assms(2) in simp_all)
qed

lemma wrong_check_pays:
  assumes "picks env" "checked_otp env d pu w = Some i" "fst (otp_verify env d pu c w) = Inl invalid_code"
  shows "tries_left i (snd (otp_verify env d pu c w)) = tries_left i w - 1"
proof -
  let ?open = "filter (otp_open (otp_key env d) pu (aw_clock w (aw_reads w))) (aw_otps w)"
  obtain x xs where x: "ae_newest_otp env ?open = x # xs" "otp_id x = i"
    using assms(2) by (auto simp: checked_otp_def split: list.splits)
  then have "x \<in> set (aw_otps w)"
    using assms(1) unfolding picks_def by (metis filter_is_subset list.set_intros(1) subset_iff)
  then have there: "find (\<lambda>x. otp_id x = i) (aw_otps w) \<noteq> None"
    using x(2) by (auto simp: find_None_iff)
  let ?t = "w\<lparr>aw_reads := Suc (aw_reads w)\<rparr>"
  have "wp (incrementAttempts i) ?t (\<lambda>_ v. tries_left i v = tries_left i w - 1) (\<lambda>e _. e \<noteq> invalid_code)"
    using tries_left_update [where f = "\<lambda>x. x\<lparr>otp_attempts := otp_attempts x + 1\<rparr>" and n = 1 and i = i and j = i and w = ?t] there
    by (auto simp: incrementAttempts_def otp_update_def prisma_error_def tries_left_otps [of ?t w] row_or_throw_def split: option.splits)
  moreover have "wp (consume i) ?t (\<lambda>_ _. True) (\<lambda>e _. e \<noteq> invalid_code)"
    by (auto simp: consume_def otp_update_def prisma_error_def row_or_throw_def split: option.splits)
  ultimately have "wp (otp_verify env d pu c) w (\<lambda>_ _. True) (\<lambda>e v. e = invalid_code \<longrightarrow> tries_left i v = tries_left i w - 1)"
    using x by (auto simp: otp_verify_def findLatestActive_def Let_def otp_key_def [symmetric] elim: wp_mono)
  from wp_Inl [OF this] assms(3) show ?thesis by (metis prod.collapse)
qed

lemma wrong_tries_paid:
  assumes "picks env"
  shows "int (wrong_tries env i rs w) \<le> tries_left i w - tries_left i (fold (auth_handle env) rs w)"
proof (induction rs arbitrary: w)
  case (Cons r rs)
  have "tries_left i (auth_handle env r w) = tries_left i w - 1" if wrong: "wrong_try env i r w"
  proof -
    obtain d pu c where c: "code_of r = Some (d, pu, c)" using wrong by (cases "code_of r") (auto simp: wrong_try_def)
    then show ?thesis
      using wrong_try_handled [OF wrong c] wrong_check_pays [OF assms, of d pu w i c] wrong by (simp add: wrong_try_def)
  qed
  moreover have "tries_left i (auth_handle env r w) \<le> tries_left i w"
    by (rule otp_left.kept_handle) simp
  ultimately show ?case using Cons.IH [of "auth_handle env r w"] by auto
qed simp

text \<open>
  C19: Over any sequence of requests, the number of them that are told that their code is not the one of a one-time
  password is at most the tries that password had left: its limit less its counter when it had been sent already, five
  when it is sent on the way. The counters stay within their limits. What the query for the newest password gives is
  among the rows it is asked about; ids are distinct and counters within their limits at the start.
\<close>

theorem wrong_codes_bounded:
  assumes "\<And>xs. set (ae_newest_otp env xs) \<subseteq> set xs" "distinct (map otp_id (aw_otps w))"
    and "\<And>x. x \<in> set (aw_otps w) \<Longrightarrow> 0 \<le> otp_attempts x \<and> otp_attempts x \<le> otp_max_attempts x"
  shows "(x \<in> set (aw_otps w) \<and> otp_id x = i \<longrightarrow> otp_attempts x + int (wrong_tries env i rs w) \<le> otp_max_attempts x)
    \<and> (i \<notin> otp_id ` set (aw_otps w) \<longrightarrow> wrong_tries env i rs w \<le> 5)
    \<and> (y \<in> set (aw_otps (fold (auth_handle env) rs w)) \<longrightarrow> 0 \<le> otp_attempts y \<and> otp_attempts y \<le> otp_max_attempts y)"
proof -
  have picks: "picks env" using assms(1) by (simp add: picks_def)
  have ok: "otps_ok (fold (auth_handle env) rs w)"
    using otp_bound.kept_requests [of env w rs] picks assms(2,3) by (auto simp: otps_ok_def)
  have le: "int (wrong_tries env i rs w) \<le> tries_left i w"
    using wrong_tries_paid [OF picks, of i rs w] tries_left_nonneg [OF ok, of i] by simp
  have "distinct (map otp_id xs) \<Longrightarrow> x \<in> set xs \<Longrightarrow> otp_id x = i \<Longrightarrow> find (\<lambda>z. otp_id z = i) xs = Some x" for xs
    by (induction xs) auto
  note found = this [OF assms(2)]
  have "i \<notin> otp_id ` set (aw_otps w) \<Longrightarrow> find (\<lambda>z. otp_id z = i) (aw_otps w) = None"
    by (auto simp: find_None_iff)
  with le found ok show ?thesis by (auto simp: tries_left_def otps_ok_def)
qed

text \<open>Seven wrong codes for a password that was sent: five of them are tried on it.\<close>

definition wrong_codes :: "auth_request list" where
  "wrong_codes = [Verify_Otp ''ann@x.io'' ''reset_password'' ''1'', Reset_Password ''ann@x.io'' ''2'' ''New-pass-2'',
     Verify_Otp ''ann@x.io'' ''reset_password'' ''3'', Verify_Otp ''ann@x.io'' ''reset_password'' ''4'', Verify_Otp ''ann@x.io'' ''reset_password'' ''5'',
     Verify_Otp ''ann@x.io'' ''reset_password'' ''6'', Verify_Otp ''ann@x.io'' ''reset_password'' ''7'']"

theorem wrong_codes_bounded_witness:
  "int (wrong_tries demo_aenv ''O1'' wrong_codes demo_forgot) \<le> 5 \<and> wrong_tries demo_aenv ''O1'' wrong_codes demo_forgot = 5"
proof -
  have count: "wrong_tries demo_aenv ''O1'' wrong_codes demo_forgot = 5" by code_simp
  have "int (wrong_tries demo_aenv ''O1'' wrong_codes demo_forgot) \<le> 5"
    using wrong_codes_bounded [OF demo_picks, of demo_forgot "hd (aw_otps demo_forgot)" "''O1''" wrong_codes] by (simp add: demo_forgot_def)
  from this count show ?thesis by (rule conjI)
qed

end
