(* ===== verification/Auth_Accounts.thy ===== *)
theory Auth_Accounts
  imports Auth_Contract
begin

text \<open>
  Accounts: wrong passwords lock an account, a verified address opens one whatever its status, and a Firebase identity
  gets the account with its address.
\<close>

section \<open>Updates of a user\<close>

text \<open>The unique indexes and the check of the table.\<close>

definition users_ok :: "auth_env \<Rightarrow> auth_world \<Rightarrow> bool" where
  "users_ok env w \<longleftrightarrow> list_all (\<lambda>u. usr_email u \<noteq> None \<or> usr_mobile u \<noteq> None) (aw_users w)
     \<and> list_all (\<lambda>u. usr_deleted_at u = None \<longrightarrow> user_unique env u w) (aw_users w) \<and> distinct (map usr_id (aw_users w))"

text \<open>An update that leaves the columns of these, and a world after it.\<close>

definition same_keys :: "user_row \<Rightarrow> user_row \<Rightarrow> bool" where
  "same_keys x y \<longleftrightarrow> usr_id y = usr_id x \<and> usr_email y = usr_email x \<and> usr_mobile y = usr_mobile x \<and> usr_deleted_at y = usr_deleted_at x"

definition set_user :: "string \<Rightarrow> (user_row \<Rightarrow> user_row) \<Rightarrow> auth_world \<Rightarrow> auth_world" where
  "set_user i f w = w\<lparr>aw_users := update_where (\<lambda>u. usr_id u = i) f (aw_users w)\<rparr>"

lemma list_update_where:
  assumes "\<And>x. P (f x) = P x"
  shows "list_ex P (update_where p f xs) = list_ex P xs" "list_all P (update_where p f xs) = list_all P xs"
  unfolding update_where_def by (induction xs) (auto simp: assms)

lemma user_unique_set: "(\<And>x. same_keys x (f x)) \<Longrightarrow> user_unique env u (set_user i f w) = user_unique env u w"
  unfolding user_unique_def set_user_def by (simp add: list_update_where same_keys_def same_email_def)

lemma user_unique_keys: "same_keys u v \<Longrightarrow> user_unique env v w = user_unique env u w"
  by (simp add: user_unique_def same_keys_def)

lemma users_ok_set:
  assumes "\<And>x. same_keys x (f x)" "users_ok env w"
  shows "users_ok env (set_user i f w)"
proof -
  have "map usr_id (aw_users (set_user i f w)) = map usr_id (aw_users w)"
    using assms(1) by (simp add: set_user_def update_where_def same_keys_def)
  moreover have "list_all P (aw_users (set_user i f w)) = list_all P (aw_users w)" if "\<And>x. P (f x) = P x" for P
    using that by (simp add: set_user_def list_update_where)
  ultimately show ?thesis
    using assms(2) assms(1) [unfolded same_keys_def] unfolding users_ok_def by (simp add: user_unique_set [OF assms(1)] user_unique_keys [OF assms(1)])
qed

lemma findByIdentifier_set:
  assumes "\<And>x. same_keys x (f x)" "findByIdentifier env d w = Some u"
  shows "findByIdentifier env d (set_user (usr_id u) f w) = Some (f u)"
  using assms by (auto simp: findByIdentifier_def findByEmail_def findByMobile_def set_user_def Let_def same_keys_def same_email_def find_update_where split: if_split_asm)

lemma findByIdentifier_live:
  assumes "findByIdentifier env d w = Some u"
  shows "u \<in> set (aw_users w)" "usr_deleted_at u = None"
  using assms by (auto simp: findByIdentifier_def findByEmail_def findByMobile_def Let_def dest!: find_filter_some split: if_split_asm)

lemma user_find_by_id:
  assumes "users_ok env w" "u \<in> set (aw_users w)"
  shows "find (\<lambda>x. usr_id x = usr_id u) (aw_users w) = Some u"
proof -
  have "find (\<lambda>x. usr_id x = usr_id u) xs = Some u" if "distinct (map usr_id xs)" "u \<in> set xs" for xs
    using that by (induction xs) (auto simp: image_iff)
  then show ?thesis using assms by (simp add: users_ok_def)
qed

lemma user_update_ok:
  assumes "users_ok env w" "u \<in> set (aw_users w)" "usr_deleted_at u = None" "\<And>x. same_keys x (f x)" "int4 (usr_failed_login_count (f u))"
  shows "user_update env (usr_id u) f w = (Inr (f u), set_user (usr_id u) f w)"
proof -
  have "usr_email u \<noteq> None \<or> usr_mobile u \<noteq> None" "user_unique env u w"
    using assms(1-3) by (auto simp: users_ok_def list_all_iff)
  moreover have "usr_email (f u) = usr_email u" "usr_mobile (f u) = usr_mobile u" "user_unique env (f u) w = user_unique env u w"
    using assms(4) [of u] user_unique_keys [of u "f u"] by (simp_all add: same_keys_def)
  ultimately show ?thesis
    using assms(5) user_find_by_id [OF assms(1,2)] by (auto simp: user_update_def bindA_def row_or_throw_def auth_check_def set_user_def)
qed

section \<open>Wrong passwords\<close>

text \<open>The password does not match what is stored, if anything is.\<close>

definition wrong_password :: "auth_env \<Rightarrow> user_row \<Rightarrow> string \<Rightarrow> bool" where
  "wrong_password env u p \<longleftrightarrow> \<not> truthy_str (usr_password_hash u) \<or> ae_argonVerify env (the (usr_password_hash u)) p \<noteq> Inr True"

definition closed_status :: "user_row \<Rightarrow> bool" where
  "closed_status u \<longleftrightarrow> usr_status u \<in> {''inactive'', ''suspended'', ''archived''}"

definition count_failure :: "user_row \<Rightarrow> user_row" where
  "count_failure u = u\<lparr>usr_failed_login_count := usr_failed_login_count u + 1\<rparr>"

definition lock_until :: "int \<Rightarrow> user_row \<Rightarrow> user_row" where
  "lock_until t u = u\<lparr>usr_locked_until := Some t\<rparr>"

definition note_attempt :: "user_row \<Rightarrow> string \<Rightarrow> request_meta \<Rightarrow> auth_world \<Rightarrow> auth_world" where
  "note_attempt u ident meta w = w\<lparr>aw_attempts := aw_attempts w @ [\<lparr>lat_user_id = Some (usr_id u), lat_identifier = ident, lat_ip_address = rqm_ipAddress meta,
     lat_user_agent = rqm_userAgent meta, lat_success = False, lat_failure_reason = Some ''invalid_password''\<rparr>]\<rparr>"

lemma same_keys_simps [simp]: "same_keys x (count_failure x)" "same_keys x (lock_until t x)"
  by (simp_all add: same_keys_def count_failure_def lock_until_def)

lemma note_attempt_simps [simp]: "aw_users (note_attempt u s meta w) = aw_users w" "aw_clock (note_attempt u s meta w) = aw_clock w"
  "aw_reads (note_attempt u s meta w) = aw_reads w" "user_unique env v (note_attempt u s meta w) = user_unique env v w"
  "users_ok env (note_attempt u s meta w) = users_ok env w"
  by (simp_all add: note_attempt_def user_unique_def users_ok_def)

lemma set_user_simps [simp]: "aw_clock (set_user i f w) = aw_clock w" "aw_reads (set_user i f w) = aw_reads w"
  by (simp_all add: set_user_def)

text \<open>What a wrong password does, below the limit and at it.\<close>

lemma wrong_login_starts:
  assumes "findByIdentifier env ident w = Some u" "usr_locked_until u = None" "\<not> closed_status u" "wrong_password env u p"
    and "handleFailedLogin env u ident meta ''invalid_password'' w = (Inr (), v)"
  shows "login env ident p meta w = (Inl (AppException ''AUTH_INVALID_CREDENTIALS'' ''Invalid credentials'' 401), v)"
proof -
  have "password_verify env (the (usr_password_hash u)) p w = (Inr False, w)" if "truthy_str (usr_password_hash u)"
    using assms(4) that by (auto simp: wrong_password_def password_verify_def catchA_def split: sum.split)
  moreover have "assertAccountAccessible u w = (Inr (), w)"
    using assms(2,3) by (simp add: assertAccountAccessible_def closed_status_def bindA_def)
  ultimately show ?thesis
    using assms(1,5) by (cases "truthy_str (usr_password_hash u)") (simp_all add: login_def bindA_Inr [of _ w False w])
qed

lemma attempt_noted:
  "u \<in> set (aw_users w) \<Longrightarrow> attempt_create (Some (usr_id u)) ident meta False (Some ''invalid_password'') w = (Inr (), note_attempt u ident meta w)"
  by (simp add: attempt_create_def auth_check_def bindA_def fk_ok_def user_ids_def note_attempt_def)

lemma failure_updates: "incrementFailedLogin env i = user_update env i count_failure" "lockUntil env i t = user_update env i (lock_until t)"
  by (simp_all add: incrementFailedLogin_def lockUntil_def count_failure_def [abs_def] lock_until_def [abs_def])

lemma handleFailedLogin_counts:
  assumes "users_ok env w" "u \<in> set (aw_users w)" "usr_deleted_at u = None" "0 \<le> usr_failed_login_count u" "usr_failed_login_count u + 1 < MAX_FAILED_LOGINS"
  shows "handleFailedLogin env u ident meta ''invalid_password'' w = (Inr (), set_user (usr_id u) count_failure (note_attempt u ident meta w))"
proof -
  have "user_update env (usr_id u) count_failure (note_attempt u ident meta w)
      = (Inr (count_failure u), set_user (usr_id u) count_failure (note_attempt u ident meta w))"
    using assms by (intro user_update_ok) (auto simp: count_failure_def same_keys_def int4_def MAX_FAILED_LOGINS_def)
  then show ?thesis
    using assms(2,5) by (simp add: handleFailedLogin_def attempt_noted failure_updates) (simp add: count_failure_def)
qed


lemma handleFailedLogin_locks:
  assumes "users_ok env w" "u \<in> set (aw_users w)" "usr_deleted_at u = None" "usr_failed_login_count u + 1 = MAX_FAILED_LOGINS"
  shows "handleFailedLogin env u ident meta ''invalid_password'' w = (Inr (), set_user (usr_id u) (lock_until (addMinutes (aw_clock w (aw_reads w)) LOCKOUT_MINUTES))
     (set_user (usr_id u) count_failure (note_attempt u ident meta w)\<lparr>aw_reads := Suc (aw_reads w)\<rparr>))"
proof -
  let ?w1 = "set_user (usr_id u) count_failure (note_attempt u ident meta w)" and ?t = "addMinutes (aw_clock w (aw_reads w)) LOCKOUT_MINUTES"
  have ok: "users_ok env ?w1" using assms(1) by (simp add: users_ok_set)
  have "user_update env (usr_id u) count_failure (note_attempt u ident meta w) = (Inr (count_failure u), ?w1)"
    using assms by (intro user_update_ok) (auto simp: count_failure_def same_keys_def int4_def MAX_FAILED_LOGINS_def)
  moreover have "user_update env (usr_id (count_failure u)) (lock_until ?t) (?w1\<lparr>aw_reads := Suc (aw_reads w)\<rparr>)
      = (Inr (lock_until ?t (count_failure u)), set_user (usr_id (count_failure u)) (lock_until ?t) (?w1\<lparr>aw_reads := Suc (aw_reads w)\<rparr>))"
  proof (rule user_update_ok)
    show "users_ok env (?w1\<lparr>aw_reads := Suc (aw_reads w)\<rparr>)" using ok by (simp add: users_ok_def user_unique_def)
    show "count_failure u \<in> set (aw_users (?w1\<lparr>aw_reads := Suc (aw_reads w)\<rparr>))"
      using assms(2) by (force simp: set_user_def set_update_where)
  qed (use assms(3,4) in \<open>simp_all add: count_failure_def lock_until_def same_keys_def int4_def MAX_FAILED_LOGINS_def\<close>)
  ultimately show ?thesis
    using assms(2,4) by (simp add: handleFailedLogin_def attempt_noted failure_updates auth_now_def) (simp add: count_failure_def)
qed

lemma failure_keeps [simp]: "usr_id (count_failure u) = usr_id u" "usr_locked_until (count_failure u) = usr_locked_until u" "closed_status (count_failure u) = closed_status u"
  "wrong_password env (count_failure u) p = wrong_password env u p" "usr_failed_login_count (count_failure u) = usr_failed_login_count u + 1"
  by (simp_all add: count_failure_def closed_status_def wrong_password_def)

lemma find_noted [simp]: "findByIdentifier env d (note_attempt u s meta w) = findByIdentifier env d w"
  by (rule findByIdentifier_users) simp

text \<open>Wrong passwords up to the limit: the last one reads the clock, for the lock.\<close>

lemma wrong_logins_lock:
  assumes "users_ok env w" "findByIdentifier env ident w = Some u" "usr_locked_until u = None" "\<not> closed_status u" "list_all (wrong_password env u) ps"
    and "0 \<le> usr_failed_login_count u" "ps \<noteq> []" "usr_failed_login_count u + int (length ps) = MAX_FAILED_LOGINS"
  shows "\<exists>u'. let v = fold (auth_handle env) (map (\<lambda>p. Login ident p meta) ps) w in findByIdentifier env ident v = Some u'
     \<and> usr_locked_until u' = Some (addMinutes (aw_clock w (aw_reads w)) LOCKOUT_MINUTES) \<and> aw_clock v = aw_clock w \<and> aw_reads v = Suc (aw_reads w)"
  using assms
proof (induction ps arbitrary: w u)
  case (Cons p ps)
  note live = findByIdentifier_live [OF Cons.prems(2)]
  have bad: "wrong_password env u p" using Cons.prems(5) by simp
  have handled: "auth_handle env (Login ident p meta) w = v" if "handleFailedLogin env u ident meta ''invalid_password'' w = (Inr (), v)" for v
    using wrong_login_starts [OF Cons.prems(2-4) bad that] by (simp add: auth_handle_def ignoreA_def)
  show ?case
  proof (cases "ps = []")
    case True
    let ?f = "lock_until (addMinutes (aw_clock w (aw_reads w)) LOCKOUT_MINUTES)"
    let ?w1 = "set_user (usr_id u) count_failure (note_attempt u ident meta w)\<lparr>aw_reads := Suc (aw_reads w)\<rparr>"
    have "findByIdentifier env ident ?w1 = Some (count_failure u)"
      using findByIdentifier_set [of count_failure env ident "note_attempt u ident meta w" u] Cons.prems(2) findByIdentifier_users [of ?w1] by simp
    from findByIdentifier_set [OF _ this, of ?f]
    have "findByIdentifier env ident (set_user (usr_id u) ?f ?w1) = Some (?f (count_failure u))" by simp
    then show ?thesis
      using True handled [OF handleFailedLogin_locks [OF Cons.prems(1) live]] Cons.prems(8) by (simp add: Let_def lock_until_def)
  next
    case False
    let ?v = "set_user (usr_id u) count_failure (note_attempt u ident meta w)"
    have "auth_handle env (Login ident p meta) w = ?v"
      using handled [OF handleFailedLogin_counts [OF Cons.prems(1) live]] Cons.prems(6,8) False by (cases ps) simp_all
    moreover have "users_ok env ?v" using Cons.prems(1) by (simp add: users_ok_set)
    moreover have "findByIdentifier env ident ?v = Some (count_failure u)"
      using findByIdentifier_set [of count_failure env ident "note_attempt u ident meta w" u] Cons.prems(2) by simp
    ultimately show ?thesis
      using Cons.IH [of ?v "count_failure u"] Cons.prems False by (simp add: Let_def list_all_iff)
  qed
qed simp

text \<open>
  C20: Five wrong passwords lock an account: when the failed logins since the last success reach the limit, the next login
  is refused as locked, whatever its password, when the clock is then less than thirty minutes ahead.
\<close>

theorem wrong_passwords_lock:
  assumes "users_ok env w" "findByIdentifier env ident w = Some u" "usr_locked_until u = None" "\<not> closed_status u" "list_all (wrong_password env u) ps"
    and "0 \<le> usr_failed_login_count u" "ps \<noteq> []" "usr_failed_login_count u + int (length ps) = 5"
    and "aw_clock w (Suc (aw_reads w)) < aw_clock w (aw_reads w) + 30 * 60 * 1000"
  shows "fst (login env ident password meta' (fold (auth_handle env) (map (\<lambda>p. Login ident p meta) ps) w))
     = Inl (AppException ''AUTH_ACCOUNT_LOCKED'' ''Account is temporarily locked'' 403)"
proof -
  let ?v = "fold (auth_handle env) (map (\<lambda>p. Login ident p meta) ps) w"
  obtain u' where "findByIdentifier env ident ?v = Some u'" "usr_locked_until u' = Some (addMinutes (aw_clock w (aw_reads w)) LOCKOUT_MINUTES)"
      "aw_clock ?v = aw_clock w" "aw_reads ?v = Suc (aw_reads w)"
    using wrong_logins_lock [OF assms(1-7)] assms(8) by (auto simp: MAX_FAILED_LOGINS_def Let_def)
  then show ?thesis
    using assms(9) by (simp add: login_def assertAccountAccessible_def bindA_def auth_now_def addMinutes_def LOCKOUT_MINUTES_def)
qed

theorem wrong_passwords_lock_witness:
  "fst (login demo_aenv ''ann@x.io'' ''Ann-pass-1'' no_meta (fold (auth_handle demo_aenv) (map (\<lambda>p. Login ''ann@x.io'' p no_meta) [''a'', ''b'', ''c'', ''d'', ''e'']) demo_auth))
     = Inl (AppException ''AUTH_ACCOUNT_LOCKED'' ''Account is temporarily locked'' 403)"
proof (rule wrong_passwords_lock)
  show "users_ok demo_aenv demo_auth" by code_simp
  show "findByIdentifier demo_aenv ''ann@x.io'' demo_auth = Some demo_user" by code_simp
  show "usr_locked_until demo_user = None" "\<not> closed_status demo_user" "list_all (wrong_password demo_aenv demo_user) [''a'', ''b'', ''c'', ''d'', ''e'']"
    by code_simp+
qed (simp_all add: demo_user_def demo_auth_def new_user_def)

section \<open>Verified addresses\<close>

lemma wp_user_update: "wp (user_update env i f) w (\<lambda>x v. v = set_user i f w \<and> (\<exists>u \<in> set (aw_users w). usr_id u = i \<and> x = f u)) (\<lambda>_ _. True)"
  unfolding user_update_def auth_check_def
  by (auto simp: set_user_def dest!: find_filter_some split: option.split)

lemma findByEmail_users: "aw_users v = aw_users w \<Longrightarrow> findByEmail env e v = findByEmail env e w"
  by (simp add: findByEmail_def)

lemma findByEmail_set:
  assumes "\<And>x. same_keys x (f x)" "findByEmail env e w = Some u"
  shows "findByEmail env e (set_user (usr_id u) f w) = Some (f u)"
  using assms by (simp add: findByEmail_def set_user_def same_keys_def same_email_def find_update_where)

text \<open>
  C35: A verified address opens the account whatever its status: after \<open>verifyEmail\<close>, an account that was suspended,
  inactive or archived is active, and is not refused any more unless it is locked.
\<close>

theorem verification_opens_account:
  assumes "verifyEmail env email code w = (Inr (), v)" "findByEmail env email w = Some u"
  shows "\<exists>t. findByEmail env email v = Some (u\<lparr>usr_email_verified_at := Some t, usr_status := ''active''\<rparr>)
    \<and> (usr_locked_until u = None \<longrightarrow> assertAccountAccessible (u\<lparr>usr_email_verified_at := Some t, usr_status := ''active''\<rparr>) v = (Inr (), v))"
proof -
  let ?f = "\<lambda>t u. u\<lparr>usr_email_verified_at := Some t, usr_status := ''active''\<rparr>"
  let ?Q = "\<lambda>v. \<exists>t. findByEmail env email v = Some (?f t u)"
  have set: "?Q (set_user (usr_id u) (?f t) s)" if "aw_users s = aw_users w" for t s
    using findByEmail_set [of "?f t" env email s u] findByEmail_users [OF that] assms(2) by (auto simp: same_keys_def)
  have tail: "wp (audit a i m nv) s (\<lambda>_. ?Q) (\<lambda>_ _. True)" if "?Q s" for a i m nv s
    using that by (simp add: audit_def auth_check_def findByEmail_def)
  have events: "findByEmail env email (s\<lparr>aw_events := evs\<rparr>) = findByEmail env email s" for s evs
    by (simp add: findByEmail_def)
  have "wp (verifyEmail env email code) w (\<lambda>_. ?Q) (\<lambda>_ _. True)"
    by (auto simp: verifyEmail_def assms(2) events intro!: preserves_wpI [OF users_otp_verify] wp_mono [OF wp_user_update] tail set)
  from wp_Inr [OF this assms(1)] show ?thesis
    by (auto simp: assertAccountAccessible_def bindA_def)
qed

text \<open>The example with a suspended account, to whose address a code was sent.\<close>

definition demo_suspended :: auth_world where
  "demo_suspended = demo_auth\<lparr>aw_users := [demo_user\<lparr>usr_status := ''suspended''\<rparr>], aw_otps := [\<lparr>otp_id = ''O1'', otp_user_id = Some ''U1'',
     otp_destination = ''ann@x.io'', otp_channel = ''email'', otp_purpose = ''verify_email'', otp_code_hash = ''#123456'', otp_attempts = 0,
     otp_max_attempts = 5, otp_expires_at = 601000, otp_consumed_at = None, otp_status = ''active'', otp_created_at = 1000, otp_deleted_at = None\<rparr>]\<rparr>"

theorem verification_opens_account_witness:
  "findByEmail demo_aenv ''ann@x.io'' demo_suspended = Some (demo_user\<lparr>usr_status := ''suspended''\<rparr>)
   \<and> (\<exists>u. findByEmail demo_aenv ''ann@x.io'' (snd (verifyEmail demo_aenv ''ann@x.io'' ''123456'' demo_suspended)) = Some u \<and> usr_status u = ''active'')"
proof -
  have ok: "\<not> isl (fst (verifyEmail demo_aenv ''ann@x.io'' ''123456'' demo_suspended))" by code_simp
  have found: "findByEmail demo_aenv ''ann@x.io'' demo_suspended = Some (demo_user\<lparr>usr_status := ''suspended''\<rparr>)" by code_simp
  from not_isl_Inr [of "verifyEmail demo_aenv ''ann@x.io'' ''123456''", OF ok] verification_opens_account [OF _ found] found
  show ?thesis by fastforce
qed

section \<open>Firebase identities\<close>

lemma oauth_draws: "preserves aw_oauth auth_now" "preserves aw_oauth auth_uuid" "preserves aw_oauth randomToken"
  by (simp_all add: preserves_def auth_now_def auth_uuid_def randomToken_def)

lemma oauth_checks: "preserves aw_oauth (auth_check c p)" "preserves aw_oauth (auth_id ids)" "preserves aw_oauth (row_or_throw r :: 'r auth_act)"
  unfolding auth_check_def auth_id_def row_or_throw_def by (auto intro!: cred_steps oauth_draws split: option.split)

lemma oauth_services: "preserves aw_oauth (attempt_create u s meta b r)" "preserves aw_oauth (audit a i meta nv)" "preserves aw_oauth (resetFailedLogin env i)"
  "preserves aw_oauth (signAccessToken p)" "preserves aw_oauth (auth_publish e)" "preserves aw_oauth (token_create holder h f ua ip t)"
  unfolding attempt_create_def audit_def resetFailedLogin_def user_update_def signAccessToken_def auth_publish_def token_create_def
  by (auto intro!: cred_steps oauth_checks)

lemma oauth_response: "preserves aw_oauth (issueAuthResponse env u meta)"
  unfolding issueAuthResponse_def createAuthResponse_def createSession_def session_create_def createRefreshPair_def Let_def
  by (auto intro!: cred_steps oauth_draws oauth_checks oauth_services split: prod.split)

text \<open>What a login hands out is the account's.\<close>

definition has_token :: "string \<Rightarrow> string \<Rightarrow> auth_world \<Rightarrow> bool" where
  "has_token i h w \<longleftrightarrow> (\<exists>x \<in> set (aw_tokens w). tok_user_id x = i \<and> tok_hash x = h \<and> tok_status x = ''active'')"

lemma has_token_cred: "cred v = cred w \<Longrightarrow> has_token i h w \<Longrightarrow> has_token i h v"
  by (simp add: has_token_def cred_def)

lemma wp_auth_uuid [simp]: "wp auth_uuid w Q E = Q (aw_uuid w (aw_uuids w)) (w\<lparr>aw_uuids := Suc (aw_uuids w)\<rparr>)"
  by (simp add: wp_def auth_uuid_def)

lemma wp_token_created: "wp (token_create i h f ua ip t) w (\<lambda>_. has_token i h) (\<lambda>_ _. True)"
  unfolding token_create_def auth_id_def auth_check_def by (simp add: has_token_def)

lemma wp_signed: "has_token i h w \<Longrightarrow> wp (signAccessToken p) w (\<lambda>_. has_token i h) (\<lambda>_ _. True)"
  by (rule preserves_wpI [OF cred_crypto(3)]) (simp_all add: has_token_cred)

lemma wp_pair: "wp (createRefreshPair env u meta s f) w (\<lambda>p. has_token (usr_id u) (ae_sha256 env (tp_refreshToken p))) (\<lambda>_ _. True)"
  unfolding createRefreshPair_def
  by (intro wp_anything [where m = "case_option _ _ f"] wp_anything [where m = randomToken] wp_anything [where m = auth_now] wp_bind_readI
      wp_bindI [OF wp_token_created] wp_bindI [OF wp_signed]) simp_all

lemma wp_issue:
  "wp (issueAuthResponse env u meta) w (\<lambda>r v. pu_id (lr_user r) = usr_id u \<and> has_token (usr_id u) (ae_sha256 env (tp_refreshToken (lr_tokens r))) v) (\<lambda>_ _. True)"
proof -
  have events: "has_token i h (s\<lparr>aw_events := ev\<rparr>) = has_token i h s" for i h s ev by (simp add: has_token_def)
  have "wp (createAuthResponse env u meta) w (\<lambda>(r, _) v. pu_id (lr_user r) = usr_id u \<and> has_token (usr_id u) (ae_sha256 env (tp_refreshToken (lr_tokens r))) v) (\<lambda>_ _. True)"
    unfolding createAuthResponse_def
    by (intro wp_anything [where m = "createSession _ _ _"] wp_bindI [OF wp_pair] wp_bind_readI) (simp_all add: toPublicUser_def)
  then show ?thesis unfolding issueAuthResponse_def
    by (rule wp_bindI) (auto simp: events)
qed

definition linked :: "string \<Rightarrow> string \<Rightarrow> string \<Rightarrow> auth_world \<Rightarrow> bool" where
  "linked provider uid i w \<longleftrightarrow> (\<exists>x \<in> set (aw_oauth w). oau_provider x = provider \<and> oau_provider_user_id x = uid \<and> oau_user_id x = i \<and> oau_deleted_at x = None)"

lemma linked_oauth: "aw_oauth v = aw_oauth w \<Longrightarrow> linked p uid i w \<Longrightarrow> linked p uid i v"
  by (simp add: linked_def)

lemma wp_upsertOauth: "wp (upsertOauth env i p uid e) w (\<lambda>_. linked p uid i) (\<lambda>_ _. True)"
proof -
  let ?same = "\<lambda>x. oau_provider x = p \<and> oau_provider_user_id x = uid \<and> oau_deleted_at x = None"
  have "\<exists>x \<in> set (update_where ?same (\<lambda>x. x\<lparr>oau_user_id := i, oau_email := m\<rparr>) xs). ?same x \<and> oau_user_id x = i" if "list_ex ?same xs" for m xs
    using that by (induction xs) (auto simp: update_where_def)
  then show ?thesis unfolding upsertOauth_def auth_check_def Let_def by (fastforce simp: linked_def)
qed

lemma wp_bind_InrI: "wp (f x) s Q E \<Longrightarrow> wp (bindA (ofSum (Inr x)) f) s Q E"
  by simp

lemma wp_firebase_update: "wp (firebase_update env idn u meta) w (\<lambda>x _. usr_id x = usr_id u) (\<lambda>_ _. True)"
  unfolding firebase_update_def by (rule wp_anything)+ (rule wp_mono [OF wp_user_update], auto)

text \<open>
  C36: A Firebase identity gets the account with its address, verified or not: the login hands out a token of that
  account and links the identity to it.
\<close>

theorem unverified_identity_takes_account:
  assumes "ae_firebase env tok = Inr idn" "idn_email idn = Some e" "e \<noteq> []" "\<not> idn_emailVerified idn" "idn_signInProvider idn \<noteq> ''phone''"
    and "findByOauth (mapFirebaseProvider (idn_signInProvider idn)) (idn_uid idn) w = None" "findByEmail env e w = Some u"
    and "loginWithFirebase env tok meta w = (Inr r, v)"
  shows "pu_id (lr_user r) = usr_id u \<and> has_token (usr_id u) (ae_sha256 env (tp_refreshToken (lr_tokens r))) v
    \<and> linked (mapFirebaseProvider (idn_signInProvider idn)) (idn_uid idn) (usr_id u) v"
proof -
  let ?p = "mapFirebaseProvider (idn_signInProvider idn)"
  let ?Q = "\<lambda>r v. pu_id (lr_user r) = usr_id u \<and> has_token (usr_id u) (ae_sha256 env (tp_refreshToken (lr_tokens r))) v \<and> linked ?p (idn_uid idn) (usr_id u) v"
  have found: "firebase_find env ?p idn w = Some u" and p: "?p = ''google'' \<or> ?p = ''apple''"
    using assms(2,3,5-7) by (simp_all add: firebase_find_def firebase_by_contact_def mapFirebaseProvider_def)
  have issue: "wp (issueAuthResponse env x meta) s ?Q (\<lambda>_ _. True)" if "usr_id x = usr_id u" "linked ?p (idn_uid idn) (usr_id u) s" for x s
    by (rule wp_mono [OF wp_conj [OF wp_issue preserves_wp [OF oauth_response]]]) (use that in \<open>auto intro: linked_oauth\<close>)
  have log: "wp (audit a i m nv) s (\<lambda>_. ?Q r) (\<lambda>_ _. True)" if "?Q r s" for a i m nv r s
    by (rule wp_mono [OF wp_conj [OF preserves_wp [OF cred_logs(3)] preserves_wp [OF oauth_services(2)]]]) (use that in \<open>auto intro: linked_oauth has_token_cred\<close>)
  have "wp (loginWithFirebaseInner env tok meta) w ?Q (\<lambda>_ _. True)"
  proof -
    have keep: "wp m s (\<lambda>_. linked ?p (idn_uid idn) (usr_id u)) (\<lambda>_ _. True)" if "preserves aw_oauth m" "linked ?p (idn_uid idn) (usr_id u) s"
      for m :: "'x auth_act" and s
      by (rule preserves_wpI [OF that(1)]) (use that(2) in \<open>auto intro: linked_oauth\<close>)
    have rest: "wp (bindA (upsertOauth env (usr_id x) ?p (idn_uid idn) m) (\<lambda>_.
        bindA (resetFailedLogin env (usr_id x)) (\<lambda>_. bindA (attempt_create a b c d f) (\<lambda>_. bindA (issueAuthResponse env x meta) (\<lambda>response.
        bindA (audit g h k nv) (\<lambda>_. returnA response)))))) s ?Q (\<lambda>_ _. True)" if "usr_id x = usr_id u" for x m a b c d f g h k nv s
      using that by (intro wp_bindI [OF wp_upsertOauth] wp_bindI [OF keep [OF oauth_services(3)]] wp_bindI [OF keep [OF oauth_services(1)]]
          wp_bindI [OF issue] wp_bindI [OF log]) auto
    show ?thesis
      unfolding loginWithFirebaseInner_def Let_def assms(1)
      by (intro wp_bind_InrI wp_bind_throwIfI wp_bind_readI) (simp_all add: assms(2,3) found p del: wp_bindA,
          rule wp_bindI [OF wp_firebase_update], erule rest, simp)
  qed
  then have "wp (loginWithFirebase env tok meta) w ?Q (\<lambda>_ _. True)"
    unfolding loginWithFirebase_def wp_catchA by (rule wp_mono) (simp_all add: auth_log_def split: exn.split)
  from wp_Inr [OF this assms(8)] show ?thesis .
qed

theorem unverified_identity_takes_account_witness:
  "\<exists>r. fst (loginWithFirebase demo_aenv ''fb'' no_meta demo_auth) = Inr r \<and> pu_id (lr_user r) = ''U1''
     \<and> linked ''google'' ''F1'' ''U1'' (snd (loginWithFirebase demo_aenv ''fb'' no_meta demo_auth))"
proof -
  let ?idn = "\<lparr>idn_uid = ''F1'', idn_email = Some ''ann@x.io'', idn_emailVerified = False, idn_phone = None, idn_signInProvider = ''password''\<rparr>"
  have "\<not> isl (fst (loginWithFirebase demo_aenv ''fb'' no_meta demo_auth))" by code_simp
  then obtain r where r: "loginWithFirebase demo_aenv ''fb'' no_meta demo_auth = (Inr r, snd (loginWithFirebase demo_aenv ''fb'' no_meta demo_auth))"
    using not_isl_Inr [of "loginWithFirebase demo_aenv ''fb'' no_meta"] by blast
  have "ae_firebase demo_aenv ''fb'' = Inr ?idn" by code_simp
  moreover have "findByOauth ''google'' ''F1'' demo_auth = None" "findByEmail demo_aenv ''ann@x.io'' demo_auth = Some demo_user" by code_simp+
  moreover have "usr_id demo_user = ''U1''" by code_simp
  ultimately show ?thesis
    using unverified_identity_takes_account [of demo_aenv "''fb''" ?idn "''ann@x.io''" demo_auth demo_user no_meta, OF _ _ _ _ _ _ _ r] r
    by (simp add: mapFirebaseProvider_def) (metis fst_conv)
qed

end
