(* ===== verification/Spec2Isabelle.thy ===== *)
theory Spec2Isabelle
  imports Case_Invariant Warranty_Stores Workflow Rule_Semantics Inventory_Contract Payment_Contract Payment_Effort Checkout_Contract
    Coupon_Verdict Growth_Contract Auth_Otp Auth_Accounts
begin

text \<open>
  Verification of the electronics-cart backend, a NestJS application in TypeScript (src/backend/src) over PostgreSQL
  (src/database), Redis (cache, locks, queues) and a payment gateway.

  \<^bold>\<open>The program and its model.\<close> Services call repositories, which call the database client; they share a lock service,
  a cache, a job queue, an event publisher, a rule engine, a saga coordinator and a lifecycle engine. A method that reads
  and writes state and may throw is an action \<open>'s \<Rightarrow> (exn + 'a) \<times> 's\<close> (theory \<open>Prelude\<close>), composed with \<open>bindA\<close>,
  \<open>catchA\<close>, \<open>finallyA\<close>, \<open>transactionA\<close> as the source composes promises; every throw is a branch. \<open>wp\<close> computes the
  condition under which an action ends well or throws well; \<open>keeps\<close> and \<open>preserves\<close> are its two common cases. Definitions
  have the names of the source, and every one of them is executable.

  \<^item> \<open>Prelude\<close>, \<open>Json\<close>: actions, rows, JavaScript values.
  \<^item> \<open>State_Machine\<close>: shared/state-machine and the lifecycle graphs. \<open>lifecycle\<close> is the locale of a well-formed graph,
    interpreted for all seven and for support cases. Lemmas: phases of a transition, refusals, reachability of an end.
  \<^item> \<open>Case_Types\<close>, \<open>Memory_Case_Store\<close>, \<open>Case_Manager\<close>, \<open>Case_Invariant\<close>: shared/case-management. \<open>case_store\<close> and
    \<open>timeline_store\<close> are what the manager relies on of a store; the manager's lemmas are proved once in
    \<open>managed_store\<close> and \<open>managed_timeline\<close>; the invariant of kept cases is by rule induction over its operations.
  \<^item> \<open>Warranty_Stores\<close>: modules/warranty/stores, the four database stores, each an interpretation of the store locales.
  \<^item> \<open>Workflow\<close>: shared/workflow, the saga coordinator with retries, timers and compensation. Its properties are for
    definitions whose steps have at least one attempt and throw no falsy value (\<open>sound_definition\<close>).
  \<^item> \<open>Rules\<close>, \<open>Rule_Semantics\<close>: shared/rules. The three-valued meaning of a condition tree, and that the evaluator
    computes it whatever its options and path cache, with and without short circuit; what actions write, and what
    they leave alone.
  \<^item> \<open>Inventory\<close>, \<open>Inventory_Safety\<close>, \<open>Inventory_Contract\<close>: modules/inventory. Stock never negative and always enough
    for the active reservations, movements that account for it, and the ways overlapping or failing requests break it.
  \<^item> \<open>Shop\<close>: the world of carts, orders and payments beside the inventory. \<open>Payment_Gateway\<close>, \<open>Payments\<close>: modules/payments
    with the Razorpay provider. \<open>Payment_Ledger\<close> is the abstract machine of the money, \<open>Payment_Refinement\<close> the simulation of
    every operation by it, under \<open>provider_contract\<close>, which the provider's model is shown to satisfy;
    \<open>Payment_Safety\<close> what follows by rule induction; \<open>Payment_Frame\<close>, \<open>Payment_Webhooks\<close>, \<open>Payment_Contract\<close> webhooks,
    cached reads and overlaps; \<open>Payment_Effort\<close> the bound on HTTP requests.
  \<^item> \<open>Orders\<close>, \<open>Checkout\<close>: modules/orders. \<open>Checkout_Saga\<close> carries an invariant over the six steps of order placement
    (locale \<open>saga_invariant\<close>); \<open>Checkout_Contract\<close> says what a checkout, a cancellation and a failed confirmation leave;
    \<open>Checkout_Example\<close> runs one to its end.
  \<^item> \<open>Marketing\<close>, \<open>Loyalty\<close>, \<open>Growth\<close>: modules/marketing but for page content. \<open>Coupon_Contract\<close> the limits of coupons,
    \<open>Coupon_Verdict\<close> that the engine's verdict on a coupon's tree is the coupon's conditions, \<open>Loyalty\<close> also the
    statements of accounts, \<open>Growth_Contract\<close> tests, campaigns, suggestions and recommendations. \<open>table_part\<close> is what
    these share: a part of the tables that clock, ids, events, jobs and audit leave alone.
  \<^item> \<open>Auth\<close>, \<open>Auth_Service\<close>: modules/auth, in a world of its own. \<open>credential_invariant\<close> is what a property of tokens and
    one-time passwords has to show of their repositories to hold after every request; it is interpreted for the history of
    tokens (\<open>Auth_Contract\<close>: a used token, or one out before a change of the password, is never good again) and for the
    use of one-time passwords and for the tries a code has left, a potential that every wrong try pays from (\<open>Auth_Otp\<close>). \<open>Auth_Accounts\<close>: the lock after wrong passwords, and two ways
    into an account that should be closed.

  \<^bold>\<open>Decisions.\<close> Amounts are exact rational numbers and counters integers, where the program has IEEE doubles; columns
  round to their scale and refuse what does not fit (\<open>dec2\<close>, \<open>int4\<close>). Hashes are 32-bit words. Strings are lists of
  characters. A table is a list of rows in insertion order; an insert or update checks primary keys, foreign keys, unique
  indexes, enums and check constraints as the SQL files declare them, and throws the client's error. Columns the services never
  read back (lengths of text columns, most created-by columns with their foreign keys) are left out. A query whose order the source leaves open returns
  its rows through a function of the environment, about which nothing is assumed unless a locale says so. A transaction
  that throws restores the world it started in. The clock, random ids, the answers of locks, queue and gateway and
  \<open>Math.random\<close> are sequences of the world, read one after the other and otherwise arbitrary, so the theorems hold for all
  of them; the queue, the gateway and Redis clients reject with error objects, and acquiring a lock does not reject.
  A cache entry stays until it is dropped, and dropping succeeds. Of the standard library, what values only pass through
  (date parsing, locale comparison, regular expressions, number formatting, case mapping, \<open>toISOString\<close>) is a parameter
  with named hypotheses where a theorem needs one. A step of a saga that outlives its timer runs to its end before the
  saga goes on. SHA-256, Argon2, the signature of access tokens and the check of Firebase tokens are functions of the
  environment or sequences of answers. Concurrency is in the answers of locks and in explicit interleavings: where two requests do not exclude
  each other the overlap is stated as one request run between the two halves of another. The body of a gateway's answer
  can always be read, and is not the JSON value null.

  \<^bold>\<open>Bounds.\<close> No definition needs fuel: loops over lists are structural, and retries recurse on their number of attempts, which the
  source fixes; \<open>Payment_Effort\<close> shows how many requests that allows.

  \<^bold>\<open>Not modelled.\<close> Controllers, validation decorators, guards and interceptors, configuration and start-up: declarations
  of the framework, with no state of their own. Paged and aggregating reads (administration lists, analytics,
  dashboards): queries of the database. Clients of mail, storage and sockets. Settlement files and disputes of payments,
  shipping, the catalog, page content, and the services of the warranty module above its stores: their
  state is apart from what is modelled here; the lifecycle graphs and stores they use are modelled.
\<close>

end
